(* ===== verification/Prelude.thy ===== *)
theory Prelude
  imports Main "HOL-Library.AList" "HOL-Library.Sublist"
begin

text \<open>
  Shared vocabulary of the development: the two ways a request handler of the web application
  can fail, the result type of an operation on the database, the Python string operations the
  sources use, dictionaries with Python's insertion order, JSON values, and a small theory of
  tables (lists of rows with a key), which the persistent model of \<open>Orm\<close> is made of.

  Strings are lists of 8-bit characters. The sources only compare, split and fold the case of
  ASCII text, so the byte view of a string agrees with Python's code-point view there.
\<close>

section \<open>Hint collections\<close>

named_theorems string_simps \<open>unfolding the Python string operations\<close>
named_theorems table_simps \<open>rewriting with the laws of tables\<close>
named_theorems handler_splits \<open>definitions of request handlers, for case analysis\<close>

section \<open>Errors and results\<close>

text \<open>
  \<open>HTTPException status detail\<close> is the exception FastAPI turns into a response;
  \<open>Uncaught kind\<close> is any other Python exception that escapes a handler (the framework answers
  500). A handler takes the database and returns the outcome with the database it leaves
  behind: what it committed before raising stays, what it only staged is rolled back.
\<close>

datatype error =
    HTTPException nat string
  | Uncaught string

type_synonym 'a result = "error + 'a"

definition bind_result :: "'e + 'a \<Rightarrow> ('a \<Rightarrow> 'e + 'b) \<Rightarrow> 'e + 'b" where
  "bind_result r f = (case r of Inl e \<Rightarrow> Inl e | Inr x \<Rightarrow> f x)"

lemma bind_result_simps [simp]:
  "bind_result (Inl e) f = Inl e"
  "bind_result (Inr x) f = f x"
  by (simp_all add: bind_result_def)

lemma bind_result_Inr [simp]:
  "bind_result r f = Inr y \<longleftrightarrow> (\<exists>x. r = Inr x \<and> f x = Inr y)"
  by (cases r) simp_all

lemma bind_result_Inl:
  "bind_result r f = Inl e \<longleftrightarrow> r = Inl e \<or> (\<exists>x. r = Inr x \<and> f x = Inl e)"
  by (cases r) auto

text \<open>SQLAlchemy's \<open>scalar_one_or_none\<close>: more than one row is an exception.\<close>

definition one_or_none :: "'a list \<Rightarrow> 'a option result" where
  "one_or_none xs =
     (case xs of [] \<Rightarrow> Inr None | [x] \<Rightarrow> Inr (Some x) | _ \<Rightarrow> Inl (Uncaught ''MultipleResultsFound''))"

lemma one_or_none_simps [simp]:
  "one_or_none [] = Inr None"
  "one_or_none [x] = Inr (Some x)"
  "one_or_none (x # y # zs) = Inl (Uncaught ''MultipleResultsFound'')"
  by (simp_all add: one_or_none_def)

lemma one_or_none_Some: "one_or_none xs = Inr (Some x) \<longleftrightarrow> xs = [x]"
  by (auto simp: one_or_none_def split: list.splits)

lemma one_or_none_None [simp]: "one_or_none xs = Inr None \<longleftrightarrow> xs = []"
  by (auto simp: one_or_none_def split: list.splits)

section \<open>Python strings\<close>

definition startswith :: "string \<Rightarrow> string \<Rightarrow> bool" where
  "startswith s p = prefix p s"

definition endswith :: "string \<Rightarrow> string \<Rightarrow> bool" where
  "endswith s p = suffix p s"

definition contains :: "string \<Rightarrow> string \<Rightarrow> bool" where
  "contains s p = sublist p s"

definition lower_char :: "char \<Rightarrow> char" where
  "lower_char c = (if 65 \<le> (of_char c :: nat) \<and> (of_char c :: nat) \<le> 90
                   then char_of ((of_char c :: nat) + 32) else c)"

definition upper_char :: "char \<Rightarrow> char" where
  "upper_char c = (if 97 \<le> (of_char c :: nat) \<and> (of_char c :: nat) \<le> 122
                   then char_of ((of_char c :: nat) - 32) else c)"

definition str_lower :: "string \<Rightarrow> string" where
  "str_lower s = map lower_char s"

definition str_upper :: "string \<Rightarrow> string" where
  "str_upper s = map upper_char s"

text \<open>ASCII white space as \<open>str.strip\<close> sees it: tab to carriage return, the four
  information separators, and blank.\<close>

definition is_space :: "char \<Rightarrow> bool" where
  "is_space c = (let n = (of_char c :: nat) in (9 \<le> n \<and> n \<le> 13) \<or> (28 \<le> n \<and> n \<le> 32))"

definition lstrip :: "string \<Rightarrow> string" where
  "lstrip s = dropWhile is_space s"

definition rstrip_by :: "(char \<Rightarrow> bool) \<Rightarrow> string \<Rightarrow> string" where
  "rstrip_by p s = rev (dropWhile p (rev s))"

definition strip :: "string \<Rightarrow> string" where
  "strip s = rstrip_by is_space (lstrip s)"

text \<open>\<open>s.split(c)\<close> for a one-character separator: always at least one piece.\<close>

fun split_on :: "char \<Rightarrow> string \<Rightarrow> string list" where
  "split_on c [] = [[]]"
| "split_on c (x # xs) =
     (if x = c then [] # split_on c xs
      else (case split_on c xs of [] \<Rightarrow> [[x]] | y # ys \<Rightarrow> (x # y) # ys))"

lemma split_on_not_Nil [simp]: "split_on c s \<noteq> []"
  by (induction s) (auto split: list.splits)

text \<open>\<open>str.partition(c)\<close> without the separator itself: the part before the first
  occurrence, whether there was one, the part after.\<close>

fun partition_at :: "char \<Rightarrow> string \<Rightarrow> string \<times> bool \<times> string" where
  "partition_at c [] = ([], False, [])"
| "partition_at c (x # xs) =
     (if x = c then ([], True, xs)
      else (let (a, f, b) = partition_at c xs in (x # a, f, b)))"

lemma partition_at_fst: "c \<notin> set (fst (partition_at c s))"
  by (induction s) (auto split: prod.splits)

lemma partition_at_append:
  "partition_at c s = (a, f, b) \<Longrightarrow> s = a @ (if f then c # b else b)"
  by (induction s arbitrary: a f b) (auto split: prod.splits if_splits)

lemma startswith_append [simp]: "startswith (p @ s) p"
  by (simp add: startswith_def)

lemma startswith_iff: "startswith s p \<longleftrightarrow> (\<exists>t. s = p @ t)"
  by (auto simp: startswith_def prefix_def)

lemma lower_char_idem [simp]: "lower_char (lower_char c) = lower_char c"
  by (simp add: lower_char_def of_char_of)

lemma str_lower_idem [simp]: "str_lower (str_lower s) = str_lower s"
  by (simp add: str_lower_def)

text \<open>Decimal rendering, as in f-strings.\<close>

fun show_nat :: "nat \<Rightarrow> string" where
  "show_nat n = (if n < 10 then [char_of (48 + n)]
                 else show_nat (n div 10) @ [char_of (48 + n mod 10)])"

declare show_nat.simps [simp del]

definition show_int :: "int \<Rightarrow> string" where
  "show_int i = (if i < 0 then ''-'' @ show_nat (nat (- i)) else show_nat (nat i))"

text \<open>\<open>sep.join(parts)\<close>\<close>

fun join_with :: "string \<Rightarrow> string list \<Rightarrow> string" where
  "join_with sep [] = []"
| "join_with sep [s] = s"
| "join_with sep (s # t # ts) = s @ sep @ join_with sep (t # ts)"

text \<open>\<open>repr\<close> of a string: double quotes only where the text has single ones and no double ones;
  backslashes, the quote and control characters escaped.\<close>

definition hex_digit :: "nat \<Rightarrow> char" where
  "hex_digit n = ''0123456789abcdef'' ! n"

definition repr_char :: "char \<Rightarrow> char \<Rightarrow> string" where
  "repr_char q c =
     (let n = (of_char c :: nat)
      in if c = q \<or> n = 92 then [CHR 0x5C, c]
         else if n = 9 then [CHR 0x5C, CHR ''t'']
         else if n = 10 then [CHR 0x5C, CHR ''n'']
         else if n = 13 then [CHR 0x5C, CHR ''r'']
         else if n < 32 \<or> n = 127 then [CHR 0x5C, CHR ''x'', hex_digit (n div 16), hex_digit (n mod 16)]
         else [c])"

definition py_repr :: "string \<Rightarrow> string" where
  "py_repr s =
     (let q = (if CHR 0x27 \<in> set s \<and> CHR 0x22 \<notin> set s then CHR 0x22 else CHR 0x27)
      in [q] @ concat (map (repr_char q) s) @ [q])"

section \<open>Dictionaries\<close>

text \<open>
  A Python dict is an association list in insertion order: \<open>AList.update\<close> overwrites in
  place or appends, as \<open>d[k] = v\<close> does; \<open>AList.delete\<close> is \<open>d.pop(k, None)\<close>.
\<close>

type_synonym ('k, 'v) dict = "('k \<times> 'v) list"

abbreviation dict_get :: "('k, 'v) dict \<Rightarrow> 'k \<Rightarrow> 'v option" where
  "dict_get d k \<equiv> map_of d k"

definition dict_get_or :: "('k, 'v) dict \<Rightarrow> 'k \<Rightarrow> 'v \<Rightarrow> 'v" where
  "dict_get_or d k v = (case map_of d k of None \<Rightarrow> v | Some w \<Rightarrow> w)"

abbreviation dict_set :: "'k \<Rightarrow> 'v \<Rightarrow> ('k, 'v) dict \<Rightarrow> ('k, 'v) dict" where
  "dict_set \<equiv> AList.update"

lemma update_fresh: "k \<notin> fst ` set d \<Longrightarrow> AList.update k v d = d @ [(k, v)]"
  by (induction d) auto

abbreviation dict_pop :: "'k \<Rightarrow> ('k, 'v) dict \<Rightarrow> ('k, 'v) dict" where
  "dict_pop \<equiv> AList.delete"

lemma dict_get_or_simps [simp]:
  "dict_get_or [] k v = v"
  "dict_get_or ((k', w) # d) k v = (if k = k' then w else dict_get_or d k v)"
  by (auto simp: dict_get_or_def)

lemma dict_get_or_update [simp]:
  "dict_get_or (AList.update k w d) k' v = (if k' = k then w else dict_get_or d k' v)"
  by (simp add: dict_get_or_def update_conv')

lemma dict_get_or_delete [simp]:
  "dict_get_or (AList.delete k d) k' v = (if k' = k then v else dict_get_or d k' v)"
  by (simp add: dict_get_or_def delete_conv')

section \<open>Tables\<close>

text \<open>
  A database table is the list of its rows. \<open>get_row\<close> is \<open>session.get\<close> (or a query on a
  unique key), \<open>update_rows\<close> assigns to the columns of the rows that satisfy a predicate,
  \<open>delete_rows\<close> removes them, and inserting appends.
\<close>

definition get_row :: "('r \<Rightarrow> 'k) \<Rightarrow> 'k \<Rightarrow> 'r list \<Rightarrow> 'r option" where
  "get_row key k rows = find (\<lambda>r. key r = k) rows"

definition update_rows :: "('r \<Rightarrow> bool) \<Rightarrow> ('r \<Rightarrow> 'r) \<Rightarrow> 'r list \<Rightarrow> 'r list" where
  "update_rows p f rows = map (\<lambda>r. if p r then f r else r) rows"

definition delete_rows :: "('r \<Rightarrow> bool) \<Rightarrow> 'r list \<Rightarrow> 'r list" where
  "delete_rows p rows = filter (\<lambda>r. \<not> p r) rows"

lemma get_row_Some: "get_row key k rows = Some r \<Longrightarrow> r \<in> set rows \<and> key r = k"
  by (auto simp: get_row_def find_Some_iff)

lemma get_row_None: "get_row key k rows = None \<longleftrightarrow> (\<forall>r\<in>set rows. key r \<noteq> k)"
  by (auto simp: get_row_def find_None_iff)

lemma get_row_simps [table_simps]:
  "get_row key k [] = None"
  "get_row key k (r # rows) = (if key r = k then Some r else get_row key k rows)"
  by (simp_all add: get_row_def)

lemma get_row_append [table_simps]:
  "get_row key k (xs @ ys) =
     (case get_row key k xs of None \<Rightarrow> get_row key k ys | Some r \<Rightarrow> Some r)"
  by (induction xs) (auto simp: table_simps)

lemma get_row_distinct:
  "distinct (map key rows) \<Longrightarrow> r \<in> set rows \<Longrightarrow> get_row key (key r) rows = Some r"
  by (induction rows) (auto simp: table_simps)

lemma get_row_update_rows:
  assumes "\<And>r. p r \<Longrightarrow> key (f r) = key r"
  shows "get_row key k (update_rows p f rows) =
    map_option (\<lambda>r. if p r then f r else r) (get_row key k rows)"
  using assms by (induction rows) (auto simp: table_simps update_rows_def)

lemma set_update_rows [table_simps]:
  "set (update_rows p f rows) = (\<lambda>r. if p r then f r else r) ` set rows"
  by (simp add: update_rows_def)

lemma set_delete_rows [table_simps]:
  "set (delete_rows p rows) = {r \<in> set rows. \<not> p r}"
  by (auto simp: delete_rows_def)

lemma map_key_update_rows:
  assumes "\<And>r. p r \<Longrightarrow> key (f r) = key r"
  shows "map key (update_rows p f rows) = map key rows"
  using assms by (auto simp: update_rows_def)

lemma distinct_delete_rows:
  "distinct (map key rows) \<Longrightarrow> distinct (map key (delete_rows p rows))"
  by (simp add: delete_rows_def distinct_map_filter)

lemma length_update_rows [simp]: "length (update_rows p f rows) = length rows"
  by (simp add: update_rows_def)

text \<open>
  The interface between the request handlers and the storage of one entity: what a lookup
  returns after each kind of write. The handlers rely on these laws only.
\<close>

locale table =
  fixes key :: "'r \<Rightarrow> 'k"
    and get :: "'k \<Rightarrow> 'r list \<Rightarrow> 'r option"
    and insert_row :: "'r \<Rightarrow> 'r list \<Rightarrow> 'r list"
    and modify :: "'k \<Rightarrow> ('r \<Rightarrow> 'r) \<Rightarrow> 'r list \<Rightarrow> 'r list"
    and remove :: "'k \<Rightarrow> 'r list \<Rightarrow> 'r list"
  assumes get_key: "get k rows = Some r \<Longrightarrow> key r = k"
    and get_insert_same: "get (key r) rows = None \<Longrightarrow> get (key r) (insert_row r rows) = Some r"
    and get_insert_other: "k \<noteq> key r \<Longrightarrow> get k (insert_row r rows) = get k rows"
    and get_modify_same:
      "(\<And>r. key (f r) = key r) \<Longrightarrow> get k (modify k f rows) = map_option f (get k rows)"
    and get_modify_other:
      "(\<And>r. key (f r) = key r) \<Longrightarrow> k \<noteq> k' \<Longrightarrow> get k (modify k' f rows) = get k rows"
    and get_remove_same: "get k (remove k rows) = None"
    and get_remove_other: "k \<noteq> k' \<Longrightarrow> get k (remove k' rows) = get k rows"
begin

lemma insert_remove: "get (key r) (insert_row r (remove (key r) rows)) = Some r"
  by (rule get_insert_same) (rule get_remove_same)

lemma modify_twice:
  assumes "\<And>r. key (f r) = key r" and "\<And>r. key (g r) = key r"
  shows "get k (modify k g (modify k f rows)) = map_option (g \<circ> f) (get k rows)"
  using assms by (simp add: get_modify_same option.map_comp)

lemma modify_preserves_dom:
  assumes "\<And>r. key (f r) = key r"
  shows "get k (modify k' f rows) = None \<longleftrightarrow> get k rows = None"
  using assms by (cases "k = k'") (simp_all add: get_modify_same get_modify_other)

lemma get_modify:
  assumes "\<And>r. key (f r) = key r"
  shows "get k (modify k' f rows) = (if k = k' then map_option f (get k rows) else get k rows)"
  using assms by (simp add: get_modify_same get_modify_other)

lemma get_insert:
  assumes "get (key r) rows = None"
  shows "get k (insert_row r rows) = (if k = key r then Some r else get k rows)"
  using assms by (simp add: get_insert_same get_insert_other)

lemma get_remove: "get k (remove k' rows) = (if k = k' then None else get k rows)"
  by (simp add: get_remove_same get_remove_other)

end

definition insert_row :: "'r \<Rightarrow> 'r list \<Rightarrow> 'r list" where
  "insert_row r rows = rows @ [r]"

definition modify_row :: "('r \<Rightarrow> 'k) \<Rightarrow> 'k \<Rightarrow> ('r \<Rightarrow> 'r) \<Rightarrow> 'r list \<Rightarrow> 'r list" where
  "modify_row key k f rows = update_rows (\<lambda>r. key r = k) f rows"

definition remove_row :: "('r \<Rightarrow> 'k) \<Rightarrow> 'k \<Rightarrow> 'r list \<Rightarrow> 'r list" where
  "remove_row key k rows = delete_rows (\<lambda>r. key r = k) rows"

lemma get_row_modify_row:
  assumes "\<And>r. key (f r) = key r"
  shows "get_row key k (modify_row key k' f rows) =
    (if k = k' then map_option f (get_row key k rows) else get_row key k rows)"
  using assms by (induction rows) (auto simp: table_simps modify_row_def update_rows_def)

lemma get_row_remove_row:
  "get_row key k (remove_row key k' rows) = (if k = k' then None else get_row key k rows)"
  by (induction rows) (auto simp: table_simps remove_row_def delete_rows_def)

lemma get_row_insert_row:
  "get_row key k (insert_row r rows) =
    (case get_row key k rows of None \<Rightarrow> if key r = k then Some r else None | Some s \<Rightarrow> Some s)"
  by (auto simp: insert_row_def table_simps split: option.splits)

interpretation rows: table key "get_row key" insert_row "modify_row key" "remove_row key"
proof
  show "get_row key k rows = Some r \<Longrightarrow> key r = k" for k rows r
    by (blast dest: get_row_Some)
qed (auto simp: get_row_insert_row get_row_modify_row get_row_remove_row split: option.splits)

lemma map_key_modify_row:
  assumes "\<And>r. key (f r) = key r"
  shows "map key (modify_row ident k f rows) = map key rows"
  using assms by (simp add: modify_row_def map_key_update_rows)

lemma keys_modify_row:
  assumes "\<And>r. key (f r) = key r"
  shows "key ` set (modify_row ident k f rows) = key ` set rows"
  using map_key_modify_row [of key f ident k rows] assms by (metis list.set_map)

text \<open>Tables with a second unique key: a row found by one key is written through the other.\<close>

lemma distinct_key_eq:
  "distinct (map key rows) \<Longrightarrow> r \<in> set rows \<Longrightarrow> s \<in> set rows \<Longrightarrow> key r = key s \<Longrightarrow> r = s"
  by (auto simp: distinct_map inj_on_def)

lemma get_row_delete_key:
  assumes "distinct (map key rows)" and "\<And>s. s \<in> set rows \<Longrightarrow> p s \<longleftrightarrow> key s = k'"
  shows "get_row key k (delete_rows p rows) = (if k = k' then None else get_row key k rows)"
  using assms by (induction rows) (auto simp: table_simps delete_rows_def)

lemma get_row_remove_other_key:
  assumes "distinct (map ident rows)" and "distinct (map key rows)" and "r \<in> set rows"
  shows "get_row key k (remove_row ident (ident r) rows) = (if k = key r then None else get_row key k rows)"
  unfolding remove_row_def using assms
  by (intro get_row_delete_key) (auto dest: distinct_key_eq)

lemma get_row_modify_other_key:
  assumes "distinct (map ident rows)" and "distinct (map key rows)" and "r \<in> set rows"
    and "\<And>r. key (f r) = key r"
  shows "get_row key k (modify_row ident (ident r) f rows) =
    (if k = key r then map_option f (get_row key k rows) else get_row key k rows)"
proof -
  have "get_row key k (modify_row ident (ident r) f rows) =
      map_option (\<lambda>s. if ident s = ident r then f s else s) (get_row key k rows)"
    unfolding modify_row_def using assms(4) by (intro get_row_update_rows) simp
  also have "\<dots> = (if k = key r then map_option f (get_row key k rows) else get_row key k rows)"
    using assms(1-3) by (cases "get_row key k rows")
      (auto dest: get_row_Some distinct_key_eq)
  finally show ?thesis .
qed

lemma set_insert_row [simp]: "set (insert_row r rows) = insert r (set rows)"
  by (simp add: insert_row_def)

lemma filter_insert_row [simp]:
  "filter p (insert_row r rows) = filter p rows @ (if p r then [r] else [])"
  by (simp add: insert_row_def)

section \<open>Optional values\<close>

text \<open>Truthiness of an optional string: \<open>None\<close> and the empty string are false.\<close>

definition truthy :: "string option \<Rightarrow> bool" where
  "truthy s = (case s of None \<Rightarrow> False | Some t \<Rightarrow> t \<noteq> [])"

lemma truthy_simps [simp]: "\<not> truthy None" "truthy (Some t) \<longleftrightarrow> t \<noteq> []"
  by (simp_all add: truthy_def)

text \<open>Python's \<open>a or b\<close> on optional strings.\<close>

definition str_or :: "string option \<Rightarrow> string option \<Rightarrow> string option" where
  "str_or a b = (if truthy a then a else b)"

end
