(* ===== verification/Json.thy ===== *)
theory Json
  imports Complex_Main Prelude
begin

text \<open>
  JSON values as \<open>json.loads\<close> returns them (an object is an insertion-ordered dict, a float its
  exact rational value). The persistent model keeps JSON columns as values: the sources only
  ever read a column back through \<open>json.loads\<close> of what \<open>json.dumps\<close> wrote. Also the ISO
  timestamp reader both the job manager and the result analysis use.
\<close>

datatype json =
    JNull
  | JBool bool
  | JInt int
  | JFloat rat
  | JStr string
  | JList "json list"
  | JDict "(string \<times> json) list"

text \<open>Python truthiness.\<close>

fun json_true :: "json \<Rightarrow> bool" where
  "json_true JNull = False"
| "json_true (JBool b) = b"
| "json_true (JInt i) = (i \<noteq> 0)"
| "json_true (JFloat q) = (q \<noteq> 0)"
| "json_true (JStr s) = (s \<noteq> [])"
| "json_true (JList xs) = (xs \<noteq> [])"
| "json_true (JDict d) = (d \<noteq> [])"

fun json_dict :: "json \<Rightarrow> (string \<times> json) list option" where
  "json_dict (JDict d) = Some d"
| "json_dict _ = None"

fun json_str :: "json \<Rightarrow> string option" where
  "json_str (JStr s) = Some s"
| "json_str _ = None"

text \<open>\<open>d.get(k, default)\<close>\<close>

definition jget :: "(string \<times> json) list \<Rightarrow> string \<Rightarrow> json \<Rightarrow> json" where
  "jget d k v = (case map_of d k of None \<Rightarrow> v | Some w \<Rightarrow> w)"

lemma jget_update [simp]:
  "jget (AList.update k w d) k' v = (if k' = k then w else jget d k' v)"
  by (simp add: jget_def update_conv')

lemma jget_Nil [simp]: "jget [] k v = v"
  by (simp add: jget_def)

lemma jget_Cons [simp]: "jget ((k', w) # d) k v = (if k = k' then w else jget d k v)"
  by (simp add: jget_def)

section \<open>Decimal numerals\<close>

definition digit_value :: "char \<Rightarrow> nat option" where
  "digit_value c = (let n = (of_char c :: nat) in if 48 \<le> n \<and> n \<le> 57 then Some (n - 48) else None)"

fun parse_digits :: "nat \<Rightarrow> string \<Rightarrow> nat option" where
  "parse_digits acc [] = Some acc"
| "parse_digits acc (c # cs) =
     (case digit_value c of None \<Rightarrow> None | Some d \<Rightarrow> parse_digits (10 * acc + d) cs)"

definition isdigit :: "string \<Rightarrow> bool" where
  "isdigit s \<longleftrightarrow> s \<noteq> [] \<and> list_all (\<lambda>c. digit_value c \<noteq> None) s"

text \<open>\<open>int(s)\<close> on a decimal string: blanks around, one sign, and single underscores between
  digits are accepted; anything else is a ValueError.\<close>

fun drop_underscores :: "bool \<Rightarrow> string \<Rightarrow> string option" where
  "drop_underscores _ [] = Some []"
| "drop_underscores after_digit (c # cs) =
     (if c = CHR ''_''
      then (if after_digit \<and> cs \<noteq> [] \<and> hd cs \<noteq> CHR ''_'' then drop_underscores False cs else None)
      else map_option ((#) c) (drop_underscores True cs))"

definition parse_unsigned :: "string \<Rightarrow> nat option" where
  "parse_unsigned s =
     (case drop_underscores False s of
        None \<Rightarrow> None
      | Some ds \<Rightarrow> if ds = [] then None else parse_digits 0 ds)"

definition py_int :: "string \<Rightarrow> int option" where
  "py_int s =
     (case strip s of
        [] \<Rightarrow> None
      | c # cs \<Rightarrow>
          if c = CHR ''-'' then map_option (\<lambda>n. - int n) (parse_unsigned cs)
          else if c = CHR ''+'' then map_option int (parse_unsigned cs)
          else map_option int (parse_unsigned (c # cs)))"

lemma digit_value_char [simp]: "d < 10 \<Longrightarrow> digit_value (char_of (48 + d)) = Some d"
  by (simp add: digit_value_def of_char_of)

lemma parse_digits_append:
  "parse_digits acc (xs @ ys) =
     (case parse_digits acc xs of None \<Rightarrow> None | Some n \<Rightarrow> parse_digits n ys)"
  by (induction xs arbitrary: acc) (auto split: option.splits)

lemma parse_digits_show_nat: "parse_digits 0 (show_nat n) = Some n"
proof (induction n rule: less_induct)
  case (less n)
  show ?case
  proof (cases "n < 10")
    case True
    then show ?thesis by (simp add: show_nat.simps [of n])
  next
    case False
    then have "parse_digits 0 (show_nat (n div 10)) = Some (n div 10)"
      by (intro less) auto
    with False show ?thesis
      by (simp add: show_nat.simps [of n] parse_digits_append)
  qed
qed

lemma show_nat_digits: "c \<in> set (show_nat n) \<Longrightarrow> \<exists>d<(10::nat). c = char_of (48 + d)"
proof (induction n rule: less_induct)
  case (less n)
  show ?case
  proof (cases "n < 10")
    case True
    with less.prems show ?thesis by (auto simp: show_nat.simps [of n])
  next
    case False
    with less.prems have "c \<in> set (show_nat (n div 10)) \<or> c = char_of (48 + n mod 10)"
      by (auto simp: show_nat.simps [of n])
    then show ?thesis
    proof
      assume "c \<in> set (show_nat (n div 10))"
      with less.IH [of "n div 10"] False show ?thesis by simp
    next
      assume "c = char_of (48 + n mod 10)"
      then show ?thesis by (intro exI [of _ "n mod 10"]) simp
    qed
  qed
qed

lemma show_nat_not_Nil [simp]: "show_nat n \<noteq> []"
  by (simp add: show_nat.simps [of n])

definition plain_digit :: "char \<Rightarrow> bool" where
  "plain_digit c \<longleftrightarrow> digit_value c \<noteq> None"

lemma plain_digit_not_special:
  "plain_digit c \<Longrightarrow> \<not> is_space c \<and> c \<noteq> CHR ''_'' \<and> c \<noteq> CHR ''-'' \<and> c \<noteq> CHR ''+''"
  by (auto simp: plain_digit_def digit_value_def is_space_def Let_def split: if_splits)

lemma show_nat_plain: "list_all plain_digit (show_nat n)"
  using show_nat_digits [of _ n] by (fastforce simp: list_all_iff plain_digit_def)

lemma drop_underscores_plain: "list_all plain_digit s \<Longrightarrow> drop_underscores b s = Some s"
  by (induction s arbitrary: b) (auto dest: plain_digit_not_special)

lemma dropWhile_hd: "s \<noteq> [] \<Longrightarrow> \<not> p (hd s) \<Longrightarrow> dropWhile p s = s"
  by (cases s) auto

lemma strip_unspaced:
  assumes "s \<noteq> []" and "\<not> is_space (hd s)" and "\<not> is_space (last s)"
  shows "strip s = s"
  using assms by (simp add: strip_def lstrip_def rstrip_by_def dropWhile_hd hd_rev)

lemma py_int_show_nat: "py_int (show_nat n) = Some (int n)"
proof -
  have "plain_digit (hd (show_nat n))" "plain_digit (last (show_nat n))"
    using show_nat_plain [of n] by (auto simp: list_all_iff)
  then have "strip (show_nat n) = show_nat n"
    by (intro strip_unspaced) (auto dest: plain_digit_not_special)
  moreover obtain c cs where "show_nat n = c # cs"
    by (cases "show_nat n") auto
  moreover have "parse_unsigned (show_nat n) = Some n"
    using parse_digits_show_nat [of n] drop_underscores_plain [OF show_nat_plain, of False n]
    by (simp add: parse_unsigned_def)
  ultimately show ?thesis
    using show_nat_plain [of n] by (auto simp: py_int_def dest: plain_digit_not_special)
qed

lemma py_int_show_int: "py_int (show_int i) = Some i"
proof (cases "i < 0")
  case True
  let ?n = "nat (- i)"
  have "plain_digit (last (show_nat ?n))"
    using show_nat_plain [of ?n] by (auto simp: list_all_iff)
  then have "strip (CHR ''-'' # show_nat ?n) = CHR ''-'' # show_nat ?n"
    by (intro strip_unspaced) (auto simp: is_space_def dest: plain_digit_not_special)
  moreover have "parse_unsigned (show_nat ?n) = Some ?n"
    using parse_digits_show_nat [of ?n] drop_underscores_plain [OF show_nat_plain, of False ?n]
    by (simp add: parse_unsigned_def)
  ultimately show ?thesis
    using True by (simp add: py_int_def show_int_def)
next
  case False
  then show ?thesis by (simp add: show_int_def py_int_show_nat)
qed

end
