(* ===== verification/Orm.thy ===== *)
theory Orm
  imports Json
begin

text \<open>
  The persistent state (\<open>backend/app/orm.py\<close>): one record per mapped class, with its columns,
  and the database as the record of its tables. Times are microseconds since the epoch (UTC).
  Queries on a column set that carries a uniqueness constraint are \<open>get_row\<close> on that key.
\<close>

record user =
  u_id :: int
  u_provider :: string
  u_subject :: string
  u_email :: "string option"
  u_display_name :: "string option"
  u_password_hash :: "string option"
  u_is_global_admin :: bool
  u_is_active :: bool
  u_created_at :: int
  u_last_login_at :: "int option"

record workspace =
  ws_id :: int
  ws_name :: string
  ws_kind :: string
  ws_owner_user_id :: "int option"
  ws_run_visibility :: string
  ws_allow_private_targets :: bool
  ws_max_concurrent_runs :: int
  ws_oidc_group_admin :: "string option"
  ws_oidc_group :: "string option"
  ws_oidc_group_viewer :: "string option"
  ws_created_at :: int

record workspace_member =
  m_id :: int
  m_workspace_id :: int
  m_user_id :: int
  m_role :: string
  m_source :: "string option"
  m_created_at :: int

record api_token =
  t_id :: int
  t_user_id :: int
  t_workspace_id :: "int option"
  t_name :: string
  t_token_hash :: string
  t_role_ceiling :: string
  t_created_at :: int
  t_last_used_at :: "int option"
  t_revoked_at :: "int option"

record audit_log =
  al_id :: int
  al_ts :: int
  al_user_id :: "int option"
  al_actor :: "string option"
  al_event :: string
  al_workspace_id :: "int option"
  al_target :: "string option"
  al_detail :: "(string \<times> json) list"

record run =
  r_id :: string
  r_workspace_id :: "int option"
  r_created_by_user_id :: "int option"
  r_name :: "string option"
  r_ocsp_url :: string
  r_status :: string
  r_created_at :: int
  r_started_at :: "int option"
  r_finished_at :: "int option"
  r_config :: "(string \<times> json) list"
  r_error :: "string option"
  r_current_activity :: "string option"
  r_totals :: "(string, int) dict"
  r_latency :: "json option"
  r_last_seq :: nat

record run_event =
  e_run_id :: string
  e_seq :: nat
  e_type :: string
  e_ts :: int
  e_payload :: "(string \<times> json) list"

record test_result =
  res_id :: string
  res_run_id :: string
  res_category :: string
  res_name :: string
  res_status :: string
  res_message :: string
  res_details :: json
  res_started_at :: "int option"
  res_ended_at :: "int option"
  res_duration_ms :: "int option"

record app_setting =
  as_key :: string
  as_value :: "(string \<times> json) list"
  as_updated_at :: int

record ca_certificate =
  ca_id :: int
  ca_workspace_id :: "int option"
  ca_created_by_user_id :: "int option"
  ca_name :: string
  ca_pem :: string
  ca_subject :: string
  ca_issuer :: string
  ca_serial_number :: string
  ca_fingerprint_sha256 :: string
  ca_not_before :: int
  ca_not_after :: int
  ca_is_ca :: bool
  ca_source :: string
  ca_source_url :: "string option"
  ca_created_at :: int

record profile =
  pf_id :: int
  pf_workspace_id :: "int option"
  pf_created_by_user_id :: "int option"
  pf_name :: string
  pf_description :: "string option"
  pf_config :: "(string \<times> json) list"
  pf_created_at :: int
  pf_updated_at :: int

record db =
  users :: "user list"
  workspaces :: "workspace list"
  members :: "workspace_member list"
  tokens :: "api_token list"
  audit_rows :: "audit_log list"
  runs :: "run list"
  run_events :: "run_event list"
  test_results :: "test_result list"
  app_settings :: "app_setting list"
  ca_certs :: "ca_certificate list"
  profiles :: "profile list"

definition empty_db :: db where
  "empty_db = \<lparr>users = [], workspaces = [], members = [], tokens = [], audit_rows = [], runs = [],
     run_events = [], test_results = [], app_settings = [], ca_certs = [], profiles = []\<rparr>"

section \<open>What the operations take from outside the sources\<close>

text \<open>
  The clock, the database's choice of a primary key, whether it enforces the declared
  \<open>ON DELETE CASCADE\<close> (PostgreSQL does; SQLite only on connections that issue
  \<open>PRAGMA foreign_keys=ON\<close>, which \<open>db.py\<close> never does), and the functions of passlib,
  hashlib, secrets and itsdangerous. \<open>e_verify_password\<close> is \<open>None\<close> when passlib raises;
  \<open>e_unsign\<close> is \<open>None\<close> for a bad or expired signature.
\<close>

record env =
  e_now :: int
  e_new_id :: "int list \<Rightarrow> int"
  e_fk_cascade :: bool
  e_hash_password :: "string \<Rightarrow> string"
  e_verify_password :: "string \<Rightarrow> string \<Rightarrow> bool option"
  e_hash_token :: "string \<Rightarrow> string"
  e_token_urlsafe :: string
  e_sign :: "string \<Rightarrow> string \<Rightarrow> string"
  e_unsign :: "string \<Rightarrow> string \<Rightarrow> int \<Rightarrow> string option"
  e_ephemeral_key :: string

text \<open>SQLite's rule for an \<open>INTEGER PRIMARY KEY\<close> without \<open>AUTOINCREMENT\<close>: one more than the
  largest key present, starting from 1.\<close>

definition sqlite_rowid :: "int list \<Rightarrow> int" where
  "sqlite_rowid ids = foldr max ids 0 + 1"

text \<open>What every database guarantees of a generated key: it is positive and not in use.\<close>

definition fresh_ids :: "env \<Rightarrow> bool" where
  "fresh_ids env \<longleftrightarrow> (\<forall>ids. e_new_id env ids \<notin> set ids \<and> 0 < e_new_id env ids)"

lemma fresh_idsD: "fresh_ids env \<Longrightarrow> e_new_id env ids \<notin> set ids"
  by (simp add: fresh_ids_def)

lemma fresh_ids_pos: "fresh_ids env \<Longrightarrow> 0 < e_new_id env ids"
  by (simp add: fresh_ids_def)

lemma foldr_max_ge: "x \<in> set ids \<Longrightarrow> x \<le> foldr max ids (0::int)"
  by (induction ids) auto

lemma foldr_max_nonneg: "0 \<le> foldr max ids (0::int)"
  by (induction ids) auto

lemma sqlite_rowid_fresh: "sqlite_rowid ids \<notin> set ids"
  using foldr_max_ge [of "sqlite_rowid ids" ids] by (auto simp: sqlite_rowid_def)

lemma sqlite_rowid_pos: "0 < sqlite_rowid ids"
  using foldr_max_nonneg [of ids] by (simp add: sqlite_rowid_def)

section \<open>Memberships\<close>

definition member_key :: "workspace_member \<Rightarrow> int \<times> int" where
  "member_key m = (m_workspace_id m, m_user_id m)"

definition get_membership :: "db \<Rightarrow> int \<Rightarrow> int \<Rightarrow> workspace_member option" where
  "get_membership db user_id workspace_id = get_row member_key (workspace_id, user_id) (members db)"

text \<open>Composite unique keys with a nullable column: SQL takes two NULLs as different, so only rows
  that belong to a workspace count.\<close>

definition profile_keys :: "profile list \<Rightarrow> (int \<times> string) list" where
  "profile_keys ps = concat
     (map (\<lambda>p. case pf_workspace_id p of None \<Rightarrow> [] | Some w \<Rightarrow> [(w, pf_name p)]) ps)"

definition ca_keys :: "ca_certificate list \<Rightarrow> (int \<times> string) list" where
  "ca_keys cs = concat
     (map (\<lambda>c. case ca_workspace_id c of None \<Rightarrow> [] | Some w \<Rightarrow> [(w, ca_fingerprint_sha256 c)]) cs)"

definition members_wf :: "workspace_member list \<Rightarrow> bool" where
  "members_wf ms \<longleftrightarrow> distinct (map m_id ms) \<and> distinct (map member_key ms)"

text \<open>The uniqueness constraints and primary keys the schema declares.\<close>

definition wf_db :: "db \<Rightarrow> bool" where
  "wf_db db \<longleftrightarrow>
     distinct (map u_id (users db)) \<and>
     distinct (map (\<lambda>u. (u_provider u, u_subject u)) (users db)) \<and>
     distinct (map ws_id (workspaces db)) \<and>
     members_wf (members db) \<and>
     distinct (map t_id (tokens db)) \<and>
     distinct (map t_token_hash (tokens db)) \<and>
     distinct (map r_id (runs db)) \<and>
     distinct (map res_id (test_results db)) \<and>
     distinct (map (\<lambda>e. (e_run_id e, e_seq e)) (run_events db)) \<and>
     distinct (map as_key (app_settings db)) \<and>
     distinct (map ca_id (ca_certs db)) \<and>
     distinct (ca_keys (ca_certs db)) \<and>
     distinct (map pf_id (profiles db)) \<and>
     distinct (profile_keys (profiles db))"

lemma get_membership_Some:
  "get_membership db uid wid = Some m \<Longrightarrow>
     m \<in> set (members db) \<and> m_workspace_id m = wid \<and> m_user_id m = uid"
  by (auto simp: get_membership_def member_key_def dest: get_row_Some)

lemma get_membership_None:
  "get_membership db uid wid = None \<longleftrightarrow>
     (\<forall>m\<in>set (members db). \<not> (m_workspace_id m = wid \<and> m_user_id m = uid))"
  by (auto simp: get_membership_def member_key_def get_row_None)

lemma get_membership_unique:
  assumes "wf_db db" and "m \<in> set (members db)"
  shows "get_membership db (m_user_id m) (m_workspace_id m) = Some m"
proof -
  have "distinct (map member_key (members db))"
    using assms by (simp add: wf_db_def members_wf_def)
  from get_row_distinct [OF this assms(2)] show ?thesis
    by (simp add: get_membership_def member_key_def)
qed

lemma wf_empty_db: "wf_db empty_db"
  by (simp add: wf_db_def empty_db_def members_wf_def ca_keys_def profile_keys_def)

end
