(* ===== verification/Settings.thy ===== *)
theory Settings
  imports Prelude
begin

text \<open>
  The deployment configuration (\<open>backend/app/settings.py\<close>): the environment variables with their
  defaults (directories relative to the repository's root), the validator and the derived properties.
\<close>

record settings =
  st_base_path :: string
  st_public_base_url :: string
  st_data_dir :: string
  st_frontend_dist :: string
  st_database_url :: string
  st_auth_username :: string
  st_auth_password :: string
  st_cors_origins :: string
  st_session_secret :: string
  st_session_ttl_seconds :: int
  st_session_cookie_name :: string
  st_session_cookie_secure :: bool
  st_bootstrap_admin_username :: string
  st_bootstrap_admin_password :: string
  st_local_login_enabled :: bool
  st_allow_open_mode :: bool
  st_oidc_issuer :: string
  st_oidc_client_id :: string
  st_oidc_client_secret :: string
  st_oidc_scopes :: string
  st_oidc_group_claim :: string
  st_max_upload_bytes :: int
  st_retention_days :: int
  st_retention_sweep_minutes :: int
  st_max_concurrent_runs :: int
  st_default_run_timeout_seconds :: int
  st_max_run_timeout_seconds :: int
  st_worker_python :: string
  st_allow_private_targets :: bool
  st_allow_redirects :: bool
  st_max_response_bytes :: int
  st_max_request_timeout_seconds :: int
  st_extra_blocked_hosts :: string
  st_log_level :: string
  st_log_json :: bool

definition default_settings :: settings where
  "default_settings = \<lparr>
     st_base_path = [],
     st_public_base_url = [],
     st_data_dir = ''data'',
     st_frontend_dist = ''frontend/dist'',
     st_database_url = [],
     st_auth_username = ''admin'',
     st_auth_password = [],
     st_cors_origins = [],
     st_session_secret = [],
     st_session_ttl_seconds = 8 * 3600,
     st_session_cookie_name = ''ocspweb_session'',
     st_session_cookie_secure = True,
     st_bootstrap_admin_username = ''admin'',
     st_bootstrap_admin_password = [],
     st_local_login_enabled = True,
     st_allow_open_mode = False,
     st_oidc_issuer = [],
     st_oidc_client_id = [],
     st_oidc_client_secret = [],
     st_oidc_scopes = ''openid email profile'',
     st_oidc_group_claim = ''groups'',
     st_max_upload_bytes = 5 * 1024 * 1024,
     st_retention_days = 30,
     st_retention_sweep_minutes = 60,
     st_max_concurrent_runs = 2,
     st_default_run_timeout_seconds = 900,
     st_max_run_timeout_seconds = 7200,
     st_worker_python = [],
     st_allow_private_targets = False,
     st_allow_redirects = False,
     st_max_response_bytes = 10 * 1024 * 1024,
     st_max_request_timeout_seconds = 60,
     st_extra_blocked_hosts = [],
     st_log_level = ''INFO'',
     st_log_json = False\<rparr>"

text \<open>\<open>directory / name\<close>, for a relative name.\<close>

definition path_child :: "string \<Rightarrow> string \<Rightarrow> string" where
  "path_child d n = (if d = [] \<or> d = ''.'' then n else if endswith d ''/'' then d @ n else d @ ''/'' @ n)"

definition resolved_database_url :: "settings \<Rightarrow> string" where
  "resolved_database_url s =
     (if st_database_url s \<noteq> [] then st_database_url s
      else ''sqlite+aiosqlite:///'' @ path_child (st_data_dir s) ''ocspweb.sqlite3'')"

definition runs_path :: "settings \<Rightarrow> string" where
  "runs_path s = path_child (st_data_dir s) ''runs''"

text \<open>\<open>str.split()\<close>: the pieces between runs of white space.\<close>

fun split_words :: "string \<Rightarrow> string \<Rightarrow> string list" where
  "split_words word [] = (if word = [] then [] else [word])"
| "split_words word (c # cs) =
     (if is_space c then (if word = [] then split_words [] cs else word # split_words [] cs)
      else split_words (word @ [c]) cs)"

definition oidc_scope_list :: "settings \<Rightarrow> string list" where
  "oidc_scope_list s = split_words [] (st_oidc_scopes s)"

definition is_slash :: "char \<Rightarrow> bool" where
  "is_slash c \<longleftrightarrow> c = CHR ''/''"

definition normalize_base_path :: "string \<Rightarrow> string" where
  "normalize_base_path v =
     (let v = strip v
      in if v = [] \<or> v = ''/'' then []
         else rstrip_by is_slash (if startswith v ''/'' then v else CHR ''/'' # v))"

definition cors_origin_list :: "settings \<Rightarrow> string list" where
  "cors_origin_list s =
     map strip (filter (\<lambda>x. strip x \<noteq> []) (split_on (CHR '','') (st_cors_origins s)))"

definition extra_blocked_host_list :: "settings \<Rightarrow> string list" where
  "extra_blocked_host_list s =
     map (\<lambda>h. str_lower (strip h))
       (filter (\<lambda>h. strip h \<noteq> []) (split_on (CHR '','') (st_extra_blocked_hosts s)))"

definition auth_enabled :: "settings \<Rightarrow> bool" where
  "auth_enabled s \<longleftrightarrow> st_auth_password s \<noteq> []"

definition oidc_enabled :: "settings \<Rightarrow> bool" where
  "oidc_enabled s \<longleftrightarrow>
     st_oidc_issuer s \<noteq> [] \<and> st_oidc_client_id s \<noteq> [] \<and> st_oidc_client_secret s \<noteq> []"

text \<open>\<open>session_signing_key\<close>: the configured secret, else the ephemeral key the process drew
  once (\<open>secrets.token_urlsafe\<close>, an argument here).\<close>

definition session_signing_key :: "string \<Rightarrow> settings \<Rightarrow> string" where
  "session_signing_key ephemeral s =
     (if st_session_secret s \<noteq> [] then st_session_secret s else ephemeral)"

text \<open>\<open>auth_active\<close> of \<open>authz.py\<close>.\<close>

definition auth_active :: "settings \<Rightarrow> bool" where
  "auth_active s \<longleftrightarrow>
     st_session_secret s \<noteq> [] \<or> st_bootstrap_admin_password s \<noteq> [] \<or> oidc_enabled s
     \<or> st_auth_password s \<noteq> []"

text \<open>The normal form of a base path: empty, or a leading slash and no trailing one.\<close>

definition base_path_normal :: "string \<Rightarrow> bool" where
  "base_path_normal p \<longleftrightarrow> p = [] \<or> (hd p = CHR ''/'' \<and> last p \<noteq> CHR ''/'')"

lemma rstrip_by_Nil [simp]: "rstrip_by p [] = []"
  by (simp add: rstrip_by_def)

lemma rstrip_by_prefix: "prefix (rstrip_by p s) s"
  by (metis rstrip_by_def rev_rev_ident suffix_dropWhile suffix_to_prefix)

lemma last_rstrip_by: "rstrip_by p s \<noteq> [] \<Longrightarrow> \<not> p (last (rstrip_by p s))"
  by (simp add: rstrip_by_def last_rev hd_dropWhile)

lemma hd_rstrip_by: "rstrip_by p s \<noteq> [] \<Longrightarrow> hd (rstrip_by p s) = hd s"
  by (metis hd_append2 prefixE rstrip_by_prefix)

lemma base_path_normal_normalize: "base_path_normal (normalize_base_path v)"
proof -
  let ?w = "if startswith (strip v) ''/'' then strip v else CHR ''/'' # strip v"
  have hd: "?w \<noteq> [] \<and> hd ?w = CHR ''/''"
    by (auto simp: startswith_iff)
  have "base_path_normal (rstrip_by is_slash ?w)"
  proof (cases "rstrip_by is_slash ?w = []")
    case False
    then have "hd (rstrip_by is_slash ?w) = hd ?w"
      by (rule hd_rstrip_by)
    with hd False last_rstrip_by [OF False] show ?thesis
      by (simp add: base_path_normal_def is_slash_def)
  qed (simp add: base_path_normal_def)
  then show ?thesis
    by (simp add: normalize_base_path_def base_path_normal_def Let_def)
qed

lemma extra_blocked_host_list_lower:
  "h \<in> set (extra_blocked_host_list s) \<Longrightarrow> str_lower h = h"
  by (auto simp: extra_blocked_host_list_def)

end
