(* ===== verification/Security.thy ===== *)
theory Security
  imports Orm Settings
begin

text \<open>
  Credentials (\<open>backend/app/security.py\<close>) and the audit log (\<open>backend/app/audit.py\<close>).
\<close>

definition TOKEN_PREFIX :: string where
  "TOKEN_PREFIX = ''ocspt_''"

definition hash_password :: "env \<Rightarrow> string \<Rightarrow> string" where
  "hash_password env password = e_hash_password env password"

definition verify_password :: "env \<Rightarrow> string \<Rightarrow> string option \<Rightarrow> bool" where
  "verify_password env password password_hash =
     (case password_hash of
        None \<Rightarrow> False
      | Some h \<Rightarrow>
          if h = [] then False
          else (case e_verify_password env password h of None \<Rightarrow> False | Some b \<Rightarrow> b))"

definition generate_api_token :: "env \<Rightarrow> string" where
  "generate_api_token env = TOKEN_PREFIX @ e_token_urlsafe env"

definition hash_token :: "env \<Rightarrow> string \<Rightarrow> string" where
  "hash_token env token = e_hash_token env token"

definition looks_like_api_token :: "string \<Rightarrow> bool" where
  "looks_like_api_token v = startswith v TOKEN_PREFIX"

definition sign_session :: "env \<Rightarrow> string \<Rightarrow> int \<Rightarrow> string" where
  "sign_session env secret user_id = e_sign env secret (show_int user_id)"

definition verify_session :: "env \<Rightarrow> string \<Rightarrow> string \<Rightarrow> int \<Rightarrow> int option" where
  "verify_session env secret v max_age_seconds =
     (case e_unsign env secret v max_age_seconds of
        None \<Rightarrow> None
      | Some raw \<Rightarrow> py_int raw)"

text \<open>What itsdangerous documents of a signer: an unexpired value it signed is accepted under
  the same key and yields the signed text.\<close>

definition signer_ok :: "env \<Rightarrow> string \<Rightarrow> int \<Rightarrow> bool" where
  "signer_ok env secret max_age \<longleftrightarrow>
     (\<forall>s. e_unsign env secret (e_sign env secret s) max_age = Some s)"

lemma verify_sign_session:
  assumes "signer_ok env secret max_age"
  shows "verify_session env secret (sign_session env secret user_id) max_age = Some user_id"
  using assms by (simp add: signer_ok_def verify_session_def sign_session_def py_int_show_int)

lemma generated_token_recognised [simp]: "looks_like_api_token (generate_api_token env)"
  by (simp add: looks_like_api_token_def generate_api_token_def)

section \<open>Audit\<close>

text \<open>\<open>audit.record\<close>: never raises; the row names the acting user unless it is the anonymous
  principal (whose id is 0).\<close>

definition audit_actor :: "user option \<Rightarrow> string option \<Rightarrow> string option" where
  "audit_actor u actor =
     (if truthy actor then actor
      else (case u of
          None \<Rightarrow> None
        | Some u \<Rightarrow> str_or (u_email u) (str_or (u_display_name u) (Some (u_subject u)))))"

definition record_audit ::
  "env \<Rightarrow> string \<Rightarrow> user option \<Rightarrow> string option \<Rightarrow> int option \<Rightarrow> string option \<Rightarrow>
   (string \<times> json) list \<Rightarrow> db \<Rightarrow> db" where
  "record_audit env event u actor workspace_id target detail db =
     db\<lparr>audit_rows := insert_row
        \<lparr>al_id = e_new_id env (map al_id (audit_rows db)),
         al_ts = e_now env,
         al_user_id = (case u of None \<Rightarrow> None | Some u \<Rightarrow> if u_id u \<noteq> 0 then Some (u_id u) else None),
         al_actor = audit_actor u actor,
         al_event = event,
         al_workspace_id = workspace_id,
         al_target = target,
         al_detail = detail\<rparr> (audit_rows db)\<rparr>"

lemma record_audit_frame [simp]:
  "users (record_audit env ev u a w t d db) = users db"
  "workspaces (record_audit env ev u a w t d db) = workspaces db"
  "members (record_audit env ev u a w t d db) = members db"
  "tokens (record_audit env ev u a w t d db) = tokens db"
  "runs (record_audit env ev u a w t d db) = runs db"
  "run_events (record_audit env ev u a w t d db) = run_events db"
  "test_results (record_audit env ev u a w t d db) = test_results db"
  "app_settings (record_audit env ev u a w t d db) = app_settings db"
  "ca_certs (record_audit env ev u a w t d db) = ca_certs db"
  "profiles (record_audit env ev u a w t d db) = profiles db"
  by (simp_all add: record_audit_def)

lemma record_audit_wf [simp]: "wf_db (record_audit env ev u a w t d db) = wf_db db"
  by (simp add: wf_db_def)

lemma get_membership_audit [simp]:
  "get_membership (record_audit env ev u a w t d db) uid wid = get_membership db uid wid"
  by (simp add: get_membership_def)

text \<open>The log is append-only: recording keeps every earlier row in place.\<close>

lemma record_audit_append: "\<exists>r. audit_rows (record_audit env ev u a w t d db) = audit_rows db @ [r]"
  by (simp add: record_audit_def insert_row_def)

end
