(* ===== verification/Provisioning.thy ===== *)
theory Provisioning
  imports Security
begin

text \<open>
  Users, workspaces and memberships as the login flows and the startup create them
  (\<open>backend/app/provisioning.py\<close>), among them the reconciliation of group-driven memberships
  with the identity provider. An operation returns the outcome and the database it leaves.
\<close>

section \<open>Workspaces\<close>

definition new_workspace :: "env \<Rightarrow> string \<Rightarrow> string \<Rightarrow> int option \<Rightarrow> db \<Rightarrow> workspace" where
  "new_workspace env name kind owner db =
     \<lparr>ws_id = e_new_id env (map ws_id (workspaces db)),
      ws_name = name, ws_kind = kind, ws_owner_user_id = owner,
      ws_run_visibility = ''all'', ws_allow_private_targets = False, ws_max_concurrent_runs = 2,
      ws_oidc_group_admin = None, ws_oidc_group = None, ws_oidc_group_viewer = None,
      ws_created_at = e_now env\<rparr>"

definition add_workspace :: "workspace \<Rightarrow> db \<Rightarrow> db" where
  "add_workspace ws db = db\<lparr>workspaces := insert_row ws (workspaces db)\<rparr>"

definition add_membership :: "env \<Rightarrow> int \<Rightarrow> int \<Rightarrow> string \<Rightarrow> string \<Rightarrow> db \<Rightarrow> db" where
  "add_membership env workspace_id user_id role source db =
     db\<lparr>members := insert_row
        \<lparr>m_id = e_new_id env (map m_id (members db)),
         m_workspace_id = workspace_id, m_user_id = user_id, m_role = role,
         m_source = Some source, m_created_at = e_now env\<rparr> (members db)\<rparr>"

definition personal_name :: "user \<Rightarrow> string" where
  "personal_name u =
     (let name = strip (if truthy (u_display_name u) then the (u_display_name u)
                        else if truthy (u_email u) then the (u_email u)
                        else if u_subject u \<noteq> [] then u_subject u else ''Personal'')
      in if endswith name ''workspace'' then name else name @ [CHR 0x27] @ ''s workspace'')"

definition personal_workspaces :: "int \<Rightarrow> db \<Rightarrow> workspace list" where
  "personal_workspaces user_id db =
     filter (\<lambda>w. ws_owner_user_id w = Some user_id \<and> ws_kind w = ''personal'') (workspaces db)"

definition ensure_personal_workspace :: "env \<Rightarrow> user \<Rightarrow> db \<Rightarrow> workspace result \<times> db" where
  "ensure_personal_workspace env u db =
     (case one_or_none (personal_workspaces (u_id u) db) of
        Inl e \<Rightarrow> (Inl e, db)
      | Inr (Some ws) \<Rightarrow> (Inr ws, db)
      | Inr None \<Rightarrow>
          (let ws = new_workspace env (personal_name u) ''personal'' (Some (u_id u)) db
           in (Inr ws,
               add_membership env (ws_id ws) (u_id u) ''admin'' ''manual'' (add_workspace ws db))))"

definition DEFAULT_WORKSPACE_NAME :: string where
  "DEFAULT_WORKSPACE_NAME = ''Default''"

definition ensure_default_workspace :: "env \<Rightarrow> db \<Rightarrow> workspace \<times> db" where
  "ensure_default_workspace env db =
     (case find (\<lambda>w. ws_kind w = ''shared'' \<and> ws_name w = DEFAULT_WORKSPACE_NAME) (workspaces db) of
        Some ws \<Rightarrow> (ws, db)
      | None \<Rightarrow>
          (let ws = new_workspace env DEFAULT_WORKSPACE_NAME ''shared'' None db
           in (ws, add_workspace ws db)))"

section \<open>Users\<close>

definition get_user_by_subject :: "db \<Rightarrow> string \<Rightarrow> string \<Rightarrow> user option" where
  "get_user_by_subject db provider subject =
     get_row (\<lambda>u. (u_provider u, u_subject u)) (provider, subject) (users db)"

definition add_user :: "user \<Rightarrow> db \<Rightarrow> db" where
  "add_user u db = db\<lparr>users := insert_row u (users db)\<rparr>"

definition update_user :: "int \<Rightarrow> (user \<Rightarrow> user) \<Rightarrow> db \<Rightarrow> db" where
  "update_user uid f db = db\<lparr>users := modify_row u_id uid f (users db)\<rparr>"

definition refresh_oidc_user :: "env \<Rightarrow> string option \<Rightarrow> string option \<Rightarrow> user \<Rightarrow> user" where
  "refresh_oidc_user env email display_name u =
     u\<lparr>u_email := (if truthy email then email else u_email u),
       u_display_name := (if truthy display_name then display_name else u_display_name u),
       u_last_login_at := Some (e_now env)\<rparr>"

definition get_or_create_oidc_user ::
  "env \<Rightarrow> string \<Rightarrow> string option \<Rightarrow> string option \<Rightarrow> db \<Rightarrow> user result \<times> db" where
  "get_or_create_oidc_user env subject email display_name db =
     (case get_user_by_subject db ''oidc'' subject of
        None \<Rightarrow>
          (let u = \<lparr>u_id = e_new_id env (map u_id (users db)), u_provider = ''oidc'',
                    u_subject = subject, u_email = email,
                    u_display_name = str_or display_name (str_or email (Some subject)),
                    u_password_hash = None, u_is_global_admin = False, u_is_active = True,
                    u_created_at = e_now env, u_last_login_at = None\<rparr>
           in case ensure_personal_workspace env u (add_user u db) of
                (Inl e, _) \<Rightarrow> (Inl e, db)
              | (Inr _, db') \<Rightarrow>
                  (Inr (u\<lparr>u_last_login_at := Some (e_now env)\<rparr>),
                   update_user (u_id u) (u_last_login_at_update (\<lambda>_. Some (e_now env))) db'))
      | Some u \<Rightarrow>
          (Inr (refresh_oidc_user env email display_name u),
           update_user (u_id u) (refresh_oidc_user env email display_name) db))"

section \<open>Group synchronisation\<close>

definition in_groups :: "string option \<Rightarrow> string list \<Rightarrow> bool" where
  "in_groups g groups \<longleftrightarrow> truthy g \<and> the g \<in> set groups"

definition entitled_role :: "workspace \<Rightarrow> string list \<Rightarrow> string option" where
  "entitled_role ws groups =
     (if in_groups (ws_oidc_group_admin ws) groups then Some ''admin''
      else if in_groups (ws_oidc_group ws) groups then Some ''member''
      else if in_groups (ws_oidc_group_viewer ws) groups then Some ''viewer''
      else None)"

definition maps_a_group :: "workspace \<Rightarrow> bool" where
  "maps_a_group w \<longleftrightarrow>
     ws_oidc_group_admin w \<noteq> None \<or> ws_oidc_group w \<noteq> None \<or> ws_oidc_group_viewer w \<noteq> None"

text \<open>\<open>(member.source or "manual") != "oidc"\<close>\<close>

definition manual_membership :: "workspace_member \<Rightarrow> bool" where
  "manual_membership m \<longleftrightarrow> m_source m \<noteq> Some ''oidc''"

text \<open>The body of the loop, for one workspace.\<close>

definition sync_workspace :: "env \<Rightarrow> user \<Rightarrow> string list \<Rightarrow> workspace \<Rightarrow> db \<Rightarrow> db" where
  "sync_workspace env u groups ws db =
     (let member = get_membership db (u_id u) (ws_id ws)
      in case member of
           None \<Rightarrow>
             (case entitled_role ws groups of
                None \<Rightarrow> db
              | Some role \<Rightarrow> add_membership env (ws_id ws) (u_id u) role ''oidc'' db)
         | Some m \<Rightarrow>
             if manual_membership m then db
             else (case entitled_role ws groups of
                None \<Rightarrow> db\<lparr>members := remove_row m_id (m_id m) (members db)\<rparr>
              | Some role \<Rightarrow>
                  db\<lparr>members := modify_row m_id (m_id m) (m_role_update (\<lambda>_. role)) (members db)\<rparr>))"

definition sync_oidc_group_memberships :: "env \<Rightarrow> user \<Rightarrow> string list \<Rightarrow> db \<Rightarrow> db" where
  "sync_oidc_group_memberships env u groups db =
     (let group_set = filter (\<lambda>g. g \<noteq> []) groups
      in fold (sync_workspace env u group_set) (filter maps_a_group (workspaces db)) db)"

section \<open>Startup\<close>

definition ensure_bootstrap_admin :: "env \<Rightarrow> settings \<Rightarrow> db \<Rightarrow> unit result \<times> db" where
  "ensure_bootstrap_admin env s db =
     (if st_bootstrap_admin_password s = [] then (Inr (), db)
      else (case get_user_by_subject db ''local'' (st_bootstrap_admin_username s) of
        None \<Rightarrow>
          (let u = \<lparr>u_id = e_new_id env (map u_id (users db)), u_provider = ''local'',
                    u_subject = st_bootstrap_admin_username s, u_email = None,
                    u_display_name = Some (st_bootstrap_admin_username s),
                    u_password_hash = Some (hash_password env (st_bootstrap_admin_password s)),
                    u_is_global_admin = True, u_is_active = True,
                    u_created_at = e_now env, u_last_login_at = None\<rparr>
           in case ensure_personal_workspace env u (add_user u db) of
                (Inl e, _) \<Rightarrow> (Inl e, db)
              | (Inr _, db') \<Rightarrow> (Inr (), db'))
      | Some u \<Rightarrow>
          (Inr (),
           update_user (u_id u)
             (\<lambda>u. u\<lparr>u_password_hash := Some (hash_password env (st_bootstrap_admin_password s)),
                    u_is_global_admin := True, u_is_active := True\<rparr>) db)))"

definition user_count :: "db \<Rightarrow> nat" where
  "user_count db = length (users db)"

text \<open>The three UPDATE statements run in one transaction: when a legacy row would collide with a
  row already in the default workspace, the unique constraint aborts it.\<close>

definition backfilled :: "int \<Rightarrow> db \<Rightarrow> db" where
  "backfilled wid db =
     db\<lparr>runs := update_rows (\<lambda>r. r_workspace_id r = None)
                  (r_workspace_id_update (\<lambda>_. Some wid)) (runs db),
        profiles := update_rows (\<lambda>p. pf_workspace_id p = None)
                  (pf_workspace_id_update (\<lambda>_. Some wid)) (profiles db),
        ca_certs := update_rows (\<lambda>c. ca_workspace_id c = None)
                  (ca_workspace_id_update (\<lambda>_. Some wid)) (ca_certs db)\<rparr>"

definition backfill_default_workspace :: "int \<Rightarrow> db \<Rightarrow> nat result \<times> db" where
  "backfill_default_workspace wid db =
     (let db' = backfilled wid db
      in if distinct (profile_keys (profiles db')) \<and> distinct (ca_keys (ca_certs db'))
         then (Inr (length (filter (\<lambda>r. r_workspace_id r = None) (runs db)) +
                    length (filter (\<lambda>p. pf_workspace_id p = None) (profiles db)) +
                    length (filter (\<lambda>c. ca_workspace_id c = None) (ca_certs db))), db')
         else (Inl (Uncaught ''IntegrityError''), db))"

definition backfill_member_source :: "db \<Rightarrow> db" where
  "backfill_member_source db =
     db\<lparr>members := update_rows (\<lambda>m. m_source m = None)
                     (m_source_update (\<lambda>_. Some ''manual'')) (members db)\<rparr>"

definition run_startup_provisioning :: "env \<Rightarrow> settings \<Rightarrow> db \<Rightarrow> unit result \<times> db" where
  "run_startup_provisioning env s db =
     (case ensure_bootstrap_admin env s db of
        (Inl e, db1) \<Rightarrow> (Inl e, db1)
      | (Inr _, db1) \<Rightarrow>
          (let (ws, db2) = ensure_default_workspace env db1
           in case backfill_default_workspace (ws_id ws) db2 of
                (Inl e, db3) \<Rightarrow> (Inl e, db3)
              | (Inr _, db3) \<Rightarrow> (Inr (), backfill_member_source db3)))"

section \<open>Group synchronisation reconciles one row per workspace\<close>

text \<open>What a membership says, apart from its row number and age.\<close>

definition membership_view :: "db \<Rightarrow> int \<Rightarrow> int \<Rightarrow> (string \<times> string option) option" where
  "membership_view db uid wid = map_option (\<lambda>m. (m_role m, m_source m)) (get_membership db uid wid)"

text \<open>The specification of the synchronisation for one workspace.\<close>

fun reconcile ::
  "workspace \<Rightarrow> string list \<Rightarrow> (string \<times> string option) option \<Rightarrow> (string \<times> string option) option" where
  "reconcile ws groups None = map_option (\<lambda>r. (r, Some ''oidc'')) (entitled_role ws groups)"
| "reconcile ws groups (Some (role, source)) =
     (if source = Some ''oidc''
      then map_option (\<lambda>r. (r, source)) (entitled_role ws groups)
      else Some (role, source))"

lemma members_wf_insert:
  assumes "members_wf ms" and "m_id m \<notin> set (map m_id ms)" and "get_row member_key (member_key m) ms = None"
  shows "members_wf (insert_row m ms)"
  using assms by (auto simp: members_wf_def insert_row_def get_row_None)

lemma members_wf_remove: "members_wf ms \<Longrightarrow> members_wf (remove_row m_id i ms)"
  by (simp add: members_wf_def remove_row_def distinct_delete_rows)

lemma members_wf_set_role:
  "members_wf ms \<Longrightarrow> members_wf (modify_row m_id i (m_role_update f) ms)"
  by (simp add: members_wf_def modify_row_def member_key_def map_key_update_rows)

lemma membership_view_add:
  assumes "get_membership db uid wid = None"
  shows "membership_view (add_membership env wid uid role source db) uid' wid' =
    (if uid' = uid \<and> wid' = wid then Some (role, Some source) else membership_view db uid' wid')"
  using assms
  by (auto simp: membership_view_def get_membership_def add_membership_def get_row_insert_row
      member_key_def split: option.splits)

lemma membership_view_remove:
  assumes "members_wf (members db)" and "get_membership db uid wid = Some m"
  shows "membership_view (db\<lparr>members := remove_row m_id (m_id m) (members db)\<rparr>) uid' wid' =
    (if uid' = uid \<and> wid' = wid then None else membership_view db uid' wid')"
  using assms get_membership_Some [OF assms(2)]
    get_row_remove_other_key [of m_id "members db" member_key m "(wid', uid')"]
  by (auto simp: membership_view_def get_membership_def members_wf_def member_key_def)

lemma membership_view_set_role:
  assumes "members_wf (members db)" and "get_membership db uid wid = Some m"
  shows "membership_view
      (db\<lparr>members := modify_row m_id (m_id m) (m_role_update (\<lambda>_. role)) (members db)\<rparr>) uid' wid' =
    (if uid' = uid \<and> wid' = wid then Some (role, m_source m) else membership_view db uid' wid')"
  using assms get_membership_Some [OF assms(2)]
    get_row_modify_other_key [of m_id "members db" member_key m "m_role_update (\<lambda>_. role)" "(wid', uid')"]
  by (auto simp: membership_view_def get_membership_def members_wf_def member_key_def)

lemma sync_workspace_members_wf:
  assumes "fresh_ids env" and "members_wf (members db)"
  shows "members_wf (members (sync_workspace env u groups ws db))"
  using assms
  by (auto simp: sync_workspace_def Let_def add_membership_def get_membership_def member_key_def
      intro!: members_wf_insert members_wf_remove members_wf_set_role
      dest: fresh_idsD [of env "map m_id (members db)"] split: option.splits)

lemma sync_workspace_view:
  assumes "members_wf (members db)"
  shows "membership_view (sync_workspace env u groups ws db) uid wid =
    (if uid = u_id u \<and> wid = ws_id ws then reconcile ws groups (membership_view db uid wid)
     else membership_view db uid wid)"
proof (cases "get_membership db (u_id u) (ws_id ws)")
  case None
  then show ?thesis
    by (auto simp: sync_workspace_def membership_view_add split: option.splits)
      (simp add: membership_view_def)+
next
  case (Some m)
  then have view: "membership_view db (u_id u) (ws_id ws) = Some (m_role m, m_source m)"
    by (simp add: membership_view_def)
  with Some assms show ?thesis
    by (auto simp: sync_workspace_def manual_membership_def membership_view_remove
        membership_view_set_role split: option.splits)
qed

lemma sync_workspace_frame [simp]:
  "workspaces (sync_workspace env u groups ws db) = workspaces db"
  "users (sync_workspace env u groups ws db) = users db"
  "tokens (sync_workspace env u groups ws db) = tokens db"
  "runs (sync_workspace env u groups ws db) = runs db"
  by (auto simp: sync_workspace_def Let_def add_membership_def split: option.splits)

lemma sync_fold_wf:
  assumes "fresh_ids env" and "members_wf (members db)"
  shows "members_wf (members (fold (sync_workspace env u groups) wss db))"
  using assms by (induction wss arbitrary: db) (simp_all add: sync_workspace_members_wf)

lemma sync_fold_frame [simp]:
  "workspaces (fold (sync_workspace env u groups) wss db) = workspaces db"
  "users (fold (sync_workspace env u groups) wss db) = users db"
  by (induction wss arbitrary: db) simp_all

lemma sync_fold_view:
  assumes "fresh_ids env" and "members_wf (members db)" and "distinct (map ws_id wss)"
  shows "membership_view (fold (sync_workspace env u groups) wss db) uid wid =
    (case get_row ws_id wid wss of
       None \<Rightarrow> membership_view db uid wid
     | Some ws \<Rightarrow> if uid = u_id u then reconcile ws groups (membership_view db uid wid)
                   else membership_view db uid wid)"
  using assms
proof (induction wss arbitrary: db)
  case (Cons ws wss)
  have other: "get_row ws_id (ws_id ws) wss = None"
    using Cons.prems(3) by (simp add: get_row_None) (metis image_eqI)
  have keys: "get_row ws_id wid wss = Some ws' \<Longrightarrow> ws_id ws' = wid" for ws'
    by (blast dest: get_row_Some)
  from Cons keys show ?case
    by (auto simp: sync_workspace_members_wf sync_workspace_view table_simps other
        split: option.splits)
qed (simp add: table_simps)

end
