(* ===== verification/Authz.thy ===== *)
theory Authz
  imports Provisioning
begin

text \<open>
  Roles, the authenticated principal and access to workspaces (\<open>backend/app/authz.py\<close>). The
  three resolvers (the request's active workspace, an explicitly named target, the workspace of
  a path parameter) implement one contract, the locale \<open>workspace_authorizer\<close>; what the token
  restrictions guarantee is proved once from that contract.
\<close>

section \<open>Roles\<close>

datatype role = Viewer | Member | Admin

fun role_value :: "role \<Rightarrow> nat" where
  "role_value Viewer = 1"
| "role_value Member = 2"
| "role_value Admin = 3"

fun role_name :: "role \<Rightarrow> string" where
  "role_name Viewer = ''viewer''"
| "role_name Member = ''member''"
| "role_name Admin = ''admin''"

instantiation role :: linorder
begin

definition less_eq_role :: "role \<Rightarrow> role \<Rightarrow> bool" where
  "less_eq_role a b \<longleftrightarrow> role_value a \<le> role_value b"

definition less_role :: "role \<Rightarrow> role \<Rightarrow> bool" where
  "less_role a b \<longleftrightarrow> role_value a < role_value b"

instance
proof
  show "a \<le> b \<Longrightarrow> b \<le> a \<Longrightarrow> a = b" for a b :: role
    by (cases a; cases b) (simp_all add: less_eq_role_def)
qed (auto simp: less_eq_role_def less_role_def)

end

lemma role_order [simp]:
  "Viewer \<le> r" "r \<le> Admin" "Viewer < Member" "Member < Admin" "Viewer < Admin"
  "\<not> Admin \<le> Member" "\<not> Admin \<le> Viewer" "\<not> Member \<le> Viewer" "\<not> r < Viewer" "\<not> Admin < r"
  by (cases r; simp add: less_eq_role_def less_role_def)+

definition role_parse :: "string \<Rightarrow> role result" where
  "role_parse v =
     (if v = ''viewer'' then Inr Viewer
      else if v = ''member'' then Inr Member
      else if v = ''admin'' then Inr Admin
      else Inl (Uncaught ''ValueError''))"

lemma role_parse_name [simp]: "role_parse (role_name r) = Inr r"
  by (cases r) (simp_all add: role_parse_def)

lemma role_parse_Inr: "role_parse v = Inr r \<longleftrightarrow> v = role_name r"
  by (cases r) (auto simp: role_parse_def)

lemma role_parse_literals [simp]:
  "role_parse ''viewer'' = Inr Viewer"
  "role_parse ''member'' = Inr Member"
  "role_parse ''admin'' = Inr Admin"
  by (simp_all add: role_parse_def)

section \<open>Principals\<close>

record principal =
  p_user :: user
  p_token_workspace_id :: "int option"
  p_token_role_ceiling :: "role option"

definition is_global_admin :: "principal \<Rightarrow> bool" where
  "is_global_admin p = u_is_global_admin (p_user p)"

definition session_principal :: "user \<Rightarrow> principal" where
  "session_principal u = \<lparr>p_user = u, p_token_workspace_id = None, p_token_role_ceiling = None\<rparr>"

definition anonymous_admin :: user where
  "anonymous_admin = \<lparr>u_id = 0, u_provider = ''local'', u_subject = ''__anonymous__'',
     u_email = None, u_display_name = Some ''Anonymous'', u_password_hash = None,
     u_is_global_admin = True, u_is_active = True, u_created_at = 0, u_last_login_at = None\<rparr>"

text \<open>What the authentication reads of a request: the \<open>Authorization\<close> header (empty when
  absent), the cookies and, on a WebSocket, the \<open>token\<close> query parameter.\<close>

record request =
  rq_authorization :: string
  rq_cookies :: "(string, string) dict"
  rq_token :: "string option"

definition is_bearer :: "string \<Rightarrow> bool" where
  "is_bearer h \<longleftrightarrow> startswith (str_lower h) ''bearer ''"

definition bearer_token :: "string \<Rightarrow> string" where
  "bearer_token h = strip (snd (snd (partition_at CHR '' '' h)))"

definition get_token :: "env \<Rightarrow> string \<Rightarrow> db \<Rightarrow> api_token option" where
  "get_token env raw db = get_row t_token_hash (hash_token env raw) (tokens db)"

definition touch_token :: "env \<Rightarrow> api_token \<Rightarrow> db \<Rightarrow> db" where
  "touch_token env t db =
     db\<lparr>tokens := modify_row t_id (t_id t) (t_last_used_at_update (\<lambda>_. Some (e_now env))) (tokens db)\<rparr>"

text \<open>\<open>_principal_from_token\<close>; the bearer branch of \<open>_principal_from_request\<close> is the same code.
  The time stamp is committed before the role ceiling is parsed.\<close>

definition principal_from_token :: "env \<Rightarrow> string \<Rightarrow> db \<Rightarrow> principal option result \<times> db" where
  "principal_from_token env raw db =
     (if \<not> looks_like_api_token raw then (Inr None, db)
      else (case get_token env raw db of
        None \<Rightarrow> (Inr None, db)
      | Some row \<Rightarrow>
          if t_revoked_at row \<noteq> None then (Inr None, db)
          else (case get_row u_id (t_user_id row) (users db) of
            None \<Rightarrow> (Inr None, db)
          | Some u \<Rightarrow>
              if \<not> u_is_active u then (Inr None, db)
              else (bind_result (role_parse (t_role_ceiling row)) (\<lambda>cap.
                      Inr (Some \<lparr>p_user = u, p_token_workspace_id = t_workspace_id row,
                                 p_token_role_ceiling = Some cap\<rparr>)),
                    touch_token env row db))))"

definition principal_from_cookie :: "env \<Rightarrow> settings \<Rightarrow> request \<Rightarrow> db \<Rightarrow> principal option" where
  "principal_from_cookie env s rq db =
     (case dict_get (rq_cookies rq) (st_session_cookie_name s) of
        None \<Rightarrow> None
      | Some cookie \<Rightarrow>
          if cookie = [] then None
          else (case verify_session env (session_signing_key (e_ephemeral_key env) s) cookie
                       (st_session_ttl_seconds s) of
            None \<Rightarrow> None
          | Some user_id \<Rightarrow>
              (case get_row u_id user_id (users db) of
                 None \<Rightarrow> None
               | Some u \<Rightarrow> if u_is_active u then Some (session_principal u) else None)))"

definition principal_from_request :: "env \<Rightarrow> settings \<Rightarrow> request \<Rightarrow> db \<Rightarrow> principal option result \<times> db" where
  "principal_from_request env s rq db =
     (if is_bearer (rq_authorization rq)
      then principal_from_token env (bearer_token (rq_authorization rq)) db
      else (Inr (principal_from_cookie env s rq db), db))"

definition current_principal :: "env \<Rightarrow> settings \<Rightarrow> request \<Rightarrow> db \<Rightarrow> principal result \<times> db" where
  "current_principal env s rq db =
     (if \<not> auth_active s then (Inr (session_principal anonymous_admin), db)
      else (case principal_from_request env s rq db of
        (Inl e, db') \<Rightarrow> (Inl e, db')
      | (Inr None, db') \<Rightarrow> (Inl (HTTPException 401 ''Authentication required''), db')
      | (Inr (Some p), db') \<Rightarrow> (Inr p, db')))"

text \<open>Browsers cannot set headers on a WebSocket handshake: a bearer header that does not
  authenticate falls through to the query parameter, then to the cookie.\<close>

definition principal_from_websocket :: "env \<Rightarrow> settings \<Rightarrow> request \<Rightarrow> db \<Rightarrow> principal option result \<times> db" where
  "principal_from_websocket env s rq db =
     (if \<not> auth_active s then (Inr (Some (session_principal anonymous_admin)), db)
      else
        (let after_query = (\<lambda>db. (Inr (principal_from_cookie env s rq db), db));
             after_header = (\<lambda>db.
               if truthy (rq_token rq)
               then (case principal_from_token env (strip (the (rq_token rq))) db of
                       (Inr None, db') \<Rightarrow> after_query db'
                     | r \<Rightarrow> r)
               else after_query db)
         in if is_bearer (rq_authorization rq)
            then (case principal_from_token env (bearer_token (rq_authorization rq)) db of
                    (Inr None, db') \<Rightarrow> after_header db'
                  | r \<Rightarrow> r)
            else after_header db))"

section \<open>Workspace access\<close>

record workspace_context =
  c_workspace :: workspace
  c_principal :: principal
  c_role :: role

definition at_least :: "workspace_context \<Rightarrow> role \<Rightarrow> bool" where
  "at_least ctx r \<longleftrightarrow> r \<le> c_role ctx"

definition cap_role :: "principal \<Rightarrow> role \<Rightarrow> role" where
  "cap_role p r =
     (case p_token_role_ceiling p of
        None \<Rightarrow> r
      | Some cap \<Rightarrow> if r > cap then cap else r)"

definition requires :: "role \<Rightarrow> error" where
  "requires r = HTTPException 403 (''Requires '' @ role_name r @ '' role'')"

text \<open>The role a principal has in a workspace before the token ceiling applies.\<close>

definition base_role :: "db \<Rightarrow> principal \<Rightarrow> int \<Rightarrow> role result" where
  "base_role db p workspace_id =
     (if is_global_admin p then Inr Admin
      else (case get_membership db (u_id (p_user p)) workspace_id of
              None \<Rightarrow> Inl (HTTPException 403 ''Not a member of this workspace'')
            | Some m \<Rightarrow> role_parse (m_role m)))"

definition finish_context :: "role \<Rightarrow> workspace \<Rightarrow> principal \<Rightarrow> role \<Rightarrow> workspace_context result" where
  "finish_context min_role ws p r =
     (let effective = cap_role p r
      in if effective < min_role then Inl (requires min_role)
         else Inr \<lparr>c_workspace = ws, c_principal = p, c_role = effective\<rparr>)"

text \<open>\<open>authorize_workspace_role\<close>; the dependency of \<open>require_workspace\<close> is the same code.\<close>

definition authorize_workspace_role ::
  "db \<Rightarrow> principal \<Rightarrow> int \<Rightarrow> role \<Rightarrow> workspace_context result" where
  "authorize_workspace_role db p workspace_id min_role =
     (case get_row ws_id workspace_id (workspaces db) of
        None \<Rightarrow> Inl (HTTPException 404 ''Workspace not found'')
      | Some ws \<Rightarrow>
          if p_token_workspace_id p \<noteq> None \<and> p_token_workspace_id p \<noteq> Some workspace_id
          then Inl (HTTPException 403 ''Token is not scoped to this workspace'')
          else bind_result (base_role db p workspace_id) (finish_context min_role ws p))"

definition require_workspace :: "db \<Rightarrow> principal \<Rightarrow> int \<Rightarrow> role \<Rightarrow> workspace_context result" where
  "require_workspace db p workspace_id min_role =
     (case get_row ws_id workspace_id (workspaces db) of
        None \<Rightarrow> Inl (HTTPException 404 ''Workspace not found'')
      | Some ws \<Rightarrow>
          if p_token_workspace_id p \<noteq> None \<and> p_token_workspace_id p \<noteq> Some workspace_id
          then Inl (HTTPException 403 ''Token is not scoped to this workspace'')
          else bind_result (base_role db p workspace_id) (finish_context min_role ws p))"

definition default_workspace_for ::
  "env \<Rightarrow> principal \<Rightarrow> db \<Rightarrow> (workspace \<times> role) result \<times> db" where
  "default_workspace_for env p db =
     (if u_id (p_user p) \<noteq> 0
      then (case find (\<lambda>w. ws_owner_user_id w = Some (u_id (p_user p)) \<and> ws_kind w = ''personal'')
                   (workspaces db) of
              Some ws \<Rightarrow> (Inr (ws, Admin), db)
            | None \<Rightarrow>
                (case ensure_personal_workspace env (p_user p) db of
                   (Inl e, _) \<Rightarrow> (Inl e, db)
                 | (Inr ws, db') \<Rightarrow> (Inr (ws, Admin), db')))
      else (let (ws, db') = ensure_default_workspace env db in (Inr (ws, Admin), db')))"

definition active_workspace ::
  "env \<Rightarrow> role \<Rightarrow> int option \<Rightarrow> principal \<Rightarrow> db \<Rightarrow> workspace_context result \<times> db" where
  "active_workspace env min_role workspace_id p db =
     (let wid = (if workspace_id = None \<and> p_token_workspace_id p \<noteq> None
                 then p_token_workspace_id p else workspace_id)
      in case wid of
           None \<Rightarrow>
             (case default_workspace_for env p db of
                (Inl e, db') \<Rightarrow> (Inl e, db')
              | (Inr (ws, r), db') \<Rightarrow> (finish_context min_role ws p r, db'))
         | Some w \<Rightarrow> (authorize_workspace_role db p w min_role, db))"

text \<open>\<open>authorize_run_view\<close>, which the streaming endpoints use.\<close>

definition hides_run :: "workspace \<Rightarrow> role \<Rightarrow> principal \<Rightarrow> run \<Rightarrow> bool" where
  "hides_run ws r p rn \<longleftrightarrow>
     ws_run_visibility ws = ''own'' \<and> r < Admin \<and>
     (case r_created_by_user_id rn of
        None \<Rightarrow> False
      | Some creator \<Rightarrow> creator \<noteq> 0 \<and> creator \<noteq> u_id (p_user p))"

definition authorize_run_view :: "db \<Rightarrow> principal \<Rightarrow> run \<Rightarrow> bool result" where
  "authorize_run_view db p rn =
     (case (case r_workspace_id rn of None \<Rightarrow> None | Some w \<Rightarrow> get_row ws_id w (workspaces db)) of
        None \<Rightarrow> Inr False
      | Some ws \<Rightarrow>
          if p_token_workspace_id p \<noteq> None \<and> p_token_workspace_id p \<noteq> Some (ws_id ws) then Inr False
          else if is_global_admin p then Inr True
          else (case get_membership db (u_id (p_user p)) (ws_id ws) of
                  None \<Rightarrow> Inr False
                | Some m \<Rightarrow>
                    bind_result (role_parse (m_role m)) (\<lambda>r.
                      Inr (\<not> hides_run ws (cap_role p r) p rn))))"

section \<open>What the three resolvers share\<close>

lemma cap_role_le: "cap_role p r \<le> r"
  by (auto simp: cap_role_def split: option.splits)

lemma cap_role_ceiling: "p_token_role_ceiling p = Some c \<Longrightarrow> cap_role p r \<le> c"
  by (auto simp: cap_role_def)

lemma cap_role_min: "cap_role p r = (case p_token_role_ceiling p of None \<Rightarrow> r | Some c \<Rightarrow> min r c)"
  by (auto simp: cap_role_def min_def split: option.splits)

lemma finish_context_Inr:
  "finish_context min_role ws p r = Inr ctx \<longleftrightarrow>
     min_role \<le> cap_role p r \<and> ctx = \<lparr>c_workspace = ws, c_principal = p, c_role = cap_role p r\<rparr>"
  by (auto simp: finish_context_def Let_def)

lemma authorize_workspace_role_Inr:
  "authorize_workspace_role db p w min_role = Inr ctx \<longleftrightarrow>
     (\<exists>ws r. get_row ws_id w (workspaces db) = Some ws \<and>
        (p_token_workspace_id p = None \<or> p_token_workspace_id p = Some w) \<and>
        base_role db p w = Inr r \<and> finish_context min_role ws p r = Inr ctx)"
  by (auto simp: authorize_workspace_role_def split: option.splits if_splits)

lemma require_workspace_eq: "require_workspace = authorize_workspace_role"
  by (intro ext) (simp add: require_workspace_def authorize_workspace_role_def)

lemma base_role_Inr:
  "base_role db p w = Inr r \<longleftrightarrow>
     (is_global_admin p \<and> r = Admin) \<or>
     (\<not> is_global_admin p \<and>
       (\<exists>m. get_membership db (u_id (p_user p)) w = Some m \<and> m_role m = role_name r))"
  by (auto simp: base_role_def role_parse_Inr split: option.splits)

text \<open>
  The contract between the request handlers and whatever authorised them: a context is handed
  out only for the workspace asked for, at a role that is high enough, within the token's scope
  and ceiling, and backed by a membership or by global administration.
\<close>

locale workspace_authorizer =
  fixes authorize :: "db \<Rightarrow> principal \<Rightarrow> int \<Rightarrow> role \<Rightarrow> workspace_context result"
  assumes context_workspace:
      "authorize db p w r = Inr ctx \<Longrightarrow> get_row ws_id w (workspaces db) = Some (c_workspace ctx)"
    and context_principal: "authorize db p w r = Inr ctx \<Longrightarrow> c_principal ctx = p"
    and context_role: "authorize db p w r = Inr ctx \<Longrightarrow> r \<le> c_role ctx"
    and context_scope:
      "authorize db p w r = Inr ctx \<Longrightarrow> p_token_workspace_id p = None \<or> p_token_workspace_id p = Some w"
    and context_ceiling:
      "authorize db p w r = Inr ctx \<Longrightarrow> p_token_role_ceiling p = Some c \<Longrightarrow> c_role ctx \<le> c"
    and context_member:
      "authorize db p w r = Inr ctx \<Longrightarrow> \<not> is_global_admin p \<Longrightarrow>
         \<exists>m r'. get_membership db (u_id (p_user p)) w = Some m \<and> m_role m = role_name r' \<and> c_role ctx \<le> r'"
begin

lemma ceiling_blocks:
  assumes "p_token_role_ceiling p = Some c" and "c < r"
  shows "authorize db p w r \<noteq> Inr ctx"
  using assms context_role [of db p w r ctx] context_ceiling [of db p w r ctx c]
  by (meson leD order_trans)

lemma outsider_blocked:
  assumes "\<not> is_global_admin p" and "get_membership db (u_id (p_user p)) w = None"
  shows "authorize db p w r \<noteq> Inr ctx"
  using assms context_member [of db p w r ctx] by auto

lemma role_needed:
  assumes "\<not> is_global_admin p" and "get_membership db (u_id (p_user p)) w = Some m"
    and "m_role m = role_name r'" and "r' < r"
  shows "authorize db p w r \<noteq> Inr ctx"
proof
  assume auth: "authorize db p w r = Inr ctx"
  from context_member [OF this assms(1)] assms(2,3) obtain r''
    where "role_name r' = role_name r''" and "c_role ctx \<le> r''" by auto
  then have "c_role ctx \<le> r'" by (cases r'; cases r'') auto
  with context_role [OF auth] assms(4) show False by (meson leD order_trans)
qed

lemma scope_confines:
  assumes "authorize db p w r = Inr ctx" and "p_token_workspace_id p = Some w'"
  shows "ws_id (c_workspace ctx) = w'"
  using context_workspace [OF assms(1)] context_scope [OF assms(1)] assms(2)
  by (auto dest: get_row_Some)

lemma context_id:
  "authorize db p w r = Inr ctx \<Longrightarrow> ws_id (c_workspace ctx) = w \<and> c_workspace ctx \<in> set (workspaces db)"
  by (auto dest: context_workspace get_row_Some)

end

interpretation target: workspace_authorizer authorize_workspace_role
proof
  show "c_role ctx \<le> c"
    if "authorize_workspace_role db p w r = Inr ctx" "p_token_role_ceiling p = Some c" for db p w r ctx c
    using that by (auto simp: authorize_workspace_role_Inr finish_context_Inr cap_role_ceiling)
  show "\<exists>m r'. get_membership db (u_id (p_user p)) w = Some m \<and> m_role m = role_name r' \<and> c_role ctx \<le> r'"
    if "authorize_workspace_role db p w r = Inr ctx" "\<not> is_global_admin p" for db p w r ctx
    using that
    by (fastforce simp: authorize_workspace_role_Inr finish_context_Inr base_role_Inr intro: cap_role_le)
qed (auto simp: authorize_workspace_role_Inr finish_context_Inr)

interpretation by_path: workspace_authorizer require_workspace
  unfolding require_workspace_eq by (rule target.workspace_authorizer_axioms)

lemma active_workspace_Some:
  "active_workspace env min_role (Some w) p db = (authorize_workspace_role db p w min_role, db)"
  by (simp add: active_workspace_def)

interpretation active: workspace_authorizer
  "\<lambda>db p w r. fst (active_workspace env r (Some w) p db)" for env
  unfolding active_workspace_Some fst_conv by (rule target.workspace_authorizer_axioms)

section \<open>Authentication yields active users only\<close>

lemma principal_from_token_Some:
  assumes "principal_from_token env raw db = (Inr (Some p), db')"
  shows "\<exists>row. get_token env raw db = Some row \<and> t_revoked_at row = None \<and>
     get_row u_id (t_user_id row) (users db) = Some (p_user p) \<and> u_is_active (p_user p) \<and>
     p_token_workspace_id p = t_workspace_id row \<and>
     role_parse (t_role_ceiling row) = Inr (the (p_token_role_ceiling p)) \<and>
     p_token_role_ceiling p \<noteq> None \<and> db' = touch_token env row db"
  using assms
  by (auto simp: principal_from_token_def split: if_splits option.splits)

lemma principal_from_cookie_Some:
  assumes "principal_from_cookie env s rq db = Some p"
  shows "u_is_active (p_user p) \<and> p_user p \<in> set (users db) \<and>
     p_token_workspace_id p = None \<and> p_token_role_ceiling p = None"
  using assms
  by (auto simp: principal_from_cookie_def session_principal_def dest: get_row_Some
      split: if_splits option.splits)

lemma touch_token_users [simp]:
  "users (touch_token env t db) = users db"
  "workspaces (touch_token env t db) = workspaces db"
  "members (touch_token env t db) = members db"
  by (simp_all add: touch_token_def)

lemma principal_from_request_active:
  assumes "principal_from_request env s rq db = (Inr (Some p), db')"
  shows "u_is_active (p_user p) \<and> p_user p \<in> set (users db)"
  using assms
  by (auto simp: principal_from_request_def split: if_splits
      dest!: principal_from_token_Some principal_from_cookie_Some dest: get_row_Some)

end
