(* ===== verification/Workspaces.thy ===== *)
theory Workspaces
  imports Authz "HOL-Library.List_Lexorder" "HOL-Library.Char_ord"
begin

text \<open>
  Workspace management (\<open>backend/app/api/workspaces.py\<close>): creation, update under the deployment
  ceilings, deletion, memberships with the rule that a workspace keeps an administrator, and the
  audit view. Every handler runs its authorization dependency first.
\<close>

section \<open>Payloads\<close>

record workspace_update_in =
  wu_name :: "string option"
  wu_run_visibility :: "string option"
  wu_allow_private_targets :: "bool option"
  wu_max_concurrent_runs :: "int option"
  wu_oidc_group_admin :: "string option"
  wu_oidc_group :: "string option"
  wu_oidc_group_viewer :: "string option"

definition opt_ok :: "('a \<Rightarrow> bool) \<Rightarrow> 'a option \<Rightarrow> bool" where
  "opt_ok p x = (case x of None \<Rightarrow> True | Some y \<Rightarrow> p y)"

definition valid_workspace_name :: "string \<Rightarrow> bool" where
  "valid_workspace_name s \<longleftrightarrow> 1 \<le> length s \<and> length s \<le> 200"

definition valid_workspace_update :: "workspace_update_in \<Rightarrow> bool" where
  "valid_workspace_update p \<longleftrightarrow>
     opt_ok valid_workspace_name (wu_name p) \<and>
     opt_ok (\<lambda>v. v = ''all'' \<or> v = ''own'') (wu_run_visibility p) \<and>
     opt_ok (\<lambda>n. 1 \<le> n \<and> n \<le> 64) (wu_max_concurrent_runs p) \<and>
     opt_ok (\<lambda>g. length g \<le> 200) (wu_oidc_group_admin p) \<and>
     opt_ok (\<lambda>g. length g \<le> 200) (wu_oidc_group p) \<and>
     opt_ok (\<lambda>g. length g \<le> 200) (wu_oidc_group_viewer p)"

record member_add_in =
  ma_user_id :: "int option"
  ma_email :: "string option"
  ma_role :: string

definition valid_role_literal :: "string \<Rightarrow> bool" where
  "valid_role_literal r \<longleftrightarrow> r = ''viewer'' \<or> r = ''member'' \<or> r = ''admin''"

definition unprocessable :: error where
  "unprocessable = HTTPException 422 ''Unprocessable Entity''"

section \<open>Workspaces\<close>

definition visible_workspaces :: "db \<Rightarrow> principal \<Rightarrow> (workspace \<times> string) list" where
  "visible_workspaces db p =
     (if is_global_admin p
      then map (\<lambda>w. (w, ''admin'')) (sort_key ws_name (workspaces db))
      else sort_key (\<lambda>(w, r). ws_name w)
        (concat (map (\<lambda>w. map (\<lambda>m. (w, m_role m))
           (filter (\<lambda>m. m_workspace_id m = ws_id w \<and> m_user_id m = u_id (p_user p)) (members db)))
           (workspaces db))))"

definition create_workspace ::
  "env \<Rightarrow> settings \<Rightarrow> principal \<Rightarrow> string \<Rightarrow> db \<Rightarrow> (workspace \<times> string) result \<times> db" where
  "create_workspace env s p name db =
     (if \<not> valid_workspace_name name then (Inl unprocessable, db)
      else
        (let uid = u_id (p_user p);
             ws = (new_workspace env name ''shared'' (if uid \<noteq> 0 then Some uid else None) db)
                    \<lparr>ws_max_concurrent_runs := min 2 (st_max_concurrent_runs s)\<rparr>;
             db1 = add_workspace ws db;
             db2 = (if uid \<noteq> 0 then add_membership env (ws_id ws) uid ''admin'' ''manual'' db1 else db1);
             db3 = record_audit env ''workspace.create'' (Some (p_user p)) None (Some (ws_id ws))
                     (Some name) [] db2
         in (Inr (ws, ''admin''), db3)))"

definition get_workspace :: "db \<Rightarrow> principal \<Rightarrow> int \<Rightarrow> (workspace \<times> string) result" where
  "get_workspace db p wid =
     bind_result (require_workspace db p wid Viewer)
       (\<lambda>ctx. Inr (c_workspace ctx, role_name (c_role ctx)))"

definition override :: "'a option \<Rightarrow> 'a \<Rightarrow> 'a" where
  "override x old = (case x of None \<Rightarrow> old | Some y \<Rightarrow> y)"

text \<open>\<open>payload.oidc_group or None\<close>: an empty string clears the mapping.\<close>

definition override_group :: "string option \<Rightarrow> string option \<Rightarrow> string option" where
  "override_group x old = (case x of None \<Rightarrow> old | Some y \<Rightarrow> if y = [] then None else Some y)"

definition apply_update :: "workspace_update_in \<Rightarrow> workspace \<Rightarrow> workspace" where
  "apply_update p w =
     w\<lparr>ws_name := override (wu_name p) (ws_name w),
       ws_run_visibility := override (wu_run_visibility p) (ws_run_visibility w),
       ws_allow_private_targets := override (wu_allow_private_targets p) (ws_allow_private_targets w),
       ws_max_concurrent_runs := override (wu_max_concurrent_runs p) (ws_max_concurrent_runs w),
       ws_oidc_group_admin := override_group (wu_oidc_group_admin p) (ws_oidc_group_admin w),
       ws_oidc_group := override_group (wu_oidc_group p) (ws_oidc_group w),
       ws_oidc_group_viewer := override_group (wu_oidc_group_viewer p) (ws_oidc_group_viewer w)\<rparr>"

definition dump_str :: "string \<Rightarrow> string option \<Rightarrow> (string \<times> json) list" where
  "dump_str k x = (case x of None \<Rightarrow> [] | Some v \<Rightarrow> [(k, JStr v)])"

definition dump_update :: "workspace_update_in \<Rightarrow> (string \<times> json) list" where
  "dump_update p =
     dump_str ''name'' (wu_name p) @ dump_str ''run_visibility'' (wu_run_visibility p) @
     (case wu_allow_private_targets p of None \<Rightarrow> [] | Some b \<Rightarrow> [(''allow_private_targets'', JBool b)]) @
     (case wu_max_concurrent_runs p of None \<Rightarrow> [] | Some n \<Rightarrow> [(''max_concurrent_runs'', JInt n)]) @
     dump_str ''oidc_group_admin'' (wu_oidc_group_admin p) @ dump_str ''oidc_group'' (wu_oidc_group p) @
     dump_str ''oidc_group_viewer'' (wu_oidc_group_viewer p)"

definition update_workspace ::
  "env \<Rightarrow> settings \<Rightarrow> principal \<Rightarrow> int \<Rightarrow> workspace_update_in \<Rightarrow> db \<Rightarrow> (workspace \<times> string) result \<times> db" where
  "update_workspace env s p wid payload db =
     (case require_workspace db p wid Admin of
        Inl e \<Rightarrow> (Inl e, db)
      | Inr ctx \<Rightarrow>
          if \<not> valid_workspace_update payload then (Inl unprocessable, db)
          else if wu_allow_private_targets payload = Some True \<and> \<not> st_allow_private_targets s
          then (Inl (HTTPException 400
                 ''Private/loopback targets are disabled for this deployment (OCSPWEB_ALLOW_PRIVATE_TARGETS)''), db)
          else if \<not> opt_ok (\<lambda>n. n \<le> st_max_concurrent_runs s) (wu_max_concurrent_runs payload)
          then (Inl (HTTPException 400
                 (''max_concurrent_runs cannot exceed the deployment ceiling of '' @
                  show_int (st_max_concurrent_runs s))), db)
          else
            (let ws = apply_update payload (c_workspace ctx);
                 db1 = db\<lparr>workspaces := modify_row ws_id wid (apply_update payload) (workspaces db)\<rparr>;
                 db2 = record_audit env ''workspace.update'' (Some (p_user p)) None (Some wid)
                         (Some (ws_name ws)) (dump_update payload) db1
             in (Inr (ws, role_name (c_role ctx)), db2)))"

text \<open>
  Deleting the row of a workspace. The schema declares \<open>ON DELETE CASCADE\<close> on everything that
  belongs to it; whether that happens is the database's doing.
\<close>

definition delete_workspace_row :: "env \<Rightarrow> int \<Rightarrow> db \<Rightarrow> db" where
  "delete_workspace_row env wid db =
     (let db1 = db\<lparr>workspaces := remove_row ws_id wid (workspaces db)\<rparr>
      in if \<not> e_fk_cascade env then db1
         else
           (let gone = map r_id (filter (\<lambda>r. r_workspace_id r = Some wid) (runs db))
            in db1\<lparr>members := delete_rows (\<lambda>m. m_workspace_id m = wid) (members db),
                   tokens := delete_rows (\<lambda>t. t_workspace_id t = Some wid) (tokens db),
                   runs := delete_rows (\<lambda>r. r_workspace_id r = Some wid) (runs db),
                   run_events := delete_rows (\<lambda>e. e_run_id e \<in> set gone) (run_events db),
                   test_results := delete_rows (\<lambda>r. res_run_id r \<in> set gone) (test_results db),
                   ca_certs := delete_rows (\<lambda>c. ca_workspace_id c = Some wid) (ca_certs db),
                   profiles := delete_rows (\<lambda>p. pf_workspace_id p = Some wid) (profiles db)\<rparr>))"

definition delete_workspace :: "env \<Rightarrow> principal \<Rightarrow> int \<Rightarrow> db \<Rightarrow> unit result \<times> db" where
  "delete_workspace env p wid db =
     (case require_workspace db p wid Admin of
        Inl e \<Rightarrow> (Inl e, db)
      | Inr ctx \<Rightarrow>
          if ws_kind (c_workspace ctx) = ''personal''
          then (Inl (HTTPException 400 ''Personal workspaces cannot be deleted''), db)
          else
            (Inr (), delete_workspace_row env wid
               (record_audit env ''workspace.delete'' (Some (p_user p)) None (Some wid)
                  (Some (ws_name (c_workspace ctx))) [] db)))"

section \<open>Members\<close>

definition list_members :: "db \<Rightarrow> principal \<Rightarrow> int \<Rightarrow> (user \<times> string \<times> string) list result" where
  "list_members db p wid =
     bind_result (require_workspace db p wid Viewer) (\<lambda>ctx.
       Inr (concat (map (\<lambda>m.
          case get_row u_id (m_user_id m) (users db) of
            None \<Rightarrow> []
          | Some u \<Rightarrow> [(u, m_role m, if truthy (m_source m) then the (m_source m) else ''manual'')])
         (filter (\<lambda>m. m_workspace_id m = wid) (members db)))))"

definition find_member_target :: "db \<Rightarrow> member_add_in \<Rightarrow> user option result" where
  "find_member_target db payload =
     (case ma_user_id payload of
        Some uid \<Rightarrow> Inr (get_row u_id uid (users db))
      | None \<Rightarrow> one_or_none (filter (\<lambda>u. u_email u = ma_email payload) (users db)))"

definition add_member ::
  "env \<Rightarrow> principal \<Rightarrow> int \<Rightarrow> member_add_in \<Rightarrow> db \<Rightarrow> user result \<times> db" where
  "add_member env p wid payload db =
     (case require_workspace db p wid Admin of
        Inl e \<Rightarrow> (Inl e, db)
      | Inr ctx \<Rightarrow>
          if \<not> valid_role_literal (ma_role payload) \<or> \<not> opt_ok (\<lambda>e. length e \<le> 320) (ma_email payload)
          then (Inl unprocessable, db)
          else if ma_user_id payload = None \<and> \<not> truthy (ma_email payload)
          then (Inl (HTTPException 400 ''Provide user_id or email''), db)
          else (case find_member_target db payload of
            Inl e \<Rightarrow> (Inl e, db)
          | Inr None \<Rightarrow>
              (Inl (HTTPException 404 ''User not found (they must have logged in at least once)''), db)
          | Inr (Some u) \<Rightarrow>
              if get_membership db (u_id u) wid \<noteq> None
              then (Inl (HTTPException 409 ''User is already a member''), db)
              else
                (Inr u, record_audit env ''member.add'' (Some (p_user p)) None (Some wid)
                   (str_or (u_email u) (Some (u_subject u))) [(''role'', JStr (ma_role payload))]
                   (add_membership env wid (u_id u) (ma_role payload) ''manual'' db))))"

definition is_admin_row :: "int \<Rightarrow> workspace_member \<Rightarrow> bool" where
  "is_admin_row wid m \<longleftrightarrow> m_workspace_id m = wid \<and> m_role m = ''admin''"

definition guard_last_admin :: "db \<Rightarrow> int \<Rightarrow> int \<Rightarrow> string option \<Rightarrow> unit result" where
  "guard_last_admin db wid user_id new_role =
     (if new_role = Some ''admin'' then Inr ()
      else (let admins = filter (is_admin_row wid) (members db)
            in if length admins \<le> 1 \<and> list_ex (\<lambda>a. m_user_id a = user_id) admins
               then Inl (HTTPException 400 ''A workspace must keep at least one admin'')
               else Inr ()))"

definition change_member_role ::
  "env \<Rightarrow> principal \<Rightarrow> int \<Rightarrow> int \<Rightarrow> string \<Rightarrow> db \<Rightarrow> user option result \<times> db" where
  "change_member_role env p wid user_id role db =
     (case require_workspace db p wid Admin of
        Inl e \<Rightarrow> (Inl e, db)
      | Inr ctx \<Rightarrow>
          if \<not> valid_role_literal role then (Inl unprocessable, db)
          else (case get_membership db user_id wid of
            None \<Rightarrow> (Inl (HTTPException 404 ''Not a member''), db)
          | Some m \<Rightarrow>
              (case guard_last_admin db wid user_id (Some role) of
                 Inl e \<Rightarrow> (Inl e, db)
               | Inr _ \<Rightarrow>
                   (let u = get_row u_id user_id (users db);
                        db1 = db\<lparr>members := modify_row m_id (m_id m)
                                (\<lambda>m. m\<lparr>m_role := role, m_source := Some ''manual''\<rparr>) (members db)\<rparr>
                    in (Inr u, record_audit env ''member.role'' (Some (p_user p)) None (Some wid)
                          (case u of None \<Rightarrow> Some (show_int user_id) | Some u \<Rightarrow> u_email u)
                          [(''role'', JStr role)] db1)))))"

definition remove_member :: "env \<Rightarrow> principal \<Rightarrow> int \<Rightarrow> int \<Rightarrow> db \<Rightarrow> unit result \<times> db" where
  "remove_member env p wid user_id db =
     (case require_workspace db p wid Admin of
        Inl e \<Rightarrow> (Inl e, db)
      | Inr ctx \<Rightarrow>
          (case get_membership db user_id wid of
            None \<Rightarrow> (Inl (HTTPException 404 ''Not a member''), db)
          | Some m \<Rightarrow>
              (case guard_last_admin db wid user_id None of
                 Inl e \<Rightarrow> (Inl e, db)
               | Inr _ \<Rightarrow>
                   (Inr (), record_audit env ''member.remove'' (Some (p_user p)) None (Some wid)
                      (Some (show_int user_id)) []
                      (db\<lparr>members := remove_row m_id (m_id m) (members db)\<rparr>)))))"

section \<open>Audit view\<close>

definition latest_audit :: "audit_log list \<Rightarrow> audit_log list" where
  "latest_audit rows = sort_key (\<lambda>r. - al_ts r) rows"

definition workspace_audit :: "db \<Rightarrow> principal \<Rightarrow> int \<Rightarrow> nat \<Rightarrow> audit_log list result" where
  "workspace_audit db p wid limit =
     bind_result (require_workspace db p wid Admin) (\<lambda>ctx.
       if limit < 1 \<or> limit > 500 then Inl unprocessable
       else Inr (take limit (latest_audit (filter (\<lambda>r. al_workspace_id r = Some wid) (audit_rows db)))))"

section \<open>A failing handler changes nothing\<close>

lemmas workspace_handlers = create_workspace_def update_workspace_def delete_workspace_def
  add_member_def change_member_role_def remove_member_def

lemma workspace_handlers_atomic:
  "fst (create_workspace env s p name db) = Inl e \<Longrightarrow> snd (create_workspace env s p name db) = db"
  "fst (update_workspace env s p wid u db) = Inl e \<Longrightarrow> snd (update_workspace env s p wid u db) = db"
  "fst (delete_workspace env p wid db) = Inl e \<Longrightarrow> snd (delete_workspace env p wid db) = db"
  "fst (add_member env p wid a db) = Inl e \<Longrightarrow> snd (add_member env p wid a db) = db"
  "fst (change_member_role env p wid uid r db) = Inl e \<Longrightarrow> snd (change_member_role env p wid uid r db) = db"
  "fst (remove_member env p wid uid db) = Inl e \<Longrightarrow> snd (remove_member env p wid uid db) = db"
  by (auto simp: workspace_handlers Let_def split: sum.splits option.splits if_splits)

lemma workspace_handlers_need_admin:
  "fst (update_workspace env s p wid u db) = Inr x \<Longrightarrow> \<exists>ctx. require_workspace db p wid Admin = Inr ctx"
  "fst (delete_workspace env p wid db) = Inr y \<Longrightarrow> \<exists>ctx. require_workspace db p wid Admin = Inr ctx"
  "fst (add_member env p wid a db) = Inr z \<Longrightarrow> \<exists>ctx. require_workspace db p wid Admin = Inr ctx"
  "fst (change_member_role env p wid uid r db) = Inr v \<Longrightarrow> \<exists>ctx. require_workspace db p wid Admin = Inr ctx"
  "fst (remove_member env p wid uid db) = Inr w \<Longrightarrow> \<exists>ctx. require_workspace db p wid Admin = Inr ctx"
  by (auto simp: workspace_handlers split: sum.splits)

section \<open>A workspace keeps an administrator\<close>

definition admin_rows :: "db \<Rightarrow> int \<Rightarrow> workspace_member list" where
  "admin_rows db wid = filter (is_admin_row wid) (members db)"

definition has_admin :: "db \<Rightarrow> int \<Rightarrow> bool" where
  "has_admin db wid \<longleftrightarrow> list_ex (is_admin_row wid) (members db)"

lemma has_admin_iff: "has_admin db wid \<longleftrightarrow> (\<exists>m\<in>set (members db). is_admin_row wid m)"
  by (simp add: has_admin_def list_ex_iff)

lemma has_admin_audit [simp]: "has_admin (record_audit env ev u a w t d db) wid = has_admin db wid"
  by (simp add: has_admin_def)

lemma has_admin_add: "has_admin db wid \<Longrightarrow> has_admin (add_membership env w u r src db) wid"
  by (auto simp: has_admin_iff add_membership_def)

text \<open>What the guard's success means: some other administrator remains, or the row in question is
  not an administrator's, or it stays one.\<close>

lemma two_le_length_filter:
  "1 < length (filter p xs) \<Longrightarrow> distinct xs \<Longrightarrow> \<exists>y\<in>set xs. p y \<and> y \<noteq> x"
proof (rule ccontr)
  assume len: "1 < length (filter p xs)" and dist: "distinct xs"
    and "\<not> (\<exists>y\<in>set xs. p y \<and> y \<noteq> x)"
  then have "set (filter p xs) \<subseteq> {x}" by auto
  then have "card (set (filter p xs)) \<le> card {x}" by (rule card_mono [OF finite.insertI [OF finite.emptyI]])
  moreover have "length (filter p xs) = card (set (filter p xs))"
    using dist by (metis distinct_card distinct_filter)
  ultimately show False using len by simp
qed

lemma guard_last_admin_remaining:
  assumes guard: "guard_last_admin db wid user_id new_role = Inr ()" and "new_role \<noteq> Some ''admin''"
    and wf: "members_wf (members db)" and m: "get_membership db user_id wid = Some m"
    and "has_admin db wid"
  shows "\<exists>m'\<in>set (members db). is_admin_row wid m' \<and> m_id m' \<noteq> m_id m"
proof -
  let ?admins = "filter (is_admin_row wid) (members db)"
  have m_set: "m \<in> set (members db)" "m_user_id m = user_id" "m_workspace_id m = wid"
    using get_membership_Some [OF m] by auto
  have ids: "distinct (map m_id (members db))"
    using wf by (simp add: members_wf_def)
  from guard assms(2) consider "1 < length ?admins" | "\<not> list_ex (\<lambda>a. m_user_id a = user_id) ?admins"
    by (auto simp: guard_last_admin_def Let_def split: if_splits)
  then show ?thesis
  proof cases
    case 1
    then obtain m' where "m' \<in> set (members db)" "is_admin_row wid m'" "m' \<noteq> m"
      using two_le_length_filter ids by (metis distinct_map)
    then show ?thesis using m_set ids by (metis distinct_key_eq)
  next
    case 2
    from \<open>has_admin db wid\<close> obtain m' where "m' \<in> set (members db)" "is_admin_row wid m'"
      by (auto simp: has_admin_iff)
    moreover from 2 this m_set have "m' \<noteq> m" by (auto simp: list_ex_iff)
    ultimately show ?thesis using m_set ids by (metis distinct_key_eq)
  qed
qed

lemma has_admin_set_role:
  assumes "\<exists>m'\<in>set (members db). is_admin_row wid m' \<and> m_id m' \<noteq> i"
  shows "has_admin (db\<lparr>members := modify_row m_id i f (members db)\<rparr>) wid"
  using assms by (force simp: has_admin_iff modify_row_def table_simps)

lemma has_admin_keep_role:
  assumes "has_admin db wid" and "\<And>m. is_admin_row wid m \<Longrightarrow> is_admin_row wid (f m)"
  shows "has_admin (db\<lparr>members := modify_row m_id i f (members db)\<rparr>) wid"
proof -
  from assms(1) obtain m where "m \<in> set (members db)" "is_admin_row wid m"
    by (auto simp: has_admin_iff)
  with assms(2) show ?thesis
    by (cases "m_id m = i") (force simp: has_admin_iff modify_row_def table_simps)+
qed

lemma has_admin_remove:
  assumes "\<exists>m'\<in>set (members db). is_admin_row wid m' \<and> m_id m' \<noteq> i"
  shows "has_admin (db\<lparr>members := remove_row m_id i (members db)\<rparr>) wid"
  using assms by (auto simp: has_admin_iff remove_row_def table_simps)

lemma other_workspace_row:
  assumes "members_wf (members db)" and "get_membership db user_id wid = Some m" and "has_admin db wid'"
    and "wid' \<noteq> wid"
  shows "\<exists>m'\<in>set (members db). is_admin_row wid' m' \<and> m_id m' \<noteq> m_id m"
proof -
  from assms(3) obtain m' where m': "m' \<in> set (members db)" "is_admin_row wid' m'"
    by (auto simp: has_admin_iff)
  have m: "m \<in> set (members db)" "m_workspace_id m = wid"
    using get_membership_Some [OF assms(2)] by auto
  then have "m' \<noteq> m" using m' assms(4) by (auto simp: is_admin_row_def)
  with m m' assms(1) show ?thesis by (metis distinct_key_eq members_wf_def)
qed

lemma remove_member_keeps_admin:
  assumes "members_wf (members db)" and "has_admin db wid'"
  shows "has_admin (snd (remove_member env p wid user_id db)) wid'"
  using assms
  by (auto simp: remove_member_def split: sum.splits option.splits
      intro!: has_admin_remove intro: guard_last_admin_remaining other_workspace_row)

lemma change_member_role_keeps_admin:
  assumes wf: "members_wf (members db)" and adm: "has_admin db wid'"
  shows "has_admin (snd (change_member_role env p wid user_id role db)) wid'"
proof (cases "fst (change_member_role env p wid user_id role db)")
  case (Inl e)
  then show ?thesis using adm by (simp add: workspace_handlers_atomic)
next
  case (Inr x)
  then obtain m where m: "get_membership db user_id wid = Some m"
    and guard: "guard_last_admin db wid user_id (Some role) = Inr ()"
    and db': "members (snd (change_member_role env p wid user_id role db)) =
      modify_row m_id (m_id m) (\<lambda>m. m\<lparr>m_role := role, m_source := Some ''manual''\<rparr>) (members db)"
    by (auto simp: change_member_role_def Let_def split: sum.splits option.splits if_splits)
  show ?thesis
  proof (cases "role = ''admin''")
    case True
    with has_admin_keep_role [OF adm, of "\<lambda>m. m\<lparr>m_role := role, m_source := Some ''manual''\<rparr>"]
    show ?thesis unfolding has_admin_def db' by (simp add: True is_admin_row_def)
  next
    case False
    then have "\<exists>m'\<in>set (members db). is_admin_row wid' m' \<and> m_id m' \<noteq> m_id m"
      using guard_last_admin_remaining [OF guard _ wf m] other_workspace_row [OF wf m adm] adm
      by (cases "wid' = wid") auto
    then show ?thesis
      using has_admin_set_role by (simp add: has_admin_def db')
  qed
qed

text \<open>The steps of the workspace API, for any caller and any payload.\<close>

inductive workspace_step :: "env \<Rightarrow> settings \<Rightarrow> db \<Rightarrow> db \<Rightarrow> bool" for env s where
  create: "workspace_step env s db (snd (create_workspace env s p name db))"
| update: "workspace_step env s db (snd (update_workspace env s p wid payload db))"
| add: "workspace_step env s db (snd (add_member env p wid add_payload db))"
| change: "workspace_step env s db (snd (change_member_role env p wid user_id role db))"
| remove: "workspace_step env s db (snd (remove_member env p wid user_id db))"

lemma members_wf_add_membership:
  assumes "fresh_ids env" and "members_wf (members db)" and "get_membership db uid wid = None"
  shows "members_wf (members (add_membership env wid uid role source db))"
  using assms fresh_idsD [of env "map m_id (members db)"]
  by (auto simp: add_membership_def get_membership_def member_key_def intro!: members_wf_insert)

lemma members_wf_set_manual:
  "members_wf ms \<Longrightarrow>
   members_wf (modify_row m_id i (\<lambda>m. m\<lparr>m_role := r, m_source := src\<rparr>) ms)"
  by (simp add: members_wf_def modify_row_def member_key_def map_key_update_rows)

text \<open>No membership names a workspace that does not exist: what the foreign key declares. It is
  needed to create a workspace, because the new row's key must not already have members.\<close>

definition members_linked :: "db \<Rightarrow> bool" where
  "members_linked db \<longleftrightarrow> (\<forall>m\<in>set (members db). m_workspace_id m \<in> ws_id ` set (workspaces db))"

lemma get_row_image: "get_row key k rows = Some r \<Longrightarrow> k \<in> key ` set rows"
  by (auto dest!: get_row_Some)

lemma require_workspace_exists: "require_workspace db p wid r = Inr ctx \<Longrightarrow> wid \<in> ws_id ` set (workspaces db)"
  by (rule get_row_image) (rule by_path.context_workspace)

lemma set_apply_update_ids:
  "ws_id ` set (modify_row ws_id wid (apply_update u) wss) = ws_id ` set wss"
  by (rule keys_modify_row) (simp add: apply_update_def)

definition managed :: "db \<Rightarrow> bool" where
  "managed db \<longleftrightarrow> members_wf (members db) \<and> members_linked db"

lemma create_workspace_managed:
  assumes "fresh_ids env" and "managed db"
  shows "managed (snd (create_workspace env s p name db))"
proof -
  have "\<forall>m\<in>set (members db). m_workspace_id m \<noteq> e_new_id env (map ws_id (workspaces db))"
    using assms(2) fresh_idsD [OF assms(1), of "map ws_id (workspaces db)"]
    unfolding managed_def members_linked_def by (metis list.set_map)
  then have "get_membership (add_workspace ws db) uid (e_new_id env (map ws_id (workspaces db))) = None" for ws uid
    by (auto simp: get_membership_None add_workspace_def)
  then show ?thesis
    using assms members_wf_add_membership [OF assms(1), of "add_workspace ws db" for ws]
    by (auto simp: create_workspace_def Let_def new_workspace_def managed_def members_linked_def
        add_membership_def add_workspace_def)
qed

lemma add_member_managed:
  assumes "fresh_ids env" and "managed db"
  shows "managed (snd (add_member env p wid payload db))"
proof (cases "fst (add_member env p wid payload db)")
  case (Inl e)
  with assms show ?thesis by (simp add: workspace_handlers_atomic)
next
  case (Inr u)
  then obtain ctx where "require_workspace db p wid Admin = Inr ctx"
    and none: "get_membership db (u_id u) wid = None"
    and db': "members (snd (add_member env p wid payload db)) =
        members (add_membership env wid (u_id u) (ma_role payload) ''manual'' db)"
      "workspaces (snd (add_member env p wid payload db)) = workspaces db"
    by (auto simp: add_member_def add_membership_def split: sum.splits option.splits if_splits)
  then have "wid \<in> ws_id ` set (workspaces db)" by (simp add: require_workspace_exists)
  with assms members_wf_add_membership [OF assms(1) _ none] show ?thesis
    unfolding managed_def members_linked_def db' by (auto simp: add_membership_def)
qed

lemma workspace_step_managed:
  assumes "workspace_step env s db db'" and "fresh_ids env" and "managed db"
  shows "managed db'"
  using assms
proof (induction rule: workspace_step.induct)
  case (create db p name)
  then show ?case by (intro create_workspace_managed)
next
  case (update db p wid payload)
  then show ?case
    by (auto simp: update_workspace_def Let_def managed_def members_linked_def set_apply_update_ids
        split: sum.splits)
next
  case (add db p wid payload)
  then show ?case by (intro add_member_managed)
next
  case (change db p wid user_id role)
  then show ?case
    by (auto simp: change_member_role_def Let_def managed_def members_linked_def members_wf_set_manual
        modify_row_def table_simps split: sum.splits option.splits)
      (auto simp: members_wf_set_manual [unfolded modify_row_def])
next
  case (remove db p wid user_id)
  then show ?case
    by (auto simp: remove_member_def managed_def members_linked_def members_wf_remove split: sum.splits option.splits)
      (auto simp: remove_row_def table_simps)
qed

lemma workspace_step_keeps_admin:
  assumes "workspace_step env s db db'" and "members_wf (members db)" and "has_admin db wid"
  shows "has_admin db' wid"
  using assms
proof (induction rule: workspace_step.induct)
  case (create db p name)
  then show ?case
    by (auto simp: create_workspace_def Let_def add_workspace_def has_admin_def
        intro: has_admin_add [unfolded has_admin_def])
next
  case (update db p wid payload)
  then show ?case
    by (auto simp: update_workspace_def Let_def has_admin_def split: sum.splits)
next
  case (add db p wid payload)
  then show ?case
    by (auto simp: add_member_def intro: has_admin_add split: sum.splits option.splits)
next
  case (change db p wid user_id role)
  then show ?case by (intro change_member_role_keeps_admin)
next
  case (remove db p wid user_id)
  then show ?case by (intro remove_member_keeps_admin)
qed

lemma workspace_steps_keep_admin:
  assumes "(workspace_step env s)\<^sup>*\<^sup>* db db'" and "fresh_ids env" and "managed db" and "has_admin db wid"
  shows "managed db' \<and> has_admin db' wid"
  using assms
proof (induction rule: rtranclp_induct)
  case (step db1 db2)
  then show ?case
    by (auto intro: workspace_step_managed workspace_step_keeps_admin simp: managed_def [of db1])
qed simp

lemma delete_workspace_keeps_admin:
  assumes "has_admin db wid'" and "wid' \<noteq> wid"
  shows "has_admin (snd (delete_workspace env p wid db)) wid'"
  using assms
  by (auto simp: delete_workspace_def delete_workspace_row_def Let_def has_admin_iff table_simps
      is_admin_row_def split: sum.splits)

end
