(* ===== verification/Tokens_Admin.thy ===== *)
theory Tokens_Admin
  imports Workspaces
begin

text \<open>
  API tokens (\<open>backend/app/api/tokens.py\<close>) and the global administrator's endpoints
  (\<open>backend/app/api/admin.py\<close>).
\<close>

section \<open>Tokens\<close>

record token_create_in =
  tc_name :: string
  tc_workspace_id :: "int option"
  tc_role_ceiling :: string

definition list_tokens :: "db \<Rightarrow> principal \<Rightarrow> api_token list" where
  "list_tokens db p =
     filter (\<lambda>t. t_user_id t = u_id (p_user p) \<and> t_revoked_at t = None) (tokens db)"

definition token_scope_error :: "db \<Rightarrow> principal \<Rightarrow> int option \<Rightarrow> error option" where
  "token_scope_error db p wid =
     (case wid of
        None \<Rightarrow> None
      | Some w \<Rightarrow>
          (case get_row ws_id w (workspaces db) of
             None \<Rightarrow> Some (HTTPException 404 ''Workspace not found'')
           | Some ws \<Rightarrow>
               if \<not> is_global_admin p \<and> get_membership db (u_id (p_user p)) (ws_id ws) = None
               then Some (HTTPException 403 ''Not a member of that workspace'')
               else None))"

text \<open>The response carries the raw token once; only its hash is stored.\<close>

definition create_token ::
  "env \<Rightarrow> principal \<Rightarrow> token_create_in \<Rightarrow> db \<Rightarrow> (api_token \<times> string) result \<times> db" where
  "create_token env p payload db =
     (if \<not> valid_workspace_name (tc_name payload) \<or> \<not> valid_role_literal (tc_role_ceiling payload)
      then (Inl unprocessable, db)
      else if p_token_role_ceiling p \<noteq> None
      then (Inl (HTTPException 403 ''API tokens cannot be created with a token''), db)
      else (case token_scope_error db p (tc_workspace_id payload) of
        Some e \<Rightarrow> (Inl e, db)
      | None \<Rightarrow>
          (let raw = generate_api_token env;
               t = \<lparr>t_id = e_new_id env (map t_id (tokens db)), t_user_id = u_id (p_user p),
                    t_workspace_id = tc_workspace_id payload, t_name = tc_name payload,
                    t_token_hash = hash_token env raw, t_role_ceiling = tc_role_ceiling payload,
                    t_created_at = e_now env, t_last_used_at = None, t_revoked_at = None\<rparr>
           in (Inr (t, raw),
               record_audit env ''token.create'' (Some (p_user p)) None (tc_workspace_id payload)
                 (Some (tc_name payload)) [(''role_ceiling'', JStr (tc_role_ceiling payload))]
                 (db\<lparr>tokens := insert_row t (tokens db)\<rparr>)))))"

definition revoke_token :: "env \<Rightarrow> principal \<Rightarrow> int \<Rightarrow> db \<Rightarrow> unit result \<times> db" where
  "revoke_token env p token_id db =
     (case get_row t_id token_id (tokens db) of
        None \<Rightarrow> (Inl (HTTPException 404 ''Token not found''), db)
      | Some t \<Rightarrow>
          if t_user_id t \<noteq> u_id (p_user p) then (Inl (HTTPException 404 ''Token not found''), db)
          else
            (Inr (), record_audit env ''token.revoke'' (Some (p_user p)) None None (Some (t_name t)) []
               (db\<lparr>tokens := modify_row t_id token_id (t_revoked_at_update (\<lambda>_. Some (e_now env)))
                               (tokens db)\<rparr>)))"

section \<open>Administration\<close>

record local_user_create_in =
  lu_username :: string
  lu_password :: string
  lu_display_name :: "string option"
  lu_is_global_admin :: bool

definition valid_local_user :: "local_user_create_in \<Rightarrow> bool" where
  "valid_local_user p \<longleftrightarrow>
     1 \<le> length (lu_username p) \<and> length (lu_username p) \<le> 255 \<and>
     8 \<le> length (lu_password p) \<and> length (lu_password p) \<le> 1024 \<and>
     opt_ok (\<lambda>d. length d \<le> 200) (lu_display_name p)"

definition require_global_admin :: "principal \<Rightarrow> principal result" where
  "require_global_admin p =
     (if is_global_admin p then Inr p else Inl (HTTPException 403 ''Global admin required''))"

definition list_users :: "db \<Rightarrow> principal \<Rightarrow> user list result" where
  "list_users db p =
     bind_result (require_global_admin p) (\<lambda>_. Inr (sort_key u_id (users db)))"

definition create_local_user ::
  "env \<Rightarrow> principal \<Rightarrow> local_user_create_in \<Rightarrow> db \<Rightarrow> user result \<times> db" where
  "create_local_user env p payload db =
     (case require_global_admin p of
        Inl e \<Rightarrow> (Inl e, db)
      | Inr _ \<Rightarrow>
          if \<not> valid_local_user payload then (Inl unprocessable, db)
          else if get_user_by_subject db ''local'' (lu_username payload) \<noteq> None
          then (Inl (HTTPException 409 ''A local user with that username already exists''), db)
          else
            (let u = \<lparr>u_id = e_new_id env (map u_id (users db)), u_provider = ''local'',
                      u_subject = lu_username payload, u_email = None,
                      u_display_name = str_or (lu_display_name payload) (Some (lu_username payload)),
                      u_password_hash = Some (hash_password env (lu_password payload)),
                      u_is_global_admin = lu_is_global_admin payload, u_is_active = True,
                      u_created_at = e_now env, u_last_login_at = None\<rparr>
             in case ensure_personal_workspace env u (add_user u db) of
                  (Inl e, _) \<Rightarrow> (Inl e, db)
                | (Inr _, db1) \<Rightarrow>
                    (Inr u, record_audit env ''user.create'' (Some (p_user p)) None None
                       (Some (lu_username payload))
                       [(''provider'', JStr ''local''),
                        (''global_admin'', JBool (lu_is_global_admin payload))] db1)))"

definition set_user_active ::
  "env \<Rightarrow> principal \<Rightarrow> int \<Rightarrow> bool \<Rightarrow> db \<Rightarrow> user result \<times> db" where
  "set_user_active env p user_id active db =
     (case require_global_admin p of
        Inl e \<Rightarrow> (Inl e, db)
      | Inr _ \<Rightarrow>
          (case get_row u_id user_id (users db) of
             None \<Rightarrow> (Inl (HTTPException 404 ''User not found''), db)
           | Some u \<Rightarrow>
               if \<not> active \<and> u_id u = u_id (p_user p)
               then (Inl (HTTPException 400 ''You cannot deactivate your own account''), db)
               else
                 (Inr (u\<lparr>u_is_active := active\<rparr>),
                  record_audit env ''user.active'' (Some (p_user p)) None None (Some (u_subject u))
                    [(''active'', JBool active)]
                    (update_user user_id (u_is_active_update (\<lambda>_. active)) db))))"

definition global_audit :: "db \<Rightarrow> principal \<Rightarrow> nat \<Rightarrow> nat \<Rightarrow> (audit_log list \<times> nat) result" where
  "global_audit db p limit offset =
     bind_result (require_global_admin p) (\<lambda>_.
       if limit < 1 \<or> limit > 1000 then Inl unprocessable
       else Inr (take limit (drop offset (latest_audit (audit_rows db))), length (audit_rows db)))"

section \<open>The life of a token\<close>

lemma get_row_audit_tokens [simp]:
  "get_token env raw (record_audit env' ev u a w t d db) = get_token env raw db"
  by (simp add: get_token_def)

lemma create_token_Inr:
  assumes "create_token env p payload db = (Inr (t, raw), db')"
  shows "raw = generate_api_token env \<and> p_token_role_ceiling p = None \<and>
    t_token_hash t = hash_token env raw \<and> t_user_id t = u_id (p_user p) \<and>
    t_workspace_id t = tc_workspace_id payload \<and> t_role_ceiling t = tc_role_ceiling payload \<and>
    t_revoked_at t = None \<and> valid_role_literal (tc_role_ceiling payload) \<and>
    tokens db' = insert_row t (tokens db) \<and> users db' = users db \<and>
    workspaces db' = workspaces db \<and> members db' = members db"
  using assms by (auto simp: create_token_def Let_def split: if_splits option.splits)

lemma valid_role_literal_parse: "valid_role_literal r \<Longrightarrow> \<exists>x. role_parse r = Inr x"
  by (auto simp: valid_role_literal_def)

lemma created_token_authenticates:
  assumes created: "create_token env p payload db = (Inr (t, raw), db')"
    and user: "get_row u_id (u_id (p_user p)) (users db) = Some u" and active: "u_is_active u"
    and fresh: "get_row t_token_hash (hash_token env raw) (tokens db) = None"
    and ceil: "role_parse (tc_role_ceiling payload) = Inr r"
  shows "fst (principal_from_token env raw db') =
    Inr (Some \<lparr>p_user = u, p_token_workspace_id = tc_workspace_id payload,
               p_token_role_ceiling = Some r\<rparr>)"
proof -
  note c = create_token_Inr [OF created]
  have "get_token env raw db' = Some t"
    using c fresh by (simp add: get_token_def get_row_insert_row)
  with c user active ceil show ?thesis
    by (simp add: principal_from_token_def)
qed

lemma revoked_token_rejected:
  assumes wf: "wf_db db" and row: "get_token env raw db = Some t"
    and revoked: "revoke_token env' p (t_id t) db = (Inr (), db')"
  shows "fst (principal_from_token env raw db') = Inr None"
proof -
  have "t \<in> set (tokens db)" "t_token_hash t = hash_token env raw"
    using row by (auto simp: get_token_def dest: get_row_Some)
  moreover have "tokens db' = modify_row t_id (t_id t) (t_revoked_at_update (\<lambda>_. Some (e_now env'))) (tokens db)"
    using revoked by (auto simp: revoke_token_def split: option.splits if_splits)
  ultimately have "get_token env raw db' = Some (t\<lparr>t_revoked_at := Some (e_now env')\<rparr>)"
    using wf row get_row_modify_other_key [of t_id "tokens db" t_token_hash t
        "t_revoked_at_update (\<lambda>_. Some (e_now env'))" "hash_token env raw"]
    by (simp add: get_token_def wf_db_def)
  then show ?thesis by (simp add: principal_from_token_def)
qed

lemma deactivated_user_rejected:
  assumes "set_user_active env p uid False db = (Inr x, db')"
  shows "principal_from_request env' s rq db' \<noteq> (Inr (Some q), db'') \<or> u_id (p_user q) \<noteq> uid"
proof (rule ccontr)
  assume neg: "\<not> ?thesis"
  then have "u_is_active (p_user q) \<and> p_user q \<in> set (users db')"
    by (intro principal_from_request_active) auto
  moreover have "users db' = modify_row u_id uid (u_is_active_update (\<lambda>_. False)) (users db)"
    using assms
    by (auto simp: set_user_active_def update_user_def split: sum.splits option.splits if_splits)
  ultimately show False using neg
    by (auto simp: modify_row_def table_simps)
qed

section \<open>The administrator's endpoints do not look at the token\<close>

lemma require_global_admin_ignores_token:
  "is_global_admin (p\<lparr>p_token_workspace_id := w, p_token_role_ceiling := c\<rparr>) = is_global_admin p"
  by (simp add: is_global_admin_def)

lemma admin_handlers_ignore_token:
  "create_local_user env (p\<lparr>p_token_workspace_id := w, p_token_role_ceiling := c\<rparr>) payload db =
     create_local_user env p payload db"
  "set_user_active env (p\<lparr>p_token_workspace_id := w, p_token_role_ceiling := c\<rparr>) uid a db =
     set_user_active env p uid a db"
  by (auto simp: create_local_user_def set_user_active_def require_global_admin_def is_global_admin_def
      Let_def split: option.splits sum.splits prod.splits)

end
