(* ===== verification/Login.thy ===== *)
theory Login
  imports Tokens_Admin
begin

text \<open>
  Login (\<open>backend/app/api/auth.py\<close>): the in-process rate limiter for local passwords, the local
  and OIDC login handlers with their session cookie, and the store of pending OIDC states.
  Monotonic times are rationals in seconds; a handler reads the clock once. The exchange of the
  authorization code with the identity provider (authlib) is an argument: its claims, or the
  text of the exception it raised.
\<close>

record auth_state =
  failures :: "(string, nat \<times> rat) dict"
  oidc_states :: "(string, rat) dict"

definition MAX_FAILURES :: nat where
  "MAX_FAILURES = 5"

definition WINDOW :: rat where
  "WINDOW = 300"

definition OIDC_STATE_TTL :: rat where
  "OIDC_STATE_TTL = 600"

section \<open>Rate limiter\<close>

definition rate_key :: "string option \<Rightarrow> string \<Rightarrow> string" where
  "rate_key client_host username =
     (case client_host of None \<Rightarrow> ''?'' | Some h \<Rightarrow> h) @ '':'' @ username"

definition rate_limited :: "rat \<Rightarrow> string \<Rightarrow> auth_state \<Rightarrow> bool" where
  "rate_limited now key st =
     (let (count, first) = dict_get_or (failures st) key (0, 0)
      in count \<ge> MAX_FAILURES \<and> now - first < WINDOW)"

definition record_failure :: "rat \<Rightarrow> string \<Rightarrow> auth_state \<Rightarrow> auth_state" where
  "record_failure now key st =
     (let (count, first) = dict_get_or (failures st) key (0, 0);
          (count, first) = (if now - first \<ge> WINDOW then (0, now) else (count, first))
      in st\<lparr>failures := dict_set key (count + 1, if first \<noteq> 0 then first else now) (failures st)\<rparr>)"

definition clear_failures :: "string \<Rightarrow> auth_state \<Rightarrow> auth_state" where
  "clear_failures key st = st\<lparr>failures := dict_pop key (failures st)\<rparr>"

section \<open>Session cookie\<close>

record cookie =
  ck_name :: string
  ck_value :: string
  ck_max_age :: int
  ck_httponly :: bool
  ck_secure :: bool
  ck_samesite :: string
  ck_path :: string

definition session_cookie :: "env \<Rightarrow> settings \<Rightarrow> int \<Rightarrow> cookie" where
  "session_cookie env s user_id =
     \<lparr>ck_name = st_session_cookie_name s,
      ck_value = sign_session env (session_signing_key (e_ephemeral_key env) s) user_id,
      ck_max_age = st_session_ttl_seconds s,
      ck_httponly = True,
      ck_secure = st_session_cookie_secure s,
      ck_samesite = ''lax'',
      ck_path = st_base_path s @ ''/''\<rparr>"

section \<open>Local login\<close>

record login_in =
  li_username :: string
  li_password :: string

definition valid_login :: "login_in \<Rightarrow> bool" where
  "valid_login p \<longleftrightarrow>
     1 \<le> length (li_username p) \<and> length (li_username p) \<le> 255 \<and>
     1 \<le> length (li_password p) \<and> length (li_password p) \<le> 1024"

definition check_local_user :: "env \<Rightarrow> db \<Rightarrow> login_in \<Rightarrow> user option" where
  "check_local_user env db payload =
     (case get_user_by_subject db ''local'' (li_username payload) of
        None \<Rightarrow> None
      | Some u \<Rightarrow>
          if u_is_active u \<and> verify_password env (li_password payload) (u_password_hash u)
          then Some u else None)"

definition local_login ::
  "env \<Rightarrow> settings \<Rightarrow> rat \<Rightarrow> string option \<Rightarrow> login_in \<Rightarrow> db \<times> auth_state \<Rightarrow>
   (user \<times> cookie) result \<times> db \<times> auth_state" where
  "local_login env s now client_host payload state =
     (let (db, st) = state; key = rate_key client_host (li_username payload)
      in if \<not> valid_login payload then (Inl unprocessable, db, st)
         else if \<not> st_local_login_enabled s
         then (Inl (HTTPException 403 ''Local login is disabled''), db, st)
         else if rate_limited now key st
         then (Inl (HTTPException 429 ''Too many login attempts; try again later''), db, st)
         else (case check_local_user env db payload of
           None \<Rightarrow>
             (Inl (HTTPException 401 ''Invalid username or password''),
              record_audit env ''login.failure'' None (Some (li_username payload)) None None
                [(''provider'', JStr ''local'')] db,
              record_failure now key st)
         | Some u \<Rightarrow>
             (Inr (u\<lparr>u_last_login_at := Some (e_now env)\<rparr>, session_cookie env s (u_id u)),
              record_audit env ''login.success'' (Some u) None None None [(''provider'', JStr ''local'')]
                (update_user (u_id u) (u_last_login_at_update (\<lambda>_. Some (e_now env))) db),
              clear_failures key st)))"

text \<open>\<open>/auth/me\<close>: every workspace for a global admin, else the user's own.\<close>

definition me_workspaces :: "db \<Rightarrow> principal \<Rightarrow> (workspace \<times> string) list" where
  "me_workspaces db p =
     (if is_global_admin p then map (\<lambda>w. (w, ''admin'')) (workspaces db)
      else concat (map (\<lambda>w. map (\<lambda>m. (w, m_role m))
        (filter (\<lambda>m. m_workspace_id m = ws_id w \<and> m_user_id m = u_id (p_user p)) (members db)))
        (workspaces db)))"

section \<open>OIDC login\<close>

text \<open>The claims the callback reads; a group claim is a single name or a list of names.\<close>

record oidc_claims =
  cl_sub :: "string option"
  cl_email :: "string option"
  cl_name :: "string option"
  cl_groups :: "(string + string list) option"

definition oidc_login :: "settings \<Rightarrow> rat \<Rightarrow> string \<Rightarrow> auth_state \<Rightarrow> string result \<times> auth_state" where
  "oidc_login s now state st =
     (if \<not> oidc_enabled s then (Inl (HTTPException 404 ''OIDC is not configured''), st)
      else (Inr state, st\<lparr>oidc_states := dict_set state now (oidc_states st)\<rparr>))"

definition drop_expired_states :: "rat \<Rightarrow> auth_state \<Rightarrow> auth_state" where
  "drop_expired_states now st =
     st\<lparr>oidc_states := filter (\<lambda>(s, t). \<not> now - t > OIDC_STATE_TTL) (oidc_states st)\<rparr>"

definition claimed_groups :: "oidc_claims \<Rightarrow> string list" where
  "claimed_groups c =
     (case cl_groups c of
        None \<Rightarrow> []
      | Some (Inl g) \<Rightarrow> if g = [] then [] else [g]
      | Some (Inr gs) \<Rightarrow> gs)"

definition oidc_callback ::
  "env \<Rightarrow> settings \<Rightarrow> rat \<Rightarrow> string \<Rightarrow> string + oidc_claims \<Rightarrow> db \<times> auth_state \<Rightarrow>
   (string \<times> cookie) result \<times> db \<times> auth_state" where
  "oidc_callback env s now state exchange dbst =
     (let (db, st) = dbst
      in if \<not> oidc_enabled s then (Inl (HTTPException 404 ''OIDC is not configured''), db, st)
         else
           (let st1 = drop_expired_states now st
            in if dict_get (oidc_states st1) state = None
               then (Inl (HTTPException 400 ''Invalid or expired OIDC state''), db, st1)
               else
                 (let st2 = st1\<lparr>oidc_states := dict_pop state (oidc_states st1)\<rparr>
                  in case exchange of
                       Inl exc \<Rightarrow>
                         (Inl (HTTPException 401 ''OIDC authentication failed''),
                          record_audit env ''login.failure'' None None None None
                            [(''provider'', JStr ''oidc''), (''error'', JStr exc)] db, st2)
                     | Inr claims \<Rightarrow>
                         if \<not> truthy (cl_sub claims)
                         then (Inl (HTTPException 401 ''OIDC response missing subject''), db, st2)
                         else (case get_or_create_oidc_user env (the (cl_sub claims)) (cl_email claims)
                                      (cl_name claims) db of
                             (Inl e, db1) \<Rightarrow> (Inl e, db1, st2)
                           | (Inr u, db1) \<Rightarrow>
                               (let db2 = sync_oidc_group_memberships env u (claimed_groups claims) db1
                                in (Inr (st_base_path s @ ''/'', session_cookie env s (u_id u)),
                                    record_audit env ''login.success'' (Some u) None None None
                                      [(''provider'', JStr ''oidc'')] db2,
                                    st2))))))"

section \<open>The rate limiter bounds password guesses\<close>

text \<open>A run of failing logins for one key at the given times: for each, whether the password was
  looked at.\<close>

fun failing_logins :: "string \<Rightarrow> rat list \<Rightarrow> auth_state \<Rightarrow> bool list" where
  "failing_logins key [] st = []"
| "failing_logins key (t # ts) st =
     (if rate_limited t key st then False # failing_logins key ts st
      else True # failing_logins key ts (record_failure t key st))"

lemma local_login_verified:
  assumes "valid_login payload" and "st_local_login_enabled s" and "check_local_user env db payload = None"
    and key: "key = rate_key host (li_username payload)"
  shows "local_login env s now host payload (db, st) =
    (if rate_limited now key st
     then (Inl (HTTPException 429 ''Too many login attempts; try again later''), db, st)
     else (Inl (HTTPException 401 ''Invalid username or password''),
           record_audit env ''login.failure'' None (Some (li_username payload)) None None
             [(''provider'', JStr ''local'')] db,
           record_failure now key st))"
  using assms by (simp add: local_login_def Let_def)

lemma failing_logins_window:
  assumes "dict_get (failures st) key = Some (n, t0)" and "0 < t0" and "\<forall>t\<in>set ts. t0 \<le> t \<and> t < t0 + WINDOW"
  shows "count_list (failing_logins key ts st) True \<le> MAX_FAILURES - n"
  using assms
proof (induction ts arbitrary: st n)
  case (Cons t ts)
  show ?case
  proof (cases "rate_limited t key st")
    case True
    with Cons show ?thesis by simp
  next
    case False
    with Cons.prems have "n < MAX_FAILURES"
      by (auto simp: rate_limited_def dict_get_or_def)
    moreover have "dict_get (failures (record_failure t key st)) key = Some (n + 1, t0)"
      using Cons.prems by (auto simp: record_failure_def dict_get_or_def update_conv')
    with Cons have "count_list (failing_logins key ts (record_failure t key st)) True \<le> MAX_FAILURES - (n + 1)"
      by simp
    ultimately show ?thesis using False by simp
  qed
qed simp

text \<open>A sequence of login attempts from one address, and how often a password was examined.\<close>

fun login_attempts ::
  "env \<Rightarrow> settings \<Rightarrow> string option \<Rightarrow> (rat \<times> login_in) list \<Rightarrow> db \<times> auth_state \<Rightarrow> (user \<times> cookie) result list" where
  "login_attempts env s host [] st = []"
| "login_attempts env s host ((now, payload) # rest) st =
     (let r = local_login env s now host payload st
      in fst r # login_attempts env s host rest (snd r))"

definition too_many :: "('a) result" where
  "too_many = Inl (HTTPException 429 ''Too many login attempts; try again later'')"

definition examined :: "(user \<times> cookie) result list \<Rightarrow> nat" where
  "examined rs = length (filter (\<lambda>r. r \<noteq> too_many) rs)"

lemma check_local_user_audit [simp]:
  "check_local_user env (record_audit env ev u a w t d db) p = check_local_user env db p"
  by (simp add: check_local_user_def get_user_by_subject_def)

text \<open>For one user name and address: the attempts are what \<open>failing_logins\<close> says.\<close>

lemma login_attempts_failing:
  assumes "st_local_login_enabled s"
    and "\<forall>(now, p)\<in>set as. valid_login p \<and> li_username p = name \<and> check_local_user env db p = None"
  shows "map (\<lambda>r. r \<noteq> too_many) (login_attempts env s host as (db, st)) =
    failing_logins (rate_key host name) (map fst as) st"
  using assms(2)
proof (induction as arbitrary: db st)
  case (Cons a as)
  obtain now p where a: "a = (now, p)" by fastforce
  with Cons.prems have p: "valid_login p" "check_local_user env db p = None" "li_username p = name" by auto
  have step: "local_login env s now host p (db, st) =
      (if rate_limited now (rate_key host name) st
       then (Inl (HTTPException 429 ''Too many login attempts; try again later''), db, st)
       else (Inl (HTTPException 401 ''Invalid username or password''),
             record_audit env ''login.failure'' None (Some name) None None [(''provider'', JStr ''local'')] db,
             record_failure now (rate_key host name) st))"
    using local_login_verified [OF p(1) assms(1) p(2) refl] p(3) by simp
  have "\<forall>(now, p)\<in>set as. valid_login p \<and> li_username p = name \<and> check_local_user env db p = None"
    using Cons.prems by simp
  with Cons.IH [of db st]
    Cons.IH [of "record_audit env ''login.failure'' None (Some name) None None [(''provider'', JStr ''local'')] db"
      "record_failure now (rate_key host name) st"]
  show ?case by (simp add: a step too_many_def)
qed simp

lemma examined_count: "examined rs = count_list (map (\<lambda>r. r \<noteq> too_many) rs) True"
  by (induction rs) (auto simp: examined_def)

lemma failing_logins_fresh:
  assumes "dict_get (failures st) key = None" and "0 < t0" and "\<forall>t\<in>set ts. t0 \<le> t \<and> t < t0 + WINDOW"
  shows "count_list (failing_logins key (t0 # ts) st) True \<le> MAX_FAILURES"
proof -
  have "dict_get (failures (record_failure t0 key st)) key = Some (1, t0)"
    using assms(1,2) by (simp add: record_failure_def dict_get_or_def update_conv')
  from failing_logins_window [OF this assms(2,3)]
  have "count_list (failing_logins key ts (record_failure t0 key st)) True \<le> MAX_FAILURES - 1" .
  moreover have "\<not> rate_limited t0 key st"
    using assms(1) by (simp add: rate_limited_def dict_get_or_def MAX_FAILURES_def)
  ultimately show ?thesis by (simp add: MAX_FAILURES_def)
qed

text \<open>Entries of the limiter never exceed the maximum.\<close>

definition failures_bounded :: "auth_state \<Rightarrow> bool" where
  "failures_bounded st \<longleftrightarrow> (\<forall>key n t. dict_get (failures st) key = Some (n, t) \<longrightarrow> n \<le> MAX_FAILURES)"

lemma record_failure_bounded:
  assumes "failures_bounded st" and "\<not> rate_limited now key st"
  shows "failures_bounded (record_failure now key st)"
  using assms
  by (auto simp: failures_bounded_def record_failure_def rate_limited_def dict_get_or_def update_conv'
      MAX_FAILURES_def split: option.splits if_splits prod.splits)

lemma clear_failures_bounded: "failures_bounded st \<Longrightarrow> failures_bounded (clear_failures key st)"
  by (auto simp: failures_bounded_def clear_failures_def delete_conv' split: if_splits)

lemma local_login_bounded:
  assumes "failures_bounded st" and "local_login env s now host payload (db, st) = (r, db', st')"
  shows "failures_bounded st'"
  using assms
  by (auto simp: local_login_def Let_def clear_failures_bounded record_failure_bounded
      split: if_splits option.splits)

section \<open>OIDC states are used once\<close>

lemma map_of_filter_key:
  assumes "map_of (filter P xs) k = Some v"
  shows "\<exists>v'. (k, v') \<in> set xs \<and> P (k, v')"
  using map_of_SomeD [OF assms] by auto

lemma oidc_callback_consumes:
  assumes "oidc_callback env s now state exchange (db, st) = (r, db', st')" and "oidc_enabled s"
  shows "dict_get (oidc_states st') state = None"
  using assms
  by (auto simp: oidc_callback_def Let_def delete_conv' split: if_splits option.splits prod.splits sum.splits)

lemma oidc_callback_unknown_state:
  assumes "oidc_enabled s" and "state \<notin> fst ` set (oidc_states st)"
  shows "fst (oidc_callback env s now state exchange (db, st)) =
    Inl (HTTPException 400 ''Invalid or expired OIDC state'')"
proof -
  have "dict_get (oidc_states (drop_expired_states now st)) state = None"
    using assms(2) by (auto simp: drop_expired_states_def map_of_eq_None_iff)
  with assms(1) show ?thesis by (simp add: oidc_callback_def Let_def)
qed

section \<open>A login's cookie authenticates its user\<close>

lemma local_login_Inr:
  assumes "local_login env s now host payload (db, st) = (Inr (u', ck), db', st')"
  shows "\<exists>u. check_local_user env db payload = Some u \<and> ck = session_cookie env s (u_id u) \<and>
    users db' = modify_row u_id (u_id u) (u_last_login_at_update (\<lambda>_. Some (e_now env))) (users db) \<and>
    u' = u\<lparr>u_last_login_at := Some (e_now env)\<rparr>"
  using assms
  by (auto simp: local_login_def Let_def update_user_def split: if_splits option.splits)

lemma login_cookie_authenticates:
  assumes login: "local_login env s now host payload (db, st) = (Inr (u', ck), db', st')"
    and wf: "wf_db db"
    and signer: "signer_ok env (session_signing_key (e_ephemeral_key env) s) (st_session_ttl_seconds s)"
    and nonempty: "ck_value ck \<noteq> []"
  shows "principal_from_request env s
      \<lparr>rq_authorization = [], rq_cookies = [(ck_name ck, ck_value ck)], rq_token = None\<rparr> db' =
    (Inr (Some (session_principal u')), db')"
proof -
  from local_login_Inr [OF login] obtain u where chk: "check_local_user env db payload = Some u"
    and ck: "ck = session_cookie env s (u_id u)"
    and users: "users db' = modify_row u_id (u_id u) (u_last_login_at_update (\<lambda>_. Some (e_now env))) (users db)"
    and u': "u' = u\<lparr>u_last_login_at := Some (e_now env)\<rparr>" by blast
  from chk have "u \<in> set (users db)" and act: "u_is_active u"
    by (auto simp: check_local_user_def get_user_by_subject_def dest: get_row_Some
        split: option.splits if_splits)
  with wf have "get_row u_id (u_id u) (users db') = Some u'"
    unfolding users u' by (simp add: get_row_modify_row get_row_distinct wf_db_def)
  with act u' ck nonempty verify_sign_session [OF signer, of "u_id u"] show ?thesis
    by (simp add: principal_from_request_def is_bearer_def str_lower_def startswith_def
        principal_from_cookie_def session_cookie_def)
qed

end
