(* ===== verification/Sample.thy ===== *)
theory Sample
  imports Login
begin

text \<open>
  A small concrete deployment on which the hypotheses of the properties are shown to be
  satisfiable: two workspaces, an administrator, a viewer, an outsider, and functions that behave
  as the libraries document (a signer that round-trips, a hash that is injective).
\<close>

definition sample_env :: env where
  "sample_env = \<lparr>e_now = 1000, e_new_id = sqlite_rowid, e_fk_cascade = True,
     e_hash_password = (\<lambda>p. CHR ''$'' # p),
     e_verify_password = (\<lambda>p h. Some (h = CHR ''$'' # p)),
     e_hash_token = rev, e_token_urlsafe = ''k3y'',
     e_sign = (\<lambda>k s. s), e_unsign = (\<lambda>k v age. Some v), e_ephemeral_key = ''eph''\<rparr>"

lemma sample_env_simps [simp]:
  "e_now sample_env = 1000" "e_new_id sample_env = sqlite_rowid" "e_fk_cascade sample_env"
  "e_hash_password sample_env p = CHR ''$'' # p"
  "e_verify_password sample_env p h = Some (h = CHR ''$'' # p)"
  "e_hash_token sample_env t = rev t" "e_token_urlsafe sample_env = ''k3y''"
  "e_sign sample_env k s = s" "e_unsign sample_env k s age = Some s" "e_ephemeral_key sample_env = ''eph''"
  by (simp_all add: sample_env_def)

lemma sample_env_fresh [simp]: "fresh_ids sample_env"
  by (simp add: fresh_ids_def sqlite_rowid_fresh sqlite_rowid_pos)

lemma sample_signer [simp]: "signer_ok sample_env k age"
  by (simp add: signer_ok_def)

definition sample_user :: "int \<Rightarrow> string \<Rightarrow> bool \<Rightarrow> user" where
  "sample_user i nm adm = \<lparr>u_id = i, u_provider = ''local'', u_subject = nm, u_email = None,
     u_display_name = None, u_password_hash = Some (CHR ''$'' # nm), u_is_global_admin = adm,
     u_is_active = True, u_created_at = 0, u_last_login_at = None\<rparr>"

definition sample_workspace :: "int \<Rightarrow> string \<Rightarrow> bool \<Rightarrow> workspace" where
  "sample_workspace i nm private = \<lparr>ws_id = i, ws_name = nm, ws_kind = ''shared'', ws_owner_user_id = None,
     ws_run_visibility = ''all'', ws_allow_private_targets = private, ws_max_concurrent_runs = 2,
     ws_oidc_group_admin = None, ws_oidc_group = Some ''team'', ws_oidc_group_viewer = None,
     ws_created_at = 0\<rparr>"

definition sample_member :: "int \<Rightarrow> int \<Rightarrow> int \<Rightarrow> string \<Rightarrow> string \<Rightarrow> workspace_member" where
  "sample_member i w u role source = \<lparr>m_id = i, m_workspace_id = w, m_user_id = u, m_role = role,
     m_source = Some source, m_created_at = 0\<rparr>"

definition sample_token :: api_token where
  "sample_token = \<lparr>t_id = 1, t_user_id = 1, t_workspace_id = Some 1, t_name = ''ci'',
     t_token_hash = rev ''ocspt_old'', t_role_ceiling = ''member'', t_created_at = 0,
     t_last_used_at = None, t_revoked_at = None\<rparr>"

definition sample_db :: db where
  "sample_db = empty_db
     \<lparr>users := [sample_user 1 ''ann'' False, sample_user 2 ''bob'' False, sample_user 3 ''root'' True],
      workspaces := [sample_workspace 1 ''Lab'' False, sample_workspace 2 ''Ops'' True],
      members := [sample_member 1 1 1 ''admin'' ''manual'', sample_member 2 1 2 ''viewer'' ''oidc''],
      tokens := [sample_token]\<rparr>"

lemmas sample_defs = sample_db_def sample_user_def sample_workspace_def sample_member_def sample_token_def
  empty_db_def

lemma sample_db_wf: "wf_db sample_db"
  by (simp add: wf_db_def sample_defs members_wf_def member_key_def ca_keys_def profile_keys_def)

lemma sample_db_managed: "managed sample_db"
  by (simp add: managed_def members_linked_def sample_defs members_wf_def member_key_def)

definition ann :: principal where
  "ann = session_principal (sample_user 1 ''ann'' False)"

definition bob :: principal where
  "bob = session_principal (sample_user 2 ''bob'' False)"

definition root_admin :: principal where
  "root_admin = session_principal (sample_user 3 ''root'' True)"

lemmas sample_principals = ann_def bob_def root_admin_def session_principal_def is_global_admin_def

lemmas lookup_simps = get_row_simps get_membership_def member_key_def

definition sample_ctx :: workspace_context where
  "sample_ctx = \<lparr>c_workspace = sample_workspace 1 ''Lab'' False, c_principal = ann, c_role = Admin\<rparr>"

lemma sample_ctx_authorized: "require_workspace sample_db ann 1 Member = Inr sample_ctx"
  by (simp add: require_workspace_def sample_defs sample_principals lookup_simps base_role_def
      finish_context_def cap_role_def sample_ctx_def)

end
