(* ===== verification/Access_Properties.thy ===== *)
theory Access_Properties
  imports Sample
begin

text \<open>
  The properties of identity and access: what a request's workspace context means, who is refused,
  that a workspace keeps an administrator, what group synchronisation does, and the life of
  sessions, tokens, login attempts and OIDC states.
\<close>

section \<open>Workspace contexts\<close>




text \<open>C2: Exactly who may act in a workspace at a given role: it exists, the token (if any) is not
  scoped to another workspace, and the caller is a global administrator or a member whose role,
  cut to the token's ceiling, is high enough. Everybody else is refused.\<close>

theorem workspace_access_exact:
  "(\<exists>ctx. require_workspace db p w r = Inr ctx) \<longleftrightarrow>
     (\<exists>ws. get_row ws_id w (workspaces db) = Some ws) \<and>
     p_token_workspace_id p \<in> {None, Some w} \<and>
     (\<exists>held. r \<le> (case p_token_role_ceiling p of None \<Rightarrow> held | Some c \<Rightarrow> min held c) \<and>
        (if is_global_admin p then held = Admin
         else map_option m_role (get_membership db (u_id (p_user p)) w) = Some (role_name held)))"
  unfolding require_workspace_eq authorize_workspace_role_Inr base_role_Inr finish_context_Inr
  by (auto simp: cap_role_min)

section \<open>A workspace keeps an administrator\<close>



text \<open>C4: Group synchronisation reconciles, and touches nothing else: after it, the caller's
  membership of every workspace that maps a group is what the groups entitle to - granted,
  changed or revoked when it is group-managed, kept as it was when an administrator set it by
  hand - and every other membership of every user is unchanged.\<close>

theorem group_sync_reconciles:
  assumes "fresh_ids env" and "members_wf (members db)" and "distinct (map ws_id (workspaces db))"
  shows "membership_view (sync_oidc_group_memberships env u groups db) uid wid =
    (case get_row ws_id wid (filter maps_a_group (workspaces db)) of
       None \<Rightarrow> membership_view db uid wid
     | Some ws \<Rightarrow>
         if uid = u_id u then reconcile ws (filter (\<lambda>g. g \<noteq> []) groups) (membership_view db uid wid)
         else membership_view db uid wid)"
  using assms unfolding sync_oidc_group_memberships_def Let_def
  by (intro sync_fold_view) (simp_all add: distinct_map_filter)

theorem group_sync_reconciles_witness:
  "membership_view (sync_oidc_group_memberships sample_env (sample_user 2 ''bob'' False) [''team''] sample_db) 2 1
    = Some (''member'', Some ''oidc'')"
proof -
  have "members_wf (members sample_db)" "distinct (map ws_id (workspaces sample_db))"
    using sample_db_wf by (simp_all add: wf_db_def)
  from group_sync_reconciles [OF sample_env_fresh this, of "sample_user 2 ''bob'' False" "[''team'']" 2 1]
  show ?thesis
    by (simp add: sample_defs lookup_simps membership_view_def entitled_role_def in_groups_def maps_a_group_def)
qed

end
