(* ===== verification/Credential_Properties.thy ===== *)
theory Credential_Properties
  imports Sample
begin

text \<open>
  The properties of credentials: what a token, a session cookie, a password attempt and an OIDC
  state are good for, and when they stop being accepted.
\<close>

section \<open>Tokens\<close>

definition ci_token_in :: token_create_in where
  "ci_token_in = \<lparr>tc_name = ''ci'', tc_workspace_id = Some 1, tc_role_ceiling = ''viewer''\<rparr>"

lemma bearer_header:
  "is_bearer (''Bearer '' @ raw)" "bearer_token (''Bearer '' @ raw) = strip raw"
proof -
  have "lower_char CHR ''B'' = CHR ''b''"
    by (simp add: lower_char_def char_of_def bit_0)
  then have "str_lower (''Bearer '' @ raw) = ''bearer '' @ str_lower raw"
    by (simp add: str_lower_def lower_char_def)
  then show "is_bearer (''Bearer '' @ raw)"
    unfolding is_bearer_def by (metis startswith_append)
qed (simp add: bearer_token_def)

text \<open>C5: A token that was just created, sent as a bearer header, authenticates its owner, in the
  scope and under the role ceiling that were asked for; only a session, never another token, can
  create one. (\<open>secrets.token_urlsafe\<close> draws from an alphabet without white space, and the
  unique index keeps two tokens from sharing a hash.)\<close>

theorem created_token_works:
  assumes "create_token env p payload db = (Inr (t, raw), db')"
    and "get_row u_id (u_id (p_user p)) (users db) = Some u" and "u_is_active u"
    and "get_row t_token_hash (hash_token env raw) (tokens db) = None"
    and "list_all (\<lambda>c. \<not> is_space c) (e_token_urlsafe env)"
  shows "p_token_role_ceiling p = None \<and>
    (\<exists>r. role_name r = tc_role_ceiling payload \<and>
      fst (principal_from_request env s
         \<lparr>rq_authorization = ''Bearer '' @ raw, rq_cookies = [], rq_token = None\<rparr> db') =
      Inr (Some \<lparr>p_user = u, p_token_workspace_id = tc_workspace_id payload, p_token_role_ceiling = Some r\<rparr>))"
proof -
  note c = create_token_Inr [OF assms(1)]
  then obtain r where r: "role_parse (tc_role_ceiling payload) = Inr r"
    using valid_role_literal_parse by blast
  from c assms(5) have raw: "raw \<noteq> [] \<and> list_all (\<lambda>c. \<not> is_space c) raw"
    by (simp add: generate_api_token_def TOKEN_PREFIX_def is_space_def)
  then have "strip raw = raw"
    by (intro strip_unspaced) (auto simp: list_all_iff)
  moreover obtain h where h: "h = ''Bearer '' @ raw" by blast
  ultimately have "principal_from_request env s \<lparr>rq_authorization = h, rq_cookies = [], rq_token = None\<rparr> db' =
      principal_from_token env raw db'"
    using bearer_header [of raw] by (simp add: principal_from_request_def)
  moreover have "role_name r = tc_role_ceiling payload"
    using r by (simp add: role_parse_Inr)
  ultimately show ?thesis
    using created_token_authenticates [OF assms(1-4) r] c unfolding h [symmetric] by auto
qed

theorem created_token_works_witness:
  "fst (principal_from_request sample_env default_settings
       \<lparr>rq_authorization = ''Bearer '' @ ''ocspt_k3y'', rq_cookies = [], rq_token = None\<rparr>
       (snd (create_token sample_env ann ci_token_in sample_db))) =
     Inr (Some \<lparr>p_user = sample_user 1 ''ann'' False, p_token_workspace_id = Some 1,
               p_token_role_ceiling = Some Viewer\<rparr>)"
proof -
  obtain t db' where c: "create_token sample_env ann ci_token_in sample_db = (Inr (t, ''ocspt_k3y''), db')"
    by (simp add: create_token_def ci_token_in_def valid_workspace_name_def valid_role_literal_def sample_principals
        token_scope_error_def sample_defs lookup_simps generate_api_token_def TOKEN_PREFIX_def Let_def)
  have user: "get_row u_id (u_id (p_user ann)) (users sample_db) = Some (sample_user 1 ''ann'' False)"
    by (simp add: sample_defs sample_principals get_row_simps)
  have act: "u_is_active (sample_user 1 ''ann'' False)" by (simp add: sample_user_def)
  have fresh: "get_row t_token_hash (hash_token sample_env ''ocspt_k3y'') (tokens sample_db) = None"
    by (simp add: sample_defs get_row_simps hash_token_def)
  have safe: "list_all (\<lambda>c. \<not> is_space c) (e_token_urlsafe sample_env)"
    by (simp add: is_space_def)
  obtain r where r: "role_name r = ''viewer''"
      "fst (principal_from_request sample_env default_settings
         \<lparr>rq_authorization = ''Bearer '' @ ''ocspt_k3y'', rq_cookies = [], rq_token = None\<rparr> db') =
       Inr (Some \<lparr>p_user = sample_user 1 ''ann'' False, p_token_workspace_id = Some 1, p_token_role_ceiling = Some r\<rparr>)"
    using created_token_works [OF c user act fresh safe, of default_settings] by (auto simp: ci_token_in_def)
  then have "r = Viewer" by (cases r) simp_all
  with r c show ?thesis by simp
qed

text \<open>Once revoked, a token authenticates nobody any more.\<close>

theorem revoked_token_refused:
  assumes "wf_db db" and "get_token env raw db = Some t" and "revoke_token env' p (t_id t) db = (Inr (), db')"
  shows "fst (principal_from_token env raw db') = Inr None"
  using assms by (rule revoked_token_rejected)

theorem revoked_token_refused_witness:
  "fst (principal_from_token sample_env ''ocspt_old'' sample_db) \<noteq> Inr None \<and>
   fst (principal_from_token sample_env ''ocspt_old'' (snd (revoke_token sample_env ann 1 sample_db))) = Inr None"
proof
  show "fst (principal_from_token sample_env ''ocspt_old'' sample_db) \<noteq> Inr None"
    by (simp add: principal_from_token_def looks_like_api_token_def TOKEN_PREFIX_def startswith_def get_token_def
        hash_token_def sample_defs get_row_simps)
  have t: "get_token sample_env ''ocspt_old'' sample_db = Some sample_token"
    by (simp add: get_token_def hash_token_def sample_defs get_row_simps)
  have "fst (revoke_token sample_env ann (t_id sample_token) sample_db) = Inr ()"
    by (simp add: revoke_token_def sample_defs get_row_simps sample_principals)
  then have r: "revoke_token sample_env ann (t_id sample_token) sample_db
      = (Inr (), snd (revoke_token sample_env ann (t_id sample_token) sample_db))"
    by (metis prod.collapse)
  from revoked_token_refused [OF sample_db_wf t r]
  show "fst (principal_from_token sample_env ''ocspt_old'' (snd (revoke_token sample_env ann 1 sample_db))) = Inr None"
    by (simp add: sample_token_def)
qed

text \<open>Deactivating a user takes effect at once, for every credential the user still holds: no
  later request, with a token or a session cookie, is served as that user.\<close>

theorem deactivated_user_refused:
  assumes "set_user_active env p uid False db = (Inr x, db')"
  shows "case fst (principal_from_request env' s rq db') of
      Inr (Some q) \<Rightarrow> u_id (p_user q) \<noteq> uid | _ \<Rightarrow> True"
  using deactivated_user_rejected [OF assms, of env' s rq]
  by (cases "principal_from_request env' s rq db'") (auto split: sum.splits option.splits)

theorem deactivated_user_refused_witness:
  "fst (set_user_active sample_env root_admin 1 False sample_db) \<noteq> Inl unprocessable \<and>
   (case fst (principal_from_request sample_env default_settings
        \<lparr>rq_authorization = ''Bearer ocspt_old'', rq_cookies = [], rq_token = None\<rparr>
        (snd (set_user_active sample_env root_admin 1 False sample_db))) of
      Inr (Some q) \<Rightarrow> u_id (p_user q) \<noteq> 1 | _ \<Rightarrow> True)"
proof -
  have "\<exists>x. fst (set_user_active sample_env root_admin 1 False sample_db) = Inr x"
    by (simp add: set_user_active_def require_global_admin_def sample_defs get_row_simps sample_principals)
  then obtain x where x: "set_user_active sample_env root_admin 1 False sample_db
      = (Inr x, snd (set_user_active sample_env root_admin 1 False sample_db))"
    by (metis prod.collapse)
  from deactivated_user_refused [OF x] x show ?thesis by (metis fst_conv sum.distinct(1))
qed

section \<open>Logins\<close>

definition ann_login :: login_in where
  "ann_login = \<lparr>li_username = ''ann'', li_password = ''ann''\<rparr>"

definition no_attempts :: auth_state where
  "no_attempts = \<lparr>failures = [], oidc_states = []\<rparr>"

text \<open>C6: The cookie a successful local login sets authenticates its user on the next request,
  without any of a token's restrictions.\<close>

theorem login_cookie_works:
  assumes "local_login env s now host payload (db, st) = (Inr (u', ck), db', st')" and "wf_db db"
    and "signer_ok env (session_signing_key (e_ephemeral_key env) s) (st_session_ttl_seconds s)"
    and "ck_value ck \<noteq> []"
  shows "principal_from_request env s
      \<lparr>rq_authorization = [], rq_cookies = [(ck_name ck, ck_value ck)], rq_token = None\<rparr> db' =
    (Inr (Some (session_principal u')), db')"
  using assms by (rule login_cookie_authenticates)

theorem login_cookie_works_witness:
  "\<exists>u ck db' st'. local_login sample_env default_settings 10 None ann_login (sample_db, no_attempts)
      = (Inr (u, ck), db', st') \<and> u_id u = 1 \<and>
    principal_from_request sample_env default_settings
      \<lparr>rq_authorization = [], rq_cookies = [(ck_name ck, ck_value ck)], rq_token = None\<rparr> db' =
      (Inr (Some (session_principal u)), db')"
proof -
  have chk: "check_local_user sample_env sample_db ann_login = Some (sample_user 1 ''ann'' False)"
    by (simp add: check_local_user_def get_user_by_subject_def sample_defs get_row_simps ann_login_def verify_password_def)
  then obtain u ck db' st' where l:
      "local_login sample_env default_settings 10 None ann_login (sample_db, no_attempts) = (Inr (u, ck), db', st')"
      "u_id u = 1" "ck = session_cookie sample_env default_settings 1"
    by (simp add: local_login_def valid_login_def ann_login_def default_settings_def rate_limited_def
        no_attempts_def dict_get_or_def MAX_FAILURES_def Let_def sample_user_def)
  have "ck_value ck \<noteq> []"
    by (simp add: l(3) session_cookie_def sign_session_def show_int_def)
  from login_cookie_works [OF l(1) sample_db_wf sample_signer this] l show ?thesis by blast
qed

text \<open>C7: Five guesses. However many passwords are tried for a user name from one address within
  five minutes of the first failure, the server compares at most five of them while none is
  right; the rest is answered 429 unexamined.\<close>

theorem password_guesses_bounded:
  assumes "st_local_login_enabled s" and "dict_get (failures st) (rate_key host name) = None" and "0 < t0"
    and "\<forall>(now, p)\<in>set ((t0, p0) # as). valid_login p \<and> li_username p = name \<and> check_local_user env db p = None"
    and "\<forall>(now, p)\<in>set as. t0 \<le> now \<and> now < t0 + WINDOW"
  shows "examined (login_attempts env s host ((t0, p0) # as) (db, st)) \<le> MAX_FAILURES"
proof -
  have "\<forall>t\<in>set (map fst as). t0 \<le> t \<and> t < t0 + WINDOW"
    using assms(5) by auto
  from failing_logins_fresh [OF assms(2,3) this] show ?thesis
    unfolding examined_count login_attempts_failing [OF assms(1,4)] by simp
qed

theorem password_guesses_bounded_witness:
  "examined (login_attempts sample_env default_settings None
      (replicate 8 (10, ann_login\<lparr>li_password := ''wrong''\<rparr>)) (sample_db, no_attempts)) \<le> 5"
proof -
  let ?p = "ann_login\<lparr>li_password := ''wrong''\<rparr>"
  have h: "st_local_login_enabled default_settings"
    "dict_get (failures no_attempts) (rate_key None ''ann'') = None"
    by (simp_all add: default_settings_def no_attempts_def)
  have bad: "valid_login ?p \<and> li_username ?p = ''ann'' \<and> check_local_user sample_env sample_db ?p = None"
    by (simp add: valid_login_def ann_login_def check_local_user_def get_user_by_subject_def sample_defs get_row_simps
        verify_password_def)
  have "\<forall>(now, p)\<in>set ((10, ?p) # replicate 7 (10, ?p)).
      valid_login p \<and> li_username p = ''ann'' \<and> check_local_user sample_env sample_db p = None"
    using bad by auto
  from password_guesses_bounded [OF h _ this]
  show ?thesis by (simp add: numeral_eq_Suc WINDOW_def MAX_FAILURES_def)
qed




end
