(* ===== verification/Ip_Address.thy ===== *)
theory Ip_Address
  imports Json "HOL-Library.Word"
begin

text \<open>
  IP addresses as Python's \<open>ipaddress\<close> module (3.14, the version the image ships) reads, prints
  and classifies them: what the SSRF policy of \<open>backend/app/ssrf.py\<close> is written in. An IPv6
  address carries its optional scope id, which takes part in the printed form.
\<close>

datatype ip =
    IPv4 "32 word"
  | IPv6 "128 word" "string option"

section \<open>Reading\<close>

definition hex_value :: "char \<Rightarrow> nat option" where
  "hex_value c =
     (let n = (of_char c :: nat)
      in if 48 \<le> n \<and> n \<le> 57 then Some (n - 48)
         else if 97 \<le> n \<and> n \<le> 102 then Some (n - 87)
         else if 65 \<le> n \<and> n \<le> 70 then Some (n - 55)
         else None)"

fun parse_hex :: "nat \<Rightarrow> string \<Rightarrow> nat option" where
  "parse_hex acc [] = Some acc"
| "parse_hex acc (c # cs) =
     (case hex_value c of None \<Rightarrow> None | Some d \<Rightarrow> parse_hex (16 * acc + d) cs)"

text \<open>One octet: one to three decimal digits, no leading zero, at most 255.\<close>

definition parse_octet :: "string \<Rightarrow> nat option" where
  "parse_octet s =
     (if s = [] \<or> length s > 3 \<or> (length s > 1 \<and> hd s = CHR ''0'') then None
      else (case parse_digits 0 s of None \<Rightarrow> None | Some n \<Rightarrow> if n \<le> 255 then Some n else None))"

definition parse_hextet :: "string \<Rightarrow> nat option" where
  "parse_hextet s = (if s = [] \<or> length s > 4 then None else parse_hex 0 s)"

fun sequence :: "'a option list \<Rightarrow> 'a list option" where
  "sequence [] = Some []"
| "sequence (None # xs) = None"
| "sequence (Some x # xs) = map_option ((#) x) (sequence xs)"

definition join_base :: "int \<Rightarrow> nat list \<Rightarrow> int" where
  "join_base b ds = fold (\<lambda>d acc. b * acc + int d) ds 0"

definition parse_ipv4 :: "string \<Rightarrow> int option" where
  "parse_ipv4 s =
     (let parts = split_on CHR ''.'' s
      in if length parts \<noteq> 4 then None
         else map_option (join_base 256) (sequence (map parse_octet parts)))"

text \<open>The groups of an IPv6 text; a dotted quad in the last place stands for two groups.\<close>

definition expand_quad :: "string list \<Rightarrow> nat option list" where
  "expand_quad parts =
     (if parts \<noteq> [] \<and> CHR ''.'' \<in> set (last parts)
      then map parse_hextet (butlast parts) @
           (case parse_ipv4 (last parts) of None \<Rightarrow> [None] | Some n \<Rightarrow> [Some (nat (n div 65536)), Some (nat (n mod 65536))])
      else map parse_hextet parts)"

definition split_double_colon :: "string \<Rightarrow> (string \<times> string) option" where
  "split_double_colon s =
     (case find (\<lambda>i. take 2 (drop i s) = ''::'') [0..<length s] of
        None \<Rightarrow> None
      | Some i \<Rightarrow> Some (take i s, drop (i + 2) s))"

definition groups_of :: "string \<Rightarrow> string list" where
  "groups_of s = (if s = [] then [] else split_on CHR '':'' s)"

definition parse_ipv6 :: "string \<Rightarrow> int option" where
  "parse_ipv6 s =
     (case split_double_colon s of
        None \<Rightarrow>
          (case sequence (expand_quad (split_on CHR '':'' s)) of
             None \<Rightarrow> None
           | Some gs \<Rightarrow> if length gs = 8 then Some (join_base 65536 gs) else None)
      | Some (a, b) \<Rightarrow>
          (case (sequence (map parse_hextet (groups_of a)), sequence (expand_quad (groups_of b))) of
             (Some xs, Some ys) \<Rightarrow>
               if length xs + length ys \<le> 7
               then Some (join_base 65536 (xs @ replicate (8 - length xs - length ys) 0 @ ys)) else None
           | _ \<Rightarrow> None))"

text \<open>\<open>ipaddress.ip_address\<close>; \<open>None\<close> is its ValueError.\<close>

definition ip_address :: "string \<Rightarrow> ip option" where
  "ip_address s =
     (case parse_ipv4 s of
        Some n \<Rightarrow> Some (IPv4 (of_int n))
      | None \<Rightarrow>
          (let (addr, scoped, scope) = partition_at CHR ''%'' s
           in if scoped \<and> (scope = [] \<or> CHR ''%'' \<in> set scope) then None
              else map_option (\<lambda>n. IPv6 (of_int n) (if scoped then Some scope else None)) (parse_ipv6 addr)))"

section \<open>Printing\<close>

definition show_hex_digit :: "nat \<Rightarrow> char" where
  "show_hex_digit d = (if d < 10 then char_of (48 + d) else char_of (87 + d))"

fun show_hex :: "nat \<Rightarrow> string" where
  "show_hex n = (if n < 16 then [show_hex_digit n] else show_hex (n div 16) @ [show_hex_digit (n mod 16)])"

declare show_hex.simps [simp del]

fun intercalate :: "string \<Rightarrow> string list \<Rightarrow> string" where
  "intercalate sep [] = []"
| "intercalate sep [x] = x"
| "intercalate sep (x # y # zs) = x @ sep @ intercalate sep (y # zs)"

definition octets :: "32 word \<Rightarrow> nat list" where
  "octets w = (let n = uint w in map nat [n div 16777216, n div 65536 mod 256, n div 256 mod 256, n mod 256])"

definition hextets :: "128 word \<Rightarrow> nat list" where
  "hextets w = map (\<lambda>e. nat (uint w div 65536 ^ e mod 65536)) [7, 6, 5, 4, 3, 2, 1, 0]"

text \<open>The leftmost longest run of zero groups, as start and length.\<close>

fun zero_runs :: "nat \<Rightarrow> nat list \<Rightarrow> (nat \<times> nat) list" where
  "zero_runs i [] = []"
| "zero_runs i (g # gs) = (i, length (takeWhile (\<lambda>x. x = 0) (g # gs))) # zero_runs (Suc i) gs"

definition longest_run :: "nat list \<Rightarrow> nat \<times> nat" where
  "longest_run gs = foldl (\<lambda>(s, l) (s', l'). if l' > l then (s', l') else (s, l)) (0, 0) (zero_runs 0 gs)"

definition show_hextets :: "nat list \<Rightarrow> string" where
  "show_hextets gs =
     (let (s, l) = longest_run gs
      in if l > 1
         then intercalate '':'' (map show_hex (take s gs)) @ ''::'' @
              intercalate '':'' (map show_hex (drop (s + l) gs))
         else intercalate '':'' (map show_hex gs))"

text \<open>\<open>ipv4_mapped\<close>: the embedded address of \<open>::ffff:a.b.c.d\<close>.\<close>

fun ipv4_mapped :: "ip \<Rightarrow> 32 word option" where
  "ipv4_mapped (IPv4 w) = None"
| "ipv4_mapped (IPv6 w _) =
     (if uint w div 2 ^ 32 = 0xffff then Some (of_int (uint w mod 2 ^ 32)) else None)"

definition show_quad :: "32 word \<Rightarrow> string" where
  "show_quad w = intercalate ''.'' (map show_nat (octets w))"

fun ip_str :: "ip \<Rightarrow> string" where
  "ip_str (IPv4 w) = show_quad w"
| "ip_str (IPv6 w scope) =
     (case ipv4_mapped (IPv6 w scope) of
        Some v \<Rightarrow> ''::ffff:'' @ show_quad v
      | None \<Rightarrow> show_hextets (hextets w)) @ (case scope of None \<Rightarrow> [] | Some s \<Rightarrow> CHR ''%'' # s)"

section \<open>Classification\<close>

definition in_net :: "'a::len word \<Rightarrow> int \<times> nat \<Rightarrow> bool" where
  "in_net w net = (case net of (base, plen) \<Rightarrow>
     uint w div 2 ^ (LENGTH('a) - plen) = base div 2 ^ (LENGTH('a) - plen))"

definition quad :: "int \<Rightarrow> int \<Rightarrow> int \<Rightarrow> int \<Rightarrow> int" where
  "quad a b c d = ((a * 256 + b) * 256 + c) * 256 + d"

text \<open>An IPv6 network written by its leading groups.\<close>

definition group_base :: "nat list \<Rightarrow> int" where
  "group_base gs = join_base 65536 gs * 65536 ^ (8 - length gs)"

definition private_networks4 :: "(int \<times> nat) list" where
  "private_networks4 =
     [(quad 0 0 0 0, 8), (quad 10 0 0 0, 8), (quad 127 0 0 0, 8), (quad 169 254 0 0, 16),
      (quad 172 16 0 0, 12), (quad 192 0 0 0, 24), (quad 192 0 0 170, 31), (quad 192 0 2 0, 24),
      (quad 192 168 0 0, 16), (quad 198 18 0 0, 15), (quad 198 51 100 0, 24), (quad 203 0 113 0, 24),
      (quad 240 0 0 0, 4), (quad 255 255 255 255, 32)]"

definition private_exceptions4 :: "(int \<times> nat) list" where
  "private_exceptions4 = [(quad 192 0 0 9, 32), (quad 192 0 0 10, 32)]"

definition private_networks6 :: "(int \<times> nat) list" where
  "private_networks6 =
     [(1, 128), (0, 128), (group_base [0, 0, 0, 0, 0, 0xffff], 96), (group_base [0x64, 0xff9b, 1], 48),
      (group_base [0x100], 64), (group_base [0x2001], 23), (group_base [0x2001, 0xdb8], 32),
      (group_base [0x2002], 16), (group_base [0x3fff], 20), (group_base [0xfc00], 7),
      (group_base [0xfe80], 10)]"

definition private_exceptions6 :: "(int \<times> nat) list" where
  "private_exceptions6 =
     [(group_base [0x2001, 1] + 1, 128), (group_base [0x2001, 1] + 2, 128), (group_base [0x2001, 3], 32),
      (group_base [0x2001, 4, 0x112], 48), (group_base [0x2001, 0x20], 28), (group_base [0x2001, 0x30], 28)]"

definition reserved_networks6 :: "(int \<times> nat) list" where
  "reserved_networks6 =
     [(0, 8), (group_base [0x100], 8), (group_base [0x200], 7), (group_base [0x400], 6),
      (group_base [0x800], 5), (group_base [0x1000], 4), (group_base [0x4000], 3), (group_base [0x6000], 3),
      (group_base [0x8000], 3), (group_base [0xa000], 3), (group_base [0xc000], 3), (group_base [0xe000], 4),
      (group_base [0xf000], 5), (group_base [0xf800], 6), (group_base [0xfe00], 9)]"

definition is_loopback4 :: "32 word \<Rightarrow> bool" where
  "is_loopback4 w = in_net w (quad 127 0 0 0, 8)"

definition is_link_local4 :: "32 word \<Rightarrow> bool" where
  "is_link_local4 w = in_net w (quad 169 254 0 0, 16)"

definition is_private4 :: "32 word \<Rightarrow> bool" where
  "is_private4 w \<longleftrightarrow> list_ex (in_net w) private_networks4 \<and> \<not> list_ex (in_net w) private_exceptions4"

definition is_multicast4 :: "32 word \<Rightarrow> bool" where
  "is_multicast4 w = in_net w (quad 224 0 0 0, 4)"

definition is_reserved4 :: "32 word \<Rightarrow> bool" where
  "is_reserved4 w = in_net w (quad 240 0 0 0, 4)"

text \<open>From Python 3.13 on, every predicate of a mapped address is that of the embedded one.\<close>

definition via_mapped :: "(32 word \<Rightarrow> bool) \<Rightarrow> (128 word \<Rightarrow> bool) \<Rightarrow> ip \<Rightarrow> bool" where
  "via_mapped f4 f6 ip =
     (case ip of
        IPv4 w \<Rightarrow> f4 w
      | IPv6 w _ \<Rightarrow> (case ipv4_mapped ip of Some v \<Rightarrow> f4 v | None \<Rightarrow> f6 w))"

definition is_loopback :: "ip \<Rightarrow> bool" where
  "is_loopback = via_mapped is_loopback4 (\<lambda>w. w = 1)"

definition is_link_local :: "ip \<Rightarrow> bool" where
  "is_link_local = via_mapped is_link_local4 (\<lambda>w. in_net w (group_base [0xfe80], 10))"

definition is_private :: "ip \<Rightarrow> bool" where
  "is_private = via_mapped is_private4
     (\<lambda>w. list_ex (in_net w) private_networks6 \<and> \<not> list_ex (in_net w) private_exceptions6)"

definition is_unspecified :: "ip \<Rightarrow> bool" where
  "is_unspecified = via_mapped (\<lambda>w. w = 0) (\<lambda>w. w = 0)"

definition is_multicast :: "ip \<Rightarrow> bool" where
  "is_multicast = via_mapped is_multicast4 (\<lambda>w. in_net w (group_base [0xff00], 8))"

definition is_reserved :: "ip \<Rightarrow> bool" where
  "is_reserved = via_mapped is_reserved4 (\<lambda>w. list_ex (in_net w) reserved_networks6)"

lemmas printing_simps = show_quad_def octets_def hextets_def show_nat.simps show_hex.simps
  show_hex_digit_def show_hextets_def longest_run_def char_of_eq_iff

lemmas network_simps = in_net_def quad_def group_base_def join_base_def private_networks4_def
  private_exceptions4_def private_networks6_def private_exceptions6_def reserved_networks6_def

lemmas classification_defs = is_loopback_def is_link_local_def is_private_def is_unspecified_def
  is_multicast_def is_reserved_def via_mapped_def is_loopback4_def is_link_local4_def is_private4_def
  is_multicast4_def is_reserved4_def

end
