(* ===== verification/Url.thy ===== *)
theory Url
  imports Ip_Address
begin

text \<open>
  The parts of Python's \<open>urllib.parse\<close> (3.14) that the SSRF guard and the engine rely on:
  \<open>urlparse\<close> with the \<open>hostname\<close> and \<open>port\<close> properties of its result, and \<open>urlunparse\<close>
  after the network location was replaced. \<open>None\<close> stands for the ValueError of a malformed
  bracketed host or port.
\<close>

record url_parts =
  up_scheme :: string
  up_netloc :: string
  up_path :: string
  up_query :: string
  up_fragment :: string

definition is_c0_or_space :: "char \<Rightarrow> bool" where
  "is_c0_or_space c \<longleftrightarrow> (of_char c :: nat) \<le> 32"

definition is_unsafe :: "char \<Rightarrow> bool" where
  "is_unsafe c \<longleftrightarrow> c \<in> {CHR 0x09, CHR 0x0A, CHR 0x0D}"

definition is_ascii_alpha :: "char \<Rightarrow> bool" where
  "is_ascii_alpha c = (let n = (of_char c :: nat) in (65 \<le> n \<and> n \<le> 90) \<or> (97 \<le> n \<and> n \<le> 122))"

definition is_scheme_char :: "char \<Rightarrow> bool" where
  "is_scheme_char c \<longleftrightarrow>
     is_ascii_alpha c \<or> digit_value c \<noteq> None \<or> c \<in> {CHR ''+'', CHR ''-'', CHR ''.''}"

definition split_scheme :: "string \<Rightarrow> string \<times> string" where
  "split_scheme url =
     (let (s, found, rest) = partition_at CHR '':'' url
      in if found \<and> s \<noteq> [] \<and> is_ascii_alpha (hd s) \<and> list_all is_scheme_char s
         then (str_lower s, rest) else ([], url))"

definition split_netloc :: "string \<Rightarrow> string \<times> string" where
  "split_netloc url =
     (if startswith url ''//''
      then (let r = drop 2 url; stop = (\<lambda>c. c \<in> {CHR ''/'', CHR ''?'', CHR ''#''})
            in (takeWhile (\<lambda>c. \<not> stop c) r, dropWhile (\<lambda>c. \<not> stop c) r))
      else ([], url))"

text \<open>The part after the last \<open>@\<close> (\<open>rpartition('@')[2]\<close>).\<close>

definition after_at :: "string \<Rightarrow> string" where
  "after_at s = last (split_on CHR ''@'' s)"

definition valid_future_ip :: "string \<Rightarrow> bool" where
  "valid_future_ip h =
     (let (v, dot, rest) = partition_at CHR ''.'' (drop 1 h)
      in dot \<and> v \<noteq> [] \<and> list_all (\<lambda>c. hex_value c \<noteq> None) v \<and> rest \<noteq> [])"

definition bracketed_host_ok :: "string \<Rightarrow> bool" where
  "bracketed_host_ok h =
     (if startswith h ''v'' then valid_future_ip h
      else (case ip_address h of Some (IPv6 _ _) \<Rightarrow> True | _ \<Rightarrow> False))"

definition bracketed_netloc_ok :: "string \<Rightarrow> bool" where
  "bracketed_netloc_ok netloc =
     (let hp = after_at netloc;
          (before, open_br, bracketed) = partition_at CHR ''['' hp
      in if open_br
         then (let (host, _, port) = partition_at CHR '']'' bracketed
               in before = [] \<and> (port = [] \<or> startswith port '':'') \<and> bracketed_host_ok host)
         else bracketed_host_ok (fst (partition_at CHR '':'' hp)))"

definition netloc_ok :: "string \<Rightarrow> bool" where
  "netloc_ok netloc =
     (let o' = CHR ''['' \<in> set netloc; c = CHR '']'' \<in> set netloc
      in (o' \<longleftrightarrow> c) \<and> (o' \<longrightarrow> bracketed_netloc_ok netloc))"

definition urlsplit :: "string \<Rightarrow> url_parts option" where
  "urlsplit url =
     (let url = filter (\<lambda>c. \<not> is_unsafe c) (dropWhile is_c0_or_space url);
          (scheme, url) = split_scheme url;
          (netloc, url) = split_netloc url
      in if \<not> netloc_ok netloc then None
         else (let (url, _, fragment) = partition_at CHR ''#'' url;
                   (path, _, query) = partition_at CHR ''?'' url
               in Some \<lparr>up_scheme = scheme, up_netloc = netloc, up_path = path,
                        up_query = query, up_fragment = fragment\<rparr>))"

text \<open>\<open>_hostinfo\<close>: host and port texts of the network location.\<close>

definition hostinfo :: "string \<Rightarrow> string \<times> string" where
  "hostinfo netloc =
     (let hi = after_at netloc;
          (_, open_br, bracketed) = partition_at CHR ''['' hi
      in if open_br
         then (let (host, _, port) = partition_at CHR '']'' bracketed
               in (host, snd (snd (partition_at CHR '':'' port))))
         else (let (host, _, port) = partition_at CHR '':'' hi in (host, port)))"

text \<open>\<open>hostname\<close>: lower case except for the zone; empty stands for None.\<close>

definition url_hostname :: "url_parts \<Rightarrow> string" where
  "url_hostname u =
     (let (host, percent, zone) = partition_at CHR ''%'' (fst (hostinfo (up_netloc u)))
      in str_lower host @ (if percent then CHR ''%'' # zone else []))"

text \<open>\<open>port\<close>: outer \<open>None\<close> is the ValueError, inner \<open>None\<close> an absent port.\<close>

definition url_port :: "url_parts \<Rightarrow> nat option option" where
  "url_port u =
     (let p = snd (hostinfo (up_netloc u))
      in if p = [] then Some None
         else if \<not> isdigit p then None
         else (case parse_digits 0 p of
                 None \<Rightarrow> None
               | Some n \<Rightarrow> if n \<le> 65535 then Some (Some n) else None))"

text \<open>\<open>urlunparse(parsed._replace(netloc=...))\<close> of an http(s) URL with a network location. An
  empty parameter part (a trailing \<open>;\<close> of the last path segment) is dropped on the way.\<close>

definition drop_empty_params :: "string \<Rightarrow> string" where
  "drop_empty_params path =
     (let seg = last (split_on CHR ''/'' path);
          (a, semi, b) = partition_at CHR '';'' seg
      in if semi \<and> b = [] then butlast path else path)"

definition unsplit_with_netloc :: "url_parts \<Rightarrow> string \<Rightarrow> string" where
  "unsplit_with_netloc u netloc =
     (let path = drop_empty_params (up_path u)
      in up_scheme u @ ''://'' @ netloc @
         (if path \<noteq> [] \<and> hd path \<noteq> CHR ''/'' then CHR ''/'' # path else path) @
         (if up_query u \<noteq> [] then CHR ''?'' # up_query u else []) @
         (if up_fragment u \<noteq> [] then CHR ''#'' # up_fragment u else []))"

lemmas url_simps = urlsplit_def split_scheme_def split_netloc_def after_at_def netloc_ok_def
  hostinfo_def url_hostname_def url_port_def is_c0_or_space_def is_unsafe_def is_ascii_alpha_def
  is_scheme_char_def str_lower_def lower_char_def startswith_def digit_value_def Let_def

lemma str_lower_append: "str_lower (a @ b) = str_lower a @ str_lower b"
  by (simp add: str_lower_def)

end
