(* ===== verification/Ssrf.thy ===== *)
theory Ssrf
  imports Url Settings
begin

text \<open>
  The outbound network policy (\<open>backend/app/ssrf.py\<close>) and the worker's network guard
  (\<open>backend/app/worker/netguard.py\<close>). The network is an argument: name resolution
  (\<open>socket.getaddrinfo\<close>, per call, since a rebinding name server changes its answers), one
  HTTP exchange, and \<open>requests.compat.urljoin\<close>.
\<close>

section \<open>Policy\<close>

datatype net_error =
    BlockedTarget string string
  | NetError string

record network_policy =
  np_allow_private :: bool
  np_allow_redirects :: bool
  np_max_response_bytes :: int
  np_max_timeout_seconds :: int
  np_blocked_hosts :: "string list"

definition policy_from_settings :: "settings \<Rightarrow> network_policy" where
  "policy_from_settings s =
     \<lparr>np_allow_private = st_allow_private_targets s,
      np_allow_redirects = st_allow_redirects s,
      np_max_response_bytes = st_max_response_bytes s,
      np_max_timeout_seconds = st_max_request_timeout_seconds s,
      np_blocked_hosts = extra_blocked_host_list s\<rparr>"

definition METADATA_ADDRESSES :: "string list" where
  "METADATA_ADDRESSES = [''169.254.169.254'', ''fd00:ec2::254'', ''100.100.100.200'']"

definition normalize_ip :: "ip \<Rightarrow> ip" where
  "normalize_ip i = (case ipv4_mapped i of Some v \<Rightarrow> IPv4 v | None \<Rightarrow> i)"

definition is_metadata :: "ip \<Rightarrow> bool" where
  "is_metadata i \<longleftrightarrow> ip_str (normalize_ip i) \<in> set METADATA_ADDRESSES"

definition classify_ip :: "ip \<Rightarrow> string option" where
  "classify_ip i =
     (let i = normalize_ip i
      in if ip_str i \<in> set METADATA_ADDRESSES then Some ''cloud metadata service address''
         else if is_loopback i then Some ''loopback address''
         else if is_link_local i then Some ''link-local address''
         else if is_private i then Some ''private network address (RFC1918/ULA)''
         else if is_unspecified i \<or> is_multicast i \<or> is_reserved i
         then Some ''non-unicast or reserved address''
         else None)"

definition address_block_reason :: "ip \<Rightarrow> network_policy \<Rightarrow> string option" where
  "address_block_reason i policy =
     (case classify_ip i of
        None \<Rightarrow> None
      | Some reason \<Rightarrow>
          if is_metadata i then Some reason
          else if \<not> np_allow_private policy then Some reason
          else None)"

text \<open>A resolver answers a host name with the address texts of its socket addresses, or fails.\<close>

type_synonym resolver = "string \<Rightarrow> string list option"

definition resolve_host :: "resolver \<Rightarrow> string \<Rightarrow> net_error + ip list" where
  "resolve_host getaddrinfo host =
     (case getaddrinfo host of
        None \<Rightarrow> Inl (BlockedTarget host ''DNS resolution failed'')
      | Some infos \<Rightarrow>
          (let addresses = List.map_filter ip_address infos
           in if addresses = []
              then Inl (BlockedTarget host ''hostname resolved to no usable addresses'')
              else Inr addresses))"

fun check_addresses :: "string \<Rightarrow> network_policy \<Rightarrow> ip list \<Rightarrow> net_error + string list" where
  "check_addresses url policy [] = Inr []"
| "check_addresses url policy (i # is) =
     (case address_block_reason i policy of
        Some reason \<Rightarrow> Inl (BlockedTarget url (ip_str i @ '': '' @ reason))
      | None \<Rightarrow> map_sum id ((#) (ip_str (normalize_ip i))) (check_addresses url policy is))"

definition is_localhost :: "string \<Rightarrow> bool" where
  "is_localhost h \<longleftrightarrow> h = ''localhost'' \<or> endswith h ''.localhost''"

definition resolve_and_validate :: "resolver \<Rightarrow> network_policy \<Rightarrow> string \<Rightarrow> net_error + string list" where
  "resolve_and_validate getaddrinfo policy url =
     (case urlsplit url of
        None \<Rightarrow> Inl (NetError ''ValueError'')
      | Some parsed \<Rightarrow>
          if up_scheme parsed \<noteq> ''http'' \<and> up_scheme parsed \<noteq> ''https''
          then Inl (BlockedTarget url (''unsupported scheme '' @ [CHR 0x27] @ up_scheme parsed @ [CHR 0x27] @
                 '' (unix sockets/file/ftp are not allowed)''))
          else
            (let host = url_hostname parsed; host_l = str_lower host
             in if host = [] then Inl (BlockedTarget url ''URL has no host'')
                else if host_l \<in> set (np_blocked_hosts policy)
                then Inl (BlockedTarget url ''host is on the operator block list'')
                else if is_localhost host_l
                then (if \<not> np_allow_private policy
                      then Inl (BlockedTarget url ''localhost is blocked by policy'')
                      else Inr [])
                else (case resolve_host getaddrinfo host of
                        Inl e \<Rightarrow> Inl e
                      | Inr addresses \<Rightarrow> check_addresses url policy addresses)))"

definition validate_url :: "resolver \<Rightarrow> network_policy \<Rightarrow> string \<Rightarrow> net_error + unit" where
  "validate_url getaddrinfo policy url = map_sum id (\<lambda>_. ()) (resolve_and_validate getaddrinfo policy url)"

fun validate_urls :: "resolver \<Rightarrow> network_policy \<Rightarrow> string list \<Rightarrow> net_error + unit" where
  "validate_urls getaddrinfo policy [] = Inr ()"
| "validate_urls getaddrinfo policy (u # us) =
     (case validate_url getaddrinfo policy u of
        Inl e \<Rightarrow> Inl e
      | Inr _ \<Rightarrow> validate_urls getaddrinfo policy us)"

text \<open>The replacement for \<open>socket.getaddrinfo\<close> in the worker process.\<close>

definition keep_address :: "network_policy \<Rightarrow> string \<Rightarrow> bool" where
  "keep_address policy raw =
     (case ip_address raw of None \<Rightarrow> True | Some i \<Rightarrow> address_block_reason i policy = None)"

definition guarded_getaddrinfo :: "network_policy \<Rightarrow> resolver \<Rightarrow> resolver" where
  "guarded_getaddrinfo policy original host =
     (case original host of
        None \<Rightarrow> None
      | Some results \<Rightarrow>
          (let allowed = filter (keep_address policy) results
           in if allowed = [] then None else Some allowed))"

section \<open>Fetching with guarded redirects\<close>

record http_response =
  hr_status :: int
  hr_is_redirect :: bool
  hr_location :: "string option"
  hr_content_length :: "string option"
  hr_chunks :: "string list"

record http_request =
  hq_url :: string
  hq_host :: "string option"

fun read_capped :: "int \<Rightarrow> int \<Rightarrow> string \<Rightarrow> string list \<Rightarrow> string option" where
  "read_capped max_bytes read acc [] = Some acc"
| "read_capped max_bytes read acc (chunk # chunks) =
     (let read = read + int (length chunk)
      in if read > max_bytes then None else read_capped max_bytes read (acc @ chunk) chunks)"

definition pinned_request :: "url_parts \<Rightarrow> nat option \<Rightarrow> string \<Rightarrow> string list \<Rightarrow> http_request" where
  "pinned_request parsed port current allowed =
     (if allowed \<noteq> [] \<and> up_scheme parsed = ''http''
      then
        (let addr = hd allowed;
             netloc = (if CHR '':'' \<in> set addr then ''['' @ addr @ '']'' else addr);
             netloc = (case port of None \<Rightarrow> netloc | Some n \<Rightarrow> if n = 0 then netloc else netloc @ '':'' @ show_nat n)
         in \<lparr>hq_url = unsplit_with_netloc parsed netloc, hq_host = Some (up_netloc parsed)\<rparr>)
      else \<lparr>hq_url = current, hq_host = None\<rparr>)"

text \<open>
  One connection of the loop: the URL that was validated, the addresses it was validated to and
  the request that was sent. \<open>validate\<close> and \<open>http_get\<close> may answer differently at each hop
  (the first argument counts the hops that are left).
\<close>

record hop =
  hop_url :: string
  hop_allowed :: "string list"
  hop_request :: http_request

fun fetch_loop ::
  "(nat \<Rightarrow> string \<Rightarrow> net_error + string list) \<Rightarrow> (nat \<Rightarrow> http_request \<Rightarrow> http_response option) \<Rightarrow>
   (string \<Rightarrow> string \<Rightarrow> string) \<Rightarrow> int \<Rightarrow> net_error \<Rightarrow> nat \<Rightarrow> string \<Rightarrow> (net_error + string) \<times> hop list" where
  "fetch_loop validate http_get urljoin max_bytes exceeded 0 current = (Inl exceeded, [])"
| "fetch_loop validate http_get urljoin max_bytes exceeded (Suc n) current =
     (case validate n current of
        Inl e \<Rightarrow> (Inl e, [])
      | Inr allowed \<Rightarrow>
          (case urlsplit current of
             None \<Rightarrow> (Inl (NetError ''ValueError''), [])
           | Some parsed \<Rightarrow>
               if allowed \<noteq> [] \<and> up_scheme parsed = ''http'' \<and> url_port parsed = None
               then (Inl (NetError ''ValueError''), [])
               else
                 (let request = pinned_request parsed
                        (case url_port parsed of None \<Rightarrow> None | Some p \<Rightarrow> p) current allowed;
                      hop = \<lparr>hop_url = current, hop_allowed = allowed, hop_request = request\<rparr>
                  in case http_get n request of
                       None \<Rightarrow> (Inl (NetError ''RequestException''), [hop])
                     | Some response \<Rightarrow>
                         if hr_is_redirect response
                         then (if \<not> truthy (hr_location response)
                               then (Inl (BlockedTarget current ''redirect response without a Location header''), [hop])
                               else map_prod id ((#) hop) (fetch_loop validate http_get urljoin max_bytes exceeded n
                                           (urljoin current (the (hr_location response)))))
                         else if 400 \<le> hr_status response \<and> hr_status response < 600
                         then (Inl (NetError ''HTTPError''), [hop])
                         else (case read_capped max_bytes 0 [] (hr_chunks response) of
                                 None \<Rightarrow> (Inl (NetError (''response exceeded '' @ show_int max_bytes @ '' byte limit'')), [hop])
                               | Some body \<Rightarrow> (Inr body, [hop])))))"

definition guarded_fetch ::
  "(nat \<Rightarrow> resolver) \<Rightarrow> (nat \<Rightarrow> http_request \<Rightarrow> http_response option) \<Rightarrow> (string \<Rightarrow> string \<Rightarrow> string) \<Rightarrow>
   network_policy \<Rightarrow> int \<Rightarrow> nat \<Rightarrow> string \<Rightarrow> (net_error + string) \<times> hop list" where
  "guarded_fetch getaddrinfo http_get urljoin policy max_bytes max_redirects url =
     fetch_loop (\<lambda>n. resolve_and_validate (getaddrinfo n) policy) http_get urljoin max_bytes
       (BlockedTarget url (''exceeded '' @ show_nat max_redirects @ '' redirects''))
       (max_redirects + 1) url"

section \<open>The worker's patched \<open>Session.send\<close>\<close>

text \<open>A timeout keyword: absent, a number, or something else (a pair), which is left alone.\<close>

datatype timeout_arg = NoTimeout | Seconds rat | OtherTimeout

fun cap_timeout :: "int \<Rightarrow> timeout_arg \<Rightarrow> timeout_arg" where
  "cap_timeout cap NoTimeout = Seconds (of_int cap)"
| "cap_timeout cap (Seconds t) = (if t > of_int cap then Seconds (of_int cap) else Seconds t)"
| "cap_timeout cap OtherTimeout = OtherTimeout"

record send_args =
  sa_timeout :: timeout_arg
  sa_allow_redirects :: bool
  sa_stream :: bool

definition guarded_args :: "network_policy \<Rightarrow> send_args \<Rightarrow> send_args" where
  "guarded_args policy kw =
     kw\<lparr>sa_timeout := cap_timeout (np_max_timeout_seconds policy) (sa_timeout kw),
        sa_allow_redirects := (if np_allow_redirects policy then sa_allow_redirects kw else False),
        sa_stream := True\<rparr>"

definition guarded_send ::
  "resolver \<Rightarrow> (string \<Rightarrow> send_args \<Rightarrow> http_response option) \<Rightarrow> network_policy \<Rightarrow> string \<Rightarrow> send_args \<Rightarrow>
   (net_error + string) \<times> (string \<times> send_args) list" where
  "guarded_send getaddrinfo original_send policy url kw =
     (case validate_url getaddrinfo policy url of
        Inl e \<Rightarrow> (Inl e, [])
      | Inr _ \<Rightarrow>
          (let kw = guarded_args policy kw; sent = [(url, kw)]
           in case original_send url kw of
                None \<Rightarrow> (Inl (NetError ''RequestException''), sent)
              | Some response \<Rightarrow>
                  if \<not> np_allow_redirects policy \<and> hr_is_redirect response
                  then (Inl (BlockedTarget url (''server redirected to '' @
                         (case hr_location response of None \<Rightarrow> ''?'' | Some l \<Rightarrow> l) @
                         ''; redirects are disabled by policy'')), sent)
                  else if truthy (hr_content_length response) \<and> isdigit (the (hr_content_length response)) \<and>
                    (case parse_digits 0 (the (hr_content_length response)) of
                       None \<Rightarrow> False | Some n \<Rightarrow> int n > np_max_response_bytes policy)
                  then (Inl (BlockedTarget url (''response Content-Length '' @
                         the (hr_content_length response) @ '' exceeds limit'')), sent)
                  else (case read_capped (np_max_response_bytes policy) 0 [] (hr_chunks response) of
                          None \<Rightarrow> (Inl (BlockedTarget url (''response body exceeded '' @
                                    show_int (np_max_response_bytes policy) @ '' byte limit'')), sent)
                        | Some body \<Rightarrow> (Inr body, sent))))"

section \<open>What the address policy blocks\<close>

lemma normalize_ip_idem [simp]: "normalize_ip (normalize_ip i) = normalize_ip i"
  by (cases i) (auto simp: normalize_ip_def split: option.splits)

lemma is_metadata_normalize [simp]: "is_metadata (normalize_ip i) = is_metadata i"
  by (simp add: is_metadata_def)

lemma classify_normalize [simp]: "classify_ip (normalize_ip i) = classify_ip i"
  by (simp add: classify_ip_def)

lemma address_block_reason_normalize [simp]:
  "address_block_reason (normalize_ip i) policy = address_block_reason i policy"
  by (simp add: address_block_reason_def split: option.splits)

lemma metadata_classified: "is_metadata i \<Longrightarrow> classify_ip i = Some ''cloud metadata service address''"
  by (simp add: is_metadata_def classify_ip_def Let_def)

lemma metadata_blocked: "is_metadata i \<Longrightarrow> address_block_reason i policy \<noteq> None"
  by (simp add: address_block_reason_def metadata_classified)

definition special_use :: "ip \<Rightarrow> bool" where
  "special_use i \<longleftrightarrow> is_loopback i \<or> is_link_local i \<or> is_private i \<or> is_unspecified i \<or> is_multicast i
     \<or> is_reserved i"

lemma classify_ip_None: "classify_ip i = None \<longleftrightarrow> \<not> is_metadata i \<and> \<not> special_use (normalize_ip i)"
  by (auto simp: classify_ip_def is_metadata_def special_use_def Let_def)

lemma address_block_reason_None:
  "address_block_reason i policy = None \<longleftrightarrow>
     \<not> is_metadata i \<and> (np_allow_private policy \<or> \<not> special_use (normalize_ip i))"
  using classify_ip_None [of i]
  by (auto simp: address_block_reason_def split: option.splits)

lemma metadata_addresses [simp]:
  "is_metadata (IPv4 (of_int (quad 169 254 169 254)))"
  "is_metadata (IPv6 (of_int (group_base [0xfd00, 0xec2] + 0x254)) None)"
  "is_metadata (IPv4 (of_int (quad 100 100 100 200)))"
  by (simp_all add: is_metadata_def normalize_ip_def METADATA_ADDRESSES_def network_simps printing_simps)

section \<open>What a validated URL guarantees\<close>

lemma check_addresses_Inr:
  "check_addresses url policy is = Inr ips \<longleftrightarrow>
     (\<forall>i\<in>set is. address_block_reason i policy = None) \<and> ips = map (\<lambda>i. ip_str (normalize_ip i)) is"
proof (induction "is" arbitrary: ips)
  case (Cons i "is")
  then show ?case
    by (cases "check_addresses url policy is") (auto split: option.splits)
qed auto

lemma resolve_and_validate_Inr:
  assumes "resolve_and_validate getaddrinfo policy url = Inr ips"
  obtains parsed where "urlsplit url = Some parsed"
    and "up_scheme parsed = ''http'' \<or> up_scheme parsed = ''https''"
    and "url_hostname parsed \<noteq> []"
    and "str_lower (url_hostname parsed) \<notin> set (np_blocked_hosts policy)"
    and "(is_localhost (str_lower (url_hostname parsed)) \<and> np_allow_private policy \<and> ips = []) \<or>
      (\<exists>addresses. resolve_host getaddrinfo (url_hostname parsed) = Inr addresses \<and>
         (\<forall>i\<in>set addresses. address_block_reason i policy = None) \<and>
         ips = map (\<lambda>i. ip_str (normalize_ip i)) addresses)"
  using assms
  by (auto simp: resolve_and_validate_def Let_def check_addresses_Inr split: option.splits if_splits sum.splits)

definition permitted_text :: "network_policy \<Rightarrow> string \<Rightarrow> bool" where
  "permitted_text policy t \<longleftrightarrow>
     (\<exists>i. t = ip_str (normalize_ip i) \<and> address_block_reason i policy = None)"

lemma permitted_textI:
  "address_block_reason i policy = None \<Longrightarrow> permitted_text policy (ip_str (normalize_ip i))"
  by (auto simp: permitted_text_def)

lemma read_capped_length:
  "read_capped m n acc chunks = Some body \<Longrightarrow> n = int (length acc) \<Longrightarrow> n \<le> m \<Longrightarrow> int (length body) \<le> m"
  by (induction m n acc chunks rule: read_capped.induct) (auto simp: Let_def split: if_splits)

text \<open>
  The interface between a fetcher and a URL guard: what the guard lets through resolved to
  permitted addresses. The lemmas about the redirect loop hold for any such guard.
\<close>

locale url_guard =
  fixes validate :: "nat \<Rightarrow> string \<Rightarrow> net_error + string list"
    and permitted :: "string \<Rightarrow> bool"
  assumes validated_permitted: "validate n u = Inr ips \<Longrightarrow> t \<in> set ips \<Longrightarrow> permitted t"
begin

lemma fetch_loop_bound:
  "length (snd (fetch_loop validate http_get urljoin max_bytes exceeded n current)) \<le> n"
  by (induction n arbitrary: current)
    (auto simp: Let_def split: sum.splits option.splits)

lemma fetch_loop_hops:
  assumes "h \<in> set (snd (fetch_loop validate http_get urljoin max_bytes exceeded n current))"
  shows "(\<exists>k<n. validate k (hop_url h) = Inr (hop_allowed h)) \<and> (\<forall>t\<in>set (hop_allowed h). permitted t) \<and>
    (\<exists>parsed port. urlsplit (hop_url h) = Some parsed \<and>
       hop_request h = pinned_request parsed port (hop_url h) (hop_allowed h))"
  using assms
proof (induction n arbitrary: current)
  case (Suc n)
  from Suc.prems consider
      (here) parsed port where "validate n current = Inr (hop_allowed h)" "hop_url h = current"
        "urlsplit current = Some parsed" "hop_request h = pinned_request parsed port current (hop_allowed h)"
    | (later) target where "h \<in> set (snd (fetch_loop validate http_get urljoin max_bytes exceeded n target))"
    by (fastforce simp: Let_def split: sum.splits option.splits if_splits)
  then show ?case
  proof cases
    case here
    then show ?thesis by (auto intro: validated_permitted)
  next
    case later
    from Suc.IH [OF this] show ?thesis by (meson less_SucI)
  qed
qed simp

lemma fetch_loop_body:
  assumes "fst (fetch_loop validate http_get urljoin max_bytes exceeded n current) = Inr body"
    and "0 \<le> max_bytes"
  shows "int (length body) \<le> max_bytes"
  using assms
proof (induction n arbitrary: current)
  case (Suc n)
  then show ?case
    by (auto simp: Let_def split: sum.splits option.splits if_splits dest: read_capped_length)
qed simp

end

interpretation guard: url_guard "\<lambda>n. resolve_and_validate (getaddrinfo n) policy" "permitted_text policy"
  for getaddrinfo policy
proof
  fix n u ips t
  assume "resolve_and_validate (getaddrinfo n) policy u = Inr ips" and t: "t \<in> set ips"
  then show "permitted_text policy t"
    by (elim resolve_and_validate_Inr) (fastforce dest: bspec intro: permitted_textI)
qed

end
