(* ===== verification/Network_Properties.thy ===== *)
theory Network_Properties
  imports Sample Ssrf
begin

text \<open>
  The properties of the outbound network policy: which addresses may be contacted, what a
  validated URL guarantees, that the guarded fetch connects to validated addresses only and ends,
  and what the worker's patched resolver and session let through.
\<close>

section \<open>A small network\<close>

definition public_host :: resolver where
  "public_host h = (if h = ''ca.example'' then Some [''93.184.216.34'', ''10.0.0.1''] else Some [''93.184.216.34''])"

definition strict_policy :: network_policy where
  "strict_policy = \<lparr>np_allow_private = False, np_allow_redirects = False, np_max_response_bytes = 4,
     np_max_timeout_seconds = 60, np_blocked_hosts = []\<rparr>"

definition small_page :: http_response where
  "small_page = \<lparr>hr_status = 200, hr_is_redirect = False, hr_location = None, hr_content_length = None,
     hr_chunks = [''abc'']\<rparr>"

lemmas address_simps = ip_address_def parse_ipv4_def parse_octet_def digit_value_def join_base_def
  network_simps classification_defs classify_ip_def normalize_ip_def printing_simps
  METADATA_ADDRESSES_def via_mapped_def is_loopback4_def is_link_local4_def is_private4_def is_multicast4_def
  is_reserved4_def is_multicast_def is_reserved_def private_exceptions4_def

lemma public_address: "ip_address ''93.184.216.34'' = Some (IPv4 1572395042)"
  by (simp add: ip_address_def parse_ipv4_def parse_octet_def digit_value_def join_base_def)

lemma private_address: "ip_address ''10.0.0.1'' = Some (IPv4 167772161)"
  by (simp add: ip_address_def parse_ipv4_def parse_octet_def digit_value_def join_base_def)

lemma public_allowed: "address_block_reason (IPv4 1572395042) policy = None"
  by (simp add: address_block_reason_def address_simps Let_def)

lemma public_text: "show_quad 1572395042 = ''93.184.216.34''"
  by (simp add: printing_simps)

lemma private_blocked: "address_block_reason (IPv4 167772161) strict_policy \<noteq> None"
  by (simp add: address_block_reason_def address_simps Let_def strict_policy_def is_metadata_def)

section \<open>Addresses and URLs\<close>



text \<open>A URL that passes validation is http or https, names a host that is not on the operator's
  block list, and every address the host resolved to is permitted - or it is the localhost
  shortcut, which needs private targets to be allowed; the texts returned for pinning are those
  addresses.\<close>

theorem validated_url:
  assumes "resolve_and_validate getaddrinfo policy url = Inr ips"
  shows "\<exists>parsed. urlsplit url = Some parsed \<and> up_scheme parsed \<in> {''http'', ''https''}
    \<and> url_hostname parsed \<noteq> [] \<and> str_lower (url_hostname parsed) \<notin> set (np_blocked_hosts policy)
    \<and> ((is_localhost (str_lower (url_hostname parsed)) \<and> np_allow_private policy \<and> ips = []) \<or>
       (\<exists>addresses. resolve_host getaddrinfo (url_hostname parsed) = Inr addresses \<and> addresses \<noteq> []
          \<and> list_all (\<lambda>i. address_block_reason i policy = None) addresses
          \<and> ips = map (\<lambda>i. ip_str (normalize_ip i)) addresses))"
proof -
  have some: "resolve_host getaddrinfo h = Inr addresses \<Longrightarrow> addresses \<noteq> []" for h addresses
    by (auto simp: resolve_host_def Let_def split: option.splits if_splits)
  from resolve_and_validate_Inr [OF assms] obtain parsed where "urlsplit url = Some parsed"
    "up_scheme parsed = ''http'' \<or> up_scheme parsed = ''https''" "url_hostname parsed \<noteq> []"
    "str_lower (url_hostname parsed) \<notin> set (np_blocked_hosts policy)"
    "(is_localhost (str_lower (url_hostname parsed)) \<and> np_allow_private policy \<and> ips = []) \<or>
      (\<exists>addresses. resolve_host getaddrinfo (url_hostname parsed) = Inr addresses \<and>
         (\<forall>i\<in>set addresses. address_block_reason i policy = None) \<and>
         ips = map (\<lambda>i. ip_str (normalize_ip i)) addresses)" by blast
  with some show ?thesis
    by (intro exI [of _ parsed]) (auto simp: list_all_iff)
qed

lemma small_url:
  "urlsplit ''http://ca.test/x'' = Some \<lparr>up_scheme = ''http'', up_netloc = ''ca.test'', up_path = ''/x'',
     up_query = [], up_fragment = []\<rparr>"
  by (simp add: url_simps)

lemma small_url_validates: "resolve_and_validate public_host strict_policy ''http://ca.test/x'' = Inr [''93.184.216.34'']"
  by (simp add: resolve_and_validate_def small_url url_hostname_def hostinfo_def after_at_def str_lower_def lower_char_def
      strict_policy_def is_localhost_def endswith_def suffix_to_prefix resolve_host_def public_host_def map_filter_def public_address
      public_allowed normalize_ip_def public_text Let_def)

theorem validated_url_witness:
  "\<exists>parsed addresses. urlsplit ''http://ca.test/x'' = Some parsed
     \<and> resolve_host public_host (url_hostname parsed) = Inr addresses
     \<and> [''93.184.216.34''] = map (\<lambda>i. ip_str (normalize_ip i)) addresses"
  using validated_url [OF small_url_validates] by auto

section \<open>The guarded fetch\<close>





text \<open>C11: The fetch ends: it opens at most one connection more than the redirects it may follow,
  whatever the servers answer, and a body it returns is within the size cap.\<close>

theorem guarded_fetch_bounded:
  assumes "0 \<le> max_bytes"
  shows "length (snd (guarded_fetch getaddrinfo http_get urljoin policy max_bytes max_redirects url)) \<le> max_redirects + 1
    \<and> (case fst (guarded_fetch getaddrinfo http_get urljoin policy max_bytes max_redirects url) of
         Inl e \<Rightarrow> True | Inr body \<Rightarrow> int (length body) \<le> max_bytes)"
proof -
  have "fst (guarded_fetch getaddrinfo http_get urljoin policy max_bytes max_redirects url) = Inr body \<Longrightarrow>
      int (length body) \<le> max_bytes" for body
    unfolding guarded_fetch_def by (erule guard.fetch_loop_body) (rule assms)
  moreover have "length (snd (guarded_fetch getaddrinfo http_get urljoin policy max_bytes max_redirects url))
      \<le> max_redirects + 1"
    unfolding guarded_fetch_def by (rule guard.fetch_loop_bound)
  ultimately show ?thesis by (auto split: sum.split)
qed

definition redirecting :: http_response where
  "redirecting = small_page\<lparr>hr_is_redirect := True, hr_location := Some ''http://ca.test/x''\<rparr>"

theorem guarded_fetch_bounded_witness:
  "length (snd (guarded_fetch (\<lambda>n. public_host) (\<lambda>n r. Some redirecting) (\<lambda>b l. l) strict_policy 10 5 ''http://ca.test/x''))
     \<le> 6"
  using guarded_fetch_bounded [of 10 "\<lambda>n. public_host" "\<lambda>n r. Some redirecting" "\<lambda>b l. l" strict_policy 5 "''http://ca.test/x''"]
  by simp

section \<open>The worker's guards\<close>

text \<open>The resolver the worker installs never hands out an address the policy forbids, hands out
  nothing the system resolver did not answer, and keeps every permitted address in order.\<close>

theorem guarded_resolver_permits:
  "case guarded_getaddrinfo policy original host of
     None \<Rightarrow> (case original host of None \<Rightarrow> True
              | Some answered \<Rightarrow> filter (\<lambda>a. \<not> (\<exists>i. ip_address a = Some i \<and> address_block_reason i policy \<noteq> None)) answered = [])
   | Some kept \<Rightarrow> (\<exists>answered. original host = Some answered
        \<and> kept = filter (\<lambda>a. \<not> (\<exists>i. ip_address a = Some i \<and> address_block_reason i policy \<noteq> None)) answered
        \<and> kept \<noteq> [])"
proof -
  have "keep_address policy = (\<lambda>a. \<not> (\<exists>i. ip_address a = Some i \<and> address_block_reason i policy \<noteq> None))"
    by (intro ext) (simp add: keep_address_def split: option.split)
  then show ?thesis
    by (auto simp: guarded_getaddrinfo_def Let_def split: option.splits)
qed

theorem guarded_resolver_permits_witness:
  "guarded_getaddrinfo strict_policy public_host ''ca.example'' = Some [''93.184.216.34'']"
proof -
  have k: "filter (\<lambda>a. \<not> (\<exists>i. ip_address a = Some i \<and> address_block_reason i strict_policy \<noteq> None))
      [''93.184.216.34'', ''10.0.0.1''] = [''93.184.216.34'']"
    using private_blocked by (simp add: public_address private_address public_allowed)
  from guarded_resolver_permits [of strict_policy public_host "''ca.example''"] k show ?thesis
    by (auto simp: public_host_def split: option.splits)
qed



end
