(* ===== verification/Selection.thy ===== *)
theory Selection
  imports Authz
begin

text \<open>
  Fine-grained test selection: the engine's guard (\<open>ocsp_tester/selection.py\<close>), the static test
  catalogue (\<open>backend/app/test_catalog.py\<close>) and the catalogue API with the deployment-wide
  default selection (\<open>backend/app/api/catalog.py\<close>).
\<close>

section \<open>The engine's guard\<close>

text \<open>The module variable \<open>_active\<close> is an argument: \<open>None\<close> when no restriction is set.\<close>

type_synonym active_selection = "string set option"

definition set_active :: "string list option \<Rightarrow> active_selection" where
  "set_active names = map_option set names"

definition is_active :: "active_selection \<Rightarrow> bool" where
  "is_active a \<longleftrightarrow> a \<noteq> None"

definition matches :: "string \<Rightarrow> string set \<Rightarrow> bool" where
  "matches nm selected \<longleftrightarrow> nm \<in> selected \<or> (\<exists>base\<in>selected. startswith nm base)"

definition should_run :: "active_selection \<Rightarrow> string \<Rightarrow> bool" where
  "should_run a nm = (case a of None \<Rightarrow> True | Some selected \<Rightarrow> matches nm selected)"

definition any_selected :: "active_selection \<Rightarrow> string list \<Rightarrow> bool" where
  "any_selected a names = list_ex (should_run a) names"

section \<open>The catalogue\<close>

record catalog_test =
  ct_name :: string
  ct_description :: string
  ct_dynamic :: bool
  ct_scope :: string

definition catalog_entry :: "string \<Rightarrow> string \<Rightarrow> bool \<Rightarrow> string \<Rightarrow> catalog_test" where
  "catalog_entry nm descr dynamic scope =
     \<lparr>ct_name = nm, ct_description = descr, ct_dynamic = dynamic, ct_scope = scope\<rparr>"

type_synonym catalog = "(string, catalog_test list) dict"

definition TEST_CATALOG :: catalog where
  "TEST_CATALOG = [
     (''protocol'', [
       catalog_entry ''HTTP GET transport''
         ''Responder accepts RFC 6960 base64 GET requests'' False ''ocsp'',
       catalog_entry ''HTTP POST transport''
         ''Responder accepts DER POST requests'' False ''ocsp'',
       catalog_entry ''DER encoding and basic response fields''
         ''Response parses as DER with version, producedAt, responderID and signature algorithm present'' False ''ocsp'',
       catalog_entry ''CertID SHA-1 for issuer hashes''
         ''Responder accepts SHA-1 CertID hashes'' False ''ocsp'',
       catalog_entry ''Serial number handling''
         ''Serial number formats are handled consistently'' False ''ocsp'']),
     (''status'', [
       catalog_entry ''Known valid certificate returns good''
         ''Known-good leaf is reported as good'' False ''ocsp'',
       catalog_entry ''Known revoked certificate returns revoked''
         ''Known-revoked leaf is reported as revoked'' False ''ocsp'',
       catalog_entry ''Unknown CA returns unknown''
         ''Certificate from an unknown CA is reported unknown/unauthorized'' False ''ocsp'',
       catalog_entry ''Non-issued certificate handling''
         (''Never-issued serial is not reported good (RFC 6960 '' @ [CHR 0xC2, CHR 0xA7] @ ''2.2)'') False ''ocsp'',
       catalog_entry ''thisUpdate/nextUpdate/producedAt present and plausible''
         ''Response time fields are present, ordered and current'' False ''ocsp'']),
     (''crl'', [
       catalog_entry ''OCSP response signature validation''
         ''OCSP response signature verifies against the issuer'' False ''ocsp'',
       catalog_entry ''Signature algorithm validation''
         ''Response signature algorithm is acceptable'' False ''ocsp'',
       catalog_entry ''Response timestamp validation''
         ''Response timestamps are internally consistent'' False ''ocsp'',
       catalog_entry ''CRL Distribution Point extraction from certificate''
         ''CDP URLs can be extracted from the certificate under test'' False ''crl'',
       catalog_entry ''CRL download and parsing from certificate CRL Distribution Points''
         ''CRLs referenced by the certificate download and parse'' False ''crl'',
       catalog_entry ''CRL Distribution Point accessibility''
         ''Each CDP URL is reachable'' False ''crl'',
       catalog_entry ''CRL signature verification''
         ''Downloaded CRL signature verifies against the issuer'' False ''crl'',
       catalog_entry ''CRL timestamp validation''
         ''CRL thisUpdate/nextUpdate are present and current'' False ''crl'',
       catalog_entry ''Certificate revocation status check''
         ''Certificate serial checked against the CRL entries'' False ''crl'',
       catalog_entry ''CRL vs OCSP consistency check''
         ''CRL and OCSP agree on revocation status'' False ''crl+ocsp'',
       catalog_entry ''Fetch and parse CRL''
         ''Fetch/parse checks for each explicitly supplied CRL URL'' True ''crl'']),
     (''path_validation'', [
       catalog_entry ''Valid Path (Success): End-entity -> Intermediate CA -> Trusted Root''
         ''Baseline chain builds and validates to the trust anchor'' False ''path'',
       catalog_entry ''Invalid Signature (EE): EE certificate's signature cannot be verified''
         ''Tampered end-entity signature is rejected'' False ''path'',
       catalog_entry ''Invalid Signature (Intermediate): Intermediate CA certificate's signature is invalid''
         ''Tampered intermediate signature is rejected'' False ''path'',
       catalog_entry ''Issuer/Subject Mismatch: The Issuer DN of the child cert does not match the Subject DN of the parent cert''
         ''Broken issuer/subject chaining is rejected'' False ''path'',
       catalog_entry ''notAfter Expired (EE): Validation time after EE certificate's notAfter''
         ''Expired end-entity certificate is rejected'' False ''path'',
       catalog_entry ''Revocation Status Expired: CRL has expired (nextUpdate in past)''
         ''Stale CRL is not accepted as current revocation data'' False ''crl'',
       catalog_entry ''Revoked (EE) in Fresh CRL: EE serial number on most recent CRL''
         ''Revoked end-entity via CRL is rejected'' False ''crl'',
       catalog_entry ''Revoked (EE) by OCSP: OCSP response is revoked status''
         ''Revoked end-entity via OCSP is rejected'' False ''ocsp'',
       catalog_entry ''Basic Constraints Violation: Intermediate CA cert has cA = false''
         ''Non-CA intermediate is rejected'' False ''path'',
       catalog_entry ''Path Length Constraint Violation: Path exceeds pathLenConstraint''
         ''pathLenConstraint violations are rejected'' False ''path'',
       catalog_entry (''Successful Policy Mapping: Path requires Policy A; CA maps A '' @ [CHR 0xE2, CHR 0x86, CHR 0x92] @ '' B; EE asserts B'')
         ''Policy mapping across a bridge validates'' False ''path'',
       catalog_entry ''Required Explicit Policy Violation: CA requires explicit policy, EE contains anyPolicy''
         ''requireExplicitPolicy violations are rejected'' False ''path'']),
     (''ikev2'', [
       catalog_entry ''OCSP Content extension (type 14) support''
         ''RFC 4806 OCSP Content certificate encoding'' False ''ikev2'',
       catalog_entry ''CERTREQ with encoding 14 elicits CERT with OCSP''
         ''Responder participates in IKEv2 OCSP exchange'' False ''ikev2'',
       catalog_entry ''Trusted responder identification''
         ''Trusted responder configuration is identified'' False ''ikev2'',
       catalog_entry ''Configuration mapping (request/reply/both)''
         ''IKEv2 OCSP request/reply configuration mapping'' False ''ikev2'']),
     (''federal'', [
       catalog_entry ''Federal PKI environment detection''
         ''Detect Federal PKI agency/CA indicators in the response'' False ''ocsp'',
       catalog_entry ''Batch OCSP response handling (DHS CA4 style)''
         ''Multi-certificate batch responses are parsed'' False ''ocsp'',
       catalog_entry ''OCSP signer signature verification (trust chain)''
         ''Response signature verifies via a built trust chain'' False ''ocsp'',
       catalog_entry ''Delegated responder EKU (id-kp-OCSPSigning)''
         ''Delegated responder certificate carries the OCSP signing EKU'' False ''ocsp'',
       catalog_entry ''Response validity interval (freshness)''
         ''thisUpdate/nextUpdate meet FPKI freshness expectations'' False ''ocsp'']),
     (''performance'', [
       catalog_entry ''Latency baseline''
         ''Sampled request latency (median/min/max)'' False ''ocsp'',
       catalog_entry ''Load test''
         ''Concurrent request load test (when enabled)'' False ''ocsp'',
       catalog_entry ''Caching behavior observation''
         ''Cache-related response header observation'' False ''ocsp'']),
     (''security'', [
       catalog_entry ''Malformed request rejected''
         ''Garbage request bodies are rejected cleanly'' False ''ocsp'',
       catalog_entry ''Operational error signaling''
         ''tryLater/internalError signalling behaves correctly'' False ''ocsp'',
       catalog_entry ''Unauthorized query handling''
         ''Queries outside the responder's scope are answered safely'' False ''ocsp'',
       catalog_entry ''sigRequired when unsigned''
         ''Responder policy on unsigned requests'' False ''ocsp'',
       catalog_entry ''Nonce echo in response''
         ''RFC 9654 nonce is echoed back'' False ''ocsp'',
       catalog_entry ''Signature algorithm present and response SUCCESSFUL''
         ''Response is signed with an identified algorithm'' False ''ocsp'',
       catalog_entry ''Cryptographic preference negotiation''
         ''Responder honours requested hash preferences'' False ''ocsp''])]"

definition catalog_names :: "string \<Rightarrow> string list" where
  "catalog_names category = map ct_name (dict_get_or TEST_CATALOG category [])"

text \<open>A selection request maps category keys to test names.\<close>

type_synonym selection_map = "(string, string list) dict"

fun first_unknown :: "string list \<Rightarrow> string list \<Rightarrow> string option" where
  "first_unknown known [] = None"
| "first_unknown known (nm # names) = (if nm \<notin> set known then Some nm else first_unknown known names)"

text \<open>\<open>TEST_CATALOG\<close> is a parameter here, so that the loop can be reasoned about for any
  catalogue; the handlers use \<open>validate_selection\<close>, which fixes it.\<close>

fun validate_against :: "(string, string list) dict \<Rightarrow> selection_map \<Rightarrow> string option" where
  "validate_against catalog [] = None"
| "validate_against catalog ((category, names) # tests) =
     (case dict_get catalog category of
        None \<Rightarrow> Some (''Unknown test category: '' @ py_repr category)
      | Some known \<Rightarrow>
          (case first_unknown known names of
             Some nm \<Rightarrow> Some (''Unknown test in category '' @ py_repr category @ '': '' @ py_repr nm)
           | None \<Rightarrow> validate_against catalog tests))"

definition catalog_index :: "(string, string list) dict" where
  "catalog_index = map (\<lambda>(k, ts). (k, map ct_name ts)) TEST_CATALOG"

definition validate_selection :: "selection_map \<Rightarrow> string option" where
  "validate_selection tests = validate_against catalog_index tests"

lemma first_unknown_None [simp]: "first_unknown known names = None \<longleftrightarrow> set names \<subseteq> set known"
  by (induction names) auto

lemma first_unknown_Some:
  "first_unknown known names = Some nm \<Longrightarrow> nm \<in> set names \<and> nm \<notin> set known"
  by (induction names) (auto split: if_splits)

lemma validate_against_None:
  "validate_against catalog tests = None \<longleftrightarrow>
     (\<forall>(c, names)\<in>set tests. \<exists>known. dict_get catalog c = Some known \<and> set names \<subseteq> set known)"
  by (induction tests) (auto split: option.splits)

lemma catalog_index_get:
  "dict_get catalog_index c = map_option (map ct_name) (dict_get TEST_CATALOG c)"
  by (simp add: catalog_index_def map_of_map)

section \<open>Catalogue API and the deployment-wide selection\<close>

definition CATEGORY_KEYS :: "string list" where
  "CATEGORY_KEYS = [''protocol'', ''status'', ''crl'', ''path_validation'', ''ikev2'', ''federal'',
     ''performance'', ''security'']"

definition CATEGORY_LABELS :: "(string, string) dict" where
  "CATEGORY_LABELS = [
     (''protocol'', ''OCSP protocol tests''),
     (''status'', ''Certificate status tests''),
     (''crl'', ''CRL tests''),
     (''path_validation'', ''Certificate path validation tests''),
     (''ikev2'', ''IKEv2 tests''),
     (''federal'', ''Federal PKI / Federal Bridge tests''),
     (''performance'', ''Performance tests (OCSP)''),
     (''security'', ''Security & error handling tests (OCSP)'')]"

record catalog_category_out =
  cc_key :: string
  cc_label :: string
  cc_tests :: "catalog_test list"

definition get_test_catalog :: "catalog_category_out list" where
  "get_test_catalog =
     map (\<lambda>key. \<lparr>cc_key = key, cc_label = dict_get_or CATEGORY_LABELS key key,
                 cc_tests = dict_get_or TEST_CATALOG key []\<rparr>) CATEGORY_KEYS"

definition GLOBAL_SELECTION_KEY :: string where
  "GLOBAL_SELECTION_KEY = ''global_test_selection''"

text \<open>A selection as it is stored in a JSON column, and back.\<close>

definition selection_json :: "selection_map \<Rightarrow> json" where
  "selection_json tests = JDict (map (\<lambda>(k, ns). (k, JList (map JStr ns))) tests)"

definition json_names :: "json \<Rightarrow> string list option" where
  "json_names j =
     (case j of
        JList xs \<Rightarrow> if list_all (\<lambda>x. json_str x \<noteq> None) xs then Some (map (\<lambda>x. the (json_str x)) xs) else None
      | _ \<Rightarrow> None)"

definition load_global_selection :: "db \<Rightarrow> (string \<times> json) list option" where
  "load_global_selection db =
     (case get_row as_key GLOBAL_SELECTION_KEY (app_settings db) of
        None \<Rightarrow> None
      | Some setting \<Rightarrow> json_dict (jget (as_value setting) ''tests'' JNull))"

record global_selection_out =
  gs_tests :: "(string \<times> json) list option"
  gs_updated_at :: "int option"

definition get_global_test_selection :: "db \<Rightarrow> global_selection_out" where
  "get_global_test_selection db =
     (case get_row as_key GLOBAL_SELECTION_KEY (app_settings db) of
        None \<Rightarrow> \<lparr>gs_tests = None, gs_updated_at = None\<rparr>
      | Some setting \<Rightarrow>
          \<lparr>gs_tests = json_dict (jget (as_value setting) ''tests'' JNull),
           gs_updated_at = Some (as_updated_at setting)\<rparr>)"

definition put_global_test_selection ::
  "env \<Rightarrow> principal \<Rightarrow> selection_map option \<Rightarrow> db \<Rightarrow> unit result \<times> db" where
  "put_global_test_selection env p tests db =
     (if \<not> is_global_admin p then (Inl (HTTPException 403 ''Global admin required''), db)
      else case (case tests of None \<Rightarrow> None | Some t \<Rightarrow> validate_selection t) of
        Some detail \<Rightarrow> (Inl (HTTPException 400 detail), db)
      | None \<Rightarrow>
        (let v = [(''tests'', case tests of None \<Rightarrow> JNull | Some t \<Rightarrow> selection_json t)]
         in (Inr (),
             db\<lparr>app_settings :=
               (case get_row as_key GLOBAL_SELECTION_KEY (app_settings db) of
                  None \<Rightarrow> insert_row \<lparr>as_key = GLOBAL_SELECTION_KEY, as_value = v, as_updated_at = e_now env\<rparr>
                            (app_settings db)
                | Some _ \<Rightarrow> modify_row as_key GLOBAL_SELECTION_KEY
                            (\<lambda>s. s\<lparr>as_value := v, as_updated_at := e_now env\<rparr>) (app_settings db))\<rparr>)))"

section \<open>Properties\<close>

lemma should_run_None [simp]: "should_run None nm"
  by (simp add: should_run_def)

lemma should_run_Some [simp]: "should_run (Some S) nm \<longleftrightarrow> (\<exists>base\<in>S. startswith nm base)"
  by (auto simp: should_run_def matches_def startswith_def)

lemma any_selected_iff: "any_selected a names \<longleftrightarrow> (\<exists>nm\<in>set names. should_run a nm)"
  by (auto simp: any_selected_def list_ex_iff)

lemma should_run_dynamic: "base \<in> S \<Longrightarrow> should_run (Some S) (base @ suff)"
  by (auto simp: startswith_def intro: bexI [of _ base])

lemma load_after_put:
  assumes "put_global_test_selection env p tests db = (Inr (), db')"
  shows "load_global_selection db' = map_option (map (\<lambda>(k, ns). (k, JList (map JStr ns)))) tests"
  using assms
  by (cases "get_row as_key GLOBAL_SELECTION_KEY (app_settings db)"; cases tests)
    (auto simp: put_global_test_selection_def load_global_selection_def selection_json_def Let_def
      get_row_insert_row get_row_modify_row split: if_splits option.splits)

lemma json_names_selection [simp]: "json_names (JList (map JStr ns)) = Some ns"
  by (simp add: json_names_def list_all_iff comp_def)

section \<open>The catalogue is prefix free\<close>

text \<open>
  \<open>matches\<close> accepts every test whose name extends a selected one. Within a category no
  catalogue name extends another, so selecting catalogue names runs exactly those.
\<close>

definition prefix_free :: "string list \<Rightarrow> bool" where
  "prefix_free names \<longleftrightarrow> (\<forall>a\<in>set names. \<forall>b\<in>set names. prefix a b \<longrightarrow> a = b)"

lemma catalog_prefix_free: "list_all (\<lambda>(k, names). prefix_free names) catalog_index"
  by (simp add: catalog_index_def TEST_CATALOG_def catalog_entry_def prefix_free_def)

lemma catalog_keys: "map fst catalog_index = CATEGORY_KEYS"
  by (simp add: catalog_index_def TEST_CATALOG_def CATEGORY_KEYS_def)

lemma catalog_labels_total: "map fst CATEGORY_LABELS = CATEGORY_KEYS"
  by (simp add: CATEGORY_LABELS_def CATEGORY_KEYS_def)

lemma prefix_free_selection:
  assumes "prefix_free known" and "S \<subseteq> set known" and "nm \<in> set known"
  shows "should_run (Some S) nm \<longleftrightarrow> nm \<in> S"
  using assms by (fastforce simp: prefix_free_def startswith_def)

lemma catalog_selection:
  assumes "dict_get catalog_index c = Some known" and "S \<subseteq> set known" and "nm \<in> set known"
  shows "should_run (Some S) nm \<longleftrightarrow> nm \<in> S"
proof -
  from assms(1) have "(c, known) \<in> set catalog_index"
    by (rule map_of_SomeD)
  with catalog_prefix_free have "prefix_free known"
    by (auto simp: list_all_iff)
  with assms show ?thesis by (intro prefix_free_selection)
qed

end
