(* ===== verification/Timestamps.thy ===== *)
theory Timestamps
  imports Json
begin

text \<open>
  Dates as Python's \<open>datetime\<close> module counts them, and the part of \<open>datetime.strptime\<close> that the
  result analysis (\<open>backend/app/worker/analysis.py\<close>) calls: the numeric directives, the zone
  directive, literals and a blank. An aware time is its microseconds since the epoch (UTC).
\<close>

section \<open>The proleptic Gregorian calendar\<close>

definition is_leap :: "int \<Rightarrow> bool" where
  "is_leap y \<longleftrightarrow> y mod 4 = 0 \<and> (y mod 100 \<noteq> 0 \<or> y mod 400 = 0)"

definition days_in_month :: "int \<Rightarrow> int \<Rightarrow> int" where
  "days_in_month y m =
     (if m = 2 then (if is_leap y then 29 else 28)
      else if m \<in> {4, 6, 9, 11} then 30 else 31)"

definition days_before_year :: "int \<Rightarrow> int" where
  "days_before_year y = (let n = y - 1 in n * 365 + n div 4 - n div 100 + n div 400)"

definition days_before_month :: "int \<Rightarrow> int \<Rightarrow> int" where
  "days_before_month y m = sum_list (map (\<lambda>k. days_in_month y k) [1..m - 1])"

text \<open>\<open>date.toordinal\<close>: 1 January of year 1 is day 1.\<close>

definition to_ordinal :: "int \<Rightarrow> int \<Rightarrow> int \<Rightarrow> int" where
  "to_ordinal y m d = days_before_year y + days_before_month y m + d"

definition epoch_ordinal :: int where
  "epoch_ordinal = 719163"

definition date_exists :: "int \<Rightarrow> int \<Rightarrow> int \<Rightarrow> bool" where
  "date_exists y m d \<longleftrightarrow> 1 \<le> y \<and> y \<le> 9999 \<and> 1 \<le> m \<and> m \<le> 12 \<and> 1 \<le> d \<and> d \<le> days_in_month y m"

record datetime_fields =
  dt_year :: int
  dt_month :: int
  dt_day :: int
  dt_hour :: int
  dt_minute :: int
  dt_second :: int
  dt_offset :: "int option"

text \<open>Seconds since the epoch; a naive time is read as UTC (\<open>replace(tzinfo=timezone.utc)\<close>).\<close>

definition timestamp :: "datetime_fields \<Rightarrow> int" where
  "timestamp f =
     (to_ordinal (dt_year f) (dt_month f) (dt_day f) - epoch_ordinal) * 86400
     + dt_hour f * 3600 + dt_minute f * 60 + dt_second f
     - (case dt_offset f of None \<Rightarrow> 0 | Some z \<Rightarrow> z)"

lemma epoch_is_day_one: "to_ordinal 1970 1 1 = epoch_ordinal"
  by (simp add: to_ordinal_def days_before_year_def days_before_month_def epoch_ordinal_def)

section \<open>\<open>strptime\<close>\<close>

text \<open>
  \<open>strptime\<close> turns the format into a regular expression and takes its first match at the start
  of the text. A directive is its alternatives in order, each a result with the rest of the
  text; the match of the format is the first combination, found by backtracking.
\<close>

fun take_digits :: "nat \<Rightarrow> string \<Rightarrow> (nat \<times> string) option" where
  "take_digits n s =
     (if n \<le> length s \<and> list_all (\<lambda>c. digit_value c \<noteq> None) (take n s)
      then map_option (\<lambda>v. (v, drop n s)) (parse_digits 0 (take n s)) else None)"

definition digits_within :: "nat \<Rightarrow> nat \<Rightarrow> nat \<Rightarrow> string \<Rightarrow> (nat \<times> string) list" where
  "digits_within n lo hi s =
     (case take_digits n s of
        Some (v, rest) \<Rightarrow> if lo \<le> v \<and> v \<le> hi then [(v, rest)] else []
      | None \<Rightarrow> [])"

datatype directive = Year | Month | MonthName | Day | Hour | Minute | Second | Zone | ZoneName | Blank | Literal char

definition two_or_one :: "nat \<Rightarrow> nat \<Rightarrow> nat \<Rightarrow> string \<Rightarrow> (nat \<times> string) list" where
  "two_or_one lo lo1 hi s = digits_within 2 lo hi s @ digits_within 1 lo1 9 s"

definition day_alternatives :: "string \<Rightarrow> (nat \<times> string) list" where
  "day_alternatives s =
     two_or_one 1 1 31 s @
     (case s of c # rest \<Rightarrow> if c = CHR '' '' then digits_within 1 1 9 rest else [] | [] \<Rightarrow> [])"

text \<open>\<open>%z\<close>: a sign, hours, an optional colon and minutes, optionally seconds (a fraction of a
  second is not modelled); or \<open>Z\<close>. The colons must agree.\<close>

definition zone_value :: "bool \<Rightarrow> nat \<Rightarrow> nat \<Rightarrow> nat \<Rightarrow> int" where
  "zone_value neg h m sec = (if neg then - 1 else 1) * int (h * 3600 + m * 60 + sec)"

definition zone_seconds :: "bool \<Rightarrow> nat \<Rightarrow> nat \<Rightarrow> bool \<Rightarrow> string \<Rightarrow> (int \<times> string) list" where
  "zone_seconds neg h m colon rest =
     (let rest' = (if colon then (case rest of c # r \<Rightarrow> if c = CHR '':'' then Some r else None | [] \<Rightarrow> None)
                   else Some rest)
      in (case rest' of
            None \<Rightarrow> []
          | Some r \<Rightarrow> map (\<lambda>(sec, r). (zone_value neg h m sec, r)) (digits_within 2 0 59 r))
         @ [(zone_value neg h m 0, rest)])"

definition zone_alternatives :: "string \<Rightarrow> (int \<times> string) list" where
  "zone_alternatives s =
     (case s of
        [] \<Rightarrow> []
      | c # rest \<Rightarrow>
          if c = CHR ''Z'' then [(0, rest)]
          else if c = CHR ''+'' \<or> c = CHR ''-''
          then concat (map (\<lambda>(h, r).
                 let colon = (r \<noteq> [] \<and> hd r = CHR '':'');
                     r' = (if colon then tl r else r)
                 in concat (map (\<lambda>(m, r2). zone_seconds (c = CHR ''-'') h m colon r2)
                      (digits_within 2 0 59 r')))
               (digits_within 2 0 99 rest))
          else [])"

text \<open>\<open>%b\<close> in the C locale, and \<open>%Z\<close> on a server whose own zone is UTC; both ignore the case, and a zone
  name leaves the time naive.\<close>

definition month_names :: "string list" where
  "month_names = [''jan'', ''feb'', ''mar'', ''apr'', ''may'', ''jun'', ''jul'', ''aug'', ''sep'', ''oct'', ''nov'', ''dec'']"

definition month_alternatives :: "string \<Rightarrow> (nat \<times> string) list" where
  "month_alternatives s =
     map (\<lambda>(i, nm). (i, drop 3 s)) (filter (\<lambda>(i, nm). str_lower (take 3 s) = nm) (zip [1..<13] month_names))"

definition zone_name_rest :: "string \<Rightarrow> string list" where
  "zone_name_rest s = (if str_lower (take 3 s) = ''utc'' \<or> str_lower (take 3 s) = ''gmt'' then [drop 3 s] else [])"

fun match_format :: "directive list \<Rightarrow> datetime_fields \<Rightarrow> string \<Rightarrow> (datetime_fields \<times> string) list" where
  "match_format [] f s = [(f, s)]"
| "match_format (Year # ds) f s =
     concat (map (\<lambda>(v, r). match_format ds (f\<lparr>dt_year := int v\<rparr>) r) (digits_within 4 0 9999 s))"
| "match_format (Month # ds) f s =
     concat (map (\<lambda>(v, r). match_format ds (f\<lparr>dt_month := int v\<rparr>) r) (two_or_one 1 1 12 s))"
| "match_format (MonthName # ds) f s =
     concat (map (\<lambda>(v, r). match_format ds (f\<lparr>dt_month := int v\<rparr>) r) (month_alternatives s))"
| "match_format (ZoneName # ds) f s = concat (map (match_format ds f) (zone_name_rest s))"
| "match_format (Day # ds) f s =
     concat (map (\<lambda>(v, r). match_format ds (f\<lparr>dt_day := int v\<rparr>) r) (day_alternatives s))"
| "match_format (Hour # ds) f s =
     concat (map (\<lambda>(v, r). match_format ds (f\<lparr>dt_hour := int v\<rparr>) r) (two_or_one 0 0 23 s))"
| "match_format (Minute # ds) f s =
     concat (map (\<lambda>(v, r). match_format ds (f\<lparr>dt_minute := int v\<rparr>) r) (two_or_one 0 0 59 s))"
| "match_format (Second # ds) f s =
     concat (map (\<lambda>(v, r). match_format ds (f\<lparr>dt_second := int v\<rparr>) r) (two_or_one 0 0 61 s))"
| "match_format (Zone # ds) f s =
     concat (map (\<lambda>(v, r). match_format ds (f\<lparr>dt_offset := Some v\<rparr>) r) (zone_alternatives s))"
| "match_format (Blank # ds) f s =
     (if s \<noteq> [] \<and> is_space (hd s) then match_format ds f (lstrip s) else [])"
| "match_format (Literal c # ds) f s =
     (case s of x # r \<Rightarrow> if lower_char x = lower_char c then match_format ds f r else [] | [] \<Rightarrow> [])"

definition blank_fields :: datetime_fields where
  "blank_fields = \<lparr>dt_year = 1900, dt_month = 1, dt_day = 1, dt_hour = 0, dt_minute = 0,
     dt_second = 0, dt_offset = None\<rparr>"

text \<open>\<open>None\<close> is the ValueError: no match, text left over, or fields that are not a time.\<close>

definition strptime :: "string \<Rightarrow> directive list \<Rightarrow> datetime_fields option" where
  "strptime s fmt =
     (case match_format fmt blank_fields s of
        [] \<Rightarrow> None
      | (f, rest) # _ \<Rightarrow>
          if rest \<noteq> [] \<or> \<not> date_exists (dt_year f) (dt_month f) (dt_day f) \<or> dt_second f > 59
          then None
          else (case dt_offset f of
                  Some z \<Rightarrow> if \<bar>z\<bar> < 86400 then Some f else None
                | None \<Rightarrow> Some f))"

lemma strptime_date_exists:
  "strptime s fmt = Some f \<Longrightarrow> date_exists (dt_year f) (dt_month f) (dt_day f)"
  by (auto simp: strptime_def split: list.splits prod.splits if_splits option.splits)

end
