(* ===== verification/Analysis.thy ===== *)
theory Analysis
  imports Timestamps
begin

text \<open>
  Post-processing of engine results (\<open>backend/app/worker/analysis.py\<close>) and the level prefixes of
  engine log lines (\<open>backend/app/worker/loglevels.py\<close>). A serialized result and its details are
  JSON objects; \<open>str_of\<close> renders a value in an f-string, with \<open>repr\<close> of composite values and
  floats as a parameter.
\<close>

section \<open>Values out of JSON\<close>

text \<open>\<open>int(x)\<close> and \<open>list(x)\<close>.\<close>

fun json_int :: "json \<Rightarrow> int result" where
  "json_int (JInt i) = Inr i"
| "json_int (JBool b) = Inr (if b then 1 else 0)"
| "json_int (JFloat q) = Inr (if 0 \<le> q then \<lfloor>q\<rfloor> else \<lceil>q\<rceil>)"
| "json_int (JStr s) = (case py_int s of None \<Rightarrow> Inl (Uncaught ''ValueError'') | Some i \<Rightarrow> Inr i)"
| "json_int _ = Inl (Uncaught ''TypeError'')"

fun json_list :: "json \<Rightarrow> json list result" where
  "json_list (JList xs) = Inr xs"
| "json_list (JStr s) = Inr (map (\<lambda>c. JStr [c]) s)"
| "json_list (JDict d) = Inr (map (\<lambda>(k, _). JStr k) d)"
| "json_list _ = Inl (Uncaught ''TypeError'')"

fun str_of :: "(json \<Rightarrow> string) \<Rightarrow> json \<Rightarrow> string" where
  "str_of repr (JStr s) = s"
| "str_of repr (JInt i) = show_int i"
| "str_of repr (JBool b) = (if b then ''True'' else ''False'')"
| "str_of repr JNull = ''None''"
| "str_of repr j = repr j"

section \<open>Searching the details\<close>

fun find_keys :: "string list \<Rightarrow> json \<Rightarrow> (string \<times> json) list" where
  "find_keys wanted (JDict d) =
     concat (map (\<lambda>(key, v). (if key \<in> set wanted \<and> v \<noteq> JNull then [(key, v)] else []) @ find_keys wanted v) d)"
| "find_keys wanted (JList xs) = concat (map (find_keys wanted) xs)"
| "find_keys wanted _ = []"

definition ISO_Z :: "directive list" where
  "ISO_Z = [Year, Literal CHR ''-'', Month, Literal CHR ''-'', Day, Literal CHR ''T'', Hour, Literal CHR '':'',
     Minute, Literal CHR '':'', Second, Literal CHR ''Z'']"

definition ISO_ZONE :: "directive list" where
  "ISO_ZONE = [Year, Literal CHR ''-'', Month, Literal CHR ''-'', Day, Literal CHR ''T'', Hour, Literal CHR '':'',
     Minute, Literal CHR '':'', Second, Zone]"

definition ISO_BLANK :: "directive list" where
  "ISO_BLANK = [Year, Literal CHR ''-'', Month, Literal CHR ''-'', Day, Blank, Hour, Literal CHR '':'',
     Minute, Literal CHR '':'', Second]"

fun first_format :: "string \<Rightarrow> directive list list \<Rightarrow> datetime_fields option" where
  "first_format s [] = None"
| "first_format s (fmt # fmts) =
     (case strptime s fmt of Some f \<Rightarrow> Some f | None \<Rightarrow> first_format s fmts)"

text \<open>Microseconds since the epoch.\<close>

definition parse_ts :: "json \<Rightarrow> int option" where
  "parse_ts v =
     (case v of
        JStr s \<Rightarrow> map_option (\<lambda>f. timestamp f * 1000000) (first_format s [ISO_Z, ISO_ZONE, ISO_BLANK])
      | _ \<Rightarrow> None)"

text \<open>\<open>value if not isinstance(value, dict) else value.get("value")\<close>\<close>

definition raw_value :: "json \<Rightarrow> json" where
  "raw_value v = (case v of JDict d \<Rightarrow> jget d ''value'' JNull | _ \<Rightarrow> v)"

section \<open>Warnings\<close>

definition em_dash :: string where
  "em_dash = [CHR 0xE2, CHR 0x80, CHR 0x94]"

definition section_sign :: string where
  "section_sign = [CHR 0xC2, CHR 0xA7]"

definition DEPRECATED_SIG_OIDS :: "(string, string) dict" where
  "DEPRECATED_SIG_OIDS = [
     (''1.2.840.113549.1.1.5'', ''sha1WithRSAEncryption''),
     (''1.2.840.113549.1.1.4'', ''md5WithRSAEncryption''),
     (''1.2.840.10040.4.3'', ''dsaWithSHA1''),
     (''1.2.840.10045.4.1'', ''ecdsaWithSHA1'')]"

definition CATEGORY_RFC_REFS :: "(string, string list) dict" where
  "CATEGORY_RFC_REFS = [
     (''Protocol'', [''RFC 6960 (OCSP)'', ''RFC 5019 (lightweight OCSP profile)'']),
     (''Status'', [''RFC 6960 '' @ section_sign @ ''2.2 (response statuses)'']),
     (''Security'', [''RFC 6960 '' @ section_sign @ ''5 (security considerations)'']),
     (''CRL'', [''RFC 5280 '' @ section_sign @ ''5 (CRL profile)'']),
     (''IKEv2'', [''RFC 4806 (OCSP extensions to IKEv2)'']),
     (''Federal PKI'', [''Federal PKI X.509 certificate policy'', ''RFC 6960'']),
     (''Path Validation'', [''RFC 5280 '' @ section_sign @ ''6 (path validation)'']),
     (''Performance'', [''RFC 5019 '' @ section_sign @ ''6 (caching recommendations)''])]"

definition minutes :: "int \<Rightarrow> int" where
  "minutes n = n * 60 * 1000000"

definition hours :: "int \<Rightarrow> int" where
  "hours n = n * 3600 * 1000000"

fun next_update_warning :: "(json \<Rightarrow> string) \<Rightarrow> int \<Rightarrow> (string \<times> json) list \<Rightarrow> string list" where
  "next_update_warning repr now [] = []"
| "next_update_warning repr now ((k, v) # rest) =
     (case parse_ts (raw_value v) of
        None \<Rightarrow> next_update_warning repr now rest
      | Some ts \<Rightarrow>
          if ts < now
          then [''nextUpdate '' @ str_of repr v @ '' is in the past '' @ em_dash
                @ '' the responder is serving expired status data (RFC 6960 '' @ section_sign @ ''4.2.2.1)'']
          else next_update_warning repr now rest)"

fun this_update_warning ::
  "(json \<Rightarrow> string) \<Rightarrow> int \<Rightarrow> int \<Rightarrow> json \<Rightarrow> (string \<times> json) list \<Rightarrow> string list" where
  "this_update_warning repr now max_age shown [] = []"
| "this_update_warning repr now max_age shown ((k, v) # rest) =
     (let raw = raw_value v
      in case parse_ts raw of
           None \<Rightarrow> this_update_warning repr now max_age shown rest
         | Some ts \<Rightarrow>
             if ts > now + minutes 5
             then [''thisUpdate '' @ str_of repr raw @ '' is in the future '' @ em_dash
                   @ '' check responder clock (RFC 6960 '' @ section_sign @ ''4.2.2.1)'']
             else if now - ts > max_age
             then [''thisUpdate '' @ str_of repr raw @ '' is older than the configured maximum age of ''
                   @ str_of repr shown @ ''h'']
             else [])"

definition nonce_warning :: "bool \<Rightarrow> (string \<times> json) list \<Rightarrow> string list" where
  "nonce_warning nonce_enabled found =
     (if nonce_enabled
      then (case found of
              (_, JBool False) # _ \<Rightarrow>
                [''Requested nonce was not echoed in the response '' @ em_dash
                 @ '' replay protection is not effective (RFC 9654)'']
            | _ \<Rightarrow> [])
      else [])"

definition algorithm_warning :: "(string \<times> json) list \<Rightarrow> string list" where
  "algorithm_warning found =
     (case found of
        (_, JStr oid) # _ \<Rightarrow>
          (case dict_get DEPRECATED_SIG_OIDS oid of
             Some nm \<Rightarrow> if oid \<noteq> [] then [''Response signed with deprecated algorithm '' @ nm @ '' ('' @ oid @ '')''] else []
           | None \<Rightarrow> [])
      | _ \<Rightarrow> [])"

text \<open>\<open>"nonce" in result.get("name", "").lower()\<close>, evaluated only when the nonce is enabled
  and short.\<close>

definition nonce_length_warning :: "bool \<Rightarrow> int \<Rightarrow> json \<Rightarrow> string list result" where
  "nonce_length_warning nonce_enabled nonce_len nm =
     (if nonce_enabled \<and> nonce_len < 32
      then (case nm of
              JStr s \<Rightarrow>
                Inr (if contains (str_lower s) ''nonce''
                     then [''Configured nonce length '' @ show_int nonce_len
                           @ '' is below the 32 bytes recommended by RFC 9654''] else [])
            | _ \<Rightarrow> Inl (Uncaught ''AttributeError''))
      else Inr [])"

definition category_refs :: "json \<Rightarrow> string list result" where
  "category_refs category =
     (case category of
        JStr c \<Rightarrow> Inr (dict_get_or CATEGORY_RFC_REFS c [])
      | JList _ \<Rightarrow> Inl (Uncaught ''TypeError'')
      | JDict _ \<Rightarrow> Inl (Uncaught ''TypeError'')
      | _ \<Rightarrow> Inr [])"

fun add_refs :: "string list \<Rightarrow> json list \<Rightarrow> json list" where
  "add_refs [] refs = refs"
| "add_refs (r # rs) refs = add_refs rs (if JStr r \<in> set refs then refs else refs @ [JStr r])"

definition collect_warnings ::
  "(json \<Rightarrow> string) \<Rightarrow> int \<Rightarrow> (string \<times> json) list \<Rightarrow> (string \<times> json) list \<Rightarrow> (string \<times> json) list \<Rightarrow>
   json list result" where
  "collect_warnings repr now result details run_config =
     bind_result (json_list (jget details ''warnings'' (JList []))) (\<lambda>given.
     bind_result (json_int (jget run_config ''max_age_hours'' (JInt 24))) (\<lambda>age.
     if \<bar>age\<bar> > 999999999 * 24 then Inl (Uncaught ''OverflowError'')
     else
     (let d = JDict details;
          nonce_enabled = json_true (jget run_config ''nonce_enabled'' (JBool True));
          fresh = next_update_warning repr now (find_keys [''next_update'', ''nextUpdate''] d)
            @ this_update_warning repr now (hours age) (jget run_config ''max_age_hours'' (JInt 24))
                (find_keys [''this_update'', ''thisUpdate''] d)
            @ nonce_warning nonce_enabled (find_keys [''nonce_echoed''] d)
      in bind_result (json_int (jget run_config ''nonce_length'' (JInt 32))) (\<lambda>nonce_len.
         bind_result (nonce_length_warning nonce_enabled nonce_len (jget result ''name'' (JStr []))) (\<lambda>short.
         Inr (given @ map JStr (fresh @ short
           @ algorithm_warning (find_keys [''signature_algorithm_oid''] d))))))))"

definition enrich_result ::
  "(json \<Rightarrow> string) \<Rightarrow> int \<Rightarrow> (string \<times> json) list \<Rightarrow> (string \<times> json) list \<Rightarrow> (string \<times> json) list result" where
  "enrich_result repr now result run_config =
     (case jget result ''details'' (JDict []) of
        JDict details \<Rightarrow>
          bind_result (collect_warnings repr now result details run_config) (\<lambda>warnings.
          let warned = (if warnings = [] then details else AList.update ''warnings'' (JList warnings) details);
              status' = (if warnings \<noteq> [] \<and> jget result ''status'' JNull = JStr ''PASS''
                         then AList.update ''status'' (JStr ''WARN'') result else result)
          in bind_result (json_list (jget warned ''rfc_refs'' (JList []))) (\<lambda>refs0.
             bind_result (category_refs (jget result ''category'' (JStr []))) (\<lambda>cat_refs.
             let refs = add_refs cat_refs refs0;
                 details' = (if refs = [] then warned else AList.update ''rfc_refs'' (JList refs) warned)
             in Inr (AList.update ''details'' (JDict details') status'))))
      | _ \<Rightarrow> Inl (Uncaught ''AttributeError''))"

section \<open>Level prefixes of log lines\<close>

definition LEVELS :: "string list" where
  "LEVELS = [''DEBUG'', ''INFO'', ''WARN'', ''WARNING'', ''ERROR'', ''CRITICAL'']"

text \<open>The regular expression: leading blanks, a level in brackets (any case), trailing blanks.
  The first alternative that is followed by the closing bracket matches.\<close>

fun level_at :: "string list \<Rightarrow> string \<Rightarrow> (string \<times> string) option" where
  "level_at [] s = None"
| "level_at (l # ls) s =
     (let n = length l
      in if str_upper (take n s) = l \<and> n \<le> length s \<and> drop n s \<noteq> [] \<and> hd (drop n s) = CHR '']''
         then Some (l, lstrip (tl (drop n s)))
         else level_at ls s)"

definition split_level_prefix :: "string \<Rightarrow> string \<Rightarrow> string \<times> string" where
  "split_level_prefix text dflt =
     (case lstrip text of
        c # rest \<Rightarrow>
          if c = CHR ''[''
          then (case level_at LEVELS rest of
                  None \<Rightarrow> (dflt, text)
                | Some (level, message) \<Rightarrow> (if level = ''WARNING'' then ''WARN'' else level, message))
          else (dflt, text)
      | [] \<Rightarrow> (dflt, text))"

section \<open>Properties\<close>

lemma jget_update_other [simp]: "k \<noteq> k' \<Longrightarrow> jget (AList.update k v d) k' w = jget d k' w"
  by (simp add: jget_def update_conv')

lemma add_refs_superset: "set refs \<subseteq> set (add_refs rs refs)"
  by (induction rs refs rule: add_refs.induct) auto

lemma set_add_refs [simp]: "set (add_refs rs refs) = set refs \<union> JStr ` set rs"
  by (induction rs refs rule: add_refs.induct) auto

lemma distinct_add_refs: "distinct refs \<Longrightarrow> distinct (add_refs rs refs)"
  by (induction rs refs rule: add_refs.induct) auto

lemma enrich_resultE:
  assumes "enrich_result repr now result cfg = Inr result'"
  obtains details warnings details' where
    "jget result ''details'' (JDict []) = JDict details"
    "collect_warnings repr now result details cfg = Inr warnings"
    "jget result' ''details'' JNull = JDict details'"
    "warnings \<noteq> [] \<Longrightarrow> jget details' ''warnings'' JNull = JList warnings"
    "\<And>k w. k \<noteq> ''details'' \<Longrightarrow> k \<noteq> ''status'' \<Longrightarrow> jget result' k w = jget result k w"
    "jget result' ''status'' JNull =
       (if warnings \<noteq> [] \<and> jget result ''status'' JNull = JStr ''PASS'' then JStr ''WARN''
        else jget result ''status'' JNull)"
  using assms that unfolding enrich_result_def Let_def
  by (auto split: json.splits if_splits)

lemma find_keys_key: "(k, v) \<in> set (find_keys wanted j) \<Longrightarrow> k \<in> set wanted \<and> v \<noteq> JNull"
  by (induction wanted j rule: find_keys.induct) (auto split: if_splits)

lemma next_update_warning_complete:
  assumes "(k, v) \<in> set found" and "parse_ts (raw_value v) = Some ts" and "ts < now"
  shows "next_update_warning repr now found \<noteq> []"
  using assms by (induction found) (auto split: option.splits if_splits)

lemma next_update_warning_sound:
  assumes "next_update_warning repr now found \<noteq> []"
  shows "\<exists>k v ts. (k, v) \<in> set found \<and> parse_ts (raw_value v) = Some ts \<and> ts < now"
  using assms by (induction found) (auto split: option.splits if_splits, blast+)

lemma collect_warnings_keeps:
  assumes "collect_warnings repr now result details cfg = Inr ws"
    and "json_list (jget details ''warnings'' (JList [])) = Inr given"
  shows "set given \<subseteq> set ws"
  using assms by (auto simp: collect_warnings_def Let_def split: if_splits)

lemma collect_warnings_expired:
  assumes "collect_warnings repr now result details cfg = Inr ws"
    and "(k, v) \<in> set (find_keys [''next_update'', ''nextUpdate''] (JDict details))"
    and "parse_ts (raw_value v) = Some ts" and "ts < now"
  shows "ws \<noteq> []"
  using assms next_update_warning_complete [OF assms(2-4), of repr]
  by (auto simp: collect_warnings_def Let_def split: if_splits)

lemma collect_warnings_nonce:
  assumes "collect_warnings repr now result details cfg = Inr ws"
    and "json_true (jget cfg ''nonce_enabled'' (JBool True))"
    and "find_keys [''nonce_echoed''] (JDict details) = (k, JBool False) # others"
  shows "ws \<noteq> []"
  using assms by (auto simp: collect_warnings_def nonce_warning_def Let_def split: if_splits)

lemma lstrip_fixed: "s \<noteq> [] \<Longrightarrow> \<not> is_space (hd s) \<Longrightarrow> lstrip s = s"
  by (cases s) (simp_all add: lstrip_def)

lemma level_at_Some:
  "level_at ls s = Some (l, m) \<Longrightarrow> l \<in> set ls \<and> (\<exists>t. str_upper (take (length l) s) = l \<and> m = lstrip t)"
  by (induction ls s rule: level_at.induct) (auto simp: Let_def split: if_splits)

text \<open>A prefixed line comes back as its level and its text.\<close>

lemma str_upper_levels [simp]:
  "str_upper ''DEBUG'' = ''DEBUG''" "str_upper ''INFO'' = ''INFO''" "str_upper ''WARN'' = ''WARN''"
  "str_upper ''WARNING'' = ''WARNING''" "str_upper ''ERROR'' = ''ERROR''"
  "str_upper ''CRITICAL'' = ''CRITICAL''"
  by (simp_all add: str_upper_def upper_char_def)

lemma level_at_tagged:
  assumes "l \<in> set LEVELS"
  shows "level_at LEVELS (l @ CHR '']'' # rest) = Some (l, lstrip rest)"
proof -
  from assms have "l = ''DEBUG'' \<or> l = ''INFO'' \<or> l = ''WARN'' \<or> l = ''WARNING'' \<or> l = ''ERROR''
      \<or> l = ''CRITICAL''"
    by (simp add: LEVELS_def)
  then show ?thesis
    by (elim disjE) (simp_all add: LEVELS_def str_upper_def upper_char_def)
qed

lemma split_level_prefix_tagged:
  assumes "l \<in> set LEVELS" and "msg = [] \<or> \<not> is_space (hd msg)"
  shows "split_level_prefix (''['' @ l @ ''] '' @ msg) d =
    (if l = ''WARNING'' then ''WARN'' else l, msg)"
proof -
  have "lstrip (CHR '' '' # msg) = msg"
    using assms(2) by (cases msg) (auto simp: lstrip_def is_space_def)
  moreover have "lstrip (CHR ''['' # s) = CHR ''['' # s" for s
    by (simp add: lstrip_def is_space_def)
  ultimately show ?thesis
    using level_at_tagged [OF assms(1), of "CHR '' '' # msg"] by (simp add: split_level_prefix_def)
qed

end
