(* ===== verification/Serializers.thy ===== *)
theory Serializers
  imports Orm
begin

text \<open>
  From rows to API objects (\<open>backend/app/api/serializers.py\<close>, \<open>backend/app/schemas.py\<close>). Building
  a schema object checks its literals: a status outside them is pydantic's ValidationError.
\<close>

definition validation_error :: error where
  "validation_error = Uncaught ''ValidationError''"

definition RUN_STATUSES :: "string list" where
  "RUN_STATUSES = [''queued'', ''running'', ''completed'', ''failed'', ''cancelled'', ''timed_out'']"

definition RESULT_STATUSES :: "string list" where
  "RESULT_STATUSES = [''PASS'', ''FAIL'', ''WARN'', ''SKIP'', ''ERROR'']"

record latency_summary =
  ls_median_ms :: "int option"
  ls_min_ms :: "int option"
  ls_max_ms :: "int option"
  ls_samples :: int

text \<open>An \<open>Optional[int]\<close> field: absent or null, or a value pydantic reads as an integer.\<close>

definition lax_int :: "json \<Rightarrow> int option" where
  "lax_int v =
     (case v of
        JInt i \<Rightarrow> Some i
      | JBool b \<Rightarrow> Some (if b then 1 else 0)
      | JFloat q \<Rightarrow> if of_int \<lfloor>q\<rfloor> = q then Some \<lfloor>q\<rfloor> else None
      | JStr s \<Rightarrow> py_int s
      | _ \<Rightarrow> None)"

definition optional_int_ok :: "json \<Rightarrow> bool" where
  "optional_int_ok v \<longleftrightarrow> v = JNull \<or> lax_int v \<noteq> None"

definition parse_latency :: "json \<Rightarrow> latency_summary option" where
  "parse_latency j =
     (case j of
        JDict d \<Rightarrow>
          let med = jget d ''median_ms'' JNull; mn = jget d ''min_ms'' JNull; mx = jget d ''max_ms'' JNull;
              samples = jget d ''samples'' (JInt 0)
          in if optional_int_ok med \<and> optional_int_ok mn \<and> optional_int_ok mx \<and> lax_int samples \<noteq> None
             then Some \<lparr>ls_median_ms = lax_int med, ls_min_ms = lax_int mn, ls_max_ms = lax_int mx,
                        ls_samples = the (lax_int samples)\<rparr>
             else None
      | _ \<Rightarrow> None)"

definition SENSITIVE_CONFIG_KEYS :: "string list" where
  "SENSITIVE_CONFIG_KEYS = [''client_key'']"

fun mask_keys :: "string list \<Rightarrow> (string \<times> json) list \<Rightarrow> (string \<times> json) list" where
  "mask_keys [] files = files"
| "mask_keys (key # keys) files =
     mask_keys keys
       (case dict_get files key of
          None \<Rightarrow> files
        | Some v \<Rightarrow> if json_true v then AList.update key (JStr ''<provided>'') files else files)"

definition sanitize_config :: "(string \<times> json) list \<Rightarrow> (string \<times> json) list result" where
  "sanitize_config config =
     (case jget config ''files'' (JDict []) of
        JDict d \<Rightarrow>
          let files = mask_keys SENSITIVE_CONFIG_KEYS d
          in Inr (if files \<noteq> [] then AList.update ''files'' (JDict files) config else config)
      | _ \<Rightarrow> Inl (Uncaught ''TypeError''))"

record run_summary =
  rs_id :: string
  rs_name :: "string option"
  rs_ocsp_url :: string
  rs_status :: string
  rs_created_at :: int
  rs_started_at :: "int option"
  rs_finished_at :: "int option"
  rs_totals :: "(string, int) dict"
  rs_latency :: "latency_summary option"
  rs_categories :: "string list"
  rs_current_activity :: "string option"
  rs_error :: "string option"

text \<open>\<open>(config.get("categories") or {}).items()\<close>\<close>

definition enabled_categories :: "(string \<times> json) list \<Rightarrow> string list result" where
  "enabled_categories config =
     (let c = jget config ''categories'' JNull
      in case c of
           JDict d \<Rightarrow> Inr (map fst (filter (\<lambda>(_, v). json_true v) d))
         | _ \<Rightarrow> if json_true c then Inl (Uncaught ''AttributeError'') else Inr [])"

definition run_to_summary :: "run \<Rightarrow> run_summary result" where
  "run_to_summary r =
     bind_result (enabled_categories (r_config r)) (\<lambda>categories.
     if r_status r \<in> set RUN_STATUSES
     then Inr \<lparr>rs_id = r_id r, rs_name = r_name r, rs_ocsp_url = r_ocsp_url r, rs_status = r_status r,
               rs_created_at = r_created_at r, rs_started_at = r_started_at r,
               rs_finished_at = r_finished_at r, rs_totals = r_totals r,
               rs_latency = Option.bind (r_latency r) parse_latency, rs_categories = categories,
               rs_current_activity = r_current_activity r, rs_error = r_error r\<rparr>
     else Inl validation_error)"

definition run_to_detail :: "run \<Rightarrow> (run_summary \<times> (string \<times> json) list) result" where
  "run_to_detail r =
     bind_result (run_to_summary r) (\<lambda>summary.
     bind_result (sanitize_config (r_config r)) (\<lambda>config. Inr (summary, config)))"

record test_result_out =
  ro_id :: string
  ro_category :: string
  ro_name :: string
  ro_status :: string
  ro_message :: string
  ro_details :: json
  ro_started_at :: "int option"
  ro_ended_at :: "int option"
  ro_duration_ms :: "int option"

definition result_to_schema :: "test_result \<Rightarrow> test_result_out result" where
  "result_to_schema r =
     (if res_status r \<in> set RESULT_STATUSES \<and> json_dict (res_details r) \<noteq> None
      then Inr \<lparr>ro_id = res_id r, ro_category = res_category r, ro_name = res_name r,
                ro_status = res_status r, ro_message = res_message r, ro_details = res_details r,
                ro_started_at = res_started_at r, ro_ended_at = res_ended_at r,
                ro_duration_ms = res_duration_ms r\<rparr>
      else Inl validation_error)"

text \<open>\<open>json.loads(summary.model_dump_json())\<close>; \<open>isoformat\<close> renders a time.\<close>

definition json_opt :: "('a \<Rightarrow> json) \<Rightarrow> 'a option \<Rightarrow> json" where
  "json_opt f x = (case x of None \<Rightarrow> JNull | Some y \<Rightarrow> f y)"

definition latency_json :: "latency_summary \<Rightarrow> json" where
  "latency_json l = JDict
     [(''median_ms'', json_opt JInt (ls_median_ms l)), (''min_ms'', json_opt JInt (ls_min_ms l)),
      (''max_ms'', json_opt JInt (ls_max_ms l)), (''samples'', JInt (ls_samples l))]"

definition summary_json :: "(int \<Rightarrow> string) \<Rightarrow> run_summary \<Rightarrow> (string \<times> json) list" where
  "summary_json isoformat s =
     [(''id'', JStr (rs_id s)), (''name'', json_opt JStr (rs_name s)), (''ocsp_url'', JStr (rs_ocsp_url s)),
      (''status'', JStr (rs_status s)), (''created_at'', JStr (isoformat (rs_created_at s))),
      (''started_at'', json_opt (\<lambda>t. JStr (isoformat t)) (rs_started_at s)),
      (''finished_at'', json_opt (\<lambda>t. JStr (isoformat t)) (rs_finished_at s)),
      (''totals'', JDict (map (\<lambda>(k, n). (k, JInt n)) (rs_totals s))),
      (''latency'', json_opt latency_json (rs_latency s)),
      (''categories'', JList (map JStr (rs_categories s))),
      (''current_activity'', json_opt JStr (rs_current_activity s)),
      (''error'', json_opt JStr (rs_error s))]"

section \<open>Properties\<close>

lemma summary_json_status [simp]: "jget (summary_json isoformat s) ''status'' v = JStr (rs_status s)"
  by (simp add: summary_json_def)

lemma run_to_summary_status:
  "run_to_summary r = Inr s \<Longrightarrow> rs_status s = r_status r \<and> r_status r \<in> set RUN_STATUSES"
  by (auto simp: run_to_summary_def split: if_splits)

text \<open>A serialized configuration never carries a client key: the slot is masked when filled.\<close>

lemma mask_client_key:
  "dict_get (mask_keys SENSITIVE_CONFIG_KEYS files) ''client_key'' = Some v \<Longrightarrow>
     v = JStr ''<provided>'' \<or> \<not> json_true v"
  by (auto simp: SENSITIVE_CONFIG_KEYS_def update_conv' split: option.splits if_splits)

lemma sanitize_config_client_key:
  assumes "sanitize_config config = Inr c" and "jget c ''files'' (JDict []) = JDict files"
    and "dict_get files ''client_key'' = Some v"
  shows "v = JStr ''<provided>'' \<or> \<not> json_true v"
proof -
  obtain d where d: "jget config ''files'' (JDict []) = JDict d"
    using assms(1) by (auto simp: sanitize_config_def split: json.splits)
  with assms(1) have c: "c = (let f = mask_keys SENSITIVE_CONFIG_KEYS d
      in if f \<noteq> [] then AList.update ''files'' (JDict f) config else config)"
    by (simp add: sanitize_config_def Let_def)
  have "files = mask_keys SENSITIVE_CONFIG_KEYS d"
  proof (cases "mask_keys SENSITIVE_CONFIG_KEYS d = []")
    case True
    then have "d = []"
      by (auto simp: SENSITIVE_CONFIG_KEYS_def split: option.splits if_splits)
    with True c d assms(2) show ?thesis by (simp add: SENSITIVE_CONFIG_KEYS_def)
  next
    case False
    with c assms(2) show ?thesis by (simp add: Let_def)
  qed
  with mask_client_key assms(3) show ?thesis by blast
qed

end
