(* ===== verification/Schemas.thy ===== *)
theory Schemas
  imports Selection Serializers "HOL-Library.Monad_Syntax"
begin

text \<open>
  The run configuration (\<open>RunConfig\<close>, \<open>TestSelection\<close> and \<open>Categories\<close> of
  \<open>backend/app/schemas.py\<close>): the validated object, the parser with every field's constraint and
  default, and \<open>model_dump\<close>. Unknown keys are refused (\<open>extra="forbid"\<close>).
\<close>

section \<open>Field parsers\<close>

definition lax_bool :: "json \<Rightarrow> bool option" where
  "lax_bool v =
     (case v of
        JBool b \<Rightarrow> Some b
      | JInt i \<Rightarrow> if i = 0 then Some False else if i = 1 then Some True else None
      | JFloat q \<Rightarrow> if q = 0 then Some False else if q = 1 then Some True else None
      | JStr s \<Rightarrow>
          if str_lower s \<in> {''0'', ''off'', ''f'', ''false'', ''n'', ''no''} then Some False
          else if str_lower s \<in> {''1'', ''on'', ''t'', ''true'', ''y'', ''yes''} then Some True
          else None
      | _ \<Rightarrow> None)"

definition int_in :: "int \<Rightarrow> int \<Rightarrow> json \<Rightarrow> int option" where
  "int_in lo hi v = (case lax_int v of None \<Rightarrow> None | Some i \<Rightarrow> if lo \<le> i \<and> i \<le> hi then Some i else None)"

definition checked :: "('a \<Rightarrow> bool) \<Rightarrow> 'a option \<Rightarrow> 'a option" where
  "checked p x = (case x of None \<Rightarrow> None | Some y \<Rightarrow> if p y then Some y else None)"

fun all_some :: "'a option list \<Rightarrow> 'a list option" where
  "all_some [] = Some []"
| "all_some (x # xs) =
     (case x of None \<Rightarrow> None | Some y \<Rightarrow> map_option ((#) y) (all_some xs))"

definition list_of :: "(json \<Rightarrow> 'a option) \<Rightarrow> json \<Rightarrow> 'a list option" where
  "list_of p v = (case v of JList xs \<Rightarrow> all_some (map p xs) | _ \<Rightarrow> None)"

definition dict_of :: "(json \<Rightarrow> 'a option) \<Rightarrow> json \<Rightarrow> (string \<times> 'a) list option" where
  "dict_of p v =
     (case v of JDict d \<Rightarrow> all_some (map (\<lambda>(k, x). map_option (Pair k) (p x)) d) | _ \<Rightarrow> None)"

definition optional :: "(json \<Rightarrow> 'a option) \<Rightarrow> json \<Rightarrow> 'a option option" where
  "optional p v = (if v = JNull then Some None else map_option Some (p v))"

text \<open>A field of a model: its parser, and its default when it has one.\<close>

definition field :: "(string \<times> json) list \<Rightarrow> string \<Rightarrow> (json \<Rightarrow> 'a option) \<Rightarrow> 'a option \<Rightarrow> 'a option" where
  "field d k p dflt = (case map_of d k of None \<Rightarrow> dflt | Some v \<Rightarrow> p v)"

definition known_keys :: "string list \<Rightarrow> (string \<times> json) list \<Rightarrow> bool" where
  "known_keys ks d \<longleftrightarrow> list_all (\<lambda>(k, _). k \<in> set ks) d"

section \<open>Models\<close>

record categories =
  cat_protocol :: bool
  cat_status :: bool
  cat_crl :: bool
  cat_path_validation :: bool
  cat_ikev2 :: bool
  cat_federal :: bool
  cat_performance :: bool
  cat_security :: bool

definition category_flags :: "categories \<Rightarrow> (string \<times> bool) list" where
  "category_flags c =
     [(''protocol'', cat_protocol c), (''status'', cat_status c), (''crl'', cat_crl c),
      (''path_validation'', cat_path_validation c), (''ikev2'', cat_ikev2 c), (''federal'', cat_federal c),
      (''performance'', cat_performance c), (''security'', cat_security c)]"

definition categories_enabled :: "categories \<Rightarrow> string list" where
  "categories_enabled c = filter (\<lambda>k. dict_get_or (category_flags c) k False) CATEGORY_KEYS"

definition default_categories :: categories where
  "default_categories = \<lparr>cat_protocol = True, cat_status = True, cat_crl = True,
     cat_path_validation = True, cat_ikev2 = False, cat_federal = False, cat_performance = False,
     cat_security = True\<rparr>"

record test_selection =
  ts_mode :: string
  ts_tests :: selection_map

definition default_selection :: test_selection where
  "default_selection = \<lparr>ts_mode = ''all'', ts_tests = []\<rparr>"

record run_config =
  rc_name :: "string option"
  rc_ocsp_url :: string
  rc_crl_urls :: "string list"
  rc_request_method :: string
  rc_nonce_enabled :: bool
  rc_nonce_length :: int
  rc_latency_samples :: int
  rc_enable_load_test :: bool
  rc_load_concurrency :: int
  rc_load_requests :: int
  rc_timeout_seconds :: int
  rc_run_timeout_seconds :: int
  rc_max_age_hours :: int
  rc_trust_anchor_type :: string
  rc_require_explicit_policy :: bool
  rc_inhibit_policy_mapping :: bool
  rc_categories :: categories
  rc_test_selection :: test_selection
  rc_saved_certs :: "(string \<times> int) list"
  rc_profile_id :: "int option"

definition SAVED_CERT_SLOTS :: "string list" where
  "SAVED_CERT_SLOTS = [''issuer_cert'', ''good_cert'', ''revoked_cert'', ''unknown_ca_cert'', ''trust_anchor'']"

definition must_be_http :: "string \<Rightarrow> bool" where
  "must_be_http url \<longleftrightarrow> startswith (str_lower url) ''http://'' \<or> startswith (str_lower url) ''https://''"

definition MODEL_FIELDS :: "string list" where
  "MODEL_FIELDS = [''name'', ''ocsp_url'', ''crl_urls'', ''request_method'', ''nonce_enabled'',
     ''nonce_length'', ''latency_samples'', ''enable_load_test'', ''load_concurrency'', ''load_requests'',
     ''timeout_seconds'', ''run_timeout_seconds'', ''max_age_hours'', ''trust_anchor_type'',
     ''require_explicit_policy'', ''inhibit_policy_mapping'', ''categories'', ''test_selection'',
     ''saved_certs'', ''profile_id'']"

definition valid_run_config :: "run_config \<Rightarrow> bool" where
  "valid_run_config c \<longleftrightarrow>
     (case rc_name c of None \<Rightarrow> True | Some n \<Rightarrow> length n \<le> 200) \<and>
     1 \<le> length (rc_ocsp_url c) \<and> length (rc_ocsp_url c) \<le> 2000 \<and> must_be_http (rc_ocsp_url c) \<and>
     length (rc_crl_urls c) \<le> 10 \<and> list_all must_be_http (rc_crl_urls c) \<and>
     rc_request_method c \<in> {''auto'', ''get'', ''post''} \<and>
     1 \<le> rc_nonce_length c \<and> rc_nonce_length c \<le> 128 \<and>
     1 \<le> rc_latency_samples c \<and> rc_latency_samples c \<le> 100 \<and>
     1 \<le> rc_load_concurrency c \<and> rc_load_concurrency c \<le> 64 \<and>
     1 \<le> rc_load_requests c \<and> rc_load_requests c \<le> 2000 \<and>
     1 \<le> rc_timeout_seconds c \<and> rc_timeout_seconds c \<le> 120 \<and>
     30 \<le> rc_run_timeout_seconds c \<and> rc_run_timeout_seconds c \<le> 7200 \<and>
     1 \<le> rc_max_age_hours c \<and> rc_max_age_hours c \<le> 8760 \<and>
     rc_trust_anchor_type c \<in> {''root'', ''intermediate''} \<and>
     ts_mode (rc_test_selection c) \<in> {''all'', ''global'', ''custom''} \<and>
     list_all (\<lambda>(slot, _). slot \<in> set SAVED_CERT_SLOTS) (rc_saved_certs c)"

section \<open>Parsing\<close>

definition parse_categories :: "json \<Rightarrow> categories option" where
  "parse_categories v = do {
     d \<leftarrow> checked (known_keys CATEGORY_KEYS) (json_dict v);
     a \<leftarrow> field d ''protocol'' lax_bool (Some True);
     b \<leftarrow> field d ''status'' lax_bool (Some True);
     c \<leftarrow> field d ''crl'' lax_bool (Some True);
     p \<leftarrow> field d ''path_validation'' lax_bool (Some True);
     i \<leftarrow> field d ''ikev2'' lax_bool (Some False);
     f \<leftarrow> field d ''federal'' lax_bool (Some False);
     e \<leftarrow> field d ''performance'' lax_bool (Some False);
     s \<leftarrow> field d ''security'' lax_bool (Some True);
     Some \<lparr>cat_protocol = a, cat_status = b, cat_crl = c, cat_path_validation = p, cat_ikev2 = i,
           cat_federal = f, cat_performance = e, cat_security = s\<rparr> }"

definition parse_test_selection :: "json \<Rightarrow> test_selection option" where
  "parse_test_selection v = do {
     d \<leftarrow> checked (known_keys [''mode'', ''tests'']) (json_dict v);
     m \<leftarrow> field d ''mode'' (\<lambda>v. checked (\<lambda>s. s \<in> {''all'', ''global'', ''custom''}) (json_str v)) (Some ''all'');
     t \<leftarrow> field d ''tests'' (dict_of (list_of json_str)) (Some []);
     Some \<lparr>ts_mode = m, ts_tests = t\<rparr> }"

definition parse_run_config :: "(string \<times> json) list \<Rightarrow> run_config option" where
  "parse_run_config d0 = do {
     d \<leftarrow> checked (known_keys MODEL_FIELDS) (Some d0);
     nm \<leftarrow> field d ''name'' (optional (\<lambda>v. checked (\<lambda>s. length s \<le> 200) (json_str v))) (Some None);
     url \<leftarrow> field d ''ocsp_url'' (\<lambda>v. checked (\<lambda>s. 1 \<le> length s \<and> length s \<le> 2000 \<and> must_be_http s) (json_str v)) None;
     crls \<leftarrow> field d ''crl_urls'' (\<lambda>v. checked (\<lambda>us. length us \<le> 10 \<and> list_all must_be_http us) (list_of json_str v)) (Some []);
     method \<leftarrow> field d ''request_method'' (\<lambda>v. checked (\<lambda>s. s \<in> {''auto'', ''get'', ''post''}) (json_str v)) (Some ''auto'');
     nonce \<leftarrow> field d ''nonce_enabled'' lax_bool (Some True);
     nlen \<leftarrow> field d ''nonce_length'' (int_in 1 128) (Some 32);
     samples \<leftarrow> field d ''latency_samples'' (int_in 1 100) (Some 5);
     load \<leftarrow> field d ''enable_load_test'' lax_bool (Some False);
     conc \<leftarrow> field d ''load_concurrency'' (int_in 1 64) (Some 5);
     reqs \<leftarrow> field d ''load_requests'' (int_in 1 2000) (Some 50);
     timeout \<leftarrow> field d ''timeout_seconds'' (int_in 1 120) (Some 10);
     run_timeout \<leftarrow> field d ''run_timeout_seconds'' (int_in 30 7200) (Some 900);
     age \<leftarrow> field d ''max_age_hours'' (int_in 1 8760) (Some 24);
     anchor \<leftarrow> field d ''trust_anchor_type'' (\<lambda>v. checked (\<lambda>s. s \<in> {''root'', ''intermediate''}) (json_str v)) (Some ''root'');
     expl \<leftarrow> field d ''require_explicit_policy'' lax_bool (Some False);
     inhib \<leftarrow> field d ''inhibit_policy_mapping'' lax_bool (Some False);
     cats \<leftarrow> field d ''categories'' parse_categories (Some default_categories);
     sel \<leftarrow> field d ''test_selection'' parse_test_selection (Some default_selection);
     saved \<leftarrow> field d ''saved_certs'' (\<lambda>v. checked (list_all (\<lambda>(slot, _). slot \<in> set SAVED_CERT_SLOTS)) (dict_of lax_int v)) (Some []);
     prof \<leftarrow> field d ''profile_id'' (optional lax_int) (Some None);
     Some \<lparr>rc_name = nm, rc_ocsp_url = url, rc_crl_urls = crls, rc_request_method = method,
       rc_nonce_enabled = nonce, rc_nonce_length = nlen, rc_latency_samples = samples,
       rc_enable_load_test = load, rc_load_concurrency = conc, rc_load_requests = reqs,
       rc_timeout_seconds = timeout, rc_run_timeout_seconds = run_timeout, rc_max_age_hours = age,
       rc_trust_anchor_type = anchor, rc_require_explicit_policy = expl,
       rc_inhibit_policy_mapping = inhib, rc_categories = cats, rc_test_selection = sel,
       rc_saved_certs = saved, rc_profile_id = prof\<rparr> }"

section \<open>\<open>model_dump\<close>\<close>

definition dump_categories :: "categories \<Rightarrow> json" where
  "dump_categories c = JDict (map (\<lambda>(k, b). (k, JBool b)) (category_flags c))"

definition dump_selection :: "test_selection \<Rightarrow> json" where
  "dump_selection s = JDict [(''mode'', JStr (ts_mode s)), (''tests'', selection_json (ts_tests s))]"

definition dump_run_config :: "run_config \<Rightarrow> (string \<times> json) list" where
  "dump_run_config c =
     [(''name'', json_opt JStr (rc_name c)), (''ocsp_url'', JStr (rc_ocsp_url c)),
      (''crl_urls'', JList (map JStr (rc_crl_urls c))), (''request_method'', JStr (rc_request_method c)),
      (''nonce_enabled'', JBool (rc_nonce_enabled c)), (''nonce_length'', JInt (rc_nonce_length c)),
      (''latency_samples'', JInt (rc_latency_samples c)), (''enable_load_test'', JBool (rc_enable_load_test c)),
      (''load_concurrency'', JInt (rc_load_concurrency c)), (''load_requests'', JInt (rc_load_requests c)),
      (''timeout_seconds'', JInt (rc_timeout_seconds c)), (''run_timeout_seconds'', JInt (rc_run_timeout_seconds c)),
      (''max_age_hours'', JInt (rc_max_age_hours c)), (''trust_anchor_type'', JStr (rc_trust_anchor_type c)),
      (''require_explicit_policy'', JBool (rc_require_explicit_policy c)),
      (''inhibit_policy_mapping'', JBool (rc_inhibit_policy_mapping c)),
      (''categories'', dump_categories (rc_categories c)), (''test_selection'', dump_selection (rc_test_selection c)),
      (''saved_certs'', JDict (map (\<lambda>(k, i). (k, JInt i)) (rc_saved_certs c))),
      (''profile_id'', json_opt JInt (rc_profile_id c))]"

text \<open>\<open>{k: v for k, v in config.items() if k in RunConfig.model_fields}\<close>\<close>

definition only_model_fields :: "(string \<times> json) list \<Rightarrow> (string \<times> json) list" where
  "only_model_fields d = filter (\<lambda>(k, _). k \<in> set MODEL_FIELDS) d"

section \<open>Round trip\<close>

lemma lax_simps [simp]:
  "lax_bool (JBool b) = Some b" "lax_int (JInt i) = Some i"
  by (simp_all add: lax_bool_def lax_int_def)

lemma int_in_JInt [simp]: "int_in lo hi (JInt i) = (if lo \<le> i \<and> i \<le> hi then Some i else None)"
  by (simp add: int_in_def)

lemma checked_Some [simp]: "checked p (Some x) = (if p x then Some x else None)"
  by (simp add: checked_def)

lemma all_some_map: "(\<And>x. x \<in> set xs \<Longrightarrow> f x = Some (g x)) \<Longrightarrow> all_some (map f xs) = Some (map g xs)"
  by (induction xs) simp_all

lemma list_of_map [simp]: "list_of json_str (JList (map JStr xs)) = Some xs"
  by (simp add: list_of_def comp_def all_some_map [where g = id, simplified])

lemma dict_of_ints [simp]: "dict_of lax_int (JDict (map (\<lambda>(k, i). (k, JInt i)) xs)) = Some xs"
  by (simp add: dict_of_def comp_def split_beta all_some_map [where g = id, simplified])

lemma dict_of_selection [simp]: "dict_of (list_of json_str) (selection_json t) = Some t"
  by (simp add: dict_of_def selection_json_def comp_def split_beta all_some_map [where g = id, simplified])

lemma optional_json_opt [simp]:
  "(\<And>x. f x \<noteq> JNull) \<Longrightarrow> optional p (json_opt f x) = (case x of None \<Rightarrow> Some None | Some y \<Rightarrow> map_option Some (p (f y)))"
  by (simp add: optional_def json_opt_def split: option.splits)

lemma parse_dump_categories [simp]: "parse_categories (dump_categories c) = Some c"
  by (simp add: parse_categories_def dump_categories_def category_flags_def field_def known_keys_def
      CATEGORY_KEYS_def)

lemma parse_dump_selection [simp]:
  "ts_mode s \<in> {''all'', ''global'', ''custom''} \<Longrightarrow> parse_test_selection (dump_selection s) = Some s"
  by (auto simp: parse_test_selection_def dump_selection_def field_def known_keys_def)

lemma dump_known: "known_keys MODEL_FIELDS (dump_run_config c)"
  by (simp add: known_keys_def dump_run_config_def MODEL_FIELDS_def)

lemma parse_dump: "valid_run_config c \<Longrightarrow> parse_run_config (dump_run_config c) = Some c"
  unfolding parse_run_config_def field_def
  by (simp add: dump_known, simp add: dump_run_config_def valid_run_config_def split: option.splits, auto)

lemma field_int: "field d k (int_in lo hi) (Some n) = Some x \<Longrightarrow> lo \<le> n \<Longrightarrow> n \<le> hi \<Longrightarrow> lo \<le> x \<and> x \<le> hi"
  by (auto simp: field_def int_in_def split: option.splits if_splits)

lemma field_checked:
  "field d k (\<lambda>v. checked P (q v)) dflt = Some x \<Longrightarrow> (case dflt of None \<Rightarrow> True | Some y \<Rightarrow> P y) \<Longrightarrow> P x"
  by (auto simp: field_def checked_def split: option.splits if_splits)

lemma field_optional:
  "field d k (optional (\<lambda>v. checked P (q v))) (Some None) = Some x \<Longrightarrow> (case x of None \<Rightarrow> True | Some y \<Rightarrow> P y)"
  by (auto simp: field_def optional_def checked_def split: option.splits if_splits)

lemma parse_selection_mode: "parse_test_selection v = Some s \<Longrightarrow> ts_mode s \<in> {''all'', ''global'', ''custom''}"
  unfolding parse_test_selection_def
  by (auto simp: bind_eq_Some_conv dest!: field_checked)

lemma field_selection:
  "field d k parse_test_selection (Some default_selection) = Some s \<Longrightarrow> ts_mode s \<in> {''all'', ''global'', ''custom''}"
  by (auto simp: field_def default_selection_def dest: parse_selection_mode split: option.splits)

lemma parse_fields:
  assumes "parse_run_config d = Some c"
  shows "field d ''name'' (optional (\<lambda>v. checked (\<lambda>s. length s \<le> 200) (json_str v))) (Some None) = Some (rc_name c)"
    and "field d ''ocsp_url'' (\<lambda>v. checked (\<lambda>s. 1 \<le> length s \<and> length s \<le> 2000 \<and> must_be_http s) (json_str v)) None
      = Some (rc_ocsp_url c)"
    and "field d ''crl_urls'' (\<lambda>v. checked (\<lambda>us. length us \<le> 10 \<and> list_all must_be_http us) (list_of json_str v)) (Some [])
      = Some (rc_crl_urls c)"
    and "field d ''request_method'' (\<lambda>v. checked (\<lambda>s. s \<in> {''auto'', ''get'', ''post''}) (json_str v)) (Some ''auto'')
      = Some (rc_request_method c)"
    and "field d ''nonce_length'' (int_in 1 128) (Some 32) = Some (rc_nonce_length c)"
    and "field d ''latency_samples'' (int_in 1 100) (Some 5) = Some (rc_latency_samples c)"
    and "field d ''load_concurrency'' (int_in 1 64) (Some 5) = Some (rc_load_concurrency c)"
    and "field d ''load_requests'' (int_in 1 2000) (Some 50) = Some (rc_load_requests c)"
    and "field d ''timeout_seconds'' (int_in 1 120) (Some 10) = Some (rc_timeout_seconds c)"
    and "field d ''run_timeout_seconds'' (int_in 30 7200) (Some 900) = Some (rc_run_timeout_seconds c)"
    and "field d ''max_age_hours'' (int_in 1 8760) (Some 24) = Some (rc_max_age_hours c)"
    and "field d ''trust_anchor_type'' (\<lambda>v. checked (\<lambda>s. s \<in> {''root'', ''intermediate''}) (json_str v)) (Some ''root'')
      = Some (rc_trust_anchor_type c)"
    and "field d ''test_selection'' parse_test_selection (Some default_selection) = Some (rc_test_selection c)"
    and "field d ''saved_certs'' (\<lambda>v. checked (list_all (\<lambda>(slot, _). slot \<in> set SAVED_CERT_SLOTS)) (dict_of lax_int v)) (Some [])
      = Some (rc_saved_certs c)"
  using assms unfolding parse_run_config_def
  by (auto simp only: bind_eq_Some_conv option.inject run_config.simps checked_Some split: if_splits)

lemma parse_valid:
  assumes "parse_run_config d = Some c"
  shows "valid_run_config c"
proof -
  note f = parse_fields [OF assms]
  show ?thesis
    using field_optional [OF f(1)] field_checked [OF f(2)] field_checked [OF f(3)] field_checked [OF f(4)]
      field_int [OF f(5)] field_int [OF f(6)] field_int [OF f(7)] field_int [OF f(8)] field_int [OF f(9)]
      field_int [OF f(10)] field_int [OF f(11)] field_checked [OF f(12)] field_selection [OF f(13)]
      field_checked [OF f(14)]
    by (simp add: valid_run_config_def)
qed

end
