(* ===== verification/Executor.thy ===== *)
theory Executor
  imports Selection Analysis Ssrf Schemas
begin

text \<open>
  The worker process of a run (\<open>backend/app/worker/executor.py\<close>, \<open>__main__.py\<close>, the log scrubbing of
  \<open>diagnostics.py\<close>, and \<open>ocsp_tester/models.py\<close>). The worker turns a job manifest into a sequence of
  events. The engine's categories are an argument: for the active selection, the results they
  append, in order, and the exception that ended them, if any.
\<close>

section \<open>Results of the engine\<close>

datatype test_status = PASS | FAIL | WARN | SKIP | ERROR

fun status_value :: "test_status \<Rightarrow> string" where
  "status_value PASS = ''PASS''"
| "status_value FAIL = ''FAIL''"
| "status_value WARN = ''WARN''"
| "status_value SKIP = ''SKIP''"
| "status_value ERROR = ''ERROR''"

record test_case =
  tc_id :: string
  tc_name :: string
  tc_category :: string
  tc_status :: test_status
  tc_message :: string
  tc_details :: "(string \<times> json) list"
  tc_started_at :: int
  tc_ended_at :: "int option"

definition tc_duration_ms :: "test_case \<Rightarrow> int option" where
  "tc_duration_ms r = map_option (\<lambda>e. (if e \<ge> tc_started_at r then (e - tc_started_at r) div 1000
     else - ((tc_started_at r - e) div 1000))) (tc_ended_at r)"

text \<open>What the worker takes from outside: the clock, rendering, a uuid per use, and the text of
  \<open>traceback.format_exc()\<close>.\<close>

record worker_env =
  wk_now :: int
  wk_isoformat :: "int \<Rightarrow> string"
  wk_repr :: "json \<Rightarrow> string"
  wk_uuid :: "nat \<Rightarrow> string"
  wk_format_exc :: string

definition serialize_result :: "worker_env \<Rightarrow> test_case \<Rightarrow> (string \<times> json) list" where
  "serialize_result we r =
     [(''id'', JStr (tc_id r)), (''category'', JStr (tc_category r)), (''name'', JStr (tc_name r)),
      (''status'', JStr (status_value (tc_status r))), (''message'', JStr (tc_message r)),
      (''details'', JDict (tc_details r)),
      (''started_at'', JStr (wk_isoformat we (tc_started_at r) @ ''Z'')),
      (''ended_at'', json_opt (\<lambda>t. JStr (wk_isoformat we t @ ''Z'')) (tc_ended_at r)),
      (''duration_ms'', json_opt JInt (tc_duration_ms r))]"

section \<open>Events and log\<close>

type_synonym event = "string \<times> (string \<times> json) list"

record worker =
  w_events :: "event list"
  w_latencies :: "int list"

definition emit :: "string \<Rightarrow> (string \<times> json) list \<Rightarrow> worker \<Rightarrow> worker" where
  "emit t d w = w\<lparr>w_events := w_events w @ [(t, d)]\<rparr>"

text \<open>\<open>_EventChannel.emit\<close>: the object that goes over the pipe as one line. A key of the event wins
  over the type and the timestamp.\<close>

definition event_record :: "string \<Rightarrow> event \<Rightarrow> (string \<times> json) list" where
  "event_record ts e =
     foldl (\<lambda>d (k, v). AList.update k v d) [(''type'', JStr (fst e)), (''ts'', JStr ts)] (snd e)"

definition REDACTED :: string where
  "REDACTED = ''[REDACTED: private key material]''"

definition redact :: "string \<Rightarrow> string" where
  "redact message = (if contains message ''PRIVATE KEY'' then REDACTED else message)"

definition log_event :: "string \<Rightarrow> string \<Rightarrow> event" where
  "log_event level message = (''log'', [(''level'', JStr level), (''message'', JStr message)])"

definition worker_log :: "string \<Rightarrow> string \<Rightarrow> worker \<Rightarrow> worker" where
  "worker_log level message w =
     emit ''log'' [(''level'', JStr level), (''message'', JStr (redact message))] w"

definition engine_log :: "string \<Rightarrow> worker \<Rightarrow> worker" where
  "engine_log message w =
     (let (level, text) = split_level_prefix (rstrip_by (\<lambda>c. c = CHR 0x0A) message) ''INFO''
      in worker_log level text w)"

text \<open>\<open>_PrintInterceptor.write\<close>: complete lines become log events, the rest stays buffered.\<close>

definition interceptor_line :: "string \<Rightarrow> event list" where
  "interceptor_line line =
     (if strip line = [] then []
      else let (level, message) = split_level_prefix (redact line) ''INFO'' in [log_event level message])"

fun interceptor_lines :: "string list \<Rightarrow> event list \<times> string" where
  "interceptor_lines [] = ([], [])"
| "interceptor_lines [buffered] = ([], buffered)"
| "interceptor_lines (line # rest) =
     (let (events, buffered) = interceptor_lines rest in (interceptor_line line @ events, buffered))"

definition interceptor_write :: "string \<Rightarrow> string \<Rightarrow> event list \<times> string" where
  "interceptor_write buffered text = interceptor_lines (split_on (CHR 0x0A) (buffered @ text))"

text \<open>\<open>_scrub\<close> of the diagnostics recorder.\<close>

definition scrub :: "string \<Rightarrow> string" where
  "scrub text = (if contains text ''PRIVATE KEY'' then REDACTED else take 2000 text)"

section \<open>Diagnostics\<close>

record diag_record =
  dg_kind :: string
  dg_started :: "int option"
  dg_fields :: "(string \<times> json) list"

definition MAX_RECORDS :: nat where
  "MAX_RECORDS = 400"

text \<open>\<open>_append\<close>: the records kept and the number suppressed.\<close>

definition append_record :: "diag_record \<Rightarrow> diag_record list \<times> nat \<Rightarrow> bool \<times> (diag_record list \<times> nat)" where
  "append_record entry s =
     (case s of (records, suppressed) \<Rightarrow>
        if length records \<ge> MAX_RECORDS then (False, (records, suppressed + 1))
        else (True, (records @ [entry], suppressed)))"

definition attach_diagnostics :: "int \<Rightarrow> diag_record list \<Rightarrow> test_case \<Rightarrow> test_case" where
  "attach_diagnostics now records r =
     (let ended = (case tc_ended_at r of None \<Rightarrow> now | Some t \<Rightarrow> t);
          matched = filter (\<lambda>d. case dg_started d of None \<Rightarrow> False
                              | Some s \<Rightarrow> tc_started_at r \<le> s \<and> s \<le> ended) records;
          part = (\<lambda>kind. map (\<lambda>d. JDict (dg_fields d)) (take 25 (filter (\<lambda>d. dg_kind d = kind) matched)));
          diag = (if part ''http'' \<noteq> [] then [(''http'', JList (part ''http''))] else [])
            @ (if part ''command'' \<noteq> [] then [(''commands'', JList (part ''command''))] else [])
      in if diag = [] then r else r\<lparr>tc_details := dict_set ''diagnostics'' (JDict diag) (tc_details r)\<rparr>)"

section \<open>Latencies\<close>

definition latency_value :: "json \<Rightarrow> int list" where
  "latency_value v =
     (case v of
        JInt i \<Rightarrow> [i]
      | JBool b \<Rightarrow> [if b then 1 else 0]
      | JFloat q \<Rightarrow> [if 0 \<le> q then \<lfloor>q\<rfloor> else \<lceil>q\<rceil>]
      | _ \<Rightarrow> [])"

definition collect_latencies :: "(string \<times> json) list \<Rightarrow> int list" where
  "collect_latencies payload =
     (case jget payload ''details'' (JDict []) of
        JDict details \<Rightarrow>
          concat (map (\<lambda>k. latency_value (jget details k JNull)) [''latency_ms'', ''a_latency_ms'', ''b_latency_ms''])
          @ (case jget details ''latencies_ms'' (JList []) of
               JList xs \<Rightarrow> concat (map latency_value xs)
             | _ \<Rightarrow> [])
      | _ \<Rightarrow> [])"

text \<open>\<open>int(statistics.median(xs))\<close>\<close>

definition int_half :: "int \<Rightarrow> int" where
  "int_half n = (if 0 \<le> n then n div 2 else - ((- n) div 2))"

definition median :: "int list \<Rightarrow> int" where
  "median xs =
     (let s = sort xs; n = length xs
      in if odd n then s ! (n div 2) else int_half (s ! (n div 2 - 1) + s ! (n div 2)))"

definition worker_latency :: "int list \<Rightarrow> (string \<times> json) list" where
  "worker_latency xs =
     (if xs = [] then [(''samples'', JInt 0)]
      else [(''median_ms'', JInt (median xs)), (''min_ms'', JInt (Min (set xs))),
            (''max_ms'', JInt (Max (set xs))), (''samples'', JInt (int (length xs)))])"

section \<open>Emitting results\<close>

definition emit_payload :: "(string \<times> json) list \<Rightarrow> worker \<Rightarrow> worker" where
  "emit_payload payload w =
     emit ''result'' [(''result'', JDict payload)] (w\<lparr>w_latencies := w_latencies w @ collect_latencies payload\<rparr>)"

definition emit_result :: "worker_env \<Rightarrow> (string \<times> json) list \<Rightarrow> test_case \<Rightarrow> worker \<Rightarrow> error + worker" where
  "emit_result we cfg r w =
     bind_result (enrich_result (wk_repr we) (wk_now we) (serialize_result we r) cfg) (\<lambda>payload.
       Inr (emit_payload payload w))"

definition stream_result ::
  "worker_env \<Rightarrow> (string \<times> json) list \<Rightarrow> active_selection \<Rightarrow> diag_record list \<Rightarrow> test_case \<Rightarrow> worker \<Rightarrow> error + worker" where
  "stream_result we cfg active records r w =
     (if \<not> should_run active (tc_name r) then Inr w
      else emit_result we cfg (attach_diagnostics (wk_now we) records r) w)"

text \<open>The results a category appends; one that cannot be emitted ends the category.\<close>

fun stream_results ::
  "worker_env \<Rightarrow> (string \<times> json) list \<Rightarrow> active_selection \<Rightarrow> (test_case \<times> diag_record list) list \<Rightarrow> worker \<Rightarrow>
   error option \<times> worker" where
  "stream_results we cfg active [] w = (None, w)"
| "stream_results we cfg active ((r, records) # rs) w =
     (case stream_result we cfg active records r w of
        Inl e \<Rightarrow> (Some e, w)
      | Inr w \<Rightarrow> stream_results we cfg active rs w)"

section \<open>A run\<close>

definition CATEGORY_ORDER :: "string list" where
  "CATEGORY_ORDER = [''protocol'', ''status'', ''crl'', ''path_validation'', ''ikev2'', ''federal'',
     ''performance'', ''security'']"

definition WORKER_LABELS :: "(string, string) dict" where
  "WORKER_LABELS = [
     (''protocol'', ''OCSP protocol tests''),
     (''status'', ''Certificate status tests''),
     (''security'', ''Security & error handling tests (OCSP)''),
     (''performance'', ''Performance tests (OCSP)''),
     (''crl'', ''CRL tests''),
     (''ikev2'', ''IKEv2 tests''),
     (''federal'', ''Federal PKI / Federal Bridge tests''),
     (''path_validation'', ''Certificate path validation tests'')]"

definition label_of :: "string \<Rightarrow> string" where
  "label_of key = dict_get_or WORKER_LABELS key key"

text \<open>The request options applied to all engine traffic (\<open>ocsp_client.RUNTIME\<close>).\<close>

record runtime_options =
  rt_timeout :: int
  rt_method :: "string option"
  rt_include_nonce :: bool
  rt_nonce_len :: int

definition runtime_of :: "(string \<times> json) list \<Rightarrow> runtime_options result" where
  "runtime_of cfg =
     bind_result (json_int (jget cfg ''timeout_seconds'' (JInt 10))) (\<lambda>timeout.
     bind_result (json_int (jget cfg ''nonce_length'' (JInt 32))) (\<lambda>nonce_len.
       let method = jget cfg ''request_method'' (JStr ''auto'')
       in Inr \<lparr>rt_timeout = timeout,
               rt_method = (if method = JStr ''get'' then Some ''GET''
                            else if method = JStr ''post'' then Some ''POST'' else None),
               rt_include_nonce = json_true (jget cfg ''nonce_enabled'' (JBool True)),
               rt_nonce_len = nonce_len\<rparr>))"

text \<open>A category of the engine: from the active selection to its results (each with the records
  the diagnostics hold at that moment) and the text of the exception that ended it.\<close>

type_synonym engine = "string \<Rightarrow> active_selection \<Rightarrow> (test_case \<times> diag_record list) list \<times> string option"

definition error_result :: "worker_env \<Rightarrow> nat \<Rightarrow> string \<Rightarrow> string \<Rightarrow> string \<Rightarrow> test_case" where
  "error_result we n category nm message =
     \<lparr>tc_id = wk_uuid we n, tc_name = nm, tc_category = category, tc_status = ERROR, tc_message = message,
      tc_details = [], tc_started_at = wk_now we, tc_ended_at = Some (wk_now we)\<rparr>"

definition percent :: "nat \<Rightarrow> nat \<Rightarrow> int" where
  "percent n tot = (if tot = 0 then 100 else int (n * 100 div tot))"

definition progress :: "string \<Rightarrow> nat \<Rightarrow> nat \<Rightarrow> worker \<Rightarrow> worker" where
  "progress activity n tot w =
     emit ''progress''
       [(''current_activity'', JStr activity), (''categories_done'', JInt (int n)),
        (''categories_total'', JInt (int tot)), (''percent'', JInt (percent n tot))] w"

text \<open>\<open>label.split(" tests")[0]\<close>\<close>

fun before_tests :: "string \<Rightarrow> string" where
  "before_tests [] = []"
| "before_tests (c # cs) = (if startswith (c # cs) '' tests'' then [] else c # before_tests cs)"

definition error_text :: "error \<Rightarrow> string" where
  "error_text e = (case e of HTTPException n d \<Rightarrow> d | Uncaught k \<Rightarrow> k)"

definition category_selection ::
  "(string \<times> json) list option \<Rightarrow> string \<Rightarrow> (json \<Rightarrow> string) \<Rightarrow> string list option result" where
  "category_selection sel key repr =
     (case sel of
        None \<Rightarrow> Inr None
      | Some d \<Rightarrow>
          (case dict_get d key of
             None \<Rightarrow> Inr None
           | Some v \<Rightarrow> bind_result (json_list v) (\<lambda>xs. Inr (Some (map (str_of repr) xs)))))"

definition open_category :: "string \<Rightarrow> nat \<Rightarrow> nat \<Rightarrow> worker \<Rightarrow> worker" where
  "open_category label n tot w =
     worker_log ''INFO'' (''=== '' @ label @ '' ==='') (progress (''Running '' @ label) n tot w)"

definition announce_selection :: "string \<Rightarrow> string list option \<Rightarrow> worker \<Rightarrow> worker" where
  "announce_selection label selected w =
     (case selected of
        None \<Rightarrow> w
      | Some names \<Rightarrow> worker_log ''INFO'' (label @ '': restricted to '' @ show_nat (length names) @
                        '' selected test(s)'') w)"

definition log_crash :: "worker_env \<Rightarrow> string \<Rightarrow> string \<Rightarrow> worker \<Rightarrow> worker" where
  "log_crash we label exc w =
     worker_log ''DEBUG'' (wk_format_exc we) (worker_log ''ERROR'' (label @ '' crashed: '' @ exc) w)"

text \<open>One turn of the loop, without the cancellation check: the selection is set for the
  category and removed in every case; an exception of the category becomes an ERROR result.
  The first component is an exception that escapes the loop.\<close>

definition run_category ::
  "worker_env \<Rightarrow> engine \<Rightarrow> (string \<times> json) list \<Rightarrow> (string \<times> json) list option \<Rightarrow> nat \<Rightarrow> nat \<Rightarrow> string \<Rightarrow> worker \<Rightarrow>
   error option \<times> worker" where
  "run_category we engine cfg sel n tot key w0 =
     (let label = label_of key; w1 = open_category label n tot w0
      in case category_selection sel key (wk_repr we) of
           Inl e \<Rightarrow> (Some e, w1)
         | Inr selected \<Rightarrow>
             (let active = set_active selected;
                  run = engine key active;
                  streamed = stream_results we cfg active (fst run) (announce_selection label selected w1);
                  w2 = snd streamed
              in case (case fst streamed of Some e \<Rightarrow> Some (error_text e) | None \<Rightarrow> snd run) of
                   None \<Rightarrow> (None, progress (''Finished '' @ label) (n + 1) tot w2)
                 | Some exc \<Rightarrow>
                     (case emit_result we cfg (error_result we n (before_tests label) (''Run '' @ label) exc)
                             (log_crash we label exc w2) of
                        Inl e \<Rightarrow> (Some e, log_crash we label exc w2)
                      | Inr w3 \<Rightarrow> (None, progress (''Finished '' @ label) (n + 1) tot w3))))"

datatype run_end = Completed | Cancelled | Crashed error

text \<open>The loop: \<open>cancel n\<close> is what the cancel flag shows before the category with number \<open>n\<close>.\<close>

fun run_categories ::
  "worker_env \<Rightarrow> engine \<Rightarrow> (string \<times> json) list \<Rightarrow> (string \<times> json) list option \<Rightarrow> (nat \<Rightarrow> bool) \<Rightarrow> nat \<Rightarrow> nat \<Rightarrow>
   string list \<Rightarrow> worker \<Rightarrow> run_end \<times> worker" where
  "run_categories we engine cfg sel cancel n tot [] w = (Completed, w)"
| "run_categories we engine cfg sel cancel n tot (key # keys) w =
     (if cancel n then (Cancelled, w)
      else case run_category we engine cfg sel n tot key w of
             (Some e, w) \<Rightarrow> (Crashed e, w)
           | (None, w) \<Rightarrow> run_categories we engine cfg sel cancel (n + 1) tot keys w)"

definition enabled_keys :: "(string \<times> json) list \<Rightarrow> string list" where
  "enabled_keys cfg =
     (case jget cfg ''categories'' (JDict []) of
        JDict d \<Rightarrow> filter (\<lambda>k. json_true (jget d k JNull)) CATEGORY_ORDER
      | _ \<Rightarrow> [])"

record job =
  jb_run_id :: string
  jb_config :: "(string \<times> json) list"
  jb_files :: "(string \<times> string) list"
  jb_policy :: network_policy

definition done_event :: "string \<Rightarrow> string option \<Rightarrow> int list \<Rightarrow> (string \<times> json) list" where
  "done_event status err lats =
     [(''status'', JStr status)] @ (case err of None \<Rightarrow> [] | Some e \<Rightarrow> [(''error'', JStr e)])
     @ [(''latency'', JDict (worker_latency lats))]"

definition blocked_message :: "net_error \<Rightarrow> string" where
  "blocked_message e =
     (case e of BlockedTarget t reason \<Rightarrow> ''Blocked outbound request to '' @ t @ '': '' @ reason | NetError m \<Rightarrow> m)"

definition config_urls :: "(string \<times> json) list \<Rightarrow> string list result" where
  "config_urls cfg =
     (case (jget cfg ''ocsp_url'' JNull, jget cfg ''crl_urls'' (JList [])) of
        (JStr u, JList xs) \<Rightarrow>
          (case all_some (map json_str xs) of Some us \<Rightarrow> Inr (u # us) | None \<Rightarrow> Inl (Uncaught ''TypeError''))
      | _ \<Rightarrow> Inl (Uncaught ''KeyError''))"

text \<open>A target that violates the policy ends the run with an ordinary ERROR result.\<close>

definition refuse_targets ::
  "worker_env \<Rightarrow> (string \<times> json) list \<Rightarrow> net_error \<Rightarrow> worker \<Rightarrow> run_end \<times> worker" where
  "refuse_targets we cfg exc w0 =
     (let msg = blocked_message exc;
          w = worker_log ''ERROR'' (''[NETGUARD] '' @ msg) w0
      in case emit_result we cfg (error_result we 0 ''Setup'' ''Outbound target policy check'' msg) w of
           Inl e \<Rightarrow> (Crashed e, w)
         | Inr w \<Rightarrow> (Completed, emit ''done'' (done_event ''failed'' (Some msg) (w_latencies w)) w))"

definition announce_run :: "string list \<Rightarrow> (string \<times> json) list option \<Rightarrow> worker \<Rightarrow> worker" where
  "announce_run keys sel w0 =
     (let w = worker_log ''INFO'' (''Enabled categories: '' @
            (if keys = [] then ''none'' else join_with '', '' (map label_of keys))) w0
      in if sel \<noteq> None \<and> sel \<noteq> Some []
         then worker_log ''INFO'' ''Fine-grained test selection is active for this run'' w else w)"

definition run_enabled ::
  "worker_env \<Rightarrow> engine \<Rightarrow> (nat \<Rightarrow> bool) \<Rightarrow> (string \<times> json) list \<Rightarrow> worker \<Rightarrow> run_end \<times> worker" where
  "run_enabled we engine cancel cfg w =
     (let keys = enabled_keys cfg;
          sel = json_dict (jget cfg ''resolved_test_selection'' JNull);
          r = run_categories we engine cfg sel cancel 0 (length keys) keys (announce_run keys sel w)
      in if fst r = Completed
         then (Completed, worker_log ''INFO'' ''Run complete''
                 (emit ''done'' (done_event ''completed'' None (w_latencies (snd r))) (snd r)))
         else r)"

text \<open>
  \<open>RunExecutor.run\<close>: \<open>load_cert\<close> tells whether the certificate files of the manifest load.
\<close>

definition certificates_load :: "(string \<Rightarrow> bool) \<Rightarrow> (string \<times> string) list \<Rightarrow> bool" where
  "certificates_load load_cert files \<longleftrightarrow>
     list_all (\<lambda>slot. truthy (dict_get files slot) \<longrightarrow> load_cert (the (dict_get files slot)))
       [''issuer_cert'', ''good_cert'', ''revoked_cert'', ''unknown_ca_cert'']"

definition run_worker ::
  "worker_env \<Rightarrow> resolver \<Rightarrow> (runtime_options \<Rightarrow> engine) \<Rightarrow> (string \<Rightarrow> bool) \<Rightarrow> (nat \<Rightarrow> bool) \<Rightarrow> job \<Rightarrow> worker \<Rightarrow>
   run_end \<times> worker" where
  "run_worker we gai engine load_cert cancel jb w0 =
     (if \<not> truthy (dict_get (jb_files jb) ''issuer_cert'')
      then (Crashed (Uncaught ''Issuer certificate missing from job manifest''), w0)
      else case runtime_of (jb_config jb) of
        Inl e \<Rightarrow> (Crashed e, w0)
      | Inr options \<Rightarrow>
     (case config_urls (jb_config jb) of
        Inl e \<Rightarrow> (Crashed e, w0)
      | Inr urls \<Rightarrow>
          (let w = worker_log ''INFO'' (''Run '' @ jb_run_id jb @ '' starting against '' @ hd urls) w0
           in case validate_urls gai (jb_policy jb) urls of
                Inl (NetError m) \<Rightarrow> (Crashed (Uncaught m), w)
              | Inl (BlockedTarget t reason) \<Rightarrow> refuse_targets we (jb_config jb) (BlockedTarget t reason) w
              | Inr _ \<Rightarrow>
                  if certificates_load load_cert (jb_files jb)
                  then run_enabled we (engine options) cancel (jb_config jb) w
                  else (Crashed (Uncaught ''ValueError''), w))))"

text \<open>\<open>main\<close>: the last word of the worker, whatever happened in \<open>run\<close>.\<close>

definition worker_main ::
  "worker_env \<Rightarrow> resolver \<Rightarrow> (runtime_options \<Rightarrow> engine) \<Rightarrow> (string \<Rightarrow> bool) \<Rightarrow> (nat \<Rightarrow> bool) \<Rightarrow> error + job \<Rightarrow> event list" where
  "worker_main we gai engine load_cert cancel manifest =
     (let start = \<lparr>w_events = [], w_latencies = []\<rparr>
      in case manifest of
           Inl e \<Rightarrow> w_events (emit ''fatal'' [(''error'', JStr (''Failed to initialize run: '' @ error_text e))] start)
         | Inr jb \<Rightarrow>
             (case run_worker we gai engine load_cert cancel jb start of
                (Completed, w) \<Rightarrow> w_events w
              | (Cancelled, w) \<Rightarrow> w_events (emit ''done'' (done_event ''cancelled'' None (w_latencies w)) w)
              | (Crashed e, w) \<Rightarrow>
                  w_events (emit ''fatal'' [(''error'', JStr (error_text e))]
                    (emit ''log'' [(''level'', JStr ''ERROR''), (''message'', JStr (wk_format_exc we))] w))))"

end
