(* ===== verification/Jobs.thy ===== *)
theory Jobs
  imports Serializers Analysis Settings
begin

text \<open>
  Run supervision (\<open>backend/app/jobs.py\<close>): the event log, the persistence of results, the
  lifecycle of a run (start, supervise, cancel, finalize, the boot sweep) over the database and
  the manager's own sets. One database session is one atomic step; \<open>append_event\<close> is also given
  as its two steps (read the counter, commit), because its session suspends between them.
\<close>

section \<open>State\<close>

text \<open>What comes from the standard library: the clock, \<open>uuid4\<close> (given the identifiers in use),
  \<open>json.loads\<close>, \<open>datetime.fromisoformat\<close> and the rendering of times and composite values.\<close>

record job_env =
  je_now :: int
  je_uuid :: "string list \<Rightarrow> string"
  je_loads :: "string \<Rightarrow> json option"
  je_fromisoformat :: "string \<Rightarrow> int option"
  je_isoformat :: "int \<Rightarrow> string"
  je_repr :: "json \<Rightarrow> string"

definition fresh_uuids :: "job_env \<Rightarrow> bool" where
  "fresh_uuids je \<longleftrightarrow> (\<forall>ids. je_uuid je ids \<notin> set ids)"

definition TERMINAL_STATUSES :: "string list" where
  "TERMINAL_STATUSES = [''completed'', ''failed'', ''cancelled'', ''timed_out'']"

text \<open>
  The manager: runs with a live worker process here, the runs whose cancellation was asked
  for, the cancel flags on disk, the processes to be killed when the grace period ends. The
  in-process notifier only shortens a subscriber's wait and is left out.
\<close>

record job_state =
  j_db :: db
  j_processes :: "string set"
  j_cancel_requested :: "string set"
  j_cancel_flags :: "string set"
  j_escalations :: "string set"

section \<open>Events and results\<close>

definition find_run :: "db \<Rightarrow> string \<Rightarrow> run option" where
  "find_run db rid = get_row r_id rid (runs db)"

definition update_run :: "string \<Rightarrow> (run \<Rightarrow> run) \<Rightarrow> db \<Rightarrow> db" where
  "update_run rid f db = db\<lparr>runs := modify_row r_id rid f (runs db)\<rparr>"

definition append_event :: "job_env \<Rightarrow> string \<Rightarrow> string \<Rightarrow> (string \<times> json) list \<Rightarrow> db \<Rightarrow> db" where
  "append_event je rid etype payload db =
     (case find_run db rid of
        None \<Rightarrow> db
      | Some r \<Rightarrow>
          (let n = r_last_seq r + 1
           in (update_run rid (r_last_seq_update (\<lambda>_. n)) db)
                \<lparr>run_events := insert_row \<lparr>e_run_id = rid, e_seq = n, e_type = etype, e_ts = je_now je,
                                         e_payload = payload\<rparr> (run_events db)\<rparr>))"

text \<open>The two halves of \<open>append_event\<close>: what its session has read, and the commit, which fails
  when the unique index on (run, seq) already holds the number.\<close>

definition append_read :: "db \<Rightarrow> string \<Rightarrow> nat option" where
  "append_read db rid = map_option r_last_seq (find_run db rid)"

definition append_commit ::
  "job_env \<Rightarrow> string \<Rightarrow> nat \<Rightarrow> string \<Rightarrow> (string \<times> json) list \<Rightarrow> db \<Rightarrow> db result" where
  "append_commit je rid seen etype payload db =
     (let n = seen + 1
      in if (\<exists>e\<in>set (run_events db). e_run_id e = rid \<and> e_seq e = n)
         then Inl (Uncaught ''IntegrityError'')
         else Inr ((update_run rid (r_last_seq_update (\<lambda>_. n)) db)
                \<lparr>run_events := insert_row \<lparr>e_run_id = rid, e_seq = n, e_type = etype, e_ts = je_now je,
                                         e_payload = payload\<rparr> (run_events db)\<rparr>))"

definition run_snapshot :: "job_env \<Rightarrow> string \<Rightarrow> db \<Rightarrow> (string \<times> json) list result" where
  "run_snapshot je rid db =
     (case find_run db rid of
        None \<Rightarrow> Inr []
      | Some r \<Rightarrow> bind_result (run_to_summary r) (\<lambda>s. Inr (summary_json (je_isoformat je) s)))"

definition parse_dt :: "job_env \<Rightarrow> json \<Rightarrow> int option result" where
  "parse_dt je v =
     (if \<not> json_true v then Inr None
      else case v of
             JStr s \<Rightarrow> Inr (je_fromisoformat je (concat (map (\<lambda>c. if c = CHR ''Z'' then ''+00:00'' else [c]) s)))
           | _ \<Rightarrow> Inl (Uncaught ''AttributeError''))"

text \<open>A value bound to a text or an integer column; another type is refused by the driver.\<close>

definition column_text :: "json \<Rightarrow> string result" where
  "column_text v = (case v of JStr s \<Rightarrow> Inr s | _ \<Rightarrow> Inl (Uncaught ''StatementError''))"

definition column_int :: "json \<Rightarrow> int option result" where
  "column_int v =
     (case v of JNull \<Rightarrow> Inr None | JInt i \<Rightarrow> Inr (Some i) | _ \<Rightarrow> Inl (Uncaught ''StatementError''))"

definition result_identifier :: "job_env \<Rightarrow> db \<Rightarrow> (string \<times> json) list \<Rightarrow> string" where
  "result_identifier je db result =
     (let ids = map res_id (test_results db);
          v = jget result ''id'' JNull;
          rid = (if json_true v then str_of (je_repr je) v else je_uuid je ids)
      in if rid \<in> set ids then je_uuid je ids else rid)"

definition result_row :: "job_env \<Rightarrow> string \<Rightarrow> string \<Rightarrow> (string \<times> json) list \<Rightarrow> test_result result" where
  "result_row je ident run_id result =
     bind_result (column_text (jget result ''category'' (JStr []))) (\<lambda>category.
     bind_result (column_text (jget result ''name'' (JStr []))) (\<lambda>nm.
     bind_result (column_text (jget result ''status'' (JStr ''ERROR''))) (\<lambda>status.
     bind_result (column_text (jget result ''message'' (JStr []))) (\<lambda>message.
     bind_result (parse_dt je (jget result ''started_at'' JNull)) (\<lambda>started.
     bind_result (parse_dt je (jget result ''ended_at'' JNull)) (\<lambda>ended.
     bind_result (column_int (jget result ''duration_ms'' JNull)) (\<lambda>duration.
       Inr \<lparr>res_id = ident, res_run_id = run_id, res_category = category, res_name = nm,
            res_status = status, res_message = message,
            res_details = jget result ''details'' (JDict []), res_started_at = started,
            res_ended_at = ended, res_duration_ms = duration\<rparr>)))))))"

definition count_status :: "string \<Rightarrow> (string, int) dict \<Rightarrow> (string, int) dict" where
  "count_status status totals =
     (let totals = AList.update ''total'' (dict_get_or totals ''total'' 0 + 1) totals;
          key = str_lower status
      in AList.update key (dict_get_or totals key 0 + 1) totals)"

text \<open>Returns the result object with the identifier it was given (the caller streams it) and
  whether it was stored; when it raises, nothing is stored.\<close>

definition persist_result ::
  "job_env \<Rightarrow> string \<Rightarrow> (string \<times> json) list \<Rightarrow> db \<Rightarrow> (string \<times> json) list \<times> db" where
  "persist_result je rid result db =
     (case find_run db rid of
        None \<Rightarrow> (result, db)
      | Some r \<Rightarrow>
          (let ident = result_identifier je db result;
               result = AList.update ''id'' (JStr ident) result
           in case result_row je ident rid result of
                Inl _ \<Rightarrow> (result, db)
              | Inr row \<Rightarrow>
                  (result,
                   (update_run rid (r_totals_update (count_status (res_status row))) db)
                     \<lparr>test_results := insert_row row (test_results db)\<rparr>)))"

text \<open>One event of the worker; \<open>Inl\<close> when it makes the supervisor crash.\<close>

definition handle_event ::
  "job_env \<Rightarrow> string \<Rightarrow> string \<Rightarrow> (string \<times> json) list \<Rightarrow> db \<Rightarrow> error + db" where
  "handle_event je rid etype data db =
     (if etype = ''result''
      then (case jget data ''result'' (JDict []) of
              JDict result \<Rightarrow>
                (let (result, db) = persist_result je rid result db
                 in Inr (append_event je rid ''result'' result db))
            | _ \<Rightarrow> Inl (Uncaught ''AttributeError''))
      else if etype = ''progress''
      then (case jget data ''current_activity'' JNull of
              JNull \<Rightarrow> Inr (append_event je rid ''progress'' data (update_run rid (r_current_activity_update (\<lambda>_. None)) db))
            | JStr a \<Rightarrow> Inr (append_event je rid ''progress'' data
                          (update_run rid (r_current_activity_update (\<lambda>_. Some a)) db))
            | _ \<Rightarrow> Inl (Uncaught ''StatementError''))
      else Inr (append_event je rid ''log'' data db))"

section \<open>Lifecycle\<close>

definition start_run :: "job_env \<Rightarrow> string \<Rightarrow> job_state \<Rightarrow> unit result \<times> job_state" where
  "start_run je rid js =
     (let db = update_run rid (\<lambda>r. r\<lparr>r_status := ''running'', r_started_at := Some (je_now je)\<rparr>) (j_db js);
          js = js\<lparr>j_processes := insert rid (j_processes js), j_db := db\<rparr>
      in case run_snapshot je rid db of
           Inl e \<Rightarrow> (Inl e, js)
         | Inr snapshot \<Rightarrow>
             (Inr (), js\<lparr>j_db := append_event je rid ''run_status'' snapshot db\<rparr>))"

definition set_final :: "job_env \<Rightarrow> string \<Rightarrow> string option \<Rightarrow> json option \<Rightarrow> run \<Rightarrow> run" where
  "set_final je status error latency r =
     r\<lparr>r_status := status, r_finished_at := Some (je_now je), r_current_activity := None,
       r_error := (if truthy error then error else r_error r),
       r_latency := (case latency of None \<Rightarrow> r_latency r | Some l \<Rightarrow> Some l)\<rparr>"

definition finalize ::
  "job_env \<Rightarrow> string \<Rightarrow> string \<Rightarrow> string option \<Rightarrow> json option \<Rightarrow> job_state \<Rightarrow> unit result \<times> job_state" where
  "finalize je rid status error latency js =
     (let db = update_run rid (set_final je status error latency) (j_db js)
      in case run_snapshot je rid db of
           Inl e \<Rightarrow> (Inl e, js\<lparr>j_db := db\<rparr>)
         | Inr snapshot \<Rightarrow>
             (Inr (), js\<lparr>j_db := append_event je rid ''run_status'' snapshot db\<rparr>))"

definition finalize_if_not_terminal ::
  "job_env \<Rightarrow> string \<Rightarrow> string \<Rightarrow> string option \<Rightarrow> job_state \<Rightarrow> bool result \<times> job_state" where
  "finalize_if_not_terminal je rid status error js =
     (case find_run (j_db js) rid of
        None \<Rightarrow> (Inr False, js)
      | Some r \<Rightarrow>
          if r_status r \<in> set TERMINAL_STATUSES then (Inr False, js)
          else (let (res, js) = finalize je rid status error None js
                in (map_sum id (\<lambda>_. True) res, js)))"

definition cancel_run :: "job_env \<Rightarrow> string \<Rightarrow> job_state \<Rightarrow> bool result \<times> job_state" where
  "cancel_run je rid js =
     (let js = js\<lparr>j_cancel_flags := insert rid (j_cancel_flags js),
                  j_cancel_requested := insert rid (j_cancel_requested js)\<rparr>
      in if rid \<notin> j_processes js
         then finalize_if_not_terminal je rid ''cancelled'' (Some ''cancelled by user'') js
         else (Inr True, js\<lparr>j_escalations := insert rid (j_escalations js)\<rparr>))"

definition is_active_status :: "string \<Rightarrow> bool" where
  "is_active_status s \<longleftrightarrow> s = ''queued'' \<or> s = ''running''"

definition active_run_count :: "db \<Rightarrow> nat" where
  "active_run_count db = length (filter (\<lambda>r. is_active_status (r_status r)) (runs db))"

definition mark_orphans_failed :: "job_env \<Rightarrow> db \<Rightarrow> db" where
  "mark_orphans_failed je db =
     db\<lparr>runs := update_rows (\<lambda>r. is_active_status (r_status r))
         (\<lambda>r. r\<lparr>r_status := ''failed'', r_error := Some ''Server restarted while the run was in progress'',
                r_finished_at := Some (je_now je)\<rparr>) (runs db)\<rparr>"

definition run_timeout :: "settings \<Rightarrow> db \<Rightarrow> string \<Rightarrow> int result" where
  "run_timeout st db rid =
     (case find_run db rid of
        None \<Rightarrow> Inr (st_default_run_timeout_seconds st)
      | Some r \<Rightarrow>
          bind_result (json_int (jget (r_config r) ''run_timeout_seconds''
              (JInt (st_default_run_timeout_seconds st)))) (\<lambda>configured.
            Inr (min configured (st_max_run_timeout_seconds st))))"

section \<open>Supervision\<close>

definition parse_event :: "job_env \<Rightarrow> string \<Rightarrow> (string \<times> json) list option" where
  "parse_event je line =
     (let text = strip line
      in if text = [] then None
         else case je_loads je text of
                Some (JDict d) \<Rightarrow> Some d
              | _ \<Rightarrow> Some [(''type'', JStr ''log''), (''level'', JStr ''INFO''), (''message'', JStr text)])"

record outcome =
  sv_terminal :: "string option"
  sv_error :: "string option"
  sv_latency :: "json option"

definition no_outcome :: outcome where
  "no_outcome = \<lparr>sv_terminal = None, sv_error = None, sv_latency = None\<rparr>"

definition error_log :: "string \<Rightarrow> (string \<times> json) list" where
  "error_log message = [(''level'', JStr ''ERROR''), (''message'', JStr message)]"

definition opt_json :: "json \<Rightarrow> json option" where
  "opt_json v = (if v = JNull then None else Some v)"

text \<open>
  One line of the worker's output. \<open>Inl\<close> is an exception in the supervisor, with the database
  it leaves. The worker writes strings as status and error (\<open>worker/__main__.py\<close>,
  \<open>executor.py\<close>); a \<open>done\<close> event with a status of another type is a crash at finalization and
  is treated as one here.
\<close>

definition consume_line ::
  "job_env \<Rightarrow> string \<Rightarrow> string \<Rightarrow> outcome \<times> db \<Rightarrow> db + outcome \<times> db" where
  "consume_line je rid line s =
     (case s of (sv, db) \<Rightarrow>
        (case parse_event je line of
           None \<Rightarrow> Inr (sv, db)
         | Some event0 \<Rightarrow>
             (let etype = jget event0 ''type'' (JStr ''log'');
                  event = AList.delete ''ts'' (AList.delete ''type'' event0)
              in if etype = JStr ''done''
                 then (case (jget event ''status'' (JStr ''completed''), jget event ''error'' JNull) of
                         (JStr status, JNull) \<Rightarrow>
                           Inr (sv\<lparr>sv_terminal := Some status, sv_error := None,
                                   sv_latency := opt_json (jget event ''latency'' JNull)\<rparr>, db)
                       | (JStr status, JStr err) \<Rightarrow>
                           Inr (sv\<lparr>sv_terminal := Some status, sv_error := Some err,
                                   sv_latency := opt_json (jget event ''latency'' JNull)\<rparr>, db)
                       | _ \<Rightarrow> Inl db)
                 else if etype = JStr ''fatal''
                 then (let err = jget event ''error'' (JStr ''worker failed'')
                       in Inr (sv\<lparr>sv_terminal := Some ''failed'', sv_error := json_str err\<rparr>,
                               append_event je rid ''log''
                                 (error_log (''Run failed: '' @ str_of (je_repr je) err)) db))
                 else (case etype of
                         JStr t \<Rightarrow>
                           (case handle_event je rid t event db of
                              Inl _ \<Rightarrow> Inl db
                            | Inr db \<Rightarrow> Inr (sv, db))
                       | _ \<Rightarrow> Inr (sv, append_event je rid ''log'' event db)))))"

fun consume :: "job_env \<Rightarrow> string \<Rightarrow> string list \<Rightarrow> outcome \<times> db \<Rightarrow> (outcome \<times> db) + (outcome \<times> db)" where
  "consume je rid [] s = Inr s"
| "consume je rid (line # lines) s =
     (case consume_line je rid line s of
        Inl db \<Rightarrow> Inl (fst s, db)
      | Inr s \<Rightarrow> consume je rid lines s)"
text \<open>How the consumption of the output ended: end of file with an exit code, or the timeout.\<close>

datatype worker_end = Exited int | TimedOut

definition supervise_outcome ::
  "job_env \<Rightarrow> string \<Rightarrow> int \<Rightarrow> string list \<Rightarrow> worker_end \<Rightarrow> db \<Rightarrow> outcome \<times> db" where
  "supervise_outcome je rid timeout lines ending db =
     (case consume je rid lines (no_outcome, db) of
        Inl (sv, db) \<Rightarrow>
          (sv\<lparr>sv_terminal := Some ''failed'', sv_error := Some ''internal supervisor error''\<rparr>, db)
      | Inr (sv, db) \<Rightarrow>
          (case ending of
             Exited code \<Rightarrow> (sv, db)
           | TimedOut \<Rightarrow>
               (let message = ''Run exceeded the configured timeout of '' @ show_int timeout @ '' seconds''
                in (sv\<lparr>sv_terminal := Some ''timed_out'', sv_error := Some message\<rparr>,
                    append_event je rid ''log'' (error_log message) db))))"

text \<open>What the outcome becomes once the output is over: a worker that died without a word, and a
  cancellation that was asked for.\<close>

definition resolve_outcome ::
  "job_env \<Rightarrow> string \<Rightarrow> bool \<Rightarrow> worker_end \<Rightarrow> outcome \<times> db \<Rightarrow> (string \<times> string option) \<times> db" where
  "resolve_outcome je rid cancelled ending s =
     (case s of (sv, db) \<Rightarrow>
        (case sv_terminal sv of
           None \<Rightarrow>
             if cancelled then ((''cancelled'', Some ''cancelled by user''), db)
             else
               (let code = (case ending of Exited c \<Rightarrow> c | TimedOut \<Rightarrow> - 9);
                    message = ''Worker exited unexpectedly (code '' @ show_int code @ '')''
                in ((''failed'', Some message), append_event je rid ''log'' (error_log message) db))
         | Some status \<Rightarrow>
             ((if cancelled \<and> status = ''completed'' then ''cancelled'' else status, sv_error sv), db)))"

definition supervise ::
  "job_env \<Rightarrow> settings \<Rightarrow> string \<Rightarrow> string list \<Rightarrow> worker_end \<Rightarrow> job_state \<Rightarrow> unit result \<times> job_state" where
  "supervise je st rid lines ending js =
     (case run_timeout st (j_db js) rid of
        Inl e \<Rightarrow> (Inl e, js)
      | Inr timeout \<Rightarrow>
          (let (sv, db) = supervise_outcome je rid timeout lines ending (j_db js);
               ((status, error), db) = resolve_outcome je rid (rid \<in> j_cancel_requested js) ending (sv, db)
           in finalize je rid status error (sv_latency sv)
                (js\<lparr>j_db := db, j_processes := j_processes js - {rid},
                    j_cancel_requested := j_cancel_requested js - {rid}\<rparr>)))"

definition drain_stderr_line :: "job_env \<Rightarrow> string \<Rightarrow> string \<Rightarrow> db \<Rightarrow> db" where
  "drain_stderr_line je rid line db =
     (let text = rstrip_by is_space line
      in if text = [] then db
         else append_event je rid ''log''
                [(''level'', JStr ''DEBUG''), (''message'', JStr (''[worker] '' @ text))] db)"

end
