(* ===== verification/Event_Log.thy ===== *)
theory Event_Log
  imports Jobs
begin

text \<open>
  The event log of a run and the counters of its results: the invariants every step of the
  job manager keeps, the interface a reader of the log relies on, and what two concurrent
  writers of the same log do to each other.
\<close>

section \<open>Runs\<close>

lemma find_run_id: "find_run db rid = Some r \<Longrightarrow> r_id r = rid"
  by (auto simp: find_run_def dest: get_row_Some)

lemma find_run_update [simp]:
  assumes "\<And>r. r_id (f r) = r_id r"
  shows "find_run (update_run rid f db) k =
    (if k = rid then map_option f (find_run db k) else find_run db k)"
  using assms by (simp add: find_run_def update_run_def get_row_modify_row)

lemma update_run_frame [simp]:
  "run_events (update_run rid f db) = run_events db"
  "test_results (update_run rid f db) = test_results db"
  by (simp_all add: update_run_def)

lemma map_r_id_update_run [simp]:
  "(\<And>r. r_id (f r) = r_id r) \<Longrightarrow> map r_id (runs (update_run rid f db)) = map r_id (runs db)"
  by (simp add: update_run_def map_key_modify_row)

lemma find_run_events [simp]:
  "find_run (db\<lparr>run_events := es\<rparr>) k = find_run db k"
  "find_run (db\<lparr>test_results := rs\<rparr>) k = find_run db k"
  by (simp_all add: find_run_def)

section \<open>The log of a run\<close>

definition events_of :: "db \<Rightarrow> string \<Rightarrow> run_event list" where
  "events_of db rid = filter (\<lambda>e. e_run_id e = rid) (run_events db)"

definition last_seq_of :: "db \<Rightarrow> string \<Rightarrow> nat" where
  "last_seq_of db rid = (case find_run db rid of None \<Rightarrow> 0 | Some r \<Rightarrow> r_last_seq r)"

definition log_wf :: "db \<Rightarrow> bool" where
  "log_wf db \<longleftrightarrow> (\<forall>rid. map e_seq (events_of db rid) = [1..<Suc (last_seq_of db rid)])"

lemma log_wfD: "log_wf db \<Longrightarrow> map e_seq (events_of db rid) = [1..<Suc (last_seq_of db rid)]"
  by (simp add: log_wf_def)

lemma events_of_update_run [simp]: "events_of (update_run rid f db) k = events_of db k"
  by (simp add: events_of_def)

lemma last_seq_of_update_run:
  "(\<And>r. r_id (f r) = r_id r) \<Longrightarrow> (\<And>r. r_last_seq (f r) = r_last_seq r) \<Longrightarrow>
     last_seq_of (update_run rid f db) k = last_seq_of db k"
  by (simp add: last_seq_of_def split: option.splits)

lemma events_of_append:
  "events_of (append_event je rid t p db) k =
     (case find_run db rid of
        None \<Rightarrow> events_of db k
      | Some r \<Rightarrow>
          events_of db k @
            (if k = rid then [\<lparr>e_run_id = rid, e_seq = r_last_seq r + 1, e_type = t, e_ts = je_now je, e_payload = p\<rparr>]
             else []))"
  by (auto simp: append_event_def events_of_def Let_def split: option.splits)

lemma last_seq_of_append:
  "last_seq_of (append_event je rid t p db) k =
     (if k = rid \<and> find_run db rid \<noteq> None then Suc (last_seq_of db k) else last_seq_of db k)"
  by (auto simp: append_event_def last_seq_of_def Let_def split: option.splits)

lemma find_run_append:
  "find_run (append_event je rid t p db) k =
     (if k = rid then map_option (\<lambda>r. r\<lparr>r_last_seq := r_last_seq r + 1\<rparr>) (find_run db k) else find_run db k)"
  by (auto simp: append_event_def Let_def find_run_def get_row_modify_row update_run_def split: option.splits)

lemma append_event_frame [simp]:
  "test_results (append_event je rid t p db) = test_results db"
  "map r_id (runs (append_event je rid t p db)) = map r_id (runs db)"
  by (auto simp: append_event_def Let_def split: option.splits)

lemma seqs_of_append:
  "map e_seq (events_of (append_event je rid t p db) k) =
     map e_seq (events_of db k) @ (if k = rid \<and> find_run db rid \<noteq> None then [Suc (last_seq_of db k)] else [])"
  by (simp add: events_of_append last_seq_of_def split: option.splits)

lemma log_wf_append: "log_wf db \<Longrightarrow> log_wf (append_event je rid t p db)"
  unfolding log_wf_def by (simp only: seqs_of_append last_seq_of_append) (simp add: upt_Suc_append del: upt_Suc)

lemma log_wf_update_run:
  "(\<And>r. r_id (f r) = r_id r) \<Longrightarrow> (\<And>r. r_last_seq (f r) = r_last_seq r) \<Longrightarrow>
     log_wf db \<Longrightarrow> log_wf (update_run rid f db)"
  by (simp add: log_wf_def last_seq_of_update_run)

section \<open>The counters of a run\<close>

definition results_of :: "db \<Rightarrow> string \<Rightarrow> test_result list" where
  "results_of db rid = filter (\<lambda>r. res_run_id r = rid) (test_results db)"

definition expected_count :: "test_result list \<Rightarrow> string \<Rightarrow> int" where
  "expected_count rs k =
     (if k = ''total'' then int (length rs) else 0)
     + int (length (filter (\<lambda>r. str_lower (res_status r) = k) rs))"

definition totals_of :: "db \<Rightarrow> string \<Rightarrow> (string, int) dict" where
  "totals_of db rid = (case find_run db rid of None \<Rightarrow> [] | Some r \<Rightarrow> r_totals r)"

definition totals_wf :: "db \<Rightarrow> bool" where
  "totals_wf db \<longleftrightarrow>
     (\<forall>rid k. dict_get_or (totals_of db rid) k 0 = expected_count (results_of db rid) k)"

lemma count_status_get:
  "dict_get_or (count_status s t) k 0 =
     dict_get_or t k 0 + (if k = ''total'' then 1 else 0) + (if k = str_lower s then 1 else 0)"
  by (simp add: count_status_def Let_def)

lemma expected_count_append:
  "expected_count (rs @ [r]) k =
     expected_count rs k + (if k = ''total'' then 1 else 0) + (if k = str_lower (res_status r) then 1 else 0)"
  by (simp add: expected_count_def)

lemma totals_of_append [simp]: "totals_of (append_event je rid t p db) k = totals_of db k"
  by (simp add: totals_of_def find_run_append split: option.splits)

lemma results_of_append [simp]: "results_of (append_event je rid t p db) k = results_of db k"
  by (simp add: results_of_def)

lemma totals_wf_append: "totals_wf db \<Longrightarrow> totals_wf (append_event je rid t p db)"
  by (simp add: totals_wf_def)

lemma totals_wf_update_run:
  assumes "\<And>r. r_id (f r) = r_id r" and "\<And>r. r_totals (f r) = r_totals r" and "totals_wf db"
  shows "totals_wf (update_run rid f db)"
proof -
  have "totals_of (update_run rid f db) k = totals_of db k" for k
    using assms(1,2) by (simp add: totals_of_def split: option.splits)
  with assms(3) show ?thesis by (simp add: totals_wf_def results_of_def)
qed

lemma result_row_run: "result_row je ident rid result = Inr row \<Longrightarrow> res_id row = ident \<and> res_run_id row = rid"
  by (auto simp: result_row_def)

text \<open>What storing one result does.\<close>

lemma persist_result_cases:
  obtains (skipped) "snd (persist_result je rid result db) = db"
  | (stored) r row where "find_run db rid = Some r"
      "result_row je (result_identifier je db result) rid
         (AList.update ''id'' (JStr (result_identifier je db result)) result) = Inr row"
      "snd (persist_result je rid result db) =
         (update_run rid (r_totals_update (count_status (res_status row))) db)
           \<lparr>test_results := insert_row row (test_results db)\<rparr>"
proof (cases "find_run db rid")
  case None
  then show ?thesis by (intro skipped) (simp add: persist_result_def)
next
  case (Some r)
  then show ?thesis
    by (cases "result_row je (result_identifier je db result) rid
        (AList.update ''id'' (JStr (result_identifier je db result)) result)")
      (auto simp: persist_result_def Let_def intro: skipped stored)
qed

lemma totals_wf_persist:
  assumes "totals_wf db"
  shows "totals_wf (snd (persist_result je rid result db))"
proof (cases rule: persist_result_cases [of je rid result db])
  case (stored r row)
  let ?db = "snd (persist_result je rid result db)"
  have row: "res_run_id row = rid"
    using stored(2) by (simp add: result_row_run)
  have tot: "totals_of ?db k = (if k = rid then count_status (res_status row) (totals_of db k) else totals_of db k)" for k
    using stored(1,3) by (auto simp: totals_of_def split: option.splits)
  have res: "results_of ?db k = results_of db k @ (if k = rid then [row] else [])" for k
    using stored(3) row by (auto simp: results_of_def)
  show ?thesis
    using assms unfolding totals_wf_def
    by (simp add: tot res count_status_get expected_count_append)
qed (use assms in simp)

lemma log_wf_persist: "log_wf db \<Longrightarrow> log_wf (snd (persist_result je rid result db))"
proof (cases rule: persist_result_cases [of je rid result db])
  case (stored r row)
  assume "log_wf db"
  then have "log_wf (update_run rid (r_totals_update (count_status (res_status row))) db)"
    by (intro log_wf_update_run) simp_all
  with stored(3) show ?thesis by (simp add: log_wf_def events_of_def last_seq_of_def)
qed simp

section \<open>Readers of the log\<close>

lemma upt_snoc: "xs @ [x] = [Suc 0..<Suc (Suc n)] \<longleftrightarrow> xs = [Suc 0..<Suc n] \<and> x = Suc n"
  by (simp add: upt_Suc_append del: upt_Suc)

lemma numbered_newer:
  "map f xs = [1..<Suc (length xs)] \<Longrightarrow> filter (\<lambda>e. a < f e) xs = drop a xs"
proof (induction xs rule: rev_induct)
  case (snoc x xs)
  then have "map f xs = [1..<Suc (length xs)]" and "f x = Suc (length xs)"
    by (auto simp: upt_snoc simp del: upt_Suc)
  with snoc.IH show ?case by auto
qed simp

text \<open>
  The interface between the writer of a run's log and its readers (the stream, the log API, the
  exports): the entries are numbered from 1 without a gap. A reader that asks for what is newer
  than a number gets the rest of the log, so it can stop and resume anywhere.
\<close>

locale event_log =
  fixes log :: "'s \<Rightarrow> 'r \<Rightarrow> 'e list"
    and seq :: "'e \<Rightarrow> nat"
    and ok :: "'s \<Rightarrow> bool"
  assumes numbered: "ok s \<Longrightarrow> map seq (log s r) = [1..<Suc (length (log s r))]"
begin

lemma newer_than: "ok s \<Longrightarrow> filter (\<lambda>e. a < seq e) (log s r) = drop a (log s r)"
  by (rule numbered_newer) (rule numbered)

lemma seqs_newer: "ok s \<Longrightarrow> map seq (drop a (log s r)) = [Suc a..<Suc (length (log s r))]"
  by (simp only: drop_map [symmetric] numbered drop_upt) simp

lemma seqs_page:
  assumes "ok s"
  shows "map seq (take n (drop a (log s r))) = [Suc a..<Suc a + length (take n (drop a (log s r)))]"
proof -
  have "map seq (take n (drop a (log s r))) = take n [Suc a..<Suc (length (log s r))]"
    using assms by (simp only: take_map [symmetric] seqs_newer)
  also have "\<dots> = [Suc a..<Suc a + min n (length (log s r) - a)]"
    by (cases "a \<le> length (log s r)"; cases "Suc a + n \<le> Suc (length (log s r))")
      (auto simp: take_upt min_def simp del: upt_Suc)
  finally show ?thesis by (simp add: min.commute)
qed

lemma last_of_page:
  assumes "ok s" and "take n (drop a (log s r)) \<noteq> []"
  shows "seq (last (take n (drop a (log s r)))) = a + length (take n (drop a (log s r)))"
proof -
  let ?p = "take n (drop a (log s r))"
  have "seq (last ?p) = last (map seq ?p)"
    using assms(2) by (simp add: last_map)
  also have "\<dots> = last [Suc a..<Suc a + length ?p]"
    by (simp only: seqs_page [OF assms(1)])
  also have "\<dots> = a + length ?p"
    using assms(2) by (subst last_upt) auto
  finally show ?thesis .
qed

lemma distinct_seqs: "ok s \<Longrightarrow> distinct (map seq (log s r))"
  by (simp only: numbered) simp

end

lemma length_events_of: "log_wf db \<Longrightarrow> length (events_of db rid) = last_seq_of db rid"
  by (metis diff_Suc_1 length_map length_upt log_wfD plus_1_eq_Suc)

interpretation job_log: event_log events_of e_seq log_wf
proof
  show "map e_seq (events_of s r) = [1..<Suc (length (events_of s r))]" if "log_wf s" for s r
    using that by (simp only: length_events_of log_wfD)
qed

section \<open>Two writers of one log\<close>

text \<open>Without interference, reading and then committing is \<open>append_event\<close>.\<close>

lemma last_seq_bound:
  assumes "log_wf db" and "e \<in> set (run_events db)" and "e_run_id e = rid"
  shows "e_seq e \<le> last_seq_of db rid"
proof -
  from assms(2,3) have "e_seq e \<in> set (map e_seq (events_of db rid))"
    by (auto simp: events_of_def)
  also have "set (map e_seq (events_of db rid)) = {1..<Suc (last_seq_of db rid)}"
    using log_wfD [OF assms(1), of rid] by (metis set_upt)
  finally show ?thesis by simp
qed

lemma append_read_commit:
  assumes "log_wf db" and "append_read db rid = Some n"
  shows "append_commit je rid n t p db = Inr (append_event je rid t p db)"
proof -
  from assms(2) obtain r where r: "find_run db rid = Some r" "n = r_last_seq r"
    by (auto simp: append_read_def)
  then have "\<not> (\<exists>e\<in>set (run_events db). e_run_id e = rid \<and> e_seq e = n + 1)"
    using last_seq_bound [OF assms(1)] by (fastforce simp: last_seq_of_def)
  with r show ?thesis by (simp add: append_commit_def append_event_def Let_def)
qed

text \<open>Two sessions that read the same counter: the second commit violates the unique index.\<close>

lemma append_commit_race:
  assumes "append_commit je rid n t p db = Inr db'"
  shows "append_commit je rid n t' p' db' = Inl (Uncaught ''IntegrityError'')"
  using assms by (auto simp: append_commit_def Let_def split: if_splits)

end
