(* ===== verification/Job_Steps.thy ===== *)
theory Job_Steps
  imports Event_Log
begin

text \<open>
  The job manager as a step relation: every database transaction of \<open>backend/app/jobs.py\<close> that
  can interleave with others is one step, over any number of runs. The log and the counters stay
  consistent along every execution; the status of a run does not (a terminal status can be
  overwritten), and the last section shows where.
\<close>

definition jobs_wf :: "db \<Rightarrow> bool" where
  "jobs_wf db \<longleftrightarrow> log_wf db \<and> totals_wf db"

definition neutral :: "(run \<Rightarrow> run) \<Rightarrow> bool" where
  "neutral f \<longleftrightarrow> (\<forall>r. r_id (f r) = r_id r \<and> r_last_seq (f r) = r_last_seq r \<and> r_totals (f r) = r_totals r)"

lemma jobs_wf_update_run: "neutral f \<Longrightarrow> jobs_wf db \<Longrightarrow> jobs_wf (update_run rid f db)"
  by (simp add: jobs_wf_def neutral_def log_wf_update_run totals_wf_update_run)

lemma jobs_wf_append: "jobs_wf db \<Longrightarrow> jobs_wf (append_event je rid t p db)"
  by (simp add: jobs_wf_def log_wf_append totals_wf_append)

lemma jobs_wf_persist: "jobs_wf db \<Longrightarrow> jobs_wf (snd (persist_result je rid result db))"
  by (simp add: jobs_wf_def log_wf_persist totals_wf_persist)

lemma neutral_simps [simp]:
  "neutral (\<lambda>r. r\<lparr>r_status := s, r_started_at := t\<rparr>)"
  "neutral (set_final je s e l)"
  "neutral (r_current_activity_update f)"
  by (simp_all add: neutral_def set_final_def)

lemma jobs_wf_handle_event: "jobs_wf db \<Longrightarrow> handle_event je rid t d db = Inr db' \<Longrightarrow> jobs_wf db'"
  by (auto simp: handle_event_def Let_def jobs_wf_append jobs_wf_update_run split: if_splits json.splits prod.splits)
    (metis jobs_wf_append jobs_wf_persist snd_conv)

lemma jobs_wf_consume_line:
  assumes "jobs_wf db"
  shows "case consume_line je rid line (sv, db) of Inl db' \<Rightarrow> jobs_wf db' | Inr (_, db') \<Rightarrow> jobs_wf db'"
  using assms jobs_wf_handle_event [of db je rid]
  by (auto simp: consume_line_def Let_def jobs_wf_append
      split: option.splits json.splits sum.splits prod.splits if_splits)

lemma jobs_wf_consume:
  assumes "jobs_wf db"
  shows "case consume je rid lines (sv, db) of Inl (_, db') \<Rightarrow> jobs_wf db' | Inr (_, db') \<Rightarrow> jobs_wf db'"
  using assms
proof (induction lines arbitrary: sv db)
  case (Cons line lines)
  then show ?case
    using jobs_wf_consume_line [OF Cons.prems, of je rid line sv]
    by (cases "consume_line je rid line (sv, db)") auto
qed simp

lemma jobs_wf_start_run: "jobs_wf (j_db js) \<Longrightarrow> jobs_wf (j_db (snd (start_run je rid js)))"
  by (auto simp: start_run_def Let_def jobs_wf_append jobs_wf_update_run split: sum.splits)

lemma jobs_wf_finalize: "jobs_wf (j_db js) \<Longrightarrow> jobs_wf (j_db (snd (finalize je rid s e l js)))"
  by (auto simp: finalize_def Let_def jobs_wf_append jobs_wf_update_run split: sum.splits)

lemma jobs_wf_finalize_if:
  "jobs_wf (j_db js) \<Longrightarrow> jobs_wf (j_db (snd (finalize_if_not_terminal je rid s e js)))"
  using jobs_wf_finalize [of js je rid s e None]
  by (auto simp: finalize_if_not_terminal_def split: option.splits prod.splits)

lemma jobs_wf_cancel_run: "jobs_wf (j_db js) \<Longrightarrow> jobs_wf (j_db (snd (cancel_run je rid js)))"
  by (simp add: cancel_run_def Let_def jobs_wf_finalize_if)

lemma jobs_wf_drain: "jobs_wf db \<Longrightarrow> jobs_wf (drain_stderr_line je rid line db)"
  by (simp add: drain_stderr_line_def Let_def jobs_wf_append)

lemma jobs_wf_resolve:
  "jobs_wf db \<Longrightarrow> jobs_wf (snd (resolve_outcome je rid c ending (sv, db)))"
  by (auto simp: resolve_outcome_def Let_def jobs_wf_append split: option.splits)

lemma find_run_update_rows:
  "(\<And>r. r_id (f r) = r_id r) \<Longrightarrow>
     find_run (db\<lparr>runs := update_rows p f (runs db)\<rparr>) k = map_option (\<lambda>r. if p r then f r else r) (find_run db k)"
  by (simp add: find_run_def get_row_update_rows)

lemma jobs_wf_orphans: "jobs_wf db \<Longrightarrow> jobs_wf (mark_orphans_failed je db)"
proof -
  assume wf: "jobs_wf db"
  have "find_run (mark_orphans_failed je db) k =
      map_option (\<lambda>r. if is_active_status (r_status r)
        then r\<lparr>r_status := ''failed'', r_error := Some ''Server restarted while the run was in progress'',
               r_finished_at := Some (je_now je)\<rparr> else r) (find_run db k)" for k
    unfolding mark_orphans_failed_def by (rule find_run_update_rows) simp
  then have "last_seq_of (mark_orphans_failed je db) k = last_seq_of db k"
      and "totals_of (mark_orphans_failed je db) k = totals_of db k" for k
    by (auto simp: last_seq_of_def totals_of_def split: option.splits)
  with wf show ?thesis
    by (simp add: jobs_wf_def log_wf_def totals_wf_def events_of_def results_of_def mark_orphans_failed_def)
qed

section \<open>Creating and deleting a run\<close>

text \<open>\<open>session.delete(run)\<close> with the ORM's cascade to events and results.\<close>

definition delete_run_row :: "string \<Rightarrow> db \<Rightarrow> db" where
  "delete_run_row rid db =
     db\<lparr>runs := remove_row r_id rid (runs db),
        run_events := delete_rows (\<lambda>e. e_run_id e = rid) (run_events db),
        test_results := delete_rows (\<lambda>r. res_run_id r = rid) (test_results db)\<rparr>"

definition new_run_row :: "run \<Rightarrow> bool" where
  "new_run_row r \<longleftrightarrow> r_status r = ''queued'' \<and> r_last_seq r = 0 \<and> r_totals r = []"

definition add_run :: "run \<Rightarrow> db \<Rightarrow> db" where
  "add_run r db = db\<lparr>runs := insert_row r (runs db)\<rparr>"

lemma find_run_add:
  "find_run db (r_id r) = None \<Longrightarrow> find_run (add_run r db) k = (if k = r_id r then Some r else find_run db k)"
  by (auto simp: find_run_def add_run_def get_row_insert_row split: option.splits)

lemma jobs_wf_add_run:
  assumes "jobs_wf db" and "find_run db (r_id r) = None" and "new_run_row r"
  shows "jobs_wf (add_run r db)"
proof -
  have "last_seq_of (add_run r db) k = last_seq_of db k" and "totals_of (add_run r db) k = totals_of db k" for k
    using assms(2,3) by (simp_all add: last_seq_of_def totals_of_def find_run_add new_run_row_def)
  with assms(1) show ?thesis
    by (simp add: jobs_wf_def log_wf_def totals_wf_def events_of_def results_of_def add_run_def)
qed

lemma find_run_delete: "find_run (delete_run_row rid db) k = (if k = rid then None else find_run db k)"
  by (simp add: find_run_def delete_run_row_def get_row_remove_row)

lemma events_of_delete: "events_of (delete_run_row rid db) k = (if k = rid then [] else events_of db k)"
  by (auto simp: events_of_def delete_run_row_def delete_rows_def filter_empty_conv intro: filter_cong)

lemma results_of_delete: "results_of (delete_run_row rid db) k = (if k = rid then [] else results_of db k)"
  by (auto simp: results_of_def delete_run_row_def delete_rows_def filter_empty_conv intro: filter_cong)

lemma counters_delete:
  "last_seq_of (delete_run_row rid db) k = (if k = rid then 0 else last_seq_of db k)"
  "totals_of (delete_run_row rid db) k = (if k = rid then [] else totals_of db k)"
  by (simp_all add: last_seq_of_def totals_of_def find_run_delete)

lemma jobs_wf_delete: "jobs_wf db \<Longrightarrow> jobs_wf (delete_run_row rid db)"
  by (simp add: jobs_wf_def log_wf_def totals_wf_def events_of_delete results_of_delete counters_delete
      expected_count_def del: upt_Suc)

section \<open>The step relation\<close>

inductive job_step :: "job_env \<Rightarrow> settings \<Rightarrow> job_state \<Rightarrow> job_state \<Rightarrow> bool" for je st where
  create: "find_run (j_db js) (r_id r) = None \<Longrightarrow> new_run_row r \<Longrightarrow>
    job_step je st js (js\<lparr>j_db := add_run r (j_db js)\<rparr>)"
| start: "job_step je st js (snd (start_run je rid js))"
| line_read: "rid \<in> j_processes js \<Longrightarrow> consume_line je rid line (sv, j_db js) = Inr (sv', db') \<Longrightarrow>
    job_step je st js (js\<lparr>j_db := db'\<rparr>)"
| bad_line: "rid \<in> j_processes js \<Longrightarrow> consume_line je rid line (sv, j_db js) = Inl db' \<Longrightarrow>
    job_step je st js (js\<lparr>j_db := db'\<rparr>)"
| stderr: "rid \<in> j_processes js \<Longrightarrow> job_step je st js (js\<lparr>j_db := drain_stderr_line je rid line (j_db js)\<rparr>)"
| supervised: "rid \<in> j_processes js \<Longrightarrow> job_step je st js (snd (supervise je st rid lines ending js))"
| cancel: "job_step je st js (snd (cancel_run je rid js))"
| delete: "job_step je st js (js\<lparr>j_db := delete_run_row rid (j_db js)\<rparr>)"
| boot: "job_step je st js
    \<lparr>j_db = mark_orphans_failed je (j_db js), j_processes = {}, j_cancel_requested = {},
     j_cancel_flags = j_cancel_flags js, j_escalations = {}\<rparr>"

inductive_cases job_stepE: "job_step je st js js'"

abbreviation job_steps :: "job_env \<Rightarrow> settings \<Rightarrow> job_state \<Rightarrow> job_state \<Rightarrow> bool" where
  "job_steps je st \<equiv> (job_step je st)\<^sup>*\<^sup>*"

lemma supervise_outcome_wf: "jobs_wf db \<Longrightarrow> jobs_wf (snd (supervise_outcome je rid t lines ending db))"
  using jobs_wf_consume [of db je rid lines no_outcome]
  by (auto simp: supervise_outcome_def Let_def jobs_wf_append
      split: sum.splits prod.splits worker_end.splits)

lemma jobs_wf_supervise:
  assumes "jobs_wf (j_db js)"
  shows "jobs_wf (j_db (snd (supervise je st rid lines ending js)))"
proof (cases "run_timeout st (j_db js) rid")
  case (Inr timeout)
  obtain sv db where so: "supervise_outcome je rid timeout lines ending (j_db js) = (sv, db)"
    by fastforce
  then have db: "jobs_wf db"
    using supervise_outcome_wf [OF assms, of je rid timeout lines ending] by simp
  obtain status error db' where
      ro: "resolve_outcome je rid (rid \<in> j_cancel_requested js) ending (sv, db) = ((status, error), db')"
    by (metis surj_pair)
  then have "jobs_wf db'"
    using jobs_wf_resolve [OF db, of je rid "rid \<in> j_cancel_requested js" ending sv] by simp
  with Inr so ro show ?thesis
    by (simp add: supervise_def jobs_wf_finalize)
qed (use assms in \<open>simp add: supervise_def\<close>)

lemma job_step_wf: "job_step je st js js' \<Longrightarrow> jobs_wf (j_db js) \<Longrightarrow> jobs_wf (j_db js')"
proof (induction rule: job_step.induct)
  case (line_read rid js line sv sv' db')
  then show ?case using jobs_wf_consume_line [of "j_db js" je rid line sv] by simp
next
  case (bad_line rid js line sv db')
  then show ?case using jobs_wf_consume_line [of "j_db js" je rid line sv] by simp
qed (simp_all add: jobs_wf_add_run jobs_wf_start_run jobs_wf_drain jobs_wf_supervise jobs_wf_cancel_run
    jobs_wf_delete jobs_wf_orphans)

lemma job_steps_wf: "job_steps je st js js' \<Longrightarrow> jobs_wf (j_db js) \<Longrightarrow> jobs_wf (j_db js')"
  by (induction rule: rtranclp_induct) (auto intro: job_step_wf)

lemma jobs_wf_empty: "jobs_wf empty_db"
  by (simp add: jobs_wf_def log_wf_def totals_wf_def events_of_def results_of_def last_seq_of_def
      totals_of_def find_run_def get_row_def empty_db_def expected_count_def)

section \<open>The end of a run\<close>

definition run_exists :: "db \<Rightarrow> string \<Rightarrow> bool" where
  "run_exists db rid \<longleftrightarrow> find_run db rid \<noteq> None"

lemma run_exists_append [simp]: "run_exists (append_event je rid t p db) k = run_exists db k"
  by (simp add: run_exists_def find_run_append)

lemma run_exists_update [simp]:
  "(\<And>r. r_id (f r) = r_id r) \<Longrightarrow> run_exists (update_run rid f db) k = run_exists db k"
  by (simp add: run_exists_def)

lemma run_exists_persist [simp]: "run_exists (snd (persist_result je rid result db)) k = run_exists db k"
  by (cases rule: persist_result_cases [of je rid result db]) (simp_all add: run_exists_def)

lemma run_exists_handle_event: "handle_event je rid t d db = Inr db' \<Longrightarrow> run_exists db' k = run_exists db k"
  by (auto simp: handle_event_def Let_def split: if_splits json.splits prod.splits)
    (metis run_exists_persist snd_conv)+

lemma run_exists_consume_line:
  "case consume_line je rid line (sv, db) of
     Inl db' \<Rightarrow> run_exists db' k = run_exists db k | Inr (_, db') \<Rightarrow> run_exists db' k = run_exists db k"
  by (auto simp: consume_line_def Let_def run_exists_handle_event
      split: option.splits json.splits sum.splits prod.splits if_splits)

lemma run_exists_consume:
  "case consume je rid lines (sv, db) of
     Inl (_, db') \<Rightarrow> run_exists db' k = run_exists db k | Inr (_, db') \<Rightarrow> run_exists db' k = run_exists db k"
proof (induction lines arbitrary: sv db)
  case (Cons line lines)
  show ?case
  proof (cases "consume_line je rid line (sv, db)")
    case (Inl db')
    then show ?thesis using run_exists_consume_line [where je = je and rid = rid and line = line and sv = sv and db = db and k = k] by simp
  next
    case (Inr s)
    then obtain sv' db' where s: "s = (sv', db')" by fastforce
    with Inr show ?thesis
      using Cons.IH [where sv = sv' and db = db'] run_exists_consume_line [where je = je and rid = rid and line = line and sv = sv and db = db and k = k]
      by (simp split: sum.splits prod.splits)
  qed
qed simp

text \<open>A worker that keeps to the protocol reports one of the final statuses.\<close>

definition speaks_protocol :: "job_env \<Rightarrow> string \<Rightarrow> bool" where
  "speaks_protocol je line \<longleftrightarrow>
     (case parse_event je line of
        None \<Rightarrow> True
      | Some d \<Rightarrow>
          jget d ''type'' (JStr ''log'') = JStr ''done'' \<longrightarrow>
          jget d ''status'' (JStr ''completed'') \<in> JStr ` set TERMINAL_STATUSES)"

definition final_or_none :: "string option \<Rightarrow> bool" where
  "final_or_none s \<longleftrightarrow> (case s of None \<Rightarrow> True | Some t \<Rightarrow> t \<in> set TERMINAL_STATUSES)"

lemma jget_delete_other [simp]: "k \<noteq> k' \<Longrightarrow> jget (AList.delete k d) k' v = jget d k' v"
  by (simp add: jget_def delete_conv')

lemma consume_line_final:
  assumes "consume_line je rid line (sv, db) = Inr (sv', db')"
    and "speaks_protocol je line" and "final_or_none (sv_terminal sv)"
  shows "final_or_none (sv_terminal sv')"
  using assms
  by (auto simp: consume_line_def speaks_protocol_def final_or_none_def TERMINAL_STATUSES_def Let_def
      split: option.splits json.splits sum.splits if_splits)

lemma consume_final:
  assumes "consume je rid lines (sv, db) = Inr (sv', db')"
    and "list_all (speaks_protocol je) lines" and "final_or_none (sv_terminal sv)"
  shows "final_or_none (sv_terminal sv')"
  using assms
proof (induction lines arbitrary: sv db)
  case (Cons line lines)
  then obtain sv1 db1 where 1: "consume_line je rid line (sv, db) = Inr (sv1, db1)"
      "consume je rid lines (sv1, db1) = Inr (sv', db')"
    by (auto split: sum.splits)
  with Cons.prems have "final_or_none (sv_terminal sv1)"
    by (auto intro: consume_line_final)
  with 1 Cons show ?case by simp
qed simp

lemma supervise_outcome_final:
  assumes "supervise_outcome je rid t lines ending db = (sv, db')"
    and "list_all (speaks_protocol je) lines"
  shows "final_or_none (sv_terminal sv) \<and> run_exists db' k = run_exists db k"
  using assms run_exists_consume [where je = je and rid = rid and lines = lines and sv = no_outcome and db = db and k = k]
    consume_final [of je rid lines no_outcome db]
  by (auto simp: supervise_outcome_def final_or_none_def no_outcome_def TERMINAL_STATUSES_def Let_def
      split: sum.splits prod.splits worker_end.splits)

lemma resolve_outcome_final:
  assumes "resolve_outcome je rid c ending (sv, db) = ((status, error), db')" and "final_or_none (sv_terminal sv)"
  shows "status \<in> set TERMINAL_STATUSES \<and> run_exists db' k = run_exists db k"
  using assms
  by (auto simp: resolve_outcome_def final_or_none_def TERMINAL_STATUSES_def Let_def
      split: option.splits if_splits)

lemma finalize_sets:
  assumes "run_exists (j_db js) rid"
  shows "\<exists>r. find_run (j_db (snd (finalize je rid status error latency js))) rid = Some r \<and>
    r_status r = status \<and> r_finished_at r = Some (je_now je) \<and> r_current_activity r = None"
proof -
  from assms obtain r where r: "find_run (j_db js) rid = Some r"
    by (auto simp: run_exists_def)
  have id: "r_id (set_final je status error latency r) = r_id r" for r
    by (simp add: set_final_def)
  show ?thesis
    using r
    by (cases "run_snapshot je rid (update_run rid (set_final je status error latency) (j_db js))")
      (simp_all add: finalize_def Let_def find_run_append id, simp_all add: set_final_def)
qed

lemma supervise_ends_run:
  assumes "run_timeout st (j_db js) rid = Inr t" and "run_exists (j_db js) rid"
    and "list_all (speaks_protocol je) lines"
  shows "\<exists>r. find_run (j_db (snd (supervise je st rid lines ending js))) rid = Some r \<and>
    r_status r \<in> set TERMINAL_STATUSES \<and> r_finished_at r = Some (je_now je)"
proof -
  obtain sv db where so: "supervise_outcome je rid t lines ending (j_db js) = (sv, db)"
    by fastforce
  obtain status error db' where
      ro: "resolve_outcome je rid (rid \<in> j_cancel_requested js) ending (sv, db) = ((status, error), db')"
    by (metis surj_pair)
  from supervise_outcome_final [OF so assms(3), of rid] resolve_outcome_final [OF ro, of rid] assms(2)
  have "status \<in> set TERMINAL_STATUSES" and ex: "run_exists db' rid" by auto
  moreover have "snd (supervise je st rid lines ending js) =
      snd (finalize je rid status error (sv_latency sv)
        (js\<lparr>j_db := db', j_processes := j_processes js - {rid},
            j_cancel_requested := j_cancel_requested js - {rid}\<rparr>))"
    using assms(1) so ro by (simp add: supervise_def)
  ultimately show ?thesis
    using finalize_sets [of "js\<lparr>j_db := db', j_processes := j_processes js - {rid},
        j_cancel_requested := j_cancel_requested js - {rid}\<rparr>" rid je status error "sv_latency sv"]
    by auto
qed

text \<open>A cancellation that reaches the supervising process does not touch the database.\<close>

lemma cancel_with_process:
  "rid \<in> j_processes js \<Longrightarrow>
     fst (cancel_run je rid js) = Inr True \<and> j_db (snd (cancel_run je rid js)) = j_db js \<and>
     rid \<in> j_cancel_requested (snd (cancel_run je rid js)) \<and> rid \<in> j_escalations (snd (cancel_run je rid js))"
  by (simp add: cancel_run_def Let_def)

lemma cancelled_completion:
  "sv_terminal sv = Some ''completed'' \<Longrightarrow>
     fst (fst (resolve_outcome je rid True ending (sv, db))) = ''cancelled''"
  by (simp add: resolve_outcome_def)

end
