(* ===== verification/Worker_Properties.thy ===== *)
theory Worker_Properties
  imports Executor Job_Steps
begin

text \<open>
  What a worker's event sequence guarantees, whatever the engine does: one final event, the
  status it carries, isolation of a failing category, the selection, redaction, the latencies.
\<close>

section \<open>What every turn of the worker preserves\<close>

text \<open>
  The worker only writes through three functions. A property of its state that these keep is
  kept by a whole run; the locale proves that once.
\<close>

locale worker_invariant =
  fixes inv :: "worker \<Rightarrow> bool"
  assumes inv_log: "inv w \<Longrightarrow> inv (worker_log l m w)"
    and inv_progress: "inv w \<Longrightarrow> inv (progress a n t w)"
    and inv_emit_result: "emit_result we cfg r w = Inr w' \<Longrightarrow> inv w \<Longrightarrow> inv w'"
begin

lemma inv_stream_results: "inv w \<Longrightarrow> inv (snd (stream_results we cfg active rs w))"
proof (induction we cfg active rs w rule: stream_results.induct)
  case (2 we cfg active r records rs w)
  then show ?case
    using inv_emit_result [of we cfg "attach_diagnostics (wk_now we) records r" w]
    by (auto simp: stream_result_def split: sum.split)
qed simp

lemma inv_helpers:
  "inv w \<Longrightarrow> inv (open_category label n t w)"
  "inv w \<Longrightarrow> inv (announce_selection label sel w)"
  "inv w \<Longrightarrow> inv (log_crash we label exc w)"
  by (auto simp: open_category_def announce_selection_def log_crash_def inv_log inv_progress split: option.split)

lemma inv_run_category: "inv w \<Longrightarrow> inv (snd (run_category we engine cfg sel n t key w))"
  by (auto simp: run_category_def Let_def inv_helpers inv_stream_results inv_progress inv_emit_result
      split: sum.split option.split)

lemma inv_run_categories: "inv w \<Longrightarrow> inv (snd (run_categories we engine cfg sel cancel n t keys w))"
proof (induction keys arbitrary: n w)
  case (Cons key keys)
  from inv_run_category [OF Cons.prems, of we engine cfg sel n t key] Cons show ?case
    by (cases "run_category we engine cfg sel n t key w") (auto split: option.split)
qed simp

text \<open>\<open>run\<close> up to the event that ends it.\<close>

definition before_done :: "run_end \<Rightarrow> worker \<Rightarrow> bool" where
  "before_done ended w' \<longleftrightarrow>
     (inv w' \<and> ended \<noteq> Completed) \<or>
     (\<exists>w err. inv w \<and> ended = Completed \<and>
        w' = emit ''done'' (done_event ''failed'' (Some err) (w_latencies w)) w) \<or>
     (\<exists>w. inv w \<and> ended = Completed \<and>
        w' = worker_log ''INFO'' ''Run complete'' (emit ''done'' (done_event ''completed'' None (w_latencies w)) w))"

lemma before_done_refuse:
  assumes "inv w"
  shows "before_done (fst (refuse_targets we cfg exc w)) (snd (refuse_targets we cfg exc w))"
  using assms inv_emit_result [of we cfg
      "error_result we 0 ''Setup'' ''Outbound target policy check'' (blocked_message exc)"
      "worker_log ''ERROR'' (''[NETGUARD] '' @ blocked_message exc) w"]
  by (auto simp: refuse_targets_def Let_def before_done_def inv_log split: sum.split)

lemma inv_announce: "inv w \<Longrightarrow> inv (announce_run keys sel w)"
  by (simp add: announce_run_def Let_def inv_log)

lemma before_done_enabled:
  assumes "inv w"
  shows "before_done (fst (run_enabled we engine cancel cfg w)) (snd (run_enabled we engine cancel cfg w))"
proof -
  let ?keys = "enabled_keys cfg" and ?sel = "json_dict (jget cfg ''resolved_test_selection'' JNull)"
  let ?r = "run_categories we engine cfg ?sel cancel 0 (length ?keys) ?keys (announce_run ?keys ?sel w)"
  have inv: "inv (snd ?r)"
    using assms by (intro inv_run_categories inv_announce)
  show ?thesis
  proof (cases "fst ?r = Completed")
    case True
    then have "run_enabled we engine cancel cfg w = (Completed, worker_log ''INFO'' ''Run complete''
        (emit ''done'' (done_event ''completed'' None (w_latencies (snd ?r))) (snd ?r)))"
      by (simp add: run_enabled_def Let_def)
    with inv show ?thesis unfolding before_done_def by auto
  next
    case False
    then have "run_enabled we engine cancel cfg w = ?r"
      by (simp add: run_enabled_def Let_def)
    with inv False show ?thesis unfolding before_done_def by auto
  qed
qed

lemma before_done_run:
  assumes "inv w"
  shows "before_done (fst (run_worker we gai engine load_cert cancel jb w))
     (snd (run_worker we gai engine load_cert cancel jb w))"
proof -
  have crashed: "inv w' \<Longrightarrow> before_done (Crashed e) w'" for e w'
    by (simp add: before_done_def)
  show ?thesis
    using assms
    by (auto simp: run_worker_def Let_def crashed inv_log before_done_refuse before_done_enabled
        split: sum.split net_error.split)
qed

end

section \<open>One final event\<close>

definition is_final :: "event \<Rightarrow> bool" where
  "is_final e \<longleftrightarrow> fst e = ''done'' \<or> fst e = ''fatal''"

definition finals :: "event list \<Rightarrow> event list" where
  "finals es = filter is_final es"

lemma finals_emit [simp]:
  "finals (w_events (emit t d w)) = finals (w_events w) @ (if t = ''done'' \<or> t = ''fatal'' then [(t, d)] else [])"
  by (simp add: finals_def emit_def is_final_def)

lemma finals_worker_log [simp]: "finals (w_events (worker_log l m w)) = finals (w_events w)"
  by (simp add: worker_log_def)

interpretation unfinished: worker_invariant "\<lambda>w. finals (w_events w) = []"
  by unfold_locales (auto simp: progress_def emit_payload_def emit_result_def)

text \<open>The worker's last word is one event, with one of the protocol's statuses.\<close>

lemma worker_main_final:
  "\<exists>t d. finals (worker_main we gai engine load_cert cancel manifest) = [(t, d)] \<and>
     (t = ''fatal'' \<or>
      (t = ''done'' \<and> jget d ''status'' JNull \<in> {JStr ''completed'', JStr ''failed'', JStr ''cancelled''}))"
proof (cases manifest)
  case (Inl e)
  then show ?thesis by (simp add: worker_main_def finals_def emit_def is_final_def)
next
  case (Inr jb)
  let ?start = "\<lparr>w_events = [], w_latencies = []\<rparr>"
  obtain ended w where r: "run_worker we gai engine load_cert cancel jb ?start = (ended, w)"
    by fastforce
  have "unfinished.before_done ended w"
    using unfinished.before_done_run [of ?start we gai engine load_cert cancel jb] r
    by (simp add: finals_def)
  then show ?thesis
    using Inr r
    by (cases ended)
      (auto simp: worker_main_def Let_def unfinished.before_done_def done_event_def)
qed

section \<open>Redaction\<close>

lemma redact_clean: "\<not> contains (redact m) ''PRIVATE KEY''"
  by (simp add: redact_def REDACTED_def contains_def sublist_Cons_right)

definition clean_event :: "event \<Rightarrow> bool" where
  "clean_event e \<longleftrightarrow>
     (fst e = ''log'' \<longrightarrow> (\<exists>m. jget (snd e) ''message'' JNull = JStr m \<and> \<not> contains m ''PRIVATE KEY''))"

interpretation redacted: worker_invariant "\<lambda>w. list_all clean_event (w_events w)"
  by unfold_locales
    (auto simp: worker_log_def progress_def emit_payload_def emit_def emit_result_def clean_event_def redact_clean)

lemma run_worker_redacted:
  "list_all clean_event (w_events (snd (run_worker we gai engine load_cert cancel jb \<lparr>w_events = [], w_latencies = []\<rparr>)))"
proof -
  let ?r = "run_worker we gai engine load_cert cancel jb \<lparr>w_events = [], w_latencies = []\<rparr>"
  have "redacted.before_done (fst ?r) (snd ?r)"
    by (rule redacted.before_done_run) simp
  then show ?thesis
    by (auto simp: redacted.before_done_def worker_log_def emit_def clean_event_def redact_clean)
qed

section \<open>A failing category does not end the run\<close>

text \<open>A configuration whose numbers the worker can read; every submitted one is
  (\<open>submitted_config_ok\<close>).\<close>

definition engine_config_ok :: "(string \<times> json) list \<Rightarrow> bool" where
  "engine_config_ok cfg \<longleftrightarrow>
     (\<exists>age. jget cfg ''max_age_hours'' (JInt 24) = JInt age \<and> \<bar>age\<bar> \<le> 8760) \<and>
     (\<exists>n. jget cfg ''nonce_length'' (JInt 32) = JInt n)"

definition selection_ok :: "(string \<times> json) list option \<Rightarrow> bool" where
  "selection_ok sel \<longleftrightarrow>
     (case sel of None \<Rightarrow> True | Some d \<Rightarrow> list_all (\<lambda>(_, v). case v of JList _ \<Rightarrow> True | _ \<Rightarrow> False) d)"

lemma error_result_serialized [simp]:
  "jget (serialize_result we (error_result we n c nm msg)) ''details'' v = JDict []"
  "jget (serialize_result we (error_result we n c nm msg)) ''name'' v = JStr nm"
  "jget (serialize_result we (error_result we n c nm msg)) ''category'' v = JStr c"
  by (simp_all add: serialize_result_def error_result_def)

lemma find_keys_empty [simp]: "find_keys wanted (JDict []) = []"
  by simp

lemma collect_error_result:
  assumes "engine_config_ok cfg" and "jget result ''name'' (JStr []) = JStr nm"
  shows "\<exists>ws. collect_warnings repr now result [] cfg = Inr ws"
proof -
  from assms(1) obtain age n where cfg: "jget cfg ''max_age_hours'' (JInt 24) = JInt age" "\<bar>age\<bar> \<le> 8760"
      "jget cfg ''nonce_length'' (JInt 32) = JInt n"
    by (auto simp: engine_config_ok_def)
  obtain s where "nonce_length_warning (json_true (jget cfg ''nonce_enabled'' (JBool True))) n (JStr nm) = Inr s"
    by (cases "json_true (jget cfg ''nonce_enabled'' (JBool True)) \<and> n < 32") (simp_all add: nonce_length_warning_def)
  with cfg assms(2) show ?thesis
    by (simp add: collect_warnings_def Let_def del: bind_result_Inr)
qed

lemma enrich_error_result:
  assumes "engine_config_ok cfg"
  shows "\<exists>p. enrich_result repr now (serialize_result we (error_result we n c nm msg)) cfg = Inr p"
proof -
  obtain ws where "collect_warnings repr now (serialize_result we (error_result we n c nm msg)) [] cfg = Inr ws"
    using collect_error_result [OF assms] by (metis error_result_serialized(2))
  then show ?thesis
    by (simp add: enrich_result_def Let_def category_refs_def)
qed

lemma emit_error_result:
  "engine_config_ok cfg \<Longrightarrow> \<exists>w'. emit_result we cfg (error_result we n c nm msg) w = Inr w'"
  using enrich_error_result [of cfg "wk_repr we" "wk_now we" we n c nm msg] by (auto simp: emit_result_def)

lemma category_selection_ok: "selection_ok sel \<Longrightarrow> \<exists>s. category_selection sel key repr = Inr s"
  by (auto simp: category_selection_def selection_ok_def list_all_iff dest!: map_of_SomeD
      split: option.splits json.splits)

lemma run_category_survives:
  assumes "engine_config_ok cfg" and "selection_ok sel"
  shows "fst (run_category we engine cfg sel n t key w) = None"
proof -
  obtain s where s: "category_selection sel key (wk_repr we) = Inr s"
    using category_selection_ok [OF assms(2)] by blast
  have emitted: "\<not> isl (emit_result we cfg (error_result we n c nm msg) w)" for c nm msg w
    using emit_error_result [OF assms(1), of we n c nm msg w] by auto
  show ?thesis
    using s emitted
    by (auto simp: run_category_def Let_def isl_def split: option.split sum.split)
qed

lemma run_categories_survive:
  assumes "engine_config_ok cfg" and "selection_ok sel" and "\<And>k. \<not> cancel k"
  shows "fst (run_categories we engine cfg sel cancel n t keys w) = Completed"
proof (induction keys arbitrary: n w)
  case (Cons key keys)
  from run_category_survives [OF assms(1,2), of we engine n t key w] Cons assms(3) show ?case
    by (cases "run_category we engine cfg sel n t key w") simp
qed simp

lemma submitted_config_ok:
  assumes "valid_run_config c"
  shows "engine_config_ok (dict_set ''resolved_test_selection'' v (dump_run_config c))"
  using assms by (auto simp: engine_config_ok_def dump_run_config_def valid_run_config_def)

text \<open>Every category reports that it is finished, in order.\<close>

definition finished_activity :: "event \<Rightarrow> string option" where
  "finished_activity e =
     (if fst e = ''progress'' then
        (case jget (snd e) ''current_activity'' JNull of
           JStr a \<Rightarrow> if startswith a ''Finished '' then Some (drop 9 a) else None
         | _ \<Rightarrow> None)
      else None)"

definition finished :: "worker \<Rightarrow> string list" where
  "finished w = List.map_filter finished_activity (w_events w)"

lemma finished_emit:
  "finished (emit t d w) = finished w @ (case finished_activity (t, d) of None \<Rightarrow> [] | Some a \<Rightarrow> [a])"
  by (simp add: finished_def emit_def map_filter_def split: option.splits)

lemma finished_log [simp]: "finished (worker_log l m w) = finished w"
  by (simp add: worker_log_def finished_emit finished_activity_def)

lemma finished_payload [simp]: "finished (emit_payload p w) = finished w"
  by (simp add: emit_payload_def finished_emit finished_activity_def) (simp add: finished_def)

lemma finished_progress:
  "finished (progress (''Running '' @ a) n t w) = finished w"
  "finished (progress (''Finished '' @ a) n t w) = finished w @ [a]"
  by (simp_all add: progress_def finished_emit finished_activity_def startswith_def)

lemmas finished_progress_simps [simp] = finished_progress [simplified]

lemma finished_emit_result: "emit_result we cfg r w = Inr w' \<Longrightarrow> finished w' = finished w"
  by (auto simp: emit_result_def)

lemma finished_stream_results: "finished (snd (stream_results we cfg active rs w)) = finished w"
proof (induction we cfg active rs w rule: stream_results.induct)
  case (2 we cfg active r records rs w)
  then show ?case
    using finished_emit_result [of we cfg "attach_diagnostics (wk_now we) records r" w]
    by (auto simp: stream_result_def split: sum.split)
qed simp

lemma finished_run_category:
  assumes "fst (run_category we engine cfg sel n t key w) = None"
  shows "finished (snd (run_category we engine cfg sel n t key w)) = finished w @ [label_of key]"
proof -
  have open_cat: "finished (announce_selection l s (open_category l n t w)) = finished w" for l s
    by (simp add: announce_selection_def open_category_def split: option.split)
  have crash: "emit_result we cfg r (log_crash we l exc w1) = Inr w2 \<Longrightarrow> finished w2 = finished w1" for r l exc w1 w2
    using finished_emit_result [of we cfg r "log_crash we l exc w1" w2] by (simp add: log_crash_def)
  show ?thesis
    using assms
    by (auto simp: run_category_def Let_def finished_stream_results open_cat
        dest: crash split: sum.splits option.splits)
qed

lemma finished_run_categories:
  assumes "fst (run_categories we engine cfg sel cancel n t keys w) = Completed"
  shows "finished (snd (run_categories we engine cfg sel cancel n t keys w)) = finished w @ map label_of keys"
  using assms
proof (induction keys arbitrary: n w)
  case (Cons key keys)
  obtain e w1 where rc: "run_category we engine cfg sel n t key w = (e, w1)"
    by fastforce
  with Cons.prems have "\<not> cancel n" and e: "e = None"
    by (auto split: if_splits option.splits)
  moreover have "finished w1 = finished w @ [label_of key]"
    using finished_run_category [of we engine cfg sel n t key w] rc e by simp
  ultimately show ?case
    using Cons rc by (simp add: e)
qed simp

section \<open>The selection is honoured\<close>

lemma enrich_name:
  "enrich_result repr now result cfg = Inr p \<Longrightarrow> jget p ''name'' v = jget result ''name'' v"
  by (elim enrich_resultE) simp

definition result_names :: "worker \<Rightarrow> json list" where
  "result_names w = List.map_filter
     (\<lambda>(t, d). if t = ''result'' then map_option (\<lambda>p. jget p ''name'' JNull) (json_dict (jget d ''result'' JNull)) else None)
     (w_events w)"

lemma result_names_payload:
  "result_names (emit_payload p w) = result_names w @ [jget p ''name'' JNull]"
  by (simp add: result_names_def emit_payload_def emit_def map_filter_def)

lemma stream_results_names:
  "\<exists>streamed. result_names (snd (stream_results we cfg active rs w)) = result_names w @ map JStr streamed \<and>
     list_all (should_run active) streamed \<and> set streamed \<subseteq> set (map (\<lambda>(r, _). tc_name r) rs)"
proof (induction we cfg active rs w rule: stream_results.induct)
  case (1 we cfg active w)
  show ?case by (intro exI [of _ "[]"]) simp
next
  case (2 we cfg active r records rs w)
  show ?case
  proof (cases "should_run active (tc_name r)")
    case False
    with 2 [of w] show ?thesis by (auto simp: stream_result_def)
  next
    case True
    show ?thesis
    proof (cases "emit_result we cfg (attach_diagnostics (wk_now we) records r) w")
      case (Inl e)
      with True show ?thesis by (intro exI [of _ "[]"]) (simp add: stream_result_def)
    next
      case (Inr w1)
      then obtain p where p: "enrich_result (wk_repr we) (wk_now we)
            (serialize_result we (attach_diagnostics (wk_now we) records r)) cfg = Inr p"
          and w1: "w1 = emit_payload p w"
        by (auto simp: emit_result_def)
      have "tc_name (attach_diagnostics (wk_now we) records r) = tc_name r"
        by (simp add: attach_diagnostics_def Let_def)
      then have "jget p ''name'' JNull = JStr (tc_name r)"
        unfolding enrich_name [OF p] by (simp add: serialize_result_def)
      then have names: "result_names w1 = result_names w @ [JStr (tc_name r)]"
        by (simp add: w1 result_names_payload)
      from Inr True have "stream_result we cfg active records r w = Inr w1"
        by (simp add: stream_result_def)
      with 2 [OF this] obtain streamed where
          "result_names (snd (stream_results we cfg active rs w1)) = result_names w1 @ map JStr streamed"
          "list_all (should_run active) streamed" "set streamed \<subseteq> set (map (\<lambda>(r, _). tc_name r) rs)"
        by auto
      with names True \<open>stream_result we cfg active records r w = Inr w1\<close> show ?thesis
        by (intro exI [of _ "tc_name r # streamed"]) auto
    qed
  qed
qed

section \<open>Latencies\<close>

lemma sort_nth_bounds:
  assumes "xs \<noteq> []" and "i < length xs"
  shows "Min (set xs) \<le> sort xs ! i \<and> sort xs ! i \<le> Max (set (xs :: int list))"
proof -
  from assms have "sort xs ! i \<in> set xs"
    by (metis length_sort nth_mem set_sort)
  then show ?thesis by simp
qed

lemma median_bounds:
  assumes "xs \<noteq> []"
  shows "Min (set xs) \<le> median xs \<and> median xs \<le> Max (set xs)"
proof (cases "odd (length xs)")
  case True
  have "length xs div 2 < length xs"
    using assms by simp
  with True sort_nth_bounds [OF assms] show ?thesis
    by (simp add: median_def Let_def)
next
  case False
  let ?n = "length xs" and ?s = "sort xs"
  have i: "?n div 2 - 1 < ?n" and j: "?n div 2 < ?n"
    using assms False by (auto simp: length_greater_0_conv [symmetric] simp del: length_greater_0_conv)
  have half: "lo \<le> int_half (x + y) \<and> int_half (x + y) \<le> hi"
    if "lo \<le> x" "x \<le> hi" "lo \<le> y" "y \<le> hi" for lo hi x y :: int
    using that by (auto simp: int_half_def)
  have "Min (set xs) \<le> int_half (?s ! (?n div 2 - 1) + ?s ! (?n div 2)) \<and>
      int_half (?s ! (?n div 2 - 1) + ?s ! (?n div 2)) \<le> Max (set xs)"
    using sort_nth_bounds [OF assms i] sort_nth_bounds [OF assms j] by (intro half) auto
  with False show ?thesis by (simp add: median_def Let_def)
qed

end
