(* ===== verification/Pipeline.thy ===== *)
theory Pipeline
  imports Worker_Properties
begin

text \<open>
  The worker and its supervisor together: what a worker writes to its pipe is consumed line by
  line, every result becomes a row and the last word of the worker becomes the status of the run.
\<close>

section \<open>The protocol\<close>

definition text_at :: "(string \<times> json) list \<Rightarrow> string \<Rightarrow> bool" where
  "text_at d k \<longleftrightarrow> (\<exists>s. \<forall>v. jget d k v = JStr s)"

definition null_or_text :: "json \<Rightarrow> bool" where
  "null_or_text v \<longleftrightarrow> v = JNull \<or> (\<exists>s. v = JStr s)"

definition storable :: "(string \<times> json) list \<Rightarrow> bool" where
  "storable p \<longleftrightarrow> text_at p ''category'' \<and> text_at p ''name'' \<and> text_at p ''status'' \<and> text_at p ''message''
     \<and> null_or_text (jget p ''started_at'' JNull) \<and> null_or_text (jget p ''ended_at'' JNull)
     \<and> (jget p ''duration_ms'' JNull = JNull \<or> (\<exists>i. jget p ''duration_ms'' JNull = JInt i))"

text \<open>What the supervisor may expect of one event.\<close>

definition protocol_event :: "event \<Rightarrow> bool" where
  "protocol_event e \<longleftrightarrow> distinct (map fst (snd e)) \<and> ''type'' \<notin> fst ` set (snd e) \<and> ''ts'' \<notin> fst ` set (snd e)
     \<and> (fst e = ''log'' \<or>
        (fst e = ''progress'' \<and> text_at (snd e) ''current_activity'') \<or>
        (fst e = ''result'' \<and> (\<exists>p. snd e = [(''result'', JDict p)] \<and> storable p)) \<or>
        (fst e = ''done'' \<and> text_at (snd e) ''status'' \<and> null_or_text (jget (snd e) ''error'' JNull)) \<or>
        (fst e = ''fatal'' \<and> text_at (snd e) ''error''))"

lemma text_at_cases:
  "text_at ((k', w) # d) k \<longleftrightarrow> (if k = k' then \<exists>s. w = JStr s else text_at d k)"
  by (simp add: text_at_def)

lemma text_at_keep:
  "(\<And>v. jget d' k v = jget d k v) \<Longrightarrow> text_at d k \<Longrightarrow> text_at d' k"
  by (simp add: text_at_def)

lemma storable_serialized: "storable (serialize_result we r)"
  by (simp add: storable_def serialize_result_def text_at_cases null_or_text_def json_opt_def split: option.split)

lemma dict_get_same: "jget d k JNull = v \<Longrightarrow> v \<noteq> JNull \<Longrightarrow> jget d k w = v"
  by (auto simp: jget_def split: option.splits)

lemma storable_enriched:
  assumes "enrich_result repr now (serialize_result we r) cfg = Inr p"
  shows "storable p"
  using assms
proof (rule enrich_resultE)
  fix details warnings details'
  assume other: "\<And>k w. k \<noteq> ''details'' \<Longrightarrow> k \<noteq> ''status'' \<Longrightarrow> jget p k w = jget (serialize_result we r) k w"
    and status: "jget p ''status'' JNull =
       (if warnings \<noteq> [] \<and> jget (serialize_result we r) ''status'' JNull = JStr ''PASS'' then JStr ''WARN''
        else jget (serialize_result we r) ''status'' JNull)"
  have "jget (serialize_result we r) ''status'' JNull = JStr (status_value (tc_status r))"
    by (simp add: serialize_result_def)
  with status have "\<exists>s. jget p ''status'' JNull = JStr s" by auto
  then have "text_at p ''status''"
    unfolding text_at_def using dict_get_same by blast
  with storable_serialized [of we r] show ?thesis
    unfolding storable_def by (auto simp: other intro: text_at_keep)
qed

interpretation protocol: worker_invariant "\<lambda>w. list_all protocol_event (w_events w)"
proof
  fix we cfg r w w'
  assume "emit_result we cfg r w = Inr w'" and "list_all protocol_event (w_events w)"
  then show "list_all protocol_event (w_events w')"
    using storable_enriched by (auto simp: emit_result_def emit_payload_def emit_def protocol_event_def)
qed (simp_all add: worker_log_def progress_def emit_def protocol_event_def text_at_cases)

lemma protocol_done: "protocol_event (''done'', done_event s e l)"
  by (auto simp: protocol_event_def done_event_def text_at_cases null_or_text_def split: option.splits)

lemma protocol_log: "protocol_event (''log'', [(''level'', a), (''message'', b)])"
  by (simp add: protocol_event_def)

lemma worker_main_protocol:
  "list_all protocol_event (worker_main we gai engine load_cert cancel manifest)"
proof (cases manifest)
  case (Inl e)
  then show ?thesis by (simp add: worker_main_def emit_def protocol_event_def text_at_cases)
next
  case (Inr jb)
  let ?start = "\<lparr>w_events = [], w_latencies = []\<rparr>"
  obtain ended w where r: "run_worker we gai engine load_cert cancel jb ?start = (ended, w)"
    by fastforce
  have "protocol.before_done ended w"
    using protocol.before_done_run [of ?start we gai engine load_cert cancel jb] r by simp
  then have "list_all protocol_event (w_events w)"
    by (auto simp: protocol.before_done_def emit_def protocol_done worker_log_def protocol_log)
  with Inr r show ?thesis
    by (cases ended)
      (simp_all add: worker_main_def Let_def emit_def protocol_done protocol_log, simp add: protocol_event_def text_at_cases)
qed

section \<open>One line\<close>

lemma jget_delete [simp]: "jget (AList.delete k d) k' v = (if k = k' then v else jget d k' v)"
  by (simp add: jget_def delete_conv')

lemma delete_fresh: "k \<notin> fst ` set d \<Longrightarrow> AList.delete k d = d"
  by (force simp: AList.delete_eq filter_id_conv)

lemma foldl_update_fresh:
  assumes "distinct (map fst d)" and "fst ` set acc \<inter> fst ` set d = {}"
  shows "foldl (\<lambda>d (k, v). AList.update k v d) acc d = acc @ d"
  using assms
proof (induction d arbitrary: acc)
  case (Cons kv d)
  obtain k v where kv: "kv = (k, v)" by fastforce
  have "AList.update k v acc = acc @ [(k, v)]"
    using Cons.prems(2) kv by (intro update_fresh) auto
  moreover have "foldl (\<lambda>d (k, v). AList.update k v d) (acc @ [(k, v)]) d = (acc @ [(k, v)]) @ d"
    using Cons.prems kv by (intro Cons.IH) auto
  ultimately show ?case using kv by simp
qed simp

text \<open>The supervisor takes the type and the timestamp off and has the event back.\<close>

lemma event_record_wire:
  assumes "protocol_event e"
  shows "jget (event_record ts e) ''type'' v = JStr (fst e)"
    and "AList.delete ''ts'' (AList.delete ''type'' (event_record ts e)) = snd e"
proof -
  have "event_record ts e = [(''type'', JStr (fst e)), (''ts'', JStr ts)] @ snd e"
    unfolding event_record_def using assms by (intro foldl_update_fresh) (auto simp: protocol_event_def)
  with assms show "jget (event_record ts e) ''type'' v = JStr (fst e)"
    and "AList.delete ''ts'' (AList.delete ''type'' (event_record ts e)) = snd e"
    by (auto simp: protocol_event_def delete_fresh)
qed

definition carries :: "job_env \<Rightarrow> string \<Rightarrow> event \<Rightarrow> bool" where
  "carries je line e \<longleftrightarrow> (\<exists>ts. parse_event je line = Some (event_record ts e))"

definition is_result :: "event \<Rightarrow> bool" where
  "is_result e \<longleftrightarrow> fst e = ''result''"

text \<open>The status a final event announces.\<close>

definition announced :: "event \<Rightarrow> string" where
  "announced e =
     (if fst e = ''done'' then (case jget (snd e) ''status'' (JStr ''completed'') of JStr s \<Rightarrow> s | _ \<Rightarrow> [])
      else ''failed'')"

lemma result_row_storable:
  assumes "storable p"
  shows "\<exists>row. result_row je ident rid (AList.update ''id'' (JStr ident) p) = Inr row"
proof -
  have dt: "null_or_text v \<Longrightarrow> \<exists>t. parse_dt je v = Inr t" for v
    by (auto simp: null_or_text_def parse_dt_def)
  from assms obtain t1 t2 where
    "parse_dt je (jget p ''started_at'' JNull) = Inr t1" "parse_dt je (jget p ''ended_at'' JNull) = Inr t2"
    using dt unfolding storable_def by blast
  with assms show ?thesis
    by (auto simp: storable_def text_at_def result_row_def column_text_def column_int_def)
qed

lemma persist_storable:
  assumes "storable p" and "run_exists db rid"
  shows "length (results_of (snd (persist_result je rid p db)) rid) = Suc (length (results_of db rid))"
proof -
  from assms(2) obtain r where r: "find_run db rid = Some r"
    by (auto simp: run_exists_def)
  obtain row where row: "result_row je (result_identifier je db p) rid
      (AList.update ''id'' (JStr (result_identifier je db p)) p) = Inr row"
    using result_row_storable [OF assms(1)] by blast
  with r show ?thesis
    by (simp add: persist_result_def Let_def results_of_def result_row_run [OF row])
qed

lemma consume_worker_line:
  assumes "carries je line e" and "protocol_event e" and "run_exists db rid"
  shows "\<exists>sv' db'. consume_line je rid line (sv, db) = Inr (sv', db') \<and> run_exists db' rid
    \<and> sv_terminal sv' = (if is_final e then Some (announced e) else sv_terminal sv)
    \<and> length (results_of db' rid) = length (results_of db rid) + (if is_result e then 1 else 0)"
proof -
  from assms(1) obtain ts where line: "parse_event je line = Some (event_record ts e)"
    by (auto simp: carries_def)
  note wire = event_record_wire [OF assms(2), of ts]
  from assms(2) consider "fst e = ''log''" | "fst e = ''progress''" "text_at (snd e) ''current_activity''"
    | p where "fst e = ''result''" "snd e = [(''result'', JDict p)]" "storable p"
    | "fst e = ''done''" "text_at (snd e) ''status''" "null_or_text (jget (snd e) ''error'' JNull)"
    | "fst e = ''fatal''" "text_at (snd e) ''error''"
    by (auto simp: protocol_event_def)
  then show ?thesis
  proof cases
    case 3
    obtain p' db1 where p': "persist_result je rid p db = (p', db1)" by fastforce
    then have "length (results_of db1 rid) = Suc (length (results_of db rid))" and "run_exists db1 rid"
      using persist_storable [OF 3(3) assms(3), of je] run_exists_persist [of je rid p db rid] assms(3) by simp_all
    with 3 p' show ?thesis
      by (simp add: consume_line_def line wire handle_event_def is_final_def is_result_def)
  qed (use assms(3) in \<open>auto simp: consume_line_def line wire handle_event_def is_final_def is_result_def
      text_at_def null_or_text_def announced_def results_of_def\<close>)
qed

section \<open>The whole output\<close>

definition verdict :: "event list \<Rightarrow> string option" where
  "verdict es = (if finals es = [] then None else Some (announced (last (finals es))))"

lemma consume_worker:
  assumes "list_all2 (carries je) lines es" and "list_all protocol_event es" and "run_exists db rid"
  shows "\<exists>sv' db'. consume je rid lines (sv, db) = Inr (sv', db') \<and> run_exists db' rid
    \<and> sv_terminal sv' = (if finals es = [] then sv_terminal sv else verdict es)
    \<and> length (results_of db' rid) = length (results_of db rid) + length (filter is_result es)"
  using assms
proof (induction lines es arbitrary: sv db rule: list_all2_induct)
  case (Cons line lines e es)
  from Cons.prems consume_worker_line [OF Cons.hyps(1), of db rid sv] obtain sv1 db1 where 1:
    "consume_line je rid line (sv, db) = Inr (sv1, db1)" "run_exists db1 rid"
    "sv_terminal sv1 = (if is_final e then Some (announced e) else sv_terminal sv)"
    "length (results_of db1 rid) = length (results_of db rid) + (if is_result e then 1 else 0)"
    by auto
  from Cons.prems Cons.IH [OF _ 1(2), of sv1] obtain sv2 db2 where
    "consume je rid lines (sv1, db1) = Inr (sv2, db2)" "run_exists db2 rid"
    "sv_terminal sv2 = (if finals es = [] then sv_terminal sv1 else verdict es)"
    "length (results_of db2 rid) = length (results_of db1 rid) + length (filter is_result es)"
    by auto
  with 1 show ?case
    by (auto simp: finals_def verdict_def)
qed (simp add: finals_def)

lemma finalize_results [simp]:
  "results_of (j_db (snd (finalize je rid s e l js))) k = results_of (j_db js) k"
  by (simp add: finalize_def Let_def results_of_def split: sum.split)

lemma supervise_worker:
  assumes "list_all2 (carries je) lines es" and "list_all protocol_event es" and "finals es = [final]"
    and "run_timeout st (j_db js) rid = Inr t" and "run_exists (j_db js) rid"
  shows "\<exists>r. find_run (j_db (snd (supervise je st rid lines (Exited code) js))) rid = Some r
    \<and> r_status r = (if rid \<in> j_cancel_requested js \<and> announced final = ''completed'' then ''cancelled''
        else announced final)
    \<and> length (results_of (j_db (snd (supervise je st rid lines (Exited code) js))) rid)
        = length (results_of (j_db js) rid) + length (filter is_result es)"
proof -
  from consume_worker [OF assms(1,2,5), of no_outcome] obtain sv db where
    c: "consume je rid lines (no_outcome, j_db js) = Inr (sv, db)" "run_exists db rid"
      "sv_terminal sv = Some (announced final)"
      "length (results_of db rid) = length (results_of (j_db js) rid) + length (filter is_result es)"
    using assms(3) by (auto simp: verdict_def)
  let ?status = "if rid \<in> j_cancel_requested js \<and> announced final = ''completed'' then ''cancelled'' else announced final"
  let ?js = "js\<lparr>j_db := db, j_processes := j_processes js - {rid},
    j_cancel_requested := j_cancel_requested js - {rid}\<rparr>"
  have s: "snd (supervise je st rid lines (Exited code) js) =
      snd (finalize je rid ?status (sv_error sv) (sv_latency sv) ?js)"
    using c(1,3) assms(4) by (simp add: supervise_def supervise_outcome_def resolve_outcome_def)
  from finalize_sets [of ?js rid je ?status "sv_error sv" "sv_latency sv"] c(2,4) show ?thesis
    unfolding s by auto
qed

end
