(* ===== verification/Stream_Api.thy ===== *)
theory Stream_Api
  imports Job_Steps Authz "HOL-Library.Char_ord"
begin

text \<open>
  Live streaming of a run (\<open>backend/app/api/stream.py\<close>). The generator reads the event log
  through one database session per poll; the list of databases it is given is what those
  sessions see, in order, while writers go on. A stream ends when the list does.
\<close>

definition fetch_events :: "db \<Rightarrow> string \<Rightarrow> nat \<Rightarrow> nat \<Rightarrow> run_event list" where
  "fetch_events db rid after limit =
     take limit (sort_key e_seq (filter (\<lambda>e. e_run_id e = rid \<and> after < e_seq e) (run_events db)))"

definition PAGE :: nat where
  "PAGE = 500"

definition run_status :: "db \<Rightarrow> string \<Rightarrow> string option" where
  "run_status db rid = map_option r_status (find_run db rid)"

record wire_event =
  we_seq :: nat
  we_type :: string
  we_run_id :: string
  we_data :: "(string \<times> json) list"

definition wire_of :: "string \<Rightarrow> run_event \<Rightarrow> wire_event" where
  "wire_of rid e = \<lparr>we_seq = e_seq e, we_type = e_type e, we_run_id = rid, we_data = e_payload e\<rparr>"

text \<open>\<open>_event_stream\<close>: what it yields, and whether it returned.\<close>

fun event_stream :: "string \<Rightarrow> nat \<Rightarrow> db list \<Rightarrow> wire_event list \<times> bool" where
  "event_stream rid last_seq [] = ([], False)"
| "event_stream rid last_seq (db # dbs) =
     (let events = fetch_events db rid last_seq PAGE
      in if events \<noteq> []
         then map_prod ((@) (map (wire_of rid) events)) id (event_stream rid (e_seq (last events)) dbs)
         else (case dbs of
                 [] \<Rightarrow> ([], False)
               | db2 # dbs2 \<Rightarrow>
                   (case run_status db2 rid of
                      None \<Rightarrow> ([], True)
                    | Some status \<Rightarrow>
                        if status \<in> set TERMINAL_STATUSES
                        then (case dbs2 of
                                [] \<Rightarrow> ([], False)
                              | db3 # _ \<Rightarrow> (map (wire_of rid) (fetch_events db3 rid last_seq PAGE), True))
                        else event_stream rid last_seq dbs2)))"

section \<open>The endpoints\<close>

text \<open>\<open>RunID\<close>: five groups of hexadecimal digits.\<close>

definition is_hex :: "char \<Rightarrow> bool" where
  "is_hex c = (let n = (of_char c :: nat) in
     (48 \<le> n \<and> n \<le> 57) \<or> (65 \<le> n \<and> n \<le> 70) \<or> (97 \<le> n \<and> n \<le> 102))"

definition is_run_id :: "string \<Rightarrow> bool" where
  "is_run_id s \<longleftrightarrow>
     map length (split_on (CHR ''-'') s) = [8, 4, 4, 4, 12] \<and> list_all (list_all is_hex) (split_on (CHR ''-'') s)"

datatype ws_outcome = WsClosed nat string | WsAccepted

definition stream_ws ::
  "env \<Rightarrow> settings \<Rightarrow> request \<Rightarrow> string \<Rightarrow> db \<Rightarrow> ws_outcome result \<times> db" where
  "stream_ws env st rq rid db =
     (case principal_from_websocket env st rq db of
        (Inl e, db) \<Rightarrow> (Inl e, db)
      | (Inr None, db) \<Rightarrow> (Inr (WsClosed 1008 ''Authentication required''), db)
      | (Inr (Some p), db) \<Rightarrow>
          (case find_run db rid of
             None \<Rightarrow> (Inr (WsClosed 4404 ''Test run not found''), db)
           | Some r \<Rightarrow>
               (bind_result (authorize_run_view db p r) (\<lambda>allowed.
                  Inr (if allowed then WsAccepted else WsClosed 4404 ''Test run not found'')), db)))"

text \<open>The server-sent events variant: the sequence number its generator starts from.\<close>

definition resume_from :: "nat \<Rightarrow> string option \<Rightarrow> nat" where
  "resume_from after_seq last_event_id =
     (if truthy last_event_id \<and> isdigit (the last_event_id)
      then (case parse_digits 0 (the last_event_id) of None \<Rightarrow> after_seq | Some n \<Rightarrow> max after_seq n)
      else after_seq)"

definition stream_sse :: "db \<Rightarrow> principal \<Rightarrow> string \<Rightarrow> nat \<Rightarrow> string option \<Rightarrow> nat result" where
  "stream_sse db p rid after_seq last_event_id =
     (case find_run db rid of
        None \<Rightarrow> Inl (HTTPException 404 ''Test run not found'')
      | Some r \<Rightarrow>
          bind_result (authorize_run_view db p r) (\<lambda>allowed.
            if allowed then Inr (resume_from after_seq last_event_id)
            else Inl (HTTPException 404 ''Test run not found'')))"

section \<open>What a stream delivers\<close>

lemma fetch_events_log:
  assumes "log_wf db"
  shows "fetch_events db rid a n = take n (drop a (events_of db rid))"
proof -
  have "filter (\<lambda>e. e_run_id e = rid \<and> a < e_seq e) (run_events db) = filter (\<lambda>e. a < e_seq e) (events_of db rid)"
    by (simp add: events_of_def conj_commute)
  also have "\<dots> = drop a (events_of db rid)"
    by (rule job_log.newer_than [OF assms])
  finally have new: "filter (\<lambda>e. e_run_id e = rid \<and> a < e_seq e) (run_events db) = drop a (events_of db rid)" .
  have "sorted (map e_seq (drop a (events_of db rid)))"
    by (simp only: job_log.seqs_newer [OF assms] sorted_upt)
  then show ?thesis by (simp only: fetch_events_def new sort_key_id_if_sorted)
qed

lemma fetch_events_seqs:
  "log_wf db \<Longrightarrow> map e_seq (fetch_events db rid a n) = [Suc a..<Suc a + length (fetch_events db rid a n)]"
  by (simp only: fetch_events_log job_log.seqs_page)

lemma fetch_events_last:
  "log_wf db \<Longrightarrow> fetch_events db rid a n \<noteq> [] \<Longrightarrow>
     e_seq (last (fetch_events db rid a n)) = a + length (fetch_events db rid a n)"
  by (simp only: fetch_events_log job_log.last_of_page not_False_eq_True)

lemma map_we_seq [simp]: "map we_seq (map (wire_of rid) es) = map e_seq es"
  by (simp add: wire_of_def comp_def)

lemma map_we_seq_comp [simp]: "map (we_seq \<circ> wire_of rid) es = map e_seq es"
  using map_we_seq [of rid es] by (simp del: map_we_seq)

text \<open>Every event once, in order, without a gap, whatever the writers do in between.\<close>

lemma event_stream_seqs:
  assumes "list_all log_wf dbs"
  shows "map we_seq (fst (event_stream rid a dbs)) = [Suc a..<Suc a + length (fst (event_stream rid a dbs))]"
  using assms
proof (induction rid a dbs rule: event_stream.induct)
  case (2 rid a db dbs)
  let ?es = "fetch_events db rid a PAGE"
  from "2.prems" have wf: "log_wf db" by simp
  show ?case
  proof (cases "?es = []")
    case True
    show ?thesis
    proof (cases dbs)
      case (Cons db2 dbs2)
      show ?thesis
      proof (cases "run_status db2 rid")
        case (Some status)
        show ?thesis
        proof (cases "status \<in> set TERMINAL_STATUSES")
          case final: True
          show ?thesis
          proof (cases dbs2)
            case (Cons db3 dbs3)
            with \<open>dbs = db2 # dbs2\<close> "2.prems" have "log_wf db3" by simp
            with True Some final Cons \<open>dbs = db2 # dbs2\<close> show ?thesis
              by (simp del: map_map upt_Suc add: fetch_events_seqs)
          qed (use True Some final \<open>dbs = db2 # dbs2\<close> in simp)
        next
          case False
          have "list_all log_wf dbs2" using "2.prems" Cons by simp
          with "2.IH"(2) [OF refl, of db2 dbs2 status] True Some Cons False show ?thesis
            by (simp del: upt_Suc)
        qed
      qed (use True Cons in simp)
    qed (use True in simp)
  next
    case False
    let ?n = "length ?es"
    have last: "e_seq (last ?es) = a + ?n"
      using wf False by (rule fetch_events_last)
    let ?out = "fst (event_stream rid (a + ?n) dbs)"
    have "map we_seq ?out = [Suc (a + ?n)..<Suc (a + ?n) + length ?out]"
      using "2.IH"(1) [OF refl False] "2.prems" last by (simp del: upt_Suc)
    moreover have "fst (event_stream rid a (db # dbs)) = map (wire_of rid) ?es @ ?out"
      using False last by (simp add: Let_def)
    ultimately have "map we_seq (fst (event_stream rid a (db # dbs))) =
        [Suc a..<Suc a + ?n] @ [Suc (a + ?n)..<Suc (a + ?n) + length ?out]"
      using fetch_events_seqs [OF wf, of rid a PAGE] by (simp del: upt_Suc)
    also have "\<dots> = [Suc a..<Suc a + (?n + length ?out)]"
      using upt_add_eq_append [of "Suc a" "Suc a + ?n" "length ?out"] by (simp del: upt_Suc add: add.assoc)
    finally show ?thesis
      using \<open>fst (event_stream rid a (db # dbs)) = map (wire_of rid) ?es @ ?out\<close> by (simp del: upt_Suc)
  qed
qed simp

text \<open>The events a stream yields are events of the log: nothing is made up.\<close>

lemma fetch_events_set:
  "e \<in> set (fetch_events db rid a n) \<Longrightarrow> e \<in> set (run_events db) \<and> e_run_id e = rid \<and> a < e_seq e"
  unfolding fetch_events_def by (drule in_set_takeD) simp

definition logged :: "string \<Rightarrow> nat \<Rightarrow> db \<Rightarrow> wire_event \<Rightarrow> bool" where
  "logged rid a db w \<longleftrightarrow> (\<exists>e\<in>set (run_events db). e_run_id e = rid \<and> a < e_seq e \<and> w = wire_of rid e)"

lemma logged_fetch: "e \<in> set (fetch_events db rid a n) \<Longrightarrow> logged rid a db (wire_of rid e)"
  by (auto simp: logged_def dest: fetch_events_set)

lemma logged_later: "logged rid b db w \<Longrightarrow> a \<le> b \<Longrightarrow> logged rid a db w"
  by (auto simp: logged_def intro: le_less_trans)

lemma event_stream_sound:
  assumes "w \<in> set (fst (event_stream rid a dbs))"
  shows "\<exists>db\<in>set dbs. logged rid a db w"
  using assms
proof (induction rid a dbs rule: event_stream.induct)
  case (2 rid a db dbs)
  let ?es = "fetch_events db rid a PAGE"
  show ?case
  proof (cases "?es = []")
    case True
    with "2.prems" obtain db2 dbs2 status where
        1: "dbs = db2 # dbs2" "run_status db2 rid = Some status"
      by (auto split: list.splits option.splits)
    show ?thesis
    proof (cases "status \<in> set TERMINAL_STATUSES")
      case final: True
      with True 1 "2.prems" obtain db3 dbs3 where "dbs2 = db3 # dbs3" "w \<in> wire_of rid ` set (fetch_events db3 rid a PAGE)"
        by (auto split: list.splits)
      with 1 show ?thesis by (auto dest: logged_fetch)
    next
      case False
      with True 1 "2.prems" have "w \<in> set (fst (event_stream rid a dbs2))"
        by simp
      with "2.IH"(2) [OF refl _ 1 False] True 1 show ?thesis by auto
    qed
  next
    case False
    then have "a \<le> e_seq (last ?es)"
      using fetch_events_set [of "last ?es" db rid a PAGE] by simp
    moreover from "2.prems" False consider e where "e \<in> set ?es" "w = wire_of rid e"
      | "w \<in> set (fst (event_stream rid (e_seq (last ?es)) dbs))"
      by (auto simp: Let_def)
    ultimately show ?thesis
      using "2.IH"(1) [OF refl False] by cases (auto intro: logged_fetch logged_later)
  qed
qed simp

lemma resume_from_ge: "a \<le> resume_from a l"
  by (auto simp: resume_from_def split: option.splits)

lemma resume_from_last_id: "resume_from 0 (Some (show_nat n)) = n"
  using show_nat_plain [of n]
  by (simp add: resume_from_def isdigit_def parse_digits_show_nat plain_digit_def [abs_def])

end
