(* ===== verification/Storage.thy ===== *)
theory Storage
  imports Ssrf Json
begin

text \<open>
  Run workspaces on disk (\<open>backend/app/storage.py\<close>): one directory per run with the uploaded
  files by slot, the job manifest and a modification time. The cancel flag is kept in the state
  of the job manager (\<open>Jobs\<close>).
\<close>

definition UPLOAD_SLOTS :: "(string, string) dict" where
  "UPLOAD_SLOTS = [
     (''issuer_cert'', ''issuer.pem''),
     (''good_cert'', ''good.pem''),
     (''revoked_cert'', ''revoked.pem''),
     (''unknown_ca_cert'', ''unknown_ca.pem''),
     (''trust_anchor'', ''trust_anchor.pem''),
     (''client_cert'', ''client_cert.pem''),
     (''client_key'', ''client_key.pem'')]"

record manifest =
  mf_run_id :: string
  mf_config :: "(string \<times> json) list"
  mf_files :: "(string, string) dict"
  mf_policy :: network_policy

text \<open>An upload keeps whether its file was restricted to the owner (mode 0600).\<close>

record run_dir =
  rd_uploads :: "(string, string \<times> bool) dict"
  rd_manifest :: "manifest option"
  rd_mtime :: int

type_synonym storage = "(string, run_dir) dict"

definition create_dir :: "int \<Rightarrow> string \<Rightarrow> storage \<Rightarrow> storage" where
  "create_dir now rid fs =
     (case dict_get fs rid of
        Some _ \<Rightarrow> fs
      | None \<Rightarrow> dict_set rid \<lparr>rd_uploads = [], rd_manifest = None, rd_mtime = now\<rparr> fs)"

definition upload_path :: "string \<Rightarrow> string \<Rightarrow> string \<Rightarrow> string" where
  "upload_path runs_dir rid slot =
     runs_dir @ ''/'' @ rid @ ''/uploads/'' @ dict_get_or UPLOAD_SLOTS slot []"

definition save_upload :: "string \<Rightarrow> string \<Rightarrow> string \<Rightarrow> bool \<Rightarrow> storage \<Rightarrow> storage" where
  "save_upload rid slot data sensitive fs =
     (case dict_get fs rid of
        None \<Rightarrow> fs
      | Some d \<Rightarrow> dict_set rid (rd_uploads_update (dict_set slot (data, sensitive)) d) fs)"

definition write_job_manifest :: "int \<Rightarrow> string \<Rightarrow> manifest \<Rightarrow> storage \<Rightarrow> storage" where
  "write_job_manifest now rid m fs =
     (case dict_get fs rid of
        None \<Rightarrow> fs
      | Some d \<Rightarrow> dict_set rid (d\<lparr>rd_manifest := Some m, rd_mtime := now\<rparr>) fs)"

definition delete_dir :: "string \<Rightarrow> storage \<Rightarrow> storage" where
  "delete_dir rid fs = dict_pop rid fs"

definition stored_upload :: "storage \<Rightarrow> string \<Rightarrow> string \<Rightarrow> (string \<times> bool) option" where
  "stored_upload fs rid slot =
     (case dict_get fs rid of None \<Rightarrow> None | Some d \<Rightarrow> dict_get (rd_uploads d) slot)"

definition days :: "int \<Rightarrow> int" where
  "days n = n * 86400 * 1000000"

definition sweep_expired_workspaces :: "settings \<Rightarrow> int \<Rightarrow> storage \<Rightarrow> nat \<times> storage" where
  "sweep_expired_workspaces st now fs =
     (if st_retention_days st \<le> 0 then (0, fs)
      else
        (let cutoff = now - days (st_retention_days st);
             expired = (\<lambda>(_, d). rd_mtime d < cutoff)
         in (length (filter expired fs), filter (\<lambda>e. \<not> expired e) fs)))"

section \<open>Properties\<close>

lemma stored_upload_save:
  "dict_get fs rid \<noteq> None \<Longrightarrow>
     stored_upload (save_upload rid slot data s fs) rid' slot' =
       (if rid' = rid \<and> slot' = slot then Some (data, s) else stored_upload fs rid' slot')"
  by (auto simp: stored_upload_def save_upload_def update_conv' split: option.splits)

lemma save_upload_exists [simp]:
  "dict_get (save_upload rid slot data s fs) rid' = None \<longleftrightarrow> dict_get fs rid' = None"
  by (auto simp: save_upload_def update_conv' split: option.splits)

lemma create_dir_exists [simp]: "dict_get (create_dir now rid fs) rid \<noteq> None"
  by (auto simp: create_dir_def update_conv' split: option.splits)

lemma save_upload_other: "rid' \<noteq> rid \<Longrightarrow> dict_get (save_upload rid slot data s fs) rid' = dict_get fs rid'"
  by (simp add: save_upload_def update_conv' split: option.splits)

lemma delete_fresh_dir:
  "dict_get fs rid = None \<Longrightarrow> delete_dir rid fs = fs"
  by (simp add: delete_dir_def delete_id map_of_eq_None_iff)

lemma delete_update_fresh:
  "k \<notin> fst ` set fs \<Longrightarrow> AList.delete k (AList.update k v fs) = fs"
  by (induction fs) auto

lemma sweep_keeps_recent:
  assumes "sweep_expired_workspaces st now fs = (n, fs')" and "0 < st_retention_days st"
  shows "(e \<in> set fs' \<longleftrightarrow> e \<in> set fs \<and> now - days (st_retention_days st) \<le> rd_mtime (snd e)) \<and>
    length fs = n + length fs'"
  using assms sum_length_filter_compl [of "\<lambda>(_, d). rd_mtime d < now - days (st_retention_days st)" fs]
  by (auto simp: sweep_expired_workspaces_def Let_def split_beta)

end
