(* ===== verification/Profiles.thy ===== *)
theory Profiles
  imports Schemas Workspaces
begin

text \<open>
  Saved run profiles (\<open>backend/app/api/profiles.py\<close>), and what the endpoints of a workspace
  have in common: they run after \<open>active_workspace\<close> resolved the caller's workspace, and they
  look a row up by its identifier within that workspace.
\<close>

section \<open>Endpoints of a workspace\<close>

definition with_context ::
  "env \<Rightarrow> role \<Rightarrow> int option \<Rightarrow> principal \<Rightarrow> (workspace_context \<Rightarrow> db \<Rightarrow> 'a result \<times> db) \<Rightarrow> db \<Rightarrow>
   'a result \<times> db" where
  "with_context env min_role wid p handler db =
     (case active_workspace env min_role wid p db of
        (Inl e, db) \<Rightarrow> (Inl e, db)
      | (Inr ctx, db) \<Rightarrow> handler ctx db)"

definition ctx_id :: "workspace_context \<Rightarrow> int" where
  "ctx_id ctx = ws_id (c_workspace ctx)"

text \<open>\<open>ctx.principal.user.id or None\<close>\<close>

definition creator_id :: "principal \<Rightarrow> int option" where
  "creator_id p = (if u_id (p_user p) = 0 then None else Some (u_id (p_user p)))"

definition get_scoped :: "('r \<Rightarrow> int) \<Rightarrow> ('r \<Rightarrow> int option) \<Rightarrow> int \<Rightarrow> int \<Rightarrow> 'r list \<Rightarrow> 'r option" where
  "get_scoped ident owner i w rows =
     (case get_row ident i rows of
        None \<Rightarrow> None
      | Some r \<Rightarrow> if owner r = Some w then Some r else None)"

lemma get_scoped_Some:
  "get_scoped ident owner i w rows = Some r \<Longrightarrow> r \<in> set rows \<and> ident r = i \<and> owner r = Some w"
  by (auto simp: get_scoped_def dest: get_row_Some split: option.splits if_splits)

text \<open>
  The contract of an endpoint's row lookup: what it returns lives in the workspace asked for, so
  a caller authorised for one workspace cannot reach a row of another by its number.
\<close>

locale scoped_lookup =
  fixes lookup :: "db \<Rightarrow> int \<Rightarrow> int \<Rightarrow> 'r result"
    and rows :: "db \<Rightarrow> 'r list"
    and owner :: "'r \<Rightarrow> int option"
  assumes lookup_stored: "lookup db i w = Inr r \<Longrightarrow> r \<in> set (rows db)"
    and lookup_owner: "lookup db i w = Inr r \<Longrightarrow> owner r = Some w"
begin

lemma no_foreign_row: "owner r = Some w' \<Longrightarrow> w' \<noteq> w \<Longrightarrow> lookup db i w \<noteq> Inr r"
  by (auto dest: lookup_owner)

lemma lookup_in_two_workspaces: "lookup db i w = Inr r \<Longrightarrow> lookup db j w' = Inr r \<Longrightarrow> w = w'"
  by (auto dest!: lookup_owner)

end

section \<open>Handlers\<close>

record profile_in =
  pi_name :: string
  pi_description :: "string option"
  pi_config :: run_config

definition valid_profile_in :: "profile_in \<Rightarrow> bool" where
  "valid_profile_in p \<longleftrightarrow>
     1 \<le> length (pi_name p) \<and> length (pi_name p) \<le> 120 \<and>
     opt_ok (\<lambda>d. length d \<le> 2000) (pi_description p) \<and> valid_run_config (pi_config p)"

definition profile_config :: "run_config \<Rightarrow> (string \<times> json) list" where
  "profile_config c = filter (\<lambda>(k, _). k \<noteq> ''profile_id'') (dump_run_config c)"

definition get_profile_or_404 :: "db \<Rightarrow> int \<Rightarrow> int \<Rightarrow> profile result" where
  "get_profile_or_404 db pid wid =
     (case get_scoped pf_id pf_workspace_id pid wid (profiles db) of
        None \<Rightarrow> Inl (HTTPException 404 ''Profile not found'')
      | Some p \<Rightarrow> Inr p)"

interpretation profile_rows: scoped_lookup get_profile_or_404 profiles pf_workspace_id
  by unfold_locales (auto simp: get_profile_or_404_def dest: get_scoped_Some split: option.splits)

definition profiles_named :: "db \<Rightarrow> int \<Rightarrow> string \<Rightarrow> profile list" where
  "profiles_named db wid nm =
     filter (\<lambda>p. pf_workspace_id p = Some wid \<and> pf_name p = nm) (profiles db)"

definition check_name_free :: "db \<Rightarrow> int \<Rightarrow> string \<Rightarrow> int option \<Rightarrow> unit result" where
  "check_name_free db wid nm exclude_id =
     bind_result (one_or_none (profiles_named db wid nm)) (\<lambda>existing.
       case existing of
         None \<Rightarrow> Inr ()
       | Some p \<Rightarrow>
           if Some (pf_id p) \<noteq> exclude_id
           then Inl (HTTPException 409 (''A profile named '' @ [CHR 0x27] @ nm @ [CHR 0x27] @ '' already exists''))
           else Inr ())"

definition new_profile ::
  "env \<Rightarrow> int \<Rightarrow> principal \<Rightarrow> string \<Rightarrow> string option \<Rightarrow> (string \<times> json) list \<Rightarrow> db \<Rightarrow> profile" where
  "new_profile env wid p nm descr config db =
     \<lparr>pf_id = e_new_id env (map pf_id (profiles db)), pf_workspace_id = Some wid,
      pf_created_by_user_id = creator_id p, pf_name = nm, pf_description = descr, pf_config = config,
      pf_created_at = e_now env, pf_updated_at = e_now env\<rparr>"

definition add_profile :: "profile \<Rightarrow> db \<Rightarrow> db" where
  "add_profile pf db = db\<lparr>profiles := insert_row pf (profiles db)\<rparr>"

definition list_profiles :: "workspace_context \<Rightarrow> db \<Rightarrow> profile list" where
  "list_profiles ctx db =
     sort_key pf_name (filter (\<lambda>p. pf_workspace_id p = Some (ctx_id ctx)) (profiles db))"

definition create_profile :: "env \<Rightarrow> profile_in \<Rightarrow> workspace_context \<Rightarrow> db \<Rightarrow> profile result \<times> db" where
  "create_profile env payload ctx db =
     (case check_name_free db (ctx_id ctx) (pi_name payload) None of
        Inl e \<Rightarrow> (Inl e, db)
      | Inr _ \<Rightarrow>
          (let pf = new_profile env (ctx_id ctx) (c_principal ctx) (pi_name payload)
                 (pi_description payload) (profile_config (pi_config payload)) db
           in (Inr pf, add_profile pf db)))"

definition update_profile ::
  "env \<Rightarrow> int \<Rightarrow> profile_in \<Rightarrow> workspace_context \<Rightarrow> db \<Rightarrow> profile result \<times> db" where
  "update_profile env pid payload ctx db =
     (case get_profile_or_404 db pid (ctx_id ctx) of
        Inl e \<Rightarrow> (Inl e, db)
      | Inr pf \<Rightarrow>
          (case check_name_free db (ctx_id ctx) (pi_name payload) (Some pid) of
             Inl e \<Rightarrow> (Inl e, db)
           | Inr _ \<Rightarrow>
               (let change = (\<lambda>p. p\<lparr>pf_name := pi_name payload, pf_description := pi_description payload,
                       pf_config := profile_config (pi_config payload), pf_updated_at := e_now env\<rparr>)
                in (Inr (change pf), db\<lparr>profiles := modify_row pf_id pid change (profiles db)\<rparr>))))"

definition share_profile ::
  "env \<Rightarrow> int \<Rightarrow> int \<Rightarrow> workspace_context \<Rightarrow> db \<Rightarrow> profile result \<times> db" where
  "share_profile env pid target_workspace_id ctx db =
     (case get_profile_or_404 db pid (ctx_id ctx) of
        Inl e \<Rightarrow> (Inl e, db)
      | Inr pf \<Rightarrow>
          if target_workspace_id = ctx_id ctx
          then (Inl (HTTPException 400 ''Profile is already in this workspace''), db)
          else (case authorize_workspace_role db (c_principal ctx) target_workspace_id Member of
             Inl e \<Rightarrow> (Inl e, db)
           | Inr target \<Rightarrow>
               (case check_name_free db (ctx_id target) (pf_name pf) None of
                  Inl e \<Rightarrow> (Inl e, db)
                | Inr _ \<Rightarrow>
                    (let new_pf = new_profile env (ctx_id target) (c_principal ctx) (pf_name pf)
                           (pf_description pf) (pf_config pf) db
                     in (Inr new_pf, add_profile new_pf db)))))"

definition delete_profile :: "int \<Rightarrow> workspace_context \<Rightarrow> db \<Rightarrow> unit result \<times> db" where
  "delete_profile pid ctx db =
     (case get_profile_or_404 db pid (ctx_id ctx) of
        Inl e \<Rightarrow> (Inl e, db)
      | Inr pf \<Rightarrow> (Inr (), db\<lparr>profiles := remove_row pf_id pid (profiles db)\<rparr>))"

section \<open>Names stay unique within a workspace\<close>

definition profile_key :: "profile \<Rightarrow> (int \<times> string) option" where
  "profile_key p = map_option (\<lambda>w. (w, pf_name p)) (pf_workspace_id p)"

definition profiles_wf :: "profile list \<Rightarrow> bool" where
  "profiles_wf ps \<longleftrightarrow> distinct (map pf_id ps) \<and> distinct (profile_keys ps)"

lemma profile_keys_append [simp]: "profile_keys (ps @ qs) = profile_keys ps @ profile_keys qs"
  by (simp add: profile_keys_def)

lemma set_profile_keys: "(w, n) \<in> set (profile_keys ps) \<longleftrightarrow> (\<exists>p\<in>set ps. pf_workspace_id p = Some w \<and> pf_name p = n)"
  by (auto simp: profile_keys_def split: option.splits) metis

lemma check_name_free_None:
  "check_name_free db w nm None = Inr () \<longleftrightarrow> profiles_named db w nm = []"
  by (auto simp: check_name_free_def one_or_none_def split: list.splits)

lemma profiles_named_keys: "profiles_named db w nm = [] \<longleftrightarrow> (w, nm) \<notin> set (profile_keys (profiles db))"
  by (auto simp: profiles_named_def filter_empty_conv set_profile_keys)

lemma add_profile_wf:
  assumes "profiles_wf (profiles db)" and "fresh_ids env" and "check_name_free db w nm None = Inr ()"
  shows "profiles_wf (profiles (add_profile (new_profile env w p nm descr config db) db))"
  using assms fresh_idsD [OF assms(2), of "map pf_id (profiles db)"]
  by (auto simp: profiles_wf_def add_profile_def insert_row_def new_profile_def check_name_free_None
      profiles_named_keys profile_keys_def)

lemma create_profile_wf:
  assumes "profiles_wf (profiles db)" and "fresh_ids env"
  shows "profiles_wf (profiles (snd (create_profile env payload ctx db)))"
  using assms add_profile_wf [OF assms]
  by (auto simp: create_profile_def Let_def split: sum.splits)

lemma share_profile_wf:
  assumes "profiles_wf (profiles db)" and "fresh_ids env"
  shows "profiles_wf (profiles (snd (share_profile env pid t ctx db)))"
  using assms add_profile_wf [OF assms]
  by (auto simp: share_profile_def Let_def split: sum.splits)

lemma profile_keys_filter:
  "distinct (profile_keys ps) \<Longrightarrow> distinct (profile_keys (filter q ps))"
proof (induction ps)
  case (Cons p ps)
  have "set (profile_keys (filter q ps)) \<subseteq> set (profile_keys ps)"
    by (auto simp: profile_keys_def split: option.splits)
  with Cons show ?case
    by (cases "pf_workspace_id p") (auto simp: profile_keys_def)
qed simp

lemma delete_profile_wf:
  "profiles_wf (profiles db) \<Longrightarrow> profiles_wf (profiles (snd (delete_profile pid ctx db)))"
  by (auto simp: delete_profile_def profiles_wf_def remove_row_def delete_rows_def distinct_map_filter
      profile_keys_filter split: sum.splits)

lemma profile_keys_modify:
  assumes "distinct (profile_keys ps)" and "distinct (map pf_id ps)"
    and "\<And>r. pf_id (f r) = pf_id r" and "\<And>r. r \<in> set ps \<Longrightarrow> pf_id r = i \<Longrightarrow> profile_key (f r) = Some key"
    and "\<And>r. r \<in> set ps \<Longrightarrow> pf_id r \<noteq> i \<Longrightarrow> profile_key r \<noteq> Some key"
  shows "distinct (profile_keys (modify_row pf_id i f ps)) \<and>
    set (profile_keys (modify_row pf_id i f ps)) \<subseteq> insert key (set (profile_keys ps))"
  using assms
proof (induction ps)
  case (Cons p ps)
  have keys: "profile_keys (q # qs) = (case profile_key q of None \<Rightarrow> [] | Some k \<Rightarrow> [k]) @ profile_keys qs" for q qs
    by (simp add: profile_keys_def profile_key_def split: option.splits)
  have mod: "modify_row pf_id i f (p # ps) = (if pf_id p = i then f p else p) # modify_row pf_id i f ps"
    by (simp add: modify_row_def update_rows_def)
  show ?case
  proof (cases "pf_id p = i")
    case True
    with Cons.prems(2) have "modify_row pf_id i f ps = ps"
      by (induction ps) (auto simp: modify_row_def update_rows_def)
    moreover have "key \<notin> set (profile_keys ps)"
    proof
      obtain w n where key: "key = (w, n)" by fastforce
      assume "key \<in> set (profile_keys ps)"
      then obtain r where "r \<in> set ps" "profile_key r = Some key"
        unfolding key by (auto simp: set_profile_keys profile_key_def)
      moreover from this(1) Cons.prems(2) True have "pf_id r \<noteq> i"
        by (metis distinct.simps(2) image_eqI list.map(2) list.set_map)
      ultimately show False using Cons.prems(5) [of r] by simp
    qed
    ultimately show ?thesis
      using Cons.prems True by (auto simp: mod keys split: option.splits)
  next
    case False
    then show ?thesis
      using Cons by (auto simp: mod keys split: option.splits)
  qed
qed (simp add: profile_keys_def modify_row_def update_rows_def)

lemma check_name_free_Some:
  assumes "check_name_free db w nm (Some i) = Inr ()" and "r \<in> set (profiles db)" and "pf_id r \<noteq> i"
  shows "profile_key r \<noteq> Some (w, nm)"
proof
  assume "profile_key r = Some (w, nm)"
  with assms(2) have "r \<in> set (profiles_named db w nm)"
    by (auto simp: profiles_named_def profile_key_def)
  with assms(1,3) show False
    by (auto simp: check_name_free_def one_or_none_def split: list.splits if_splits)
qed

text \<open>What the handlers touch: rows of the caller's workspace, or one new row of a workspace in
  which the caller holds at least the member role.\<close>

definition foreign_profiles :: "int \<Rightarrow> db \<Rightarrow> profile list" where
  "foreign_profiles w db = filter (\<lambda>p. pf_workspace_id p \<noteq> Some w) (profiles db)"

lemma create_profile_foreign:
  "foreign_profiles (ctx_id ctx) (snd (create_profile env payload ctx db)) = foreign_profiles (ctx_id ctx) db"
  by (auto simp: create_profile_def foreign_profiles_def add_profile_def new_profile_def Let_def split: sum.splits)

lemma filter_modify_row:
  "(\<And>r. r \<in> set rows \<Longrightarrow> ident r = i \<Longrightarrow> \<not> q r \<and> \<not> q (f r)) \<Longrightarrow>
     filter q (modify_row ident i f rows) = filter q rows"
  by (induction rows) (auto simp: modify_row_def update_rows_def)

lemma filter_remove_row:
  "(\<And>r. r \<in> set rows \<Longrightarrow> ident r = i \<Longrightarrow> \<not> q r) \<Longrightarrow> filter q (remove_row ident i rows) = filter q rows"
  by (induction rows) (auto simp: remove_row_def delete_rows_def)

lemma get_profile_unique:
  assumes "profiles_wf (profiles db)" and "get_profile_or_404 db pid w = Inr pf"
    and "r \<in> set (profiles db)" and "pf_id r = pid"
  shows "pf_workspace_id r = Some w"
proof -
  have "get_row pf_id pid (profiles db) = Some pf"
    using assms(2) by (auto simp: get_profile_or_404_def get_scoped_def split: option.splits if_splits)
  moreover have "get_row pf_id (pf_id r) (profiles db) = Some r"
    using assms(1,3) by (intro get_row_distinct) (simp_all add: profiles_wf_def)
  ultimately show ?thesis
    using assms(2,4) profile_rows.lookup_owner by auto
qed

lemma update_profile_wf:
  assumes "profiles_wf (profiles db)"
  shows "profiles_wf (profiles (snd (update_profile env pid payload ctx db)))"
proof (cases "get_profile_or_404 db pid (ctx_id ctx)")
  case (Inr pf)
  show ?thesis
  proof (cases "check_name_free db (ctx_id ctx) (pi_name payload) (Some pid)")
    case free: (Inr u)
    let ?f = "\<lambda>p. p\<lparr>pf_name := pi_name payload, pf_description := pi_description payload,
      pf_config := profile_config (pi_config payload), pf_updated_at := e_now env\<rparr>"
    have "distinct (profile_keys (modify_row pf_id pid ?f (profiles db)))"
      using assms get_profile_unique [OF assms Inr]
        check_name_free_Some [of db "ctx_id ctx" "pi_name payload" pid] free
      by (intro profile_keys_modify [where key = "(ctx_id ctx, pi_name payload)", THEN conjunct1])
        (auto simp: profiles_wf_def profile_key_def)
    then show ?thesis
      using assms Inr free
      by (simp add: update_profile_def Let_def profiles_wf_def map_key_modify_row)
  qed (use assms Inr in \<open>simp add: update_profile_def\<close>)
qed (use assms in \<open>simp add: update_profile_def\<close>)

lemma update_profile_foreign:
  assumes "profiles_wf (profiles db)"
  shows "foreign_profiles (ctx_id ctx) (snd (update_profile env pid payload ctx db)) = foreign_profiles (ctx_id ctx) db"
proof (cases "get_profile_or_404 db pid (ctx_id ctx)")
  case (Inr pf)
  show ?thesis
    using get_profile_unique [OF assms Inr] Inr
    by (auto simp: update_profile_def foreign_profiles_def Let_def filter_modify_row split: sum.splits)
qed (simp add: update_profile_def)

lemma delete_profile_foreign:
  assumes "profiles_wf (profiles db)"
  shows "foreign_profiles (ctx_id ctx) (snd (delete_profile pid ctx db)) = foreign_profiles (ctx_id ctx) db"
proof (cases "get_profile_or_404 db pid (ctx_id ctx)")
  case (Inr pf)
  show ?thesis
    using get_profile_unique [OF assms Inr] Inr
    by (auto simp: delete_profile_def foreign_profiles_def filter_remove_row)
qed (simp add: delete_profile_def)

text \<open>A profile is shared into a workspace only by someone who may write there.\<close>

lemma share_profile_authorized:
  assumes "share_profile env pid t ctx db = (Inr pf, db')"
  shows "pf_workspace_id pf = Some t \<and> t \<noteq> ctx_id ctx \<and>
    (\<exists>target. authorize_workspace_role db (c_principal ctx) t Member = Inr target)"
  using assms target.context_id
  by (fastforce simp: share_profile_def new_profile_def ctx_id_def Let_def split: sum.splits if_splits)

text \<open>The endpoints in any order, by any callers.\<close>

inductive profile_step :: "env \<Rightarrow> db \<Rightarrow> db \<Rightarrow> bool" for env where
  create: "profile_step env db (snd (create_profile env payload ctx db))"
| update: "profile_step env db (snd (update_profile env pid payload ctx db))"
| share: "profile_step env db (snd (share_profile env pid target ctx db))"
| delete: "profile_step env db (snd (delete_profile pid ctx db))"

lemma profile_steps_wf:
  "(profile_step env)\<^sup>*\<^sup>* db db' \<Longrightarrow> fresh_ids env \<Longrightarrow> profiles_wf (profiles db) \<Longrightarrow> profiles_wf (profiles db')"
proof (induction rule: rtranclp_induct)
  case (step db1 db2)
  then have "profiles_wf (profiles db1)" by simp
  with step.hyps(2) step.prems(1) show ?case
    by cases (simp_all add: create_profile_wf update_profile_wf share_profile_wf delete_profile_wf)
qed

end
