(* ===== verification/Certs.thy ===== *)
theory Certs
  imports Settings Authz
begin

text \<open>
  Certificate ingestion (\<open>backend/app/certs.py\<close>, \<open>backend/app/api/certs.py\<close>). Parsing X.509,
  PEM and PKCS#7 is the \<open>cryptography\<close> and \<open>asn1crypto\<close> packages, an argument here; a parsed
  certificate is the record of what the sources read from it.
\<close>

section \<open>Parsed certificates\<close>

datatype general_name =
    DNSName string
  | RFC822Name string
  | URIName string
  | IPName string
  | DirName string
  | RegisteredID string
  | OtherGeneralName string

datatype public_key =
    RSAKey nat
  | ECKey string
  | Ed25519Key
  | Ed448Key
  | DSAKey nat
  | OtherKey string

datatype access_method = AccessOCSP | AccessCAIssuers | AccessOther

text \<open>Bytes of a key identifier; an object identifier with its friendly name.\<close>

record key_usage =
  ku_digital_signature :: bool
  ku_content_commitment :: bool
  ku_key_encipherment :: bool
  ku_data_encipherment :: bool
  ku_key_agreement :: bool
  ku_key_cert_sign :: bool
  ku_crl_sign :: bool
  ku_encipher_only :: bool
  ku_decipher_only :: bool

record oid =
  oid_dotted :: string
  oid_name :: "string option"

record certificate =
  x_der :: string
  x_pem :: string
  x_subject :: string
  x_issuer :: string
  x_common_names :: "string list"
  x_serial_number :: nat
  x_not_before :: int
  x_not_after :: int
  x_public_key :: public_key
  x_signature_oid :: oid
  x_ski :: "string option"
  x_aki :: "string option option"
  x_aia :: "(access_method \<times> general_name) list option"
  x_cdp :: "general_name list option list option"
  x_basic_constraints :: "bool option"
  x_san :: "general_name list option"
  x_key_usage :: "key_usage option"
  x_eku :: "oid list option"
  x_policies :: "oid list option"

record x509_lib =
  lib_load_pem :: "string \<Rightarrow> certificate option"
  lib_load_der :: "string \<Rightarrow> certificate option"
  lib_load_pem_many :: "string \<Rightarrow> (string + certificate list)"
  lib_load_pkcs7 :: "string \<Rightarrow> certificate list option"
  lib_sha256_hex :: "string \<Rightarrow> string"

section \<open>Loading\<close>

text \<open>A \<open>CertificateError\<close> with its message.\<close>

type_synonym 'a loaded = "string + 'a"

definition load_certificate :: "x509_lib \<Rightarrow> string \<Rightarrow> certificate loaded" where
  "load_certificate lib data =
     (if data = [] \<or> strip data = [] then Inl ''Uploaded certificate file is empty''
      else if contains data ''PRIVATE KEY''
      then Inl ''File contains private key material, not a certificate''
      else case lib_load_pem lib data of
             Some c \<Rightarrow> Inr c
           | None \<Rightarrow>
               (case lib_load_der lib data of
                  Some c \<Rightarrow> Inr c
                | None \<Rightarrow> Inl ''File is not a valid PEM or DER encoded X.509 certificate''))"

definition load_certificate_chain :: "x509_lib \<Rightarrow> string \<Rightarrow> certificate list loaded" where
  "load_certificate_chain lib data =
     (if data = [] \<or> strip data = [] then Inl ''Uploaded certificate file is empty''
      else if contains data ''BEGIN CERTIFICATE''
      then (case lib_load_pem_many lib data of
              Inl exc \<Rightarrow> Inl (''Invalid PEM certificate bundle: '' @ exc)
            | Inr certs \<Rightarrow> if certs = [] then Inl ''PEM bundle contains no certificates'' else Inr certs)
      else map_sum id (\<lambda>c. [c]) (load_certificate lib data))"

text \<open>The PKCS#7 reader is \<open>None\<close> when the content type is another one, the structure does not
  parse or one of its certificates does not.\<close>

definition load_certificates_any :: "x509_lib \<Rightarrow> string \<Rightarrow> certificate list loaded" where
  "load_certificates_any lib data =
     (case load_certificate_chain lib data of
        Inr certs \<Rightarrow> Inr certs
      | Inl _ \<Rightarrow>
          (case lib_load_pkcs7 lib data of
             Some certs \<Rightarrow>
               if certs \<noteq> [] then Inr certs
               else Inl ''Data is not a valid X.509 certificate, PEM bundle, or PKCS#7 certificate bundle''
           | None \<Rightarrow> Inl ''Data is not a valid X.509 certificate, PEM bundle, or PKCS#7 certificate bundle''))"

definition to_pem :: "certificate list \<Rightarrow> string" where
  "to_pem certs = concat (map x_pem certs)"

definition validate_private_key_pem :: "string \<Rightarrow> string option" where
  "validate_private_key_pem data =
     (if data = [] \<or> strip data = [] then Some ''Uploaded key file is empty''
      else if \<not> contains data ''PRIVATE KEY'' then Some ''Client key must be a PEM encoded private key''
      else None)"

section \<open>Metadata\<close>

definition key_algorithm :: "certificate \<Rightarrow> string" where
  "key_algorithm c =
     (case x_public_key c of
        RSAKey n \<Rightarrow> ''RSA-'' @ show_nat n
      | ECKey curve \<Rightarrow> ''EC-'' @ curve
      | Ed25519Key \<Rightarrow> ''Ed25519''
      | Ed448Key \<Rightarrow> ''Ed448''
      | DSAKey n \<Rightarrow> ''DSA-'' @ show_nat n
      | OtherKey nm \<Rightarrow> nm)"

definition hex_byte :: "char \<Rightarrow> string" where
  "hex_byte c = (let n = (of_char c :: nat) in [hex_digit (n div 16), hex_digit (n mod 16)])"

definition hex_keyid :: "string option \<Rightarrow> string option" where
  "hex_keyid v = (if truthy v then Some (join_with '':'' (map hex_byte (the v))) else None)"

text \<open>\<open>hex(n)\<close>\<close>

fun hex_of_nat :: "nat \<Rightarrow> string" where
  "hex_of_nat n = (if n < 16 then [hex_digit n] else hex_of_nat (n div 16) @ [hex_digit (n mod 16)])"

declare hex_of_nat.simps [simp del]

definition py_hex :: "nat \<Rightarrow> string" where
  "py_hex n = ''0x'' @ hex_of_nat n"

definition uris :: "general_name list \<Rightarrow> string list" where
  "uris ns = List.map_filter (\<lambda>n. case n of URIName u \<Rightarrow> Some u | _ \<Rightarrow> None) ns"

definition aia_locations :: "access_method \<Rightarrow> certificate \<Rightarrow> string list" where
  "aia_locations m c =
     (case x_aia c of None \<Rightarrow> [] | Some descs \<Rightarrow> uris (map snd (filter (\<lambda>(a, _). a = m) descs)))"

definition cdp_urls :: "certificate \<Rightarrow> string list" where
  "cdp_urls c =
     (case x_cdp c of
        None \<Rightarrow> []
      | Some dps \<Rightarrow> concat (map (\<lambda>dp. case dp of None \<Rightarrow> [] | Some ns \<Rightarrow> uris ns) dps))"

record cert_metadata =
  md_subject :: string
  md_issuer :: string
  md_serial_number :: string
  md_not_before :: int
  md_not_after :: int
  md_key_algorithm :: string
  md_signature_algorithm :: string
  md_signature_algorithm_oid :: string
  md_ski :: "string option"
  md_aki :: "string option"
  md_aia_ocsp_urls :: "string list"
  md_aia_ca_issuers :: "string list"
  md_crl_distribution_points :: "string list"
  md_is_ca :: bool
  md_expired :: bool
  md_self_signed :: bool

definition extract_metadata :: "int \<Rightarrow> certificate \<Rightarrow> cert_metadata" where
  "extract_metadata now c =
     \<lparr>md_subject = x_subject c, md_issuer = x_issuer c, md_serial_number = py_hex (x_serial_number c),
      md_not_before = x_not_before c, md_not_after = x_not_after c, md_key_algorithm = key_algorithm c,
      md_signature_algorithm =
        (case oid_name (x_signature_oid c) of Some nm \<Rightarrow> nm | None \<Rightarrow> oid_dotted (x_signature_oid c)),
      md_signature_algorithm_oid = oid_dotted (x_signature_oid c),
      md_ski = hex_keyid (x_ski c), md_aki = Option.bind (x_aki c) (\<lambda>k. hex_keyid k),
      md_aia_ocsp_urls = aia_locations AccessOCSP c, md_aia_ca_issuers = aia_locations AccessCAIssuers c,
      md_crl_distribution_points = cdp_urls c,
      md_is_ca = (case x_basic_constraints c of None \<Rightarrow> False | Some ca \<Rightarrow> ca),
      md_expired = (x_not_after c < now), md_self_signed = (x_subject c = x_issuer c)\<rparr>"

definition oid_label :: "oid \<Rightarrow> string" where
  "oid_label i =
     (if truthy (oid_name i) \<and> oid_name i \<noteq> Some ''Unknown OID''
      then the (oid_name i) @ '' ('' @ oid_dotted i @ '')'' else oid_dotted i)"

fun general_name_text :: "general_name \<Rightarrow> string" where
  "general_name_text (DNSName v) = ''DNS:'' @ v"
| "general_name_text (RFC822Name v) = ''email:'' @ v"
| "general_name_text (URIName v) = ''URI:'' @ v"
| "general_name_text (IPName v) = ''IP:'' @ v"
| "general_name_text (DirName v) = ''DirName:'' @ v"
| "general_name_text (RegisteredID v) = ''RID:'' @ v"
| "general_name_text (OtherGeneralName v) = v"

definition key_usage_names :: "key_usage \<Rightarrow> string list" where
  "key_usage_names k =
     map snd (filter fst
       [(ku_digital_signature k, ''digitalSignature''),
        (ku_content_commitment k, ''contentCommitment (nonRepudiation)''),
        (ku_key_encipherment k, ''keyEncipherment''),
        (ku_data_encipherment k, ''dataEncipherment''),
        (ku_key_agreement k, ''keyAgreement''),
        (ku_key_cert_sign k, ''keyCertSign''),
        (ku_crl_sign k, ''cRLSign''),
        (ku_key_agreement k \<and> ku_encipher_only k, ''encipherOnly''),
        (ku_key_agreement k \<and> ku_decipher_only k, ''decipherOnly'')])"

definition opt_list :: "'a list option \<Rightarrow> 'a list" where
  "opt_list x = (case x of None \<Rightarrow> [] | Some xs \<Rightarrow> xs)"

record cert_extensions =
  ce_subject_alt_names :: "string list"
  ce_key_usage :: "string list"
  ce_extended_key_usage :: "string list"
  ce_certificate_policies :: "string list"
  ce_aia_ocsp_urls :: "string list"
  ce_aia_ca_issuers :: "string list"
  ce_crl_distribution_points :: "string list"
  ce_subject_key_identifier :: "string option"
  ce_authority_key_identifier :: "string option"

definition no_extensions :: cert_extensions where
  "no_extensions = \<lparr>ce_subject_alt_names = [], ce_key_usage = [], ce_extended_key_usage = [],
     ce_certificate_policies = [], ce_aia_ocsp_urls = [], ce_aia_ca_issuers = [],
     ce_crl_distribution_points = [], ce_subject_key_identifier = None, ce_authority_key_identifier = None\<rparr>"

definition certificate_extensions :: "certificate \<Rightarrow> cert_extensions" where
  "certificate_extensions c =
     \<lparr>ce_subject_alt_names = map general_name_text (opt_list (x_san c)),
      ce_key_usage = (case x_key_usage c of None \<Rightarrow> [] | Some k \<Rightarrow> key_usage_names k),
      ce_extended_key_usage = map oid_label (opt_list (x_eku c)),
      ce_certificate_policies = map oid_label (opt_list (x_policies c)),
      ce_aia_ocsp_urls = aia_locations AccessOCSP c, ce_aia_ca_issuers = aia_locations AccessCAIssuers c,
      ce_crl_distribution_points = cdp_urls c,
      ce_subject_key_identifier = hex_keyid (x_ski c),
      ce_authority_key_identifier = Option.bind (x_aki c) (\<lambda>k. hex_keyid k)\<rparr>"

section \<open>Uploads\<close>

definition read_limited_upload :: "settings \<Rightarrow> string \<Rightarrow> string result" where
  "read_limited_upload st file =
     (if int (length file) > st_max_upload_bytes st
      then Inl (HTTPException 413 (''Upload exceeds the maximum allowed size of '' @
             show_int (st_max_upload_bytes st) @ '' bytes''))
      else Inr file)"

definition inspect_certificate :: "x509_lib \<Rightarrow> settings \<Rightarrow> int \<Rightarrow> string \<Rightarrow> cert_metadata result" where
  "inspect_certificate lib st now file =
     bind_result (read_limited_upload st file) (\<lambda>data.
       case load_certificate lib data of
         Inl msg \<Rightarrow> Inl (HTTPException 400 msg)
       | Inr c \<Rightarrow> Inr (extract_metadata now c))"

section \<open>Properties\<close>

lemma load_certificate_no_key:
  "load_certificate lib data = Inr c \<Longrightarrow> \<not> contains data ''PRIVATE KEY''"
  by (auto simp: load_certificate_def split: if_splits)

lemma load_certificate_chain_nonempty: "load_certificate_chain lib data = Inr cs \<Longrightarrow> cs \<noteq> []"
  by (cases "load_certificate lib data")
    (auto simp: load_certificate_chain_def split: if_splits sum.splits)

lemma load_certificates_any_nonempty: "load_certificates_any lib data = Inr cs \<Longrightarrow> cs \<noteq> []"
  by (auto simp: load_certificates_any_def dest: load_certificate_chain_nonempty
      split: sum.splits option.splits if_splits)

end
