(* ===== verification/Ca_Library.thy ===== *)
theory Ca_Library
  imports Profiles Certs Ssrf
begin

text \<open>
  The saved CA certificates of a workspace (\<open>backend/app/api/ca_certs.py\<close>): import from an upload
  or a URL with duplicate detection by fingerprint, sharing, renaming, deletion, download.
\<close>

definition MAX_FETCH_BYTES :: int where
  "MAX_FETCH_BYTES = 2 * 1024 * 1024"

definition MAX_REDIRECTS :: nat where
  "MAX_REDIRECTS = 5"

record well_known_ca =
  wk_key :: string
  wk_name :: string
  wk_url :: string
  wk_description :: string

definition WELL_KNOWN_CAS :: "well_known_ca list" where
  "WELL_KNOWN_CAS = [
     \<lparr>wk_key = ''fcpca-g2'', wk_name = ''Federal Common Policy CA G2'',
      wk_url = ''http://repo.fpki.gov/fcpca/fcpcag2.crt'',
      wk_description = ''U.S. Federal PKI trust anchor (FCPCAG2)''\<rparr>,
     \<lparr>wk_key = ''fbca-g4'', wk_name = ''Federal Bridge CA G4'',
      wk_url = ''http://repo.fpki.gov/bridge/fbcag4.crt'',
      wk_description = ''U.S. Federal Bridge CA (cross-certification hub)''\<rparr>,
     \<lparr>wk_key = ''fbca-g4-issued'', wk_name = ''CAs issued by Federal Bridge CA G4 (bundle)'',
      wk_url = ''http://repo.fpki.gov/bridge/caCertsIssuedByfbcag4.p7c'',
      wk_description = ''PKCS#7 bundle of every CA certified by FBCA G4 '' @ [CHR 0xE2, CHR 0x80, CHR 0x94] @
        '' imports many entries''\<rparr>]"

record ca_cert_out =
  co_id :: int
  co_name :: string
  co_subject :: string
  co_issuer :: string
  co_serial_number :: string
  co_fingerprint_sha256 :: string
  co_not_before :: int
  co_not_after :: int
  co_is_ca :: bool
  co_expired :: bool
  co_self_signed :: bool
  co_source :: string
  co_source_url :: "string option"
  co_created_at :: int

definition ca_to_out :: "int \<Rightarrow> ca_certificate \<Rightarrow> ca_cert_out" where
  "ca_to_out now r =
     \<lparr>co_id = ca_id r, co_name = ca_name r, co_subject = ca_subject r, co_issuer = ca_issuer r,
      co_serial_number = ca_serial_number r, co_fingerprint_sha256 = ca_fingerprint_sha256 r,
      co_not_before = ca_not_before r, co_not_after = ca_not_after r, co_is_ca = ca_is_ca r,
      co_expired = (ca_not_after r < now), co_self_signed = (ca_subject r = ca_issuer r),
      co_source = ca_source r, co_source_url = ca_source_url r, co_created_at = ca_created_at r\<rparr>"

definition ca_to_detail :: "x509_lib \<Rightarrow> int \<Rightarrow> ca_certificate \<Rightarrow> ca_cert_out \<times> string \<times> cert_extensions" where
  "ca_to_detail lib now r =
     (ca_to_out now r, ca_pem r,
      case load_certificate lib (ca_pem r) of Inl _ \<Rightarrow> no_extensions | Inr c \<Rightarrow> certificate_extensions c)"

definition display_name :: "certificate \<Rightarrow> string" where
  "display_name c = take 200 (case x_common_names c of [] \<Rightarrow> x_subject c | cn # _ \<Rightarrow> cn)"

definition is_ca_cert :: "certificate \<Rightarrow> bool" where
  "is_ca_cert c = (case x_basic_constraints c of None \<Rightarrow> False | Some ca \<Rightarrow> ca)"

section \<open>Import\<close>

record import_result =
  im_created :: "ca_certificate list"
  im_skipped_duplicates :: nat

definition fingerprint :: "x509_lib \<Rightarrow> certificate \<Rightarrow> string" where
  "fingerprint lib c = lib_sha256_hex lib (x_der c)"

definition with_fingerprint :: "db \<Rightarrow> int \<Rightarrow> string \<Rightarrow> ca_certificate list" where
  "with_fingerprint db wid fp =
     filter (\<lambda>r. ca_workspace_id r = Some wid \<and> ca_fingerprint_sha256 r = fp) (ca_certs db)"

definition ca_row ::
  "env \<Rightarrow> x509_lib \<Rightarrow> workspace_context \<Rightarrow> certificate \<Rightarrow> string \<Rightarrow> string \<Rightarrow> string option \<Rightarrow> db \<Rightarrow> ca_certificate" where
  "ca_row env lib ctx c entry_name source source_url db =
     \<lparr>ca_id = e_new_id env (map ca_id (ca_certs db)), ca_workspace_id = Some (ctx_id ctx),
      ca_created_by_user_id = creator_id (c_principal ctx), ca_name = entry_name, ca_pem = x_pem c,
      ca_subject = x_subject c, ca_issuer = x_issuer c, ca_serial_number = py_hex (x_serial_number c),
      ca_fingerprint_sha256 = fingerprint lib c, ca_not_before = x_not_before c,
      ca_not_after = x_not_after c, ca_is_ca = is_ca_cert c, ca_source = source,
      ca_source_url = source_url, ca_created_at = e_now env\<rparr>"

fun import_loop ::
  "env \<Rightarrow> x509_lib \<Rightarrow> workspace_context \<Rightarrow> string option \<Rightarrow> string \<Rightarrow> string option \<Rightarrow>
   certificate list \<Rightarrow> import_result \<Rightarrow> db \<Rightarrow> import_result result \<times> db" where
  "import_loop env lib ctx given source url [] acc db = (Inr acc, db)"
| "import_loop env lib ctx given source url (c # cs) acc db =
     (case one_or_none (with_fingerprint db (ctx_id ctx) (fingerprint lib c)) of
        Inl e \<Rightarrow> (Inl e, db)
      | Inr (Some _) \<Rightarrow>
          import_loop env lib ctx given source url cs
            (acc\<lparr>im_skipped_duplicates := im_skipped_duplicates acc + 1\<rparr>) db
      | Inr None \<Rightarrow>
          (let row = ca_row env lib ctx c (case given of Some n \<Rightarrow> n | None \<Rightarrow> display_name c) source url db
           in import_loop env lib ctx given source url cs (acc\<lparr>im_created := im_created acc @ [row]\<rparr>)
                (db\<lparr>ca_certs := insert_row row (ca_certs db)\<rparr>)))"

text \<open>A given name applies to a single certificate only. Nothing is committed when a lookup
  raises in the middle of the bundle.\<close>

definition import_certificates ::
  "env \<Rightarrow> x509_lib \<Rightarrow> workspace_context \<Rightarrow> certificate list \<Rightarrow> string option \<Rightarrow> string \<Rightarrow> string option \<Rightarrow>
   db \<Rightarrow> import_result result \<times> db" where
  "import_certificates env lib ctx certs nm source url db =
     (let given = (if truthy nm \<and> length certs = 1 then nm else None)
      in case import_loop env lib ctx given source url certs \<lparr>im_created = [], im_skipped_duplicates = 0\<rparr> db of
           (Inl e, _) \<Rightarrow> (Inl e, db)
         | (Inr r, db') \<Rightarrow> (Inr r, db'))"

definition upload_ca_cert ::
  "env \<Rightarrow> settings \<Rightarrow> x509_lib \<Rightarrow> string \<Rightarrow> string option \<Rightarrow> workspace_context \<Rightarrow> db \<Rightarrow> import_result result \<times> db" where
  "upload_ca_cert env st lib file nm ctx db =
     (case read_limited_upload st file of
        Inl e \<Rightarrow> (Inl e, db)
      | Inr data \<Rightarrow>
          (case load_certificates_any lib data of
             Inl msg \<Rightarrow> (Inl (HTTPException 400 msg), db)
           | Inr certs \<Rightarrow> import_certificates env lib ctx certs nm ''upload'' None db))"

text \<open>The network a fetch runs on.\<close>

record network =
  nw_getaddrinfo :: "nat \<Rightarrow> resolver"
  nw_http_get :: "nat \<Rightarrow> http_request \<Rightarrow> http_response option"
  nw_urljoin :: "string \<Rightarrow> string \<Rightarrow> string"

definition blocked_text :: "string \<Rightarrow> string \<Rightarrow> string" where
  "blocked_text target reason = ''Blocked outbound request to '' @ target @ '': '' @ reason"

definition fetch_policy :: "settings \<Rightarrow> network_policy" where
  "fetch_policy st = policy_from_settings st"

definition fetch_ca_cert ::
  "env \<Rightarrow> settings \<Rightarrow> x509_lib \<Rightarrow> network \<Rightarrow> string \<Rightarrow> string option \<Rightarrow> workspace_context \<Rightarrow> db \<Rightarrow>
   import_result result \<times> db" where
  "fetch_ca_cert env st lib nw url nm ctx db =
     (case fst (guarded_fetch (nw_getaddrinfo nw) (nw_http_get nw) (nw_urljoin nw) (fetch_policy st)
             MAX_FETCH_BYTES MAX_REDIRECTS url) of
        Inl (BlockedTarget t reason) \<Rightarrow> (Inl (HTTPException 403 (blocked_text t reason)), db)
      | Inl (NetError msg) \<Rightarrow> (Inl (HTTPException 502 (''Could not fetch '' @ url @ '': '' @ msg)), db)
      | Inr data \<Rightarrow>
          (case load_certificates_any lib data of
             Inl msg \<Rightarrow> (Inl (HTTPException 400 (url @ '': '' @ msg)), db)
           | Inr certs \<Rightarrow>
               import_certificates env lib ctx certs nm
                 (if list_ex (\<lambda>w. wk_url w = url) WELL_KNOWN_CAS then ''well-known'' else ''url'') (Some url) db))"

section \<open>One certificate\<close>

definition get_ca_or_404 :: "db \<Rightarrow> int \<Rightarrow> int \<Rightarrow> ca_certificate result" where
  "get_ca_or_404 db cid wid =
     (case get_scoped ca_id ca_workspace_id cid wid (ca_certs db) of
        None \<Rightarrow> Inl (HTTPException 404 ''Saved certificate not found'')
      | Some r \<Rightarrow> Inr r)"

interpretation ca_rows: scoped_lookup get_ca_or_404 ca_certs ca_workspace_id
  by unfold_locales (auto simp: get_ca_or_404_def dest: get_scoped_Some split: option.splits)

definition list_ca_certs :: "workspace_context \<Rightarrow> db \<Rightarrow> ca_certificate list" where
  "list_ca_certs ctx db =
     sort_key ca_name (filter (\<lambda>r. ca_workspace_id r = Some (ctx_id ctx)) (ca_certs db))"

definition get_ca_cert ::
  "x509_lib \<Rightarrow> int \<Rightarrow> int \<Rightarrow> workspace_context \<Rightarrow> db \<Rightarrow> (ca_cert_out \<times> string \<times> cert_extensions) result" where
  "get_ca_cert lib now cid ctx db =
     bind_result (get_ca_or_404 db cid (ctx_id ctx)) (\<lambda>r. Inr (ca_to_detail lib now r))"

definition share_ca_cert ::
  "env \<Rightarrow> int \<Rightarrow> int \<Rightarrow> workspace_context \<Rightarrow> db \<Rightarrow> import_result result \<times> db" where
  "share_ca_cert env cid target_workspace_id ctx db =
     (case get_ca_or_404 db cid (ctx_id ctx) of
        Inl e \<Rightarrow> (Inl e, db)
      | Inr r \<Rightarrow>
          if target_workspace_id = ctx_id ctx
          then (Inl (HTTPException 400 ''Certificate is already in this workspace''), db)
          else (case authorize_workspace_role db (c_principal ctx) target_workspace_id Member of
             Inl e \<Rightarrow> (Inl e, db)
           | Inr target \<Rightarrow>
               (case one_or_none (with_fingerprint db (ctx_id target) (ca_fingerprint_sha256 r)) of
                  Inl e \<Rightarrow> (Inl e, db)
                | Inr (Some _) \<Rightarrow> (Inr \<lparr>im_created = [], im_skipped_duplicates = 1\<rparr>, db)
                | Inr None \<Rightarrow>
                    (let copy = r\<lparr>ca_id := e_new_id env (map ca_id (ca_certs db)),
                           ca_workspace_id := Some (ctx_id target),
                           ca_created_by_user_id := creator_id (c_principal ctx), ca_created_at := e_now env\<rparr>
                     in (Inr \<lparr>im_created = [copy], im_skipped_duplicates = 0\<rparr>,
                         db\<lparr>ca_certs := insert_row copy (ca_certs db)\<rparr>)))))"

definition rename_ca_cert :: "int \<Rightarrow> string \<Rightarrow> workspace_context \<Rightarrow> db \<Rightarrow> ca_certificate result \<times> db" where
  "rename_ca_cert cid nm ctx db =
     (case get_ca_or_404 db cid (ctx_id ctx) of
        Inl e \<Rightarrow> (Inl e, db)
      | Inr r \<Rightarrow> (Inr (r\<lparr>ca_name := nm\<rparr>),
                  db\<lparr>ca_certs := modify_row ca_id cid (ca_name_update (\<lambda>_. nm)) (ca_certs db)\<rparr>))"

definition delete_ca_cert :: "int \<Rightarrow> workspace_context \<Rightarrow> db \<Rightarrow> unit result \<times> db" where
  "delete_ca_cert cid ctx db =
     (case get_ca_or_404 db cid (ctx_id ctx) of
        Inl e \<Rightarrow> (Inl e, db)
      | Inr r \<Rightarrow> (Inr (), db\<lparr>ca_certs := remove_row ca_id cid (ca_certs db)\<rparr>))"

text \<open>The file name of a downloaded certificate; names are taken as ASCII.\<close>

definition is_alnum :: "char \<Rightarrow> bool" where
  "is_alnum c = (let n = (of_char c :: nat) in
     (48 \<le> n \<and> n \<le> 57) \<or> (65 \<le> n \<and> n \<le> 90) \<or> (97 \<le> n \<and> n \<le> 122))"

definition safe_char :: "char \<Rightarrow> bool" where
  "safe_char c \<longleftrightarrow> is_alnum c \<or> c \<in> set ''-_.''"

definition strip_by :: "(char \<Rightarrow> bool) \<Rightarrow> string \<Rightarrow> string" where
  "strip_by p s = rstrip_by p (dropWhile p s)"

definition download_filename :: "ca_certificate \<Rightarrow> string" where
  "download_filename r =
     (let base = map (\<lambda>c. if safe_char c then c else CHR ''_'') (if ca_name r = [] then ''certificate'' else ca_name r);
          base = strip_by (\<lambda>c. c \<in> set ''_.'') base;
          base = (if base = [] then ''certificate'' else base)
      in take 100 base @ ''.pem'')"

definition download_ca_cert :: "int \<Rightarrow> workspace_context \<Rightarrow> db \<Rightarrow> (string \<times> string) result" where
  "download_ca_cert cid ctx db =
     bind_result (get_ca_or_404 db cid (ctx_id ctx)) (\<lambda>r. Inr (ca_pem r, download_filename r))"

section \<open>One entry per fingerprint and workspace\<close>

definition ca_wf :: "ca_certificate list \<Rightarrow> bool" where
  "ca_wf rs \<longleftrightarrow> distinct (map ca_id rs) \<and> distinct (ca_keys rs)"

lemma ca_keys_append [simp]: "ca_keys (xs @ ys) = ca_keys xs @ ca_keys ys"
  by (simp add: ca_keys_def)

lemma ca_keys_single [simp]:
  "ca_keys [r] = (case ca_workspace_id r of None \<Rightarrow> [] | Some w \<Rightarrow> [(w, ca_fingerprint_sha256 r)])"
  by (simp add: ca_keys_def)

lemma set_ca_keys:
  "k \<in> set (ca_keys rs) \<longleftrightarrow> (\<exists>r\<in>set rs. ca_workspace_id r = Some (fst k) \<and> ca_fingerprint_sha256 r = snd k)"
proof -
  have "k \<in> set (ca_keys [r]) \<longleftrightarrow> ca_workspace_id r = Some (fst k) \<and> ca_fingerprint_sha256 r = snd k" for r
    by (cases k) (auto split: option.splits)
  moreover have "k \<in> set (ca_keys rs) \<longleftrightarrow> (\<exists>r\<in>set rs. k \<in> set (ca_keys [r]))"
    by (auto simp: ca_keys_def)
  ultimately show ?thesis by simp
qed

lemma with_fingerprint_keys: "with_fingerprint db w fp = [] \<longleftrightarrow> (w, fp) \<notin> set (ca_keys (ca_certs db))"
  by (auto simp: with_fingerprint_def filter_empty_conv set_ca_keys)

text \<open>With unique keys the duplicate lookup never raises.\<close>

lemma with_fingerprint_unique:
  assumes "ca_wf (ca_certs db)"
  shows "\<exists>e. one_or_none (with_fingerprint db w fp) = Inr e"
proof -
  have "length (filter (\<lambda>r. ca_workspace_id r = Some w \<and> ca_fingerprint_sha256 r = fp) rs) \<le> 1"
    if "distinct (ca_keys rs)" for rs
    using that
  proof (induction rs)
    case (Cons r rs)
    have split: "ca_keys (r # rs) = ca_keys [r] @ ca_keys rs"
      using ca_keys_append [of "[r]" rs] by simp
    show ?case
    proof (cases "ca_workspace_id r = Some w \<and> ca_fingerprint_sha256 r = fp")
      case True
      with Cons.prems split have "(w, fp) \<notin> set (ca_keys rs)" by auto
      then have "filter (\<lambda>r. ca_workspace_id r = Some w \<and> ca_fingerprint_sha256 r = fp) rs = []"
        by (auto simp: set_ca_keys filter_empty_conv)
      then show ?thesis by simp
    next
      case False
      with Cons split show ?thesis by auto
    qed
  qed simp
  with assms show ?thesis
    by (auto simp: ca_wf_def with_fingerprint_def one_or_none_def split: list.splits)
      (metis (no_types, lifting) Suc_le_mono le_zero_eq length_Cons list.distinct(1) length_0_conv One_nat_def)
qed

lemma insert_ca_wf:
  assumes "ca_wf (ca_certs db)" and "fresh_ids env" and "with_fingerprint db w (ca_fingerprint_sha256 r) = []"
    and "ca_workspace_id r = Some w" and "ca_id r = e_new_id env (map ca_id (ca_certs db))"
  shows "ca_wf (insert_row r (ca_certs db))"
  using assms fresh_idsD [OF assms(2), of "map ca_id (ca_certs db)"]
  by (auto simp: ca_wf_def insert_row_def with_fingerprint_keys)

lemma one_or_none_wf_None:
  "one_or_none xs = Inr None \<Longrightarrow> xs = []"
  by simp

lemma import_loop_total:
  assumes "ca_wf (ca_certs db)" and "fresh_ids env"
  shows "\<exists>r db'. import_loop env lib ctx given source url cs acc db = (Inr r, db') \<and> ca_wf (ca_certs db')
    \<and> length (im_created r) + im_skipped_duplicates r
        = length (im_created acc) + im_skipped_duplicates acc + length cs"
  using assms(1)
proof (induction cs arbitrary: acc db)
  case (Cons c cs)
  from with_fingerprint_unique [OF Cons.prems] obtain e
    where e: "one_or_none (with_fingerprint db (ctx_id ctx) (fingerprint lib c)) = Inr e" by blast
  show ?case
  proof (cases e)
    case None
    let ?row = "ca_row env lib ctx c (case given of Some n \<Rightarrow> n | None \<Rightarrow> display_name c) source url db"
    have "ca_wf (insert_row ?row (ca_certs db))"
      using e None Cons.prems assms(2)
      by (intro insert_ca_wf [where w = "ctx_id ctx"]) (simp_all add: ca_row_def)
    with Cons.IH [of "db\<lparr>ca_certs := insert_row ?row (ca_certs db)\<rparr>"
        "acc\<lparr>im_created := im_created acc @ [?row]\<rparr>"] e None
    show ?thesis by (auto simp: Let_def)
  next
    case (Some r)
    with Cons.IH [OF Cons.prems, of "acc\<lparr>im_skipped_duplicates := im_skipped_duplicates acc + 1\<rparr>"] e
    show ?thesis by auto
  qed
qed simp

lemma import_certificates_counts:
  assumes "ca_wf (ca_certs db)" and "fresh_ids env"
  obtains r db' where "import_certificates env lib ctx certs nm source url db = (Inr r, db')"
    and "ca_wf (ca_certs db')" and "length (im_created r) + im_skipped_duplicates r = length certs"
proof -
  obtain r db' where
      "import_loop env lib ctx (if truthy nm \<and> length certs = 1 then nm else None) source url certs
         \<lparr>im_created = [], im_skipped_duplicates = 0\<rparr> db = (Inr r, db')"
      "ca_wf (ca_certs db')" "length (im_created r) + im_skipped_duplicates r = length certs"
    using import_loop_total [OF assms, of lib ctx "if truthy nm \<and> length certs = 1 then nm else None" source url
        certs "\<lparr>im_created = [], im_skipped_duplicates = 0\<rparr>"] by auto
  then show ?thesis
    by (intro that [of r db']) (simp_all add: import_certificates_def)
qed

lemma import_loop_keys:
  assumes "import_loop env lib ctx given source url cs acc db = (Inr r, db')"
  shows "set (ca_keys (ca_certs db)) \<subseteq> set (ca_keys (ca_certs db')) \<and>
    (\<forall>c\<in>set cs. (ctx_id ctx, fingerprint lib c) \<in> set (ca_keys (ca_certs db'))) \<and>
    (\<exists>new. ca_certs db' = ca_certs db @ new \<and> im_created r = im_created acc @ new \<and>
       (\<forall>n\<in>set new. ca_workspace_id n = Some (ctx_id ctx)))"
  using assms
proof (induction cs arbitrary: acc db)
  case (Cons c cs)
  show ?case
  proof (cases "one_or_none (with_fingerprint db (ctx_id ctx) (fingerprint lib c))")
    case (Inr e)
    show ?thesis
    proof (cases e)
      case None
      let ?row = "ca_row env lib ctx c (case given of Some n \<Rightarrow> n | None \<Rightarrow> display_name c) source url db"
      have "(ctx_id ctx, fingerprint lib c) \<in> set (ca_keys (insert_row ?row (ca_certs db)))"
        by (simp add: insert_row_def ca_row_def)
      moreover have "ca_workspace_id ?row = Some (ctx_id ctx)"
        by (simp add: ca_row_def)
      ultimately show ?thesis
        using Cons.IH [of "acc\<lparr>im_created := im_created acc @ [?row]\<rparr>"
            "db\<lparr>ca_certs := insert_row ?row (ca_certs db)\<rparr>"] Cons.prems Inr None
        by (fastforce simp: Let_def insert_row_def)
    next
      case (Some x)
      then have "(ctx_id ctx, fingerprint lib c) \<in> set (ca_keys (ca_certs db))"
        using Inr with_fingerprint_keys [of db "ctx_id ctx" "fingerprint lib c"] by (auto simp: one_or_none_Some)
      with Cons.IH [of "acc\<lparr>im_skipped_duplicates := im_skipped_duplicates acc + 1\<rparr>" db] Cons.prems Inr Some
      show ?thesis by auto
    qed
  qed (use Cons.prems in simp)
qed simp

text \<open>After an import every certificate is in the workspace's library, and importing the same
  certificates again adds nothing.\<close>

lemma import_loop_known:
  assumes "\<forall>c\<in>set cs. (ctx_id ctx, fingerprint lib c) \<in> set (ca_keys (ca_certs db))" and "ca_wf (ca_certs db)"
  shows "import_loop env lib ctx given source url cs acc db =
    (Inr (acc\<lparr>im_skipped_duplicates := im_skipped_duplicates acc + length cs\<rparr>), db)"
  using assms(1)
proof (induction cs arbitrary: acc)
  case (Cons c cs)
  from with_fingerprint_unique [OF assms(2)] obtain e
    where e: "one_or_none (with_fingerprint db (ctx_id ctx) (fingerprint lib c)) = Inr e" by blast
  with Cons.prems with_fingerprint_keys [of db "ctx_id ctx" "fingerprint lib c"] obtain x where "e = Some x"
    by (cases e) auto
  with e Cons show ?case by simp
qed simp

lemma import_again:
  assumes "ca_wf (ca_certs db)" and "fresh_ids env"
    and "import_certificates env lib ctx certs nm source url db = (Inr r, db')"
  shows "import_certificates env' lib ctx certs nm' source' url' db'
    = (Inr \<lparr>im_created = [], im_skipped_duplicates = length certs\<rparr>, db')"
proof -
  obtain given acc where loop: "import_loop env lib ctx given source url certs acc db = (Inr r, db')"
    using assms(3) by (auto simp: import_certificates_def Let_def split: prod.splits sum.splits)
  have wf: "ca_wf (ca_certs db')"
    using import_loop_total [OF assms(1,2), of lib ctx given source url certs acc] loop by auto
  from import_loop_keys [OF loop]
  have "\<forall>c\<in>set certs. (ctx_id ctx, fingerprint lib c) \<in> set (ca_keys (ca_certs db'))" by blast
  from import_loop_known [OF this wf] show ?thesis
    by (simp add: import_certificates_def)
qed

text \<open>The name a browser is given is made of harmless characters.\<close>

lemma set_strip_by: "set (strip_by p s) \<subseteq> set s"
  by (auto simp: strip_by_def dest: set_dropWhileD set_mono_prefix [OF rstrip_by_prefix, THEN subsetD])

lemma download_filename_safe: "list_all safe_char (download_filename r)"
proof -
  have letters: "list_all safe_char ''certificate''" "list_all safe_char ''.pem''"
    by (simp_all add: safe_char_def is_alnum_def)
  define base where "base = map (\<lambda>c. if safe_char c then c else CHR ''_'')
    (if ca_name r = [] then ''certificate'' else ca_name r)"
  have "list_all safe_char base"
    by (auto simp: base_def list_all_iff safe_char_def)
  then have "list_all safe_char (strip_by p base)" for p
    using set_strip_by [of p base] by (auto simp: list_all_iff)
  with letters show ?thesis
    by (auto simp: download_filename_def Let_def base_def [symmetric] list_all_iff dest: in_set_takeD)
qed

end
