(* ===== verification/Runs_Api.thy ===== *)
theory Runs_Api
  imports Job_Steps Storage Ca_Library "HOL-Library.Option_ord"
begin

text \<open>
  The endpoints of test runs (\<open>backend/app/api/runs.py\<close>): submission, rerun, listing, reading,
  cancelling, deleting and saving a run as a profile, over the database, the job manager and the
  run directories.
\<close>

section \<open>State and environment\<close>

record app_state =
  a_jobs :: job_state
  a_files :: storage

text \<open>The pieces the endpoints take from outside: see \<open>env\<close>, \<open>job_env\<close> and \<open>x509_lib\<close>;
  \<open>re_like\<close> is the database's \<open>LIKE\<close>.\<close>

record run_env =
  re_env :: env
  re_jobs :: job_env
  re_lib :: x509_lib
  re_getaddrinfo :: resolver
  re_runs_dir :: string
  re_like :: "string \<Rightarrow> string \<Rightarrow> bool"

abbreviation a_db :: "app_state \<Rightarrow> db" where
  "a_db a \<equiv> j_db (a_jobs a)"

definition set_db :: "db \<Rightarrow> app_state \<Rightarrow> app_state" where
  "set_db db a = a\<lparr>a_jobs := (a_jobs a)\<lparr>j_db := db\<rparr>\<rparr>"

section \<open>Access\<close>

definition own_runs_only :: "workspace_context \<Rightarrow> bool" where
  "own_runs_only ctx \<longleftrightarrow>
     ws_run_visibility (c_workspace ctx) = ''own'' \<and> c_role ctx < Admin \<and> \<not> is_global_admin (c_principal ctx)"

definition get_run_or_404 :: "db \<Rightarrow> string \<Rightarrow> workspace_context \<Rightarrow> run result" where
  "get_run_or_404 db rid ctx =
     (case find_run db rid of
        None \<Rightarrow> Inl (HTTPException 404 ''Test run not found'')
      | Some r \<Rightarrow>
          if r_workspace_id r \<noteq> Some (ctx_id ctx) then Inl (HTTPException 404 ''Test run not found'')
          else if own_runs_only ctx \<and> r_created_by_user_id r \<noteq> None \<and> r_created_by_user_id r \<noteq> Some 0
            \<and> r_created_by_user_id r \<noteq> Some (u_id (p_user (c_principal ctx)))
          then Inl (HTTPException 404 ''Test run not found'')
          else Inr r)"

definition workspace_policy :: "settings \<Rightarrow> workspace_context \<Rightarrow> network_policy" where
  "workspace_policy st ctx =
     (policy_from_settings st)
       \<lparr>np_allow_private := st_allow_private_targets st \<and> ws_allow_private_targets (c_workspace ctx)\<rparr>"

definition workspace_active_count :: "db \<Rightarrow> int \<Rightarrow> nat" where
  "workspace_active_count db wid =
     length (filter (\<lambda>r. r_workspace_id r = Some wid \<and> r_status r \<notin> set TERMINAL_STATUSES) (runs db))"

definition visible_run :: "workspace_context \<Rightarrow> run \<Rightarrow> bool" where
  "visible_run ctx r \<longleftrightarrow>
     (own_runs_only ctx \<longrightarrow> r_created_by_user_id r = Some (u_id (p_user (c_principal ctx))))"

section \<open>Checks shared by submission and rerun\<close>

definition policy_check :: "run_env \<Rightarrow> network_policy \<Rightarrow> run_config \<Rightarrow> unit result" where
  "policy_check re policy c =
     (case validate_urls (re_getaddrinfo re) policy (rc_ocsp_url c # rc_crl_urls c) of
        Inl (BlockedTarget t reason) \<Rightarrow> Inl (HTTPException 403 (blocked_text t reason))
      | Inl (NetError msg) \<Rightarrow> Inl (Uncaught msg)
      | Inr _ \<Rightarrow> Inr ())"

definition resolve_selection :: "db \<Rightarrow> run_config \<Rightarrow> (string \<times> json) list option result" where
  "resolve_selection db c =
     (let sel = rc_test_selection c
      in if ts_mode sel = ''custom''
         then (case validate_selection (ts_tests sel) of
                 Some msg \<Rightarrow> Inl (HTTPException 400 msg)
               | None \<Rightarrow> Inr (json_dict (selection_json (ts_tests sel))))
         else if ts_mode sel = ''global'' then Inr (load_global_selection db)
         else Inr None)"

definition run_limit :: "settings \<Rightarrow> workspace_context \<Rightarrow> int" where
  "run_limit st ctx = min (ws_max_concurrent_runs (c_workspace ctx)) (st_max_concurrent_runs st)"

definition limit_check :: "settings \<Rightarrow> workspace_context \<Rightarrow> db \<Rightarrow> unit result" where
  "limit_check st ctx db =
     (if int (workspace_active_count db (ctx_id ctx)) \<ge> run_limit st ctx
      then Inl (HTTPException 429 (''Maximum of '' @ show_int (run_limit st ctx) @
             '' concurrent runs reached for this workspace; try again later''))
      else Inr ())"

section \<open>Storing the certificates\<close>

record upload =
  up_filename :: "string option"
  up_data :: string

text \<open>Slot to content (with the owner-only flag), and slot to the name shown to the user.\<close>

record stored =
  so_files :: "(string, string \<times> bool) dict"
  so_names :: "(string, string) dict"

definition nothing_stored :: stored where
  "nothing_stored = \<lparr>so_files = [], so_names = []\<rparr>"

definition put_file :: "string \<Rightarrow> string \<Rightarrow> bool \<Rightarrow> string \<Rightarrow> stored \<Rightarrow> stored" where
  "put_file slot data sensitive shown s =
     s\<lparr>so_files := dict_set slot (data, sensitive) (so_files s), so_names := dict_set slot shown (so_names s)\<rparr>"

definition shown_name :: "string \<Rightarrow> upload \<Rightarrow> string" where
  "shown_name slot u = (if truthy (up_filename u) then the (up_filename u) else slot)"

definition store_cert ::
  "run_env \<Rightarrow> settings \<Rightarrow> string \<Rightarrow> bool \<Rightarrow> upload option \<Rightarrow> stored \<Rightarrow> stored result" where
  "store_cert re st slot chain up s =
     (case up of
        None \<Rightarrow> Inr s
      | Some u \<Rightarrow>
          bind_result (read_limited_upload st (up_data u)) (\<lambda>data.
            case (if chain then load_certificate_chain (re_lib re) data
                  else map_sum id (\<lambda>c. [c]) (load_certificate (re_lib re) data)) of
              Inl msg \<Rightarrow> Inl (HTTPException 400 (slot @ '': '' @ msg))
            | Inr certs \<Rightarrow> Inr (put_file slot (to_pem certs) False (shown_name slot u) s)))"

fun store_certs ::
  "run_env \<Rightarrow> settings \<Rightarrow> (string \<times> bool) list \<Rightarrow> (string, upload) dict \<Rightarrow> stored \<Rightarrow> stored result" where
  "store_certs re st [] ups s = Inr s"
| "store_certs re st ((slot, chain) # slots) ups s =
     bind_result (store_cert re st slot chain (dict_get ups slot) s) (store_certs re st slots ups)"

definition CERT_SLOTS :: "(string \<times> bool) list" where
  "CERT_SLOTS = [(''issuer_cert'', False), (''good_cert'', False), (''revoked_cert'', False),
     (''unknown_ca_cert'', False), (''trust_anchor'', True), (''client_cert'', True)]"

definition store_key :: "settings \<Rightarrow> upload option \<Rightarrow> stored \<Rightarrow> stored result" where
  "store_key st up s =
     (case up of
        None \<Rightarrow> Inr s
      | Some u \<Rightarrow>
          bind_result (read_limited_upload st (up_data u)) (\<lambda>data.
            case validate_private_key_pem data of
              Some msg \<Rightarrow> Inl (HTTPException 400 (''client_key: '' @ msg))
            | None \<Rightarrow> Inr (put_file ''client_key'' data True (shown_name ''client_key'' u) s)))"

fun store_saved_certs :: "db \<Rightarrow> int \<Rightarrow> (string \<times> int) list \<Rightarrow> stored \<Rightarrow> stored result" where
  "store_saved_certs db wid [] s = Inr s"
| "store_saved_certs db wid ((slot, cid) # rest) s =
     (if dict_get (so_files s) slot \<noteq> None
      then Inl (HTTPException 400 (slot @ '': both an uploaded file and a saved certificate were provided''))
      else case get_scoped ca_id ca_workspace_id cid wid (ca_certs db) of
             None \<Rightarrow> Inl (HTTPException 400 (slot @ '': saved certificate #'' @ show_int cid @
                       '' not found in this workspace'' @ [CHR 0x27] @ ''s CA library''))
           | Some saved \<Rightarrow>
               store_saved_certs db wid rest
                 (put_file slot (ca_pem saved) False (ca_name saved @ '' (saved CA)'') s))"

definition store_submission ::
  "run_env \<Rightarrow> settings \<Rightarrow> workspace_context \<Rightarrow> db \<Rightarrow> run_config \<Rightarrow> (string, upload) dict \<Rightarrow> stored result" where
  "store_submission re st ctx db c ups =
     bind_result (store_certs re st CERT_SLOTS ups nothing_stored) (\<lambda>s.
     bind_result (store_key st (dict_get ups ''client_key'') s) (\<lambda>s.
     bind_result (store_saved_certs db (ctx_id ctx) (rc_saved_certs c) s) (\<lambda>s.
       if dict_get (so_files s) ''issuer_cert'' = None
       then Inl (HTTPException 400 ''issuer_cert is required: upload a file or select a saved CA certificate'')
       else Inr s)))"

text \<open>A rerun copies the files of the run it repeats, as far as they are still there.\<close>

fun copy_prior_files :: "storage \<Rightarrow> string \<Rightarrow> (string \<times> json) list \<Rightarrow> stored \<Rightarrow> stored result" where
  "copy_prior_files fs rid [] s = Inr s"
| "copy_prior_files fs rid ((slot, shown) # rest) s =
     (if dict_get UPLOAD_SLOTS slot = None then copy_prior_files fs rid rest s
      else case stored_upload fs rid slot of
             None \<Rightarrow> copy_prior_files fs rid rest s
           | Some (data, _) \<Rightarrow>
               copy_prior_files fs rid rest
                 (put_file slot data (slot = ''client_key'') (case shown of JStr n \<Rightarrow> n | _ \<Rightarrow> []) s))"

section \<open>Starting\<close>

definition selection_field :: "(string \<times> json) list option \<Rightarrow> json" where
  "selection_field t = (case t of None \<Rightarrow> JNull | Some d \<Rightarrow> JDict d)"

definition stored_config ::
  "run_config \<Rightarrow> stored \<Rightarrow> (string \<times> json) list option \<Rightarrow> (string \<times> json) list" where
  "stored_config c s tests =
     dict_set ''resolved_test_selection'' (selection_field tests)
       (dict_set ''files'' (JDict (map (\<lambda>(k, n). (k, JStr n)) (so_names s))) (dump_run_config c))"

definition run_row ::
  "run_env \<Rightarrow> workspace_context \<Rightarrow> string \<Rightarrow> run_config \<Rightarrow> (string \<times> json) list \<Rightarrow> run" where
  "run_row re ctx rid c config =
     \<lparr>r_id = rid, r_workspace_id = Some (ctx_id ctx), r_created_by_user_id = creator_id (c_principal ctx),
      r_name = rc_name c, r_ocsp_url = rc_ocsp_url c, r_status = ''queued'', r_created_at = je_now (re_jobs re),
      r_started_at = None, r_finished_at = None, r_config = config, r_error = None,
      r_current_activity = None, r_totals = [], r_latency = None, r_last_seq = 0\<rparr>"

definition run_manifest ::
  "run_env \<Rightarrow> string \<Rightarrow> run_config \<Rightarrow> stored \<Rightarrow> (string \<times> json) list option \<Rightarrow> network_policy \<Rightarrow> manifest" where
  "run_manifest re rid c s tests policy =
     \<lparr>mf_run_id = rid,
      mf_config = dict_set ''resolved_test_selection'' (selection_field tests) (dump_run_config c),
      mf_files = map (\<lambda>(slot, _). (slot, upload_path (re_runs_dir re) rid slot)) (so_files s),
      mf_policy = policy\<rparr>"

definition store_run_dir :: "run_env \<Rightarrow> string \<Rightarrow> stored \<Rightarrow> manifest \<Rightarrow> storage \<Rightarrow> storage" where
  "store_run_dir re rid s m fs =
     write_job_manifest (je_now (re_jobs re)) rid m
       (foldl (\<lambda>fs (slot, data, sensitive). save_upload rid slot data sensitive fs)
          (create_dir (je_now (re_jobs re)) rid fs) (so_files s))"

text \<open>From the row to the running worker: insert and commit, write the manifest, start, answer
  with the refreshed row.\<close>

definition launch_run ::
  "run_env \<Rightarrow> workspace_context \<Rightarrow> string \<Rightarrow> run_config \<Rightarrow> stored \<Rightarrow> (string \<times> json) list option \<Rightarrow>
   network_policy \<Rightarrow> (string \<times> json) list \<Rightarrow> app_state \<Rightarrow> run_summary result \<times> app_state" where
  "launch_run re ctx rid c s tests policy config a =
     (let row = run_row re ctx rid c config;
          a = set_db (add_run row (a_db a)) a;
          a = a\<lparr>a_files := store_run_dir re rid s (run_manifest re rid c s tests policy) (a_files a)\<rparr>
      in case start_run (re_jobs re) rid (a_jobs a) of
           (Inl e, js) \<Rightarrow> (Inl e, a\<lparr>a_jobs := js\<rparr>)
         | (Inr _, js) \<Rightarrow>
             ((case find_run (j_db js) rid of
                 None \<Rightarrow> Inl (Uncaught ''InvalidRequestError'')
               | Some r \<Rightarrow> run_to_summary r), a\<lparr>a_jobs := js\<rparr>))"

definition next_run_id :: "run_env \<Rightarrow> db \<Rightarrow> string" where
  "next_run_id re db = je_uuid (re_jobs re) (map r_id (runs db))"

definition create_run ::
  "run_env \<Rightarrow> settings \<Rightarrow> json option \<Rightarrow> (string, upload) dict \<Rightarrow> workspace_context \<Rightarrow> app_state \<Rightarrow>
   run_summary result \<times> app_state" where
  "create_run re st config ups ctx a =
     (case Option.bind config (\<lambda>j. Option.bind (json_dict j) parse_run_config) of
        None \<Rightarrow> (Inl (HTTPException 400 ''Invalid run configuration''), a)
      | Some c \<Rightarrow>
          (let policy = workspace_policy st ctx
           in case policy_check re policy c of
                Inl e \<Rightarrow> (Inl e, a)
              | Inr _ \<Rightarrow>
          (case resolve_selection (a_db a) c of
                Inl e \<Rightarrow> (Inl e, a)
              | Inr tests \<Rightarrow>
          (case limit_check st ctx (a_db a) of
                Inl e \<Rightarrow> (Inl e, a)
              | Inr _ \<Rightarrow>
          (case store_submission re st ctx (a_db a) c ups of
                Inl e \<Rightarrow> (Inl e, a)
              | Inr s \<Rightarrow>
                  launch_run re ctx (next_run_id re (a_db a)) c s tests policy (stored_config c s tests) a)))))"

definition rerun_config :: "run \<Rightarrow> run_config option" where
  "rerun_config prior =
     parse_run_config (dict_set ''saved_certs'' (JDict []) (only_model_fields (r_config prior)))"

text \<open>\<open>dict(prior_config.get("files", {}) or {})\<close>\<close>

definition prior_files :: "run \<Rightarrow> (string \<times> json) list result" where
  "prior_files prior =
     (let v = jget (r_config prior) ''files'' (JDict [])
      in case v of
           JDict d \<Rightarrow> Inr d
         | _ \<Rightarrow> if json_true v then Inl (Uncaught ''TypeError'') else Inr [])"

definition rerun_run ::
  "run_env \<Rightarrow> settings \<Rightarrow> string \<Rightarrow> workspace_context \<Rightarrow> app_state \<Rightarrow> run_summary result \<times> app_state" where
  "rerun_run re st rid ctx a =
     (case get_run_or_404 (a_db a) rid ctx of
        Inl e \<Rightarrow> (Inl e, a)
      | Inr prior \<Rightarrow>
     (case prior_files prior of
        Inl e \<Rightarrow> (Inl e, a)
      | Inr files \<Rightarrow>
     (case rerun_config prior of
        None \<Rightarrow> (Inl (HTTPException 422 ''Stored run configuration is invalid''), a)
      | Some c \<Rightarrow>
     (if stored_upload (a_files a) rid ''issuer_cert'' = None
      then (Inl (HTTPException 409 (''The original run'' @ [CHR 0x27] @ ''s certificates are no longer available '' @
              ''(they were likely removed by retention cleanup). Start a new run instead.'')), a)
      else
     (let policy = workspace_policy st ctx
      in case policy_check re policy c of
        Inl e \<Rightarrow> (Inl e, a)
      | Inr _ \<Rightarrow>
     (case resolve_selection (a_db a) c of
        Inl e \<Rightarrow> (Inl e, a)
      | Inr tests \<Rightarrow>
     (case limit_check st ctx (a_db a) of
        Inl e \<Rightarrow> (Inl e, a)
      | Inr _ \<Rightarrow>
     (case bind_result (copy_prior_files (a_files a) rid files nothing_stored) (\<lambda>s.
             if dict_get (so_files s) ''issuer_cert'' = None
             then Inl (HTTPException 409 (''The original run'' @ [CHR 0x27] @
                    ''s issuer certificate is no longer available. Start a new run instead.''))
             else Inr s) of
        Inl e \<Rightarrow> (Inl e, a)
      | Inr s \<Rightarrow>
          launch_run re ctx (next_run_id re (a_db a)) c s tests policy
            (dict_set ''rerun_of'' (JStr rid) (stored_config c s tests)) a))))))))"

section \<open>Reading\<close>

definition nonblank_parts :: "string \<Rightarrow> string list" where
  "nonblank_parts s = filter (\<lambda>p. p \<noteq> []) (map strip (split_on (CHR '','') s))"

definition list_runs ::
  "nat \<Rightarrow> nat \<Rightarrow> string option \<Rightarrow> workspace_context \<Rightarrow> db \<Rightarrow> (run list \<times> nat)" where
  "list_runs limit offset status ctx db =
     (let rows = filter (\<lambda>r. r_workspace_id r = Some (ctx_id ctx) \<and> visible_run ctx r
                        \<and> (truthy status \<longrightarrow> r_status r \<in> set (nonblank_parts (the status)))) (runs db)
      in (take limit (drop offset (sort_key (\<lambda>r. - r_created_at r) rows)), length rows))"

definition get_run ::
  "string \<Rightarrow> workspace_context \<Rightarrow> db \<Rightarrow> (run_summary \<times> (string \<times> json) list) result" where
  "get_run rid ctx db = bind_result (get_run_or_404 db rid ctx) run_to_detail"

definition get_results ::
  "run_env \<Rightarrow> string \<Rightarrow> string option \<Rightarrow> string option \<Rightarrow> string option \<Rightarrow> workspace_context \<Rightarrow> db \<Rightarrow>
   test_result list result" where
  "get_results re rid category status q ctx db =
     bind_result (get_run_or_404 db rid ctx) (\<lambda>_.
       Inr (sort_key res_started_at (filter (\<lambda>r. res_run_id r = rid
              \<and> (truthy category \<longrightarrow> res_category r \<in> set (nonblank_parts (the category)))
              \<and> (truthy status \<longrightarrow> res_status r \<in> set (map str_upper (nonblank_parts (the status))))
              \<and> (truthy q \<longrightarrow>
                   (let pattern = ''%'' @ the q @ ''%''
                    in re_like re (res_name r) pattern \<or> re_like re (res_message r) pattern)))
            (test_results db))))"

record log_line =
  ll_seq :: nat
  ll_ts :: int
  ll_level :: string
  ll_message :: string

definition log_line_of :: "(json \<Rightarrow> string) \<Rightarrow> run_event \<Rightarrow> log_line" where
  "log_line_of repr e =
     \<lparr>ll_seq = e_seq e, ll_ts = e_ts e, ll_level = str_of repr (jget (e_payload e) ''level'' (JStr ''INFO'')),
      ll_message = str_of repr (jget (e_payload e) ''message'' (JStr []))\<rparr>"

definition get_logs ::
  "run_env \<Rightarrow> string \<Rightarrow> nat \<Rightarrow> nat \<Rightarrow> workspace_context \<Rightarrow> db \<Rightarrow> (log_line list \<times> nat) result" where
  "get_logs re rid after_seq limit ctx db =
     bind_result (get_run_or_404 db rid ctx) (\<lambda>r.
       Inr (map (log_line_of (je_repr (re_jobs re))) (take limit (sort_key e_seq
              (filter (\<lambda>e. e_run_id e = rid \<and> e_type e = ''log'' \<and> after_seq < e_seq e) (run_events db)))),
            r_last_seq r))"

section \<open>Profiles, cancelling, deleting\<close>

definition save_run_as_profile ::
  "run_env \<Rightarrow> string \<Rightarrow> string \<Rightarrow> string option \<Rightarrow> workspace_context \<Rightarrow> db \<Rightarrow> profile result \<times> db" where
  "save_run_as_profile re rid nm descr ctx db =
     (case get_run_or_404 db rid ctx of
        Inl e \<Rightarrow> (Inl e, db)
      | Inr r \<Rightarrow>
     (case parse_run_config (only_model_fields (r_config r)) of
        None \<Rightarrow> (Inl (HTTPException 422 ''Run configuration cannot be saved as a profile''), db)
      | Some c \<Rightarrow>
     (case check_name_free db (ctx_id ctx) nm None of
        Inl e \<Rightarrow> (Inl e, db)
      | Inr _ \<Rightarrow>
          (let pf = new_profile (re_env re) (ctx_id ctx) (c_principal ctx) nm descr (profile_config c) db
           in (Inr pf, add_profile pf db)))))"

definition cancel_run_endpoint ::
  "run_env \<Rightarrow> string \<Rightarrow> workspace_context \<Rightarrow> app_state \<Rightarrow> run_summary result \<times> app_state" where
  "cancel_run_endpoint re rid ctx a =
     (case get_run_or_404 (a_db a) rid ctx of
        Inl e \<Rightarrow> (Inl e, a)
      | Inr r \<Rightarrow>
          if r_status r \<in> set TERMINAL_STATUSES
          then (Inl (HTTPException 409 (''Run already finished with status '' @ r_status r)), a)
          else (case cancel_run (re_jobs re) rid (a_jobs a) of
                  (Inl e, js) \<Rightarrow> (Inl e, a\<lparr>a_jobs := js\<rparr>)
                | (Inr _, js) \<Rightarrow>
                    ((case find_run (j_db js) rid of
                        None \<Rightarrow> Inl (Uncaught ''InvalidRequestError'')
                      | Some r \<Rightarrow> run_to_summary r), a\<lparr>a_jobs := js\<rparr>)))"

definition delete_run ::
  "run_env \<Rightarrow> string \<Rightarrow> workspace_context \<Rightarrow> app_state \<Rightarrow> unit result \<times> app_state" where
  "delete_run re rid ctx a =
     (case get_run_or_404 (a_db a) rid ctx of
        Inl e \<Rightarrow> (Inl e, a)
      | Inr r \<Rightarrow>
          (case (if r_status r \<notin> set TERMINAL_STATUSES then cancel_run (re_jobs re) rid (a_jobs a)
                 else (Inr True, a_jobs a)) of
             (Inl e, js) \<Rightarrow> (Inl e, a\<lparr>a_jobs := js\<rparr>)
           | (Inr _, js) \<Rightarrow>
               (Inr (), \<lparr>a_jobs = js\<lparr>j_db := delete_run_row rid (j_db js)\<rparr>,
                         a_files = delete_dir rid (a_files a)\<rparr>)))"

end
