(* ===== verification/Run_Properties.thy ===== *)
theory Run_Properties
  imports Runs_Api
begin

text \<open>
  What the run endpoints guarantee: refused requests change nothing, the concurrency cap, the
  isolation of other runs, complete deletion, and that a stored configuration can be used again.
\<close>

section \<open>Starting a run\<close>

lemma find_run_set_db [simp]: "a_db (set_db db a) = db"
  by (simp add: set_db_def)

lemma start_run_fst: "fst (start_run je rid js) = Inl e \<Longrightarrow> \<exists>k. e = Uncaught k"
  by (auto simp: start_run_def run_snapshot_def run_to_summary_def enabled_categories_def validation_error_def
      bind_result_Inl Let_def split: sum.splits option.splits if_splits json.splits)

lemma run_to_summary_error: "run_to_summary r = Inl e \<Longrightarrow> \<exists>k. e = Uncaught k"
  by (auto simp: run_to_summary_def enabled_categories_def validation_error_def bind_result_Inl Let_def
      split: if_splits json.splits)

lemma find_run_start:
  "find_run (j_db (snd (start_run je rid js))) k =
     (if k = rid
      then map_option (\<lambda>r. r\<lparr>r_status := ''running'', r_started_at := Some (je_now je),
             r_last_seq := (if isl (fst (start_run je rid js)) then r_last_seq r else r_last_seq r + 1)\<rparr>)
             (find_run (j_db js) k)
      else find_run (j_db js) k)"
  by (auto simp: start_run_def Let_def find_run_append option.map_comp comp_def split: sum.splits)

lemma start_run_other:
  "k \<noteq> rid \<Longrightarrow> events_of (j_db (snd (start_run je rid js))) k = events_of (j_db js) k"
  "results_of (j_db (snd (start_run je rid js))) k = results_of (j_db js) k"
  by (auto simp: start_run_def Let_def events_of_append results_of_def split: sum.splits option.splits)

lemma launch_run_state:
  "a_db (snd (launch_run re ctx rid c s tests policy config a)) =
     j_db (snd (start_run (re_jobs re) rid (a_jobs (set_db (add_run (run_row re ctx rid c config) (a_db a)) a))))"
  by (auto simp: launch_run_def Let_def split: sum.splits prod.splits)

lemma launch_run_http:
  "fst (launch_run re ctx rid c s tests policy config a) \<noteq> Inl (HTTPException n d)"
  using start_run_fst [of "re_jobs re" rid] run_to_summary_error
  by (auto simp: launch_run_def Let_def split: sum.splits prod.splits option.splits)
    (metis error.distinct(1) fst_conv)+

lemma run_row_simps [simp]:
  "r_id (run_row re ctx rid c config) = rid"
  "r_status (run_row re ctx rid c config) = ''queued''"
  "r_workspace_id (run_row re ctx rid c config) = Some (ctx_id ctx)"
  "r_config (run_row re ctx rid c config) = config"
  "r_created_by_user_id (run_row re ctx rid c config) = creator_id (c_principal ctx)"
  by (simp_all add: run_row_def)

lemma find_run_launch:
  assumes "find_run (a_db a) rid = None"
  shows "k \<noteq> rid \<Longrightarrow> find_run (a_db (snd (launch_run re ctx rid c s tests policy config a))) k = find_run (a_db a) k"
    and "\<exists>r. find_run (a_db (snd (launch_run re ctx rid c s tests policy config a))) rid = Some r \<and>
      r_status r = ''running'' \<and> r_workspace_id r = Some (ctx_id ctx) \<and> r_config r = config \<and>
      r_created_by_user_id r = creator_id (c_principal ctx)"
  using assms
  by (simp_all add: launch_run_state find_run_start find_run_add set_db_def)

lemma launch_run_other:
  "k \<noteq> rid \<Longrightarrow> events_of (a_db (snd (launch_run re ctx rid c s tests policy config a))) k = events_of (a_db a) k"
  "results_of (a_db (snd (launch_run re ctx rid c s tests policy config a))) k = results_of (a_db a) k"
  by (simp_all add: launch_run_state start_run_other set_db_def)
    (simp_all add: add_run_def events_of_def results_of_def)

section \<open>Submission\<close>

lemma next_run_id_fresh: "fresh_uuids (re_jobs re) \<Longrightarrow> find_run db (next_run_id re db) = None"
proof -
  assume "fresh_uuids (re_jobs re)"
  then have "next_run_id re db \<notin> set (map r_id (runs db))"
    unfolding fresh_uuids_def next_run_id_def by blast
  then show ?thesis unfolding find_run_def get_row_None by (metis image_eqI list.set_map)
qed

lemma create_run_cases:
  obtains (refused) e where "create_run re st config ups ctx a = (Inl e, a)"
  | (launched) c s tests where
      "Option.bind config (\<lambda>j. Option.bind (json_dict j) parse_run_config) = Some c"
      "policy_check re (workspace_policy st ctx) c = Inr ()"
      "resolve_selection (a_db a) c = Inr tests"
      "limit_check st ctx (a_db a) = Inr ()"
      "store_submission re st ctx (a_db a) c ups = Inr s"
      "create_run re st config ups ctx a =
        launch_run re ctx (next_run_id re (a_db a)) c s tests (workspace_policy st ctx) (stored_config c s tests) a"
proof (cases "Option.bind config (\<lambda>j. Option.bind (json_dict j) parse_run_config)")
  case None
  then show ?thesis by (intro refused) (simp add: create_run_def)
next
  case (Some c)
  show ?thesis
  proof (cases "policy_check re (workspace_policy st ctx) c")
    case (Inl e)
    with Some show ?thesis by (intro refused) (simp add: create_run_def)
  next
    case p: (Inr u)
    show ?thesis
    proof (cases "resolve_selection (a_db a) c")
      case (Inl e)
      with Some p show ?thesis by (intro refused) (simp add: create_run_def)
    next
      case r: (Inr tests)
      show ?thesis
      proof (cases "limit_check st ctx (a_db a)")
        case (Inl e)
        with Some p r show ?thesis by (intro refused) (simp add: create_run_def)
      next
        case l: (Inr u')
        show ?thesis
        proof (cases "store_submission re st ctx (a_db a) c ups")
          case (Inl e)
          with Some p r l show ?thesis by (intro refused) (simp add: create_run_def)
        next
          case (Inr s)
          with Some p r l show ?thesis by (intro launched) (simp_all add: create_run_def)
        qed
      qed
    qed
  qed
qed

lemma create_run_atomic:
  "fst (create_run re st config ups ctx a) = Inl (HTTPException n d) \<Longrightarrow> snd (create_run re st config ups ctx a) = a"
  by (cases rule: create_run_cases [of re st config ups ctx a]) (simp_all add: launch_run_http)

lemma policy_check_Inr:
  assumes "policy_check re policy c = Inr ()" and "u \<in> set (rc_ocsp_url c # rc_crl_urls c)"
  shows "validate_url (re_getaddrinfo re) policy u = Inr ()"
proof -
  have "validate_url gai policy u = Inr ()" if "validate_urls gai policy us = Inr ()" "u \<in> set us" for gai us
    using that by (induction gai policy us rule: validate_urls.induct) (auto split: sum.splits)
  with assms show ?thesis
    by (auto simp: policy_check_def split: sum.splits net_error.splits)
qed

lemma workspace_policy_allow_private:
  "np_allow_private (workspace_policy st ctx) \<longleftrightarrow>
     st_allow_private_targets st \<and> ws_allow_private_targets (c_workspace ctx)"
  by (simp add: workspace_policy_def)

section \<open>The concurrency cap\<close>

lemma count_modify_row:
  "(\<And>r. r \<in> set rows \<Longrightarrow> ident r = k \<Longrightarrow> P (f r) = P r) \<Longrightarrow>
     length (filter P (modify_row ident k f rows)) = length (filter P rows)"
  by (induction rows) (auto simp: modify_row_def update_rows_def)

lemma count_append_event [simp]:
  "workspace_active_count (append_event je rid t p db) w = workspace_active_count db w"
  by (auto simp: append_event_def workspace_active_count_def update_run_def Let_def count_modify_row
      split: option.splits)

lemma count_add_run:
  "workspace_active_count (add_run r db) w =
     workspace_active_count db w + (if r_workspace_id r = Some w \<and> r_status r \<notin> set TERMINAL_STATUSES then 1 else 0)"
  by (simp add: workspace_active_count_def add_run_def)

lemma count_start_run:
  assumes "\<And>r. r \<in> set (runs (j_db js)) \<Longrightarrow> r_id r = rid \<Longrightarrow> r_status r \<notin> set TERMINAL_STATUSES"
  shows "workspace_active_count (j_db (snd (start_run je rid js))) w = workspace_active_count (j_db js) w"
proof -
  have "''running'' \<notin> set TERMINAL_STATUSES"
    by (simp add: TERMINAL_STATUSES_def)
  with assms show ?thesis
    by (auto simp: start_run_def Let_def update_run_def count_modify_row split: sum.splits)
      (simp_all add: workspace_active_count_def count_modify_row)
qed

lemma count_launch_run:
  assumes "find_run (a_db a) rid = None"
  shows "workspace_active_count (a_db (snd (launch_run re ctx rid c s tests policy config a))) w =
    workspace_active_count (a_db a) w + (if w = ctx_id ctx then 1 else 0)"
proof -
  have queued: "''queued'' \<notin> set TERMINAL_STATUSES"
    by (simp add: TERMINAL_STATUSES_def)
  have only: "r_status r \<notin> set TERMINAL_STATUSES"
    if "r \<in> set (runs (add_run (run_row re ctx rid c config) (a_db a)))" "r_id r = rid" for r
  proof -
    have "r \<notin> set (runs (a_db a))"
      using assms that(2) by (auto simp: find_run_def get_row_None)
    with that(1) have "r = run_row re ctx rid c config"
      by (simp add: add_run_def)
    with queued show ?thesis by simp
  qed
  show ?thesis
    unfolding launch_run_state using only queued
    by (subst count_start_run) (auto simp: set_db_def count_add_run)
qed

lemma create_run_cap:
  assumes "fresh_uuids (re_jobs re)"
    and "int (workspace_active_count (a_db a) w) \<le> run_limit st ctx" and "w = ctx_id ctx"
  shows "int (workspace_active_count (a_db (snd (create_run re st config ups ctx a))) w) \<le> run_limit st ctx"
proof (cases rule: create_run_cases [of re st config ups ctx a])
  case (launched c s tests)
  from launched(4) assms(3) have "int (workspace_active_count (a_db a) w) < run_limit st ctx"
    by (auto simp: limit_check_def split: if_splits)
  with launched(6) assms(3) count_launch_run [OF next_run_id_fresh [OF assms(1)]] show ?thesis by simp
qed (use assms in simp)

section \<open>Reading and repeating\<close>

lemma get_run_or_404_Inr:
  "get_run_or_404 db rid ctx = Inr r \<Longrightarrow> find_run db rid = Some r \<and> r_workspace_id r = Some (ctx_id ctx)"
  by (auto simp: get_run_or_404_def split: option.splits if_splits)

lemma list_runs_visible:
  "r \<in> set (fst (list_runs limit offset status ctx db)) \<Longrightarrow>
     r \<in> set (runs db) \<and> r_workspace_id r = Some (ctx_id ctx) \<and> visible_run ctx r"
  by (auto simp: list_runs_def Let_def dest!: in_set_takeD in_set_dropD)

text \<open>Whatever the list shows can be read, when the creator is recorded.\<close>

lemma listed_run_readable:
  assumes "distinct (map r_id (runs db))" and "r \<in> set (fst (list_runs limit offset status ctx db))"
  shows "get_run_or_404 db (r_id r) ctx = Inr r"
proof -
  from list_runs_visible [OF assms(2)] have r: "r \<in> set (runs db)" "r_workspace_id r = Some (ctx_id ctx)"
    "visible_run ctx r" by auto
  then have "find_run db (r_id r) = Some r"
    unfolding find_run_def using assms(1) by (intro get_row_distinct)
  with r show ?thesis by (auto simp: get_run_or_404_def visible_run_def)
qed

lemma rerun_run_cases:
  obtains (refused) e where "rerun_run re st rid ctx a = (Inl e, a)"
  | (launched) prior c s tests config where
      "get_run_or_404 (a_db a) rid ctx = Inr prior"
      "rerun_config prior = Some c"
      "policy_check re (workspace_policy st ctx) c = Inr ()"
      "limit_check st ctx (a_db a) = Inr ()"
      "rerun_run re st rid ctx a =
        launch_run re ctx (next_run_id re (a_db a)) c s tests (workspace_policy st ctx) config a"
proof -
  have "(\<exists>e. rerun_run re st rid ctx a = (Inl e, a)) \<or>
    (\<exists>prior c s tests config. get_run_or_404 (a_db a) rid ctx = Inr prior \<and> rerun_config prior = Some c \<and>
      policy_check re (workspace_policy st ctx) c = Inr () \<and> limit_check st ctx (a_db a) = Inr () \<and>
      rerun_run re st rid ctx a =
        launch_run re ctx (next_run_id re (a_db a)) c s tests (workspace_policy st ctx) config a)"
    unfolding rerun_run_def Let_def by (simp split: sum.split option.split) blast
  with refused launched show ?thesis by blast
qed

lemma rerun_keeps_original:
  assumes "fresh_uuids (re_jobs re)" and "find_run (a_db a) k = Some r"
  shows "find_run (a_db (snd (rerun_run re st rid ctx a))) k = Some r \<and>
    events_of (a_db (snd (rerun_run re st rid ctx a))) k = events_of (a_db a) k \<and>
    results_of (a_db (snd (rerun_run re st rid ctx a))) k = results_of (a_db a) k"
proof (cases rule: rerun_run_cases [of re st rid ctx a])
  case (launched prior c s tests config)
  from next_run_id_fresh [OF assms(1)] assms(2) have "k \<noteq> next_run_id re (a_db a)"
    by auto
  with launched(5) assms(2) find_run_launch(1) [OF next_run_id_fresh [OF assms(1)]] show ?thesis
    by (simp add: launch_run_other)
qed (use assms in simp)

lemma rerun_run_http:
  "fst (rerun_run re st rid ctx a) = Inl (HTTPException n d) \<Longrightarrow> snd (rerun_run re st rid ctx a) = a"
  by (cases rule: rerun_run_cases [of re st rid ctx a]) (simp_all add: launch_run_http)

text \<open>The configuration a run stores is one a later request accepts.\<close>

lemma only_model_fields_stored:
  "only_model_fields (stored_config c s tests) = dump_run_config c"
  by (simp add: only_model_fields_def stored_config_def dump_run_config_def MODEL_FIELDS_def)

lemma rerun_of_created:
  assumes "valid_run_config c" and "r_config r = stored_config c s tests"
  shows "rerun_config r = Some (c\<lparr>rc_saved_certs := []\<rparr>)"
proof -
  have "dict_set ''saved_certs'' (JDict []) (dump_run_config c) = dump_run_config (c\<lparr>rc_saved_certs := []\<rparr>)"
    by (simp add: dump_run_config_def)
  moreover have "valid_run_config (c\<lparr>rc_saved_certs := []\<rparr>)"
    using assms(1) by (simp add: valid_run_config_def)
  ultimately show ?thesis
    using assms(2) by (simp add: rerun_config_def only_model_fields_stored parse_dump)
qed

section \<open>Deleting\<close>

lemma delete_run_complete:
  assumes "fst (delete_run re rid ctx a) = Inr ()"
  shows "find_run (a_db (snd (delete_run re rid ctx a))) rid = None \<and>
    events_of (a_db (snd (delete_run re rid ctx a))) rid = [] \<and>
    results_of (a_db (snd (delete_run re rid ctx a))) rid = [] \<and>
    dict_get (a_files (snd (delete_run re rid ctx a))) rid = None"
  using assms
  by (auto simp: delete_run_def find_run_delete events_of_delete results_of_delete delete_dir_def delete_conv'
      split: sum.splits prod.splits)

section \<open>Key material\<close>

definition keys_sensitive :: "stored \<Rightarrow> bool" where
  "keys_sensitive s \<longleftrightarrow> (\<forall>data b. dict_get (so_files s) ''client_key'' = Some (data, b) \<longrightarrow> b)"

lemma keys_sensitive_put:
  "keys_sensitive s \<Longrightarrow> (slot = ''client_key'' \<Longrightarrow> b) \<Longrightarrow> keys_sensitive (put_file slot data b shown s)"
  by (auto simp: keys_sensitive_def put_file_def update_conv' split: if_splits)

lemma store_cert_keys:
  "store_cert re st slot chain up s = Inr s' \<Longrightarrow> slot \<noteq> ''client_key'' \<Longrightarrow> keys_sensitive s \<Longrightarrow> keys_sensitive s'"
proof (cases up)
  case (Some u)
  assume "store_cert re st slot chain up s = Inr s'" and other: "slot \<noteq> ''client_key''" "keys_sensitive s"
  with Some obtain data where data: "(case (if chain then load_certificate_chain (re_lib re) data
        else map_sum id (\<lambda>c. [c]) (load_certificate (re_lib re) data)) of
      Inl msg \<Rightarrow> Inl (HTTPException 400 (slot @ '': '' @ msg))
    | Inr certs \<Rightarrow> Inr (put_file slot (to_pem certs) False (shown_name slot u) s)) = Inr s'"
    by (auto simp: store_cert_def)
  then show "keys_sensitive s'"
    using other by (cases "if chain then load_certificate_chain (re_lib re) data
        else map_sum id (\<lambda>c. [c]) (load_certificate (re_lib re) data)") (auto intro: keys_sensitive_put)
qed (simp add: store_cert_def)

lemma store_certs_keys:
  "store_certs re st slots ups s = Inr s' \<Longrightarrow> ''client_key'' \<notin> fst ` set slots \<Longrightarrow> keys_sensitive s \<Longrightarrow> keys_sensitive s'"
  by (induction re st slots ups s rule: store_certs.induct) (auto dest: store_cert_keys)

lemma store_saved_certs_keys:
  "store_saved_certs db w saved s = Inr s' \<Longrightarrow> list_all (\<lambda>(slot, _). slot \<in> set SAVED_CERT_SLOTS) saved \<Longrightarrow>
     keys_sensitive s \<Longrightarrow> keys_sensitive s'"
  by (induction db w saved s rule: store_saved_certs.induct)
    (auto simp: SAVED_CERT_SLOTS_def intro!: keys_sensitive_put split: if_splits option.splits)

lemma store_submission_keys:
  assumes "store_submission re st ctx db c ups = Inr s" and "valid_run_config c"
  shows "keys_sensitive s \<and> dict_get (so_files s) ''issuer_cert'' \<noteq> None"
proof -
  have "keys_sensitive nothing_stored"
    by (simp add: keys_sensitive_def nothing_stored_def)
  moreover have "''client_key'' \<notin> fst ` set CERT_SLOTS"
    by (simp add: CERT_SLOTS_def)
  moreover have "list_all (\<lambda>(slot, _). slot \<in> set SAVED_CERT_SLOTS) (rc_saved_certs c)"
    using assms(2) by (simp add: valid_run_config_def)
  ultimately show ?thesis
    using assms(1)
    by (auto simp: store_submission_def store_key_def intro: keys_sensitive_put
        split: if_splits option.splits dest!: store_certs_keys store_saved_certs_keys)
qed

end
