(* ===== verification/Sample_Runs.thy ===== *)
theory Sample_Runs
  imports Sample Run_Properties
begin

text \<open>The concrete deployment with a run in it, for the properties of runs.\<close>

definition sample_jobs_env :: job_env where
  "sample_jobs_env = \<lparr>je_now = 50, je_uuid = (\<lambda>ids. CHR ''r'' # concat ids), je_loads = (\<lambda>s. None),
     je_fromisoformat = (\<lambda>s. None), je_isoformat = (\<lambda>t. ''t''), je_repr = (\<lambda>j. ''?'')\<rparr>"

lemma sample_jobs_env_simps [simp]:
  "je_now sample_jobs_env = 50" "je_uuid sample_jobs_env ids = CHR ''r'' # concat ids"
  "je_loads sample_jobs_env s = None" "je_isoformat sample_jobs_env t = ''t''"
  by (simp_all add: sample_jobs_env_def)

lemma sample_uuids_fresh [simp]: "fresh_uuids sample_jobs_env"
proof -
  have "x \<in> set ids \<Longrightarrow> length x \<le> length (concat ids)" for x and ids :: "string list"
    by (induction ids) auto
  then have "CHR ''r'' # concat ids \<notin> set ids" for ids
    by (metis impossible_Cons)
  then show ?thesis by (simp add: fresh_uuids_def)
qed

definition sample_config :: run_config where
  "sample_config = \<lparr>rc_name = Some ''nightly'', rc_ocsp_url = ''http://ca.test/x'', rc_crl_urls = [],
     rc_request_method = ''auto'', rc_nonce_enabled = True, rc_nonce_length = 32, rc_latency_samples = 5,
     rc_enable_load_test = False, rc_load_concurrency = 5, rc_load_requests = 50, rc_timeout_seconds = 10,
     rc_run_timeout_seconds = 900, rc_max_age_hours = 24, rc_trust_anchor_type = ''root'',
     rc_require_explicit_policy = False, rc_inhibit_policy_mapping = False,
     rc_categories = default_categories, rc_test_selection = default_selection, rc_saved_certs = [],
     rc_profile_id = None\<rparr>"

lemma sample_config_valid [simp]: "valid_run_config sample_config"
  by (simp add: valid_run_config_def sample_config_def must_be_http_def str_lower_def lower_char_def startswith_def
      default_selection_def)

definition sample_stored :: stored where
  "sample_stored = put_file ''issuer_cert'' ''CERT'' False ''ca.pem'' nothing_stored"

definition sample_run :: run where
  "sample_run = \<lparr>r_id = ''run'', r_workspace_id = Some 1, r_created_by_user_id = Some 1,
     r_name = Some ''nightly'', r_ocsp_url = ''http://ca.test/x'', r_status = ''completed'', r_created_at = 10,
     r_started_at = Some 11, r_finished_at = Some 12, r_config = stored_config sample_config sample_stored None,
     r_error = None, r_current_activity = None, r_totals = [], r_latency = None, r_last_seq = 1\<rparr>"

definition sample_event :: run_event where
  "sample_event = \<lparr>e_run_id = ''run'', e_seq = 1, e_type = ''log'', e_ts = 11, e_payload = []\<rparr>"

definition runs_db :: db where
  "runs_db = sample_db\<lparr>runs := [sample_run], run_events := [sample_event]\<rparr>"

definition sample_job_state :: job_state where
  "sample_job_state = \<lparr>j_db = runs_db, j_processes = {}, j_cancel_requested = {}, j_cancel_flags = {},
     j_escalations = {}\<rparr>"

definition sample_app :: app_state where
  "sample_app = \<lparr>a_jobs = sample_job_state,
     a_files = [(''run'', \<lparr>rd_uploads = [(''issuer_cert'', (''CERT'', False))], rd_manifest = None, rd_mtime = 11\<rparr>)]\<rparr>"

lemma find_sample_run [simp]: "find_run runs_db k = (if k = ''run'' then Some sample_run else None)"
  by (simp add: find_run_def runs_db_def get_row_simps sample_run_def)

lemma sample_events: "events_of runs_db k = (if k = ''run'' then [sample_event] else [])"
  by (simp add: events_of_def runs_db_def sample_event_def)

lemma sample_results: "results_of runs_db k = []"
  by (simp add: results_of_def runs_db_def sample_defs)

lemma runs_db_wf [simp]: "jobs_wf runs_db"
proof -
  have "map e_seq (events_of runs_db k) = [1..<Suc (last_seq_of runs_db k)]" for k
    by (simp add: sample_events last_seq_of_def sample_run_def sample_event_def)
  moreover have "totals_of runs_db k = []" for k
    by (simp add: totals_of_def sample_run_def)
  ultimately show ?thesis
    by (simp add: jobs_wf_def log_wf_def totals_wf_def sample_results expected_count_def del: upt_Suc)
qed

lemma sample_db_simps [simp]: "j_db sample_job_state = runs_db" "a_db sample_app = runs_db"
  by (simp_all add: sample_job_state_def sample_app_def)

definition sample_certificate :: certificate where
  "sample_certificate = \<lparr>x_der = ''DER'', x_pem = ''PEM'', x_subject = ''CN=Test CA'', x_issuer = ''CN=Test CA'',
     x_common_names = [''Test CA''], x_serial_number = 7, x_not_before = 0, x_not_after = 100,
     x_public_key = RSAKey 2048, x_signature_oid = \<lparr>oid_dotted = ''1.2.840.113549.1.1.11'', oid_name = None\<rparr>,
     x_ski = None, x_aki = None, x_aia = None, x_cdp = None, x_basic_constraints = Some True, x_san = None,
     x_key_usage = None, x_eku = None, x_policies = None\<rparr>"

definition sample_lib :: x509_lib where
  "sample_lib = \<lparr>lib_load_pem = (\<lambda>s. Some sample_certificate), lib_load_der = (\<lambda>s. None), lib_load_pem_many = (\<lambda>s. Inr [sample_certificate]),
     lib_load_pkcs7 = (\<lambda>s. None), lib_sha256_hex = rev\<rparr>"

definition sample_run_env :: run_env where
  "sample_run_env = \<lparr>re_env = sample_env, re_jobs = sample_jobs_env, re_lib = sample_lib,
     re_getaddrinfo = (\<lambda>h. Some [''93.184.216.34'']), re_runs_dir = ''/runs'', re_like = (\<lambda>s p. True)\<rparr>"

lemma sample_run_env_simps [simp]:
  "re_jobs sample_run_env = sample_jobs_env" "re_env sample_run_env = sample_env"
  "re_lib sample_run_env = sample_lib" "re_getaddrinfo sample_run_env = (\<lambda>h. Some [''93.184.216.34''])"
  by (simp_all add: sample_run_env_def)

lemma sample_ctx_id [simp]: "ctx_id sample_ctx = 1"
  by (simp add: ctx_id_def sample_ctx_def sample_workspace_def)

end
