(* ===== verification/Job_Properties.thy ===== *)
theory Job_Properties
  imports Pipeline Stream_Api Sample_Runs
begin

text \<open>
  The properties of the job manager, the live stream and the worker: what is recorded of a run,
  in which order it is delivered, and what a category can do to the others.
\<close>

section \<open>From the worker to the database\<close>

text \<open>C15: A worker's output, consumed to its end by the supervisor, ends the run in a terminal
  status: the one the worker's only final event announces (a completion counts as cancelled when
  a cancellation was asked for). Every result event became a row of the run. This holds for every
  engine, every manifest and every resolver.\<close>

theorem worker_output_recorded:
  assumes "list_all2 (carries je) lines (worker_main we gai engine load_cert cancel manifest)"
    and "run_timeout st (j_db js) rid = Inr t" and "find_run (j_db js) rid \<noteq> None"
  shows "\<exists>r final. find_run (j_db (snd (supervise je st rid lines (Exited code) js))) rid = Some r
    \<and> finals (worker_main we gai engine load_cert cancel manifest) = [final]
    \<and> r_status r = (if rid \<in> j_cancel_requested js \<and> announced final = ''completed'' then ''cancelled''
        else announced final)
    \<and> r_status r \<in> set TERMINAL_STATUSES
    \<and> length (results_of (j_db (snd (supervise je st rid lines (Exited code) js))) rid)
        = length (results_of (j_db js) rid)
          + length (filter is_result (worker_main we gai engine load_cert cancel manifest))"
proof -
  let ?es = "worker_main we gai engine load_cert cancel manifest"
  obtain k d where final: "finals ?es = [(k, d)]"
    and ok: "k = ''fatal'' \<or> (k = ''done'' \<and> jget d ''status'' JNull \<in> {JStr ''completed'', JStr ''failed'', JStr ''cancelled''})"
    using worker_main_final [of we gai engine load_cert cancel manifest] by blast
  from ok have "announced (k, d) \<in> {''completed'', ''failed'', ''cancelled''}"
    by (auto simp: announced_def dest: dict_get_same [where w = "JStr ''completed''"])
  then have "announced (k, d) \<in> set TERMINAL_STATUSES" and "''cancelled'' \<in> set TERMINAL_STATUSES"
    by (auto simp: TERMINAL_STATUSES_def)
  with supervise_worker [OF assms(1) worker_main_protocol final assms(2), of code] assms(3) final
  show ?thesis by (fastforce simp: run_exists_def)
qed

definition one_worker :: worker_env where
  "one_worker = \<lparr>wk_now = 0, wk_isoformat = (\<lambda>t. ''t''), wk_repr = (\<lambda>j. ''?''), wk_uuid = (\<lambda>n. ''u''),
     wk_format_exc = ''tb''\<rparr>"

definition no_manifest_record :: "(string \<times> json) list" where
  "no_manifest_record = event_record ''t'' (''fatal'', [(''error'', JStr ''Failed to initialize run: gone'')])"

definition one_line_env :: job_env where
  "one_line_env = sample_jobs_env\<lparr>je_loads := (\<lambda>s. if s = ''L'' then Some (JDict no_manifest_record) else None)\<rparr>"

theorem worker_output_recorded_witness:
  "\<exists>r. find_run (j_db (snd (supervise one_line_env default_settings ''run'' [''L''] (Exited 1) sample_job_state))) ''run''
     = Some r \<and> r_status r = ''failed''"
proof -
  let ?main = "worker_main one_worker (\<lambda>h. None) (\<lambda>opts k a. ([], None)) (\<lambda>s. True) (\<lambda>n. False) (Inl (Uncaught ''gone''))"
  have main: "?main = [(''fatal'', [(''error'', JStr ''Failed to initialize run: gone'')])]"
    by (simp add: worker_main_def emit_def error_text_def)
  have "list_all2 (carries one_line_env) [''L''] ?main"
    unfolding main
    by (simp add: carries_def parse_event_def one_line_env_def strip_def lstrip_def rstrip_by_def is_space_def
        no_manifest_record_def) blast
  moreover have "run_timeout default_settings (j_db sample_job_state) ''run'' = Inr 900"
    by (simp add: run_timeout_def sample_run_def stored_config_def dump_run_config_def sample_config_def
        default_settings_def)
  ultimately show ?thesis
    using worker_output_recorded [of one_line_env "[''L'']" one_worker "\<lambda>h. None" "\<lambda>opts k a. ([], None)" "\<lambda>s. True"
        "\<lambda>n. False" "Inl (Uncaught ''gone'')" default_settings sample_job_state "''run''" 900 1]
    unfolding main by (auto simp: finals_def is_final_def announced_def)
qed

section \<open>The log\<close>



text \<open>C17: Appending an event by a read of the counter and a later commit is the atomic append when
  nothing happens in between; when another append of the same run was committed first, the commit
  is refused by the unique index instead of reusing the number.\<close>

theorem append_two_phase:
  assumes "log_wf db" and "append_read db rid = Some n"
  shows "append_commit je rid n t p db = Inr (append_event je rid t p db)
    \<and> append_commit je rid n t' p' (append_event je rid t p db) = Inl (Uncaught ''IntegrityError'')"
  using append_read_commit [OF assms] append_commit_race by metis

theorem append_two_phase_witness:
  "append_commit sample_jobs_env ''run'' 1 ''log'' [] runs_db = Inr (append_event sample_jobs_env ''run'' ''log'' [] runs_db)"
proof -
  have "log_wf runs_db" using runs_db_wf by (simp add: jobs_wf_def)
  moreover have "append_read runs_db ''run'' = Some 1"
    by (simp add: append_read_def sample_run_def)
  ultimately show ?thesis
    using append_two_phase [of runs_db "''run''" 1 sample_jobs_env "''log''" "[]"] by blast
qed



section \<open>The worker\<close>

text \<open>C19: Whatever the engine and the environment do, the worker writes exactly one final event: a
  fatal error, or a completion with one of the statuses the supervisor knows.\<close>

theorem worker_final_event:
  "\<exists>t d. finals (worker_main we gai engine load_cert cancel manifest) = [(t, d)] \<and>
     (t = ''fatal'' \<or>
      (t = ''done'' \<and> jget d ''status'' JNull \<in> {JStr ''completed'', JStr ''failed'', JStr ''cancelled''}))"
  by (rule worker_main_final)

text \<open>C20: With a configuration the API accepted and a resolved selection, a run that is not
  cancelled goes through all enabled categories, in order, and completes - also when any of them
  crashes or returns results that cannot be enriched.\<close>

theorem crash_isolated:
  assumes "valid_run_config c"
    and "resolved = JNull \<or> (\<exists>d. resolved = JDict d \<and> list_all (\<lambda>(_, v). case v of JList _ \<Rightarrow> True | _ \<Rightarrow> False) d)"
    and "\<And>n. \<not> cancel n"
  shows "fst (run_enabled we engine cancel (dict_set ''resolved_test_selection'' resolved (dump_run_config c)) w) = Completed
    \<and> finished (snd (run_enabled we engine cancel (dict_set ''resolved_test_selection'' resolved (dump_run_config c)) w))
      = finished w @ map label_of (enabled_keys (dump_run_config c))"
proof -
  let ?cfg = "dict_set ''resolved_test_selection'' resolved (dump_run_config c)"
  let ?keys = "enabled_keys ?cfg" and ?sel = "json_dict (jget ?cfg ''resolved_test_selection'' JNull)"
  let ?r = "run_categories we engine ?cfg ?sel cancel 0 (length ?keys) ?keys (announce_run ?keys ?sel w)"
  have "selection_ok ?sel"
    using assms(2) by (auto simp: selection_ok_def)
  from run_categories_survive [OF submitted_config_ok [OF assms(1)] this assms(3)]
  have completed: "fst ?r = Completed" .
  have "finished (announce_run ?keys ?sel w) = finished w"
    by (simp add: announce_run_def Let_def)
  with finished_run_categories [OF completed] have
    "finished (snd ?r) = finished w @ map label_of ?keys" by simp
  moreover have "?keys = enabled_keys (dump_run_config c)"
    by (simp add: enabled_keys_def)
  moreover have "run_enabled we engine cancel ?cfg w = (Completed, worker_log ''INFO'' ''Run complete''
      (emit ''done'' (done_event ''completed'' None (w_latencies (snd ?r))) (snd ?r)))"
    using completed by (simp add: run_enabled_def Let_def)
  ultimately show ?thesis
    by (simp add: finished_emit finished_activity_def)
qed

theorem crash_isolated_witness:
  "finished (snd (run_enabled one_worker (\<lambda>k a. ([], Some ''boom'')) (\<lambda>n. False)
     (dict_set ''resolved_test_selection'' JNull (dump_run_config sample_config)) \<lparr>w_events = [], w_latencies = []\<rparr>))
   = map label_of (enabled_keys (dump_run_config sample_config))"
  using crash_isolated [OF sample_config_valid, of JNull "\<lambda>n. False" one_worker "\<lambda>k a. ([], Some ''boom'')"
      "\<lparr>w_events = [], w_latencies = []\<rparr>"]
  by (simp add: finished_def map_filter_def)

text \<open>The results a category emits are, in order, results whose names its selection covers
  (a selected name or one that extends it), followed, when the category crashed, by the one ERROR result
  that says so; results outside the selection never leave the worker.\<close>

theorem selection_honoured:
  assumes "category_selection sel key (wk_repr we) = Inr selected"
  shows "\<exists>streamed crash. result_names (snd (run_category we engine cfg sel n t key w))
      = result_names w @ map JStr streamed @ crash
    \<and> (crash = [] \<or> crash = [JStr (''Run '' @ label_of key)])
    \<and> list_all (\<lambda>nm. case selected of None \<Rightarrow> True | Some names \<Rightarrow> \<exists>base\<in>set names. startswith nm base) streamed
    \<and> set streamed \<subseteq> set (map (\<lambda>(r, _). test_case.tc_name r) (fst (engine key (set_active selected))))"
proof -
  have log: "result_names (worker_log l m w) = result_names w" for l m w
    by (simp add: result_names_def worker_log_def emit_def map_filter_def)
  have prog: "result_names (progress a n t w) = result_names w" for a n t w
    by (simp add: result_names_def progress_def emit_def map_filter_def)
  have crashed: "emit_result we cfg (error_result we n c nm exc) w1 = Inr w2 \<Longrightarrow>
      result_names w2 = result_names w1 @ [JStr nm]" for n c nm exc w1 w2
    by (auto simp: emit_result_def result_names_payload dest: enrich_name [where v = JNull])
  let ?active = "set_active selected"
  let ?w1 = "announce_selection (label_of key) selected (open_category (label_of key) n t w)"
  have w1: "result_names ?w1 = result_names w"
    by (simp add: announce_selection_def open_category_def log prog split: option.split)
  from stream_results_names [of we cfg ?active "fst (engine key ?active)" ?w1] w1 obtain streamed where
    s: "result_names (snd (stream_results we cfg ?active (fst (engine key ?active)) ?w1)) = result_names w @ map JStr streamed"
      "list_all (should_run ?active) streamed"
      "set streamed \<subseteq> set (map (\<lambda>(r, _). test_case.tc_name r) (fst (engine key ?active)))" by auto
  have "list_all (\<lambda>nm. case selected of None \<Rightarrow> True | Some names \<Rightarrow> \<exists>base\<in>set names. startswith nm base) streamed"
    using s(2) by (cases selected) (auto simp: set_active_def list_all_iff)
  moreover have "\<exists>crash. result_names (snd (run_category we engine cfg sel n t key w))
      = result_names w @ map JStr streamed @ crash \<and> (crash = [] \<or> crash = [JStr (''Run '' @ label_of key)])"
    using assms s(1) crashed
    by (auto simp: run_category_def Let_def prog log log_crash_def split: sum.split option.split)
  ultimately show ?thesis using s(3) by blast
qed

definition unselected :: test_case where
  "unselected = \<lparr>tc_id = ''1'', tc_name = ''b'', tc_category = ''CRL'', tc_status = PASS, tc_message = [],
     tc_details = [], tc_started_at = 0, tc_ended_at = None\<rparr>"

theorem selection_honoured_witness:
  "JStr ''b'' \<notin> set (result_names (snd (run_category one_worker (\<lambda>k a. ([(unselected, [])], None)) []
     (Some [(''crl'', JList [JStr ''a''])]) 0 1 ''crl'' \<lparr>w_events = [], w_latencies = []\<rparr>)))"
proof -
  have "category_selection (Some [(''crl'', JList [JStr ''a''])]) ''crl'' (wk_repr one_worker) = Inr (Some [''a''])"
    by (simp add: category_selection_def)
  from selection_honoured [OF this, of "\<lambda>k a. ([(unselected, [])], None)" "[]" 0 1 "\<lparr>w_events = [], w_latencies = []\<rparr>"]
  obtain streamed crash where s: "result_names (snd (run_category one_worker (\<lambda>k a. ([(unselected, [])], None)) []
       (Some [(''crl'', JList [JStr ''a''])]) 0 1 ''crl'' \<lparr>w_events = [], w_latencies = []\<rparr>)) = map JStr streamed @ crash"
    "crash = [] \<or> crash = [JStr (''Run '' @ label_of ''crl'')]"
    "list_all (\<lambda>nm. startswith nm ''a'') streamed"
    by (auto simp: result_names_def map_filter_def)
  then have "''b'' \<notin> set streamed"
    by (auto simp: list_all_iff startswith_def)
  with s show ?thesis by auto
qed

text \<open>No log event of the worker carries key material: a message that mentions a private key
  is replaced, up to the end of the run.\<close>

theorem worker_log_redacted:
  "list_all (\<lambda>(t, d). \<exists>m. jget d ''message'' JNull = JStr m \<and> \<not> contains m ''PRIVATE KEY'')
     (filter (\<lambda>(t, d). t = ''log'')
       (w_events (snd (run_worker we gai engine load_cert cancel jb \<lparr>w_events = [], w_latencies = []\<rparr>))))"
  using run_worker_redacted [of we gai engine load_cert cancel jb]
  by (auto simp: clean_event_def list_all_iff)

end
