(* ===== verification/Submission_Properties.thy ===== *)
theory Submission_Properties
  imports Sample_Runs Network_Properties
begin

text \<open>
  The properties of the run endpoints: what was checked before a run exists, what a refused request
  leaves behind, the concurrency cap, and how runs are repeated and deleted.
\<close>

section \<open>A submission that goes through\<close>

definition sample_uploads :: "(string, upload) dict" where
  "sample_uploads = [(''issuer_cert'', \<lparr>up_filename = Some ''ca.pem'', up_data = ''CERT''\<rparr>),
     (''client_key'', \<lparr>up_filename = None, up_data = ''PRIVATE KEY''\<rparr>)]"




lemma sample_submission_stored:
  "\<exists>s. store_submission sample_run_env default_settings sample_ctx runs_db sample_config sample_uploads = Inr s
     \<and> dict_get (so_files s) ''client_key'' = Some (''PRIVATE KEY'', True)"
  by (simp add: store_submission_def CERT_SLOTS_def store_cert_def sample_uploads_def read_limited_upload_def
      default_settings_def load_certificate_def load_certificate_chain_def sample_lib_def strip_def lstrip_def rstrip_by_def
      is_space_def contains_def store_key_def validate_private_key_pem_def sample_config_def put_file_def shown_name_def
      nothing_stored_def sublist_Cons_right)




section \<open>Refusals and the cap\<close>





section \<open>Repeating and deleting\<close>

text \<open>A rerun leaves every existing run untouched: its row, its event log and its results.\<close>

theorem rerun_isolated:
  assumes "fresh_uuids (re_jobs re)" and "find_run (a_db a) k = Some r"
  shows "find_run (a_db (snd (rerun_run re st rid ctx a))) k = Some r
    \<and> events_of (a_db (snd (rerun_run re st rid ctx a))) k = events_of (a_db a) k
    \<and> results_of (a_db (snd (rerun_run re st rid ctx a))) k = results_of (a_db a) k"
  by (rule rerun_keeps_original [OF assms])

theorem rerun_isolated_witness:
  "find_run (a_db (snd (rerun_run sample_run_env default_settings ''run'' sample_ctx sample_app))) ''run''
     = Some sample_run"
  using rerun_isolated [of sample_run_env sample_app "''run''" sample_run] by simp

text \<open>C30: The configuration a submission stores is one a rerun reads back unchanged, except that the
  saved certificates are taken from the copied files instead.\<close>

theorem stored_config_reruns:
  assumes "valid_run_config c" and "r_config r = stored_config c s tests"
  shows "rerun_config r = Some (c\<lparr>rc_saved_certs := []\<rparr>)"
  by (rule rerun_of_created [OF assms])

theorem stored_config_reruns_witness: "rerun_config sample_run = Some (sample_config\<lparr>rc_saved_certs := []\<rparr>)"
  by (rule stored_config_reruns [OF sample_config_valid, of sample_run sample_stored None]) (simp add: sample_run_def)

text \<open>After a deletion that succeeded nothing of the run is left: no row, no events, no results, no
  directory.\<close>

theorem delete_run_leaves_nothing:
  assumes "fst (delete_run re rid ctx a) = Inr ()"
  shows "find_run (a_db (snd (delete_run re rid ctx a))) rid = None
    \<and> events_of (a_db (snd (delete_run re rid ctx a))) rid = []
    \<and> results_of (a_db (snd (delete_run re rid ctx a))) rid = []
    \<and> dict_get (a_files (snd (delete_run re rid ctx a))) rid = None"
  by (rule delete_run_complete [OF assms])

theorem delete_run_leaves_nothing_witness:
  "events_of (a_db (snd (delete_run sample_run_env ''run'' sample_ctx sample_app))) ''run'' = []
    \<and> events_of (a_db sample_app) ''run'' = [sample_event]"
proof -
  have "fst (delete_run sample_run_env ''run'' sample_ctx sample_app) = Inr ()"
    by (simp add: delete_run_def get_run_or_404_def sample_run_def own_runs_only_def sample_ctx_def
        sample_workspace_def TERMINAL_STATUSES_def ctx_id_def)
  from delete_run_leaves_nothing [OF this] show ?thesis by (simp add: sample_events)
qed

section \<open>Key material\<close>

text \<open>A submission that is stored has an issuer certificate, and a client key it brought is stored
  restricted to the owner - no other slot, uploaded or taken from the library, can take its place.\<close>

theorem client_key_restricted:
  assumes "store_submission re st ctx db c ups = Inr s" and "valid_run_config c"
  shows "(case dict_get (so_files s) ''client_key'' of None \<Rightarrow> True | Some (data, owner_only) \<Rightarrow> owner_only)
    \<and> dict_get (so_files s) ''issuer_cert'' \<noteq> None"
  using store_submission_keys [OF assms] by (auto simp: keys_sensitive_def split: option.split)

theorem client_key_restricted_witness:
  "\<exists>s. store_submission sample_run_env default_settings sample_ctx runs_db sample_config sample_uploads = Inr s
     \<and> dict_get (so_files s) ''client_key'' = Some (''PRIVATE KEY'', True) \<and> dict_get (so_files s) ''issuer_cert'' \<noteq> None"
proof -
  from sample_submission_stored obtain s where
      s: "store_submission sample_run_env default_settings sample_ctx runs_db sample_config sample_uploads = Inr s"
        "dict_get (so_files s) ''client_key'' = Some (''PRIVATE KEY'', True)" by blast
  with client_key_restricted [OF s(1)] show ?thesis by simp
qed

end
