(* ===== verification/Exports.thy ===== *)
theory Exports
  imports Runs_Api
begin

text \<open>
  The JSON and CSV exports of a run (\<open>backend/app/exports.py\<close>) and their endpoints in
  \<open>backend/app/api/runs.py\<close>. The CSV text is what \<open>csv.DictWriter\<close> writes in the default dialect;
  a reader of that dialect gets the cells back.
\<close>

section \<open>JSON\<close>

definition time_json :: "(int \<Rightarrow> string) \<Rightarrow> int option \<Rightarrow> json" where
  "time_json isoformat t = json_opt (\<lambda>t. JStr (isoformat t)) t"

definition run_export :: "(int \<Rightarrow> string) \<Rightarrow> run \<Rightarrow> json" where
  "run_export isoformat r = JDict
     [(''id'', JStr (r_id r)), (''name'', json_opt JStr (r_name r)), (''ocsp_url'', JStr (r_ocsp_url r)),
      (''status'', JStr (r_status r)), (''created_at'', JStr (isoformat (r_created_at r))),
      (''started_at'', time_json isoformat (r_started_at r)),
      (''finished_at'', time_json isoformat (r_finished_at r)),
      (''totals'', JDict (map (\<lambda>(k, n). (k, JInt n)) (r_totals r))),
      (''latency'', json_opt id (r_latency r)), (''error'', json_opt JStr (r_error r)),
      (''config'', JDict (r_config r))]"

definition result_export :: "(int \<Rightarrow> string) \<Rightarrow> test_result \<Rightarrow> json" where
  "result_export isoformat r = JDict
     [(''id'', JStr (res_id r)), (''category'', JStr (res_category r)), (''name'', JStr (res_name r)),
      (''status'', JStr (res_status r)), (''message'', JStr (res_message r)), (''details'', res_details r),
      (''started_at'', time_json isoformat (res_started_at r)),
      (''ended_at'', time_json isoformat (res_ended_at r)),
      (''duration_ms'', json_opt JInt (res_duration_ms r))]"

text \<open>\<open>{"seq": ..., "ts": ..., **e.payload}\<close>: the payload overrides.\<close>

definition log_export :: "(int \<Rightarrow> string) \<Rightarrow> run_event \<Rightarrow> json" where
  "log_export isoformat e = JDict
     (foldl (\<lambda>d (k, v). dict_set k v d) [(''seq'', JInt (int (e_seq e))), (''ts'', JStr (isoformat (e_ts e)))]
        (e_payload e))"

definition build_json_export :: "(int \<Rightarrow> string) \<Rightarrow> run \<Rightarrow> test_result list \<Rightarrow> run_event list \<Rightarrow> json" where
  "build_json_export isoformat r results events = JDict
     [(''run'', run_export isoformat r), (''results'', JList (map (result_export isoformat) results)),
      (''logs'', JList (map (log_export isoformat) (filter (\<lambda>e. e_type e = ''log'') events)))]"

definition export_json :: "run_env \<Rightarrow> string \<Rightarrow> workspace_context \<Rightarrow> db \<Rightarrow> json result" where
  "export_json re rid ctx db =
     bind_result (get_run_or_404 db rid ctx) (\<lambda>r.
       Inr (build_json_export (je_isoformat (re_jobs re)) r
         (sort_key res_started_at (filter (\<lambda>x. res_run_id x = rid) (test_results db)))
         (sort_key e_seq (filter (\<lambda>e. e_run_id e = rid) (run_events db)))))"

section \<open>CSV\<close>

definition CSV_COLUMNS :: "string list" where
  "CSV_COLUMNS = [''id'', ''category'', ''name'', ''status'', ''message'', ''duration_ms'', ''started_at'',
     ''ended_at'', ''details'']"

definition CRLF :: string where
  "CRLF = [CHR 0x0D, CHR 0x0A]"

definition needs_quotes :: "string \<Rightarrow> bool" where
  "needs_quotes s \<longleftrightarrow> list_ex (\<lambda>c. c \<in> {CHR '','', CHR 0x22, CHR 0x0D, CHR 0x0A}) s"

definition csv_field :: "string \<Rightarrow> string" where
  "csv_field s =
     (if needs_quotes s
      then [CHR 0x22] @ concat (map (\<lambda>c. if c = CHR 0x22 then [CHR 0x22, CHR 0x22] else [c]) s) @ [CHR 0x22]
      else s)"

definition csv_row :: "string list \<Rightarrow> string" where
  "csv_row cells = join_with '','' (map csv_field cells) @ CRLF"

text \<open>A missing duration is written as an empty cell.\<close>

definition result_fields :: "(int \<Rightarrow> string) \<Rightarrow> (json \<Rightarrow> string) \<Rightarrow> test_result \<Rightarrow> string list" where
  "result_fields isoformat dumps r =
     [res_id r, res_category r, res_name r, res_status r, res_message r,
      (case res_duration_ms r of None \<Rightarrow> [] | Some d \<Rightarrow> show_int d),
      (case res_started_at r of None \<Rightarrow> [] | Some t \<Rightarrow> isoformat t),
      (case res_ended_at r of None \<Rightarrow> [] | Some t \<Rightarrow> isoformat t),
      dumps (res_details r)]"

definition build_csv_export :: "(int \<Rightarrow> string) \<Rightarrow> (json \<Rightarrow> string) \<Rightarrow> test_result list \<Rightarrow> string" where
  "build_csv_export isoformat dumps results =
     concat (map csv_row (CSV_COLUMNS # map (result_fields isoformat dumps) results))"

definition export_csv ::
  "run_env \<Rightarrow> (json \<Rightarrow> string) \<Rightarrow> string \<Rightarrow> workspace_context \<Rightarrow> db \<Rightarrow> string result" where
  "export_csv re dumps rid ctx db =
     bind_result (get_run_or_404 db rid ctx) (\<lambda>_.
       Inr (build_csv_export (je_isoformat (re_jobs re)) dumps
         (sort_key res_started_at (filter (\<lambda>x. res_run_id x = rid) (test_results db)))))"

section \<open>Reading a CSV export back\<close>

text \<open>A reader of the default dialect: the cell so far, the cells so far, the rows so far.\<close>

datatype csv_mode = Bare | Quoted | AfterQuote

fun csv_read :: "csv_mode \<Rightarrow> string \<Rightarrow> string list \<Rightarrow> string list list \<Rightarrow> string \<Rightarrow> string list list" where
  "csv_read m cell cells rows [] = rows"
| "csv_read Quoted cell cells rows (c # cs) =
     (if c = CHR 0x22 then csv_read AfterQuote cell cells rows cs
      else csv_read Quoted (cell @ [c]) cells rows cs)"
| "csv_read AfterQuote cell cells rows (c # cs) =
     (if c = CHR 0x22 then csv_read Quoted (cell @ [c]) cells rows cs
      else if c = CHR '','' then csv_read Bare [] (cells @ [cell]) rows cs
      else if c = CHR 0x0A then csv_read Bare [] [] (rows @ [cells @ [cell]]) cs
      else csv_read AfterQuote cell cells rows cs)"
| "csv_read Bare cell cells rows (c # cs) =
     (if c = CHR 0x22 \<and> cell = [] then csv_read Quoted [] cells rows cs
      else if c = CHR '','' then csv_read Bare [] (cells @ [cell]) rows cs
      else if c = CHR 0x0D then csv_read AfterQuote cell cells rows cs
      else csv_read Bare (cell @ [c]) cells rows cs)"

definition parse_csv :: "string \<Rightarrow> string list list" where
  "parse_csv s = csv_read Bare [] [] [] s"

lemma read_quoted:
  "csv_read Quoted cell cells rows
     (concat (map (\<lambda>c. if c = CHR 0x22 then [CHR 0x22, CHR 0x22] else [c]) s) @ CHR 0x22 # rest) =
   csv_read AfterQuote (cell @ s) cells rows rest"
  by (induction s arbitrary: cell) auto

lemma read_bare:
  assumes "\<not> needs_quotes s"
  shows "csv_read Bare cell cells rows (s @ rest) = csv_read Bare (cell @ s) cells rows rest"
  using assms by (induction s arbitrary: cell) (auto simp: needs_quotes_def)

lemma read_field_comma:
  "csv_read Bare [] cells rows (csv_field s @ CHR '','' # rest) = csv_read Bare [] (cells @ [s]) rows rest"
  by (cases "needs_quotes s") (simp_all add: csv_field_def read_quoted read_bare)

lemma read_field_end:
  "csv_read Bare [] cells rows (csv_field s @ CRLF @ rest) = csv_read Bare [] [] (rows @ [cells @ [s]]) rest"
  by (cases "needs_quotes s") (simp_all add: csv_field_def read_quoted read_bare CRLF_def)

lemma read_row:
  "fs \<noteq> [] \<Longrightarrow>
     csv_read Bare [] cells rows (csv_row fs @ rest) = csv_read Bare [] [] (rows @ [cells @ fs]) rest"
proof (induction fs arbitrary: cells)
  case (Cons f fs)
  show ?case
  proof (cases fs)
    case Nil
    then show ?thesis by (simp add: csv_row_def read_field_end)
  next
    case (Cons g gs)
    then have "csv_row (f # fs) @ rest = csv_field f @ CHR '','' # (csv_row fs @ rest)"
      by (simp add: csv_row_def)
    with Cons.IH [of "cells @ [f]"] Cons show ?thesis
      by (simp add: read_field_comma)
  qed
qed simp

lemma read_rows:
  "[] \<notin> set rs \<Longrightarrow> csv_read Bare [] [] rows (concat (map csv_row rs)) = rows @ rs"
  by (induction rs arbitrary: rows) (auto simp: read_row)

lemma parse_csv_export:
  "parse_csv (build_csv_export isoformat dumps results) =
     CSV_COLUMNS # map (result_fields isoformat dumps) results"
  unfolding parse_csv_def build_csv_export_def
  by (subst read_rows) (auto simp: CSV_COLUMNS_def result_fields_def)

end
