(* ===== verification/Data_Properties.thy ===== *)
theory Data_Properties
  imports Sample_Runs Exports Analysis
begin

text \<open>
  The properties of the data the program keeps and gives out: configurations, exports, the
  certificate library, profiles, the test selection, and the judgement on results.
\<close>

section \<open>Configurations and exports\<close>

text \<open>C31: A run configuration is stored without loss: what \<open>model_dump\<close> writes of a configuration the API
  accepted is accepted again and is that configuration; and whatever is accepted satisfies every
  bound of the schema.\<close>

theorem run_config_round_trip:
  assumes "parse_run_config d = Some c"
  shows "parse_run_config (dump_run_config c) = Some c \<and> valid_run_config c"
  using parse_valid [OF assms] parse_dump by blast

theorem run_config_round_trip_witness:
  "parse_run_config (dump_run_config sample_config) = Some sample_config \<and> valid_run_config sample_config"
  using run_config_round_trip [OF parse_dump [OF sample_config_valid]] by simp


section \<open>The certificate library\<close>

text \<open>C33: Importing is idempotent: a bundle that was imported is recognised, by fingerprint, in full when
  it comes again - under any name, from any source - and the library stays as it is.\<close>

theorem import_idempotent:
  assumes "ca_wf (ca_certs db)" and "fresh_ids env"
    and "import_certificates env lib ctx certs nm source url db = (Inr r, db')"
  shows "import_certificates env' lib ctx certs nm' source' url' db'
      = (Inr \<lparr>im_created = [], im_skipped_duplicates = length certs\<rparr>, db')
    \<and> list_all (\<lambda>c. list_ex (\<lambda>row. ca_workspace_id row = Some (ctx_id ctx) \<and> ca_fingerprint_sha256 row = fingerprint lib c)
        (ca_certs db')) certs"
proof
  show again: "import_certificates env' lib ctx certs nm' source' url' db'
      = (Inr \<lparr>im_created = [], im_skipped_duplicates = length certs\<rparr>, db')"
    by (rule import_again [OF assms])
  from assms(3) obtain given acc where "import_loop env lib ctx given source url certs acc db = (Inr r, db')"
    by (auto simp: import_certificates_def Let_def split: prod.splits sum.splits)
  from import_loop_keys [OF this]
  show "list_all (\<lambda>c. list_ex (\<lambda>row. ca_workspace_id row = Some (ctx_id ctx) \<and> ca_fingerprint_sha256 row = fingerprint lib c)
      (ca_certs db')) certs"
    by (fastforce simp: list_all_iff list_ex_iff ca_keys_def map_filter_def split: option.splits if_splits)
qed

lemma sample_import:
  "\<exists>r db'. import_certificates sample_env sample_lib sample_ctx [sample_certificate] None ''upload'' None sample_db = (Inr r, db')
     \<and> length (ca_certs db') = 1"
  by (simp add: import_certificates_def with_fingerprint_def sample_defs one_or_none_def insert_row_def Let_def)

theorem import_idempotent_witness:
  "\<exists>db'. import_certificates sample_env sample_lib sample_ctx [sample_certificate] (Some ''x'') ''url'' None db'
     = (Inr \<lparr>im_created = [], im_skipped_duplicates = 1\<rparr>, db') \<and> length (ca_certs db') = 1"
proof -
  from sample_import obtain r db' where
      i: "import_certificates sample_env sample_lib sample_ctx [sample_certificate] None ''upload'' None sample_db = (Inr r, db')"
        "length (ca_certs db') = 1" by blast
  have "ca_wf (ca_certs sample_db)"
    by (simp add: ca_wf_def sample_defs ca_keys_def)
  from import_idempotent [OF this sample_env_fresh i(1), of sample_env "Some ''x''" "''url''" None] i(2) show ?thesis by auto
qed

section \<open>Profiles\<close>

text \<open>C34: Along any sequence of creations, updates, shares and deletions of profiles, by anyone, profile
  identifiers stay unique and so do the names within each workspace.\<close>

theorem profile_names_unique:
  assumes "(profile_step env)\<^sup>*\<^sup>* db db'" and "fresh_ids env"
    and "distinct (map pf_id (profiles db))" and "distinct (profile_keys (profiles db))"
  shows "distinct (map pf_id (profiles db')) \<and> distinct (profile_keys (profiles db'))"
  using profile_steps_wf [OF assms(1,2)] assms(3,4) by (simp add: profiles_wf_def)

definition sample_profile :: profile_in where
  "sample_profile = \<lparr>pi_name = ''nightly'', pi_description = None, pi_config = sample_config\<rparr>"

theorem profile_names_unique_witness:
  "distinct (profile_keys (profiles (snd (create_profile sample_env sample_profile sample_ctx
     (snd (create_profile sample_env sample_profile sample_ctx sample_db))))))"
proof -
  have "(profile_step sample_env)\<^sup>*\<^sup>* sample_db (snd (create_profile sample_env sample_profile sample_ctx
     (snd (create_profile sample_env sample_profile sample_ctx sample_db))))"
    by (meson profile_step.create rtranclp.rtrancl_into_rtrancl rtranclp.rtrancl_refl)
  from profile_names_unique [OF this] show ?thesis
    by (simp add: sample_defs profile_keys_def)
qed

section \<open>The test selection\<close>

text \<open>C35: A selection the API accepts runs exactly the selected tests of each category: of the catalogue's
  tests, those that were named and no others, although the worker compares by prefix.\<close>

theorem accepted_selection_exact:
  assumes "validate_selection tests = None" and "dict_get tests category = Some names"
    and "dict_get catalog_index category = Some known" and "nm \<in> set known"
  shows "should_run (set_active (Some names)) nm \<longleftrightarrow> nm \<in> set names"
proof -
  have "(category, names) \<in> set tests"
    using assms(2) by (rule map_of_SomeD)
  with assms(1,3) have "set names \<subseteq> set known"
    by (fastforce simp: validate_selection_def validate_against_None)
  with catalog_selection [OF assms(3) _ assms(4)] show ?thesis
    by (simp add: set_active_def)
qed

theorem accepted_selection_exact_witness:
  "\<exists>nm other. should_run (set_active (Some [nm])) nm \<and> \<not> should_run (set_active (Some [nm])) other"
proof -
  obtain known where known: "dict_get catalog_index ''protocol'' = Some known"
    by (simp add: catalog_index_def TEST_CATALOG_def)
  obtain nm other rest where names: "known = nm # other # rest" "nm \<noteq> other"
    using known by (simp add: catalog_index_def TEST_CATALOG_def catalog_entry_def) blast
  have "validate_selection [(''protocol'', [nm])] = None"
    using known names by (simp add: validate_selection_def)
  with accepted_selection_exact [of "[(''protocol'', [nm])]" "''protocol''" "[nm]" known] known names show ?thesis
    by (intro exI [of _ nm] exI [of _ other]) simp
qed

text \<open>The global selection a run resolves is the one an administrator stored last, or none after it
  was cleared, and only a global administrator can store one.\<close>

theorem global_selection_round_trip:
  assumes "put_global_test_selection env p tests db = (Inr (), db')"
  shows "load_global_selection db' = map_option (map (\<lambda>(k, ns). (k, JList (map JStr ns)))) tests
    \<and> is_global_admin p"
  using load_after_put [OF assms] assms by (auto simp: put_global_test_selection_def split: if_splits)

theorem global_selection_round_trip_witness:
  "load_global_selection (snd (put_global_test_selection sample_env root_admin (Some []) sample_db)) = Some []"
proof -
  have "put_global_test_selection sample_env root_admin (Some []) sample_db
      = (Inr (), snd (put_global_test_selection sample_env root_admin (Some []) sample_db))"
    by (simp add: put_global_test_selection_def validate_selection_def sample_principals sample_user_def Let_def)
  from global_selection_round_trip [OF this] show ?thesis by simp
qed

section \<open>Results and their configuration\<close>

text \<open>C36: Enrichment never hides a failure and never passes stale data: the status of a result changes
  only from PASS to WARN, it does so when a next-update time anywhere in the details has passed,
  and no other field but the details changes.\<close>

theorem enrichment_judges:
  assumes "enrich_result repr now result cfg = Inr result'"
  shows "(jget result' ''status'' JNull = jget result ''status'' JNull \<or>
      jget result ''status'' JNull = JStr ''PASS'' \<and> jget result' ''status'' JNull = JStr ''WARN'')
    \<and> (jget result ''status'' JNull = JStr ''PASS'' \<longrightarrow>
       list_ex (\<lambda>(k, v). case parse_ts (raw_value v) of None \<Rightarrow> False | Some t \<Rightarrow> t < now)
         (find_keys [''next_update'', ''nextUpdate''] (jget result ''details'' (JDict []))) \<longrightarrow>
       jget result' ''status'' JNull = JStr ''WARN'')
    \<and> (k \<noteq> ''details'' \<and> k \<noteq> ''status'' \<longrightarrow> jget result' k JNull = jget result k JNull)"
  using assms
proof (rule enrich_resultE)
  fix details warnings details'
  assume d: "jget result ''details'' (JDict []) = JDict details"
    and w: "collect_warnings repr now result details cfg = Inr warnings"
    and other: "\<And>k w. k \<noteq> ''details'' \<Longrightarrow> k \<noteq> ''status'' \<Longrightarrow> jget result' k w = jget result k w"
    and status: "jget result' ''status'' JNull =
       (if warnings \<noteq> [] \<and> jget result ''status'' JNull = JStr ''PASS'' then JStr ''WARN''
        else jget result ''status'' JNull)"
  have "warnings \<noteq> []" if "list_ex (\<lambda>(k, v). case parse_ts (raw_value v) of None \<Rightarrow> False | Some t \<Rightarrow> t < now)
      (find_keys [''next_update'', ''nextUpdate''] (JDict details))"
  proof -
    from that obtain k v t where "(k, v) \<in> set (find_keys [''next_update'', ''nextUpdate''] (JDict details))"
        "parse_ts (raw_value v) = Some t" "t < now"
      by (auto simp: list_ex_iff simp del: find_keys.simps split: option.splits)
    from collect_warnings_expired [OF w this] show ?thesis .
  qed
  with d other status show ?thesis by auto
qed

definition stale_result :: "(string \<times> json) list" where
  "stale_result = [(''status'', JStr ''PASS''), (''category'', JStr ''CRL''),
     (''details'', JDict [(''next_update'', JStr ''2020-01-01T00:00:00Z'')])]"

lemma stale_time: "parse_ts (JStr ''2020-01-01T00:00:00Z'') = Some 1577836800000000"
  by (simp add: parse_ts_def strptime_def ISO_Z_def digits_within_def two_or_one_def day_alternatives_def
      digit_value_def lower_char_def char_of_def bit_0 blank_fields_def date_exists_def timestamp_def to_ordinal_def
      days_before_year_def days_before_month_def days_in_month_def is_leap_def epoch_ordinal_def Let_def)

theorem enrichment_judges_witness:
  "\<exists>r. enrich_result (\<lambda>j. ''?'') 1700000000000000 stale_result [] = Inr r \<and> jget r ''status'' JNull = JStr ''WARN''"
proof -
  have keys: "find_keys [''next_update'', ''nextUpdate''] (jget stale_result ''details'' (JDict []))
      = [(''next_update'', JStr ''2020-01-01T00:00:00Z'')]"
    by (simp add: stale_result_def)
  obtain r where r: "enrich_result (\<lambda>j. ''?'') 1700000000000000 stale_result [] = Inr r"
    by (simp add: enrich_result_def stale_result_def collect_warnings_def raw_value_def stale_time
        nonce_warning_def nonce_length_warning_def algorithm_warning_def category_refs_def CATEGORY_RFC_REFS_def Let_def)
  have "jget stale_result ''status'' JNull = JStr ''PASS''"
    by (simp add: stale_result_def)
  with enrichment_judges [OF r, of "''x''"] keys have "jget r ''status'' JNull = JStr ''WARN''"
    by (simp add: raw_value_def stale_time)
  with r show ?thesis by blast
qed

text \<open>A configuration given out never contains a client key: a filled slot shows a placeholder.\<close>

theorem shown_config_masked:
  assumes "sanitize_config config = Inr shown" and "jget shown ''files'' (JDict []) = JDict files"
  shows "case dict_get files ''client_key'' of None \<Rightarrow> True | Some v \<Rightarrow> v = JStr ''<provided>'' \<or> \<not> json_true v"
  using sanitize_config_client_key [OF assms] by (auto split: option.split)

theorem shown_config_masked_witness:
  "\<exists>shown files. sanitize_config [(''files'', JDict [(''client_key'', JStr ''k.pem'')])] = Inr shown
     \<and> jget shown ''files'' (JDict []) = JDict files \<and> dict_get files ''client_key'' = Some (JStr ''<provided>'')"
proof -
  let ?c = "[(''files'', JDict [(''client_key'', JStr ''<provided>'')])]"
  have "sanitize_config [(''files'', JDict [(''client_key'', JStr ''k.pem'')])] = Inr ?c"
    by (simp add: sanitize_config_def SENSITIVE_CONFIG_KEYS_def)
  with shown_config_masked [OF this, of "[(''client_key'', JStr ''<provided>'')]"] show ?thesis by auto
qed

text \<open>Whatever the environment says, the base path is empty or starts with a slash and does not end
  with one, so prefixes concatenate.\<close>

theorem base_path_normal_form:
  "normalize_base_path v = [] \<or> (hd (normalize_base_path v) = CHR ''/'' \<and> last (normalize_base_path v) \<noteq> CHR ''/'')"
  using base_path_normal_normalize [of v] by (simp add: base_path_normal_def)

end
