(* ===== verification/Ocsp_Client.thy ===== *)
theory Ocsp_Client
  imports Executor Certs
begin

text \<open>
  The engine's OCSP client (\<open>ocsp_tester/ocsp_client.py\<close>) and what all test suites share: building a
  request under the process-wide overrides, one exchange, the fields read out of the response, and
  the life of a test case. The cryptography and asn1crypto libraries, the network and the clock are
  an argument, the environment; what a request brings is given by the test that sends it and the
  number of the request within the test.
\<close>

section \<open>Requests\<close>

text \<open>An exception: its type name and its text.\<close>

type_synonym exn = "string \<times> string"

record request_spec =
  sp_cert :: certificate
  sp_issuer :: certificate
  sp_include_nonce :: bool
  sp_nonce_len :: nat
  sp_hash :: string

definition request_spec_of :: "certificate \<Rightarrow> certificate \<Rightarrow> bool \<Rightarrow> request_spec" where
  "request_spec_of cert issuer nonce =
     \<lparr>sp_cert = cert, sp_issuer = issuer, sp_include_nonce = nonce, sp_nonce_len = 32, sp_hash = ''SHA1''\<rparr>"

record runtime_overrides =
  ro_timeout :: "int option"
  ro_method :: "string option"
  ro_include_nonce :: "bool option"
  ro_nonce_len :: "nat option"

definition no_overrides :: runtime_overrides where
  "no_overrides = \<lparr>ro_timeout = None, ro_method = None, ro_include_nonce = None, ro_nonce_len = None\<rparr>"

definition respect_exact_modules :: "string list" where
  "respect_exact_modules = [''ocsp_tester.tests_protocol'', ''ocsp_tester.tests_security'']"

text \<open>\<open>m.split(".")[-1]\<close>\<close>

definition last_part :: "string \<Rightarrow> string" where
  "last_part m = last (split_on (CHR ''.'') m)"

definition exact_caller :: "string \<Rightarrow> bool" where
  "exact_caller caller \<longleftrightarrow>
     list_ex (\<lambda>m. endswith caller (last_part m) \<or> caller = m) respect_exact_modules"

definition effective_timeout :: "runtime_overrides \<Rightarrow> int \<Rightarrow> int" where
  "effective_timeout rt timeout =
     (case ro_timeout rt of
        None \<Rightarrow> timeout
      | Some t \<Rightarrow> if timeout \<noteq> 0 then min timeout t else t)"

definition effective_method :: "runtime_overrides \<Rightarrow> string \<Rightarrow> string \<Rightarrow> string" where
  "effective_method rt caller method =
     (if \<not> exact_caller caller \<and> ro_method rt \<in> {Some ''GET'', Some ''POST''} then the (ro_method rt) else method)"

definition effective_spec :: "runtime_overrides \<Rightarrow> string \<Rightarrow> string option \<Rightarrow> request_spec \<Rightarrow> request_spec" where
  "effective_spec rt caller override_nonce spec =
     (if exact_caller caller then spec
      else case ro_include_nonce rt of
             Some b \<Rightarrow>
               if override_nonce = None
               then spec\<lparr>sp_include_nonce := b,
                         sp_nonce_len := (case ro_nonce_len rt of None \<Rightarrow> sp_nonce_len spec
                                          | Some n \<Rightarrow> if n = 0 then sp_nonce_len spec else n)\<rparr>
               else (case ro_nonce_len rt of
                       Some n \<Rightarrow> if sp_include_nonce spec \<and> override_nonce = None then spec\<lparr>sp_nonce_len := n\<rparr> else spec
                     | None \<Rightarrow> spec)
           | None \<Rightarrow>
               (case ro_nonce_len rt of
                  Some n \<Rightarrow> if sp_include_nonce spec \<and> override_nonce = None then spec\<lparr>sp_nonce_len := n\<rparr> else spec
                | None \<Rightarrow> spec))"

section \<open>The environment\<close>

record wire_request =
  wr_method :: string
  wr_url :: string
  wr_body :: string
  wr_timeout :: int

text \<open>What cryptography shows of a response: the status name and, for each single response, its fields;
  what asn1crypto shows of a successful one, where \<open>None\<close> is a step that raises: each field, and the
  extensions as dotted identifier and value.\<close>

record single_response =
  sr_status :: string
  sr_reason :: "string option"
  sr_revocation_time :: "int option"
  sr_this_update :: "int option"
  sr_next_update :: "int option"

record parsed_response =
  pr_status :: string
  pr_responses :: "single_response list"

record asn1_view =
  av_version :: "string option"
  av_produced_at :: "int option"
  av_responder_id :: "string option option"
  av_signature_oid :: "string option"
  av_extensions :: "(string \<times> string option) list option"

text \<open>The libraries, the network, the clock, the order in which concurrent requests complete, and what the
  embedding application set: the overrides and the active selection.\<close>

record suite_env =
  se_build :: "request_spec \<Rightarrow> string option \<Rightarrow> exn + string"
  se_urandom :: "string \<Rightarrow> nat \<Rightarrow> nat \<Rightarrow> string"
  se_quote_b64 :: "string \<Rightarrow> string"
  se_exchange :: "string \<Rightarrow> nat \<Rightarrow> wire_request \<Rightarrow> exn + string \<times> int"
  se_parse :: "string \<Rightarrow> exn + parsed_response"
  se_asn1 :: "string \<Rightarrow> asn1_view option"
  se_strftime :: "int \<Rightarrow> string"
  se_runtime :: runtime_overrides
  se_selection :: active_selection
  se_uuid :: "string \<Rightarrow> string"
  se_started :: "string \<Rightarrow> int"
  se_ended :: "string \<Rightarrow> int"
  se_now :: "string \<Rightarrow> int"
  se_subject :: "certificate \<Rightarrow> string"
  se_fromisoformat :: "string \<Rightarrow> exn + int"
  se_isoformat :: "int \<Rightarrow> string"
  se_order :: "string \<Rightarrow> nat \<Rightarrow> nat list"

section \<open>One exchange\<close>

record response_info =
  ri_response_status :: string
  ri_cert_status :: "string option"
  ri_revocation_reason :: "string option"
  ri_revocation_time :: "string option"
  ri_this_update :: "string option"
  ri_next_update :: "string option"
  ri_produced_at :: "string option"
  ri_responder_id :: "string option"
  ri_version :: "string option"
  ri_signature_oid :: "string option"
  ri_nonce_echoed :: "bool option"
  ri_raw_der :: string
  ri_latency_ms :: int

definition NONCE_OID :: string where
  "NONCE_OID = ''1.3.6.1.5.5.7.48.1.2''"

text \<open>The loop over the response extensions; the last nonce extension decides.\<close>

fun nonce_echo :: "string option \<Rightarrow> (string \<times> string option) list \<Rightarrow> bool option \<Rightarrow> bool option" where
  "nonce_echo used [] echoed = echoed"
| "nonce_echo used ((oid, v) # exts) echoed =
     nonce_echo used exts (if oid = NONCE_OID then Some (used \<noteq> None \<and> v = used) else echoed)"

text \<open>\<open>_build_request\<close> without the encoding: the nonce that goes in.\<close>

definition used_nonce :: "suite_env \<Rightarrow> string \<Rightarrow> nat \<Rightarrow> request_spec \<Rightarrow> string option \<Rightarrow> string option" where
  "used_nonce env nm i spec override_nonce =
     (if sp_include_nonce spec
      then (case override_nonce of Some n \<Rightarrow> Some n | None \<Rightarrow> Some (se_urandom env nm i (sp_nonce_len spec)))
      else None)"

definition prepare :: "suite_env \<Rightarrow> string \<Rightarrow> string \<Rightarrow> string \<Rightarrow> int \<Rightarrow> wire_request" where
  "prepare env url der method timeout =
     (if str_upper method = ''GET''
      then \<lparr>wr_method = ''GET'', wr_url = rstrip_by (\<lambda>c. c = CHR ''/'') url @ ''/'' @ se_quote_b64 env der, wr_body = [],
            wr_timeout = timeout\<rparr>
      else \<lparr>wr_method = ''POST'', wr_url = url, wr_body = der, wr_timeout = timeout\<rparr>)"

definition read_response :: "suite_env \<Rightarrow> string option \<Rightarrow> string \<Rightarrow> int \<Rightarrow> parsed_response \<Rightarrow> response_info" where
  "read_response env used der latency pr =
     (let first = (if pr_status pr = ''SUCCESSFUL'' then (case pr_responses pr of [] \<Rightarrow> None | r # _ \<Rightarrow> Some r) else None);
          time = (\<lambda>f. map_option (se_strftime env) (Option.bind first f));
          asn1 = se_asn1 env der;
          version = Option.bind asn1 av_version;
          produced = Option.bind version (\<lambda>_. Option.bind asn1 av_produced_at);
          responder = Option.bind produced (\<lambda>_. Option.bind asn1 av_responder_id);
          sig_oid = Option.bind responder (\<lambda>_. Option.bind asn1 av_signature_oid);
          exts = Option.bind sig_oid (\<lambda>_. Option.bind asn1 av_extensions)
      in \<lparr>ri_response_status = pr_status pr,
          ri_cert_status = map_option sr_status first,
          ri_revocation_reason = Option.bind first sr_reason,
          ri_revocation_time = time sr_revocation_time,
          ri_this_update = time sr_this_update,
          ri_next_update = time sr_next_update,
          ri_produced_at = map_option (se_strftime env) produced,
          ri_responder_id = Option.bind responder id,
          ri_version = version,
          ri_signature_oid = sig_oid,
          ri_nonce_echoed = (case exts of None \<Rightarrow> None | Some xs \<Rightarrow> nonce_echo used xs None),
          ri_raw_der = der, ri_latency_ms = latency\<rparr>)"

definition send_with_nonce ::
  "suite_env \<Rightarrow> string \<Rightarrow> string \<Rightarrow> nat \<Rightarrow> string \<Rightarrow> request_spec \<Rightarrow> string \<Rightarrow> string option \<Rightarrow> exn + response_info" where
  "send_with_nonce env caller nm i url spec0 method override_nonce =
     (let rt = se_runtime env;
          spec = effective_spec rt caller override_nonce spec0;
          used = used_nonce env nm i spec override_nonce
      in case se_build env spec used of
           Inl e \<Rightarrow> Inl e
         | Inr der \<Rightarrow>
      (case se_exchange env nm i (prepare env url der (effective_method rt caller method) (effective_timeout rt 10)) of
           Inl e \<Rightarrow> Inl e
         | Inr (answer, latency) \<Rightarrow>
      (case se_parse env answer of
           Inl e \<Rightarrow> Inl e
         | Inr pr \<Rightarrow> Inr (read_response env used answer latency pr))))"

abbreviation send_ocsp_request ::
  "suite_env \<Rightarrow> string \<Rightarrow> string \<Rightarrow> nat \<Rightarrow> string \<Rightarrow> request_spec \<Rightarrow> string \<Rightarrow> exn + response_info" where
  "send_ocsp_request env caller nm i url spec method \<equiv> send_with_nonce env caller nm i url spec method None"

section \<open>The life of a test case\<close>

definition new_case :: "suite_env \<Rightarrow> string \<Rightarrow> string \<Rightarrow> test_status \<Rightarrow> test_case" where
  "new_case env category nm status =
     \<lparr>tc_id = se_uuid env nm, tc_name = nm, tc_category = category, tc_status = status, tc_message = [],
      tc_details = [], tc_started_at = se_started env nm, tc_ended_at = None\<rparr>"

definition ended :: "suite_env \<Rightarrow> test_case \<Rightarrow> test_case" where
  "ended env r = r\<lparr>tc_ended_at := Some (se_ended env (test_case.tc_name r))\<rparr>"

definition set_verdict :: "test_status \<Rightarrow> string \<Rightarrow> test_case \<Rightarrow> test_case" where
  "set_verdict status message r = r\<lparr>tc_status := status, tc_message := message\<rparr>"

definition set_message :: "string \<Rightarrow> test_case \<Rightarrow> test_case" where
  "set_message message r = r\<lparr>tc_message := message\<rparr>"

text \<open>\<open>r.details.update(d)\<close>\<close>

definition add_details :: "(string \<times> json) list \<Rightarrow> test_case \<Rightarrow> test_case" where
  "add_details d r = r\<lparr>tc_details := foldl (\<lambda>acc (k, v). dict_set k v acc) (tc_details r) d\<rparr>"

text \<open>\<open>if should_run(name): r = TestCaseResult(...); ...; r.end(); results.append(r)\<close>\<close>

definition run_test :: "suite_env \<Rightarrow> string \<Rightarrow> string \<Rightarrow> test_status \<Rightarrow> (test_case \<Rightarrow> test_case) \<Rightarrow> test_case list" where
  "run_test env category nm status body =
     (if should_run (se_selection env) nm then [ended env (body (new_case env category nm status))] else [])"

definition text_json :: "string option \<Rightarrow> json" where
  "text_json s = json_opt JStr s"

section \<open>Properties\<close>

text \<open>A test body that only changes the verdict and the details.\<close>

definition keeps_identity :: "(test_case \<Rightarrow> test_case) \<Rightarrow> bool" where
  "keeps_identity body \<longleftrightarrow>
     (\<forall>r. test_case.tc_name (body r) = test_case.tc_name r \<and> tc_category (body r) = tc_category r \<and> tc_id (body r) = tc_id r
        \<and> tc_started_at (body r) = tc_started_at r)"

lemma case_simps [simp]:
  "test_case.tc_name (set_verdict s m r) = test_case.tc_name r" "test_case.tc_name (set_message m r) = test_case.tc_name r"
  "test_case.tc_name (add_details d r) = test_case.tc_name r" "test_case.tc_name (ended env r) = test_case.tc_name r"
  "test_case.tc_name (new_case env c nm s) = nm"
  "tc_category (set_verdict s m r) = tc_category r" "tc_category (set_message m r) = tc_category r"
  "tc_category (add_details d r) = tc_category r" "tc_category (ended env r) = tc_category r"
  "tc_category (new_case env c nm s) = c"
  "tc_id (set_verdict s m r) = tc_id r" "tc_id (set_message m r) = tc_id r" "tc_id (add_details d r) = tc_id r"
  "tc_started_at (set_verdict s m r) = tc_started_at r" "tc_started_at (set_message m r) = tc_started_at r"
  "tc_started_at (add_details d r) = tc_started_at r"
  "tc_status (set_verdict s m r) = s" "tc_status (add_details d r) = tc_status r" "tc_status (set_message m r) = tc_status r"
  "tc_message (set_verdict s m r) = m" "tc_message (add_details d r) = tc_message r" "tc_message (set_message m r) = m"
  "tc_status (ended env r) = tc_status r" "tc_message (ended env r) = tc_message r"
  "tc_status (new_case env c nm s) = s"
  by (simp_all add: set_verdict_def set_message_def add_details_def ended_def new_case_def)

text \<open>What a suite owes its caller: for each of its tests that is selected, in order, one finished result
  with the test's name and the suite's category.\<close>

definition reports :: "suite_env \<Rightarrow> string \<Rightarrow> string list \<Rightarrow> test_case list \<Rightarrow> bool" where
  "reports env category names rs \<longleftrightarrow>
     map test_case.tc_name rs = filter (should_run (se_selection env)) names \<and>
     list_all (\<lambda>r. tc_category r = category \<and> tc_ended_at r = Some (se_ended env (test_case.tc_name r))) rs"

lemma reports_Nil [simp]: "reports env c [] []"
  by (simp add: reports_def)

lemma reports_append: "reports env c xs rs \<Longrightarrow> reports env c ys ss \<Longrightarrow> reports env c (xs @ ys) (rs @ ss)"
  by (simp add: reports_def)

lemma reports_test:
  "(\<And>r. test_case.tc_name (body r) = test_case.tc_name r) \<Longrightarrow> (\<And>r. tc_category (body r) = tc_category r) \<Longrightarrow>
     reports env c [nm] (run_test env c nm s body)"
  by (simp add: reports_def run_test_def) (simp add: ended_def)

text \<open>A test body that changes the verdict and the details only.\<close>

definition same_case :: "test_case \<Rightarrow> test_case \<Rightarrow> bool" where
  "same_case r' r \<longleftrightarrow> test_case.tc_name r' = test_case.tc_name r \<and> tc_category r' = tc_category r"

lemma same_case_simps [simp]:
  "same_case r r" "same_case (set_verdict s m r') r = same_case r' r" "same_case (set_message m r') r = same_case r' r"
  "same_case (add_details d r') r = same_case r' r"
  by (simp_all add: same_case_def)

lemma reports_body: "(\<And>r. same_case (body r) r) \<Longrightarrow> reports env c [nm] (run_test env c nm s body)"
  by (rule reports_test) (simp_all add: same_case_def)

lemma reports_Cons:
  "reports env c [nm] rs \<Longrightarrow> reports env c nms ss \<Longrightarrow> reports env c (nm # nms) (rs @ ss)"
  using reports_append [of env c "[nm]" rs nms ss] by simp

lemma run_test_selected:
  "should_run (se_selection env) nm \<Longrightarrow> run_test env c nm s body = [ended env (body (new_case env c nm s))]"
  by (simp add: run_test_def)

text \<open>The timeout ceiling holds for every request; the two modules whose tests fix method and nonce keep
  them, all others follow the overrides.\<close>

lemma effective_timeout_le: "ro_timeout rt = Some t \<Longrightarrow> 0 \<le> timeout \<Longrightarrow> effective_timeout rt timeout \<le> t"
  by (simp add: effective_timeout_def)

lemma exact_keeps: "exact_caller caller \<Longrightarrow> effective_method rt caller m = m \<and> effective_spec rt caller n spec = spec"
  by (simp add: effective_method_def effective_spec_def)

lemma nonce_echo_None: "nonce_echo used exts None = None \<longleftrightarrow> NONCE_OID \<notin> fst ` set exts"
proof -
  have "nonce_echo used exts e = None \<longleftrightarrow> e = None \<and> NONCE_OID \<notin> fst ` set exts" for e
    by (induction used exts e rule: nonce_echo.induct) auto
  then show ?thesis by blast
qed

lemma nonce_echo_true:
  "nonce_echo used exts None = Some True \<Longrightarrow> \<exists>n. used = Some n \<and> (NONCE_OID, Some n) \<in> set exts"
proof -
  have "nonce_echo used exts e = Some True \<Longrightarrow> e = Some True \<or> (\<exists>n. used = Some n \<and> (NONCE_OID, Some n) \<in> set exts)" for e
    by (induction used exts e rule: nonce_echo.induct) (auto split: if_splits)
  then show "nonce_echo used exts None = Some True \<Longrightarrow> \<exists>n. used = Some n \<and> (NONCE_OID, Some n) \<in> set exts"
    by fastforce
qed

end
