(* ===== verification/Suites.thy ===== *)
theory Suites
  imports Ocsp_Client
begin

text \<open>
  Three of the engine's suites: certificate status (\<open>ocsp_tester/tests_status.py\<close>), protocol
  (\<open>tests_protocol.py\<close>) and the IKEv2 placeholders (\<open>tests_ikev2.py\<close>). Each test is one definition, from
  the certificates to the finished result, with everything it puts into the details.
\<close>

section \<open>What the suites share\<close>

definition STATUS_CALLER :: string where
  "STATUS_CALLER = ''ocsp_tester.tests_status''"

definition PROTOCOL_CALLER :: string where
  "PROTOCOL_CALLER = ''ocsp_tester.tests_protocol''"

definition STATUS_MEANINGS :: "(string, string) dict" where
  "STATUS_MEANINGS = [
     (''SUCCESSFUL'', ''Response is valid and contains certificate status''),
     (''MALFORMED'', ''Request was malformed or invalid''),
     (''INTERNAL_ERROR'', ''OCSP responder internal error''),
     (''TRY_LATER'', ''Responder temporarily unavailable''),
     (''SIG_REQUIRED'', ''Request must be signed''),
     (''UNAUTHORIZED'', ''Request not authorized (certificate not issued by this CA)'')]"

definition status_meaning :: "string \<Rightarrow> json" where
  "status_meaning s = JStr (dict_get_or STATUS_MEANINGS s ''Unknown status'')"

text \<open>The handler of an exception in the tests with a full analysis.\<close>

definition execution_failed :: "exn \<Rightarrow> test_case \<Rightarrow> test_case" where
  "execution_failed exc r =
     add_details [(''error_type'', JStr (fst exc)), (''error_details'', JStr (snd exc)), (''troubleshooting'',
     JDict [(''network_issue'', JStr ''Check OCSP URL accessibility and network connectivity''),
     (''certificate_issue'', JStr ''Verify certificate and issuer files are valid''), (''parsing_issue'',
     JStr ''OCSP response may be malformed or unsupported format'')])]
       (set_verdict ERROR (''Test execution failed: '' @ snd exc) r)"

definition none_text :: "string option \<Rightarrow> string" where
  "none_text s = (case s of None \<Rightarrow> ''None'' | Some t \<Rightarrow> t)"

text \<open>\<open>(info.cert_status or "").lower()\<close>\<close>

definition lower_status :: "response_info \<Rightarrow> string" where
  "lower_status info = (case ri_cert_status info of None \<Rightarrow> [] | Some s \<Rightarrow> str_lower s)"

definition bool_text :: "bool \<Rightarrow> string" where
  "bool_text b = (if b then ''True'' else ''False'')"

section \<open>Certificate status\<close>

definition valid_certificate_test :: "suite_env \<Rightarrow> string \<Rightarrow> certificate \<Rightarrow> certificate option \<Rightarrow> test_case \<Rightarrow> test_case" where
  "valid_certificate_test env url issuer good_cert r =
     (case good_cert of
        None \<Rightarrow> set_message ''No known-good certificate provided'' r
      | Some cert \<Rightarrow>
          (case send_ocsp_request env STATUS_CALLER (test_case.tc_name r) 0 url (request_spec_of cert issuer True) ''POST'' of
             Inl exc \<Rightarrow> set_verdict ERROR (snd exc) r
           | Inr info \<Rightarrow>
               add_details [(''this_update'', text_json (ri_this_update info)), (''next_update'', text_json (ri_next_update info))]
                 (if ri_response_status info = ''SUCCESSFUL'' \<and> lower_status info = ''good''
                  then set_verdict PASS ''good'' r
                  else set_verdict FAIL (''Unexpected status: '' @ ri_response_status info @ ''/'' @
                         none_text (ri_cert_status info)) r)))"

definition revoked_certificate_test :: "suite_env \<Rightarrow> string \<Rightarrow> certificate \<Rightarrow> certificate option \<Rightarrow> test_case \<Rightarrow> test_case" where
  "revoked_certificate_test env url issuer revoked_cert r =
     (case revoked_cert of
        None \<Rightarrow> set_message ''No known-revoked certificate provided'' r
      | Some cert \<Rightarrow>
          (case send_ocsp_request env STATUS_CALLER (test_case.tc_name r) 0 url (request_spec_of cert issuer True) ''POST'' of
             Inl exc \<Rightarrow> set_verdict ERROR (snd exc) r
           | Inr info \<Rightarrow>
               (if ri_response_status info = ''SUCCESSFUL'' \<and> lower_status info = ''revoked''
                then add_details [(''revocation_time'', text_json (ri_revocation_time info)), (''revocation_reason'',
     text_json (ri_revocation_reason info))]
                  (set_verdict PASS ''revoked'' r)
                else set_verdict FAIL (''Unexpected status: '' @ ri_response_status info @ ''/'' @
                       none_text (ri_cert_status info)) r)))"

definition unknown_ca_test :: "suite_env \<Rightarrow> string \<Rightarrow> certificate \<Rightarrow> certificate option \<Rightarrow> test_case \<Rightarrow> test_case" where
  "unknown_ca_test env url issuer unknown_ca_cert r =
     (case unknown_ca_cert of
        None \<Rightarrow> set_message ''No unknown-CA certificate provided'' r
      | Some cert \<Rightarrow>
          (case send_ocsp_request env STATUS_CALLER (test_case.tc_name r) 0 url (request_spec_of cert issuer True) ''POST'' of
             Inl exc \<Rightarrow> set_verdict ERROR (snd exc) r
           | Inr info \<Rightarrow>
               set_verdict (if lower_status info = ''unknown'' then PASS else FAIL)
                 (''cert_status='' @ none_text (ri_cert_status info)) r))"

definition timeliness_details ::
  "suite_env \<Rightarrow> string \<Rightarrow> certificate \<Rightarrow> certificate \<Rightarrow> response_info \<Rightarrow> test_status \<Rightarrow> (string \<times> json) list" where
  "timeliness_details env url issuer test_cert info status =
     (let description = JList [JStr ''This test validates OCSP response timestamp fields for completeness and validity.'',
     JStr ''It checks:'', JStr ''1. thisUpdate field is present (when certificate status was last updated)'',
     JStr ''2. nextUpdate field is present (when next update is expected)'',
     JStr ''3. producedAt field is present (when OCSP response was generated)'',
     JStr ''4. Timestamp fields are parseable and valid'',
     JStr ''5. RFC 6960 compliance for timestamp fields''];
          analysis = JDict [(''test_description'', description), (''request_method'', JStr ''POST''), (''nonce_included'',
     JBool False), (''test_certificate'', JStr (se_subject env test_cert)), (''issuer_certificate'',
     JStr (se_subject env issuer)), (''ocsp_url'', JStr url)];
          status_analysis = JDict [(''response_status'', JStr (ri_response_status info)), (''status_meaning'',
     status_meaning (ri_response_status info)), (''is_successful'',
     JBool (ri_response_status info = ''SUCCESSFUL''))];
          timestamp_analysis = JDict [(''this_update'', JDict [(''value'', text_json (ri_this_update info)), (''present'',
     JBool (ri_this_update info \<noteq> None)), (''description'',
     JStr ''Time when certificate status was last updated by the CA''), (''required'', JBool True)]),
     (''next_update'', JDict [(''value'', text_json (ri_next_update info)), (''present'',
     JBool (ri_next_update info \<noteq> None)), (''description'',
     JStr ''Time when next certificate status update is expected''), (''required'', JBool True)]),
     (''produced_at'', JDict [(''value'', text_json (ri_produced_at info)), (''present'',
     JBool (ri_produced_at info \<noteq> None)), (''description'',
     JStr ''Time when this OCSP response was generated''), (''required'', JBool True)])];
          response_details = JDict [(''version'', text_json (ri_version info)), (''responder_id'', text_json (ri_responder_id info)),
     (''signature_algorithm_oid'', text_json (ri_signature_oid info)), (''certificate_status'', JNull),
     (''revocation_reason'', text_json (ri_revocation_reason info)), (''revocation_time'',
     text_json (ri_revocation_time info))]
      in [(''analysis'', analysis), (''status_analysis'', status_analysis), (''timestamp_analysis'',
     timestamp_analysis), (''response_details'', response_details), (''test_result'',
     JDict [(''this_update_present'', JBool (ri_this_update info \<noteq> None)), (''next_update_present'',
     JBool (ri_next_update info \<noteq> None)), (''produced_at_present'',
     JBool (ri_produced_at info \<noteq> None)), (''all_timestamps_present'', JBool (status = PASS)),
     (''overall_result'', JStr (status_value status))]), (''troubleshooting'',
     JDict [(''if_missing_this_update'',
     JStr ''OCSP responder may not be RFC 6960 compliant or experiencing issues''),
     (''if_missing_next_update'', JStr ''OCSP responder may not provide update schedule information''),
     (''if_missing_produced_at'', JStr ''OCSP responder may not include response generation time''),
     (''if_unauthorized'',
     JStr (''Certificate may not be issued by the OCSP responder'' @ [CHR 0x27] @ ''s CA'')), (''next_steps'',
     JStr ''Verify certificate issuer matches OCSP responder CA, check OCSP responder compliance'')])])"

definition timeliness_test ::
  "suite_env \<Rightarrow> string \<Rightarrow> certificate \<Rightarrow> certificate \<Rightarrow> test_case \<Rightarrow> test_case" where
  "timeliness_test env url issuer test_cert r =
     (case send_ocsp_request env STATUS_CALLER (test_case.tc_name r) 0 url (request_spec_of test_cert issuer False) ''POST'' of
        Inl exc \<Rightarrow> execution_failed exc r
      | Inr info \<Rightarrow>
          (let has_this = (ri_this_update info \<noteq> None); has_next = (ri_next_update info \<noteq> None);
               has_prod = (ri_produced_at info \<noteq> None); all_present = (has_this \<and> has_next \<and> has_prod);
               status = (if all_present then PASS else FAIL);
               message = (if all_present then ''All timestamp fields present: thisUpdate='' else ''Missing timestamp fields: thisUpdate='')
                 @ bool_text has_this @ '', nextUpdate='' @ bool_text has_next @ '', producedAt='' @ bool_text has_prod
           in add_details (timeliness_details env url issuer test_cert info status) (set_verdict status message r)))"

definition first_of :: "'a option \<Rightarrow> 'a option \<Rightarrow> 'a \<Rightarrow> 'a" where
  "first_of a b c = (case a of Some x \<Rightarrow> x | None \<Rightarrow> (case b of Some y \<Rightarrow> y | None \<Rightarrow> c))"

definition run_status_tests ::
  "suite_env \<Rightarrow> string \<Rightarrow> certificate \<Rightarrow> certificate option \<Rightarrow> certificate option \<Rightarrow> certificate option \<Rightarrow> test_case list" where
  "run_status_tests env url issuer good revoked unknown_ca =
     run_test env ''Status'' ''Known valid certificate returns good'' SKIP (valid_certificate_test env url issuer good) @
     run_test env ''Status'' ''Known revoked certificate returns revoked'' SKIP (revoked_certificate_test env url issuer revoked) @
     run_test env ''Status'' ''Unknown CA returns unknown'' SKIP (unknown_ca_test env url issuer unknown_ca) @
     run_test env ''Status'' ''Non-issued certificate handling'' SKIP
       (set_message ''Requires non-issued serial scenario configured; skipping'') @
     run_test env ''Status'' ''thisUpdate/nextUpdate/producedAt present and plausible'' ERROR
       (timeliness_test env url issuer (first_of good revoked issuer))"

section \<open>Protocol\<close>

definition sized_request :: "certificate \<Rightarrow> certificate \<Rightarrow> nat \<Rightarrow> request_spec" where
  "sized_request cert issuer n = (request_spec_of cert issuer True)\<lparr>sp_nonce_len := n\<rparr>"

definition transport_test :: "suite_env \<Rightarrow> string \<Rightarrow> certificate \<Rightarrow> certificate \<Rightarrow> string \<Rightarrow> test_case \<Rightarrow> test_case" where
  "transport_test env url issuer leaf method r =
     (case send_ocsp_request env PROTOCOL_CALLER (test_case.tc_name r) 0 url (sized_request leaf issuer 16) method of
        Inl exc \<Rightarrow> set_verdict FAIL (method @ '' failed: '' @ snd exc) r
      | Inr info \<Rightarrow> add_details [(''latency_ms'', JInt (ri_latency_ms info)), (''response_status'', JStr (ri_response_status info))] (set_verdict PASS (method @ '' accepted'') r))"

definition der_details ::
  "suite_env \<Rightarrow> string \<Rightarrow> certificate \<Rightarrow> certificate \<Rightarrow> response_info \<Rightarrow> test_status \<Rightarrow> bool \<Rightarrow> bool \<Rightarrow> (string \<times> json) list" where
  "der_details env url issuer leaf info status status_ok required_fields_present =
     (let description = JList [JStr ''This test validates OCSP response structure and DER encoding compliance.'',
     JStr ''It checks for:'', JStr ''1. Successful OCSP response status (not UNAUTHORIZED, MALFORMED, etc.)'',
     JStr ''2. Presence of required response fields (version, producedAt, responderID)'',
     JStr ''3. Valid DER encoding and parsing'', JStr ''4. Signature algorithm identification'',
     JStr ''5. Proper ASN.1 structure compliance''];
          analysis = JDict [(''test_description'', description), (''request_method'', JStr ''POST''), (''nonce_included'',
     JBool False), (''hash_algorithm'', JStr ''SHA-256 (default)''), (''certificate_serial'',
     JStr (show_nat (x_serial_number leaf))), (''issuer_subject'', JStr (se_subject env issuer)),
     (''ocsp_url'', JStr url)];
          status_analysis = JDict [(''response_status'', JStr (ri_response_status info)), (''status_meaning'',
     status_meaning (ri_response_status info))];
          field_analysis = JDict [(''version'', JDict [(''value'', text_json (ri_version info)), (''required'', JBool True),
     (''present'', JBool (ri_version info \<noteq> None)), (''description'',
     JStr ''OCSP response version (should be 1 for RFC 6960)'')]), (''produced_at'', JDict [(''value'',
     text_json (ri_produced_at info)), (''required'', JBool True), (''present'',
     JBool (ri_produced_at info \<noteq> None)), (''description'',
     JStr ''Time when OCSP response was produced'')]), (''responder_id'', JDict [(''value'',
     text_json (ri_responder_id info)), (''required'', JBool True), (''present'',
     JBool (ri_responder_id info \<noteq> None)), (''description'',
     JStr ''Identifier of the OCSP responder'')]), (''signature_algorithm_oid'', JDict [(''value'',
     text_json (ri_signature_oid info)), (''required'', JBool True), (''present'',
     JBool (ri_signature_oid info \<noteq> None)), (''description'',
     JStr ''OID of the signature algorithm used to sign the response'')])];
          response_details = JDict [(''certificate_status'', JNull), (''this_update'', text_json (ri_this_update info)),
     (''next_update'', text_json (ri_next_update info)), (''revocation_reason'',
     text_json (ri_revocation_reason info)), (''revocation_time'', text_json (ri_revocation_time info))]
      in [(''analysis'', analysis), (''status_analysis'', status_analysis), (''field_analysis'', field_analysis),
     (''response_details'', response_details), (''test_result'', JDict [(''status_ok'', JBool status_ok),
     (''required_fields_present'', JBool required_fields_present), (''overall_result'',
     JStr (status_value status))]), (''troubleshooting'', JDict [(''if_unauthorized'',
     JStr (''Certificate may not be issued by the OCSP responder'' @ [CHR 0x27] @ ''s CA'')),
     (''if_missing_fields'', JStr ''OCSP responder may not be RFC 6960 compliant''), (''if_malformed'',
     JStr ''Request format may be incorrect or unsupported''), (''next_steps'',
     JStr ''Check certificate issuer matches OCSP responder CA, verify OCSP URL is correct'')])])"

definition der_test :: "suite_env \<Rightarrow> string \<Rightarrow> certificate \<Rightarrow> certificate \<Rightarrow> test_case \<Rightarrow> test_case" where
  "der_test env url issuer leaf r =
     (case send_ocsp_request env PROTOCOL_CALLER (test_case.tc_name r) 0 url (request_spec_of leaf issuer False) ''POST'' of
        Inl exc \<Rightarrow> execution_failed exc r
      | Inr info \<Rightarrow>
          (let status_ok = (ri_response_status info = ''SUCCESSFUL'');
               required = (ri_version info \<noteq> None \<and> ri_produced_at info \<noteq> None \<and> ri_responder_id info \<noteq> None
                 \<and> ri_signature_oid info \<noteq> None);
               status = (if status_ok \<and> required then PASS else FAIL);
               message = (if status_ok \<and> required then ''OCSP response structure and DER encoding validation PASSED''
                 else if \<not> status_ok then ''OCSP response status indicates failure: '' @ ri_response_status info
                 else ''OCSP response missing required fields'')
           in add_details (der_details env url issuer leaf info status status_ok required) (set_verdict status message r)))"

definition sha1_details ::
  "suite_env \<Rightarrow> string \<Rightarrow> certificate \<Rightarrow> certificate \<Rightarrow> response_info \<Rightarrow> test_status \<Rightarrow> (string \<times> json) list" where
  "sha1_details env url issuer leaf info status =
     (let description = JList [JStr ''This test validates OCSP request with SHA-1 hash algorithm for certificate identification.'',
     JStr ''It checks:'', JStr ''1. OCSP responder accepts SHA-1 hash algorithm in CertID'',
     JStr ''2. SHA-1 based certificate identification works'',
     JStr ''3. Response is successful with SHA-1 identifier'',
     JStr ''4. RFC 6960 compliance for hash algorithm support''];
          analysis = JDict [(''test_description'', description), (''request_method'', JStr ''POST''), (''nonce_included'',
     JBool False), (''hash_algorithm'', JStr ''SHA-1''), (''certificate_serial'',
     JStr (show_nat (x_serial_number leaf))), (''issuer_subject'', JStr (se_subject env issuer)),
     (''ocsp_url'', JStr url)];
          status_analysis = JDict [(''response_status'', JStr (ri_response_status info)), (''status_meaning'',
     status_meaning (ri_response_status info)), (''is_successful'',
     JBool (ri_response_status info = ''SUCCESSFUL''))];
          hash_analysis = JDict [(''requested_hash'', JStr ''SHA-1''), (''hash_oid'', JStr ''1.3.14.3.2.26''), (''hash_status'',
     JStr ''Deprecated but still supported''), (''security_note'',
     JStr ''SHA-1 is deprecated due to collision vulnerabilities''), (''recommendation'',
     JStr ''Use SHA-256 or stronger hash algorithms'')];
          response_details = JDict [(''version'', text_json (ri_version info)), (''produced_at'', text_json (ri_produced_at info)),
     (''responder_id'', text_json (ri_responder_id info)), (''signature_algorithm_oid'',
     text_json (ri_signature_oid info)), (''certificate_status'', JNull), (''this_update'',
     text_json (ri_this_update info)), (''next_update'', text_json (ri_next_update info))]
      in [(''analysis'', analysis), (''status_analysis'', status_analysis), (''hash_analysis'', hash_analysis),
     (''response_details'', response_details), (''test_result'', JDict [(''sha1_accepted'',
     JBool (ri_response_status info = ''SUCCESSFUL'')), (''response_successful'',
     JBool (ri_response_status info = ''SUCCESSFUL'')), (''overall_result'', JStr (status_value status))]),
     (''troubleshooting'', JDict [(''if_sha1_rejected'',
     JStr ''OCSP responder may not support SHA-1 hash algorithm''), (''if_unauthorized'',
     JStr (''Certificate may not be issued by the OCSP responder'' @ [CHR 0x27] @ ''s CA'')),
     (''if_malformed'', JStr ''SHA-1 request format may be incorrect''), (''security_warning'',
     JStr ''SHA-1 is deprecated - consider using SHA-256''), (''next_steps'',
     JStr ''Verify OCSP responder supports SHA-1, check certificate issuer matches OCSP responder CA'')])])"

definition sha1_test :: "suite_env \<Rightarrow> string \<Rightarrow> certificate \<Rightarrow> certificate \<Rightarrow> test_case \<Rightarrow> test_case" where
  "sha1_test env url issuer leaf r =
     (case send_ocsp_request env PROTOCOL_CALLER (test_case.tc_name r) 0 url (request_spec_of leaf issuer False) ''POST'' of
        Inl exc \<Rightarrow> execution_failed exc r
      | Inr info \<Rightarrow>
          (let ok = (ri_response_status info = ''SUCCESSFUL''); status = (if ok then PASS else FAIL);
               message = (if ok then ''SHA-1 hash algorithm accepted and response successful''
                 else ''SHA-1 hash algorithm not accepted or response failed: '' @ ri_response_status info)
           in add_details (sha1_details env url issuer leaf info status) (set_verdict status message r)))"

text \<open>A serial number of a parsed certificate is not negative (the library refuses others).\<close>

definition serial_test :: "certificate \<Rightarrow> test_case \<Rightarrow> test_case" where
  "serial_test leaf r =
     add_details [(''serial_tests'', JList
         [JList [JStr ''Decimal serial'', JStr (''Serial: '' @ show_nat (x_serial_number leaf))],
          JList [JStr ''Hex serial'', JStr (''Hex: '' @ py_hex (x_serial_number leaf))],
          JList [JStr ''Negative serial'', JStr ''No negative serial to test'']])]
       (set_verdict PASS ''Serial number handling tests completed'' r)"

definition run_protocol_tests :: "suite_env \<Rightarrow> string \<Rightarrow> certificate \<Rightarrow> certificate \<Rightarrow> test_case list" where
  "run_protocol_tests env url issuer leaf =
     run_test env ''Protocol'' ''HTTP GET transport'' ERROR (transport_test env url issuer leaf ''GET'') @
     run_test env ''Protocol'' ''HTTP POST transport'' ERROR (transport_test env url issuer leaf ''POST'') @
     run_test env ''Protocol'' ''DER encoding and basic response fields'' ERROR (der_test env url issuer leaf) @
     run_test env ''Protocol'' ''CertID SHA-1 for issuer hashes'' ERROR (sha1_test env url issuer leaf) @
     run_test env ''Protocol'' ''Serial number handling'' ERROR (serial_test leaf)"

section \<open>IKEv2\<close>

definition run_ikev2_tests :: "suite_env \<Rightarrow> test_case list" where
  "run_ikev2_tests env =
     run_test env ''IKEv2'' ''OCSP Content extension (type 14) support'' SKIP
       (set_message ''Requires IKEv2 stack/harness; not executable in this tool'') @
     run_test env ''IKEv2'' ''CERTREQ with encoding 14 elicits CERT with OCSP'' SKIP
       (set_message ''Requires IKEv2 negotiation environment'') @
     run_test env ''IKEv2'' ''Trusted responder identification'' SKIP
       (set_message ''Requires configured ocsp_signers/CA hashes in IKEv2 environment'') @
     run_test env ''IKEv2'' ''Configuration mapping (request/reply/both)'' SKIP
       (set_message ''Validate via IKEv2 deployment testing; out of scope for this tool'')"

section \<open>Every selected test reports\<close>

lemma status_bodies [simp]:
  "test_case.tc_name (valid_certificate_test env url issuer c r) = test_case.tc_name r"
  "tc_category (valid_certificate_test env url issuer c r) = tc_category r"
  "test_case.tc_name (revoked_certificate_test env url issuer c r) = test_case.tc_name r"
  "tc_category (revoked_certificate_test env url issuer c r) = tc_category r"
  "test_case.tc_name (unknown_ca_test env url issuer c r) = test_case.tc_name r"
  "tc_category (unknown_ca_test env url issuer c r) = tc_category r"
  "test_case.tc_name (timeliness_test env url issuer x r) = test_case.tc_name r"
  "tc_category (timeliness_test env url issuer x r) = tc_category r"
  by (simp_all add: valid_certificate_test_def revoked_certificate_test_def unknown_ca_test_def timeliness_test_def
      execution_failed_def Let_def split: option.split sum.split)

lemma protocol_bodies [simp]:
  "test_case.tc_name (transport_test env url issuer leaf m r) = test_case.tc_name r"
  "tc_category (transport_test env url issuer leaf m r) = tc_category r"
  "test_case.tc_name (der_test env url issuer leaf r) = test_case.tc_name r"
  "tc_category (der_test env url issuer leaf r) = tc_category r"
  "test_case.tc_name (sha1_test env url issuer leaf r) = test_case.tc_name r"
  "tc_category (sha1_test env url issuer leaf r) = tc_category r"
  "test_case.tc_name (serial_test leaf r) = test_case.tc_name r" "tc_category (serial_test leaf r) = tc_category r"
  by (simp_all add: transport_test_def der_test_def sha1_test_def serial_test_def execution_failed_def Let_def
      split: sum.split)

definition names_of :: "string \<Rightarrow> string list" where
  "names_of category = dict_get_or catalog_index category []"

lemma status_reports: "reports env ''Status'' (names_of ''status'') (run_status_tests env url issuer good revoked unknown_ca)"
proof -
  have names: "names_of ''status'' = [''Known valid certificate returns good'', ''Known revoked certificate returns revoked'',
      ''Unknown CA returns unknown'', ''Non-issued certificate handling'',
      ''thisUpdate/nextUpdate/producedAt present and plausible'']"
    by (simp add: names_of_def catalog_index_def TEST_CATALOG_def catalog_entry_def)
  show ?thesis
    unfolding names run_status_tests_def by (intro reports_Cons reports_test) simp_all
qed

lemma protocol_reports: "reports env ''Protocol'' (names_of ''protocol'') (run_protocol_tests env url issuer leaf)"
proof -
  have names: "names_of ''protocol'' = [''HTTP GET transport'', ''HTTP POST transport'', ''DER encoding and basic response fields'',
      ''CertID SHA-1 for issuer hashes'', ''Serial number handling'']"
    by (simp add: names_of_def catalog_index_def TEST_CATALOG_def catalog_entry_def)
  show ?thesis
    unfolding names run_protocol_tests_def by (intro reports_Cons reports_test) simp_all
qed

lemma ikev2_reports: "reports env ''IKEv2'' (names_of ''ikev2'') (run_ikev2_tests env)"
proof -
  have names: "names_of ''ikev2'' = [''OCSP Content extension (type 14) support'', ''CERTREQ with encoding 14 elicits CERT with OCSP'',
      ''Trusted responder identification'', ''Configuration mapping (request/reply/both)'']"
    by (simp add: names_of_def catalog_index_def TEST_CATALOG_def catalog_entry_def)
  show ?thesis
    unfolding names run_ikev2_tests_def by (intro reports_Cons reports_test) simp_all
qed

end
