(* ===== verification/Text_Scan.thy ===== *)
theory Text_Scan
  imports Prelude
begin

text \<open>
  The operations on program output the engine's text analyses share: \<open>str.splitlines\<close>, the pieces of
  \<open>str.split(sep)\<close> the sources use, and \<open>str.find\<close>. Text is bytes in UTF-8; the line breaks outside ASCII
  do not occur in the output of the tools.
\<close>

definition is_line_break :: "char \<Rightarrow> bool" where
  "is_line_break c = (let n = (of_char c :: nat) in (10 \<le> n \<and> n \<le> 13) \<or> (28 \<le> n \<and> n \<le> 30))"

fun lines_from :: "string \<Rightarrow> string \<Rightarrow> string list" where
  "lines_from acc [] = (if acc = [] then [] else [rev acc])"
| "lines_from acc (c # cs) =
     (if c = CHR 0x0D \<and> cs \<noteq> [] \<and> hd cs = CHR 0x0A then rev acc # lines_from [] (tl cs)
      else if is_line_break c then rev acc # lines_from [] cs
      else lines_from (c # acc) cs)"

definition splitlines :: "string \<Rightarrow> string list" where
  "splitlines s = lines_from [] s"

text \<open>\<open>s.split(sep)[-1]\<close>: what follows the last of the separators found from left to right.\<close>

fun after_separators :: "string \<Rightarrow> nat \<Rightarrow> string \<Rightarrow> string \<Rightarrow> string" where
  "after_separators sep skip piece [] = piece"
| "after_separators sep (Suc skip) piece (c # cs) = after_separators sep skip piece cs"
| "after_separators sep 0 piece (c # cs) =
     (if startswith (c # cs) sep
      then after_separators sep (length sep - 1) (drop (length sep) (c # cs)) cs
      else after_separators sep 0 piece cs)"

definition last_piece :: "string \<Rightarrow> string \<Rightarrow> string" where
  "last_piece sep s = after_separators sep 0 s s"

text \<open>\<open>data.find(sub)\<close>: the part before the first occurrence and the rest from it on.\<close>

fun find_sub :: "string \<Rightarrow> string \<Rightarrow> (string \<times> string) option" where
  "find_sub sub s =
     (if startswith s sub then Some ([], s)
      else case s of [] \<Rightarrow> None
           | c # cs \<Rightarrow> map_option (\<lambda>(a, b). (c # a, b)) (find_sub sub cs))"

declare find_sub.simps [simp del]

lemma find_sub_append: "find_sub sub s = Some (a, b) \<Longrightarrow> s = a @ b \<and> startswith b sub"
  by (induction sub s arbitrary: a b rule: find_sub.induct)
    (subst (asm) find_sub.simps, auto split: if_splits list.splits)

text \<open>\<open>s.split(sep, 1)[1]\<close> where the separator occurs.\<close>

definition after_first :: "string \<Rightarrow> string \<Rightarrow> string" where
  "after_first sep s = (case find_sub sep s of Some (_, rest) \<Rightarrow> drop (length sep) rest | None \<Rightarrow> [])"

section \<open>Laws\<close>

lemma lines_from_plain:
  "list_all (\<lambda>c. \<not> is_line_break c) s \<Longrightarrow> lines_from acc (s @ CHR 0x0A # t) = rev (rev s @ acc) # lines_from [] t"
  by (induction s arbitrary: acc) (auto simp: is_line_break_def)

text \<open>Joining lines and splitting them again.\<close>

lemma splitlines_join:
  "list_all (list_all (\<lambda>c. \<not> is_line_break c)) ls \<Longrightarrow> splitlines (concat (map (\<lambda>l. l @ [CHR 0x0A]) ls)) = ls"
proof (induction ls)
  case (Cons l ls)
  then show ?case
    using lines_from_plain [of l "[]" "concat (map (\<lambda>l. l @ [CHR 0x0A]) ls)"] by (simp add: splitlines_def)
qed (simp add: splitlines_def)

lemma last_piece_prefix:
  "\<not> contains s sep \<Longrightarrow> after_separators sep 0 piece s = piece"
proof (induction s)
  case (Cons c cs)
  then have "\<not> startswith (c # cs) sep" "\<not> contains cs sep"
    by (auto simp: startswith_def contains_def sublist_Cons_right)
  with Cons.IH show ?case by simp
qed simp

lemma after_separators_skip: "after_separators sep (length xs) piece (xs @ s) = after_separators sep 0 piece s"
  by (induction xs) simp_all

text \<open>A line that starts with a label and holds it only once gives the text after it.\<close>

lemma last_piece_label:
  assumes "sep \<noteq> []" and "\<not> contains s sep"
  shows "last_piece sep (sep @ s) = s"
proof -
  obtain c cs where sep: "sep = c # cs" using assms(1) by (cases sep) auto
  have "after_separators sep 0 (sep @ s) (sep @ s) = after_separators sep (length cs) s (cs @ s)"
    unfolding sep by (simp add: startswith_def)
  also have "\<dots> = s"
    by (simp add: after_separators_skip last_piece_prefix assms(2))
  finally show ?thesis by (simp add: last_piece_def)
qed

end
