(* ===== verification/Subprocess.thy ===== *)
theory Subprocess
  imports Ocsp_Client Timestamps
begin

text \<open>
  What the engine sees of the programs it runs: an exit code with the text of both streams, the expiry of the
  time limit, or the exception of a program that could not be started. The arguments, the files read and the
  limit are arguments of the environments' run functions.
\<close>

datatype proc = Exited int string string | Timed_out | Not_run exn

text \<open>\<open>str(TimeoutExpired)\<close>\<close>

definition list_repr :: "string list \<Rightarrow> string" where
  "list_repr xs = ''['' @ join_with '', '' (map py_repr xs) @ '']''"

definition timed_out_text :: "string list \<Rightarrow> int \<Rightarrow> string" where
  "timed_out_text cmd limit =
     ''Command '' @ [CHR 0x27] @ list_repr cmd @ [CHR 0x27] @ '' timed out after '' @ show_int limit @ '' seconds''"

text \<open>\<open>subprocess.run(cmd, timeout=limit)\<close>: a result or an exception with its text.\<close>

definition completed :: "string list \<Rightarrow> int \<Rightarrow> proc \<Rightarrow> exn + int \<times> string \<times> string" where
  "completed cmd limit p =
     (case p of
        Exited code out err \<Rightarrow> Inr (code, out, err)
      | Timed_out \<Rightarrow> Inl (''TimeoutExpired'', timed_out_text cmd limit)
      | Not_run e \<Rightarrow> Inl e)"

text \<open>The time format of openssl's output, and the text of the ValueError of \<open>strptime\<close> for it.\<close>

definition GMT_TIME :: "directive list" where
  "GMT_TIME = [MonthName, Blank, Day, Blank, Hour, Literal (CHR '':''), Minute, Literal (CHR '':''), Second,
     Blank, Year, Blank, ZoneName]"

definition GMT_TIME_TEXT :: string where
  "GMT_TIME_TEXT = ''%b %d %H:%M:%S %Y %Z''"

definition gmt_time :: "string \<Rightarrow> int option" where
  "gmt_time s = map_option (\<lambda>f. timestamp f * 1000000) (strptime s GMT_TIME)"

definition gmt_time_error :: "string \<Rightarrow> string" where
  "gmt_time_error s =
     (case match_format GMT_TIME blank_fields s of
        [] \<Rightarrow> ''time data '' @ py_repr s @ '' does not match format '' @ py_repr GMT_TIME_TEXT
      | (f, rest) # _ \<Rightarrow>
          if rest \<noteq> [] then ''unconverted data remains: '' @ rest
          else if dt_year f = 0 then ''year 0 is out of range''
          else if \<not> date_exists (dt_year f) (dt_month f) (dt_day f) then ''day is out of range for month''
          else ''second must be in 0..59'')"

text \<open>\<open>{x:.1f}\<close> of a number of hours: floats are the rationals they stand for.\<close>

definition round_half_even :: "rat \<Rightarrow> int" where
  "round_half_even x =
     (let n = \<lfloor>x\<rfloor>; d = x - of_int n
      in if d < 1 / 2 then n else if d > 1 / 2 then n + 1 else if even n then n else n + 1)"

definition one_decimal :: "rat \<Rightarrow> string" where
  "one_decimal x =
     (let n = round_half_even (\<bar>x\<bar> * 10)
      in (if x < 0 then ''-'' else []) @ show_int (n div 10) @ ''.'' @ show_int (n mod 10))"

definition hours :: "int \<Rightarrow> rat" where
  "hours us = of_int us / 3600000000"

lemma hours_le_iff: "hours us \<le> of_int h \<longleftrightarrow> us \<le> h * 3600000000"
proof -
  have "hours us \<le> of_int h \<longleftrightarrow> (of_int us :: rat) \<le> of_int (h * 3600000000)"
    by (simp add: hours_def pos_divide_le_eq)
  then show ?thesis by (simp only: of_int_le_iff)
qed

end
