(* ===== verification/Crl_Suite.thy ===== *)
theory Crl_Suite
  imports Suites Text_Scan Subprocess Analysis
begin

text \<open>
  The comprehensive CRL suite (\<open>ocsp_tester/tests_crl_comprehensive.py\<close>): finding the distribution points
  in the text openssl prints of a certificate, finding a CRL that downloads, and seven tests on it; and
  the worker's tests of the CRL URLs the user gave (\<open>_explicit_crl_tests\<close> of \<open>worker/executor.py\<close>). The
  network and openssl are arguments; temporary files are written and removed without fault.
\<close>

section \<open>The environment\<close>

text \<open>A GET with \<open>raise_for_status\<close>: the body, a \<open>requests\<close> exception, or another one. A program run: its exit
  code with its output and error output, the timeout, or an exception on starting it.\<close>

datatype get_outcome = Body string | Request_error exn | Other_error exn

datatype head_outcome = Answered int | Head_refused exn | Head_raised exn

record crl_view =
  cv_issuer :: string
  cv_revoked_count :: nat
  cv_last_update :: "int option"
  cv_next_update :: "int option"

text \<open>The n-th request of a test, and a run of a test with its arguments, the files it reads and its time limit.
  Naive times are microseconds since the epoch.\<close>

record crl_env =
  ce_suite :: suite_env
  ce_get :: "string \<Rightarrow> nat \<Rightarrow> string \<Rightarrow> int \<Rightarrow> get_outcome"
  ce_head :: "string \<Rightarrow> nat \<Rightarrow> string \<Rightarrow> head_outcome"
  ce_run :: "string \<Rightarrow> string list \<Rightarrow> (string \<times> string) list \<Rightarrow> int option \<Rightarrow> proc"
  ce_path :: "string \<Rightarrow> string \<Rightarrow> string"
  ce_str_time :: "int \<Rightarrow> string"
  ce_iso_time :: "int \<Rightarrow> string"
  ce_key_size :: "public_key \<Rightarrow> int option"
  ce_load_der_crl :: "string \<Rightarrow> exn + crl_view"
  ce_load_pem_crl :: "string \<Rightarrow> exn + crl_view"
  ce_blocked_reason :: "exn \<Rightarrow> string option"

definition COMPREHENSIVE_CALLER :: string where
  "COMPREHENSIVE_CALLER = ''ocsp_tester.tests_crl_comprehensive''"

section \<open>Distribution points of a certificate\<close>

definition leaves_cdp_section :: "string \<Rightarrow> bool" where
  "leaves_cdp_section line \<longleftrightarrow>
     line \<noteq> [] \<and> \<not> startswith line ''URI:'' \<and> \<not> startswith line ''Full Name:'' \<and> \<not> startswith line ''Name:''
     \<and> contains line '':''"

fun scan_cdp :: "bool \<Rightarrow> string list \<Rightarrow> string list" where
  "scan_cdp in_section [] = []"
| "scan_cdp in_section (raw # ls) =
     (let line = strip raw
      in if contains line ''CRL Distribution Points'' then scan_cdp True ls
         else if in_section \<and> leaves_cdp_section line then scan_cdp False ls
         else if in_section \<and> contains line ''URI:''
         then (let uri_part = strip (last_piece ''URI:'' line)
               in if uri_part \<noteq> [] \<and> (contains uri_part ''http'' \<or> contains uri_part ''https'')
                  then uri_part # scan_cdp in_section ls else scan_cdp in_section ls)
         else scan_cdp in_section ls)"

definition extract_all_crl_urls :: "crl_env \<Rightarrow> string \<Rightarrow> certificate \<Rightarrow> string list" where
  "extract_all_crl_urls env nm cert =
     (let path = ce_path env nm ''temp_cert_''
      in case ce_run env nm [''openssl'', ''x509'', ''-in'', path, ''-noout'', ''-text''] [(path, x_pem cert)] None of
           Exited code out err \<Rightarrow> if code \<noteq> 0 then [] else scan_cdp False (splitlines out)
         | _ \<Rightarrow> [])"

definition extract_crl_url :: "crl_env \<Rightarrow> string \<Rightarrow> certificate \<Rightarrow> string option" where
  "extract_crl_url env nm cert =
     (case extract_all_crl_urls env nm cert of [] \<Rightarrow> None | u # _ \<Rightarrow> Some u)"

section \<open>A CRL that downloads\<close>

definition looks_like_crl :: "string \<Rightarrow> bool" where
  "looks_like_crl content \<longleftrightarrow>
     length content > 100 \<and> (contains content ''-----BEGIN X509 CRL-----'' \<or> startswith content ''0'')"

definition discover_candidates :: "string \<Rightarrow> string list" where
  "discover_candidates base =
     base # (if \<not> endswith base ''.crl'' \<and> \<not> endswith base ''/''
             then map (\<lambda>p. rstrip_by (\<lambda>c. c = CHR ''/'') base @ p)
                    [''/crl'', ''/ca.crl'', ''/root.crl'', ''/issuer.crl'', ''/crl.pem'', ''/ca.crl.pem'', ''/crl.crl'', ''/root.crl.pem'']
             else [])"

text \<open>The requests are numbered; the number of the next one comes back. \<open>Inl\<close> is an exception that leaves the loop.\<close>

fun discover_loop :: "crl_env \<Rightarrow> string \<Rightarrow> nat \<Rightarrow> string list \<Rightarrow> (exn + string option) \<times> nat" where
  "discover_loop env nm n [] = (Inr None, n)"
| "discover_loop env nm n (url # urls) =
     (case ce_get env nm n url 10 of
        Body content \<Rightarrow> if looks_like_crl content then (Inr (Some url), Suc n) else discover_loop env nm (Suc n) urls
      | Request_error _ \<Rightarrow> discover_loop env nm (Suc n) urls
      | Other_error e \<Rightarrow> (Inl e, Suc n))"

definition discover_crl_url :: "crl_env \<Rightarrow> string \<Rightarrow> nat \<Rightarrow> string \<Rightarrow> (exn + string option) \<times> nat" where
  "discover_crl_url env nm n base =
     (if base = [] then (Inr None, n) else discover_loop env nm n (discover_candidates base))"

text \<open>The loop of three of the tests: the working URL and the last error.\<close>

fun working_url ::
  "crl_env \<Rightarrow> string \<Rightarrow> nat \<Rightarrow> string list \<Rightarrow> string option \<Rightarrow> (exn + string option \<times> string option) \<times> nat" where
  "working_url env nm n [] last_error = (Inr (None, last_error), n)"
| "working_url env nm n (url # urls) last_error =
     (case ce_get env nm n url 15 of
        Body content \<Rightarrow>
          if looks_like_crl content then (Inr (Some url, last_error), Suc n)
          else working_url env nm (Suc n) urls last_error
      | Request_error e \<Rightarrow>
          (case discover_crl_url env nm (Suc n) url of
             (Inl e', n') \<Rightarrow> (Inl e', n')
           | (Inr (Some found), n') \<Rightarrow> (Inr (Some found, Some (snd e)), n')
           | (Inr None, n') \<Rightarrow> working_url env nm n' urls (Some (snd e)))
      | Other_error e \<Rightarrow> (Inl e, Suc n))"

definition any_cert :: "certificate option \<Rightarrow> certificate option \<Rightarrow> certificate option" where
  "any_cert good revoked = (case good of Some c \<Rightarrow> Some c | None \<Rightarrow> revoked)"

text \<open>What the tests on a downloaded CRL share: the certificate, the URLs to try, the download, and where an
  exception goes. The step gets the certificate's URLs, the working URL and the body.\<close>

definition on_crl ::
  "crl_env \<Rightarrow> certificate option \<Rightarrow> string option \<Rightarrow> string \<Rightarrow> string \<Rightarrow>
     (string list \<Rightarrow> string list \<Rightarrow> string option \<Rightarrow> (string \<times> json) list) \<Rightarrow>
     (string list \<Rightarrow> string \<Rightarrow> string \<Rightarrow> exn + (test_case \<Rightarrow> test_case)) \<Rightarrow>
     (string \<Rightarrow> exn \<Rightarrow> test_case \<Rightarrow> test_case) \<Rightarrow> (exn \<Rightarrow> test_case \<Rightarrow> test_case) \<Rightarrow> test_case \<Rightarrow> test_case" where
  "on_crl env test_cert crl_override_url no_cert no_urls not_found step step_failed failed r =
     (case test_cert of
        None \<Rightarrow> set_verdict SKIP no_cert r
      | Some cert \<Rightarrow>
          (let nm = test_case.tc_name r;
               cert_crl_urls = extract_all_crl_urls env nm cert;
               crl_urls_to_try = (if truthy crl_override_url then [the crl_override_url] else []) @ cert_crl_urls
           in if crl_urls_to_try = [] then set_verdict SKIP no_urls r
              else case working_url env nm 0 crl_urls_to_try None of
                     (Inl e, _) \<Rightarrow> failed e r
                   | (Inr (None, last_error), _) \<Rightarrow>
                       add_details (not_found crl_urls_to_try cert_crl_urls last_error)
                         (set_verdict FAIL (''Could not download CRL from any URL. Last error: '' @ none_text last_error) r)
                   | (Inr (Some working_crl_url, _), n) \<Rightarrow>
                       (case ce_get env nm n working_crl_url 15 of
                          Body content \<Rightarrow>
                            (case step cert_crl_urls working_crl_url content of
                               Inl e \<Rightarrow> step_failed working_crl_url e r
                             | Inr verdict \<Rightarrow> verdict r)
                        | Request_error e \<Rightarrow> step_failed working_crl_url e r
                        | Other_error e \<Rightarrow> step_failed working_crl_url e r)))"

text \<open>\<open>openssl crl -text\<close> with its time limit: on a timeout a text stands in for the output.\<close>

definition crl_text :: "crl_env \<Rightarrow> string \<Rightarrow> string \<Rightarrow> string \<Rightarrow> exn + int \<times> string \<times> string" where
  "crl_text env nm content fallback =
     (let path = ce_path env nm ''crl_''
      in case ce_run env nm [''openssl'', ''crl'', ''-in'', path, ''-noout'', ''-text''] [(path, content)] (Some 30) of
           Exited code out err \<Rightarrow> Inr (code, out, err)
         | Timed_out \<Rightarrow> Inr (0, fallback, [])
         | Not_run e \<Rightarrow> Inl e)"

section \<open>Distribution points and download\<close>

definition cdp_extraction_test :: "crl_env \<Rightarrow> certificate option \<Rightarrow> test_case \<Rightarrow> test_case" where
  "cdp_extraction_test env good r =
     (case good of
        None \<Rightarrow> set_message ''No certificate provided for CRL Distribution Point extraction'' r
      | Some cert \<Rightarrow>
          (let crl_urls = extract_all_crl_urls env (test_case.tc_name r) cert
           in if crl_urls \<noteq> []
              then add_details [(''crl_urls'', JList (map JStr crl_urls)), (''crl_count'', JInt (int (length crl_urls))),
     (''primary_crl_url'', JStr (hd crl_urls))]
                (set_verdict PASS (''CRL Distribution Points found: '' @ show_nat (length crl_urls) @ '' URL(s)'') r)
              else add_details [(''crl_urls'', JList []), (''crl_count'', JInt 0)]
                (set_verdict FAIL ''No CRL Distribution Points found in certificate'' r)))"

definition download_test :: "crl_env \<Rightarrow> certificate option \<Rightarrow> string option \<Rightarrow> test_case \<Rightarrow> test_case" where
  "download_test env test_cert crl_override_url r =
     on_crl env test_cert crl_override_url ''No certificate provided for CRL testing'' ''No CRL URLs available for testing''
       (\<lambda>crl_urls_to_try cert_crl_urls last_error. [(''attempted_urls'', JList (map JStr crl_urls_to_try)), (''cert_crl_urls'',
     JList (map JStr cert_crl_urls)), (''override_url'', text_json crl_override_url), (''last_error'',
     text_json last_error)])
       (\<lambda>cert_crl_urls working_crl_url content.
          map_sum id (\<lambda>(code, out, err) r.
              if code = 0
              then add_details [(''crl_url'', JStr working_crl_url), (''cert_crl_urls'', JList (map JStr cert_crl_urls)),
     (''override_url'', text_json crl_override_url), (''crl_size_bytes'', JInt (int (length content))),
     (''crl_parsed'', JBool True)]
                (set_verdict PASS (''CRL downloaded and parsed successfully from '' @ working_crl_url @ '' ('' @
                   show_nat (length content) @ '' bytes)'') r)
              else set_verdict FAIL (''CRL parsing failed: '' @ err) r)
            (crl_text env (test_case.tc_name r) content ''CRL parsed (large file - basic info only)''))
       (\<lambda>url e. set_verdict ERROR (''Error downloading CRL from '' @ url @ '': '' @ snd e))
       (\<lambda>e. set_verdict ERROR (snd e)) r"

text \<open>The HEAD requests: the accessible URLs and what was wrong with the others.\<close>

fun head_all :: "crl_env \<Rightarrow> string \<Rightarrow> nat \<Rightarrow> string list \<Rightarrow> exn + string list \<times> string list" where
  "head_all env nm n [] = Inr ([], [])"
| "head_all env nm n (url # urls) =
     (case ce_head env nm n url of
        Head_raised e \<Rightarrow> Inl e
      | Answered code \<Rightarrow>
          map_sum id (\<lambda>(good, bad). if code = 200 then (url # good, bad)
                                     else (good, (url @ '' (HTTP '' @ show_int code @ '')'') # bad))
            (head_all env nm (Suc n) urls)
      | Head_refused e \<Rightarrow>
          map_sum id (\<lambda>(good, bad). (good, (url @ '' ('' @ snd e @ '')'') # bad)) (head_all env nm (Suc n) urls))"

definition accessibility_test :: "crl_env \<Rightarrow> certificate option \<Rightarrow> test_case \<Rightarrow> test_case" where
  "accessibility_test env good r =
     (case good of
        None \<Rightarrow> set_message ''No certificate provided for CRL Distribution Point accessibility test'' r
      | Some cert \<Rightarrow>
          (let nm = test_case.tc_name r; cert_crl_urls = extract_all_crl_urls env nm cert
           in if cert_crl_urls = [] then set_verdict SKIP ''No CRL Distribution Points found in certificate'' r
              else case head_all env nm 0 cert_crl_urls of
                     Inl e \<Rightarrow> set_verdict ERROR (snd e) r
                   | Inr (accessible_urls, inaccessible_urls) \<Rightarrow>
                       if accessible_urls \<noteq> []
                       then add_details [(''accessible_urls'', JList (map JStr accessible_urls)), (''inaccessible_urls'',
     JList (map JStr inaccessible_urls)), (''total_crl_urls'', JInt (int (length cert_crl_urls))),
     (''accessible_count'', JInt (int (length accessible_urls)))]
                         (set_verdict PASS (''CRL Distribution Points accessible: '' @ show_nat (length accessible_urls) @ ''/'' @
                            show_nat (length cert_crl_urls)) r)
                       else add_details [(''accessible_urls'', JList []), (''inaccessible_urls'', JList (map JStr inaccessible_urls)),
     (''total_crl_urls'', JInt (int (length cert_crl_urls))), (''accessible_count'', JInt 0)]
                         (set_verdict FAIL (''All CRL Distribution Points inaccessible: '' @
                            show_nat (length inaccessible_urls) @ '' URLs'') r)))"

section \<open>Signature\<close>

fun first_signature_algorithm :: "string list \<Rightarrow> string option" where
  "first_signature_algorithm [] = None"
| "first_signature_algorithm (line # ls) =
     (if contains line ''Signature Algorithm:'' then Some (strip (last_piece ''Signature Algorithm:'' line))
      else first_signature_algorithm ls)"

definition run_verify :: "crl_env \<Rightarrow> string \<Rightarrow> certificate \<Rightarrow> string \<Rightarrow> exn + int \<times> string \<times> string" where
  "run_verify env nm issuer content =
     (let crl_path = ce_path env nm ''crl_''; issuer_path = ce_path env nm ''issuer_''
      in case ce_run env nm [''openssl'', ''crl'', ''-in'', crl_path, ''-noout'', ''-verify'', ''-CAfile'', issuer_path]
             [(crl_path, content), (issuer_path, x_pem issuer)] (Some 30) of
           Exited code out err \<Rightarrow> Inr (code, out, err)
         | Timed_out \<Rightarrow> Inr (1, [], ''CRL verification timeout (large CRL)'')
         | Not_run e \<Rightarrow> Inl e)"

definition verified :: "int \<Rightarrow> string \<Rightarrow> bool" where
  "verified code err \<longleftrightarrow> code = 0 \<and> contains (str_lower err) ''verify ok''"

definition signature_details ::
  "crl_env \<Rightarrow> string \<Rightarrow> certificate \<Rightarrow> string option \<Rightarrow> string list \<Rightarrow> string \<Rightarrow> string \<Rightarrow> int \<Rightarrow> string \<Rightarrow> string \<Rightarrow>
     string option \<Rightarrow> (string \<times> json) list" where
  "signature_details env nm issuer crl_override_url cert_crl_urls working_crl_url content code out err signature_algorithm =
     (let test_description = JList [JStr ''This test verifies the digital signature of the CRL.'', JStr ''It checks:'',
     JStr ''1. CRL signature is valid against the issuer certificate'',
     JStr ''2. CRL has not been tampered with'', JStr ''3. CRL authenticity is confirmed'',
     JStr ''4. Signature algorithm is supported''];
          verify_sig_cmd = [''openssl'', ''crl'', ''-in'', ce_path env nm ''crl_'', ''-noout'', ''-verify'', ''-CAfile'',
            ce_path env nm ''issuer_''];
          signature_verified = verified code err;
          verification_analysis = JDict ([(''command_executed'', JStr (join_with '' '' verify_sig_cmd)), (''return_code'', JInt code), (''stdout'',
     JStr (strip out)), (''stderr'', JStr (strip err)), (''success_indicators'', JList [JStr ''verify OK'',
     JStr ''Verification OK'']), (''failure_indicators'', JList [JStr ''verify failure'',
     JStr ''Verification failure'', JStr ''unable to load'', JStr ''error''])] @
            [(''debug'', JDict [(''return_code'', JInt code), (''stdout_content'', JStr (strip out)), (''stderr_content'',
     JStr (strip err)), (''stderr_lower'', JStr (str_lower err)), (''contains_verify_ok'',
     JBool (contains (str_lower err) ''verify ok'')), (''signature_verified_result'',
     JBool signature_verified)])]);
          issuer_info = JDict [(''issuer_subject'', JStr (se_subject (ce_suite env) issuer)), (''issuer_serial'',
     JStr (show_nat (x_serial_number issuer))), (''issuer_public_key_algorithm'',
     (case ce_key_size env (x_public_key issuer) of Some n \<Rightarrow> JInt n | None \<Rightarrow> JStr ''Unknown''))]
      in [(''test_description'', test_description), (''crl_url'', JStr working_crl_url), (''cert_crl_urls'',
     JList (map JStr cert_crl_urls)), (''override_url'', text_json crl_override_url), (''crl_size_bytes'',
     JInt (int (length content))), (''signature_verified'', JBool signature_verified),
     (''verification_analysis'', verification_analysis), (''signature_algorithm'',
     text_json signature_algorithm), (''issuer_info'', issuer_info), (''troubleshooting'',
     JDict [(''if_signature_fails'', JStr ''CRL may be corrupted, issuer certificate mismatch,
     or signature algorithm unsupported''), (''if_issuer_mismatch'',
     JStr ''Verify the issuer certificate matches the CRL signer''), (''if_algorithm_unsupported'',
     JStr ''Check if OpenSSL supports the signature algorithm used''), (''next_steps'',
     JStr ''Verify issuer certificate is correct, check CRL integrity,
     ensure OpenSSL version supports the signature algorithm'')])])"

definition signature_step ::
  "crl_env \<Rightarrow> string \<Rightarrow> certificate \<Rightarrow> string option \<Rightarrow> string list \<Rightarrow> string \<Rightarrow> string \<Rightarrow> exn + (test_case \<Rightarrow> test_case)" where
  "signature_step env nm issuer crl_override_url cert_crl_urls working_crl_url content =
     (case run_verify env nm issuer content of
        Inl e \<Rightarrow> Inl e
      | Inr (code, out, err) \<Rightarrow>
          map_sum id (\<lambda>(_, info, _) r.
              add_details (signature_details env nm issuer crl_override_url cert_crl_urls working_crl_url content code out err
                  (first_signature_algorithm (splitlines info)))
                (if verified code err then set_verdict PASS ''CRL signature verification successful'' r
                 else set_verdict FAIL (''CRL signature verification failed: '' @ (if err \<noteq> [] then err else out)) r))
            (crl_text env nm content ''CRL info extracted (large file - basic info only)''))"

definition crl_signature_test ::
  "crl_env \<Rightarrow> certificate \<Rightarrow> certificate option \<Rightarrow> string option \<Rightarrow> test_case \<Rightarrow> test_case" where
  "crl_signature_test env issuer test_cert crl_override_url r =
     on_crl env test_cert crl_override_url ''No certificate provided for CRL signature verification''
       ''No CRL URLs available for signature verification''
       (\<lambda>crl_urls_to_try cert_crl_urls last_error. [(''attempted_urls'', JList (map JStr crl_urls_to_try)), (''cert_crl_urls'',
     JList (map JStr cert_crl_urls)), (''override_url'', text_json crl_override_url), (''last_error'',
     text_json last_error), (''signature_verified'', JBool False)])
       (signature_step env (test_case.tc_name r) issuer crl_override_url)
       (\<lambda>url e r. add_details [(''error_type'', JStr (fst e)), (''error_details'', JStr (snd e)), (''signature_verified'', JBool False)]
          (set_verdict ERROR (''Error during CRL signature verification: '' @ snd e) r))
       (\<lambda>exc r. add_details [(''error_type'', JStr (fst exc)), (''error_details'', JStr (snd exc)), (''signature_verified'',
     JBool False)]
          (set_verdict ERROR (''Test execution failed: '' @ snd exc) r)) r"

section \<open>Timestamps\<close>

record crl_times =
  ct_this_raw :: "string option"
  ct_next_raw :: "string option"
  ct_this :: "int option"
  ct_next :: "int option"
  ct_issues :: "string list"

definition THIS_LABELS :: "string list" where
  "THIS_LABELS = [''This Update:'', ''Last Update:'', ''thisUpdate:'', ''lastUpdate='']"

definition NEXT_LABELS :: "string list" where
  "NEXT_LABELS = [''Next Update:'', ''nextUpdate:'', ''nextUpdate='']"

definition labelled :: "string list \<Rightarrow> string \<Rightarrow> string option" where
  "labelled labels line = find (\<lambda>p. contains (str_lower line) (str_lower p)) labels"

definition raw_time :: "string \<Rightarrow> string \<Rightarrow> string" where
  "raw_time label line = (if contains line ''='' then strip (after_first ''='' line) else strip (last_piece label line))"

definition CRL_TIME_FORMATS :: "directive list list" where
  "CRL_TIME_FORMATS =
     (let hms = [Hour, Literal (CHR '':''), Minute, Literal (CHR '':''), Second]
      in [[MonthName, Blank, Day, Blank] @ hms @ [Blank, Year, Blank, ZoneName],
          [MonthName, Blank, Day, Blank] @ hms @ [Blank, Year],
          [Year, Literal (CHR ''-''), Month, Literal (CHR ''-''), Day, Blank] @ hms])"

fun parse_crl_time :: "string \<Rightarrow> directive list list \<Rightarrow> int option" where
  "parse_crl_time raw [] = None"
| "parse_crl_time raw (fmt # fmts) =
     (case strptime raw fmt of Some f \<Rightarrow> Some (timestamp f * 1000000) | None \<Rightarrow> parse_crl_time raw fmts)"

definition or_keep :: "'a option \<Rightarrow> 'a option \<Rightarrow> 'a option" where
  "or_keep new old = (case new of Some x \<Rightarrow> Some x | None \<Rightarrow> old)"

text \<open>One line of the output. A field found again replaces the raw text; the parsed time stays if the new one
  does not parse, and then nothing is reported.\<close>

definition time_line :: "string \<Rightarrow> crl_times \<Rightarrow> crl_times" where
  "time_line raw_line t =
     (let line = strip raw_line
      in case labelled THIS_LABELS line of
           Some label \<Rightarrow>
             (let raw = raw_time label line; parsed = or_keep (parse_crl_time raw CRL_TIME_FORMATS) (ct_this t)
              in t\<lparr>ct_this_raw := Some raw, ct_this := parsed,
                   ct_issues := ct_issues t @ (if parsed = None then [''Could not parse This Update: '' @ raw] else [])\<rparr>)
         | None \<Rightarrow>
             (case labelled NEXT_LABELS line of
                Some label \<Rightarrow>
                  (let raw = raw_time label line; parsed = or_keep (parse_crl_time raw CRL_TIME_FORMATS) (ct_next t)
                   in t\<lparr>ct_next_raw := Some raw, ct_next := parsed,
                        ct_issues := ct_issues t @ (if parsed = None then [''Could not parse Next Update: '' @ raw] else [])\<rparr>)
              | None \<Rightarrow> t))"

definition scan_times :: "string \<Rightarrow> crl_times" where
  "scan_times out =
     fold time_line (splitlines out) \<lparr>ct_this_raw = None, ct_next_raw = None, ct_this = None, ct_next = None, ct_issues = []\<rparr>"

definition period_issues :: "int \<Rightarrow> crl_times \<Rightarrow> string list" where
  "period_issues now t =
     (case (ct_this t, ct_next t) of
        (Some this, Some nxt) \<Rightarrow>
          (if this > now then [''This Update is in the future''] else []) @
          (if nxt < now then [''Next Update is in the past''] else []) @
          (if this > nxt then [''This Update is after Next Update''] else [])
      | _ \<Rightarrow> [])"

definition times_valid :: "int \<Rightarrow> crl_times \<Rightarrow> bool" where
  "times_valid now t \<longleftrightarrow>
     (case (ct_this t, ct_next t) of (Some this, Some nxt) \<Rightarrow> this \<le> now \<and> now \<le> nxt | _ \<Rightarrow> False)"

definition freshness :: "int \<Rightarrow> crl_times \<Rightarrow> string" where
  "freshness now t =
     (case (ct_this t, ct_next t) of
        (Some this, Some nxt) \<Rightarrow> if this \<le> now \<and> now \<le> nxt then ''Valid'' else ''Stale or Invalid''
      | _ \<Rightarrow> ''Missing Timestamps'')"

definition naive_text :: "crl_env \<Rightarrow> int option \<Rightarrow> string" where
  "naive_text env u = (case u of None \<Rightarrow> ''None'' | Some u \<Rightarrow> ce_str_time env u)"

definition timestamp_verdict :: "crl_env \<Rightarrow> int \<Rightarrow> crl_times \<Rightarrow> test_status \<times> string" where
  "timestamp_verdict env now t =
     (let issues = ct_issues t @ period_issues now t
      in if issues = [] \<and> times_valid now t
         then (PASS, ''CRL timestamps valid (This: '' @ naive_text env (ct_this t) @ '', Next: '' @ naive_text env (ct_next t) @ '')'')
         else if issues \<noteq> [] then (FAIL, ''CRL timestamp validation failed: '' @ join_with '', '' issues)
         else (FAIL, ''CRL timestamps invalid or stale''))"

definition crl_timestamp_details ::
  "crl_env \<Rightarrow> int \<Rightarrow> string option \<Rightarrow> string list \<Rightarrow> string \<Rightarrow> string \<Rightarrow> crl_times \<Rightarrow> (string \<times> json) list" where
  "crl_timestamp_details env now crl_override_url cert_crl_urls working_crl_url content t =
     (let test_description = JList [JStr ''This test validates CRL timestamp fields for freshness and validity.'', JStr ''It checks:'',
     JStr ''1. This Update field is present and parseable'',
     JStr ''2. Next Update field is present and parseable'', JStr ''3. This Update is not in the future'',
     JStr ''4. Next Update is not in the past'', JStr ''5. Current time is within the valid period'',
     JStr ''6. Timestamp format compliance (RFC 5280)''];
          timestamp_issues = ct_issues t @ period_issues now t;
          validation_results = JDict ([(''current_time'', JStr (ce_iso_time env now)), (''this_update_present'',
     JBool (ct_this t \<noteq> None)), (''next_update_present'', JBool (ct_next t \<noteq> None)),
     (''this_update_raw'', text_json (ct_this_raw t)), (''next_update_raw'', text_json (ct_next_raw t)),
     (''this_update_parsed'', json_opt (\<lambda>u. JStr (ce_iso_time env u)) (ct_this t)),
     (''next_update_parsed'', json_opt (\<lambda>u. JStr (ce_iso_time env u)) (ct_next t))] @
            [(''timestamps_valid'', JBool (times_valid now t)), (''crl_freshness'', JStr (freshness now t))])
      in [(''test_description'', test_description), (''crl_url'', JStr working_crl_url), (''cert_crl_urls'',
     JList (map JStr cert_crl_urls)), (''override_url'', text_json crl_override_url), (''crl_size_bytes'',
     JInt (int (length content))), (''validation_results'', validation_results), (''timestamp_issues'',
     JList (map JStr timestamp_issues)), (''troubleshooting'', JDict [(''if_missing_timestamps'',
     JStr ''CRL may be malformed or not RFC 5280 compliant''), (''if_future_this_update'',
     JStr ''CRL This Update timestamp is in the future''), (''if_past_next_update'',
     JStr ''CRL Next Update timestamp is in the past (CRL is stale)''), (''if_parse_errors'',
     JStr ''CRL timestamp format may be non-standard''), (''next_steps'', JStr ''Check CRL format compliance,
     verify system clock, ensure CRL is current'')])])"

text \<open>On a timeout of the full text, the two dates alone; if they do not come either, no text.\<close>

definition crl_time_text :: "crl_env \<Rightarrow> string \<Rightarrow> string \<Rightarrow> exn + string" where
  "crl_time_text env nm content =
     (let path = ce_path env nm ''crl_''
      in case ce_run env nm [''openssl'', ''crl'', ''-in'', path, ''-noout'', ''-text''] [(path, content)] (Some 30) of
           Exited code out err \<Rightarrow> Inr out
         | Not_run e \<Rightarrow> Inl e
         | Timed_out \<Rightarrow>
             (case ce_run env nm [''openssl'', ''crl'', ''-in'', path, ''-noout'', ''-lastupdate'', ''-nextupdate'']
                 [(path, content)] (Some 15) of
                Exited code out err \<Rightarrow> Inr (if code = 0 then strip out else [])
              | Timed_out \<Rightarrow> Inr []
              | Not_run e \<Rightarrow> Inl e))"

definition crl_timestamp_test :: "crl_env \<Rightarrow> certificate option \<Rightarrow> string option \<Rightarrow> test_case \<Rightarrow> test_case" where
  "crl_timestamp_test env test_cert crl_override_url r =
     on_crl env test_cert crl_override_url ''No certificate provided for CRL timestamp validation''
       ''No CRL URLs available for timestamp validation''
       (\<lambda>crl_urls_to_try cert_crl_urls last_error. [(''attempted_urls'', JList (map JStr crl_urls_to_try)), (''cert_crl_urls'',
     JList (map JStr cert_crl_urls)), (''override_url'', text_json crl_override_url), (''last_error'',
     text_json last_error), (''timestamp_issues'', JList [JStr ''CRL download failed''])])
       (\<lambda>cert_crl_urls working_crl_url content.
          map_sum id (\<lambda>out r.
              (let t = scan_times out; now = se_now (ce_suite env) (test_case.tc_name r);
                   (status, message) = timestamp_verdict env now t
               in add_details (crl_timestamp_details env now crl_override_url cert_crl_urls working_crl_url content t)
                    (set_verdict status message r)))
            (crl_time_text env (test_case.tc_name r) content))
       (\<lambda>url e r. add_details [(''error_type'', JStr (fst e)), (''error_details'', JStr (snd e)), (''timestamp_issues'',
     JList [JStr ''CRL processing failed''])]
          (set_verdict ERROR (''Error during CRL timestamp validation: '' @ snd e) r))
       (\<lambda>exc r. add_details [(''error_type'', JStr (fst exc)), (''error_details'', JStr (snd exc)), (''timestamp_issues'',
     JList [JStr ''Test execution failed''])]
          (set_verdict ERROR (''Test execution failed: '' @ snd exc) r)) r"

section \<open>Revocation\<close>

definition same_serial :: "string \<Rightarrow> string \<Rightarrow> bool" where
  "same_serial serial crl_serial \<longleftrightarrow>
     str_upper serial = str_upper crl_serial \<or> str_lower serial = str_lower crl_serial \<or> serial = crl_serial"

text \<open>The scan of the section of revoked certificates for a serial number.\<close>

fun revoked_listed :: "string \<Rightarrow> bool \<Rightarrow> string list \<Rightarrow> bool" where
  "revoked_listed serial in_section [] = False"
| "revoked_listed serial in_section (raw # ls) =
     (let line = strip raw
      in if contains line ''Revoked Certificates:'' then revoked_listed serial True ls
         else if in_section
         then (if startswith line ''Serial Number:''
               then same_serial serial (strip (last_piece ''Serial Number:'' line)) \<or> revoked_listed serial in_section ls
               else if startswith line ''Signature Algorithm:'' \<or> startswith line ''Issuer:'' then False
               else revoked_listed serial in_section ls)
         else revoked_listed serial in_section ls)"

text \<open>Whether the serial was found in the section, and the verdict: without a find, whether the text holds
  it anywhere.\<close>

definition crl_revocation :: "string \<Rightarrow> string \<Rightarrow> bool \<times> bool" where
  "crl_revocation serial out =
     (let found = revoked_listed serial False (splitlines out)
      in (found, if \<not> found \<and> serial \<noteq> [] then contains (str_upper out) (str_upper serial) else found))"

definition run_serial :: "crl_env \<Rightarrow> string \<Rightarrow> certificate \<Rightarrow> proc" where
  "run_serial env nm cert =
     (let path = ce_path env nm ''temp_cert_''
      in ce_run env nm [''openssl'', ''x509'', ''-serial'', ''-noout'', ''-in'', path] [(path, x_pem cert)] None)"

definition serial_of :: "string \<Rightarrow> string" where
  "serial_of out = strip (last_piece ''='' out)"

definition no_serial :: "string \<Rightarrow> string \<Rightarrow> test_case \<Rightarrow> test_case" where
  "no_serial out err r =
     add_details [(''error'', JStr ''Serial extraction failed''), (''stderr'', JStr err), (''stdout'', JStr out)]
       (set_verdict ERROR (''Failed to extract certificate serial number: '' @ err) r)"

definition crl_of_cert :: "crl_env \<Rightarrow> string \<Rightarrow> string option \<Rightarrow> certificate \<Rightarrow> string option" where
  "crl_of_cert env nm crl_override_url cert =
     (if truthy crl_override_url then crl_override_url else extract_crl_url env nm cert)"

definition revocation_details ::
  "string \<Rightarrow> string \<Rightarrow> string \<Rightarrow> bool \<Rightarrow> bool \<Rightarrow> bool \<Rightarrow> (string \<times> json) list" where
  "revocation_details serial crl_url content is_revoked crl_serial_found crl_revoked = [(''certificate_serial'', JStr serial), (''certificate_type'',
     JStr (if is_revoked then ''revoked'' else ''good'')), (''crl_revoked'', JBool crl_revoked),
     (''crl_serial_found_in_revoked_section'', JBool crl_serial_found), (''crl_url'', JStr crl_url),
     (''crl_size_bytes'', JInt (int (length content))), (''test_description'',
     JList [JStr ''This test verifies that certificate revocation status is correctly reflected in the CRL.'',
     JStr ''It checks:'', JStr ''1. Revoked certificates appear in the CRL revoked certificates section'',
     JStr ''2. Good certificates do not appear in the CRL revoked certificates section'',
     JStr ''3. CRL parsing correctly identifies certificate serial numbers'',
     JStr ''4. Revocation status consistency between certificate type and CRL content''])]"

definition revocation_verdict :: "bool \<Rightarrow> string \<Rightarrow> bool \<Rightarrow> test_status \<times> string" where
  "revocation_verdict is_revoked serial crl_revoked =
     (if is_revoked
      then (if crl_revoked then (PASS, ''Revoked certificate serial '' @ serial @ '' correctly found in CRL'')
            else (FAIL, ''Revoked certificate serial '' @ serial @ '' not found in CRL''))
      else (if \<not> crl_revoked then (PASS, ''Good certificate serial '' @ serial @ '' correctly not found in CRL'')
            else (FAIL, ''Good certificate serial '' @ serial @ '' unexpectedly found in CRL'')))"

definition REVOCATION_FALLBACK :: string where
  "REVOCATION_FALLBACK = ''CRL revocation check (large file - basic info only)''"

definition revocation_test ::
  "crl_env \<Rightarrow> certificate option \<Rightarrow> certificate option \<Rightarrow> string option \<Rightarrow> test_case \<Rightarrow> test_case" where
  "revocation_test env good revoked crl_override_url r =
     (case any_cert good revoked of
        None \<Rightarrow> set_message ''No certificate provided for revocation status check'' r
      | Some cert \<Rightarrow>
          (let nm = test_case.tc_name r; crl_url = crl_of_cert env nm crl_override_url cert
           in if \<not> truthy crl_url then set_verdict SKIP ''No CRL URL available for revocation status check'' r
              else case ce_get env nm 0 (the crl_url) 15 of
                     Request_error e \<Rightarrow> set_verdict ERROR (snd e) r
                   | Other_error e \<Rightarrow> set_verdict ERROR (snd e) r
                   | Body content \<Rightarrow>
              (case run_serial env nm cert of
                 Timed_out \<Rightarrow> r
               | Not_run e \<Rightarrow> set_verdict ERROR (snd e) r
               | Exited code out err \<Rightarrow>
                   if code \<noteq> 0 \<or> strip out = [] then no_serial out err r
                   else case crl_text env nm content REVOCATION_FALLBACK of
                          Inl e \<Rightarrow> set_verdict ERROR (snd e) r
                        | Inr (_, text, _) \<Rightarrow>
                            (let serial = serial_of out;
                                 is_revoked = (map_option x_der revoked = Some (x_der cert));
                                 (crl_serial_found, crl_revoked) = crl_revocation serial text;
                                 (status, message) = revocation_verdict is_revoked serial crl_revoked
                             in add_details (revocation_details serial (the crl_url) content is_revoked crl_serial_found crl_revoked)
                                  (set_verdict status message r)))))"

definition revoked_text :: "bool \<Rightarrow> string" where
  "revoked_text b = (if b then ''REVOKED'' else ''GOOD'')"

definition consistent :: "string option \<Rightarrow> bool \<Rightarrow> bool" where
  "consistent ocsp_status crl_revoked \<longleftrightarrow>
     (ocsp_status = Some ''GOOD'' \<and> \<not> crl_revoked) \<or> (ocsp_status = Some ''REVOKED'' \<and> crl_revoked)"

definition consistency_verdict :: "string option \<Rightarrow> string \<Rightarrow> string \<Rightarrow> test_case \<Rightarrow> test_case" where
  "consistency_verdict ocsp_status serial out r =
     (let (crl_serial_found, crl_revoked) = crl_revocation serial out;
          debug_info = JDict [(''certificate_serial'', JStr serial), (''crl_serial_found_in_revoked_section'',
     JBool crl_serial_found), (''crl_revoked'', JBool crl_revoked), (''ocsp_status'', text_json ocsp_status),
     (''crl_text_sample'', JStr (if length out > 500 then take 500 out @ ''...'' else out))];
          states = '' (OCSP: '' @ none_text ocsp_status @ '', CRL: '' @ revoked_text crl_revoked @ '')''
      in if consistent ocsp_status crl_revoked
         then add_details [(''ocsp_status'', text_json ocsp_status), (''crl_status'', JStr (revoked_text crl_revoked)),
     (''consistent'', JBool True), (''debug_info'', debug_info)]
           (set_verdict PASS (''CRL and OCSP status consistent'' @ states) r)
         else add_details [(''ocsp_status'', text_json ocsp_status), (''crl_status'', JStr (revoked_text crl_revoked)),
     (''consistent'', JBool False), (''debug_info'', debug_info)]
           (set_verdict FAIL (''CRL and OCSP status inconsistent'' @ states) r))"

text \<open>Without a serial number the code goes on to the scan: the variable then holds the serial number that the
  revocation test of the same call left in it, or is not bound.\<close>

definition earlier_serial :: "crl_env \<Rightarrow> certificate option \<Rightarrow> string option \<Rightarrow> string option" where
  "earlier_serial env test_cert crl_override_url =
     (let nm = ''Certificate revocation status check''
      in if \<not> should_run (se_selection (ce_suite env)) nm then None
         else case test_cert of
                None \<Rightarrow> None
              | Some cert \<Rightarrow>
                  (let crl_url = crl_of_cert env nm crl_override_url cert
                   in if \<not> truthy crl_url then None
                      else case ce_get env nm 0 (the crl_url) 15 of
                             Request_error e \<Rightarrow> None
                           | Other_error e \<Rightarrow> None
                           | Body content \<Rightarrow>
                               (case run_serial env nm cert of
                                  Exited code out err \<Rightarrow> if code \<noteq> 0 \<or> strip out = [] then None else Some (serial_of out)
                                | _ \<Rightarrow> None)))"

definition UNBOUND_SERIAL :: string where
  "UNBOUND_SERIAL = ''cannot access local variable '' @ [CHR 0x27] @ ''serial'' @ [CHR 0x27] @ '' where it is not associated with a value''"

definition consistency_test ::
  "crl_env \<Rightarrow> string \<Rightarrow> certificate \<Rightarrow> certificate option \<Rightarrow> string option \<Rightarrow> string option \<Rightarrow> test_case \<Rightarrow> test_case" where
  "consistency_test env ocsp_url issuer test_cert crl_override_url bound r =
     (case test_cert of
        None \<Rightarrow> set_message ''No certificates provided for CRL vs OCSP consistency check'' r
      | Some cert \<Rightarrow>
          (let nm = test_case.tc_name r; crl_url = crl_of_cert env nm crl_override_url cert
           in if \<not> truthy crl_url then set_verdict SKIP ''No CRL URL available for consistency check'' r
              else case send_ocsp_request (ce_suite env) COMPREHENSIVE_CALLER nm 0 ocsp_url (request_spec_of cert issuer False) ''POST'' of
                     Inl e \<Rightarrow> set_verdict ERROR (snd e) r
                   | Inr ocsp_info \<Rightarrow>
              (case ce_get env nm 0 (the crl_url) 15 of
                 Request_error e \<Rightarrow> set_verdict ERROR (snd e) r
               | Other_error e \<Rightarrow> set_verdict ERROR (snd e) r
               | Body content \<Rightarrow>
              (case run_serial env nm cert of
                 Timed_out \<Rightarrow> r
               | Not_run e \<Rightarrow> set_verdict ERROR (snd e) r
               | Exited code out err \<Rightarrow>
                   (let unbound = (code \<noteq> 0 \<or> strip out = []);
                        r' = (if unbound then no_serial out err r else r)
                    in case crl_text env nm content REVOCATION_FALLBACK of
                         Inl e \<Rightarrow> set_verdict ERROR (snd e) r'
                       | Inr (_, text, _) \<Rightarrow>
                           (case (if unbound then bound else Some (serial_of out)) of
                              None \<Rightarrow> set_verdict ERROR UNBOUND_SERIAL r'
                            | Some serial \<Rightarrow> consistency_verdict (ri_cert_status ocsp_info) serial text r'))))))"

section \<open>The suite\<close>

definition run_crl_comprehensive_tests ::
  "crl_env \<Rightarrow> string \<Rightarrow> certificate \<Rightarrow> certificate option \<Rightarrow> certificate option \<Rightarrow> string option \<Rightarrow> test_case list" where
  "run_crl_comprehensive_tests env ocsp_url issuer good revoked crl_override_url =
     (let cert = any_cert good revoked; run = run_test (ce_suite env) ''CRL''
      in run ''CRL Distribution Point extraction from certificate'' SKIP (cdp_extraction_test env good) @
         run ''CRL download and parsing from certificate CRL Distribution Points'' ERROR (download_test env cert crl_override_url) @
         run ''CRL Distribution Point accessibility'' SKIP (accessibility_test env good) @
         run ''CRL signature verification'' ERROR (crl_signature_test env issuer cert crl_override_url) @
         run ''CRL timestamp validation'' ERROR (crl_timestamp_test env cert crl_override_url) @
         run ''Certificate revocation status check'' SKIP (revocation_test env good revoked crl_override_url) @
         run ''CRL vs OCSP consistency check'' SKIP 
           (consistency_test env ocsp_url issuer cert crl_override_url (earlier_serial env cert crl_override_url)))"

text \<open>The CRL URLs given with the run. Times in the details are rendered as the serialization of the result
  renders them.\<close>

definition explicit_crl_verdict :: "crl_env \<Rightarrow> string \<Rightarrow> string \<Rightarrow> crl_view \<Rightarrow> test_case \<Rightarrow> test_case" where
  "explicit_crl_verdict env url content crl r =
     (let now = se_now (ce_suite env) (test_case.tc_name r);
          current = (case cv_next_update crl of None \<Rightarrow> True | Some u \<Rightarrow> u > now)
      in add_details
           [(''crl_url'', JStr url), (''size_bytes'', JInt (int (length content))), (''issuer'', JStr (cv_issuer crl)),
            (''revoked_count'', JInt (int (cv_revoked_count crl))),
            (''last_update'', json_opt (\<lambda>u. JStr (ce_str_time env u)) (cv_last_update crl)),
            (''next_update'', json_opt (\<lambda>u. JStr (ce_str_time env u)) (cv_next_update crl)),
            (''rfc_refs'', JList [JStr (''RFC 5280 '' @ section_sign @ ''5 (CRL profile)'')])]
           (set_verdict (if current then PASS else WARN)
             (''CRL fetched ('' @ show_nat (length content) @ '' bytes), issuer='' @ cv_issuer crl @ '', '' @
              show_nat (cv_revoked_count crl) @ '' revoked entries'' @
              (if current then [] else '' '' @ em_dash @ '' CRL nextUpdate has passed'')) r))"

definition fetch_failed :: "crl_env \<Rightarrow> exn \<Rightarrow> test_case \<Rightarrow> test_case" where
  "fetch_failed env e r =
     (case ce_blocked_reason env e of
        Some reason \<Rightarrow> set_verdict ERROR (''Blocked by network policy: '' @ reason) r
      | None \<Rightarrow> set_verdict FAIL (''CRL fetch/parse failed: '' @ snd e) r)"

definition explicit_crl_test :: "crl_env \<Rightarrow> int \<Rightarrow> string \<Rightarrow> test_case \<Rightarrow> test_case" where
  "explicit_crl_test env max_timeout url r =
     (case ce_get env (test_case.tc_name r) 0 url max_timeout of
        Request_error e \<Rightarrow> fetch_failed env e r
      | Other_error e \<Rightarrow> fetch_failed env e r
      | Body content \<Rightarrow>
          (case ce_load_der_crl env content of
             Inr crl \<Rightarrow> explicit_crl_verdict env url content crl r
           | Inl _ \<Rightarrow>
               (case ce_load_pem_crl env content of
                  Inr crl \<Rightarrow> explicit_crl_verdict env url content crl r
                | Inl e \<Rightarrow> fetch_failed env e r)))"

definition explicit_crl_name :: "string \<Rightarrow> string" where
  "explicit_crl_name url = ''Fetch and parse CRL: '' @ url"

definition explicit_crl_tests :: "crl_env \<Rightarrow> int \<Rightarrow> string list \<Rightarrow> test_case list" where
  "explicit_crl_tests env max_timeout crl_urls =
     concat (map (\<lambda>url. run_test (ce_suite env) ''CRL'' (explicit_crl_name url) ERROR (explicit_crl_test env max_timeout url)) crl_urls)"

section \<open>Every selected test reports\<close>

lemma same_on_crl:
  assumes "\<And>cs u b f. step cs u b = Inr f \<Longrightarrow> same_case (f r) r" "\<And>u e. same_case (step_failed u e r) r"
    and "\<And>e. same_case (failed e r) r"
  shows "same_case (on_crl env cert override m1 m2 not_found step step_failed failed r) r"
proof (cases cert)
  case (Some c)
  have step: "same_case (case step cs u b of Inl e \<Rightarrow> step_failed u e r | Inr f \<Rightarrow> f r) r" for cs u b
    using assms(1,2) by (simp split: sum.split)
  show ?thesis
    by (simp add: on_crl_def Some Let_def assms(2,3) step split: sum.split prod.split option.split get_outcome.split)
qed (simp add: on_crl_def)

lemma same_no_serial [simp]: "same_case (no_serial out err r') r = same_case r' r"
  by (simp add: no_serial_def)

lemma same_consistency_verdict [simp]: "same_case (consistency_verdict st serial out r') r = same_case r' r"
  by (simp add: consistency_verdict_def Let_def split: prod.split)

lemma same_simple_bodies:
  "same_case (cdp_extraction_test env good r) r" "same_case (accessibility_test env good r) r"
  by (simp_all add: cdp_extraction_test_def accessibility_test_def Let_def split: option.split sum.split prod.split)

lemma same_download_test: "same_case (download_test env cert override r) r"
  unfolding download_test_def
  by (rule same_on_crl) (auto simp: map_sum_def split: sum.splits prod.splits)

lemma same_signature_test: "same_case (crl_signature_test env issuer cert override r) r"
  unfolding crl_signature_test_def
  by (rule same_on_crl) (auto simp: signature_step_def map_sum_def split: sum.splits prod.splits)

lemma same_timestamp_test: "same_case (crl_timestamp_test env cert override r) r"
  unfolding crl_timestamp_test_def
  by (rule same_on_crl) (auto simp: map_sum_def Let_def split: sum.splits prod.splits)

lemma same_revocation_test: "same_case (revocation_test env good revoked override r) r"
  by (simp add: revocation_test_def Let_def split: option.split sum.split prod.split get_outcome.split proc.split)

lemma same_consistency_test: "same_case (consistency_test env ocsp_url issuer cert override bound r) r"
  by (simp add: consistency_test_def Let_def split: option.split sum.split prod.split get_outcome.split proc.split)

lemma same_explicit_test: "same_case (explicit_crl_test env n url r) r"
  by (simp add: explicit_crl_test_def explicit_crl_verdict_def fetch_failed_def Let_def
      split: option.split sum.split get_outcome.split)

lemmas same_crl_bodies =
  same_simple_bodies same_download_test same_signature_test same_timestamp_test same_revocation_test
  same_consistency_test same_explicit_test

definition comprehensive_names :: "string list" where
  "comprehensive_names = drop 3 (butlast (names_of ''crl''))"

lemma crl_comprehensive_reports:
  "reports (ce_suite env) ''CRL'' comprehensive_names (run_crl_comprehensive_tests env url issuer good revoked override)"
proof -
  have names: "comprehensive_names = [''CRL Distribution Point extraction from certificate'',
      ''CRL download and parsing from certificate CRL Distribution Points'', ''CRL Distribution Point accessibility'',
      ''CRL signature verification'', ''CRL timestamp validation'', ''Certificate revocation status check'',
      ''CRL vs OCSP consistency check'']"
    by (simp add: comprehensive_names_def names_of_def catalog_index_def TEST_CATALOG_def catalog_entry_def)
  show ?thesis
    unfolding names run_crl_comprehensive_tests_def Let_def by (intro reports_Cons reports_body same_crl_bodies)
qed

lemma explicit_crl_reports:
  "reports (ce_suite env) ''CRL'' (map explicit_crl_name urls) (explicit_crl_tests env n urls)"
proof (induction urls)
  case (Cons url urls)
  have "reports (ce_suite env) ''CRL'' [explicit_crl_name url]
      (run_test (ce_suite env) ''CRL'' (explicit_crl_name url) ERROR (explicit_crl_test env n url))"
    by (intro reports_body same_crl_bodies)
  from reports_Cons [OF this Cons.IH] show ?case
    by (simp add: explicit_crl_tests_def)
qed (simp add: explicit_crl_tests_def)

section \<open>Reading the output of openssl\<close>

text \<open>The section of distribution points as openssl prints it, one location each.\<close>

definition location_line :: "string \<Rightarrow> string" where
  "location_line u = ''                  URI:'' @ u"

definition cdp_section :: "string list \<Rightarrow> string list" where
  "cdp_section us = ''            X509v3 CRL Distribution Points: '' #
     concat (map (\<lambda>u. [''                Full Name:'', location_line u]) us)"

definition plain_location :: "string \<Rightarrow> bool" where
  "plain_location u \<longleftrightarrow>
     contains u ''http'' \<and> \<not> is_space (hd u) \<and> \<not> is_space (last u) \<and> \<not> contains u ''URI:''
     \<and> \<not> contains (''URI:'' @ u) ''CRL Distribution Points''"

lemma contains_not_Nil: "contains u p \<Longrightarrow> p \<noteq> [] \<Longrightarrow> u \<noteq> []"
  by (auto simp: contains_def)

lemma strip_indented:
  "list_all is_space w \<Longrightarrow> s \<noteq> [] \<Longrightarrow> \<not> is_space (hd s) \<Longrightarrow> \<not> is_space (last s) \<Longrightarrow> strip (w @ s) = s"
  by (induction w) (simp_all add: strip_unspaced, simp add: strip_def lstrip_def)

lemma scan_cdp_location:
  assumes "plain_location u"
  shows "scan_cdp True (''                Full Name:'' # location_line u # ls) = u # scan_cdp True ls"
proof -
  from assms have u: "u \<noteq> []" "\<not> is_space (hd u)" "\<not> is_space (last u)" "contains u ''http''" "\<not> contains u ''URI:''"
      "\<not> contains (''URI:'' @ u) ''CRL Distribution Points''"
    using contains_not_Nil [of u "''http''"] by (auto simp: plain_location_def)
  define v where "v = ''URI:'' @ u"
  have full: "strip ''                Full Name:'' = ''Full Name:''"
    by (simp add: strip_def lstrip_def rstrip_by_def is_space_def)
  have uri: "strip (location_line u) = v"
    using strip_indented [of "''                  ''" "''URI:'' @ u"] u by (simp add: is_space_def location_line_def v_def)
  have piece: "last_piece ''URI:'' v = u"
    unfolding v_def using u by (intro last_piece_label) simp_all
  have flags: "\<not> contains ''Full Name:'' ''CRL Distribution Points''" "\<not> contains ''Full Name:'' ''URI:''"
      "contains v ''URI:''" "startswith v ''URI:''" "\<not> contains v ''CRL Distribution Points''"
    using u by (simp_all add: contains_def sublist_code startswith_def v_def)
  show ?thesis
    using u by (simp add: Let_def full uri piece flags leaves_cdp_section_def strip_unspaced)
      (simp add: startswith_def)
qed

text \<open>The extraction recovers the printed locations.\<close>

lemma scan_cdp_section:
  assumes "list_all plain_location us"
  shows "scan_cdp False (cdp_section us @ ls) = us @ scan_cdp True ls"
proof -
  have head: "contains (strip ''            X509v3 CRL Distribution Points: '') ''CRL Distribution Points''"
    by (simp add: strip_def lstrip_def rstrip_by_def is_space_def contains_def sublist_code)
  have "scan_cdp True (concat (map (\<lambda>u. [''                Full Name:'', location_line u]) us) @ ls)
      = us @ scan_cdp True ls"
    using assms by (induction us) (simp_all add: scan_cdp_location del: scan_cdp.simps)
  then show ?thesis using head by (simp add: cdp_section_def Let_def)
qed

text \<open>The section of revoked certificates as openssl prints it: serial number and date of each entry.\<close>

definition serial_line :: "string \<Rightarrow> string" where
  "serial_line s = ''    Serial Number: '' @ s"

definition date_line :: "string \<Rightarrow> string" where
  "date_line d = ''        Revocation Date: '' @ d"

definition revoked_section :: "(string \<times> string) list \<Rightarrow> string list" where
  "revoked_section es = ''Revoked Certificates:'' # concat (map (\<lambda>(s, d). [serial_line s, date_line d]) es)"

definition hex_serial :: "string \<Rightarrow> bool" where
  "hex_serial s \<longleftrightarrow> s \<noteq> [] \<and> set s \<subseteq> set ''0123456789ABCDEF''"

definition visible_date :: "string \<Rightarrow> bool" where
  "visible_date d \<longleftrightarrow> d \<noteq> [] \<and> \<not> is_space (last d)"

lemma hex_serial_chars: "hex_serial s \<Longrightarrow> c \<in> set s \<Longrightarrow> \<not> is_space c \<and> c \<noteq> CHR ''v'' \<and> c \<noteq> CHR ''S''"
  by (auto simp: hex_serial_def is_space_def)

lemma not_contains_char: "c \<in> set p \<Longrightarrow> c \<notin> set s \<Longrightarrow> \<not> contains s p"
  by (auto simp: contains_def dest: set_mono_sublist)

lemma revoked_listed_serial:
  assumes "hex_serial s"
  shows "revoked_listed serial True (serial_line s # ls) \<longleftrightarrow> same_serial serial s \<or> revoked_listed serial True ls"
proof -
  define v where "v = ''Serial Number: '' @ s"
  have s: "s \<noteq> []" using assms by (simp add: hex_serial_def)
  have line: "strip (serial_line s) = v"
    using strip_indented [of "''    ''" "''Serial Number: '' @ s"] s hex_serial_chars [OF assms, of "last s"]
    by (simp add: is_space_def serial_line_def v_def)
  have "last_piece ''Serial Number:'' (''Serial Number:'' @ ('' '' @ s)) = '' '' @ s"
    using not_contains_char [of "CHR ''S''" "''Serial Number:''" "'' '' @ s"] hex_serial_chars [OF assms]
    by (intro last_piece_label) auto
  then have piece: "strip (last_piece ''Serial Number:'' v) = s"
    using strip_indented [of "'' ''" s] s hex_serial_chars [OF assms, of "hd s"] hex_serial_chars [OF assms, of "last s"]
    by (simp add: v_def is_space_def)
  have head: "startswith v ''Serial Number:''" "\<not> contains v ''Revoked Certificates:''"
    using not_contains_char [of "CHR ''v''" "''Revoked Certificates:''" v] hex_serial_chars [OF assms]
    by (auto simp: v_def startswith_def)
  show ?thesis by (simp add: Let_def line head piece)
qed

lemma revoked_listed_date:
  assumes "visible_date d"
  shows "revoked_listed serial True (date_line d # ls) \<longleftrightarrow> revoked_listed serial True ls"
proof -
  define v where "v = ''Revocation Date: '' @ d"
  have line: "strip (date_line d) = v"
    using strip_indented [of "''        ''" "''Revocation Date: '' @ d"] assms
    by (simp add: is_space_def date_line_def v_def visible_date_def)
  have heads: "\<not> startswith v ''Serial Number:''" "\<not> startswith v ''Signature Algorithm:''" "\<not> startswith v ''Issuer:''"
    by (simp_all add: v_def startswith_def)
  show ?thesis by (simp add: Let_def line heads)
qed

text \<open>The scan finds a serial exactly when the section lists it, whatever follows the section.\<close>

lemma revoked_listed_section:
  assumes "list_all (\<lambda>(s, d). hex_serial s \<and> visible_date d) es"
  shows "revoked_listed serial False (revoked_section es @ ''    Signature Algorithm: '' # ls) \<longleftrightarrow>
    list_ex (\<lambda>(s, d). same_serial serial s) es"
proof -
  have close: "\<not> revoked_listed serial True (''    Signature Algorithm: '' # ls)"
    by (simp add: Let_def strip_def lstrip_def rstrip_by_def is_space_def startswith_def contains_def sublist_code)
  have "revoked_listed serial True (concat (map (\<lambda>(s, d). [serial_line s, date_line d]) es) @ ''    Signature Algorithm: '' # ls)
      \<longleftrightarrow> list_ex (\<lambda>(s, d). same_serial serial s) es"
    using assms
  proof (induction es)
    case Nil
    then show ?case using close by (simp del: revoked_listed.simps)
  next
    case (Cons e es)
    then show ?case
      by (cases e) (simp add: revoked_listed_serial revoked_listed_date del: revoked_listed.simps)
  qed
  moreover have "contains (strip ''Revoked Certificates:'') ''Revoked Certificates:''"
    by (simp add: strip_def lstrip_def rstrip_by_def is_space_def contains_def)
  ultimately show ?thesis by (simp add: revoked_section_def Let_def)
qed

text \<open>Without a find the verdict is a search of the whole text, which other numbers in it can satisfy.\<close>

lemma fallback_verdict:
  "\<not> revoked_listed serial False (splitlines out) \<Longrightarrow>
     snd (crl_revocation serial out) \<longleftrightarrow> serial \<noteq> [] \<and> contains (str_upper out) (str_upper serial)"
  by (simp add: crl_revocation_def Let_def)

text \<open>The timestamp test passes exactly on two times that parsed without complaint and enclose the present.\<close>

lemma timestamp_verdict_pass:
  "fst (timestamp_verdict env now t) = PASS \<longleftrightarrow> ct_issues t = [] \<and> times_valid now t"
  by (auto simp: timestamp_verdict_def period_issues_def times_valid_def Let_def split: option.splits)

lemma timestamp_verdict_cases: "fst (timestamp_verdict env now t) \<in> {PASS, FAIL}"
  by (simp add: timestamp_verdict_def Let_def)

text \<open>A good certificate passes the revocation test whenever openssl takes too long over the CRL.\<close>

lemma timeout_text_lists_nothing:
  "serial \<noteq> [] \<Longrightarrow> \<not> contains (str_upper REVOCATION_FALLBACK) (str_upper serial) \<Longrightarrow>
     crl_revocation serial REVOCATION_FALLBACK = (False, False)"
  by (simp add: crl_revocation_def REVOCATION_FALLBACK_def splitlines_def is_line_break_def Let_def
      strip_def lstrip_def rstrip_by_def is_space_def contains_def sublist_code)

end
