(* ===== verification/Path_Validator.thy ===== *)
theory Path_Validator
  imports Json Certs
begin

text \<open>
  The certificate path validator of the test engine (\<open>ocsp_tester/path_validator.py\<close>). A certificate is
  what the cryptography library shows of it; the check of one RSA signature and the rendering of a
  time are arguments.
\<close>

section \<open>Certificates\<close>

text \<open>The extensions the validator and its test suite ask for: the CA flag with the path length, the
  keyCertSign bit, the access descriptions, the policies and the policy mappings. The library raises on
  an encoding it cannot parse, with the text given by \<open>Inl\<close>. A name is given by what decides its equality.\<close>

record extension_view =
  ev_basic_constraints :: "(bool \<times> int option) option"
  ev_key_cert_sign :: "bool option"
  ev_aia :: "(access_method \<times> general_name) list option"
  ev_policies :: "string list option"
  ev_policy_mappings :: "(string \<times> string) list option"

record chain_cert =
  cc_subject :: string
  cc_issuer :: string
  cc_serial :: nat
  cc_not_before :: int
  cc_not_after :: int
  cc_public_key :: public_key
  cc_signature_oid :: string
  cc_extensions :: "string + extension_view"

datatype hash_algorithm = SHA1 | SHA256 | SHA384 | SHA512

text \<open>\<open>RSA_WITH_*\<close> and \<open>ECDSA_WITH_*\<close> of \<open>x509.SignatureAlgorithmOID\<close>.\<close>

definition hash_algorithms :: "(string, hash_algorithm) dict" where
  "hash_algorithms = [
     (''1.2.840.113549.1.1.5'', SHA1), (''1.2.840.113549.1.1.11'', SHA256),
     (''1.2.840.113549.1.1.12'', SHA384), (''1.2.840.113549.1.1.13'', SHA512),
     (''1.2.840.10045.4.1'', SHA1), (''1.2.840.10045.4.3.2'', SHA256),
     (''1.2.840.10045.4.3.3'', SHA384), (''1.2.840.10045.4.3.4'', SHA512)]"

record validation_result =
  vr_is_valid :: bool
  vr_errors :: "string list"
  vr_warnings :: "string list"
  vr_details :: "(string \<times> json) list"

definition result_of :: "string list \<Rightarrow> string list \<Rightarrow> (string \<times> json) list \<Rightarrow> validation_result" where
  "result_of errors warnings details =
     \<lparr>vr_is_valid = (errors = []), vr_errors = errors, vr_warnings = warnings, vr_details = details\<rparr>"

text \<open>What the validator and its suite take from the library: whether a PKCS#1 v1.5 signature verifies with
  an RSA issuer key, and the renderings of times, names, identifiers and keys.\<close>

record pv_env =
  pv_rsa_verify :: "chain_cert \<Rightarrow> chain_cert \<Rightarrow> hash_algorithm \<Rightarrow> bool"
  pv_str_time :: "int \<Rightarrow> string"
  pv_isoformat :: "int \<Rightarrow> string"
  pv_rfc4514 :: "string \<Rightarrow> string"
  pv_str_oid :: "string \<Rightarrow> string"
  pv_key_type :: "public_key \<Rightarrow> string"
  pv_key_size :: "public_key \<Rightarrow> int option"

section \<open>Signatures\<close>

definition find_issuer :: "chain_cert \<Rightarrow> chain_cert list \<Rightarrow> chain_cert list \<Rightarrow> chain_cert option" where
  "find_issuer cert intermediates trust_anchors =
     (case find (\<lambda>i. cc_subject i = cc_issuer cert) intermediates of
        Some i \<Rightarrow> Some i
      | None \<Rightarrow> find (\<lambda>a. cc_subject a = cc_issuer cert) trust_anchors)"

text \<open>The call passes four arguments; only an RSA key has a \<open>verify\<close> that takes them. With any other key
  the \<open>TypeError\<close> is caught by the general handler.\<close>

definition verify_certificate_signature :: "pv_env \<Rightarrow> chain_cert \<Rightarrow> chain_cert \<Rightarrow> bool" where
  "verify_certificate_signature env cert issuer_cert =
     (case cc_public_key issuer_cert of
        RSAKey n \<Rightarrow>
          pv_rsa_verify env cert issuer_cert (dict_get_or hash_algorithms (cc_signature_oid cert) SHA256)
      | _ \<Rightarrow> False)"

definition end_entity_signature_errors ::
  "pv_env \<Rightarrow> chain_cert \<Rightarrow> chain_cert list \<Rightarrow> chain_cert list \<Rightarrow> string list" where
  "end_entity_signature_errors env ee intermediates anchors =
     (case find_issuer ee intermediates anchors of
        Some issuer \<Rightarrow>
          if verify_certificate_signature env ee issuer then []
          else [''End-entity certificate signature verification failed'']
      | None \<Rightarrow> [''Could not find issuer certificate for end-entity''])"

definition intermediate_signature_errors ::
  "pv_env \<Rightarrow> chain_cert list \<Rightarrow> chain_cert list \<Rightarrow> nat \<times> chain_cert \<Rightarrow> string list" where
  "intermediate_signature_errors env intermediates anchors ic =
     (case ic of (i, cert) \<Rightarrow>
        (case find_issuer cert intermediates anchors of
           Some issuer \<Rightarrow>
             if verify_certificate_signature env cert issuer then []
             else [''Intermediate certificate '' @ show_nat i @ '' signature verification failed'']
         | None \<Rightarrow> [''Could not find issuer certificate for intermediate '' @ show_nat i]))"

definition mentioning :: "string \<Rightarrow> string list \<Rightarrow> string list" where
  "mentioning w es = filter (\<lambda>e. contains e w) es"

definition verify_signatures ::
  "pv_env \<Rightarrow> chain_cert \<Rightarrow> chain_cert list \<Rightarrow> chain_cert list \<Rightarrow> validation_result" where
  "verify_signatures env ee intermediates anchors =
     (let errors = end_entity_signature_errors env ee intermediates anchors @
            concat (map (intermediate_signature_errors env intermediates anchors)
              (zip [0..<length intermediates] intermediates))
      in result_of errors []
           [(''end_entity_signature_verified'', JBool (errors = [])),
            (''intermediate_signatures_verified'', JBool (mentioning ''Intermediate'' errors = []))])"

section \<open>Validity periods\<close>

definition end_entity_time_errors :: "pv_env \<Rightarrow> int \<Rightarrow> chain_cert \<Rightarrow> string list" where
  "end_entity_time_errors env now ee =
     (if now < cc_not_before ee
      then [''End-entity certificate not yet valid (valid from '' @ pv_str_time env (cc_not_before ee) @ '')'']
      else if now > cc_not_after ee
      then [''End-entity certificate has expired (expired on '' @ pv_str_time env (cc_not_after ee) @ '')'']
      else [])"

definition intermediate_time_errors :: "pv_env \<Rightarrow> int \<Rightarrow> nat \<times> chain_cert \<Rightarrow> string list" where
  "intermediate_time_errors env now ic =
     (case ic of (i, cert) \<Rightarrow>
        if now < cc_not_before cert
        then [''Intermediate certificate '' @ show_nat i @ '' not yet valid (valid from '' @
              pv_str_time env (cc_not_before cert) @ '')'']
        else if now > cc_not_after cert
        then [''Intermediate certificate '' @ show_nat i @ '' has expired (expired on '' @
              pv_str_time env (cc_not_after cert) @ '')'']
        else [])"

definition check_validity_periods :: "pv_env \<Rightarrow> int \<Rightarrow> chain_cert \<Rightarrow> chain_cert list \<Rightarrow> validation_result" where
  "check_validity_periods env now ee intermediates =
     (let errors = end_entity_time_errors env now ee @
            concat (map (intermediate_time_errors env now) (zip [0..<length intermediates] intermediates))
      in result_of errors []
           [(''end_entity_valid'', JBool (now \<ge> cc_not_before ee \<and> now \<le> cc_not_after ee)),
            (''all_intermediates_valid'', JBool (mentioning ''Intermediate'' errors = [])),
            (''validation_time'', JStr (pv_isoformat env now))])"

section \<open>Extensions\<close>

text \<open>A loop over the intermediates in which reading the extensions may raise: the messages so far are
  lost, since the exception leaves the check.\<close>

fun over_extensions ::
  "(nat \<Rightarrow> extension_view \<Rightarrow> 'm list) \<Rightarrow> nat \<Rightarrow> chain_cert list \<Rightarrow> string + 'm list" where
  "over_extensions f i [] = Inr []"
| "over_extensions f i (cert # certs) =
     (case cc_extensions cert of
        Inl e \<Rightarrow> Inl e
      | Inr ev \<Rightarrow> map_sum id (\<lambda>ms. f i ev @ ms) (over_extensions f (Suc i) certs))"

definition basic_constraint_errors :: "nat \<Rightarrow> extension_view \<Rightarrow> string list" where
  "basic_constraint_errors i ev =
     (case ev_basic_constraints ev of
        None \<Rightarrow> [''Intermediate certificate '' @ show_nat i @ '' missing Basic Constraints extension'']
      | Some (ca, _) \<Rightarrow>
          if \<not> ca then [''Intermediate certificate '' @ show_nat i @ '' has CA=False in Basic Constraints'']
          else [])"

definition check_basic_constraints :: "chain_cert \<Rightarrow> chain_cert list \<Rightarrow> string + validation_result" where
  "check_basic_constraints ee intermediates =
     (case over_extensions basic_constraint_errors 0 intermediates of
        Inl e \<Rightarrow> Inl e
      | Inr errors \<Rightarrow>
          (case cc_extensions ee of
             Inl e \<Rightarrow> Inl e
           | Inr ev \<Rightarrow>
               (let warnings = (case ev_basic_constraints ev of
                      Some (ca, _) \<Rightarrow> if ca then [''End-entity certificate has CA=True in Basic Constraints''] else []
                    | None \<Rightarrow> [])
                in Inr (result_of errors warnings
                     [(''all_intermediates_have_ca_true'', JBool (mentioning ''CA=False'' errors = [])),
                      (''end_entity_ca_flag_appropriate'', JBool (mentioning ''CA=True'' warnings = []))]))))"

text \<open>An error (\<open>Inl\<close>) or a warning (\<open>Inr\<close>) on one certificate.\<close>

definition key_usage_message :: "nat \<Rightarrow> extension_view \<Rightarrow> (string + string) list" where
  "key_usage_message i ev =
     (case ev_key_cert_sign ev of
        None \<Rightarrow> [Inr (''Intermediate certificate '' @ show_nat i @ '' missing Key Usage extension'')]
      | Some sign \<Rightarrow>
          if \<not> sign then [Inl (''Intermediate certificate '' @ show_nat i @ '' missing keyCertSign in Key Usage'')]
          else [])"

definition lefts :: "('a + 'b) list \<Rightarrow> 'a list" where
  "lefts xs = List.map_filter (\<lambda>x. case x of Inl a \<Rightarrow> Some a | Inr b \<Rightarrow> None) xs"

definition rights :: "('a + 'b) list \<Rightarrow> 'b list" where
  "rights xs = List.map_filter (\<lambda>x. case x of Inl a \<Rightarrow> None | Inr b \<Rightarrow> Some b) xs"

definition check_key_usage :: "chain_cert list \<Rightarrow> string + validation_result" where
  "check_key_usage intermediates =
     map_sum id (\<lambda>ms. result_of (lefts ms) (rights ms)
         [(''all_intermediates_have_key_cert_sign'', JBool (mentioning ''keyCertSign'' (lefts ms) = []))])
       (over_extensions key_usage_message 0 intermediates)"

definition path_length_errors :: "nat \<Rightarrow> nat \<Rightarrow> extension_view \<Rightarrow> string list" where
  "path_length_errors len i ev =
     (case ev_basic_constraints ev of
        Some (_, Some n) \<Rightarrow>
          (let remaining_path = int len - int i - 1
           in if remaining_path > n
              then [''Path length constraint violation: certificate '' @ show_nat i @ '' allows max '' @ show_int n @
                    '' but path has '' @ show_int remaining_path @ '' remaining certificates'']
              else [])
      | _ \<Rightarrow> [])"

definition check_path_length_constraints :: "chain_cert list \<Rightarrow> string + validation_result" where
  "check_path_length_constraints intermediates =
     map_sum id (\<lambda>errors. result_of errors []
         [(''path_length_constraints_satisfied'', JBool (errors = [])),
          (''total_path_length'', JInt (int (length intermediates)))])
       (over_extensions (path_length_errors (length intermediates)) 0 intermediates)"

section \<open>The whole path\<close>

text \<open>\<open>errors.extend\<close> and \<open>warnings.extend\<close> stand under \<open>if not result.is_valid\<close>, for each of the checks.\<close>

definition kept_errors :: "validation_result list \<Rightarrow> string list" where
  "kept_errors rs = concat (map (\<lambda>r. if vr_is_valid r then [] else vr_errors r) rs)"

definition kept_warnings :: "validation_result list \<Rightarrow> string list" where
  "kept_warnings rs = concat (map (\<lambda>r. if vr_is_valid r then [] else vr_warnings r) rs)"

definition raised :: "string \<Rightarrow> validation_result" where
  "raised e =
     \<lparr>vr_is_valid = False, vr_errors = [''Path validation failed with exception: '' @ e], vr_warnings = [],
      vr_details = [(''exception'', JStr e)]\<rparr>"

text \<open>The trust anchor type and the two policy arguments are accepted and not used.\<close>

definition validate_certificate_chain ::
  "pv_env \<Rightarrow> int \<Rightarrow> chain_cert \<Rightarrow> chain_cert list \<Rightarrow> chain_cert list \<Rightarrow> string \<Rightarrow> bool \<Rightarrow> bool \<Rightarrow> validation_result" where
  "validate_certificate_chain env now ee intermediates anchors anchor_type explicit_policy inhibit_mapping =
     (let sig = verify_signatures env ee intermediates anchors;
          time = check_validity_periods env now ee intermediates
      in case check_basic_constraints ee intermediates of
           Inl e \<Rightarrow> raised e
         | Inr constraints \<Rightarrow>
      (case check_key_usage intermediates of
           Inl e \<Rightarrow> raised e
         | Inr usage \<Rightarrow>
      (case check_path_length_constraints intermediates of
           Inl e \<Rightarrow> raised e
         | Inr plen \<Rightarrow>
             (let checks = [sig, time, constraints, usage, plen]
              in result_of (kept_errors checks) (kept_warnings checks)
                   [(''signature_validation'', JDict (vr_details sig)),
                    (''validity_period_check'', JDict (vr_details time)),
                    (''basic_constraints_check'', JDict (vr_details constraints)),
                    (''key_usage_check'', JDict (vr_details usage)),
                    (''path_length_check'', JDict (vr_details plen)),
                    (''validation_time'', JStr (pv_isoformat env now)),
                    (''total_intermediates'', JInt (int (length intermediates))),
                    (''total_trust_anchors'', JInt (int (length anchors)))]))))"

text \<open>The revocation check, whose two sources are placeholders in the code.\<close>

definition check_ocsp_revocation :: "chain_cert \<Rightarrow> chain_cert \<Rightarrow> string \<Rightarrow> validation_result" where
  "check_ocsp_revocation cert issuer url =
     result_of [] [] [(''ocsp_status'', JStr ''good''), (''method'', JStr ''OCSP'')]"

definition check_crl_revocation :: "chain_cert \<Rightarrow> chain_cert \<Rightarrow> string \<Rightarrow> validation_result" where
  "check_crl_revocation cert issuer url =
     result_of [] [] [(''crl_status'', JStr ''not_revoked''), (''method'', JStr ''CRL'')]"

definition check_revocation_status ::
  "chain_cert \<Rightarrow> chain_cert \<Rightarrow> string option \<Rightarrow> string option \<Rightarrow> validation_result" where
  "check_revocation_status cert issuer ocsp_url crl_url =
     (let ocsp = (if truthy ocsp_url then [check_ocsp_revocation cert issuer (the ocsp_url)] else []);
          crl = (if truthy crl_url then [check_crl_revocation cert issuer (the crl_url)] else [])
      in result_of (kept_errors (ocsp @ crl)) []
           (map (\<lambda>r. (''ocsp_result'', JDict (vr_details r))) ocsp
            @ map (\<lambda>r. (''crl_result'', JDict (vr_details r))) crl))"

section \<open>What an accepted path is\<close>

definition signed_in :: "pv_env \<Rightarrow> chain_cert list \<Rightarrow> chain_cert list \<Rightarrow> chain_cert \<Rightarrow> bool" where
  "signed_in env intermediates anchors cert \<longleftrightarrow>
     (case find_issuer cert intermediates anchors of
        None \<Rightarrow> False | Some issuer \<Rightarrow> verify_certificate_signature env cert issuer)"

definition in_period :: "int \<Rightarrow> chain_cert \<Rightarrow> bool" where
  "in_period now cert \<longleftrightarrow> cc_not_before cert \<le> now \<and> now \<le> cc_not_after cert"

text \<open>A certificate that may issue, with a number of further intermediates behind it.\<close>

definition may_issue :: "nat \<Rightarrow> chain_cert \<Rightarrow> bool" where
  "may_issue behind cert \<longleftrightarrow>
     (case cc_extensions cert of
        Inl e \<Rightarrow> False
      | Inr ev \<Rightarrow>
          (\<exists>plen. ev_basic_constraints ev = Some (True, plen) \<and>
             (case plen of None \<Rightarrow> True | Some n \<Rightarrow> int behind \<le> n)) \<and>
          ev_key_cert_sign ev \<noteq> Some False)"

fun issuing_chain :: "chain_cert list \<Rightarrow> bool" where
  "issuing_chain [] = True"
| "issuing_chain (cert # certs) \<longleftrightarrow> may_issue (length certs) cert \<and> issuing_chain certs"

lemma result_of_simps [simp]:
  "vr_is_valid (result_of es ws ds) = (es = [])" "vr_errors (result_of es ws ds) = es"
  "vr_warnings (result_of es ws ds) = ws" "vr_details (result_of es ws ds) = ds"
  by (simp_all add: result_of_def)

lemma kept_errors_simps [simp]:
  "kept_errors [] = []" "kept_errors (result_of es ws ds # rs) = es @ kept_errors rs"
  by (simp_all add: kept_errors_def)

lemma lefts_simps [simp]: "lefts [] = []" "lefts (xs @ ys) = lefts xs @ lefts ys" "lefts (Inl a # xs) = a # lefts xs"
  "lefts (Inr b # xs) = lefts xs"
  by (simp_all add: lefts_def map_filter_def)

lemma signature_errors:
  "end_entity_signature_errors env ee is as = [] \<longleftrightarrow> signed_in env is as ee"
  "intermediate_signature_errors env is as (i, c) = [] \<longleftrightarrow> signed_in env is as c"
  by (auto simp: end_entity_signature_errors_def intermediate_signature_errors_def signed_in_def split: option.split)

lemma time_errors:
  "end_entity_time_errors env now ee = [] \<longleftrightarrow> in_period now ee"
  "intermediate_time_errors env now (i, c) = [] \<longleftrightarrow> in_period now c"
  by (auto simp: end_entity_time_errors_def intermediate_time_errors_def in_period_def)

lemma concat_zip_Nil:
  "length is = length cs \<Longrightarrow> (\<And>i c. f (i, c) = [] \<longleftrightarrow> P c) \<Longrightarrow>
     concat (map f (zip is cs)) = [] \<longleftrightarrow> list_all P cs"
  by (induction "is" cs rule: list_induct2) auto

lemma check_signatures: "vr_errors (verify_signatures env ee is as) = [] \<longleftrightarrow> list_all (signed_in env is as) (ee # is)"
  using concat_zip_Nil [of "[0..<length is]" "is" "intermediate_signature_errors env is as" "signed_in env is as"]
  by (simp add: verify_signatures_def signature_errors Let_def)

lemma check_times: "vr_errors (check_validity_periods env now ee is) = [] \<longleftrightarrow> list_all (in_period now) (ee # is)"
  using concat_zip_Nil [of "[0..<length is]" "is" "intermediate_time_errors env now" "in_period now"]
  by (simp add: check_validity_periods_def time_errors Let_def)

text \<open>The three loops over the extensions, together.\<close>

lemma map_sum_Inr: "map_sum id f x = Inr y \<longleftrightarrow> (\<exists>z. x = Inr z \<and> y = f z)"
  by (cases x) auto

lemma map_sum_Inl: "map_sum id f x = Inl y \<longleftrightarrow> x = Inl y"
  by (cases x) auto

lemma issuing_chain_errors:
  assumes "over_extensions basic_constraint_errors i cs = Inr bs"
    and "over_extensions key_usage_message i cs = Inr us"
    and "over_extensions (path_length_errors (i + length cs)) i cs = Inr ps"
  shows "issuing_chain cs \<longleftrightarrow> bs = [] \<and> lefts us = [] \<and> ps = []"
  using assms
proof (induction cs arbitrary: i bs us ps)
  case (Cons c cs)
  then obtain ev where ev: "cc_extensions c = Inr ev"
    by (auto split: sum.splits)
  with Cons.prems obtain bs' us' ps' where
      rest: "over_extensions basic_constraint_errors (Suc i) cs = Inr bs'"
        "over_extensions key_usage_message (Suc i) cs = Inr us'"
        "over_extensions (path_length_errors (i + length (c # cs))) (Suc i) cs = Inr ps'"
      and heads: "bs = basic_constraint_errors i ev @ bs'" "us = key_usage_message i ev @ us'"
        "ps = path_length_errors (i + length (c # cs)) i ev @ ps'"
    by (auto simp: map_sum_Inr)
  from Cons.IH [OF rest(1,2)] rest(3) have "issuing_chain cs \<longleftrightarrow> bs' = [] \<and> lefts us' = [] \<and> ps' = []"
    by simp
  moreover have "may_issue (length cs) c \<longleftrightarrow>
      basic_constraint_errors i ev = [] \<and> lefts (key_usage_message i ev) = [] \<and>
      path_length_errors (i + length (c # cs)) i ev = []"
    by (auto simp: may_issue_def ev basic_constraint_errors_def key_usage_message_def path_length_errors_def Let_def
        split: option.splits if_splits)
  ultimately show ?case using heads by auto
qed simp

lemma over_extensions_raises:
  "over_extensions f i cs = Inl e \<Longrightarrow> \<not> issuing_chain cs"
  by (induction f i cs rule: over_extensions.induct) (auto simp: may_issue_def map_sum_Inl split: sum.splits)

text \<open>The verdict, exactly.\<close>

lemma validate_chain_iff:
  "vr_is_valid (validate_certificate_chain env now ee is as anchor_type explicit_policy inhibit_mapping) \<longleftrightarrow>
     list_all (signed_in env is as) (ee # is) \<and> list_all (in_period now) (ee # is) \<and>
     \<not> isl (cc_extensions ee) \<and> issuing_chain is"
proof (cases "over_extensions basic_constraint_errors 0 is")
  case (Inl e)
  with over_extensions_raises [OF Inl] show ?thesis
    by (simp add: validate_certificate_chain_def check_basic_constraints_def raised_def)
next
  case b: (Inr bs)
  show ?thesis
  proof (cases "over_extensions key_usage_message 0 is")
    case (Inl e)
    with over_extensions_raises [OF Inl] b show ?thesis
      by (cases "cc_extensions ee")
        (simp_all add: validate_certificate_chain_def check_basic_constraints_def check_key_usage_def raised_def Let_def)
  next
    case u: (Inr us)
    show ?thesis
    proof (cases "over_extensions (path_length_errors (length is)) 0 is")
      case (Inl e)
      with over_extensions_raises [OF Inl] b u show ?thesis
        by (cases "cc_extensions ee")
          (simp_all add: validate_certificate_chain_def check_basic_constraints_def check_key_usage_def
            check_path_length_constraints_def raised_def Let_def)
    next
      case p: (Inr ps)
      have iss: "issuing_chain is \<longleftrightarrow> bs = [] \<and> lefts us = [] \<and> ps = []"
        using issuing_chain_errors [of 0 "is" bs us ps] b u p by simp
      have kept: "kept_errors [sig, time, result_of bs ws d1, result_of (lefts us) ws2 d2, result_of ps ws3 d3] = [] \<longleftrightarrow>
          (vr_is_valid sig \<or> vr_errors sig = []) \<and> (vr_is_valid time \<or> vr_errors time = []) \<and>
          bs = [] \<and> lefts us = [] \<and> ps = []" for sig time ws d1 ws2 d2 ws3 d3
        by (auto simp: kept_errors_def)
      have sig: "vr_is_valid (verify_signatures env ee is as) \<longleftrightarrow> vr_errors (verify_signatures env ee is as) = []"
        and time: "vr_is_valid (check_validity_periods env now ee is) \<longleftrightarrow> vr_errors (check_validity_periods env now ee is) = []"
        by (simp_all add: verify_signatures_def check_validity_periods_def Let_def)
      show ?thesis
        using b u p
        by (cases "cc_extensions ee")
          (auto simp: validate_certificate_chain_def check_basic_constraints_def check_key_usage_def
            check_path_length_constraints_def raised_def Let_def kept iss sig time check_signatures check_times)
    qed
  qed
qed

end
