(* ===== verification/Aia_Chain.thy ===== *)
theory Aia_Chain
  imports Path_Validator Ocsp_Client Text_Scan
begin

text \<open>
  Building a certificate path by following the authority information access of each issuer
  (\<open>ocsp_tester/tests_path_validation.py\<close>, \<open>_build_certificate_chain_with_aia\<close> and what it calls): the
  download with its cache, the five parsers and their order, the loop with its ways to end, and the
  organisation of the chain for the validator.
\<close>

section \<open>Downloading an issuer\<close>

text \<open>The network gives the n-th download its outcome, the body with the content type; the libraries parse.
  \<open>ae_pkcs7\<close> is what asn1crypto shows of a content info: the content type and the dumped certificates;
  \<open>ae_openssl\<close> the exit code, output and error output of \<open>openssl pkcs7 -print_certs\<close>.\<close>

record aia_env =
  ae_pv :: pv_env
  ae_get :: "nat \<Rightarrow> string \<Rightarrow> exn + string \<times> string"
  ae_pem :: "string \<Rightarrow> exn + chain_cert"
  ae_der :: "string \<Rightarrow> exn + chain_cert"
  ae_pkcs7 :: "string \<Rightarrow> exn + string \<times> string list"
  ae_openssl :: "string \<Rightarrow> exn + int \<times> string \<times> string"

definition PEM_BEGIN :: string where
  "PEM_BEGIN = ''-----BEGIN CERTIFICATE-----''"

definition PEM_END :: string where
  "PEM_END = ''-----END CERTIFICATE-----''"

definition parse_pkcs7_certificate :: "aia_env \<Rightarrow> string \<Rightarrow> exn + chain_cert" where
  "parse_pkcs7_certificate env data =
     (case ae_pkcs7 env data of
        Inl e \<Rightarrow> Inl e
      | Inr (content_type, certificates) \<Rightarrow>
          if content_type \<noteq> ''1.2.840.113549.1.7.2''
          then Inl (''ValueError'', ''PKCS#7 content type is not SignedData: '' @ content_type)
          else (case certificates of
                  [] \<Rightarrow> Inl (''ValueError'', ''no certificates found in PKCS#7 SignedData'')
                | c # _ \<Rightarrow> ae_der env c))"

definition parse_embedded_pem_certificate :: "aia_env \<Rightarrow> string \<Rightarrow> exn + chain_cert" where
  "parse_embedded_pem_certificate env data =
     (case find_sub PEM_BEGIN data of
        None \<Rightarrow> Inl (''ValueError'', ''no embedded PEM certificate found'')
      | Some (_, from) \<Rightarrow>
          (case find_sub PEM_END from of
             None \<Rightarrow> Inl (''ValueError'', ''unterminated embedded PEM certificate'')
           | Some (body, _) \<Rightarrow> ae_pem env (body @ PEM_END)))"

text \<open>Without an end marker \<open>find\<close> gives -1, and the slice drops the last character of the output.\<close>

definition parse_pkcs7_via_openssl :: "aia_env \<Rightarrow> string \<Rightarrow> exn + chain_cert" where
  "parse_pkcs7_via_openssl env data =
     (case ae_openssl env data of
        Inl e \<Rightarrow> Inl e
      | Inr (code, out, err) \<Rightarrow>
          if code \<noteq> 0 \<or> out = [] then Inl (''ValueError'', ''openssl pkcs7 failed: '' @ take 200 (strip err))
          else (case find_sub PEM_BEGIN out of
                  None \<Rightarrow> Inl (''ValueError'', ''openssl produced no certificates'')
                | Some (_, from) \<Rightarrow>
                    ae_pem env ((case find_sub PEM_END from of Some (body, _) \<Rightarrow> body | None \<Rightarrow> butlast from) @ PEM_END)))"

definition parse_as :: "aia_env \<Rightarrow> string \<Rightarrow> string \<Rightarrow> exn + chain_cert" where
  "parse_as env name data =
     (if name = ''PEM'' then ae_pem env data
      else if name = ''DER'' then ae_der env data
      else if name = ''PKCS#7'' then parse_pkcs7_certificate env data
      else if name = ''embedded PEM'' then parse_embedded_pem_certificate env data
      else parse_pkcs7_via_openssl env data)"

definition parser_order :: "string \<Rightarrow> string \<Rightarrow> string \<Rightarrow> string list" where
  "parser_order url content_type data =
     (let path = fst (partition_at (CHR ''?'') (str_lower url))
      in if endswith path ''.p7c'' \<or> endswith path ''.p7b'' \<or> contains content_type ''pkcs7''
         then [''PKCS#7'', ''PKCS#7 (openssl)'', ''DER'', ''PEM'', ''embedded PEM'']
         else if startswith (lstrip data) ''-----BEGIN''
         then [''PEM'', ''embedded PEM'', ''DER'', ''PKCS#7'', ''PKCS#7 (openssl)'']
         else [''DER'', ''PKCS#7'', ''PEM'', ''embedded PEM'', ''PKCS#7 (openssl)''])"

fun first_parse :: "aia_env \<Rightarrow> string \<Rightarrow> string list \<Rightarrow> chain_cert option" where
  "first_parse env data [] = None"
| "first_parse env data (name # names) =
     (case parse_as env name data of Inr c \<Rightarrow> Some c | Inl _ \<Rightarrow> first_parse env data names)"

definition download_certificate_uncached :: "aia_env \<Rightarrow> nat \<Rightarrow> string \<Rightarrow> chain_cert option" where
  "download_certificate_uncached env n url =
     (case ae_get env n url of
        Inl _ \<Rightarrow> None
      | Inr (data, content_type) \<Rightarrow> first_parse env data (parser_order url (str_lower content_type) data))"

text \<open>The suite's cache, with the number of downloads made.\<close>

record aia_state =
  as_cache :: "(string, chain_cert option) dict"
  as_gets :: nat

definition download_certificate_from_url :: "aia_env \<Rightarrow> string \<Rightarrow> aia_state \<Rightarrow> chain_cert option \<times> aia_state" where
  "download_certificate_from_url env url st =
     (case dict_get (as_cache st) url of
        Some c \<Rightarrow> (c, st)
      | None \<Rightarrow>
          (let c = download_certificate_uncached env (as_gets st) url
           in (c, st\<lparr>as_cache := dict_set url c (as_cache st), as_gets := Suc (as_gets st)\<rparr>)))"

text \<open>The loop over the access locations: the first that gives a certificate.\<close>

fun download_parent :: "aia_env \<Rightarrow> string list \<Rightarrow> aia_state \<Rightarrow> chain_cert option \<times> aia_state" where
  "download_parent env [] st = (None, st)"
| "download_parent env (url # urls) st =
     (case download_certificate_from_url env url st of
        (Some c, st') \<Rightarrow> (Some c, st')
      | (None, st') \<Rightarrow> download_parent env urls st')"

definition aia_locations :: "extension_view \<Rightarrow> string list" where
  "aia_locations ev =
     (case ev_aia ev of
        None \<Rightarrow> []
      | Some ds \<Rightarrow>
          List.map_filter (\<lambda>d. case d of (AccessCAIssuers, URIName u) \<Rightarrow> Some u | _ \<Rightarrow> None) ds)"

definition extract_aia_urls :: "chain_cert \<Rightarrow> string + string list" where
  "extract_aia_urls cert = map_sum id aia_locations (cc_extensions cert)"

section \<open>Following the issuers\<close>

definition MAX_CHAIN_DEPTH :: nat where
  "MAX_CHAIN_DEPTH = 8"

definition cert_key :: "aia_env \<Rightarrow> chain_cert \<Rightarrow> string \<times> nat" where
  "cert_key env cert = (pv_rfc4514 (ae_pv env) (cc_subject cert), cc_serial cert)"

definition self_signed :: "chain_cert \<Rightarrow> bool" where
  "self_signed cert \<longleftrightarrow> cc_subject cert = cc_issuer cert"

definition is_anchor :: "aia_env \<Rightarrow> chain_cert list \<Rightarrow> chain_cert \<Rightarrow> bool" where
  "is_anchor env anchors cert \<longleftrightarrow> list_ex (\<lambda>a. cert_key env a = cert_key env cert) anchors"

text \<open>What the loop leaves: how it ended and the certificates it added; \<open>Inl\<close> is an exception.\<close>

type_synonym discovery = "string + string \<times> chain_cert list"

definition step_to_parent ::
  "aia_env \<Rightarrow> (string \<times> nat) list \<Rightarrow> chain_cert \<Rightarrow> aia_state \<Rightarrow> (string + (string + chain_cert)) \<times> aia_state" where
  "step_to_parent env seen current st =
     (case extract_aia_urls current of
        Inl e \<Rightarrow> (Inl e, st)
      | Inr urls \<Rightarrow>
          if urls = [] then (Inr (Inl ''no-aia''), st)
          else (case download_parent env urls st of
                  (None, st') \<Rightarrow> (Inr (Inl ''download-failed''), st')
                | (Some parent, st') \<Rightarrow>
                    if cc_subject parent \<noteq> cc_issuer current then (Inr (Inl ''mismatch''), st')
                    else if cert_key env parent \<in> set seen then (Inr (Inl ''cycle''), st')
                    else (Inr (Inr parent), st')))"

function discover ::
  "aia_env \<Rightarrow> chain_cert list \<Rightarrow> nat \<Rightarrow> (string \<times> nat) list \<Rightarrow> chain_cert \<Rightarrow> aia_state \<Rightarrow> discovery \<times> aia_state" where
  "discover env anchors depth seen current st =
     (if is_anchor env anchors current then (Inr (''anchor'', []), st)
      else if self_signed current then (Inr (''root'', []), st)
      else if depth \<ge> MAX_CHAIN_DEPTH then (Inr (''depth'', []), st)
      else case step_to_parent env seen current st of
             (Inl e, st') \<Rightarrow> (Inl e, st')
           | (Inr (Inl termination), st') \<Rightarrow> (Inr (termination, []), st')
           | (Inr (Inr parent), st') \<Rightarrow>
               (case discover env anchors (Suc depth) (cert_key env parent # seen) parent st' of
                  (Inl e, st'') \<Rightarrow> (Inl e, st'')
                | (Inr (termination, added), st'') \<Rightarrow> (Inr (termination, parent # added), st'')))"
  by pat_completeness auto

termination
  by (relation "measure (\<lambda>(env, anchors, depth, seen, current, st). MAX_CHAIN_DEPTH - depth)") auto

declare discover.simps [simp del]

text \<open>The path for the validator, with how the discovery ended (\<open>last_chain_termination\<close>).\<close>

record built_chain =
  bc_end_entity :: chain_cert
  bc_intermediates :: "chain_cert list"
  bc_trust_anchors :: "chain_cert list"
  bc_termination :: string

definition organize :: "chain_cert list \<Rightarrow> chain_cert list \<Rightarrow> string \<Rightarrow> built_chain" where
  "organize anchors chain termination =
     (if termination = ''root'' \<or> termination = ''anchor''
      then \<lparr>bc_end_entity = hd chain, bc_intermediates = butlast (tl chain), bc_trust_anchors = [last chain],
            bc_termination = termination\<rparr>
      else \<lparr>bc_end_entity = hd chain, bc_intermediates = tl chain, bc_trust_anchors = anchors,
            bc_termination = termination\<rparr>)"

definition build_certificate_chain_with_aia ::
  "aia_env \<Rightarrow> chain_cert \<Rightarrow> chain_cert \<Rightarrow> chain_cert list \<Rightarrow> aia_state \<Rightarrow> built_chain option \<times> aia_state" where
  "build_certificate_chain_with_aia env ee issuer anchors st =
     (case discover env anchors 0 [cert_key env issuer, cert_key env ee] issuer st of
        (Inl e, st') \<Rightarrow> (None, st')
      | (Inr (termination, added), st') \<Rightarrow> (Some (organize anchors (ee # issuer # added) termination), st'))"

section \<open>What a discovered path is\<close>

text \<open>The ways a path of issuers can be built, without the network: it stops at an anchor, at a self-signed
  certificate, at the depth limit or where no issuer is found, and goes up to an issuer not met before.\<close>

inductive issuer_path ::
  "aia_env \<Rightarrow> chain_cert list \<Rightarrow> nat \<Rightarrow> (string \<times> nat) list \<Rightarrow> chain_cert \<Rightarrow> chain_cert list \<Rightarrow> string \<Rightarrow> bool"
  for env anchors where
  at_anchor: "is_anchor env anchors c \<Longrightarrow> issuer_path env anchors d seen c [] ''anchor''"
| at_root: "\<not> is_anchor env anchors c \<Longrightarrow> self_signed c \<Longrightarrow> issuer_path env anchors d seen c [] ''root''"
| at_depth: "\<not> is_anchor env anchors c \<Longrightarrow> \<not> self_signed c \<Longrightarrow> MAX_CHAIN_DEPTH \<le> d \<Longrightarrow>
    issuer_path env anchors d seen c [] ''depth''"
| stuck: "\<not> is_anchor env anchors c \<Longrightarrow> \<not> self_signed c \<Longrightarrow> d < MAX_CHAIN_DEPTH \<Longrightarrow>
    t \<in> {''no-aia'', ''download-failed'', ''mismatch'', ''cycle''} \<Longrightarrow> issuer_path env anchors d seen c [] t"
| up: "\<not> is_anchor env anchors c \<Longrightarrow> \<not> self_signed c \<Longrightarrow> d < MAX_CHAIN_DEPTH \<Longrightarrow>
    cc_subject p = cc_issuer c \<Longrightarrow> cert_key env p \<notin> set seen \<Longrightarrow>
    issuer_path env anchors (Suc d) (cert_key env p # seen) p ps t \<Longrightarrow> issuer_path env anchors d seen c (p # ps) t"

lemma step_to_parent_stop:
  "step_to_parent env seen c st = (Inr (Inl t), st') \<Longrightarrow> t \<in> {''no-aia'', ''download-failed'', ''mismatch'', ''cycle''}"
  by (auto simp: step_to_parent_def split: sum.splits if_splits prod.splits option.splits)

lemma step_to_parent_up:
  "step_to_parent env seen c st = (Inr (Inr p), st') \<Longrightarrow> cc_subject p = cc_issuer c \<and> cert_key env p \<notin> set seen"
  by (auto simp: step_to_parent_def split: sum.splits if_splits prod.splits option.splits)

lemma discover_path:
  "discover env anchors d seen c st = (Inr (t, added), st') \<Longrightarrow> issuer_path env anchors d seen c added t"
proof (induction env anchors d seen c st arbitrary: t added st' rule: discover.induct)
  case (1 env anchors d seen c st)
  show ?case
  proof (cases "is_anchor env anchors c \<or> self_signed c \<or> MAX_CHAIN_DEPTH \<le> d")
    case True
    with "1.prems" show ?thesis
      by (subst (asm) discover.simps) (auto split: if_splits intro: issuer_path.intros)
  next
    case False
    then have top: "\<not> is_anchor env anchors c" "\<not> self_signed c" "\<not> MAX_CHAIN_DEPTH \<le> d" by auto
    obtain next_step st1 where step: "step_to_parent env seen c st = (next_step, st1)"
      by fastforce
    show ?thesis
    proof (cases next_step)
      case (Inl e)
      with "1.prems" top step show ?thesis by (subst (asm) discover.simps) simp
    next
      case stop: (Inr s)
      show ?thesis
      proof (cases s)
        case (Inl t0)
        with "1.prems" top step stop have "added = []" "t = t0"
          by (subst (asm) discover.simps, simp)+
        with step_to_parent_stop [of env seen c st t0 st1] step stop Inl top show ?thesis
          by (auto intro: issuer_path.stuck)
      next
        case (Inr p)
        with step stop have up: "cc_subject p = cc_issuer c" "cert_key env p \<notin> set seen"
          using step_to_parent_up [of env seen c st p st1] by auto
        from "1.prems" top step stop Inr obtain ps where
            rest: "discover env anchors (Suc d) (cert_key env p # seen) p st1 = (Inr (t, ps), st')" and "added = p # ps"
          by (subst (asm) discover.simps) (auto split: sum.splits prod.splits)
        with "1.IH" [OF top step [symmetric] stop Inr rest] up top show ?thesis
          by (auto intro: issuer_path.up)
      qed
    qed
  qed
qed

text \<open>Consecutive certificates of a path name each other.\<close>

fun linked :: "chain_cert list \<Rightarrow> bool" where
  "linked (c # p # ps) \<longleftrightarrow> cc_subject p = cc_issuer c \<and> linked (p # ps)"
| "linked _ = True"

lemma issuer_path_linked: "issuer_path env anchors d seen c ps t \<Longrightarrow> linked (c # ps)"
  by (induction rule: issuer_path.induct) auto

lemma issuer_path_depth: "issuer_path env anchors d seen c ps t \<Longrightarrow> d \<le> MAX_CHAIN_DEPTH \<Longrightarrow> d + length ps \<le> MAX_CHAIN_DEPTH"
  by (induction rule: issuer_path.induct) auto

lemma issuer_path_fresh:
  "issuer_path env anchors d seen c ps t \<Longrightarrow>
     distinct (map (cert_key env) ps) \<and> set (map (cert_key env) ps) \<inter> set seen = {}"
  by (induction rule: issuer_path.induct) auto

text \<open>It stops at the first anchor or self-signed certificate, and the reported end is the true one.\<close>

lemma issuer_path_end:
  "issuer_path env anchors d seen c ps t \<Longrightarrow>
     (t = ''anchor'' \<longleftrightarrow> is_anchor env anchors (last (c # ps))) \<and>
     (t = ''root'' \<longleftrightarrow> \<not> is_anchor env anchors (last (c # ps)) \<and> self_signed (last (c # ps))) \<and>
     list_all (\<lambda>x. \<not> is_anchor env anchors x \<and> \<not> self_signed x) (butlast (c # ps))"
  by (induction rule: issuer_path.induct) auto

section \<open>Each location is downloaded once\<close>

definition cache_ok :: "aia_state \<Rightarrow> bool" where
  "cache_ok st \<longleftrightarrow> distinct (map fst (as_cache st)) \<and> as_gets st = length (as_cache st)"

lemma cache_ok_download:
  "cache_ok st \<Longrightarrow> cache_ok (snd (download_certificate_from_url env url st))"
  by (auto simp: cache_ok_def download_certificate_from_url_def Let_def update_fresh map_of_eq_None_iff
      split: option.splits)

lemma cache_ok_parent: "cache_ok st \<Longrightarrow> cache_ok (snd (download_parent env urls st))"
proof (induction env urls st rule: download_parent.induct)
  case (2 env url urls st)
  from cache_ok_download [OF "2.prems", of env url] "2.IH" show ?case
    by (auto split: prod.split option.split)
qed simp

lemma cache_ok_step: "cache_ok st \<Longrightarrow> cache_ok (snd (step_to_parent env seen c st))"
  using cache_ok_parent [of st env] by (auto simp: step_to_parent_def split: sum.split prod.split option.split) (metis snd_conv)+

lemma cache_ok_discover: "cache_ok st \<Longrightarrow> cache_ok (snd (discover env anchors d seen c st))"
proof (induction env anchors d seen c st rule: discover.induct)
  case (1 env anchors d seen c st)
  from cache_ok_step [OF "1.prems", of env seen c] "1.IH" "1.prems" show ?case
    by (subst discover.simps) (auto split: sum.split prod.split)
qed

end
