(* ===== verification/Path_Suite.thy ===== *)
theory Path_Suite
  imports Aia_Chain Suites
begin

text \<open>
  The certificate path test suite (\<open>ocsp_tester/tests_path_validation.py\<close>) over the validator and the
  chain discovery: each test with its verdict, message and details, and the entry point. The results
  carry no end time: the suite never calls \<open>end()\<close>. What a test keeps on the suite object is read only
  by itself and is returned by its helper here.
\<close>

section \<open>Inputs\<close>

text \<open>The entries of \<open>test_inputs\<close> the suite reads.\<close>

record path_inputs =
  pi_issuer_path :: "string option"
  pi_good_cert_path :: "string option"
  pi_trust_anchor_path :: "string option"
  pi_trust_anchor_type :: string
  pi_require_explicit_policy :: bool
  pi_inhibit_policy_mapping :: bool

text \<open>Beside the environments of the client and of the discovery: the files, and the naive renderings of the
  current time.\<close>

record path_env =
  pe_suite :: suite_env
  pe_aia :: aia_env
  pe_read :: "string \<Rightarrow> exn + string"
  pe_utc_iso :: "string \<Rightarrow> string"
  pe_local_iso :: "string \<Rightarrow> string"

abbreviation the_pv :: "path_env \<Rightarrow> pv_env" where
  "the_pv env \<equiv> ae_pv (pe_aia env)"

text \<open>\<open>str(name)\<close>\<close>

definition str_name :: "path_env \<Rightarrow> string \<Rightarrow> string" where
  "str_name env n = ''<Name('' @ pv_rfc4514 (the_pv env) n @ '')>''"

definition key_size_json :: "path_env \<Rightarrow> public_key \<Rightarrow> json" where
  "key_size_json env k = (case pv_key_size (the_pv env) k of Some n \<Rightarrow> JInt n | None \<Rightarrow> JStr ''Unknown'')"

definition load_cert_file :: "path_env \<Rightarrow> string \<Rightarrow> exn + chain_cert" where
  "load_cert_file env path =
     (case pe_read env path of
        Inl e \<Rightarrow> Inl e
      | Inr data \<Rightarrow> (case ae_pem (pe_aia env) data of Inr c \<Rightarrow> Inr c | Inl _ \<Rightarrow> ae_der (pe_aia env) data))"

text \<open>Both files most tests need: the issuer first; \<open>None\<close> without the two paths.\<close>

definition load_pair :: "path_env \<Rightarrow> path_inputs \<Rightarrow> (exn + chain_cert \<times> chain_cert) option" where
  "load_pair env inputs =
     (if \<not> truthy (pi_issuer_path inputs) \<or> \<not> truthy (pi_good_cert_path inputs) then None
      else Some (case load_cert_file env (the (pi_issuer_path inputs)) of
             Inl e \<Rightarrow> Inl e
           | Inr issuer_cert \<Rightarrow>
               (case load_cert_file env (the (pi_good_cert_path inputs)) of
                  Inl e \<Rightarrow> Inl e
                | Inr good_cert \<Rightarrow> Inr (issuer_cert, good_cert))))"

text \<open>The PEM blocks of a bundle, to the first without an end.\<close>

function pem_blocks :: "string \<Rightarrow> string list" where
  "pem_blocks data =
     (case find_sub PEM_BEGIN data of
        None \<Rightarrow> []
      | Some (_, from) \<Rightarrow>
          (case find_sub PEM_END from of
             None \<Rightarrow> []
           | Some (body, rest) \<Rightarrow> (body @ PEM_END) # pem_blocks (drop (length PEM_END) rest)))"
  by pat_completeness auto

termination
  by (relation "measure length")
    (auto dest!: find_sub_append simp: PEM_END_def startswith_iff)

declare pem_blocks.simps [simp del]

fun load_all :: "('a \<Rightarrow> exn + 'b) \<Rightarrow> 'a list \<Rightarrow> exn + 'b list" where
  "load_all f [] = Inr []"
| "load_all f (x # xs) = (case f x of Inl e \<Rightarrow> Inl e | Inr y \<Rightarrow> map_sum id ((#) y) (load_all f xs))"

definition load_supplied_trust_anchors :: "path_env \<Rightarrow> path_inputs \<Rightarrow> chain_cert list" where
  "load_supplied_trust_anchors env inputs =
     (if \<not> truthy (pi_trust_anchor_path inputs) then []
      else case pe_read env (the (pi_trust_anchor_path inputs)) of
             Inl _ \<Rightarrow> []
           | Inr data \<Rightarrow>
               (case (if contains data PEM_BEGIN then load_all (ae_pem (pe_aia env)) (pem_blocks data)
                      else map_sum id (\<lambda>c. [c]) (ae_der (pe_aia env) data)) of
                  Inl _ \<Rightarrow> []
                | Inr certs \<Rightarrow> certs))"

section \<open>Details of certificates\<close>

definition certificate_json :: "path_env \<Rightarrow> nat \<times> chain_cert \<Rightarrow> json" where
  "certificate_json env ic = (case ic of (i, cert) \<Rightarrow> JDict [(''index'', JInt (int i + 1)), (''subject'', JStr (str_name env (cc_subject cert))), (''issuer'',
     JStr (str_name env (cc_issuer cert))), (''serial_number'', JStr (show_nat (cc_serial cert))),
     (''signature_algorithm'', JStr (pv_str_oid (the_pv env) (cc_signature_oid cert))), (''validity_period'',
     JDict [(''not_before'', JStr (pv_isoformat (the_pv env) (cc_not_before cert))), (''not_after'',
     JStr (pv_isoformat (the_pv env) (cc_not_after cert)))])])"

definition build_certificate_details :: "path_env \<Rightarrow> chain_cert \<Rightarrow> chain_cert list \<Rightarrow> chain_cert list \<Rightarrow> json" where
  "build_certificate_details env end_entity intermediates trust_anchors =
     (let listed = (\<lambda>cs. JList (map (certificate_json env) (zip [0..<length cs] cs)))
      in JDict [(''end_entity_certificate'', JDict [(''subject'', JStr (str_name env (cc_subject end_entity))), (''issuer'',
     JStr (str_name env (cc_issuer end_entity))), (''serial_number'', JStr (show_nat (cc_serial end_entity))),
     (''signature_algorithm'', JStr (pv_str_oid (the_pv env) (cc_signature_oid end_entity))),
     (''validity_period'', JDict [(''not_before'',
     JStr (pv_isoformat (the_pv env) (cc_not_before end_entity))), (''not_after'',
     JStr (pv_isoformat (the_pv env) (cc_not_after end_entity)))])]),
           (''intermediate_certificates'', listed intermediates),
           (''trust_anchor_certificates'', listed trust_anchors),
           (''federal_bridge_pki_info'', JDict [(''description'', JStr ''Federal Bridge PKI Certificate Chain Analysis''), (''p7c_file_info'',
     JDict [(''format'', JStr ''PKCS#7 certs-only format''), (''purpose'',
     JStr ''Contains bundles of digital certificates for PKI interoperability''), (''federal_use'',
     JStr ''Establishes chain of trust between U.S. government agencies''), (''fcpca_relation'',
     JStr ''Often derived from Federal Common Policy CA (FCPCA)''), (''fpki_component'',
     JStr ''Part of Federal Public Key Infrastructure (FPKI)'')]), (''federal_bridge_info'',
     JDict [(''fbcp_role'', JStr ''Federal Bridge Certification Authority (FBCA) acts as trust hub''),
     (''interoperability'', JStr ''Enables secure communication between different federal agencies''),
     (''trust_path_creation'',
     JStr (''Federal Bridge issues certificates to each agency'' @ [CHR 0x27] @ ''s CA'')),
     (''certificate_distribution'',
     JStr ''Agencies maintain repository of subordinate CA certificates in P7C files''),
     (''verification_enablement'', JStr ''Systems can refer to P7C files to complete verification paths'')]),
     (''aia_discovery_info'', JDict [(''method'',
     JStr ''Authority Information Access (AIA) URLs used for chain discovery''), (''process'',
     JStr ''Automatically downloads and parses P7C files from AIA URLs''), (''chain_building'',
     JStr ''Builds complete certificate chains through Federal Bridge''), (''trust_establishment'',
     JStr ''Establishes trust between different PKI domains'')]), (''p7c_file_management'',
     JDict [(''windows'',
     JStr ''Double-click to open in Microsoft Certificate Manager (may need .p7b extension)''), (''macos'',
     JStr ''Double-click to open in Keychain Access utility''), (''openssl_command'',
     JStr ''openssl pkcs7 -in filename.p7c -print_certs -text''), (''binary_format'',
     JStr ''Cannot be read directly in text editor - requires certificate management software'')])])])"

definition get_validation_error_details :: "path_env \<Rightarrow> string \<Rightarrow> path_inputs \<Rightarrow> json" where
  "get_validation_error_details env nm inputs =
     (case load_pair env inputs of
        None \<Rightarrow> JDict [(''error'', JStr ''Missing certificate paths'')]
      | Some (Inl e) \<Rightarrow> JDict [(''error'', JStr (''Failed to analyze certificates: '' @ snd e))]
      | Some (Inr (issuer_cert, good_cert)) \<Rightarrow> JDict [(''end_entity_certificate'', JDict [(''subject'', JStr (str_name env (cc_subject good_cert))),
     (''issuer'', JStr (str_name env (cc_issuer good_cert))), (''serial_number'',
     JStr (show_nat (cc_serial good_cert))), (''signature_algorithm'',
     JStr (pv_str_oid (the_pv env) (cc_signature_oid good_cert))), (''validity_period'',
     JDict [(''not_before'', JStr (pv_isoformat (the_pv env) (cc_not_before good_cert))), (''not_after'',
     JStr (pv_isoformat (the_pv env) (cc_not_after good_cert)))]), (''public_key_info'', JDict [(''algorithm'',
     JStr (pv_key_type (the_pv env) (cc_public_key good_cert))), (''key_size'',
     key_size_json env (cc_public_key good_cert))])]), (''issuer_certificate'', JDict [(''subject'',
     JStr (str_name env (cc_subject issuer_cert))), (''issuer'', JStr (str_name env (cc_issuer issuer_cert))),
     (''serial_number'', JStr (show_nat (cc_serial issuer_cert))), (''signature_algorithm'',
     JStr (pv_str_oid (the_pv env) (cc_signature_oid issuer_cert))), (''validity_period'',
     JDict [(''not_before'', JStr (pv_isoformat (the_pv env) (cc_not_before issuer_cert))), (''not_after'',
     JStr (pv_isoformat (the_pv env) (cc_not_after issuer_cert)))]), (''public_key_info'',
     JDict [(''algorithm'', JStr (pv_key_type (the_pv env) (cc_public_key issuer_cert))), (''key_size'',
     key_size_json env (cc_public_key issuer_cert))])]), (''chain_analysis'', JDict [(''issuer_subject_match'',
     JBool (cc_issuer good_cert = cc_subject issuer_cert)), (''signature_algorithm_compatibility'',
     JBool (cc_signature_oid good_cert = cc_signature_oid issuer_cert)), (''certificate_chain_completeness'',
     JStr ''Partial - missing intermediate certificates'')]), (''validation_time'',
     JStr (pe_local_iso env nm))])"

section \<open>The helpers of the tests\<close>

text \<open>Each catches every exception itself; the outer handler of its test stays without a case. A helper that
  keeps something for the details returns it.\<close>

definition validate_certificate_chain_basic :: "path_env \<Rightarrow> string \<Rightarrow> path_inputs \<Rightarrow> exn + bool \<times> json" where
  "validate_certificate_chain_basic env nm inputs =
     (case load_pair env inputs of
        Some (Inr (issuer_cert, good_cert)) \<Rightarrow>
          (case build_certificate_chain_with_aia (pe_aia env) good_cert issuer_cert
                  (load_supplied_trust_anchors env inputs) \<lparr>as_cache = [], as_gets = 0\<rparr> of
             (None, _) \<Rightarrow> Inr (False, JDict [])
           | (Some chain, _) \<Rightarrow>
               Inr (vr_is_valid (validate_certificate_chain (the_pv env) (se_now (pe_suite env) nm)
                      (bc_end_entity chain) (bc_intermediates chain) (bc_trust_anchors chain)
                      (pi_trust_anchor_type inputs) (pi_require_explicit_policy inputs) (pi_inhibit_policy_mapping inputs)),
                    build_certificate_details env (bc_end_entity chain) (bc_intermediates chain) (bc_trust_anchors chain)))
      | _ \<Rightarrow> Inr (False, JDict []))"

text \<open>The same code serves for the end entity and for the intermediate.\<close>

definition test_invalid_signature_ee :: "path_env \<Rightarrow> path_inputs \<Rightarrow> exn + bool" where
  "test_invalid_signature_ee env inputs =
     (case load_pair env inputs of
        Some (Inr (issuer_cert, good_cert)) \<Rightarrow>
          Inr (if cc_issuer good_cert = cc_subject issuer_cert
               then \<not> verify_certificate_signature (the_pv env) good_cert issuer_cert
               else True)
      | _ \<Rightarrow> Inr False)"

definition test_invalid_signature_intermediate :: "path_env \<Rightarrow> path_inputs \<Rightarrow> exn + bool" where
  "test_invalid_signature_intermediate env inputs =
     (case load_pair env inputs of
        Some (Inr (issuer_cert, good_cert)) \<Rightarrow>
          Inr (if cc_issuer good_cert = cc_subject issuer_cert
               then \<not> verify_certificate_signature (the_pv env) good_cert issuer_cert
               else True)
      | _ \<Rightarrow> Inr False)"

datatype chaining = Unavailable string | Chaining bool chain_cert chain_cert

definition test_issuer_subject_mismatch :: "path_env \<Rightarrow> path_inputs \<Rightarrow> exn + chaining" where
  "test_issuer_subject_mismatch env inputs =
     (case load_pair env inputs of
        None \<Rightarrow> Inr (Unavailable ''issuer and end-entity certificates are required'')
      | Some (Inl e) \<Rightarrow> Inr (Unavailable (''could not load certificates: '' @ snd e))
      | Some (Inr (issuer_cert, good_cert)) \<Rightarrow>
          Inr (Chaining (cc_issuer good_cert = cc_subject issuer_cert) good_cert issuer_cert))"

definition test_expired_ee_certificate :: "path_env \<Rightarrow> string \<Rightarrow> path_inputs \<Rightarrow> exn + bool" where
  "test_expired_ee_certificate env nm inputs =
     (if \<not> truthy (pi_good_cert_path inputs) then Inr False
      else case load_cert_file env (the (pi_good_cert_path inputs)) of
             Inl _ \<Rightarrow> Inr False
           | Inr good_cert \<Rightarrow> Inr (se_now (pe_suite env) nm > cc_not_after good_cert))"

definition test_expired_crl :: "path_inputs \<Rightarrow> exn + bool" where
  "test_expired_crl inputs = Inr False"

definition test_revoked_ee_crl :: "path_inputs \<Rightarrow> exn + bool" where
  "test_revoked_ee_crl inputs = Inr False"

definition test_revoked_ee_ocsp :: "path_inputs \<Rightarrow> exn + bool" where
  "test_revoked_ee_ocsp inputs = Inr False"

definition test_explicit_policy_violation :: "path_inputs \<Rightarrow> exn + bool" where
  "test_explicit_policy_violation inputs = Inr False"

definition test_basic_constraints_violation :: "path_env \<Rightarrow> path_inputs \<Rightarrow> exn + bool" where
  "test_basic_constraints_violation env inputs =
     (if \<not> truthy (pi_issuer_path inputs) then Inr False
      else case load_cert_file env (the (pi_issuer_path inputs)) of
             Inl _ \<Rightarrow> Inr False
           | Inr issuer_cert \<Rightarrow>
               (case cc_extensions issuer_cert of
                  Inl _ \<Rightarrow> Inr False
                | Inr ev \<Rightarrow> Inr (case ev_basic_constraints ev of Some (ca, _) \<Rightarrow> \<not> ca | None \<Rightarrow> True)))"

text \<open>The analysis is written into the details and not into the verdict.\<close>

definition path_length_json :: "extension_view \<Rightarrow> json" where
  "path_length_json ev =
     (let start = ''Current path: EE -> Issuer (length = 1 intermediate)'';
          entries = (\<lambda>bc constraint violation analysis. JDict [
            (''certificate_chain_length'', JInt 2), (''issuer_basic_constraints'', bc),
            (''path_length_constraint'', constraint), (''constraint_violation'', JBool violation),
            (''analysis'', JStr (start @ analysis))])
      in case ev_basic_constraints ev of
           None \<Rightarrow> entries (JDict [(''extension_not_found'', JBool True)]) JNull False '' - No Basic Constraints extension found''
         | Some (ca, plen) \<Rightarrow>
             (let bc = JDict [(''ca'', JBool ca), (''path_length'', json_opt JInt plen)]
              in case plen of
                   None \<Rightarrow> entries bc JNull False '' - No pathLenConstraint set (unlimited)''
                 | Some n \<Rightarrow>
                     if n < 1
                     then entries bc (JInt n) True ('' - VIOLATION: pathLenConstraint='' @ show_int n @
                            '' but path has 1 intermediate'')
                     else entries bc (JInt n) False ('' - OK: pathLenConstraint='' @ show_int n @
                            '' allows 1 intermediate'')))"

definition test_path_length_constraint_violation :: "path_env \<Rightarrow> path_inputs \<Rightarrow> exn + bool \<times> json" where
  "test_path_length_constraint_violation env inputs =
     (if \<not> truthy (pi_issuer_path inputs) \<or> \<not> truthy (pi_good_cert_path inputs) then Inr (False, JDict [])
      else case load_cert_file env (the (pi_issuer_path inputs)) of
             Inl _ \<Rightarrow> Inr (False, JDict [])
           | Inr issuer_cert \<Rightarrow>
               (case cc_extensions issuer_cert of
                  Inl _ \<Rightarrow> Inr (False, JDict [])
                | Inr ev \<Rightarrow> Inr (False, path_length_json ev)))"

definition policies_json :: "path_env \<Rightarrow> extension_view \<Rightarrow> json" where
  "policies_json env ev =
     (case ev_policies ev of
        None \<Rightarrow> JDict [(''extension_not_found'', JBool True)]
      | Some ps \<Rightarrow> (let policy_oids = map (pv_str_oid (the_pv env)) ps in JDict [(''policies'', JList (map JStr policy_oids)), (''count'', JInt (int (length policy_oids)))]))"

definition mapping_json :: "path_env \<Rightarrow> string \<times> string \<Rightarrow> json" where
  "mapping_json env mapping = JDict [(''issuer_domain_policy'', JStr (pv_str_oid (the_pv env) (fst mapping))),
     (''subject_domain_policy'', JStr (pv_str_oid (the_pv env) (snd mapping)))]"

definition policy_mappings_json :: "path_env \<Rightarrow> extension_view \<Rightarrow> json" where
  "policy_mappings_json env ev =
     (case ev_policy_mappings ev of
        None \<Rightarrow> JDict [(''extension_not_found'', JBool True)]
      | Some mappings \<Rightarrow> JDict [(''mappings'', JList (map (mapping_json env) mappings)), (''count'', JInt (int (length mappings)))])"

definition test_policy_mapping_success :: "path_env \<Rightarrow> path_inputs \<Rightarrow> exn + bool \<times> json" where
  "test_policy_mapping_success env inputs =
     (case load_pair env inputs of
        Some (Inr (issuer_cert, good_cert)) \<Rightarrow>
          (case (cc_extensions good_cert, cc_extensions issuer_cert) of
             (Inr ee, Inr issuer) \<Rightarrow>
               Inr (True, JDict [
                 (''certificate_policies'', JDict [(''ee_certificate'', policies_json env ee),
                    (''issuer_certificate'', policies_json env issuer)]),
                 (''policy_mappings'', policy_mappings_json env issuer),
                 (''policy_analysis'', JStr ''Policy mapping analysis for Federal Bridge PKI'')])
           | _ \<Rightarrow> Inr (False, JDict []))
      | _ \<Rightarrow> Inr (False, JDict []))"

section \<open>The tests\<close>

definition path_case ::
  "path_env \<Rightarrow> string \<Rightarrow> string \<Rightarrow> test_status \<Rightarrow> string \<Rightarrow> (string \<times> json) list \<Rightarrow> test_case" where
  "path_case env category nm status message details =
     \<lparr>tc_id = se_uuid (pe_suite env) nm, tc_name = nm, tc_category = category, tc_status = status, tc_message = message,
      tc_details = details, tc_started_at = se_started (pe_suite env) nm, tc_ended_at = None\<rparr>"

text \<open>\<open>if should_run(test_name): try: ...; append(...) except Exception as e: append(...)\<close>\<close>

definition path_test ::
  "path_env \<Rightarrow> string \<Rightarrow> string \<Rightarrow> exn + 'a \<Rightarrow> ('a \<Rightarrow> test_status \<times> string \<times> (string \<times> json) list) \<Rightarrow>
     (exn \<Rightarrow> (string \<times> json) list) \<Rightarrow> test_case list" where
  "path_test env category nm outcome verdict handler =
     (if \<not> should_run (se_selection (pe_suite env)) nm then []
      else case outcome of
             Inl e \<Rightarrow> [path_case env category nm ERROR (''Test execution failed: '' @ snd e) (handler e)]
           | Inr x \<Rightarrow>
               (case verdict x of (status, message, details) \<Rightarrow> [path_case env category nm status message details]))"

definition fail_pass :: "bool \<Rightarrow> string" where
  "fail_pass b = (if b then ''FAIL'' else ''PASS'')"

text \<open>The verdict of the negative tests: the flaw was found, so the test fails.\<close>

definition negative :: "string \<Rightarrow> string \<Rightarrow> (bool \<Rightarrow> (string \<times> json) list) \<Rightarrow> bool \<Rightarrow> test_status \<times> string \<times> (string \<times> json) list" where
  "negative subject found details result =
     (if result then FAIL else PASS, subject @ '' test '' @ (if result then found else ''incorrectly passed''), details result)"

definition test_1_01 :: "path_env \<Rightarrow> path_inputs \<Rightarrow> test_case list" where
  "test_1_01 env inputs =
     (let test_id = ''1.01''; nm = ''Valid Path (Success): End-entity -> Intermediate CA -> Trusted Root''
      in path_test env ''Path Validation - Foundational'' nm (validate_certificate_chain_basic env nm inputs)
           (\<lambda>(result, certificate_details).
              if result
              then (PASS, ''Valid certificate chain passed validation'', [(''test_id'', JStr test_id), (''rfc_reference'', JStr ''RFC 5280 Section 6''), (''validation_result'',
     JStr ''PASS''), (''description'',
     JStr ''Tests basic certificate chain validation with valid certificates''), (''validation_steps'',
     JList [JStr ''Certificate signature verification'', JStr ''Certificate validity period checks'',
     JStr ''Basic constraints validation'', JStr ''Key usage validation'',
     JStr ''Path length constraint checks'']), (''expected_result'', JStr ''PASS''), (''actual_result'',
     JStr ''PASS''), (''test_category'', JStr ''Foundational Path Construction''), (''severity'',
     JStr ''Critical''), (''failure_impact'', JStr ''Complete validation failure if this test fails''),
     (''certificate_details'', certificate_details)])
              else (let error_details = get_validation_error_details env nm inputs
                    in (FAIL, ''Valid certificate chain failed validation'', [(''test_id'', JStr test_id), (''rfc_reference'', JStr ''RFC 5280 Section 6''), (''validation_result'',
     JStr ''FAIL''), (''description'',
     JStr ''Tests basic certificate chain validation with valid certificates''), (''validation_steps'',
     JList [JStr ''Certificate signature verification'', JStr ''Certificate validity period checks'',
     JStr ''Basic constraints validation'', JStr ''Key usage validation'',
     JStr ''Path length constraint checks'']), (''expected_result'', JStr ''PASS''), (''actual_result'',
     JStr ''FAIL''), (''test_category'', JStr ''Foundational Path Construction''), (''severity'',
     JStr ''Critical''), (''failure_impact'',
     JStr ''Complete validation failure - indicates fundamental issues with certificate chain''),
     (''error_details'', error_details), (''troubleshooting'',
     JList [JStr ''Check certificate file paths are correct'',
     JStr ''Verify certificates are in valid PEM/DER format'', JStr ''Ensure certificates are not corrupted'',
     JStr ''Check system time is accurate'', JStr ''Verify issuer and subject DNs match correctly'',
     JStr ''Check signature algorithm compatibility'', JStr ''Ensure certificates are from the same PKI'',
     JStr ''Check for certificate chain completeness''])])))
           (\<lambda>e. [(''test_id'', JStr test_id), (''error'', JStr (snd e)), (''rfc_reference'', JStr ''RFC 5280 Section 6''),
     (''description'', JStr ''Tests basic certificate chain validation with valid certificates''),
     (''test_category'', JStr ''Foundational Path Construction''), (''severity'', JStr ''Critical''),
     (''failure_impact'', JStr ''Test execution failure - indicates system or configuration issues''),
     (''troubleshooting'', JList [JStr ''Check Python cryptography library installation'',
     JStr ''Verify certificate file permissions'', JStr ''Check system resources and memory'',
     JStr ''Review error logs for detailed information''])]))"

definition test_1_02 :: "path_env \<Rightarrow> path_inputs \<Rightarrow> test_case list" where
  "test_1_02 env inputs =
     (let test_id = ''1.02''; nm = (''Invalid Signature (EE): EE certificate'' @ [CHR 0x27] @ ''s signature cannot be verified'')
      in path_test env ''Path Validation - Foundational'' nm (test_invalid_signature_ee env inputs)
           (negative ''Invalid EE signature'' ''failed as expected'' (\<lambda>result. [(''test_id'', JStr test_id), (''rfc_reference'', JStr ''Core Signature Check''), (''expected_result'',
     JStr ''FAIL''), (''actual_result'', JStr (fail_pass result)), (''description'',
     JStr ''Tests detection of invalid end-entity certificate signatures''), (''validation_steps'',
     JList [JStr ''Load end-entity certificate'', JStr ''Load issuer certificate'',
     JStr (''Extract issuer'' @ [CHR 0x27] @ ''s public key''),
     JStr (''Verify signature using issuer'' @ [CHR 0x27] @ ''s public key''),
     JStr ''Check for signature verification failure'']), (''test_category'',
     JStr ''Foundational Path Construction''), (''severity'', JStr ''Critical''), (''failure_impact'',
     JStr ''Security vulnerability - invalid signatures should be rejected''), (''cryptographic_details'',
     JDict [(''signature_algorithm'', JStr ''RSA-SHA256''), (''key_size'', JStr ''2048 bits''),
     (''hash_algorithm'', JStr ''SHA-256'')]), (''troubleshooting'',
     JList [JStr ''Verify certificate and issuer certificate are correctly paired'',
     JStr ''Check if certificates are corrupted or tampered with'',
     JStr ''Ensure proper cryptographic library installation'',
     JStr ''Verify system time accuracy for signature validation''])]))
           (\<lambda>e. [(''test_id'', JStr test_id), (''error'', JStr (snd e)), (''description'',
     JStr ''Tests detection of invalid end-entity certificate signatures''), (''test_category'',
     JStr ''Foundational Path Construction''), (''severity'', JStr ''Critical''), (''failure_impact'',
     JStr ''Test execution failure - cannot verify signature validation''), (''troubleshooting'',
     JList [JStr ''Check Python cryptography library installation'',
     JStr ''Verify certificate file permissions'', JStr ''Check system resources and memory'',
     JStr ''Review error logs for detailed information''])]))"

definition test_1_03 :: "path_env \<Rightarrow> path_inputs \<Rightarrow> test_case list" where
  "test_1_03 env inputs =
     (let test_id = ''1.03''; nm = (''Invalid Signature (Intermediate): Intermediate CA certificate'' @ [CHR 0x27] @ ''s signature is invalid'')
      in path_test env ''Path Validation - Foundational'' nm (test_invalid_signature_intermediate env inputs)
           (negative ''Invalid intermediate signature'' ''failed as expected'' (\<lambda>result. [(''test_id'', JStr test_id), (''rfc_reference'', JStr ''Core Signature Check (Mismatched Key)''),
     (''expected_result'', JStr ''FAIL''), (''actual_result'', JStr (fail_pass result)), (''description'',
     JStr ''Tests detection of invalid intermediate CA certificate signatures''), (''validation_steps'',
     JList [JStr ''Load intermediate CA certificate'', JStr ''Load parent CA certificate'',
     JStr (''Extract parent CA'' @ [CHR 0x27] @ ''s public key''),
     JStr (''Verify signature using parent CA'' @ [CHR 0x27] @ ''s public key''),
     JStr ''Check for signature verification failure'']), (''test_category'',
     JStr ''Foundational Path Construction''), (''severity'', JStr ''Critical''), (''failure_impact'',
     JStr ''Security vulnerability - invalid intermediate signatures should be rejected''),
     (''troubleshooting'', JList [JStr ''Verify intermediate and parent certificates are correctly paired'',
     JStr ''Check if certificates are corrupted or tampered with'',
     JStr ''Ensure proper cryptographic library installation'',
     JStr ''Verify certificate chain completeness''])]))
           (\<lambda>e. [(''test_id'', JStr test_id), (''error'', JStr (snd e)), (''description'',
     JStr ''Tests detection of invalid intermediate CA certificate signatures''), (''test_category'',
     JStr ''Foundational Path Construction''), (''severity'', JStr ''Critical''), (''failure_impact'',
     JStr ''Test execution failure - cannot verify intermediate signature validation''), (''troubleshooting'',
     JList [JStr ''Check Python cryptography library installation'',
     JStr ''Verify certificate file permissions'', JStr ''Check system resources and memory'',
     JStr ''Review error logs for detailed information''])]))"

text \<open>Name chaining: PASS when the names chain, FAIL on a mismatch, SKIP without the certificates.\<close>

definition chaining_details ::
  "json \<Rightarrow> json \<Rightarrow> json \<Rightarrow> json \<Rightarrow> json \<Rightarrow> string \<Rightarrow> (string \<times> json) list" where
  "chaining_details child_subject child_issuer parent_subject parent_issuer names_chain actual_result =
     (let test_id = ''1.04''; name_chaining = JDict [(''child_subject'', child_subject), (''child_issuer'', child_issuer), (''parent_subject'',
     parent_subject), (''parent_issuer'', parent_issuer), (''child_issuer_matches_parent_subject'',
     names_chain)]
      in [(''test_id'', JStr test_id), (''rfc_reference'',
     JStr (''RFC 5280 '' @ section_sign @ ''6.1.3 (a)(4) '' @ em_dash @ '' Name Chaining'')),
     (''expected_result'', JStr ''PASS''), (''actual_result'', JStr actual_result), (''description'',
     JStr ''Verifies issuer/subject DN name chaining between a certificate and its issuer''),
     (''name_chaining'', name_chaining), (''validation_steps'',
     JList [JStr ''Load child (end-entity) certificate'', JStr ''Load parent (issuer) certificate'',
     JStr (''Compare child certificate'' @ [CHR 0x27] @ ''s issuer DN with parent certificate'' @ [CHR 0x27] @ ''s subject DN''),
     JStr ''Report the two DNs and whether they chain'']), (''test_category'',
     JStr ''Foundational Path Construction''), (''severity'', JStr ''Critical''), (''failure_impact'',
     JStr ''Certificate chain integrity failure - mismatched DNs indicate broken chain''),
     (''troubleshooting'', JList [JStr ''Verify certificates belong to the same PKI'',
     JStr ''Check certificate file paths are correct'',
     JStr ''Ensure certificates are not mixed from different CAs'',
     JStr ''Verify certificate chain completeness''])])"

definition test_1_04 :: "path_env \<Rightarrow> path_inputs \<Rightarrow> test_case list" where
  "test_1_04 env inputs =
     (let test_id = ''1.04''; nm = ''Issuer/Subject Mismatch: The Issuer DN of the child cert does not match the Subject DN of the parent cert'';
          name_json = (\<lambda>n. JStr (pv_rfc4514 (the_pv env) n))
      in path_test env ''Path Validation - Foundational'' nm (test_issuer_subject_mismatch env inputs)
           (\<lambda>analysis. case analysis of
              Unavailable err \<Rightarrow>
                (SKIP, ''Issuer/Subject name chaining not evaluated: '' @ err, chaining_details JNull JNull JNull JNull JNull ''SKIP'')
            | Chaining names_chain child parent \<Rightarrow>
                (let details = chaining_details (name_json (cc_subject child)) (name_json (cc_issuer child))
                       (name_json (cc_subject parent)) (name_json (cc_issuer parent)) (JBool names_chain)
                 in if names_chain
                    then (PASS, ''Name chaining verified: the child certificate'' @ [CHR 0x27] @
                            ''s issuer DN matches the parent certificate'' @ [CHR 0x27] @ ''s subject DN (no mismatch)'', details ''PASS'')
                    else (FAIL, ''Name chaining failure detected: the child certificate'' @ [CHR 0x27] @
                            ''s issuer DN does not match the parent certificate'' @ [CHR 0x27] @ ''s subject DN'', details ''FAIL'')))
           (\<lambda>e. [(''test_id'', JStr test_id), (''error'', JStr (snd e)), (''description'',
     JStr ''Tests detection of issuer/subject DN mismatches in certificate chains''), (''test_category'',
     JStr ''Foundational Path Construction''), (''severity'', JStr ''Critical''), (''failure_impact'',
     JStr ''Test execution failure - cannot verify DN matching''), (''troubleshooting'',
     JList [JStr ''Check Python cryptography library installation'',
     JStr ''Verify certificate file permissions'', JStr ''Check system resources and memory'',
     JStr ''Review error logs for detailed information''])]))"

definition test_2_01 :: "path_env \<Rightarrow> path_inputs \<Rightarrow> test_case list" where
  "test_2_01 env inputs =
     (let test_id = ''2.01''; nm = (''notAfter Expired (EE): Validation time after EE certificate'' @ [CHR 0x27] @ ''s notAfter'')
      in path_test env ''Path Validation - Validity Period'' nm (test_expired_ee_certificate env nm inputs)
           (negative ''Expired EE certificate'' ''correctly failed'' (\<lambda>result. [(''test_id'', JStr test_id), (''rfc_reference'', JStr ''EE Certificate Expired''), (''expected_result'',
     JStr ''FAIL''), (''actual_result'', JStr (fail_pass result)), (''description'',
     JStr ''Tests detection of expired end-entity certificates''), (''validation_steps'',
     JList [JStr ''Load end-entity certificate'', JStr ''Extract notAfter field from certificate'',
     JStr ''Compare notAfter with current validation time'', JStr ''Verify expiration detection logic'']),
     (''test_category'', JStr ''Certificate Validity Period''), (''severity'', JStr ''High''),
     (''failure_impact'', JStr ''Security risk - expired certificates should be rejected''),
     (''time_validation_details'', JDict [(''validation_time'', JStr (pe_utc_iso env nm)),
     (''certificate_not_after'', JStr ''Extracted from certificate''), (''time_comparison'',
     JStr ''Validation time > notAfter'')]), (''troubleshooting'', JList [JStr ''Check system time accuracy'',
     JStr ''Verify certificate notAfter field is properly formatted'',
     JStr ''Ensure timezone handling is correct (UTC)'', JStr ''Check for clock skew issues''])]))
           (\<lambda>e. [(''test_id'', JStr test_id), (''error'', JStr (snd e)), (''description'',
     JStr ''Tests detection of expired end-entity certificates''), (''test_category'',
     JStr ''Certificate Validity Period''), (''severity'', JStr ''High''), (''failure_impact'',
     JStr ''Test execution failure - cannot verify certificate expiration''), (''troubleshooting'',
     JList [JStr ''Check Python cryptography library installation'',
     JStr ''Verify certificate file permissions'', JStr ''Check system resources and memory'',
     JStr ''Review error logs for detailed information''])]))"

definition test_2_04 :: "path_env \<Rightarrow> path_inputs \<Rightarrow> test_case list" where
  "test_2_04 env inputs =
     (let test_id = ''2.04''; nm = ''Revocation Status Expired: CRL has expired (nextUpdate in past)''
      in path_test env ''Path Validation - Validity Period'' nm (test_expired_crl inputs)
           (negative ''Expired CRL'' ''correctly failed'' (\<lambda>result. [(''test_id'', JStr test_id), (''rfc_reference'', JStr ''Must retrieve fresh revocation data''),
     (''expected_result'', JStr ''FAIL''), (''actual_result'', JStr (fail_pass result))]))
           (\<lambda>e. [(''test_id'', JStr test_id), (''error'', JStr (snd e))]))"

definition test_3_01 :: "path_env \<Rightarrow> path_inputs \<Rightarrow> test_case list" where
  "test_3_01 env inputs =
     (let test_id = ''3.01''; nm = ''Revoked (EE) in Fresh CRL: EE serial number on most recent CRL''
      in path_test env ''Path Validation - Revocation Status'' nm (test_revoked_ee_crl inputs)
           (negative ''Revoked EE in CRL'' ''correctly failed'' (\<lambda>result. [(''test_id'', JStr test_id), (''rfc_reference'', JStr ''CRL Revoked Status''), (''expected_result'',
     JStr ''FAIL''), (''actual_result'', JStr (fail_pass result))]))
           (\<lambda>e. [(''test_id'', JStr test_id), (''error'', JStr (snd e)), (''rfc_reference'', JStr ''CRL Revoked Status''),
     (''description'', JStr ''Tests detection of revoked certificates in Certificate Revocation Lists''),
     (''test_category'', JStr ''Revocation Status''), (''severity'', JStr ''High''), (''failure_impact'',
     JStr ''Test execution failure - cannot verify revocation status''), (''troubleshooting'',
     JList [JStr ''Check Python cryptography library installation'',
     JStr ''Verify certificate file permissions'', JStr ''Check CRL file availability and format'',
     JStr ''Validate CRL signature and issuer'', JStr ''Review system resources and memory'']),
     (''revocation_info'', JDict [(''purpose'', JStr ''CRL validation ensures certificates are not revoked''),
     (''validation_requirements'', JStr ''Must properly parse CRL and check certificate serial numbers''),
     (''security_impact'', JStr ''Critical for maintaining certificate trust'')])]))"

definition test_3_03 :: "path_env \<Rightarrow> path_inputs \<Rightarrow> test_case list" where
  "test_3_03 env inputs =
     (let test_id = ''3.03''; nm = ''Revoked (EE) by OCSP: OCSP response is revoked status''
      in path_test env ''Path Validation - Revocation Status'' nm (test_revoked_ee_ocsp inputs)
           (negative ''Revoked EE by OCSP'' ''correctly failed'' (\<lambda>result. [(''test_id'', JStr test_id), (''rfc_reference'', JStr ''OCSP Revoked Status''), (''expected_result'',
     JStr ''FAIL''), (''actual_result'', JStr (fail_pass result))]))
           (\<lambda>e. [(''test_id'', JStr test_id), (''error'', JStr (snd e)), (''rfc_reference'',
     JStr ''OCSP Revoked Status''), (''description'',
     JStr ''Tests detection of revoked certificates via OCSP responses''), (''test_category'',
     JStr ''Revocation Status''), (''severity'', JStr ''High''), (''failure_impact'',
     JStr ''Test execution failure - cannot verify OCSP revocation status''), (''troubleshooting'',
     JList [JStr ''Check Python cryptography library installation'',
     JStr ''Verify certificate file permissions'', JStr ''Check OCSP URL connectivity and availability'',
     JStr ''Validate OCSP response format and signature'', JStr ''Review system resources and memory'']),
     (''ocsp_revocation_info'', JDict [(''purpose'',
     JStr ''OCSP validation provides real-time certificate revocation status''), (''validation_requirements'',
     JStr ''Must properly parse OCSP responses and validate signatures''), (''security_impact'',
     JStr ''Critical for maintaining certificate trust with real-time revocation'')])]))"

definition test_4_01 :: "path_env \<Rightarrow> path_inputs \<Rightarrow> test_case list" where
  "test_4_01 env inputs =
     (let test_id = ''4.01''; nm = ''Basic Constraints Violation: Intermediate CA cert has cA = false''
      in path_test env ''Path Validation - Constraints & Extensions'' nm (test_basic_constraints_violation env inputs)
           (negative ''Basic constraints violation'' ''correctly failed'' (\<lambda>result. [(''test_id'', JStr test_id), (''rfc_reference'', JStr ''CA flag must be true for a CA cert''),
     (''expected_result'', JStr ''FAIL''), (''actual_result'', JStr (fail_pass result))]))
           (\<lambda>e. [(''test_id'', JStr test_id), (''error'', JStr (snd e)), (''rfc_reference'',
     JStr ''CA flag must be true for a CA cert''), (''description'',
     JStr ''Tests validation of basic constraints in certificate chains''), (''test_category'',
     JStr ''Constraints and Extensions''), (''severity'', JStr ''High''), (''failure_impact'',
     JStr ''Test execution failure - cannot verify basic constraints''), (''troubleshooting'',
     JList [JStr ''Check Python cryptography library installation'',
     JStr ''Verify certificate file permissions'', JStr ''Check certificate format and structure'',
     JStr ''Validate certificate extensions parsing'', JStr ''Review system resources and memory'']),
     (''constraints_info'', JDict [(''purpose'', JStr ''Basic constraints validate CA certificate authority''),
     (''validation_requirements'', JStr ''Must properly validate CA flag and path length constraints''),
     (''security_impact'', JStr ''Critical for preventing unauthorized certificate authority'')])]))"

definition test_4_02 :: "path_env \<Rightarrow> path_inputs \<Rightarrow> test_case list" where
  "test_4_02 env inputs =
     (let test_id = ''4.02''; nm = ''Path Length Constraint Violation: Path exceeds pathLenConstraint''
      in path_test env ''Path Validation - Constraints & Extensions'' nm (test_path_length_constraint_violation env inputs)
           (\<lambda>(violated, path_length_details).
              negative ''Path length constraint violation'' ''correctly failed'' (\<lambda>result. [(''test_id'', JStr test_id), (''rfc_reference'', JStr ''Exceeds Max Path Length''), (''expected_result'',
     JStr ''FAIL''), (''actual_result'', JStr (fail_pass result)), (''path_length_details'',
     path_length_details)]) violated)
           (\<lambda>e. [(''test_id'', JStr test_id), (''error'', JStr (snd e))]))"

definition test_5_01 :: "path_env \<Rightarrow> path_inputs \<Rightarrow> test_case list" where
  "test_5_01 env inputs =
     (let test_id = ''5.01''; nm = (''Successful Policy Mapping: Path requires Policy A; CA maps A '' @ [CHR 0xE2, CHR 0x86, CHR 0x92] @ '' B; EE asserts B'')
      in path_test env ''Path Validation - Federal Bridge PKI'' nm (test_policy_mapping_success env inputs)
           (\<lambda>(result, policy_mapping_details).
              (if result then PASS else FAIL,
               ''Policy mapping test '' @ (if result then ''correctly passed'' else ''incorrectly failed''),
               [(''test_id'', JStr test_id), (''rfc_reference'', JStr ''Policy Mapping (Sec. 4.2.4)''),
     (''expected_result'', JStr ''PASS''), (''actual_result'', JStr (fail_pass (\<not> result))),
     (''policy_mapping_details'', policy_mapping_details)]))
           (\<lambda>e. [(''test_id'', JStr test_id), (''error'', JStr (snd e)), (''rfc_reference'',
     JStr ''Policy Mapping (Sec. 4.2.4)''), (''description'',
     JStr ''Tests policy mapping functionality in Federal Bridge PKI''), (''test_category'',
     JStr ''Federal Bridge PKI''), (''severity'', JStr ''High''), (''failure_impact'',
     JStr ''Test execution failure - cannot verify policy mapping''), (''troubleshooting'',
     JList [JStr ''Check Python cryptography library installation'',
     JStr ''Verify certificate file permissions'', JStr ''Check system resources and memory'',
     JStr ''Review certificate policy extensions'', JStr ''Validate certificate chain integrity'']),
     (''policy_mapping_info'', JDict [(''purpose'',
     JStr ''Policy mapping allows CAs to map policies between different domains''), (''federal_bridge_role'',
     JStr ''Essential for Federal Bridge PKI interoperability''), (''validation_requirements'',
     JStr ''Must properly handle policy mappings in certificate chains'')])]))"

definition test_5_02 :: "path_env \<Rightarrow> path_inputs \<Rightarrow> test_case list" where
  "test_5_02 env inputs =
     (let test_id = ''5.02''; nm = ''Required Explicit Policy Violation: CA requires explicit policy, EE contains anyPolicy''
      in path_test env ''Path Validation - Federal Bridge PKI'' nm (test_explicit_policy_violation inputs)
           (negative ''Explicit policy violation'' ''correctly failed'' (\<lambda>result. [(''test_id'', JStr test_id), (''rfc_reference'', JStr ''Policy Constraints (Sec. 4.2.11)''),
     (''expected_result'', JStr ''FAIL''), (''actual_result'', JStr (fail_pass result))]))
           (\<lambda>e. [(''test_id'', JStr test_id), (''error'', JStr (snd e)), (''rfc_reference'',
     JStr ''Policy Constraints (Sec. 4.2.11)''), (''description'',
     JStr ''Tests explicit policy constraint validation in Federal Bridge PKI''), (''test_category'',
     JStr ''Federal Bridge PKI''), (''severity'', JStr ''High''), (''failure_impact'',
     JStr ''Test execution failure - cannot verify policy constraints''), (''troubleshooting'',
     JList [JStr ''Check Python cryptography library installation'',
     JStr ''Verify certificate file permissions'', JStr ''Check system resources and memory'',
     JStr ''Review certificate policy constraints extensions'',
     JStr ''Validate certificate chain integrity'']), (''policy_constraints_info'', JDict [(''purpose'',
     JStr ''Policy constraints enforce explicit policy requirements in certificate chains''),
     (''federal_bridge_role'', JStr ''Critical for Federal Bridge PKI policy enforcement''),
     (''validation_requirements'', JStr ''Must properly validate policy constraints and inheritance'')])]))"

definition run_foundational_tests :: "path_env \<Rightarrow> path_inputs \<Rightarrow> test_case list" where
  "run_foundational_tests env inputs = test_1_01 env inputs @ test_1_02 env inputs @ test_1_03 env inputs @ test_1_04 env inputs"

definition run_validity_period_tests :: "path_env \<Rightarrow> path_inputs \<Rightarrow> test_case list" where
  "run_validity_period_tests env inputs = test_2_01 env inputs @ test_2_04 env inputs"

definition run_revocation_status_tests :: "path_env \<Rightarrow> path_inputs \<Rightarrow> test_case list" where
  "run_revocation_status_tests env inputs = test_3_01 env inputs @ test_3_03 env inputs"

definition run_constraint_extension_tests :: "path_env \<Rightarrow> path_inputs \<Rightarrow> test_case list" where
  "run_constraint_extension_tests env inputs = test_4_01 env inputs @ test_4_02 env inputs"

definition run_bridge_pki_tests :: "path_env \<Rightarrow> path_inputs \<Rightarrow> test_case list" where
  "run_bridge_pki_tests env inputs = test_5_01 env inputs @ test_5_02 env inputs"

definition run_path_validation_tests :: "path_env \<Rightarrow> path_inputs \<Rightarrow> test_case list" where
  "run_path_validation_tests env inputs =
     run_foundational_tests env inputs @ run_validity_period_tests env inputs @ run_revocation_status_tests env inputs @
     run_constraint_extension_tests env inputs @ run_bridge_pki_tests env inputs"

section \<open>Properties\<close>

lemma path_case_simps [simp]:
  "test_case.tc_name (path_case env c nm s m d) = nm" "tc_category (path_case env c nm s m d) = c"
  "tc_status (path_case env c nm s m d) = s" "tc_details (path_case env c nm s m d) = d"
  by (simp_all add: path_case_def)

lemma path_test_names:
  "map test_case.tc_name (path_test env c nm out v h) = filter (should_run (se_selection (pe_suite env))) [nm]"
  by (simp add: path_test_def split: sum.split prod.split)

lemma path_test_category: "list_all (\<lambda>r. tc_category r = c) (path_test env c nm out v h)"
  by (simp add: path_test_def split: sum.split prod.split)

lemmas path_tests_def =
  test_1_01_def test_1_02_def test_1_03_def test_1_04_def test_2_01_def test_2_04_def test_3_01_def test_3_03_def
  test_4_01_def test_4_02_def test_5_01_def test_5_02_def

lemmas path_runs_def =
  run_path_validation_tests_def run_foundational_tests_def run_validity_period_tests_def run_revocation_status_tests_def
  run_constraint_extension_tests_def run_bridge_pki_tests_def

text \<open>Every selected test of the catalogue gives exactly one result.\<close>

lemma path_suite_names:
  "map test_case.tc_name (run_path_validation_tests env inputs) =
     filter (should_run (se_selection (pe_suite env))) (names_of ''path_validation'')"
proof -
  have names: "names_of ''path_validation'' = [
      ''Valid Path (Success): End-entity -> Intermediate CA -> Trusted Root'',
      (''Invalid Signature (EE): EE certificate'' @ [CHR 0x27] @ ''s signature cannot be verified''),
      (''Invalid Signature (Intermediate): Intermediate CA certificate'' @ [CHR 0x27] @ ''s signature is invalid''),
      ''Issuer/Subject Mismatch: The Issuer DN of the child cert does not match the Subject DN of the parent cert'',
      (''notAfter Expired (EE): Validation time after EE certificate'' @ [CHR 0x27] @ ''s notAfter''),
      ''Revocation Status Expired: CRL has expired (nextUpdate in past)'',
      ''Revoked (EE) in Fresh CRL: EE serial number on most recent CRL'',
      ''Revoked (EE) by OCSP: OCSP response is revoked status'',
      ''Basic Constraints Violation: Intermediate CA cert has cA = false'',
      ''Path Length Constraint Violation: Path exceeds pathLenConstraint'',
      (''Successful Policy Mapping: Path requires Policy A; CA maps A '' @ [CHR 0xE2, CHR 0x86, CHR 0x92] @ '' B; EE asserts B''),
      ''Required Explicit Policy Violation: CA requires explicit policy, EE contains anyPolicy'']"
    by (simp add: names_of_def catalog_index_def TEST_CATALOG_def catalog_entry_def)
  show ?thesis
    unfolding path_runs_def path_tests_def Let_def map_append path_test_names names filter_append [symmetric]
    by (simp only: append.simps append_assoc)
qed

text \<open>No test of the suite can end in ERROR: the helpers keep their exceptions to themselves.\<close>

lemma helpers_return:
  "\<exists>x. validate_certificate_chain_basic env nm inputs = Inr x" "\<exists>x. test_invalid_signature_ee env inputs = Inr x"
  "\<exists>x. test_invalid_signature_intermediate env inputs = Inr x" "\<exists>x. test_issuer_subject_mismatch env inputs = Inr x"
  "\<exists>x. test_expired_ee_certificate env nm inputs = Inr x" "\<exists>x. test_basic_constraints_violation env inputs = Inr x"
  "\<exists>x. test_path_length_constraint_violation env inputs = Inr x" "\<exists>x. test_policy_mapping_success env inputs = Inr x"
  by (auto simp: validate_certificate_chain_basic_def test_invalid_signature_ee_def test_invalid_signature_intermediate_def
      test_issuer_subject_mismatch_def test_expired_ee_certificate_def test_basic_constraints_violation_def
      test_path_length_constraint_violation_def test_policy_mapping_success_def
      split: option.split sum.split prod.split)

lemma path_test_no_error:
  "\<exists>x. out = Inr x \<Longrightarrow> (\<And>x. fst (v x) \<noteq> ERROR) \<Longrightarrow>
     list_all (\<lambda>r. tc_status r \<noteq> ERROR) (path_test env c nm out v h)"
  by (auto simp: path_test_def split: prod.split) (metis fst_conv)

lemma negative_verdict: "fst (negative subject found details result) = (if result then FAIL else PASS)"
  by (simp add: negative_def)

lemma path_suite_no_error: "list_all (\<lambda>r. tc_status r \<noteq> ERROR) (run_path_validation_tests env inputs)"
  unfolding path_runs_def path_tests_def Let_def list_all_append
  by (intro conjI path_test_no_error helpers_return)
    (auto simp: negative_verdict test_expired_crl_def test_revoked_ee_crl_def test_revoked_ee_ocsp_def
      test_explicit_policy_violation_def split: prod.split chaining.split)

text \<open>Five tests pass whatever the certificates, the lists and the responder are.\<close>

lemma placeholder_tests_pass:
  "list_all (\<lambda>r. tc_status r = PASS) (test_2_04 env inputs @ test_3_01 env inputs @ test_3_03 env inputs @ test_5_02 env inputs)"
  by (simp add: path_tests_def path_test_def negative_def test_expired_crl_def test_revoked_ee_crl_def
      test_revoked_ee_ocsp_def test_explicit_policy_violation_def Let_def)

lemma path_length_test_passes: "list_all (\<lambda>r. tc_status r = PASS) (test_4_02 env inputs)"
  by (simp add: test_4_02_def path_test_def negative_def test_path_length_constraint_violation_def Let_def
      split: option.split sum.split)

text \<open>What the PASS of the first test says of the certificates.\<close>

lemma valid_path_accepted:
  assumes "r \<in> set (test_1_01 env inputs)" and "tc_status r = PASS"
  obtains issuer ee added t chain where
    "load_pair env inputs = Some (Inr (issuer, ee))"
    "issuer_path (pe_aia env) (load_supplied_trust_anchors env inputs) 0
       [cert_key (pe_aia env) issuer, cert_key (pe_aia env) ee] issuer added t"
    "chain = organize (load_supplied_trust_anchors env inputs) (ee # issuer # added) t"
    "vr_is_valid (validate_certificate_chain (the_pv env) (se_now (pe_suite env) (test_case.tc_name r))
       (bc_end_entity chain) (bc_intermediates chain) (bc_trust_anchors chain)
       (pi_trust_anchor_type inputs) (pi_require_explicit_policy inputs) (pi_inhibit_policy_mapping inputs))"
proof -
  define nm :: string where "nm = ''Valid Path (Success): End-entity -> Intermediate CA -> Trusted Root''"
  obtain result details where basic: "validate_certificate_chain_basic env nm inputs = Inr (result, details)"
    using helpers_return(1) [of env nm inputs] by auto
  from assms basic have "result" and r: "test_case.tc_name r = nm"
    by (auto simp: test_1_01_def path_test_def Let_def nm_def [symmetric] split: if_splits)
  with basic obtain issuer ee chain st where pair: "load_pair env inputs = Some (Inr (issuer, ee))"
      and built: "build_certificate_chain_with_aia (pe_aia env) ee issuer (load_supplied_trust_anchors env inputs)
        \<lparr>as_cache = [], as_gets = 0\<rparr> = (Some chain, st)"
      and valid: "vr_is_valid (validate_certificate_chain (the_pv env) (se_now (pe_suite env) nm)
       (bc_end_entity chain) (bc_intermediates chain) (bc_trust_anchors chain)
       (pi_trust_anchor_type inputs) (pi_require_explicit_policy inputs) (pi_inhibit_policy_mapping inputs))"
    by (auto simp: validate_certificate_chain_basic_def split: option.splits sum.splits prod.splits)
  from built obtain t added st' where "discover (pe_aia env) (load_supplied_trust_anchors env inputs) 0
        [cert_key (pe_aia env) issuer, cert_key (pe_aia env) ee] issuer \<lparr>as_cache = [], as_gets = 0\<rparr> = (Inr (t, added), st')"
      and chain: "chain = organize (load_supplied_trust_anchors env inputs) (ee # issuer # added) t"
    by (auto simp: build_certificate_chain_with_aia_def split: prod.splits sum.splits)
  with that [OF pair discover_path chain] valid r show thesis by blast
qed

end
