(* ===== verification/Regex.thy ===== *)
theory Regex
  imports Text_Scan
begin

text \<open>
  The part of Python's \<open>re\<close> the engine's analyses of openssl output use: literals, character classes repeated
  greedily or lazily, groups, an optional part, an alternative, a lookahead and the end of the text.
  A pattern is matched by backtracking: the ways it matches at the start of a text, in the order in which \<open>re\<close>
  tries them, each with the groups, the text consumed and the rest. Text is ASCII.
\<close>

datatype regex =
    Lit string
  | Many "char \<Rightarrow> bool"
  | Many1 "char \<Rightarrow> bool"
  | Lazy1 "char \<Rightarrow> bool"
  | Group regex
  | Then regex regex
  | Opt regex
  | Either regex regex
  | Ahead regex
  | AtEnd

type_synonym regex_match = "string option list \<times> string \<times> string"

definition not_newline :: "char \<Rightarrow> bool" where
  "not_newline c \<longleftrightarrow> c \<noteq> CHR 0x0A"

definition any_char :: "char \<Rightarrow> bool" where
  "any_char c = True"

definition hex_char :: "char \<Rightarrow> bool" where
  "hex_char c = (let n = (of_char c :: nat) in (48 \<le> n \<and> n \<le> 57) \<or> (65 \<le> n \<and> n \<le> 70))"

definition word_char :: "char \<Rightarrow> bool" where
  "word_char c = (let n = (of_char c :: nat) in (48 \<le> n \<and> n \<le> 57) \<or> (65 \<le> n \<and> n \<le> 90) \<or> (97 \<le> n \<and> n \<le> 122) \<or> n = 95)"

text \<open>With \<open>re.IGNORECASE\<close> a class holds a letter when it holds it in either case.\<close>

definition in_class :: "bool \<Rightarrow> (char \<Rightarrow> bool) \<Rightarrow> char \<Rightarrow> bool" where
  "in_class ic p c \<longleftrightarrow> p c \<or> ic \<and> (p (lower_char c) \<or> p (upper_char c))"

definition same_text :: "bool \<Rightarrow> string \<Rightarrow> string \<Rightarrow> bool" where
  "same_text ic s t \<longleftrightarrow> (if ic then str_lower s = str_lower t else s = t)"

definition run_length :: "bool \<Rightarrow> (char \<Rightarrow> bool) \<Rightarrow> string \<Rightarrow> nat" where
  "run_length ic p s = length (takeWhile (in_class ic p) s)"

definition cut :: "string \<Rightarrow> nat \<Rightarrow> regex_match" where
  "cut s n = ([], take n s, drop n s)"

primrec groups :: "regex \<Rightarrow> nat" where
  "groups (Lit l) = 0"
| "groups (Many p) = 0"
| "groups (Many1 p) = 0"
| "groups (Lazy1 p) = 0"
| "groups (Group r) = Suc (groups r)"
| "groups (Then a b) = groups a + groups b"
| "groups (Opt r) = groups r"
| "groups (Either a b) = groups a + groups b"
| "groups (Ahead r) = groups r"
| "groups AtEnd = 0"

primrec matches :: "bool \<Rightarrow> regex \<Rightarrow> string \<Rightarrow> regex_match list" where
  "matches ic (Lit l) s = (if same_text ic (take (length l) s) l then [cut s (length l)] else [])"
| "matches ic (Many p) s = map (cut s) (rev [0..<Suc (run_length ic p s)])"
| "matches ic (Many1 p) s = map (cut s) (rev [1..<Suc (run_length ic p s)])"
| "matches ic (Lazy1 p) s = map (cut s) [1..<Suc (run_length ic p s)]"
| "matches ic (Group r) s = map (\<lambda>(g, x, t). (Some x # g, x, t)) (matches ic r s)"
| "matches ic (Then a b) s =
     concat (map (\<lambda>(g, x, t). map (\<lambda>(h, y, u). (g @ h, x @ y, u)) (matches ic b t)) (matches ic a s))"
| "matches ic (Opt r) s = matches ic r s @ [(replicate (groups r) None, [], s)]"
| "matches ic (Either a b) s =
     map (\<lambda>(g, x, t). (g @ replicate (groups b) None, x, t)) (matches ic a s) @
     map (\<lambda>(g, x, t). (replicate (groups a) None @ g, x, t)) (matches ic b s)"
| "matches ic (Ahead r) s = (case matches ic r s of [] \<Rightarrow> [] | (g, _, _) # _ \<Rightarrow> [(g, [], s)])"
| "matches ic AtEnd s = (if s = [] then [([], [], [])] else [])"

text \<open>\<open>re.search\<close>: the groups of the first match, from left to right.\<close>

fun search :: "bool \<Rightarrow> regex \<Rightarrow> string \<Rightarrow> string option list option" where
  "search ic r s =
     (case matches ic r s of
        (g, _, _) # _ \<Rightarrow> Some g
      | [] \<Rightarrow> (case s of [] \<Rightarrow> None | c # cs \<Rightarrow> search ic r cs))"

declare search.simps [simp del]

text \<open>\<open>re.findall\<close> with groups; one not taken part in is the empty text. After an empty match the scan moves on
  by one character.\<close>

function find_all :: "regex \<Rightarrow> string \<Rightarrow> string list list" where
  "find_all r s =
     (case matches False r s of
        [] \<Rightarrow> (case s of [] \<Rightarrow> [] | c # cs \<Rightarrow> find_all r cs)
      | (g, _, t) # _ \<Rightarrow>
          map (case_option [] id) g #
          (if length t < length s then find_all r t else case s of [] \<Rightarrow> [] | c # cs \<Rightarrow> find_all r cs))"
  by pat_completeness auto
termination by (relation "measure (length \<circ> snd)") (auto simp: less_Suc_eq_le)

declare find_all.simps [simp del]

text \<open>\<open>re.search(label \<dots> (.+))\<close> and the text it captures, the form in which most fields are read.\<close>

definition field_pattern :: "string \<Rightarrow> (char \<Rightarrow> bool) \<Rightarrow> regex" where
  "field_pattern label p = Then (Lit label) (Then (Many is_space) (Group (Many1 p)))"

definition search_field :: "bool \<Rightarrow> string \<Rightarrow> (char \<Rightarrow> bool) \<Rightarrow> string \<Rightarrow> string option" where
  "search_field ic label p s = (case search ic (field_pattern label p) s of Some [Some v] \<Rightarrow> Some v | _ \<Rightarrow> None)"

section \<open>What a pattern means\<close>

text \<open>A pattern as a relation between its groups, the text it consumes and the text that follows, without the order
  of the alternatives. A lookahead keeps the groups of its first match.\<close>

inductive denotes :: "bool \<Rightarrow> regex \<Rightarrow> string option list \<Rightarrow> string \<Rightarrow> string \<Rightarrow> bool" for ic where
  d_lit: "same_text ic x l \<Longrightarrow> length x = length l \<Longrightarrow> denotes ic (Lit l) [] x t"
| d_many: "list_all (in_class ic p) x \<Longrightarrow> denotes ic (Many p) [] x t"
| d_many1: "list_all (in_class ic p) x \<Longrightarrow> x \<noteq> [] \<Longrightarrow> denotes ic (Many1 p) [] x t"
| d_lazy1: "list_all (in_class ic p) x \<Longrightarrow> x \<noteq> [] \<Longrightarrow> denotes ic (Lazy1 p) [] x t"
| d_group: "denotes ic r g x t \<Longrightarrow> denotes ic (Group r) (Some x # g) x t"
| d_then: "denotes ic a g x (y @ t) \<Longrightarrow> denotes ic b h y t \<Longrightarrow> denotes ic (Then a b) (g @ h) (x @ y) t"
| d_some: "denotes ic r g x t \<Longrightarrow> denotes ic (Opt r) g x t"
| d_none: "denotes ic (Opt r) (replicate (groups r) None) [] t"
| d_left: "denotes ic a g x t \<Longrightarrow> denotes ic (Either a b) (g @ replicate (groups b) None) x t"
| d_right: "denotes ic b g x t \<Longrightarrow> denotes ic (Either a b) (replicate (groups a) None @ g) x t"
| d_end: "denotes ic AtEnd [] [] []"

inductive_simps denotes_simps:
  "denotes ic (Lit l) g x t" "denotes ic (Many p) g x t" "denotes ic (Many1 p) g x t" "denotes ic (Lazy1 p) g x t"
  "denotes ic (Group r) g x t" "denotes ic (Then a b) g x t" "denotes ic (Opt r) g x t" "denotes ic (Either a b) g x t"
  "denotes ic AtEnd g x t"

primrec no_ahead :: "regex \<Rightarrow> bool" where
  "no_ahead (Lit l) = True"
| "no_ahead (Many p) = True"
| "no_ahead (Many1 p) = True"
| "no_ahead (Lazy1 p) = True"
| "no_ahead (Group r) = no_ahead r"
| "no_ahead (Then a b) = (no_ahead a \<and> no_ahead b)"
| "no_ahead (Opt r) = no_ahead r"
| "no_ahead (Either a b) = (no_ahead a \<and> no_ahead b)"
| "no_ahead (Ahead r) = False"
| "no_ahead AtEnd = True"

lemma same_text_length: "same_text ic s t \<Longrightarrow> length s = length t"
  by (auto simp: same_text_def str_lower_def dest: map_eq_imp_length_eq split: if_splits)

lemma cut_in_run:
  "(g, x, t) \<in> cut s ` {m..<Suc (run_length ic p s)} \<longleftrightarrow>
     g = [] \<and> s = x @ t \<and> list_all (in_class ic p) x \<and> m \<le> length x"
proof
  assume "(g, x, t) \<in> cut s ` {m..<Suc (run_length ic p s)}"
  then obtain n where n: "m \<le> n" "n \<le> run_length ic p s" "(g, x, t) = cut s n" by auto
  have "take n s = take n (takeWhile (in_class ic p) s)"
    using n(2) by (metis append_take_drop_id run_length_def take_append takeWhile_dropWhile_id diff_is_0_eq take0 append_Nil2)
  then have "list_all (in_class ic p) (take n s)"
    by (metis in_set_takeD list_all_iff set_takeWhileD)
  moreover have "n \<le> length s"
    using n(2) length_takeWhile_le [of "in_class ic p" s] by (simp add: run_length_def)
  ultimately show "g = [] \<and> s = x @ t \<and> list_all (in_class ic p) x \<and> m \<le> length x"
    using n by (simp add: cut_def)
next
  assume a: "g = [] \<and> s = x @ t \<and> list_all (in_class ic p) x \<and> m \<le> length x"
  then have "length x \<le> run_length ic p s"
    by (simp add: run_length_def takeWhile_append list_all_iff)
  moreover have "(g, x, t) = cut s (length x)" using a by (simp add: cut_def)
  ultimately show "(g, x, t) \<in> cut s ` {m..<Suc (run_length ic p s)}" using a by auto
qed

text \<open>The matcher finds exactly the matches of the pattern.\<close>

theorem matches_correct:
  "no_ahead r \<Longrightarrow> (g, x, t) \<in> set (matches ic r s) \<longleftrightarrow> s = x @ t \<and> denotes ic r g x t"
proof (induction r arbitrary: g x t s)
  case (Lit l)
  have "length (take (length l) s) = length l" if "same_text ic (take (length l) s) l"
    using that by (rule same_text_length)
  then show ?case by (auto simp: cut_def denotes_simps)
next
  case (Then a b)
  have "(g, x, t) \<in> set (matches ic (Then a b) s) \<longleftrightarrow>
      (\<exists>g1 x1 u g2 x2. (g1, x1, u) \<in> set (matches ic a s) \<and> (g2, x2, t) \<in> set (matches ic b u) \<and> g = g1 @ g2 \<and> x = x1 @ x2)"
    by (force simp: image_iff)
  also have "\<dots> \<longleftrightarrow> s = x @ t \<and> denotes ic (Then a b) g x t"
    using Then by (auto simp: denotes_simps; blast)
  finally show ?case .
next
  case (Group r)
  have "(g, x, t) \<in> set (matches ic (Group r) s) \<longleftrightarrow> (\<exists>h. g = Some x # h \<and> (h, x, t) \<in> set (matches ic r s))"
    by (force simp: image_iff)
  with Group show ?case by (auto simp: denotes_simps)
next
  case (Opt r)
  then show ?case by (auto simp: denotes_simps)
next
  case (Either a b)
  have "(g, x, t) \<in> set (matches ic (Either a b) s) \<longleftrightarrow>
      (\<exists>h. g = h @ replicate (groups b) None \<and> (h, x, t) \<in> set (matches ic a s)) \<or>
      (\<exists>h. g = replicate (groups a) None @ h \<and> (h, x, t) \<in> set (matches ic b s))"
    by (force simp: image_iff)
  with Either show ?case by (auto simp: denotes_simps)
next
  case (Many p)
  have "set (matches ic (Many p) s) = cut s ` {0..<Suc (run_length ic p s)}"
    by (simp only: matches.simps set_map set_rev set_upt)
  then show ?case using cut_in_run [of g x t s 0 ic p] by (auto simp: denotes_simps)
next
  case (Many1 p)
  have "set (matches ic (Many1 p) s) = cut s ` {1..<Suc (run_length ic p s)}"
    by (simp only: matches.simps set_map set_rev set_upt)
  then show ?case using cut_in_run [of g x t s 1 ic p] by (cases x) (auto simp: denotes_simps)
next
  case (Lazy1 p)
  have "set (matches ic (Lazy1 p) s) = cut s ` {1..<Suc (run_length ic p s)}"
    by (simp only: matches.simps set_map set_rev set_upt)
  then show ?case using cut_in_run [of g x t s 1 ic p] by (cases x) (auto simp: denotes_simps)
qed (auto simp: denotes_simps)

text \<open>Every match fills the groups of its pattern.\<close>

lemma matches_groups: "(g, x, t) \<in> set (matches ic r s) \<Longrightarrow> length g = groups r"
proof (induction r arbitrary: g x t s)
  case (Ahead r)
  show ?case
  proof (cases "matches ic r s")
    case (Cons m ms)
    then obtain h y u where "m = (h, y, u)" by (cases m)
    with Cons Ahead.prems have "(g, y, u) \<in> set (matches ic r s)" by simp
    then show ?thesis using Ahead.IH by simp
  qed (use Ahead.prems in simp)
qed (auto simp: cut_def split: if_splits)

lemma search_groups: "search ic r s = Some g \<Longrightarrow> length g = groups r"
proof (induction ic r s rule: search.induct)
  case (1 ic r s)
  show ?case
  proof (cases "matches ic r s")
    case Nil
    with 1 show ?thesis by (subst (asm) search.simps) (auto split: list.splits)
  next
    case (Cons m ms)
    then obtain x t where "m = (g, x, t)" using 1(2) by (cases m) (simp add: search.simps)
    then show ?thesis using matches_groups [of g x t ic r s] Cons by simp
  qed
qed

section \<open>Reading a labelled field\<close>

lemma search_skip: "matches ic r (c # cs) = [] \<Longrightarrow> search ic r (c # cs) = search ic r cs"
  by (subst search.simps) simp

lemma search_hit: "matches ic r s = (g, x, t) # ms \<Longrightarrow> search ic r s = Some g"
  by (subst search.simps) simp

definition starts_label :: "bool \<Rightarrow> string \<Rightarrow> string \<Rightarrow> bool" where
  "starts_label ic label s \<longleftrightarrow> same_text ic (take (length label) s) label"

text \<open>What stands before the first occurrence of the label does not matter.\<close>

lemma search_field_skip:
  "(\<forall>i < length a. \<not> starts_label ic label (drop i a @ s)) \<Longrightarrow> search_field ic label p (a @ s) = search_field ic label p s"
proof (induction a)
  case (Cons c cs)
  then have "\<not> starts_label ic label (c # cs @ s)" by (auto dest: spec [of _ 0])
  then have "matches ic (field_pattern label p) ((c # cs) @ s) = []"
    by (simp add: field_pattern_def starts_label_def)
  then have "search_field ic label p ((c # cs) @ s) = search_field ic label p (cs @ s)"
    by (simp add: search_field_def search_skip)
  also have "\<dots> = search_field ic label p s"
    using Cons.prems by (intro Cons.IH) (auto dest: spec [of _ "Suc _"])
  finally show ?case .
qed simp

lemma run_length_prefix:
  "list_all (in_class ic p) v \<Longrightarrow> (t = [] \<or> \<not> in_class ic p (hd t)) \<Longrightarrow> run_length ic p (v @ t) = length v"
  by (cases t) (auto simp: run_length_def takeWhile_append list_all_iff takeWhile_eq_all_conv [THEN iffD2])

lemma greedy_first:
  assumes "list_all (in_class ic p) v" and "v \<noteq> []" and "t = [] \<or> \<not> in_class ic p (hd t)"
  shows "\<exists>ms. matches ic (Many1 p) (v @ t) = ([], v, t) # ms"
proof -
  obtain n where n: "length v = Suc n" using assms(2) by (cases v) auto
  have "run_length ic p (v @ t) = Suc n" using run_length_prefix [OF assms(1,3)] n by simp
  moreover have "take (Suc n) (v @ t) = v" "drop (Suc n) (v @ t) = t" using n by simp_all
  ultimately show ?thesis by (simp add: cut_def)
qed

lemma first_then:
  "matches ic a s = (g, x, t) # ms \<Longrightarrow> matches ic b t = (h, y, u) # ns \<Longrightarrow>
     \<exists>ks. matches ic (Then a b) s = (g @ h, x @ y, u) # ks"
  by simp

lemma first_group: "matches ic r s = (g, x, t) # ms \<Longrightarrow> \<exists>ks. matches ic (Group r) s = (Some x # g, x, t) # ks"
  by simp

lemma first_many:
  assumes "list_all (in_class ic p) v" and "t = [] \<or> \<not> in_class ic p (hd t)"
  shows "\<exists>ms. matches ic (Many p) (v @ t) = ([], v, t) # ms"
  using run_length_prefix [OF assms] by (simp add: cut_def)

lemma first_lit: "matches ic (Lit l) (l @ s) = [([], l, s)]"
  by (simp add: same_text_def cut_def)

text \<open>A label, blanks and a text up to the end of its line: the text is read.\<close>

lemma search_field_hit:
  assumes "list_all (in_class ic is_space) sp" and "list_all (in_class ic p) v" and "v \<noteq> []"
    and "\<not> in_class ic is_space (hd v)" and "t = [] \<or> \<not> in_class ic p (hd t)"
  shows "search_field ic label p (label @ sp @ v @ t) = Some v"
proof -
  obtain ms where "matches ic (Many1 p) (v @ t) = ([], v, t) # ms" using greedy_first [OF assms(2,3,5)] by blast
  then obtain ks where g: "matches ic (Group (Many1 p)) (v @ t) = ([Some v], v, t) # ks" using first_group by fastforce
  have "v @ t = [] \<or> \<not> in_class ic is_space (hd (v @ t))" using assms(3,4) by (cases v) auto
  then obtain rest where "matches ic (Many is_space) (sp @ v @ t) = ([], sp, v @ t) # rest"
    using first_many [OF assms(1)] by blast
  from first_then [OF this g] obtain ls where
    l: "matches ic (Then (Many is_space) (Group (Many1 p))) (sp @ v @ t) = ([Some v], sp @ v, t) # ls" by auto
  from first_then [OF first_lit l, of label] obtain ns where
    "matches ic (field_pattern label p) (label @ sp @ v @ t) = ([Some v], label @ sp @ v, t) # ns"
    by (auto simp: field_pattern_def simp del: matches.simps)
  then show ?thesis by (auto simp: search_field_def search_hit)
qed

end
