(* ===== verification/Monitor_Text.thy ===== *)
theory Monitor_Text
  imports Regex Url Subprocess Suites
begin

text \<open>
  The analyses that \<open>OCSPMonitor\<close> (\<open>ocsp_tester/monitor.py\<close>) makes of the text openssl prints for an OCSP response:
  the status of a certificate, responses with several certificates, signs of a federal PKI, the validity interval
  and the certificates contained. Progress messages are left out. Times are microseconds since the epoch.
\<close>

section \<open>Responses with several certificates\<close>

record batch_entry =
  be_hash_algorithm :: string
  be_issuer_name_hash :: string
  be_issuer_key_hash :: string
  be_serial_number :: string
  be_cert_status :: string
  be_revocation_time :: "string option"
  be_revocation_reason :: "string option"
  be_this_update :: string
  be_next_update :: string

text \<open>\<open>\s*\n\s*label\s*\<close>, the pieces of the pattern.\<close>

definition line_break :: regex where
  "line_break = Then (Many is_space) (Then (Lit [CHR 0x0A]) (Many is_space))"

definition on_line :: "string \<Rightarrow> regex \<Rightarrow> regex" where
  "on_line label r = Then line_break (Then (Lit label) (Then (Many is_space) (Group r)))"

definition cert_id_pattern :: regex where
  "cert_id_pattern =
     Then (Lit ''Certificate ID:'')
     (Then (on_line ''Hash Algorithm:'' (Many1 word_char))
     (Then (on_line ''Issuer Name Hash:'' (Many1 hex_char))
     (Then (on_line ''Issuer Key Hash:'' (Many1 hex_char))
     (Then (on_line ''Serial Number:'' (Many1 hex_char))
     (Then (on_line ''Cert Status:'' (Many1 word_char))
     (Then (Opt (Then (on_line ''Revocation Time:'' (Lazy1 any_char)) (on_line ''Revocation Reason:'' (Lazy1 any_char))))
     (Then (on_line ''This Update:'' (Lazy1 any_char))
     (Then (on_line ''Next Update:'' (Lazy1 any_char))
           (Ahead (Either (Then line_break (Lit ''Certificate ID:''))
                  (Either (Then line_break (Lit ''Signature Algorithm:''))
                  (Either (Then line_break (Lit ''Certificate:'')) AtEnd))))))))))))"

definition text_or_none :: "string \<Rightarrow> string option" where
  "text_or_none s = (if s = [] then None else Some s)"

definition batch_entry_of :: "string list \<Rightarrow> batch_entry" where
  "batch_entry_of m =
     \<lparr>be_hash_algorithm = m ! 0, be_issuer_name_hash = m ! 1, be_issuer_key_hash = m ! 2, be_serial_number = m ! 3,
      be_cert_status = str_lower (m ! 4), be_revocation_time = text_or_none (m ! 5),
      be_revocation_reason = text_or_none (m ! 6), be_this_update = strip (m ! 7), be_next_update = strip (m ! 8)\<rparr>"

definition detect_batch_ocsp_response :: "string \<Rightarrow> batch_entry list" where
  "detect_batch_ocsp_response text =
     (let ms = find_all cert_id_pattern text in if length ms > 1 then map batch_entry_of ms else [])"

definition batch_entry_json :: "batch_entry \<Rightarrow> json" where
  "batch_entry_json e =
     JDict [(''hash_algorithm'', JStr (be_hash_algorithm e)), (''issuer_name_hash'', JStr (be_issuer_name_hash e)),
       (''issuer_key_hash'', JStr (be_issuer_key_hash e)), (''serial_number'', JStr (be_serial_number e)),
       (''cert_status'', JStr (be_cert_status e)), (''revocation_time'', text_json (be_revocation_time e)),
       (''revocation_reason'', text_json (be_revocation_reason e)), (''this_update'', JStr (be_this_update e)),
       (''next_update'', JStr (be_next_update e))]"

section \<open>The status of a certificate\<close>

record status_details =
  sd_response_status :: string
  sd_cert_status :: string
  sd_cert_serial :: "string option"
  sd_revocation_time :: "string option"
  sd_revocation_reason :: "string option"
  sd_this_update :: "string option"
  sd_next_update :: "string option"
  sd_produced_at :: "string option"
  sd_responder_id :: "string option"
  sd_parsing_errors :: "string list"
  sd_security_warnings :: "string list"
  sd_batch :: "batch_entry list option"

definition no_status :: status_details where
  "no_status = \<lparr>sd_response_status = ''UNKNOWN'', sd_cert_status = ''UNKNOWN'', sd_cert_serial = None,
     sd_revocation_time = None, sd_revocation_reason = None, sd_this_update = None, sd_next_update = None,
     sd_produced_at = None, sd_responder_id = None, sd_parsing_errors = [], sd_security_warnings = [], sd_batch = None\<rparr>"

definition parsing_error :: "string \<Rightarrow> status_details \<Rightarrow> status_details" where
  "parsing_error m d = d\<lparr>sd_parsing_errors := sd_parsing_errors d @ [m]\<rparr>"

definition security_warning :: "string \<Rightarrow> status_details \<Rightarrow> status_details" where
  "security_warning m d = d\<lparr>sd_security_warnings := sd_security_warnings d @ [m]\<rparr>"

text \<open>The serial number looked for, in the form in which openssl prints it: a text of digits only is taken for
  decimal (\<open>int\<close> refuses more than 4300 digits, and then it is compared as it is).\<close>

definition hex_serial :: "string \<Rightarrow> string" where
  "hex_serial target =
     (if isdigit target \<and> length target \<le> 4300
      then (case parse_digits 0 target of Some n \<Rightarrow> str_upper (hex_of_nat n) | None \<Rightarrow> str_upper target)
      else str_upper target)"

definition find_entry :: "string option \<Rightarrow> batch_entry list \<Rightarrow> batch_entry option" where
  "find_entry target es =
     (if truthy target then find (\<lambda>e. str_upper (be_serial_number e) = hex_serial (the target)) es else None)"

definition with_entry :: "batch_entry \<Rightarrow> status_details \<Rightarrow> status_details" where
  "with_entry e d =
     (let d = d\<lparr>sd_cert_status := be_cert_status e, sd_this_update := Some (be_this_update e),
                sd_next_update := Some (be_next_update e)\<rparr>;
          d = (if truthy (be_revocation_time e)
               then d\<lparr>sd_revocation_time := be_revocation_time e, sd_revocation_reason := be_revocation_reason e\<rparr> else d)
      in if be_cert_status e = ''revoked'' then security_warning ''Certificate is revoked - do not trust'' d
         else if be_cert_status e = ''unknown'' then security_warning ''Certificate status unknown - use caution'' d
         else d)"

definition parse_batch_ocsp_response :: "string \<Rightarrow> string option \<Rightarrow> batch_entry list \<Rightarrow> status_details" where
  "parse_batch_ocsp_response text target es =
     (let d = no_status\<lparr>sd_response_status := ''SUCCESSFUL'', sd_cert_serial := target, sd_batch := Some es,
                 sd_responder_id := search_field False ''Responder Id:'' (\<lambda>c. hex_char c \<or> c = CHR '':'') text,
                 sd_produced_at := map_option strip (search_field False ''Produced At:'' not_newline text)\<rparr>
      in case find_entry target es of
           Some e \<Rightarrow> with_entry e d
         | None \<Rightarrow> security_warning ''Target certificate not found in batch response''
                     (parsing_error (''Target certificate '' @ none_text target @ '' not found in batch response'') d))"

definition response_status_step :: "string \<Rightarrow> status_details \<Rightarrow> status_details" where
  "response_status_step text d =
     (if contains text ''OCSP Response Status: successful'' then d\<lparr>sd_response_status := ''SUCCESSFUL''\<rparr>
      else if contains text ''OCSP Response Status: unauthorized''
      then security_warning ''OCSP responder unauthorized - potential security issue'' (d\<lparr>sd_response_status := ''UNAUTHORIZED''\<rparr>)
      else if contains text ''OCSP Response Status: malformed''
      then security_warning ''OCSP response malformed - potential attack'' (d\<lparr>sd_response_status := ''MALFORMED''\<rparr>)
      else parsing_error ''Could not determine OCSP response status'' d)"

definition serial_step :: "string \<Rightarrow> status_details \<Rightarrow> status_details" where
  "serial_step text d =
     (case search_field True ''Serial Number:'' hex_char text of
        Some v \<Rightarrow> d\<lparr>sd_cert_serial := Some v\<rparr>
      | None \<Rightarrow> parsing_error ''Certificate serial number not found'' d)"

definition cert_status_step :: "string \<Rightarrow> status_details \<Rightarrow> status_details" where
  "cert_status_step text d =
     (case search_field True ''Cert Status:'' word_char text of
        None \<Rightarrow> parsing_error ''Certificate status not found in response'' d
      | Some v \<Rightarrow>
          (let status = str_lower v
           in if status = ''good'' then d\<lparr>sd_cert_status := ''good''\<rparr>
              else if status = ''revoked''
              then security_warning ''Certificate is revoked - do not trust'' (d\<lparr>sd_cert_status := ''revoked''\<rparr>)
              else if status = ''unknown''
              then security_warning ''Certificate status unknown - use caution'' (d\<lparr>sd_cert_status := ''unknown''\<rparr>)
              else parsing_error (''Unknown certificate status: '' @ status) (d\<lparr>sd_cert_status := str_upper status\<rparr>)))"

text \<open>A time field: absent, or its text parsed. \<open>iso\<close> is \<open>datetime.isoformat\<close>.\<close>

definition time_field :: "string \<Rightarrow> string \<Rightarrow> (string \<times> int option) option" where
  "time_field label text = map_option (\<lambda>v. (strip v, gmt_time (strip v))) (search_field True label not_newline text)"

definition revocation_step :: "(int \<Rightarrow> string) \<Rightarrow> string \<Rightarrow> status_details \<Rightarrow> status_details" where
  "revocation_step iso_time text d =
     (if sd_cert_status d \<noteq> ''revoked'' then d
      else let d = (case time_field ''Revocation Time:'' text of
                      Some (_, Some t) \<Rightarrow> d\<lparr>sd_revocation_time := Some (iso_time t)\<rparr>
                    | Some (v, None) \<Rightarrow> parsing_error (''Could not parse revocation time: '' @ gmt_time_error v) d
                    | None \<Rightarrow> parsing_error ''Revocation time not found'' d)
           in case search_field True ''Revocation Reason:'' not_newline text of
                Some v \<Rightarrow> d\<lparr>sd_revocation_reason := Some (strip v)\<rparr>
              | None \<Rightarrow> parsing_error ''Revocation reason not found'' d)"

definition time_step ::
  "(int \<Rightarrow> string) \<Rightarrow> string \<Rightarrow> (string \<Rightarrow> status_details \<Rightarrow> status_details) \<Rightarrow> string \<Rightarrow> status_details \<Rightarrow> status_details" where
  "time_step iso_time label set_time text d =
     (case time_field (label @ '':'') text of
        Some (_, Some t) \<Rightarrow> set_time (iso_time t) d
      | Some (v, None) \<Rightarrow> parsing_error (''Could not parse '' @ label @ '': '' @ gmt_time_error v) d
      | None \<Rightarrow> d)"

definition responder_step :: "string \<Rightarrow> status_details \<Rightarrow> status_details" where
  "responder_step text d =
     (case search_field True ''Responder Id:'' not_newline text of
        Some v \<Rightarrow> d\<lparr>sd_responder_id := Some (strip v)\<rparr> | None \<Rightarrow> d)"

definition parse_certificate_status_details :: "(int \<Rightarrow> string) \<Rightarrow> string \<Rightarrow> string option \<Rightarrow> status_details" where
  "parse_certificate_status_details iso_time text target =
     (case detect_batch_ocsp_response text of
        e # es \<Rightarrow> parse_batch_ocsp_response text target (e # es)
      | [] \<Rightarrow>
          (responder_step text \<circ>
           time_step iso_time ''Produced At'' (\<lambda>t d. d\<lparr>sd_produced_at := Some t\<rparr>) text \<circ>
           time_step iso_time ''Next Update'' (\<lambda>t d. d\<lparr>sd_next_update := Some t\<rparr>) text \<circ>
           time_step iso_time ''This Update'' (\<lambda>t d. d\<lparr>sd_this_update := Some t\<rparr>) text \<circ>
           revocation_step iso_time text \<circ> cert_status_step text \<circ> serial_step text \<circ> response_status_step text) no_status)"

definition status_json :: "status_details \<Rightarrow> json" where
  "status_json d =
     JDict ([(''response_status'', JStr (sd_response_status d)), (''cert_status'', JStr (sd_cert_status d)),
       (''cert_serial'', text_json (sd_cert_serial d)), (''revocation_time'', text_json (sd_revocation_time d)),
       (''revocation_reason'', text_json (sd_revocation_reason d)), (''this_update'', text_json (sd_this_update d)),
       (''next_update'', text_json (sd_next_update d)), (''produced_at'', text_json (sd_produced_at d)),
       (''responder_id'', text_json (sd_responder_id d)), (''parsing_errors'', JList (map JStr (sd_parsing_errors d))),
       (''security_warnings'', JList (map JStr (sd_security_warnings d)))] @
      (case sd_batch d of
         None \<Rightarrow> []
       | Some es \<Rightarrow> [(''batch_response_info'', JDict [(''is_batch_response'', JBool True),
           (''total_certificates'', JInt (int (length es))), (''certificates'', JList (map batch_entry_json es))])]))"

section \<open>Federal PKI environments\<close>

record federal_info =
  fi_is_federal_pki :: bool
  fi_agency :: "string option"
  fi_ca_name :: "string option"
  fi_characteristics :: "string list"

definition no_federal :: federal_info where
  "no_federal = \<lparr>fi_is_federal_pki = False, fi_agency = None, fi_ca_name = None, fi_characteristics = []\<rparr>"

definition host_under :: "string \<Rightarrow> string \<Rightarrow> bool" where
  "host_under host domain \<longleftrightarrow> host = domain \<or> endswith host (''.'' @ domain)"

definition characteristic :: "string \<Rightarrow> federal_info \<Rightarrow> federal_info" where
  "characteristic m i = i\<lparr>fi_characteristics := fi_characteristics i @ [m]\<rparr>"

definition agency :: "string \<Rightarrow> string \<Rightarrow> federal_info \<Rightarrow> federal_info" where
  "agency a m i = characteristic m (i\<lparr>fi_is_federal_pki := True, fi_agency := Some a\<rparr>)"

definition if_so :: "bool \<Rightarrow> ('a \<Rightarrow> 'a) \<Rightarrow> 'a \<Rightarrow> 'a" where
  "if_so b f x = (if b then f x else x)"

text \<open>A URL that \<open>urlparse\<close> refuses leaves the initial value.\<close>

definition detect_federal_pki_environment :: "string \<Rightarrow> string \<Rightarrow> federal_info" where
  "detect_federal_pki_environment text ocsp_url =
     (case urlsplit ocsp_url of
        None \<Rightarrow> no_federal
      | Some u \<Rightarrow>
          (let host = str_lower (url_hostname u)
           in (if_so (contains text ''Certification Authorities'') (characteristic ''Federal CA hierarchy'') \<circ>
               if_so (contains text ''U.S. Government'') (characteristic ''U.S. Government certificate'') \<circ>
               if_so (contains text ''Department of Defense'') (agency ''DoD'' ''DoD certificate'') \<circ>
               if_so (contains text ''Department of Homeland Security'')
                 (\<lambda>i. agency ''DHS'' ''DHS CA4 certificate'' (i\<lparr>fi_ca_name := Some ''DHS CA4''\<rparr>)) \<circ>
               if_so (host_under host ''treasury.gov'') (agency ''Treasury'' ''Treasury OCSP responder'') \<circ>
               if_so (host_under host ''dod.mil'') (agency ''DoD'' ''DoD OCSP responder'') \<circ>
               if_so (host_under host ''dhs.gov'') (agency ''DHS'' ''DHS OCSP responder'')) no_federal))"

definition federal_json :: "federal_info \<Rightarrow> json" where
  "federal_json i =
     JDict [(''is_federal_pki'', JBool (fi_is_federal_pki i)), (''agency'', text_json (fi_agency i)),
       (''ca_name'', text_json (fi_ca_name i)), (''characteristics'', JList (map JStr (fi_characteristics i)))]"

section \<open>The validity interval\<close>

text \<open>The two times are kept as parsed: \<open>fromisoformat\<close> undoes \<open>isoformat\<close>.\<close>

record validity_results =
  vr_is_valid :: bool
  vr_this_update_valid :: bool
  vr_next_update_valid :: bool
  vr_interval_valid :: bool
  vr_this_update :: "int option"
  vr_next_update :: "int option"
  vr_age_hours :: "rat option"
  vr_time_until_expiry_hours :: "rat option"
  vr_security_warnings :: "string list"
  vr_compliance_issues :: "string list"

definition no_validity :: validity_results where
  "no_validity = \<lparr>vr_is_valid = False, vr_this_update_valid = False, vr_next_update_valid = False,
     vr_interval_valid = False, vr_this_update = None, vr_next_update = None, vr_age_hours = None,
     vr_time_until_expiry_hours = None, vr_security_warnings = [], vr_compliance_issues = []\<rparr>"

definition validity_warning :: "string \<Rightarrow> validity_results \<Rightarrow> validity_results" where
  "validity_warning m v = v\<lparr>vr_security_warnings := vr_security_warnings v @ [m]\<rparr>"

definition compliance_issue :: "string \<Rightarrow> validity_results \<Rightarrow> validity_results" where
  "compliance_issue m v = v\<lparr>vr_compliance_issues := vr_compliance_issues v @ [m]\<rparr>"

definition check_this_update :: "int \<Rightarrow> int \<Rightarrow> string \<Rightarrow> validity_results \<Rightarrow> validity_results" where
  "check_this_update now max_age_hours text v =
     (case time_field ''This Update:'' text of
        None \<Rightarrow> compliance_issue ''thisUpdate field not found'' v
      | Some (s, None) \<Rightarrow> compliance_issue (''Could not parse thisUpdate: '' @ gmt_time_error s) v
      | Some (_, Some t) \<Rightarrow>
          (let v = v\<lparr>vr_this_update := Some t\<rparr>; age_hours = hours (now - t)
           in if t > now then validity_warning ''thisUpdate is in the future - potential security issue'' v
              else if age_hours \<le> of_int max_age_hours
              then v\<lparr>vr_age_hours := Some age_hours, vr_this_update_valid := True\<rparr>
              else validity_warning (''thisUpdate is too old ('' @ one_decimal age_hours @ '' hours > '' @
                     show_int max_age_hours @ '' hours)'') (v\<lparr>vr_age_hours := Some age_hours\<rparr>)))"

definition check_next_update :: "int \<Rightarrow> string \<Rightarrow> validity_results \<Rightarrow> validity_results" where
  "check_next_update now text v =
     (case time_field ''Next Update:'' text of
        None \<Rightarrow> compliance_issue ''nextUpdate field not found'' v
      | Some (s, None) \<Rightarrow> compliance_issue (''Could not parse nextUpdate: '' @ gmt_time_error s) v
      | Some (_, Some t) \<Rightarrow>
          (let v = v\<lparr>vr_next_update := Some t\<rparr>
           in if t < now then validity_warning ''nextUpdate is in the past - response is stale'' v
              else v\<lparr>vr_next_update_valid := True, vr_time_until_expiry_hours := Some (hours (t - now))\<rparr>))"

definition check_interval :: "validity_results \<Rightarrow> validity_results" where
  "check_interval v =
     (case (vr_this_update v, vr_next_update v) of
        (Some this_update, Some next_update) \<Rightarrow>
          if next_update > this_update then v\<lparr>vr_interval_valid := True\<rparr>
          else compliance_issue ''nextUpdate is not after thisUpdate'' v
      | _ \<Rightarrow> v)"

definition overall_validity :: "validity_results \<Rightarrow> validity_results" where
  "overall_validity v =
     v\<lparr>vr_is_valid := vr_this_update_valid v \<and> vr_next_update_valid v \<and> vr_interval_valid v \<and> vr_compliance_issues v = []\<rparr>"

definition validate_response_validity_interval :: "int \<Rightarrow> int \<Rightarrow> string \<Rightarrow> validity_results" where
  "validate_response_validity_interval now max_age_hours text =
     overall_validity (check_interval (check_next_update now text (check_this_update now max_age_hours text no_validity)))"

text \<open>As a dict; the local time of the validation is a text of its own.\<close>

definition validity_json :: "(int \<Rightarrow> string) \<Rightarrow> int \<Rightarrow> string \<Rightarrow> int \<Rightarrow> validity_results \<Rightarrow> json" where
  "validity_json iso_time now local_now max_age_hours v =
     JDict [(''is_valid'', JBool (vr_is_valid v)), (''this_update_valid'', JBool (vr_this_update_valid v)),
       (''next_update_valid'', JBool (vr_next_update_valid v)), (''interval_valid'', JBool (vr_interval_valid v)),
       (''this_update'', json_opt (\<lambda>t. JStr (iso_time t)) (vr_this_update v)),
       (''next_update'', json_opt (\<lambda>t. JStr (iso_time t)) (vr_next_update v)),
       (''current_time'', JStr (iso_time now)), (''age_hours'', json_opt JFloat (vr_age_hours v)),
       (''time_until_expiry_hours'', json_opt JFloat (vr_time_until_expiry_hours v)),
       (''validation_details'', JDict [(''max_age_hours'', JInt max_age_hours),
          (''this_update_parsed'', JBool (vr_this_update v \<noteq> None)), (''next_update_parsed'', JBool (vr_next_update v \<noteq> None)),
          (''current_time_utc'', JStr (iso_time now)), (''validation_timestamp'', JStr local_now)]),
       (''security_warnings'', JList (map JStr (vr_security_warnings v))),
       (''compliance_issues'', JList (map JStr (vr_compliance_issues v)))]"

section \<open>Certificates in a response\<close>

definition BEGIN_MARK :: string where
  "BEGIN_MARK = ''-----BEGIN CERTIFICATE-----''"

definition END_MARK :: string where
  "END_MARK = ''-----END CERTIFICATE-----''"

text \<open>The lines of the certificate being read, if any.\<close>

fun pem_scan :: "string list option \<Rightarrow> string list \<Rightarrow> string list" where
  "pem_scan cur [] = []"
| "pem_scan cur (line # ls) =
     (if startswith (strip line) BEGIN_MARK then pem_scan (Some [line]) ls
      else if startswith (strip line) END_MARK
      then (case cur of Some c \<Rightarrow> join_with [CHR 0x0A] (c @ [line]) # pem_scan None ls | None \<Rightarrow> pem_scan None ls)
      else pem_scan (map_option (\<lambda>c. c @ [line]) cur) ls)"

definition extract_certificates_from_ocsp_response :: "string \<Rightarrow> string list" where
  "extract_certificates_from_ocsp_response text = pem_scan None (split_on (CHR 0x0A) text)"

text \<open>The certificate with the serial number looked for, otherwise the first. \<open>serial_of\<close> is the serial number of a
  PEM certificate, or the exception of the parser.\<close>

definition extract_ocsp_signer_certificate :: "(string \<Rightarrow> exn + nat) \<Rightarrow> string \<Rightarrow> string option \<Rightarrow> string option" where
  "extract_ocsp_signer_certificate serial_of text target =
     (case extract_certificates_from_ocsp_response text of
        [] \<Rightarrow> None
      | c # cs \<Rightarrow>
          (case (if truthy target
                 then find (\<lambda>p. case serial_of p of Inl _ \<Rightarrow> False | Inr n \<Rightarrow> show_nat n = the target) (c # cs) else None) of
             Some p \<Rightarrow> Some p
           | None \<Rightarrow> Some c))"

section \<open>What the analyses establish\<close>

lemma check_this_update_frame [simp]:
  "vr_next_update (check_this_update now m text v) = vr_next_update v"
  "vr_next_update_valid (check_this_update now m text v) = vr_next_update_valid v"
  "vr_interval_valid (check_this_update now m text v) = vr_interval_valid v"
  by (simp_all add: check_this_update_def validity_warning_def compliance_issue_def Let_def split: option.split prod.split)

lemma check_next_update_frame [simp]:
  "vr_this_update (check_next_update now text v) = vr_this_update v"
  "vr_this_update_valid (check_next_update now text v) = vr_this_update_valid v"
  "vr_interval_valid (check_next_update now text v) = vr_interval_valid v"
  by (simp_all add: check_next_update_def validity_warning_def compliance_issue_def Let_def split: option.split prod.split)

lemmas validity_defs = check_this_update_def check_next_update_def check_interval_def overall_validity_def
  validity_warning_def compliance_issue_def no_validity_def validate_response_validity_interval_def

text \<open>A parsed time field.\<close>

definition field_at :: "string \<Rightarrow> string \<Rightarrow> int \<Rightarrow> bool" where
  "field_at label text t \<longleftrightarrow> (\<exists>s. time_field label text = Some (s, Some t))"

lemma field_at_fun: "field_at label text t \<Longrightarrow> field_at label text u \<Longrightarrow> t = u"
  by (auto simp: field_at_def)

lemma this_update_part:
  assumes v_def: "v = check_this_update now m text no_validity"
  shows "vr_this_update v = Some t \<longleftrightarrow> field_at ''This Update:'' text t"
    and "vr_this_update_valid v \<longleftrightarrow> (\<exists>t. field_at ''This Update:'' text t \<and> t \<le> now \<and> now - t \<le> m * 3600000000)"
    and "vr_compliance_issues v = [] \<longleftrightarrow> (\<exists>t. field_at ''This Update:'' text t)"
  unfolding v_def
  by (cases "time_field ''This Update:'' text"; auto simp: validity_defs field_at_def Let_def hours_le_iff not_less
      split: option.splits if_splits)+

lemma next_update_part:
  assumes w_def: "w = check_next_update now text v"
    and "vr_next_update v = None" and "\<not> vr_next_update_valid v"
  shows "vr_next_update w = Some t \<longleftrightarrow> field_at ''Next Update:'' text t"
    and "vr_next_update_valid w \<longleftrightarrow> (\<exists>t. field_at ''Next Update:'' text t \<and> now \<le> t)"
    and "vr_compliance_issues w = [] \<longleftrightarrow> vr_compliance_issues v = [] \<and> (\<exists>t. field_at ''Next Update:'' text t)"
  using assms(2,3) unfolding w_def
  by (cases "time_field ''Next Update:'' text"; auto simp: validity_defs field_at_def Let_def not_less
      split: option.splits if_splits)+

text \<open>The interval is valid exactly when both times are there, the response is neither from the future nor too old
  nor expired, and the times are in order.\<close>

lemma is_valid_iff:
  "vr_is_valid (validate_response_validity_interval now m text) \<longleftrightarrow>
     (\<exists>t u. field_at ''This Update:'' text t \<and> field_at ''Next Update:'' text u \<and>
            t \<le> now \<and> now - t \<le> m * 3600000000 \<and> now \<le> u \<and> t < u)"
  and interval_valid_iff:
  "vr_interval_valid (validate_response_validity_interval now m text) \<longleftrightarrow>
     (\<exists>t u. field_at ''This Update:'' text t \<and> field_at ''Next Update:'' text u \<and> t < u)"
proof -
  define v where "v = check_this_update now m text no_validity"
  define w where "w = check_next_update now text v"
  have v0: "vr_next_update v = None" "\<not> vr_next_update_valid v" "\<not> vr_interval_valid v"
    by (simp_all add: v_def no_validity_def)
  note ths = this_update_part [OF v_def] and nxt = next_update_part [OF w_def v0(1,2)]
  have w: "vr_this_update w = vr_this_update v" "vr_this_update_valid w = vr_this_update_valid v" "\<not> vr_interval_valid w"
    using v0 by (simp_all add: w_def)
  have i: "vr_interval_valid (check_interval w) \<longleftrightarrow> (\<exists>t u. vr_this_update w = Some t \<and> vr_next_update w = Some u \<and> t < u)"
    using w(3) by (auto simp: check_interval_def compliance_issue_def split: option.splits)
  have k: "vr_this_update_valid (check_interval w) = vr_this_update_valid w" "vr_next_update_valid (check_interval w) = vr_next_update_valid w"
    "vr_interval_valid (check_interval w) \<Longrightarrow> vr_compliance_issues (check_interval w) = vr_compliance_issues w"
    using w(3) by (auto simp: check_interval_def compliance_issue_def split: option.splits)
  have e: "validate_response_validity_interval now m text = overall_validity (check_interval w)"
    by (simp add: validate_response_validity_interval_def w_def v_def)
  show "vr_interval_valid (validate_response_validity_interval now m text) \<longleftrightarrow>
     (\<exists>t u. field_at ''This Update:'' text t \<and> field_at ''Next Update:'' text u \<and> t < u)"
    by (simp add: e overall_validity_def i w ths(1) nxt(1))
  have "vr_is_valid (validate_response_validity_interval now m text) \<longleftrightarrow>
     vr_this_update_valid v \<and> vr_next_update_valid w \<and> vr_interval_valid (check_interval w) \<and> vr_compliance_issues w = []"
    using k w by (auto simp: e overall_validity_def)
  also have "\<dots> \<longleftrightarrow> (\<exists>t u. field_at ''This Update:'' text t \<and> field_at ''Next Update:'' text u \<and>
            t \<le> now \<and> now - t \<le> m * 3600000000 \<and> now \<le> u \<and> t < u)"
    by (auto simp: i w ths nxt dest: field_at_fun)
  finally show "vr_is_valid (validate_response_validity_interval now m text) \<longleftrightarrow>
     (\<exists>t u. field_at ''This Update:'' text t \<and> field_at ''Next Update:'' text u \<and>
            t \<le> now \<and> now - t \<le> m * 3600000000 \<and> now \<le> u \<and> t < u)" .
qed

text \<open>With both times parsed and in order, an interval without warnings is a valid one.\<close>

lemma valid_without_warnings:
  assumes "vr_interval_valid (validate_response_validity_interval now m text)"
  shows "vr_security_warnings (validate_response_validity_interval now m text) = [] \<longleftrightarrow>
     vr_is_valid (validate_response_validity_interval now m text)"
proof -
  obtain t u where f: "field_at ''This Update:'' text t" "field_at ''Next Update:'' text u" "t < u"
    using assms by (auto simp: interval_valid_iff)
  then obtain a b where "time_field ''This Update:'' text = Some (a, Some t)" "time_field ''Next Update:'' text = Some (b, Some u)"
    by (auto simp: field_at_def)
  then have "vr_security_warnings (validate_response_validity_interval now m text) = [] \<longleftrightarrow>
      t \<le> now \<and> now - t \<le> m * 3600000000 \<and> now \<le> u"
    using f(3) by (auto simp: validity_defs Let_def hours_le_iff not_less)
  also have "\<dots> \<longleftrightarrow> vr_is_valid (validate_response_validity_interval now m text)"
    using f by (auto simp: is_valid_iff dest: field_at_fun)
  finally show ?thesis .
qed

lemma federal_iff:
  assumes "urlsplit url = Some u"
  shows "fi_is_federal_pki (detect_federal_pki_environment text url) \<longleftrightarrow>
     (\<exists>d \<in> {''dhs.gov'', ''dod.mil'', ''treasury.gov''}. host_under (str_lower (url_hostname u)) d) \<or>
     contains text ''Department of Homeland Security'' \<or> contains text ''Department of Defense''"
proof -
  have keep: "fi_is_federal_pki (if_so b (characteristic m) i) = fi_is_federal_pki i"
    "fi_is_federal_pki (if_so b (agency a m) i) \<longleftrightarrow> b \<or> fi_is_federal_pki i"
    "fi_is_federal_pki (if_so b (\<lambda>i. agency a m (i\<lparr>fi_ca_name := c\<rparr>)) i) \<longleftrightarrow> b \<or> fi_is_federal_pki i" for b m i a c
    by (simp_all add: if_so_def characteristic_def agency_def)
  show ?thesis
    using assms by (simp add: detect_federal_pki_environment_def Let_def keep no_federal_def) blast
qed

text \<open>A host below a domain is the domain itself or ends in a label boundary and the domain.\<close>

lemma host_under_iff: "host_under host d \<longleftrightarrow> host = d \<or> (\<exists>h. host = h @ ''.'' @ d)"
  by (auto simp: host_under_def endswith_def suffix_def)

text \<open>A batch answers with the first entry of the certificate asked for, or with an error.\<close>

lemma batch_target_found:
  assumes "find_entry target es = Some e"
  shows "sd_cert_status (parse_batch_ocsp_response text target es) = be_cert_status e"
    and "sd_parsing_errors (parse_batch_ocsp_response text target es) = []"
    and "e \<in> set es" and "str_upper (be_serial_number e) = hex_serial (the target)"
  using assms
  by (auto simp: parse_batch_ocsp_response_def with_entry_def security_warning_def no_status_def find_entry_def Let_def
      find_Some_iff in_set_conv_nth split: if_splits)

lemma batch_target_missing:
  assumes "find_entry target es = None"
  shows "sd_cert_status (parse_batch_ocsp_response text target es) = ''UNKNOWN''"
    and "sd_parsing_errors (parse_batch_ocsp_response text target es) \<noteq> []"
  using assms by (simp_all add: parse_batch_ocsp_response_def security_warning_def parsing_error_def no_status_def)

text \<open>The certificates of a response: every complete block, between any other lines.\<close>

definition plain_line :: "string \<Rightarrow> bool" where
  "plain_line l \<longleftrightarrow> \<not> startswith (strip l) BEGIN_MARK \<and> \<not> startswith (strip l) END_MARK"

definition pem_block :: "string list \<Rightarrow> string list" where
  "pem_block body = BEGIN_MARK # body @ [END_MARK]"

lemma pem_scan_plain:
  "list_all plain_line ls \<Longrightarrow> pem_scan cur (ls @ ms) = pem_scan (map_option (\<lambda>c. c @ ls) cur) ms"
  by (induction ls arbitrary: cur) (auto simp: plain_line_def option.map_comp comp_def option.map_ident)

lemma marks: "startswith (strip BEGIN_MARK) BEGIN_MARK" "startswith (strip END_MARK) END_MARK"
  "\<not> startswith (strip END_MARK) BEGIN_MARK"
  by (simp_all add: BEGIN_MARK_def END_MARK_def strip_def lstrip_def rstrip_by_def is_space_def startswith_def)

lemma pem_scan_block:
  assumes "list_all plain_line body"
  shows "pem_scan cur (pem_block body @ ls) = join_with [CHR 0x0A] (pem_block body) # pem_scan None ls"
proof -
  have "pem_scan cur (pem_block body @ ls) = pem_scan (Some [BEGIN_MARK]) (body @ END_MARK # ls)"
    by (simp add: pem_block_def marks)
  also have "\<dots> = pem_scan (Some (BEGIN_MARK # body)) (END_MARK # ls)"
    by (simp add: pem_scan_plain [OF assms])
  also have "\<dots> = join_with [CHR 0x0A] (pem_block body) # pem_scan None ls"
    by (simp add: marks pem_block_def)
  finally show ?thesis .
qed

lemma pem_scan_blocks:
  "list_all (\<lambda>(noise, body). list_all plain_line noise \<and> list_all plain_line body) bs \<Longrightarrow> list_all plain_line rest \<Longrightarrow>
     pem_scan None (concat (map (\<lambda>(noise, body). noise @ pem_block body) bs) @ rest) =
     map (\<lambda>(_, body). join_with [CHR 0x0A] (pem_block body)) bs"
proof (induction bs)
  case Nil
  then show ?case using pem_scan_plain [of rest None "[]"] by simp
next
  case (Cons b bs)
  then show ?case by (cases b) (simp add: pem_scan_plain pem_scan_block)
qed

end
