(* ===== verification/Monitor_Openssl.thy ===== *)
theory Monitor_Openssl
  imports Monitor_Text
begin

text \<open>
  What \<open>OCSPMonitor\<close> concludes from runs of openssl: the serial number of a certificate, the checks of a response's
  signature, and the checks of a delegated responder's certificate. A run is a label for the place in the code,
  the arguments, the files the code wrote for it and the time limit. A POST is its place, URL, body and limit;
  temporary paths, random texts and the files a run writes are given by their place.
\<close>

record monitor_env =
  me_suite :: suite_env
  me_run :: "string \<Rightarrow> string list \<Rightarrow> (string \<times> string) list \<Rightarrow> int \<Rightarrow> proc"
  me_utcnow :: "string \<Rightarrow> int"
  me_local_now :: "string \<Rightarrow> string"
  me_iso_time :: "int \<Rightarrow> string"
  me_pem_serial :: "string \<Rightarrow> exn + nat"
  me_post :: "string \<Rightarrow> string \<Rightarrow> string \<Rightarrow> int \<Rightarrow> exn + int \<times> string"
  me_path :: "string \<Rightarrow> string"
  me_hex :: "string \<Rightarrow> string"
  me_written :: "string \<Rightarrow> string"

definition run_cmd :: "monitor_env \<Rightarrow> string \<Rightarrow> string list \<Rightarrow> (string \<times> string) list \<Rightarrow> int \<Rightarrow> exn + int \<times> string \<times> string" where
  "run_cmd env step cmd files limit = completed cmd limit (me_run env step cmd files limit)"

definition extract_certificate_serial :: "monitor_env \<Rightarrow> string \<Rightarrow> string option" where
  "extract_certificate_serial env cert_path =
     (case run_cmd env ''serial'' [''openssl'', ''x509'', ''-in'', cert_path, ''-noout'', ''-serial''] [] 10 of
        Inl e \<Rightarrow> None
      | Inr (code, out, err) \<Rightarrow>
          if code \<noteq> 0 then None
          else (case search False (Then (Lit ''serial='') (Group (Many1 hex_char))) out of
                  Some [Some v] \<Rightarrow> Some v | _ \<Rightarrow> None))"

section \<open>The signature of a response\<close>

definition ocsp_command :: "string \<Rightarrow> string \<Rightarrow> string \<Rightarrow> string list \<Rightarrow> string list" where
  "ocsp_command cert_path issuer_path ocsp_url args =
     [''openssl'', ''ocsp'', ''-issuer'', issuer_path, ''-cert'', cert_path, ''-url'', ocsp_url, ''-resp_text''] @ args"

definition REQUIRED_FIELDS :: "string list" where
  "REQUIRED_FIELDS = [''OCSP Response Data:'', ''Response Type:'', ''Version:'', ''Responder ID:'', ''Produced At:'', ''Responses:'']"

definition verify_ocsp_response_structure :: "monitor_env \<Rightarrow> string \<Rightarrow> string \<Rightarrow> string \<Rightarrow> bool" where
  "verify_ocsp_response_structure env cert_path issuer_path ocsp_url =
     (case run_cmd env ''structure'' (ocsp_command cert_path issuer_path ocsp_url [''-noverify'']) [] 30 of
        Inl e \<Rightarrow> False
      | Inr (code, out, err) \<Rightarrow> code = 0 \<and> list_all (contains out) REQUIRED_FIELDS)"

definition VERIFICATION_INDICATORS :: "string list" where
  "VERIFICATION_INDICATORS = [''Response verify OK'', ''verify OK'', ''Signature Algorithm:'', ''Signature Value:'']"

definition verify_ocsp_response_signature_explicit :: "monitor_env \<Rightarrow> string \<Rightarrow> string \<Rightarrow> string \<Rightarrow> bool" where
  "verify_ocsp_response_signature_explicit env cert_path issuer_path ocsp_url =
     (case run_cmd env ''explicit'' (ocsp_command cert_path issuer_path ocsp_url [''-verify_other'', issuer_path]) [] 30 of
        Inl e \<Rightarrow> False
      | Inr (code, out, err) \<Rightarrow> list_ex (\<lambda>i. contains out i \<or> contains err i) VERIFICATION_INDICATORS)"

definition CERT_STATUSES :: "string list" where
  "CERT_STATUSES = [''good'', ''revoked'', ''unknown'']"

definition verify_ocsp_chain_validation :: "monitor_env \<Rightarrow> string \<Rightarrow> string \<Rightarrow> string \<Rightarrow> bool" where
  "verify_ocsp_chain_validation env cert_path issuer_path ocsp_url =
     (case run_cmd env ''chain''
             (ocsp_command cert_path issuer_path ocsp_url [''-CAfile'', issuer_path, ''-verify_other'', issuer_path]) [] 30 of
        Inl e \<Rightarrow> False
      | Inr (code, out, err) \<Rightarrow> code = 0 \<and> list_ex (contains out) CERT_STATUSES)"

definition parsing_checks :: "string \<Rightarrow> bool list" where
  "parsing_checks text =
     [contains text ''Responder ID:'', contains text ''Produced At:'', list_ex (contains (str_lower text)) CERT_STATUSES,
      contains text ''Signature Algorithm:'', contains text ''OCSP Response Data:'']"

definition verify_ocsp_response_parsing :: "monitor_env \<Rightarrow> string \<Rightarrow> string \<Rightarrow> string \<Rightarrow> bool" where
  "verify_ocsp_response_parsing env cert_path issuer_path ocsp_url =
     (case run_cmd env ''parsing'' (ocsp_command cert_path issuer_path ocsp_url [''-noverify'']) [] 30 of
        Inl e \<Rightarrow> False
      | Inr (code, out, err) \<Rightarrow> code = 0 \<and> length (filter id (parsing_checks out)) \<ge> 4)"

definition verify_ocsp_signature :: "monitor_env \<Rightarrow> string \<Rightarrow> string \<Rightarrow> string \<Rightarrow> bool" where
  "verify_ocsp_signature env cert_path issuer_path ocsp_url =
     (if \<not> verify_ocsp_response_structure env cert_path issuer_path ocsp_url then False
      else if verify_ocsp_response_signature_explicit env cert_path issuer_path ocsp_url then True
      else if verify_ocsp_chain_validation env cert_path issuer_path ocsp_url then True
      else verify_ocsp_response_parsing env cert_path issuer_path ocsp_url)"

section \<open>The certificate of a delegated responder\<close>

record designated =
  dr_is_valid :: bool
  dr_has_ocsp_signing_eku :: bool
  dr_issued_by_same_ca :: bool
  dr_certificate_valid :: bool
  dr_has_appropriate_key_usage :: bool
  dr_details :: "(string \<times> json) list"
  dr_recommendations :: "string list"

definition no_designated :: designated where
  "no_designated = \<lparr>dr_is_valid = False, dr_has_ocsp_signing_eku = False, dr_issued_by_same_ca = False,
     dr_certificate_valid = False, dr_has_appropriate_key_usage = False, dr_details = [], dr_recommendations = []\<rparr>"

definition recommend :: "string \<Rightarrow> designated \<Rightarrow> designated" where
  "recommend m d = d\<lparr>dr_recommendations := dr_recommendations d @ [m]\<rparr>"

type_synonym run_output = "int \<times> string \<times> string"

definition shown :: "run_output \<Rightarrow> json" where
  "shown o1 = (case o1 of (code, out, err) \<Rightarrow> JStr (if code = 0 then out else err))"

definition eku_listed :: "string \<Rightarrow> bool" where
  "eku_listed out \<longleftrightarrow> contains out ''1.3.6.1.5.5.7.3.9'' \<or> contains out ''OCSPSigning'' \<or>
     contains out ''TLS Web Server Authentication, OCSP Signing''"

definition eku_step :: "run_output \<Rightarrow> designated \<Rightarrow> designated" where
  "eku_step res d =
     (case res of (code, out, err) \<Rightarrow>
        if code = 0
        then (if eku_listed out then d\<lparr>dr_has_ocsp_signing_eku := True\<rparr>
              else recommend ''CRITICAL: Responder certificate missing id-kp-OCSPSigning EKU'' d)
        else recommend ''Could not verify EKU extension'' d)"

definition without_label :: "string \<Rightarrow> string \<Rightarrow> string" where
  "without_label label out =
     (let s = strip out in if startswith s label then strip (drop (length label) s) else s)"

definition issuer_step :: "run_output \<Rightarrow> run_output \<Rightarrow> designated \<Rightarrow> designated" where
  "issuer_step res1 res2 d =
     (case (res1, res2) of ((code1, out1, _), (code2, out2, _)) \<Rightarrow>
        if code1 = 0 \<and> code2 = 0
        then (if without_label ''issuer='' out1 = without_label ''subject='' out2 then d\<lparr>dr_issued_by_same_ca := True\<rparr>
              else recommend ''Responder certificate not issued by the same CA'' d)
        else recommend ''Could not verify issuer relationship'' d)"

definition date_after :: "string \<Rightarrow> string \<Rightarrow> string option" where
  "date_after label out =
     (case search False (Then (Lit label) (Group (Many1 not_newline))) out of Some [Some v] \<Rightarrow> Some v | _ \<Rightarrow> None)"

definition validity_step :: "int \<Rightarrow> run_output \<Rightarrow> designated \<Rightarrow> designated" where
  "validity_step now res d =
     (case res of (code, out, err) \<Rightarrow>
        if code \<noteq> 0 then recommend ''Could not verify certificate validity'' d
        else case (date_after ''notBefore='' out, date_after ''notAfter='' out) of
               (Some a, Some b) \<Rightarrow>
                 (case (gmt_time a, gmt_time b) of
                    (Some not_before, Some not_after) \<Rightarrow>
                      if not_before \<le> now \<and> now \<le> not_after then d\<lparr>dr_certificate_valid := True\<rparr>
                      else recommend ''Responder certificate expired or not yet valid'' d
                  | _ \<Rightarrow> recommend ''Could not parse certificate validity dates'' d)
             | _ \<Rightarrow> recommend ''Could not parse certificate validity dates'' d)"

definition usage_step :: "run_output \<Rightarrow> designated \<Rightarrow> designated" where
  "usage_step res d =
     (case res of (code, out, err) \<Rightarrow>
        if code = 0
        then (if contains out ''Digital Signature'' \<or> contains (str_lower out) ''digitalSignature''
              then d\<lparr>dr_has_appropriate_key_usage := True\<rparr>
              else recommend ''Responder certificate missing Digital Signature key usage'' d)
        else recommend ''Could not verify Key Usage extension'' d)"

definition x509_command :: "string \<Rightarrow> string list \<Rightarrow> string list" where
  "x509_command path args = [''openssl'', ''x509'', ''-in'', path, ''-noout''] @ args"

definition designated_verdict :: "designated \<Rightarrow> designated" where
  "designated_verdict d =
     d\<lparr>dr_is_valid := dr_has_ocsp_signing_eku d \<and> dr_issued_by_same_ca d \<and> dr_certificate_valid d \<and> dr_has_appropriate_key_usage d\<rparr>"

definition designated_details :: "string list \<Rightarrow> run_output \<Rightarrow> run_output \<Rightarrow> run_output \<Rightarrow> run_output \<Rightarrow> run_output \<Rightarrow> string \<Rightarrow> (string \<times> json) list" where
  "designated_details eku_cmd eku issuer subject dates usage stamp =
     [(''eku_command'', JStr (join_with '' '' eku_cmd)), (''eku_output'', shown eku),
      (''issuer_verification'', JDict [(''responder_issuer'', shown issuer), (''ca_subject'', shown subject)]),
      (''validity_check'', shown dates), (''key_usage_check'', shown usage), (''validation_timestamp'', JStr stamp)]"

text \<open>An exception keeps what was found before it.\<close>

definition validation_failed :: "exn \<Rightarrow> designated \<Rightarrow> designated" where
  "validation_failed e d = recommend (''Validation failed: '' @ snd e) d"

definition validate_ca_designated_responder ::
  "monitor_env \<Rightarrow> (string \<times> string) list \<Rightarrow> string \<Rightarrow> string \<Rightarrow> designated" where
  "validate_ca_designated_responder env files responder_cert_path issuer_cert_path =
     (let run = (\<lambda>step path args. run_cmd env step (x509_command path args) files 15);
          d0 = no_designated
      in case run ''eku'' responder_cert_path [''-ext'', ''extendedKeyUsage''] of
           Inl e \<Rightarrow> validation_failed e d0
         | Inr eku \<Rightarrow>
     (let d1 = eku_step eku d0
      in case run ''issuer'' responder_cert_path [''-issuer''] of
           Inl e \<Rightarrow> validation_failed e d1
         | Inr issuer \<Rightarrow>
     (case run ''subject'' issuer_cert_path [''-subject''] of
           Inl e \<Rightarrow> validation_failed e d1
         | Inr subject \<Rightarrow>
     (let d2 = issuer_step issuer subject d1
      in case run ''dates'' responder_cert_path [''-dates''] of
           Inl e \<Rightarrow> validation_failed e d2
         | Inr dates \<Rightarrow>
     (let d3 = validity_step (me_utcnow env ''designated'') dates d2
      in case run ''usage'' responder_cert_path [''-ext'', ''keyUsage''] of
           Inl e \<Rightarrow> validation_failed e d3
         | Inr usage \<Rightarrow>
             (designated_verdict (usage_step usage d3))
             \<lparr>dr_details := designated_details (x509_command responder_cert_path [''-ext'', ''extendedKeyUsage''])
                eku issuer subject dates usage (me_local_now env ''designated'')\<rparr>)))))"

definition designated_json :: "designated \<Rightarrow> json" where
  "designated_json d =
     JDict [(''is_valid_designated_responder'', JBool (dr_is_valid d)), (''has_ocsp_signing_eku'', JBool (dr_has_ocsp_signing_eku d)),
       (''issued_by_same_ca'', JBool (dr_issued_by_same_ca d)), (''certificate_valid'', JBool (dr_certificate_valid d)),
       (''has_appropriate_key_usage'', JBool (dr_has_appropriate_key_usage d)),
       (''validation_details'', JDict (dr_details d)), (''recommendations'', JList (map JStr (dr_recommendations d)))]"

section \<open>What the checks establish\<close>

lemma verify_ocsp_signature_iff:
  "verify_ocsp_signature env c i u \<longleftrightarrow>
     verify_ocsp_response_structure env c i u \<and>
     (verify_ocsp_response_signature_explicit env c i u \<or> verify_ocsp_chain_validation env c i u \<or>
      verify_ocsp_response_parsing env c i u)"
  by (simp add: verify_ocsp_signature_def)

text \<open>openssl prints the signature algorithm of every response, whether or not it could verify the signature: this
  alone is taken for a verification.\<close>

lemma printed_algorithm_suffices:
  assumes "verify_ocsp_response_structure env c i u"
    and "me_run env ''explicit'' (ocsp_command c i u [''-verify_other'', i]) [] 30 = Exited code out err"
    and "contains out ''Signature Algorithm:''"
  shows "verify_ocsp_signature env c i u"
  using assms
  by (simp add: verify_ocsp_signature_def verify_ocsp_response_signature_explicit_def run_cmd_def completed_def VERIFICATION_INDICATORS_def)

definition all_checks :: "int \<Rightarrow> run_output \<Rightarrow> run_output \<Rightarrow> run_output \<Rightarrow> run_output \<Rightarrow> run_output \<Rightarrow> bool" where
  "all_checks now eku issuer subject dates usage \<longleftrightarrow>
     fst eku = 0 \<and> eku_listed (fst (snd eku)) \<and>
     fst issuer = 0 \<and> fst subject = 0 \<and>
     without_label ''issuer='' (fst (snd issuer)) = without_label ''subject='' (fst (snd subject)) \<and>
     fst dates = 0 \<and>
     (\<exists>a b s t. date_after ''notBefore='' (fst (snd dates)) = Some a \<and> date_after ''notAfter='' (fst (snd dates)) = Some b \<and>
        gmt_time a = Some s \<and> gmt_time b = Some t \<and> s \<le> now \<and> now \<le> t) \<and>
     fst usage = 0 \<and>
     (contains (fst (snd usage)) ''Digital Signature'' \<or> contains (str_lower (fst (snd usage))) ''digitalSignature'')"

lemma eku_step_sets: "dr_has_ocsp_signing_eku (eku_step r d) \<longleftrightarrow> dr_has_ocsp_signing_eku d \<or> fst r = 0 \<and> eku_listed (fst (snd r))"
  and issuer_step_sets: "dr_issued_by_same_ca (issuer_step r q d) \<longleftrightarrow> dr_issued_by_same_ca d \<or>
     fst r = 0 \<and> fst q = 0 \<and> without_label ''issuer='' (fst (snd r)) = without_label ''subject='' (fst (snd q))"
  and usage_step_sets: "dr_has_appropriate_key_usage (usage_step r d) \<longleftrightarrow> dr_has_appropriate_key_usage d \<or> fst r = 0 \<and>
     (contains (fst (snd r)) ''Digital Signature'' \<or> contains (str_lower (fst (snd r))) ''digitalSignature'')"
  by (auto simp: eku_step_def issuer_step_def usage_step_def recommend_def split: prod.split)

lemma validity_step_sets: "dr_certificate_valid (validity_step now r d) \<longleftrightarrow> dr_certificate_valid d \<or> fst r = 0 \<and>
     (\<exists>a b s t. date_after ''notBefore='' (fst (snd r)) = Some a \<and> date_after ''notAfter='' (fst (snd r)) = Some b \<and>
        gmt_time a = Some s \<and> gmt_time b = Some t \<and> s \<le> now \<and> now \<le> t)"
  by (auto simp: validity_step_def recommend_def split: prod.split option.split)

lemma step_frames [simp]:
  "dr_issued_by_same_ca (eku_step r d) = dr_issued_by_same_ca d" "dr_certificate_valid (eku_step r d) = dr_certificate_valid d"
  "dr_has_appropriate_key_usage (eku_step r d) = dr_has_appropriate_key_usage d"
  "dr_has_ocsp_signing_eku (issuer_step r q d) = dr_has_ocsp_signing_eku d" "dr_certificate_valid (issuer_step r q d) = dr_certificate_valid d"
  "dr_has_appropriate_key_usage (issuer_step r q d) = dr_has_appropriate_key_usage d"
  "dr_has_ocsp_signing_eku (validity_step now r d) = dr_has_ocsp_signing_eku d" "dr_issued_by_same_ca (validity_step now r d) = dr_issued_by_same_ca d"
  "dr_has_appropriate_key_usage (validity_step now r d) = dr_has_appropriate_key_usage d"
  "dr_has_ocsp_signing_eku (usage_step r d) = dr_has_ocsp_signing_eku d" "dr_issued_by_same_ca (usage_step r d) = dr_issued_by_same_ca d"
  "dr_certificate_valid (usage_step r d) = dr_certificate_valid d"
  by (auto simp: eku_step_def issuer_step_def validity_step_def usage_step_def recommend_def split: prod.split option.split)

text \<open>A responder is found to be designated exactly when the five outputs pass their checks; any run that fails to
  complete refuses it.\<close>

lemma designated_iff:
  "dr_is_valid (validate_ca_designated_responder env files rc ic) \<longleftrightarrow>
     (\<exists>eku issuer subject dates usage.
        run_cmd env ''eku'' (x509_command rc [''-ext'', ''extendedKeyUsage'']) files 15 = Inr eku \<and>
        run_cmd env ''issuer'' (x509_command rc [''-issuer'']) files 15 = Inr issuer \<and>
        run_cmd env ''subject'' (x509_command ic [''-subject'']) files 15 = Inr subject \<and>
        run_cmd env ''dates'' (x509_command rc [''-dates'']) files 15 = Inr dates \<and>
        run_cmd env ''usage'' (x509_command rc [''-ext'', ''keyUsage'']) files 15 = Inr usage \<and>
        all_checks (me_utcnow env ''designated'') eku issuer subject dates usage)"
proof -
  let ?now = "me_utcnow env ''designated''"
  have keep: "dr_is_valid (validation_failed e d) = dr_is_valid d" "dr_is_valid (eku_step r d) = dr_is_valid d"
    "dr_is_valid (issuer_step r q d) = dr_is_valid d" "dr_is_valid (validity_step n r d) = dr_is_valid d" for e d r q n
    by (auto simp: validation_failed_def eku_step_def issuer_step_def validity_step_def recommend_def split: prod.split option.split)
  have none: "\<not> dr_is_valid no_designated" "\<not> dr_has_ocsp_signing_eku no_designated" "\<not> dr_issued_by_same_ca no_designated"
    "\<not> dr_certificate_valid no_designated" "\<not> dr_has_appropriate_key_usage no_designated"
    by (simp_all add: no_designated_def)
  have verdict: "dr_is_valid (designated_verdict (usage_step w (validity_step ?now v (issuer_step s t (eku_step u no_designated))))\<lparr>dr_details := x\<rparr>)
      \<longleftrightarrow> all_checks ?now u s t v w" for u s t v w x
    by (simp add: designated_verdict_def eku_step_sets issuer_step_sets validity_step_sets usage_step_sets none all_checks_def conj_assoc)
  show ?thesis
    unfolding validate_ca_designated_responder_def Let_def
    by (simp only: verdict keep none split: sum.split) auto
qed

end
