(* ===== verification/Federal_Suite.thy ===== *)
theory Federal_Suite
  imports Monitor_Openssl Analysis
begin

text \<open>
  The federal PKI suite (\<open>ocsp_tester/tests_federal.py\<close>): five tests over the monitor's analyses. The response text
  is fetched once and shared. Temporary files are contents passed to the runs that read them.
\<close>

record federal_env =
  fe_monitor :: monitor_env
  fe_path_exists :: "string \<Rightarrow> bool"
  fe_signer_path :: string

definition FETCH_TESTS :: "string list" where
  "FETCH_TESTS = [''Federal PKI environment detection'', ''Batch OCSP response handling (DHS CA4 style)'',
     ''Delegated responder EKU (id-kp-OCSPSigning)'', ''Response validity interval (freshness)'']"

definition fetch_ocsp_response_text :: "federal_env \<Rightarrow> string \<Rightarrow> string \<Rightarrow> string \<Rightarrow> exn + string" where
  "fetch_ocsp_response_text env cert_path issuer_path ocsp_url =
     (case run_cmd (fe_monitor env) ''fetch'' (ocsp_command cert_path issuer_path ocsp_url [''-noverify'']) [] 30 of
        Inl e \<Rightarrow> Inl e
      | Inr (code, out, err) \<Rightarrow> Inr (out @ err))"

text \<open>The text and the error of the shared fetch.\<close>

definition shared_response :: "federal_env \<Rightarrow> string \<Rightarrow> string \<Rightarrow> string \<Rightarrow> string \<times> string option" where
  "shared_response env cert_path issuer_path ocsp_url =
     (if any_selected (se_selection (me_suite (fe_monitor env))) FETCH_TESTS
      then (case fetch_ocsp_response_text env cert_path issuer_path ocsp_url of
              Inl e \<Rightarrow> ([], Some (snd e)) | Inr text \<Rightarrow> (text, None))
      else ([], None))"

definition detection_test :: "string \<Rightarrow> string option \<Rightarrow> string \<Rightarrow> test_case \<Rightarrow> test_case" where
  "detection_test text fetch_error ocsp_url r =
     (let i = detect_federal_pki_environment text ocsp_url
      in add_details [(''federal_pki'', federal_json i), (''fetch_error'', text_json fetch_error)]
           (set_verdict PASS
              (if fi_is_federal_pki i
               then ''Federal PKI environment detected: agency='' @ none_text (fi_agency i) @
                    (if truthy (fi_ca_name i) then '', CA='' @ the (fi_ca_name i) else [])
               else ''No Federal PKI environment indicators detected'') r))"

definition target_serial :: "federal_env \<Rightarrow> string \<Rightarrow> string option" where
  "target_serial env cert_path =
     (case run_cmd (fe_monitor env) ''target'' (x509_command cert_path [''-serial'']) [] 15 of
        Inl e \<Rightarrow> None
      | Inr (code, out, err) \<Rightarrow> if code = 0 \<and> contains out ''='' then Some (after_first ''='' (strip out)) else None)"

definition batch_test :: "federal_env \<Rightarrow> string \<Rightarrow> string \<Rightarrow> test_case \<Rightarrow> test_case" where
  "batch_test env cert_path text r =
     (let batch = detect_batch_ocsp_response text
      in if batch = []
         then set_verdict SKIP ''Responder returned a single-certificate response (no batch handling required)'' r
         else (let target = target_serial env cert_path;
                   r = set_verdict PASS (''Batch response detected with '' @ show_nat (length batch) @ '' certificate entries'') r;
                   r = (if truthy target
                        then add_details [(''target_serial'', text_json target),
                               (''matched_entry'', status_json (parse_batch_ocsp_response text target batch))] r
                        else r)
               in add_details [(''batch_entries'', JList (map batch_entry_json batch))] r))"

definition signature_test :: "federal_env \<Rightarrow> string \<Rightarrow> string \<Rightarrow> string \<Rightarrow> test_case \<Rightarrow> test_case" where
  "signature_test env cert_path issuer_path ocsp_url r =
     (let verified = verify_ocsp_signature (fe_monitor env) cert_path issuer_path ocsp_url
      in add_details [(''verified'', JBool verified),
            (''rfc_refs'', JList [JStr (''RFC 6960 '' @ section_sign @ ''3.2 (response signature acceptance requirements)'')])]
           (set_verdict (if verified then PASS else FAIL)
              (if verified then ''OCSP response signature verified against trust chain''
               else ''OCSP response signature could not be verified against the provided trust material'') r))"

text \<open>The responder's certificate: the file given, or the one extracted from the response, written to a temporary
  file unless it happens to be a path.\<close>

definition signer_file :: "federal_env \<Rightarrow> string option \<Rightarrow> string \<Rightarrow> (string \<times> (string \<times> string) list) option" where
  "signer_file env responder_cert_path text =
     (if truthy responder_cert_path then Some (the responder_cert_path, [])
      else if text = [] then None
      else (case extract_ocsp_signer_certificate (me_pem_serial (fe_monitor env)) text None of
              None \<Rightarrow> None
            | Some extracted \<Rightarrow>
                if fe_path_exists env extracted then Some (extracted, [])
                else if contains extracted ''BEGIN CERTIFICATE'' then Some (fe_signer_path env, [(fe_signer_path env, extracted)])
                else None))"

definition eku_test :: "federal_env \<Rightarrow> string option \<Rightarrow> string \<Rightarrow> string \<Rightarrow> test_case \<Rightarrow> test_case" where
  "eku_test env responder_cert_path issuer_path text r =
     (case signer_file env responder_cert_path text of
        None \<Rightarrow> set_verdict SKIP
                 ''No delegated responder certificate available (response may be CA-signed rather than delegated)'' r
      | Some (signer_path, files) \<Rightarrow>
          (let v = validate_ca_designated_responder (fe_monitor env) files signer_path issuer_path
           in add_details [(''validation'', designated_json v),
                 (''rfc_refs'', JList [JStr (''RFC 6960 '' @ section_sign @ ''4.2.2.2 (Authorized Responders)'')])]
                (if dr_is_valid v
                 then set_verdict PASS ''Delegated responder certificate satisfies RFC 6960 designated responder requirements'' r
                 else if dr_has_ocsp_signing_eku v
                 then set_verdict WARN ''Responder has id-kp-OCSPSigning EKU but other designated-responder checks failed'' r
                 else set_verdict FAIL (''Delegated responder certificate missing id-kp-OCSPSigning EKU (RFC 6960 '' @
                        section_sign @ ''4.2.2.2)'') r)))"

definition freshness_test :: "federal_env \<Rightarrow> int \<Rightarrow> string \<Rightarrow> test_case \<Rightarrow> test_case" where
  "freshness_test env max_age_hours text r =
     (let menv = fe_monitor env;
          now = me_utcnow menv ''validity'';
          v = validate_response_validity_interval now max_age_hours text;
          warnings = vr_security_warnings v
      in add_details [(''interval'', validity_json (me_iso_time menv) now (me_local_now menv ''validity'') max_age_hours v),
            (''max_age_hours'', JInt max_age_hours),
            (''rfc_refs'', JList [JStr (''RFC 6960 '' @ section_sign @ ''4.2.2.1 (Time)''),
               JStr (''RFC 5019 '' @ section_sign @ ''4 (small-profile freshness)'')])]
           (if vr_interval_valid v \<and> warnings = []
            then set_verdict PASS ''thisUpdate/nextUpdate interval is present, plausible and current'' r
            else if vr_interval_valid v
            then set_verdict WARN (''Interval valid but with warnings: '' @ join_with ''; '' (take 3 warnings)) r
            else set_verdict FAIL ''Response validity interval failed RFC 6960 freshness checks'' r))"

definition run_federal_tests ::
  "federal_env \<Rightarrow> string \<Rightarrow> string \<Rightarrow> string option \<Rightarrow> string option \<Rightarrow> int \<Rightarrow> test_case list" where
  "run_federal_tests env ocsp_url issuer_path cert_path responder_cert_path max_age_hours =
     (let sample = (if truthy cert_path then the cert_path else issuer_path);
          (text, fetch_error) = shared_response env sample issuer_path ocsp_url;
          run = run_test (me_suite (fe_monitor env)) ''Federal PKI''
      in run ''Federal PKI environment detection'' ERROR (detection_test text fetch_error ocsp_url) @
         run ''Batch OCSP response handling (DHS CA4 style)'' ERROR (batch_test env sample text) @
         run ''OCSP signer signature verification (trust chain)'' ERROR (signature_test env sample issuer_path ocsp_url) @
         run ''Delegated responder EKU (id-kp-OCSPSigning)'' ERROR (eku_test env responder_cert_path issuer_path text) @
         run ''Response validity interval (freshness)'' ERROR (freshness_test env max_age_hours text))"

section \<open>What the suite reports\<close>

lemma same_federal_bodies [simp]:
  "same_case (detection_test text fe u r) r" "same_case (batch_test env c text r) r" "same_case (signature_test env c i u r) r"
  "same_case (eku_test env rc i text r) r" "same_case (freshness_test env m text r) r"
  by (simp_all add: detection_test_def batch_test_def signature_test_def eku_test_def freshness_test_def Let_def
      split: option.split prod.split)

lemma federal_reports:
  "reports (me_suite (fe_monitor env)) ''Federal PKI'' (names_of ''federal'')
     (run_federal_tests env url issuer_path cert_path responder max_age)"
proof -
  have names: "names_of ''federal'' = [''Federal PKI environment detection'', ''Batch OCSP response handling (DHS CA4 style)'',
      ''OCSP signer signature verification (trust chain)'', ''Delegated responder EKU (id-kp-OCSPSigning)'',
      ''Response validity interval (freshness)'']"
    by (simp add: names_of_def catalog_index_def TEST_CATALOG_def catalog_entry_def)
  show ?thesis
    unfolding names run_federal_tests_def
    by (cases "shared_response env (if truthy cert_path then the cert_path else issuer_path) issuer_path url")
      (simp only: Let_def prod.case, intro reports_Cons reports_body same_federal_bodies)
qed

text \<open>The freshness test passes exactly for a response that is inside its interval and no older than allowed.\<close>

lemma freshness_pass_iff:
  "tc_status (freshness_test env m text r) = PASS \<longleftrightarrow>
     vr_is_valid (validate_response_validity_interval (me_utcnow (fe_monitor env) ''validity'') m text)"
  using valid_without_warnings [of "me_utcnow (fe_monitor env) ''validity''" m "text"]
  by (auto simp: freshness_test_def Let_def is_valid_iff interval_valid_iff)

text \<open>A response that has expired, or is older than allowed, does not fail the test: it only warns.\<close>

lemma freshness_fail_iff:
  "tc_status (freshness_test env m text r) = FAIL \<longleftrightarrow>
     \<not> (\<exists>t u. field_at ''This Update:'' text t \<and> field_at ''Next Update:'' text u \<and> t < u)"
  by (simp add: freshness_test_def Let_def interval_valid_iff)

lemma signature_pass_iff:
  "tc_status (signature_test env c i u r) = PASS \<longleftrightarrow> verify_ocsp_signature (fe_monitor env) c i u"
  by (simp add: signature_test_def Let_def)

lemma eku_pass_iff:
  "tc_status (eku_test env rc i text r) = PASS \<longleftrightarrow>
     (\<exists>path files. signer_file env rc text = Some (path, files) \<and>
        dr_is_valid (validate_ca_designated_responder (fe_monitor env) files path i))"
  by (auto simp: eku_test_def Let_def split: option.split)

end
