(* ===== verification/Monitor_Probes.thy ===== *)
theory Monitor_Probes
  imports Monitor_Openssl
begin

text \<open>
  The probes of \<open>OCSPMonitor\<close> behind the security suite (\<open>monitor.py\<close>): error signalling, unauthorized queries,
  signed requests, nonces and signature algorithms. Each probe makes its requests, reads the outputs and returns
  its findings; an exception leaves what was found before it. Writing a temporary file succeeds.
\<close>

section \<open>Requests with certificates made up for a test\<close>

definition pem_text :: "string list \<Rightarrow> string" where
  "pem_text body = join_with [CHR 0x0A] ([BEGIN_MARK] @ body @ [END_MARK])"

definition invalid_test_certificate :: "monitor_env \<Rightarrow> string \<Rightarrow> string" where
  "invalid_test_certificate env step = pem_text [''INVALID_CERTIFICATE_DATA'']"

definition invalid_issuer_certificate :: "monitor_env \<Rightarrow> string \<Rightarrow> string" where
  "invalid_issuer_certificate env step = pem_text [''INVALID_ISSUER_CERTIFICATE_DATA'']"

definition different_ca_certificate :: "monitor_env \<Rightarrow> string \<Rightarrow> string" where
  "different_ca_certificate env step = pem_text
     [''MIICATCCAWoCAQAwDQYJKoZIhvcNAQELBQAwXjELMAkGA1UEBhMCVVMxEjAQBgNV'',
      ''BAoTCURpZmZlcmVudCBDQTEUMBIGA1UECwwLVGVzdCBDQSBPVTEZMBcGA1UE'',
      ''AwwQVGVzdCBDZXJ0aWZpY2F0ZTCCASIwDQYJKoZIhvcNAQEBBQADggEPADCC'',
      ''AQoCggEBAL'' @ take 20 (me_hex env step) @ ''...'']"

definition nonexistent_certificate :: "monitor_env \<Rightarrow> string \<Rightarrow> string" where
  "nonexistent_certificate env step = pem_text
     [''MIICATCCAWoCAQAwDQYJKoZIhvcNAQELBQAwXjELMAkGA1UEBhMCVVMxEjAQBgNV'',
      ''BAoTCVRlc3QgQ0EgQ0ExEjAQBgNVBAsTCVRlc3QgT1UxGTAXBgNVBAMTEFRlc3Qg'',
      ''Q0EgQ2VydGlmaWNhdGUwHhcNMjMwMTAxMDAwMDAwWhcNMjQwMTAxMDAwMDAwWjBf'',
      ''MQswCQYDVQQGEwJVUzESMBAGA1UECgwJVGVzdCBDQTEUMBIGA1UECwwLVGVzdCBP'',
      ''VTEZMBcGA1UEAwwQVGVzdCBDZXJ0aWZpY2F0ZTCCASIwDQYJKoZIhvcNAQEBBQAD'',
      ''ggEPADCCAQoCggEBAL'' @ take 20 (me_hex env step) @ ''...'']"

definition run_details :: "run_output \<Rightarrow> (string \<times> json) list" where
  "run_details res = (case res of (code, out, err) \<Rightarrow>
     [(''return_code'', JInt code), (''stdout'', JStr out), (''stderr'', JStr err)])"

text \<open>The request of a probe: the certificate, if made up, is the file of the run.\<close>

definition probe_run :: "monitor_env \<Rightarrow> string \<Rightarrow> string \<Rightarrow> string \<Rightarrow> string \<Rightarrow> (string \<times> string) list \<Rightarrow> string list \<Rightarrow> exn + run_output" where
  "probe_run env step issuer_path cert_path ocsp_url files extra =
     run_cmd env step (ocsp_command cert_path issuer_path ocsp_url (''-noverify'' # extra)) files 30"

section \<open>Operational errors\<close>

record error_probe =
  ep_proper :: bool
  ep_error_type :: "string option"
  ep_http_status :: "string option"
  ep_details :: "(string \<times> json) list"
  ep_parse_error :: bool

definition no_error_probe :: error_probe where
  "no_error_probe = \<lparr>ep_proper = False, ep_error_type = None, ep_http_status = None, ep_details = [], ep_parse_error = False\<rparr>"

definition signalled :: "string \<Rightarrow> error_probe \<Rightarrow> error_probe" where
  "signalled kind p = p\<lparr>ep_proper := True, ep_error_type := Some kind\<rparr>"

definition MALFORMED_DATA :: string where
  "MALFORMED_DATA = ''MALFORMED_OCSP_REQUEST_DATA''"

text \<open>\<open>_post_ocsp_via_requests\<close> returns instead of raising, so the fallback of the code is never taken.\<close>

definition malformed_request_probe :: "monitor_env \<Rightarrow> string \<Rightarrow> error_probe" where
  "malformed_request_probe env ocsp_url =
     (case me_post env ''malformed'' ocsp_url MALFORMED_DATA 30 of
        Inl e \<Rightarrow> signalled ''CURL_ERROR'' no_error_probe
      | Inr (status, content) \<Rightarrow>
          (let code = show_int status; p = no_error_probe\<lparr>ep_http_status := Some code\<rparr>
           in if code \<in> {''400'', ''500''} then signalled ''HTTP_ERROR'' p else p))"

definition invalid_certificate_probe :: "monitor_env \<Rightarrow> string \<Rightarrow> string \<Rightarrow> error_probe" where
  "invalid_certificate_probe env issuer_path ocsp_url =
     (let path = me_path env ''invalid_certificate''
      in case probe_run env ''invalid_certificate'' issuer_path path ocsp_url
                [(path, invalid_test_certificate env ''invalid_certificate'')] [] of
           Inl e \<Rightarrow> no_error_probe
         | Inr (code, out, err) \<Rightarrow>
             (if contains err ''Could not find certificate'' \<or> code \<noteq> 0
              then (signalled ''OPENSSL_PARSE_ERROR'' no_error_probe)\<lparr>ep_parse_error := True\<rparr>
              else if contains out ''malformedRequest'' \<or> contains out ''internalError''
              then signalled ''OCSP_ERROR'' no_error_probe
              else no_error_probe)\<lparr>ep_details := run_details (code, out, err)\<rparr>)"

definition unauthorized_request_probe :: "monitor_env \<Rightarrow> string \<Rightarrow> string \<Rightarrow> error_probe" where
  "unauthorized_request_probe env issuer_path ocsp_url =
     (let path = me_path env ''unauthorized_request''
      in case probe_run env ''unauthorized_request'' issuer_path path ocsp_url
                [(path, different_ca_certificate env ''unauthorized_request'')] [] of
           Inl e \<Rightarrow> no_error_probe
         | Inr (code, out, err) \<Rightarrow>
             (if contains err ''Could not find certificate'' \<or> code \<noteq> 0
              then signalled ''OPENSSL_PARSE_ERROR'' no_error_probe
              else if contains (str_lower out) ''unauthorized'' \<or> contains out ''malformedRequest''
              then signalled ''OCSP_UNAUTHORIZED'' no_error_probe
              else no_error_probe)\<lparr>ep_details := run_details (code, out, err)\<rparr>)"

text \<open>Ten requests in a row; the first that does not complete ends the probe without a result.\<close>

fun outputs_of :: "(nat \<Rightarrow> exn + run_output) \<Rightarrow> nat list \<Rightarrow> exn + run_output list" where
  "outputs_of run [] = Inr []"
| "outputs_of run (i # is) =
     (case run i of
        Inl e \<Rightarrow> Inl e
      | Inr res \<Rightarrow> (case outputs_of run is of Inl e \<Rightarrow> Inl e | Inr rest \<Rightarrow> Inr (res # rest)))"

definition overload_step :: "nat \<Rightarrow> string" where
  "overload_step i = ''overload_'' @ show_nat i"

definition server_overload_probe :: "monitor_env \<Rightarrow> string \<Rightarrow> string \<Rightarrow> bool" where
  "server_overload_probe env issuer_path ocsp_url =
     (case outputs_of (\<lambda>i. run_cmd env (overload_step i) (ocsp_command issuer_path issuer_path ocsp_url [''-noverify'']) [] 10)
             [0..<10] of
        Inl e \<Rightarrow> False
      | Inr results \<Rightarrow> length (filter (\<lambda>(code, out, err). contains out ''tryLater'') results) > 0)"

record operational_results =
  or_malformed :: error_probe
  or_invalid :: error_probe
  or_unauthorized :: error_probe
  or_try_later :: bool
  or_recommendations :: "string list"

definition test_operational_error_signaling :: "monitor_env \<Rightarrow> string \<Rightarrow> string \<Rightarrow> operational_results" where
  "test_operational_error_signaling env issuer_path ocsp_url =
     (let malformed = malformed_request_probe env ocsp_url;
          invalid = invalid_certificate_probe env issuer_path ocsp_url;
          unauthorized = unauthorized_request_probe env issuer_path ocsp_url;
          proper = ep_proper malformed \<or> ep_proper invalid \<or> ep_proper unauthorized
      in \<lparr>or_malformed = malformed, or_invalid = invalid, or_unauthorized = unauthorized,
          or_try_later = server_overload_probe env issuer_path ocsp_url,
          or_recommendations = (if proper then [] else [''Server error handling could be improved''])\<rparr>)"

definition malformed_json :: "error_probe \<Rightarrow> json" where
  "malformed_json p = JDict [(''proper_error_response'', JBool (ep_proper p)), (''error_type_detected'', text_json (ep_error_type p)),
     (''http_status_code'', text_json (ep_http_status p)), (''ocsp_error_code'', JNull)]"

definition error_json :: "error_probe \<Rightarrow> json" where
  "error_json p = JDict ([(''proper_error_response'', JBool (ep_proper p)), (''error_type_detected'', text_json (ep_error_type p)),
     (''response_details'', JDict (ep_details p))] @
     (if ep_parse_error p then [(''http_status_code'', JNull), (''ocsp_error_code'', JNull)] else []))"

definition overload_json :: "bool \<Rightarrow> json" where
  "overload_json b = JDict [(''try_later_detected'', JBool b), (''overload_response'', JBool b), (''response_details'', JDict [])]"

definition error_validation_json :: "operational_results \<Rightarrow> json" where
  "error_validation_json o1 = JDict [(''malformed_request'', malformed_json (or_malformed o1)),
     (''invalid_certificate'', error_json (or_invalid o1)), (''unauthorized_request'', error_json (or_unauthorized o1)),
     (''server_overload'', overload_json (or_try_later o1))]"

section \<open>Unauthorized queries\<close>

record query_probe =
  qp_unauthorized :: bool
  qp_details :: "(string \<times> json) list"

definition no_query_probe :: query_probe where
  "no_query_probe = \<lparr>qp_unauthorized = False, qp_details = []\<rparr>"

definition query_result :: "(int \<Rightarrow> string \<Rightarrow> string \<Rightarrow> bool) \<Rightarrow> exn + run_output \<Rightarrow> query_probe" where
  "query_result refused res =
     (case res of
        Inl e \<Rightarrow> no_query_probe
      | Inr (code, out, err) \<Rightarrow> \<lparr>qp_unauthorized = refused code out err, qp_details = run_details (code, out, err)\<rparr>)"

definition different_ca_query :: "monitor_env \<Rightarrow> string \<Rightarrow> string \<Rightarrow> query_probe" where
  "different_ca_query env issuer_path ocsp_url =
     (let path = me_path env ''different_ca''
      in query_result (\<lambda>code out err. contains (str_lower out) ''unauthorized'')
           (probe_run env ''different_ca'' issuer_path path ocsp_url [(path, different_ca_certificate env ''different_ca'')] []))"

definition nonexistent_certificate_query :: "monitor_env \<Rightarrow> string \<Rightarrow> string \<Rightarrow> query_probe" where
  "nonexistent_certificate_query env issuer_path ocsp_url =
     (let path = me_path env ''nonexistent''
      in query_result
           (\<lambda>code out err. contains err ''Could not find certificate'' \<or> code \<noteq> 0 \<or>
              contains (str_lower out) ''unauthorized'' \<or> contains (str_lower out) ''unknown'')
           (probe_run env ''nonexistent'' issuer_path path ocsp_url [(path, nonexistent_certificate env ''nonexistent'')] []))"

definition invalid_issuer_query :: "monitor_env \<Rightarrow> string \<Rightarrow> query_probe" where
  "invalid_issuer_query env ocsp_url =
     (let path = me_path env ''invalid_issuer''
      in query_result
           (\<lambda>code out err. contains err ''Could not find issuer certificate'' \<or> code \<noteq> 0 \<or>
              contains out ''malformedRequest'' \<or> contains out ''internalError'')
           (probe_run env ''invalid_issuer'' path path ocsp_url [(path, invalid_issuer_certificate env ''invalid_issuer'')] []))"

record unauthorized_results =
  ur_different_ca :: query_probe
  ur_nonexistent :: query_probe
  ur_invalid_issuer :: query_probe
  ur_detected :: bool
  ur_proper_signaling :: bool
  ur_recommendations :: "string list"

definition at_least_half :: "nat \<Rightarrow> nat \<Rightarrow> bool" where
  "at_least_half n m \<longleftrightarrow> (of_nat n / of_nat m * 100 :: rat) \<ge> 50"

definition test_unauthorized_query_handling :: "monitor_env \<Rightarrow> string \<Rightarrow> string \<Rightarrow> unauthorized_results" where
  "test_unauthorized_query_handling env issuer_path ocsp_url =
     (let d = different_ca_query env issuer_path ocsp_url;
          n = nonexistent_certificate_query env issuer_path ocsp_url;
          i = invalid_issuer_query env ocsp_url;
          count = length (filter qp_unauthorized [d, n, i]);
          proper = at_least_half count 3
      in \<lparr>ur_different_ca = d, ur_nonexistent = n, ur_invalid_issuer = i, ur_detected = (count > 0),
          ur_proper_signaling = proper,
          ur_recommendations = (if proper then [] else [''Server may not properly handle unauthorized queries''])\<rparr>)"

definition query_json :: "query_probe \<Rightarrow> json" where
  "query_json q = JDict [(''unauthorized_response'', JBool (qp_unauthorized q)), (''response_details'', JDict (qp_details q))]"

section \<open>Signed requests\<close>

record unsigned_probe =
  up_rejected :: bool
  up_sigrequired :: bool

text \<open>Without an HTTP answer the code reads an unbound variable; the exception leaves both flags unset.\<close>

definition unsigned_request_probe :: "monitor_env \<Rightarrow> string \<Rightarrow> string \<Rightarrow> unsigned_probe" where
  "unsigned_request_probe env issuer_path ocsp_url =
     (let nothing = \<lparr>up_rejected = False, up_sigrequired = False\<rparr>;
          request_file = me_path env ''unsigned_request'';
          response_file = request_file @ ''.response''
      in case run_cmd env ''unsigned_request''
                [''openssl'', ''ocsp'', ''-issuer'', issuer_path, ''-cert'', issuer_path, ''-reqout'', request_file] [] 15 of
           Inl e \<Rightarrow> nothing
         | Inr (code, _, _) \<Rightarrow>
             if code \<noteq> 0 then nothing
             else case me_post env ''unsigned_request'' ocsp_url (me_written env ''unsigned_request'') 30 of
                    Inl e \<Rightarrow> nothing
                  | Inr (status, content) \<Rightarrow>
                      (let http_code = show_int status
                       in if startswith http_code ''4'' \<or> startswith http_code ''5'' then nothing\<lparr>up_rejected := True\<rparr>
                          else case run_cmd env ''unsigned_response''
                                      [''openssl'', ''ocsp'', ''-respin'', response_file, ''-text'', ''-noout'']
                                      [(response_file, content)] 15 of
                                 Inl e \<Rightarrow> nothing
                               | Inr (_, out, _) \<Rightarrow>
                                   nothing\<lparr>up_sigrequired := contains out ''sigRequired'' \<or>
                                     contains (str_lower out) ''signature required''\<rparr>))"

definition signed_request_accepted :: "monitor_env \<Rightarrow> string \<Rightarrow> string \<Rightarrow> bool" where
  "signed_request_accepted env issuer_path ocsp_url =
     (case probe_run env ''signed_request'' issuer_path issuer_path ocsp_url [] [] of
        Inl e \<Rightarrow> False
      | Inr (code, out, _) \<Rightarrow> code = 0 \<and> contains out ''OCSP Response Status: successful'')"

record sigrequired_results =
  sr_enforced :: bool
  sr_unsigned_rejected :: bool
  sr_signed_accepted :: bool
  sr_detected :: bool
  sr_recommendations :: "string list"
  sr_security_warnings :: "string list"

definition test_sigrequired_validation :: "monitor_env \<Rightarrow> string \<Rightarrow> string \<Rightarrow> sigrequired_results" where
  "test_sigrequired_validation env issuer_path ocsp_url =
     (let u = unsigned_request_probe env issuer_path ocsp_url;
          accepted = (if up_sigrequired u then signed_request_accepted env issuer_path ocsp_url else False);
          enforced = (up_sigrequired u \<and> up_rejected u \<and> accepted)
      in \<lparr>sr_enforced = enforced, sr_unsigned_rejected = up_rejected u, sr_signed_accepted = accepted,
          sr_detected = up_sigrequired u,
          sr_recommendations =
            (if \<not> up_sigrequired u then [''Consider implementing sigRequired for enhanced security'']
             else if enforced then [] else [''sigRequired enforcement inconsistent'']),
          sr_security_warnings = (if up_sigrequired u then [] else [''Server does not enforce signed requests''])\<rparr>)"

section \<open>Nonces\<close>

record nonce_probe =
  np_supported :: bool
  np_echoed :: bool
  np_unique :: "bool option"
  np_details :: "(string \<times> json) list"

definition no_nonce_probe :: nonce_probe where
  "no_nonce_probe = \<lparr>np_supported = False, np_echoed = False, np_unique = None, np_details = []\<rparr>"

definition nonce_request_probe :: "monitor_env \<Rightarrow> string \<Rightarrow> string \<Rightarrow> nonce_probe" where
  "nonce_request_probe env issuer_path ocsp_url =
     (case probe_run env ''nonce'' issuer_path issuer_path ocsp_url [] [] of
        Inl e \<Rightarrow> no_nonce_probe
      | Inr (code, out, err) \<Rightarrow>
          (let found = (code = 0 \<and> contains out ''Nonce:'')
           in no_nonce_probe\<lparr>np_supported := found, np_echoed := found, np_details := run_details (code, out, err)\<rparr>))"

definition no_nonce_request_probe :: "monitor_env \<Rightarrow> string \<Rightarrow> string \<Rightarrow> nonce_probe" where
  "no_nonce_request_probe env issuer_path ocsp_url =
     (case probe_run env ''no_nonce'' issuer_path issuer_path ocsp_url [] [''-no_nonce''] of
        Inl e \<Rightarrow> no_nonce_probe
      | Inr (code, out, err) \<Rightarrow>
          no_nonce_probe\<lparr>np_supported := (code = 0 \<and> \<not> contains out ''Nonce:''), np_details := run_details (code, out, err)\<rparr>)"

text \<open>The nonces of the responses; a request that does not complete ends the collection.\<close>

definition nonce_of :: "run_output \<Rightarrow> string list" where
  "nonce_of res =
     (case res of (code, out, _) \<Rightarrow>
        if code \<noteq> 0 then []
        else (case search_field False ''Nonce:'' not_newline out of Some v \<Rightarrow> [strip v] | None \<Rightarrow> []))"

fun collect_nonces :: "(nat \<Rightarrow> exn + run_output) \<Rightarrow> nat list \<Rightarrow> bool \<times> string list" where
  "collect_nonces run [] = (True, [])"
| "collect_nonces run (i # is) =
     (case run i of
        Inl e \<Rightarrow> (False, [])
      | Inr res \<Rightarrow> (let (finished, rest) = collect_nonces run is in (finished, nonce_of res @ rest)))"

definition nonce_round :: "nat \<Rightarrow> string" where
  "nonce_round i = ''nonce_'' @ show_nat i"

definition multiple_nonce_probe :: "monitor_env \<Rightarrow> string \<Rightarrow> string \<Rightarrow> nonce_probe" where
  "multiple_nonce_probe env issuer_path ocsp_url =
     (let (finished, nonces) =
            collect_nonces (\<lambda>i. probe_run env (nonce_round i) issuer_path issuer_path ocsp_url [] []) [0..<3];
          p = \<lparr>np_supported = (nonces \<noteq> []), np_echoed = (nonces \<noteq> []), np_unique = Some False, np_details = []\<rparr>
      in if \<not> finished then p
         else p\<lparr>np_unique := Some (length nonces > 1 \<and> distinct nonces),
                np_details := [(''nonces_collected'', JList (map JStr nonces)),
                  (''unique_count'', JInt (int (length (remdups nonces))))]\<rparr>)"

definition stdout_of :: "nonce_probe \<Rightarrow> string" where
  "stdout_of p = (case dict_get (np_details p) ''stdout'' of Some (JStr s) \<Rightarrow> s | _ \<Rightarrow> [])"

definition unauthorized_answer :: "nonce_probe \<Rightarrow> bool" where
  "unauthorized_answer p \<longleftrightarrow> contains (str_lower (stdout_of p)) ''unauthorized''"

record nonce_results =
  nr_support_detected :: bool
  nr_echo_validation :: bool
  nr_replay_protection :: bool
  nr_tests :: "nonce_probe list"
  nr_recommendations :: "string list"
  nr_security_warnings :: "string list"

definition test_nonce_echo_validation :: "monitor_env \<Rightarrow> string \<Rightarrow> string \<Rightarrow> nonce_results" where
  "test_nonce_echo_validation env issuer_path ocsp_url =
     (let tests = [nonce_request_probe env issuer_path ocsp_url, no_nonce_request_probe env issuer_path ocsp_url,
                   multiple_nonce_probe env issuer_path ocsp_url];
          supported = length (filter np_supported tests) > 0;
          echoed = length (filter np_echoed tests) > 0;
          unauthorized = length (filter unauthorized_answer tests) > 0
      in \<lparr>nr_support_detected = supported, nr_echo_validation = echoed, nr_replay_protection = echoed, nr_tests = tests,
          nr_recommendations =
            (if \<not> supported \<and> unauthorized
             then [''Server appears to have access controls - nonce testing may require authentication''] else []),
          nr_security_warnings =
            (if supported
             then (if echoed then [] else [''Nonce support detected but echo validation inconsistent''])
             else if unauthorized then [''Server requires authentication - nonce testing limited'']
             else [''No nonce support - limited replay attack protection''])\<rparr>)"

definition nonce_probe_json :: "nonce_probe \<Rightarrow> json" where
  "nonce_probe_json p = JDict ([(''nonce_supported'', JBool (np_supported p)), (''nonce_echoed'', JBool (np_echoed p))] @
     (case np_unique p of Some b \<Rightarrow> [(''unique_nonces'', JBool b)] | None \<Rightarrow> []) @
     [(''response_details'', JDict (np_details p))])"

section \<open>Signature algorithms\<close>

record algorithm_test =
  at_algorithm :: string
  at_supported :: bool
  at_response_received :: bool
  at_used :: "string option"
  at_details :: "(string \<times> json) list"
  at_errors :: "string list"

definition contains_any :: "string \<Rightarrow> string list \<Rightarrow> bool" where
  "contains_any s subs = list_ex (contains s) subs"

definition test_algorithm_preference :: "monitor_env \<Rightarrow> string \<Rightarrow> string \<Rightarrow> string \<Rightarrow> algorithm_test" where
  "test_algorithm_preference env algorithm issuer_path ocsp_url =
     (let t = \<lparr>at_algorithm = algorithm, at_supported = False, at_response_received = False, at_used = None,
               at_details = [], at_errors = []\<rparr>
      in case probe_run env ''algorithm'' issuer_path issuer_path ocsp_url [] [] of
           Inl e \<Rightarrow> t\<lparr>at_errors := [''Test exception: '' @ snd e]\<rparr>
         | Inr (code, out, err) \<Rightarrow>
             if code \<noteq> 0 then t\<lparr>at_errors := [''OCSP request failed: '' @ err]\<rparr>
             else (let used = map_option strip (search_field True ''Signature Algorithm:'' not_newline out)
                   in t\<lparr>at_response_received := True, at_used := used,
                        at_supported := (case used of
                            None \<Rightarrow> False
                          | Some u \<Rightarrow> contains (str_lower u) (str_lower algorithm) \<or>
                                      contains_any (str_lower u) [''sha512'', ''sha384'', ''sha256'']),
                        at_errors := (if contains (str_lower out) ''sha1'' \<and> algorithm \<noteq> ''sha1WithRSAEncryption''
                                      then [''Potential downgrade to SHA-1 detected''] else []),
                        at_details := run_details (code, out, err)\<rparr>))"

definition PREFERRED_ALGORITHMS :: "string list" where
  "PREFERRED_ALGORITHMS = [''sha512WithRSAEncryption'', ''sha384WithRSAEncryption'', ''sha256WithRSAEncryption'',
     ''ecdsa-with-SHA512'', ''ecdsa-with-SHA384'', ''ecdsa-with-SHA256'', ''sha256WithRSA-PSS'', ''sha384WithRSA-PSS'',
     ''sha512WithRSA-PSS'']"

record negotiation =
  ng_successful :: bool
  ng_supported :: "string list"
  ng_preferred :: "string list"
  ng_downgrade_detected :: bool
  ng_assessment :: string
  ng_tests :: "algorithm_test list"
  ng_recommendations :: "string list"
  ng_security_warnings :: "string list"

definition assess_algorithm :: "string \<Rightarrow> negotiation \<Rightarrow> negotiation" where
  "assess_algorithm signature_algorithm n =
     (let low = str_lower signature_algorithm
      in if contains_any low [''sha512'', ''sha384'']
         then n\<lparr>ng_assessment := ''SECURE'', ng_recommendations := [''Server uses strong cryptographic algorithms'']\<rparr>
         else if contains low ''sha256''
         then n\<lparr>ng_assessment := ''ACCEPTABLE'', ng_recommendations := [''Server uses acceptable cryptographic algorithms'']\<rparr>
         else if contains low ''sha1''
         then n\<lparr>ng_assessment := ''WEAK'', ng_security_warnings := [''Server uses deprecated SHA-1 algorithm'']\<rparr>
         else n\<lparr>ng_assessment := ''WEAK'', ng_security_warnings := [''Unknown or weak algorithm: '' @ signature_algorithm]\<rparr>)"

definition negotiate_cryptographic_preferences :: "monitor_env \<Rightarrow> string \<Rightarrow> string \<Rightarrow> negotiation" where
  "negotiate_cryptographic_preferences env issuer_path ocsp_url =
     (let t = test_algorithm_preference env ''analysis'' issuer_path ocsp_url;
          n = \<lparr>ng_successful = False, ng_supported = [], ng_preferred = PREFERRED_ALGORITHMS, ng_downgrade_detected = False,
               ng_assessment = ''UNKNOWN'', ng_tests = [t], ng_recommendations = [], ng_security_warnings = []\<rparr>
      in if at_response_received t \<and> truthy (at_used t)
         then (assess_algorithm (the (at_used t)) (n\<lparr>ng_supported := [the (at_used t)]\<rparr>))\<lparr>ng_successful := True\<rparr>
         else n\<lparr>ng_assessment := ''CRITICAL'', ng_security_warnings := [''Could not determine server cryptographic capabilities'']\<rparr>)"

text \<open>The summary and the dict that \<open>run_cryptographic_preference_test\<close> makes of it. Its lines for downgrade indicators are
  left out: no negotiation sets \<open>downgrade_detected\<close>.\<close>

definition line :: "string \<Rightarrow> string" where
  "line s = s @ [CHR 0x0A]"

definition titled :: "string \<Rightarrow> string list \<Rightarrow> string" where
  "titled title items =
     (if items = [] then [] else line [] @ line title @ concat (map (\<lambda>i. line (''- '' @ i)) items))"

definition yes_no :: "bool \<Rightarrow> string" where
  "yes_no b = (if b then ''Yes'' else ''No'')"

definition algorithm_line :: "algorithm_test \<Rightarrow> string" where
  "algorithm_line t =
     line ((if at_supported t then ''[OK]'' else ''[FAIL]'') @ '' '' @ at_algorithm t @ '': '' @
       (if truthy (at_used t) then ''Used '' @ the (at_used t) else ''Not supported'')) @
     concat (map (\<lambda>e. line (''  Error: '' @ e)) (at_errors t))"

definition crypto_summary :: "negotiation \<Rightarrow> string" where
  "crypto_summary n =
     line ''[CRYPTOGRAPHIC PREFERENCE NEGOTIATION TEST SUMMARY]'' @
     line (''Negotiation Successful: '' @ yes_no (ng_successful n)) @
     line (''Security Assessment: '' @ ng_assessment n) @
     line (''Downgrade Detected: '' @ yes_no (ng_downgrade_detected n)) @
     line (''Supported Algorithms: '' @ show_nat (length (ng_supported n))) @
     concat (map (\<lambda>(i, a). line (''  '' @ show_nat (i + 1) @ ''. '' @ a)) (enumerate 0 (ng_supported n))) @
     line [] @ line ''Algorithm Test Results:'' @ concat (map algorithm_line (ng_tests n)) @
     titled ''Security Warnings:'' (ng_security_warnings n) @
     titled ''Security Recommendations:'' (ng_recommendations n)"

definition crypto_overall_pass :: "negotiation \<Rightarrow> bool" where
  "crypto_overall_pass n \<longleftrightarrow> ng_assessment n \<in> {''SECURE'', ''ACCEPTABLE''} \<and> \<not> ng_downgrade_detected n"

record crypto_results =
  cr_summary :: string
  cr_overall_pass :: bool
  cr_negotiation :: negotiation

definition run_cryptographic_preference_test :: "monitor_env \<Rightarrow> string \<Rightarrow> string \<Rightarrow> crypto_results" where
  "run_cryptographic_preference_test env issuer_path ocsp_url =
     (let n = negotiate_cryptographic_preferences env issuer_path ocsp_url
      in \<lparr>cr_summary = crypto_summary n, cr_overall_pass = crypto_overall_pass n, cr_negotiation = n\<rparr>)"

text \<open>\<open>_analyze_cryptographic_downgrade\<close>, which no caller uses.\<close>

record downgrade_analysis =
  da_detected :: bool
  da_indicators :: "string list"
  da_recommendations :: "string list"

definition WEAK_ALGORITHMS :: "string list" where
  "WEAK_ALGORITHMS = [''sha1WithRSAEncryption'', ''md5WithRSAEncryption'']"

definition STRONG_ALGORITHMS :: "string list" where
  "STRONG_ALGORITHMS = [''sha512WithRSAEncryption'', ''sha384WithRSAEncryption'', ''sha256WithRSAEncryption'']"

definition found :: "bool \<Rightarrow> string \<Rightarrow> string \<Rightarrow> downgrade_analysis \<Rightarrow> downgrade_analysis" where
  "found detected indicator recommendation d =
     \<lparr>da_detected = da_detected d \<or> detected, da_indicators = da_indicators d @ [indicator],
      da_recommendations = da_recommendations d @ [recommendation]\<rparr>"

definition analyze_cryptographic_downgrade :: "string list \<Rightarrow> downgrade_analysis" where
  "analyze_cryptographic_downgrade supported =
     (let weak = list_ex (\<lambda>a. a \<in> set supported) WEAK_ALGORITHMS;
          strong = list_ex (\<lambda>a. a \<in> set supported) STRONG_ALGORITHMS
      in (if_so (list_ex (\<lambda>a. contains (str_lower a) ''md5'') supported)
            (found True ''MD5 algorithm detected (extremely weak)'' ''CRITICAL: Reject MD5 - extremely vulnerable'') \<circ>
          if_so (list_ex (\<lambda>a. contains (str_lower a) ''sha1'') supported)
            (found False ''SHA-1 algorithm detected (deprecated)'' ''Avoid SHA-1 due to collision vulnerabilities'') \<circ>
          if_so (length supported > 1 \<and> hd supported \<in> set WEAK_ALGORITHMS \<and> last supported \<in> set STRONG_ALGORITHMS)
            (found True ''Weak algorithms preferred over strong ones'' ''Reject responses using weak algorithms'') \<circ>
          if_so (weak \<and> \<not> strong)
            (found True ''Only weak algorithms supported when stronger ones should be available''
               ''CRITICAL: Potential downgrade attack - reject weak algorithms''))
         \<lparr>da_detected = False, da_indicators = [], da_recommendations = []\<rparr>)"

end
