(* ===== verification/Security_Suite.thy ===== *)
theory Security_Suite
  imports Monitor_Probes Analysis
begin

text \<open>
  The security suite (\<open>ocsp_tester/tests_security.py\<close>): seven tests over the client and the monitor's probes. The
  issuer is written to a temporary file whose path is a parameter of the environment.
\<close>

definition SECURITY_CALLER :: string where
  "SECURITY_CALLER = ''ocsp_tester.tests_security''"

record security_config =
  sc_nonce_enabled :: bool
  sc_test_cryptographic_preferences :: bool

section \<open>Malformed requests\<close>

definition answer_or_rejection :: "string \<Rightarrow> exn + 'a \<Rightarrow> string" where
  "answer_or_rejection answer res = (case res of Inr _ \<Rightarrow> answer | Inl e \<Rightarrow> ''rejected: '' @ take 50 (snd e))"

definition truncated_request :: "monitor_env \<Rightarrow> string \<Rightarrow> certificate \<Rightarrow> certificate \<Rightarrow> exn + int" where
  "truncated_request env ocsp_url cert issuer =
     (case se_build (me_suite env) (request_spec_of cert issuer False) None of
        Inl e \<Rightarrow> Inl e
      | Inr der_req \<Rightarrow>
          (case me_post env ''truncated'' ocsp_url (take (length der_req - 10) der_req) 10 of
             Inl e \<Rightarrow> Inl e | Inr (status, _) \<Rightarrow> Inr status))"

definition malformed_tests :: "monitor_env \<Rightarrow> string \<Rightarrow> certificate \<Rightarrow> certificate \<Rightarrow> string \<Rightarrow> (string \<times> string) list" where
  "malformed_tests env ocsp_url cert issuer nm =
     (let senv = me_suite env;
          zero = send_ocsp_request senv SECURITY_CALLER nm 0 ocsp_url ((request_spec_of cert issuer True)\<lparr>sp_nonce_len := 0\<rparr>) ''POST'';
          over = send_with_nonce senv SECURITY_CALLER nm 1 ocsp_url (request_spec_of cert issuer True) ''POST''
                   (Some (se_urandom senv nm 1 129));
          truncated = truncated_request env ocsp_url cert issuer
      in [(''Zero-length nonce'', answer_or_rejection ''accepted'' zero),
          (''Overlong nonce'', answer_or_rejection ''accepted'' over),
          (''Truncated DER'', (case truncated of Inr status \<Rightarrow> ''status: '' @ show_int status
                              | Inl e \<Rightarrow> answer_or_rejection [] truncated))])"

definition malformed_request_test :: "monitor_env \<Rightarrow> string \<Rightarrow> certificate \<Rightarrow> certificate \<Rightarrow> test_case \<Rightarrow> test_case" where
  "malformed_request_test env ocsp_url cert issuer r =
     (let tests = malformed_tests env ocsp_url cert issuer (test_case.tc_name r);
          rejected = length (filter (\<lambda>(_, res). contains (str_lower res) ''rejected'') tests)
      in add_details [(''malformed_tests'', JList (map (\<lambda>(a, b). JList [JStr a, JStr b]) tests))]
           (if rejected > 0
            then set_verdict PASS (''Server rejected '' @ show_nat rejected @ ''/'' @ show_nat (length tests) @ '' malformed requests'') r
            else set_verdict SKIP ''Server accepted malformed requests; policy-dependent'' r))"

section \<open>Tests over the monitor's probes\<close>

definition operational_error_test :: "monitor_env \<Rightarrow> string \<Rightarrow> test_case \<Rightarrow> test_case" where
  "operational_error_test env ocsp_url r =
     (let res = test_operational_error_signaling env (me_path env (test_case.tc_name r)) ocsp_url;
          proper = ep_proper (or_malformed res) \<or> ep_proper (or_invalid res) \<or> ep_proper (or_unauthorized res)
      in add_details [(''error_response_validation'', error_validation_json res),
            (''recommendations'', JList (map JStr (or_recommendations res)))]
           (if proper then set_verdict PASS ''Operational error signaling validation PASSED'' r
            else set_verdict FAIL ''Operational error signaling validation FAILED'' r))"

definition unauthorized_query_test :: "monitor_env \<Rightarrow> string \<Rightarrow> test_case \<Rightarrow> test_case" where
  "unauthorized_query_test env ocsp_url r =
     (let res = test_unauthorized_query_handling env (me_path env (test_case.tc_name r)) ocsp_url
      in add_details [(''ca_authorization_validation'', JDict [(''different_ca'', query_json (ur_different_ca res)),
               (''invalid_issuer'', query_json (ur_invalid_issuer res))]),
            (''access_control_testing'', JDict [(''nonexistent_cert'', query_json (ur_nonexistent res))]),
            (''recommendations'', JList (map JStr (ur_recommendations res)))]
           (if ur_proper_signaling res then set_verdict PASS ''Unauthorized query handling validation PASSED'' r
            else set_verdict FAIL ''Unauthorized query handling validation FAILED'' r))"

definition sigrequired_test :: "monitor_env \<Rightarrow> string \<Rightarrow> test_case \<Rightarrow> test_case" where
  "sigrequired_test env ocsp_url r =
     (let res = test_sigrequired_validation env (me_path env (test_case.tc_name r)) ocsp_url
      in add_details [(''sigrequired_enforced'', JBool (sr_enforced res)), (''unsigned_request_rejected'', JBool (sr_unsigned_rejected res)),
            (''signed_request_accepted'', JBool (sr_signed_accepted res)), (''sigrequired_extension_detected'', JBool (sr_detected res)),
            (''security_warnings'', JList (map JStr (sr_security_warnings res))),
            (''recommendations'', JList (map JStr (sr_recommendations res)))]
           (if sr_enforced res then set_verdict PASS ''sigRequired validation PASSED'' r
            else if sr_detected res then set_verdict FAIL ''sigRequired extension detected but enforcement inconsistent'' r
            else set_verdict PASS ''sigRequired extension not detected - server may not enforce signed requests'' r))"

definition nonce_echo_test :: "monitor_env \<Rightarrow> bool \<Rightarrow> string \<Rightarrow> test_case \<Rightarrow> test_case" where
  "nonce_echo_test env nonce_enabled ocsp_url r =
     (if \<not> nonce_enabled
      then add_details [(''nonce_enabled'', JBool False)]
             (set_verdict SKIP ''Nonce is disabled in the run configuration; nonce echo test skipped'' r)
      else (let res = test_nonce_echo_validation env (me_path env (test_case.tc_name r)) ocsp_url
            in add_details [(''nonce_support_detected'', JBool (nr_support_detected res)),
                  (''nonce_echo_validation'', JBool (nr_echo_validation res)), (''replay_protection'', JBool (nr_replay_protection res)),
                  (''nonce_tests'', JList (map nonce_probe_json (nr_tests res))),
                  (''security_warnings'', JList (map JStr (nr_security_warnings res))),
                  (''recommendations'', JList (map JStr (nr_recommendations res)))]
                 (if nr_echo_validation res then set_verdict PASS ''Nonce echo validation PASSED'' r
                  else if nr_support_detected res then set_verdict FAIL ''Nonce support detected but echo validation failed'' r
                  else if list_ex unauthorized_answer (nr_tests res)
                  then set_verdict PASS
                    ''Server requires authentication - nonce testing limited (this may indicate proper access controls)'' r
                  else set_verdict FAIL ''No nonce support detected - limited replay attack protection'' r)))"

section \<open>The signature algorithm of a response\<close>

definition ALGORITHM_MEANINGS :: "(string, string) dict" where
  "ALGORITHM_MEANINGS =
     [(''1.2.840.113549.1.1.5'', ''sha1WithRSAEncryption (deprecated)''),
      (''1.2.840.113549.1.1.11'', ''sha256WithRSAEncryption (recommended)''),
      (''1.2.840.113549.1.1.12'', ''sha384WithRSAEncryption''), (''1.2.840.113549.1.1.13'', ''sha512WithRSAEncryption''),
      (''1.2.840.10040.4.3'', ''dsaWithSHA1 (deprecated)''), (''1.2.840.10045.4.1'', ''ecdsaWithSHA1 (deprecated)''),
      (''1.2.840.10045.4.3.2'', ''ecdsaWithSHA256 (recommended)''), (''1.2.840.10045.4.3.3'', ''ecdsaWithSHA384''),
      (''1.2.840.10045.4.3.4'', ''ecdsaWithSHA512'')]"

definition algorithm_meaning :: "string option \<Rightarrow> string" where
  "algorithm_meaning oid =
     (if truthy oid then dict_get_or ALGORITHM_MEANINGS (the oid) ''Unknown algorithm'' else ''No algorithm'')"

definition signed_response_details ::
  "suite_env \<Rightarrow> string \<Rightarrow> certificate \<Rightarrow> certificate \<Rightarrow> response_info \<Rightarrow> test_status \<Rightarrow> (string \<times> json) list" where
  "signed_response_details env url issuer test_cert info status =
     (let description = JList [JStr ''This test validates OCSP response signature algorithm presence and response success.'',
     JStr ''It checks:'', JStr ''1. OCSP response status is SUCCESSFUL'',
     JStr ''2. Signature algorithm OID is present in response'',
     JStr ''3. Response structure includes signature information'',
     JStr ''4. Basic signature algorithm validation''];
          analysis = JDict [(''test_description'', description), (''request_method'', JStr ''POST''), (''nonce_included'',
     JBool False), (''test_certificate'', JStr (se_subject env test_cert)), (''issuer_certificate'',
     JStr (se_subject env issuer)), (''ocsp_url'', JStr url)];
          status_analysis = JDict [(''response_status'', JStr (ri_response_status info)), (''status_meaning'',
     status_meaning (ri_response_status info)), (''is_successful'',
     JBool (ri_response_status info = ''SUCCESSFUL''))];
          signature_analysis = JDict [(''signature_algorithm_oid'', text_json (ri_signature_oid info)), (''signature_present'',
     JBool (ri_signature_oid info \<noteq> None)), (''algorithm_meaning'',
     JStr (algorithm_meaning (ri_signature_oid info)))];
          response_details = JDict [(''version'', text_json (ri_version info)), (''produced_at'', text_json (ri_produced_at info)),
     (''responder_id'', text_json (ri_responder_id info)), (''certificate_status'', JNull), (''this_update'',
     text_json (ri_this_update info)), (''next_update'', text_json (ri_next_update info))];
          status_ok = (ri_response_status info = ''SUCCESSFUL'');
          signature_present = (ri_signature_oid info \<noteq> None)
      in [(''analysis'', analysis), (''status_analysis'', status_analysis), (''signature_analysis'',
     signature_analysis), (''response_details'', response_details), (''test_result'', JDict [(''status_ok'',
     JBool status_ok), (''signature_present'', JBool signature_present), (''overall_result'',
     JStr (status_value status))]), (''troubleshooting'', JDict [(''if_unauthorized'',
     JStr (''Certificate may not be issued by the OCSP responder'' @ [CHR 0x27] @ ''s CA'')),
     (''if_missing_signature'', JStr ''OCSP responder may not be RFC 6960 compliant''), (''if_unsuccessful'',
     JStr ''OCSP responder may be experiencing issues''), (''if_deprecated_algorithm'',
     JStr ''Consider upgrading to a stronger signature algorithm''), (''next_steps'',
     JStr ''Verify certificate issuer matches OCSP responder CA, check OCSP responder status'')])])"

definition signed_response_test :: "suite_env \<Rightarrow> string \<Rightarrow> certificate \<Rightarrow> certificate \<Rightarrow> test_case \<Rightarrow> test_case" where
  "signed_response_test env url test_cert issuer r =
     (case send_ocsp_request env SECURITY_CALLER (test_case.tc_name r) 0 url (request_spec_of test_cert issuer False) ''POST'' of
        Inl exc \<Rightarrow>
          add_details [(''error_type'', JStr (fst exc)), (''error_details'', JStr (snd exc)), (''troubleshooting'',
     JDict [(''network_issue'', JStr ''Check OCSP URL accessibility and network connectivity''),
     (''certificate_issue'', JStr ''Verify certificate and issuer files are valid''), (''parsing_issue'',
     JStr ''OCSP response may be malformed or unsupported format'')])]
            (set_verdict ERROR (''Test execution failed: '' @ snd exc) r)
      | Inr info \<Rightarrow>
          (let status_ok = (ri_response_status info = ''SUCCESSFUL'');
               signature_present = (ri_signature_oid info \<noteq> None);
               (status, message) =
                 (if status_ok \<and> signature_present
                  then (PASS, ''OCSP response successful with signature algorithm: '' @ none_text (ri_signature_oid info))
                  else if \<not> status_ok then (FAIL, ''OCSP response not successful: '' @ ri_response_status info)
                  else (FAIL, ''OCSP response missing signature algorithm''))
           in add_details (signed_response_details env url issuer test_cert info status) (set_verdict status message r)))"

section \<open>Cryptographic preferences\<close>

definition crypto_verdict :: "negotiation \<Rightarrow> test_status \<times> string" where
  "crypto_verdict n =
     (if ng_assessment n \<in> {''SECURE'', ''ACCEPTABLE''}
      then (PASS, ''Acceptable cryptographic algorithms supported: '' @ show_nat (length (ng_supported n)) @ '' algorithms'')
      else if ng_assessment n = ''WEAK'' then (FAIL, ''Only weak cryptographic algorithms supported'')
      else if \<not> list_ex at_response_received (ng_tests n)
      then (SKIP, ''Responder returned no usable OCSP response for the crypto-preference probe (commonly '' @ [CHR 0x27] @
        ''unauthorized'' @ [CHR 0x27] @ '' '' @ em_dash @ '' the issuer/CA certificate is out of the responder'' @ [CHR 0x27] @
        ''s scope); cryptographic preference could not be assessed'')
      else if ng_assessment n = ''CRITICAL'' then (FAIL, ''No supported cryptographic algorithms found'')
      else (FAIL, ''Unknown security assessment: '' @ ng_assessment n))"

text \<open>Three entries are read from keys that the monitor's result does not have.\<close>

definition crypto_details :: "suite_env \<Rightarrow> string \<Rightarrow> certificate \<Rightarrow> negotiation \<Rightarrow> test_status \<Rightarrow> (string \<times> json) list" where
  "crypto_details env url issuer n status = [(''analysis'', JDict [(''test_description'',
     JList [JStr ''This test validates OCSP server cryptographic capabilities and detects potential downgrade attacks.'',
     JStr ''It checks:'', JStr ''1. Support for various signature algorithms (SHA-512, SHA-384,
     SHA-256 with RSA/ECDSA)'', JStr ''2. Detection of potential downgrade attacks'',
     JStr ''3. Server uses acceptable cryptographic strength'',
     JStr ''4. Algorithm preference negotiation works correctly'']), (''ocsp_url'', JStr url),
     (''issuer_certificate'', JStr (se_subject env issuer)), (''test_method'',
     JStr ''Cryptographic preference negotiation'')]), (''negotiation_results'',
     JDict [(''negotiation_successful'', JBool (ng_successful n)), (''security_assessment'',
     JStr (ng_assessment n)), (''downgrade_detected'', JBool (ng_downgrade_detected n)),
     (''supported_algorithms'', JList (map JStr (ng_supported n))), (''preferred_algorithms'', JList []),
     (''algorithm_tests'', JList []), (''security_warnings'', JList []), (''recommendations'',
     JList (map JStr (ng_recommendations n)))]), (''test_result'', JDict [(''negotiation_successful'',
     JBool (ng_successful n)), (''security_assessment'', JStr (ng_assessment n)), (''downgrade_detected'',
     JBool (ng_downgrade_detected n)), (''overall_result'', JStr (status_value status))]),
     (''troubleshooting'', JDict [(''if_weak_algorithms'',
     JStr ''OCSP server may need cryptographic algorithm upgrades''), (''if_downgrade_detected'',
     JStr ''Potential security vulnerability - server may be vulnerable to downgrade attacks''),
     (''if_no_support'', JStr ''OCSP server may not support modern cryptographic algorithms''),
     (''if_negotiation_fails'', JStr ''OCSP server may not properly handle algorithm preference negotiation''),
     (''next_steps'', JStr ''Verify OCSP server cryptographic capabilities,
     consider upgrading to stronger algorithms'')])]"

definition crypto_preference_test :: "monitor_env \<Rightarrow> bool \<Rightarrow> string \<Rightarrow> certificate \<Rightarrow> test_case \<Rightarrow> test_case" where
  "crypto_preference_test env test_enabled url issuer r =
     (if \<not> test_enabled
      then add_details [(''test_disabled'', JBool True), (''reason'',
     JStr ''Configuration setting test_cryptographic_preferences is False'')]
             (set_verdict SKIP ''Cryptographic preference testing is disabled'' r)
      else (let n = cr_negotiation (run_cryptographic_preference_test env (me_path env (test_case.tc_name r)) url);
                (status, message) = crypto_verdict n
            in add_details (crypto_details (me_suite env) url issuer n status) (set_verdict status message r)))"

section \<open>The suite\<close>

definition run_security_tests ::
  "monitor_env \<Rightarrow> security_config \<Rightarrow> string \<Rightarrow> certificate \<Rightarrow> certificate option \<Rightarrow> test_case list" where
  "run_security_tests env config ocsp_url issuer good_cert =
     (let cert = (case good_cert of Some c \<Rightarrow> c | None \<Rightarrow> issuer); run = run_test (me_suite env) ''Security''
      in run ''Malformed request rejected'' ERROR (malformed_request_test env ocsp_url cert issuer) @
         run ''Operational error signaling'' PASS (operational_error_test env ocsp_url) @
         run ''Unauthorized query handling'' PASS (unauthorized_query_test env ocsp_url) @
         run ''sigRequired when unsigned'' PASS (sigrequired_test env ocsp_url) @
         run ''Nonce echo in response'' PASS (nonce_echo_test env (sc_nonce_enabled config) ocsp_url) @
         run ''Signature algorithm present and response SUCCESSFUL'' ERROR (signed_response_test (me_suite env) ocsp_url cert issuer) @
         run ''Cryptographic preference negotiation'' ERROR
           (crypto_preference_test env (sc_test_cryptographic_preferences config) ocsp_url issuer))"

section \<open>What the suite reports\<close>

lemma same_security_bodies [simp]:
  "same_case (malformed_request_test env u c i r) r" "same_case (operational_error_test env u r) r"
  "same_case (unauthorized_query_test env u r) r" "same_case (sigrequired_test env u r) r"
  "same_case (nonce_echo_test env b u r) r" "same_case (signed_response_test senv u c i r) r"
  "same_case (crypto_preference_test env b u i r) r"
  by (simp_all add: malformed_request_test_def operational_error_test_def unauthorized_query_test_def sigrequired_test_def
      nonce_echo_test_def signed_response_test_def crypto_preference_test_def Let_def split: sum.split prod.split)

lemma security_reports:
  "reports (me_suite env) ''Security'' (names_of ''security'') (run_security_tests env config url issuer good)"
proof -
  have names: "names_of ''security'' = [''Malformed request rejected'', ''Operational error signaling'', ''Unauthorized query handling'',
      ''sigRequired when unsigned'', ''Nonce echo in response'', ''Signature algorithm present and response SUCCESSFUL'',
      ''Cryptographic preference negotiation'']"
    by (simp add: names_of_def catalog_index_def TEST_CATALOG_def catalog_entry_def)
  show ?thesis
    unfolding names run_security_tests_def Let_def
    by (intro reports_Cons reports_body same_security_bodies)
qed

text \<open>The certificates made up for the probes are not certificates. Where openssl refuses them, it does so before any
  request, and the two tests pass whatever the responder would answer.\<close>

definition refuses_made_up :: "monitor_env \<Rightarrow> bool" where
  "refuses_made_up env \<longleftrightarrow>
     (\<forall>step \<in> {''invalid_certificate'', ''nonexistent'', ''invalid_issuer''}. \<forall>cmd files limit.
        list_ex (\<lambda>(p, _). p \<in> set cmd) files \<longrightarrow>
        (\<exists>code out err. me_run env step cmd files limit = Exited code out err \<and> code \<noteq> 0))"

lemma refused_run:
  assumes "refuses_made_up env" and "step \<in> {''invalid_certificate'', ''nonexistent'', ''invalid_issuer''}"
  shows "\<exists>code out err. probe_run env step i path u [(path, c)] extra = Inr (code, out, err) \<and> code \<noteq> 0"
proof -
  let ?cmd = "ocsp_command path i u (''-noverify'' # extra)"
  have "list_ex (\<lambda>(p, _). p \<in> set ?cmd) [(path, c)]" by (simp add: ocsp_command_def)
  with assms obtain code out err where "me_run env step ?cmd [(path, c)] 30 = Exited code out err" "code \<noteq> 0"
    unfolding refuses_made_up_def by blast
  then show ?thesis by (auto simp: probe_run_def run_cmd_def completed_def)
qed

lemma operational_error_passes:
  assumes "refuses_made_up env"
  shows "tc_status (operational_error_test env u r) = PASS"
proof -
  have "ep_proper (invalid_certificate_probe env i u)" for i
    using refused_run [OF assms, of "''invalid_certificate''" i "me_path env ''invalid_certificate''" u
      "invalid_test_certificate env ''invalid_certificate''" "[]"]
    by (auto simp: invalid_certificate_probe_def signalled_def Let_def split: sum.split)
  then show ?thesis by (simp add: operational_error_test_def test_operational_error_signaling_def Let_def)
qed

lemma unauthorized_query_passes:
  assumes "refuses_made_up env"
  shows "tc_status (unauthorized_query_test env u r) = PASS"
proof -
  have "qp_unauthorized (nonexistent_certificate_query env i u)" for i
    using refused_run [OF assms, of "''nonexistent''" i "me_path env ''nonexistent''" u
      "nonexistent_certificate env ''nonexistent''" "[]"]
    by (auto simp: nonexistent_certificate_query_def query_result_def Let_def split: sum.split)
  moreover have "qp_unauthorized (invalid_issuer_query env u)"
    using refused_run [OF assms, of "''invalid_issuer''" "me_path env ''invalid_issuer''" "me_path env ''invalid_issuer''" u
      "invalid_issuer_certificate env ''invalid_issuer''" "[]"]
    by (auto simp: invalid_issuer_query_def query_result_def Let_def split: sum.split)
  ultimately show ?thesis
    by (simp add: unauthorized_query_test_def test_unauthorized_query_handling_def Let_def at_least_half_def)
qed

text \<open>A request without a nonce answered without one counts as support for nonces, so a responder that never
  sends nonces fails as if it echoed wrongly.\<close>

lemma nonce_absent_counts:
  assumes "probe_run env ''no_nonce'' (me_path env (test_case.tc_name r)) (me_path env (test_case.tc_name r)) u [] [''-no_nonce''] = Inr (0, out, err)"
    and "\<not> contains out ''Nonce:''"
    and "\<not> nr_echo_validation (test_nonce_echo_validation env (me_path env (test_case.tc_name r)) u)"
  shows "tc_message (nonce_echo_test env True u r) = ''Nonce support detected but echo validation failed''"
proof -
  have "nr_support_detected (test_nonce_echo_validation env (me_path env (test_case.tc_name r)) u)"
    using assms(1,2) by (simp add: test_nonce_echo_validation_def no_nonce_request_probe_def no_nonce_probe_def Let_def)
  with assms(3) show ?thesis by (simp add: nonce_echo_test_def Let_def)
qed

text \<open>No downgrade is ever reported, and a passing test has seen a hash of the SHA-2 family in the algorithm.\<close>

lemma no_downgrade_reported: "\<not> ng_downgrade_detected (negotiate_cryptographic_preferences env i u)"
  by (simp add: negotiate_cryptographic_preferences_def assess_algorithm_def Let_def)

lemma crypto_pass_iff:
  "fst (crypto_verdict (negotiate_cryptographic_preferences env i u)) = PASS \<longleftrightarrow>
     (\<exists>out err alg. probe_run env ''algorithm'' i i u [] [] = Inr (0, out, err) \<and>
        search_field True ''Signature Algorithm:'' not_newline out = Some alg \<and>
        contains_any (str_lower (strip alg)) [''sha512'', ''sha384'', ''sha256''])"
proof -
  let ?t = "test_algorithm_preference env ''analysis'' i u"
  have assess: "ng_assessment (assess_algorithm a n) \<in> {''SECURE'', ''ACCEPTABLE''} \<longleftrightarrow>
      contains_any (str_lower a) [''sha512'', ''sha384'', ''sha256'']" for a n
    by (auto simp: assess_algorithm_def contains_any_def Let_def)
  have "fst (crypto_verdict n) = PASS \<longleftrightarrow> ng_assessment n \<in> {''SECURE'', ''ACCEPTABLE''}" for n
    by (simp add: crypto_verdict_def)
  then have "fst (crypto_verdict (negotiate_cryptographic_preferences env i u)) = PASS \<longleftrightarrow>
      at_response_received ?t \<and> truthy (at_used ?t) \<and> contains_any (str_lower (the (at_used ?t))) [''sha512'', ''sha384'', ''sha256'']"
    using assess by (cases "at_response_received ?t \<and> truthy (at_used ?t)")
      (simp_all only: negotiate_cryptographic_preferences_def Let_def if_True if_False simp_thms, auto)
  also have "\<dots> \<longleftrightarrow> (\<exists>out err alg. probe_run env ''algorithm'' i i u [] [] = Inr (0, out, err) \<and>
        search_field True ''Signature Algorithm:'' not_newline out = Some alg \<and>
        contains_any (str_lower (strip alg)) [''sha512'', ''sha384'', ''sha256''])"
  proof -
    have used: "truthy (map_option strip x) \<and> contains_any (str_lower (the (map_option strip x))) [''sha512'', ''sha384'', ''sha256''] \<longleftrightarrow>
        (\<exists>alg. x = Some alg \<and> contains_any (str_lower (strip alg)) [''sha512'', ''sha384'', ''sha256''])" for x
      by (cases x) (auto simp: contains_any_def contains_def str_lower_def)
    show ?thesis by (auto simp: test_algorithm_preference_def Let_def used split: sum.split)
  qed
  finally show ?thesis .
qed

end
