(* ===== verification/Suites_Responder.thy ===== *)
theory Suites_Responder
  imports Suites
begin

text \<open>
  Two further suites that only talk to the responder: the performance tests
  (\<open>ocsp_tester/tests_performance.py\<close>) and the checks of signatures and timestamps of OCSP responses
  (\<open>tests_crl.py\<close>). Times are microseconds.
\<close>

section \<open>Performance\<close>

definition PERF_CALLER :: string where
  "PERF_CALLER = ''ocsp_tester.tests_performance''"

definition probe ::
  "suite_env \<Rightarrow> string \<Rightarrow> string \<Rightarrow> certificate \<Rightarrow> certificate \<Rightarrow> string \<Rightarrow> nat \<Rightarrow> exn + response_info" where
  "probe env nm url issuer cert method i =
     send_ocsp_request env PERF_CALLER nm i url (request_spec_of cert issuer False) method"

text \<open>The latencies of the requests with these numbers, up to the first that raises.\<close>

fun latencies :: "(nat \<Rightarrow> exn + response_info) \<Rightarrow> nat list \<Rightarrow> exn + int list" where
  "latencies send [] = Inr []"
| "latencies send (i # is) =
     (case send i of
        Inl e \<Rightarrow> Inl e
      | Inr info \<Rightarrow> map_sum id ((#) (ri_latency_ms info)) (latencies send is))"

definition int_trunc :: "int \<Rightarrow> int \<Rightarrow> int" where
  "int_trunc a b = (if 0 \<le> a then a div b else - ((- a) div b))"

text \<open>\<open>int(statistics.quantiles(xs, n=20)[18])\<close>, the exclusive method; a single value stands for all.\<close>

definition p95 :: "int list \<Rightarrow> int" where
  "p95 xs =
     (let data = sort xs; ld = int (length xs)
      in if ld = 1 then hd data
         else
           (let m = ld + 1; j0 = 19 * m div 20; j = (if j0 < 1 then 1 else if j0 > ld - 1 then ld - 1 else j0);
                delta = 19 * m - j * 20
            in int_trunc (data ! nat (j - 1) * (20 - delta) + data ! nat j * delta) 20))"

definition latency_test :: "suite_env \<Rightarrow> string \<Rightarrow> certificate \<Rightarrow> certificate \<Rightarrow> int \<Rightarrow> test_case \<Rightarrow> test_case" where
  "latency_test env url issuer cert samples r =
     (case latencies (probe env (test_case.tc_name r) url issuer cert ''POST'') [0..<nat (max 1 samples)] of
        Inl exc \<Rightarrow> set_verdict ERROR (snd exc) r
      | Inr xs \<Rightarrow>
          add_details [(''latencies_ms'', JList (map JInt xs))]
            (set_verdict PASS (''median='' @ show_int (median xs) @ ''ms p95='' @ show_int (p95 xs) @ ''ms'') r))"

text \<open>The thread pool: the requests are numbered as submitted, their results taken as they complete.\<close>

definition load_test :: "suite_env \<Rightarrow> string \<Rightarrow> certificate \<Rightarrow> certificate \<Rightarrow> bool \<Rightarrow> int \<Rightarrow> test_case \<Rightarrow> test_case" where
  "load_test env url issuer cert enabled requests r =
     (if \<not> enabled then set_message ''Disabled'' r
      else case latencies (probe env (test_case.tc_name r) url issuer cert ''POST'')
                  (se_order env (test_case.tc_name r) (nat (max 1 requests))) of
             Inl exc \<Rightarrow> set_verdict ERROR (snd exc) r
           | Inr xs \<Rightarrow>
               add_details [(''latencies_ms'', JList (map JInt xs))]
                 (set_verdict PASS (''requests='' @ show_nat (length xs) @ '' median='' @ show_int (median xs) @ ''ms'') r))"

definition caching_test :: "suite_env \<Rightarrow> string \<Rightarrow> certificate \<Rightarrow> certificate \<Rightarrow> test_case \<Rightarrow> test_case" where
  "caching_test env url issuer cert r =
     (case probe env (test_case.tc_name r) url issuer cert ''GET'' 0 of
        Inl exc \<Rightarrow> set_verdict ERROR (snd exc) r
      | Inr a \<Rightarrow>
     (case probe env (test_case.tc_name r) url issuer cert ''GET'' 1 of
        Inl exc \<Rightarrow> set_verdict ERROR (snd exc) r
      | Inr b \<Rightarrow>
          add_details [(''a_latency_ms'', JInt (ri_latency_ms a)), (''b_latency_ms'', JInt (ri_latency_ms b))]
            (set_verdict PASS (''Stable fields across two GETs: '' @
               bool_text (ri_this_update a = ri_this_update b \<and> ri_next_update a = ri_next_update b)) r)))"

definition run_perf_tests ::
  "suite_env \<Rightarrow> string \<Rightarrow> certificate \<Rightarrow> certificate \<Rightarrow> int \<Rightarrow> bool \<Rightarrow> int \<Rightarrow> int \<Rightarrow> test_case list" where
  "run_perf_tests env url issuer cert samples enable_load load_concurrency load_requests =
     run_test env ''Performance'' ''Latency baseline'' ERROR (latency_test env url issuer cert samples) @
     run_test env ''Performance'' ''Load test'' SKIP (load_test env url issuer cert enable_load load_requests) @
     run_test env ''Performance'' ''Caching behavior observation'' ERROR (caching_test env url issuer cert)"

section \<open>Signatures and timestamps of OCSP responses\<close>

definition CRL_CALLER :: string where
  "CRL_CALLER = ''ocsp_tester.tests_crl''"

definition PRODUCED_AT_WARN_SECONDS :: int where
  "PRODUCED_AT_WARN_SECONDS = 18 * 3600"

definition PRODUCED_AT_FAIL_SECONDS :: int where
  "PRODUCED_AT_FAIL_SECONDS = 24 * 3600"

definition produced_at_issue :: "int \<Rightarrow> int \<Rightarrow> string option" where
  "produced_at_issue produced now =
     (if produced > now then Some ''producedAt in future''
      else if now - produced > PRODUCED_AT_FAIL_SECONDS * 1000000 then Some ''producedAt very old''
      else if now - produced > PRODUCED_AT_WARN_SECONDS * 1000000 then Some ''producedAt somewhat old''
      else None)"

definition crl_probe :: "suite_env \<Rightarrow> string \<Rightarrow> string \<Rightarrow> certificate \<Rightarrow> certificate \<Rightarrow> exn + response_info" where
  "crl_probe env nm url issuer cert =
     send_ocsp_request env CRL_CALLER nm 0 url (request_spec_of cert issuer False) ''POST''"

text \<open>The response is parsed again, the issuer's key is fetched, and no signature is checked.\<close>

definition response_signature_test :: "suite_env \<Rightarrow> string \<Rightarrow> certificate \<Rightarrow> certificate \<Rightarrow> test_case \<Rightarrow> test_case" where
  "response_signature_test env url issuer cert r =
     (case crl_probe env (test_case.tc_name r) url issuer cert of
        Inl exc \<Rightarrow> set_verdict ERROR (snd exc) r
      | Inr info \<Rightarrow>
          if ri_response_status info = ''SUCCESSFUL'' \<and> ri_raw_der info \<noteq> []
          then (case se_parse env (ri_raw_der info) of
                  Inl exc \<Rightarrow> set_verdict FAIL (''Signature validation failed: '' @ take 100 (snd exc)) r
                | Inr _ \<Rightarrow>
                    add_details [(''signature_algorithm'', text_json (ri_signature_oid info)), (''response_status'',
     JStr (ri_response_status info)), (''responder_id'', text_json (ri_responder_id info))]
                      (set_verdict PASS ''OCSP response signature structure validated'' r))
          else set_verdict SKIP ''No successful OCSP response to validate'' r)"

definition weak_algs :: "string list" where
  "weak_algs = [''1.2.840.113549.1.1.4'', ''1.3.14.3.2.3'']"

definition signature_algorithm_test :: "suite_env \<Rightarrow> string \<Rightarrow> certificate \<Rightarrow> certificate \<Rightarrow> test_case \<Rightarrow> test_case" where
  "signature_algorithm_test env url issuer cert r =
     (case crl_probe env (test_case.tc_name r) url issuer cert of
        Inl exc \<Rightarrow> set_verdict ERROR (snd exc) r
      | Inr info \<Rightarrow>
          add_details [(''signature_algorithm_oid'', text_json (ri_signature_oid info))]
            (if truthy (ri_signature_oid info)
             then (if the (ri_signature_oid info) \<in> set weak_algs
                   then set_verdict FAIL (''Weak signature algorithm detected: '' @ the (ri_signature_oid info)) r
                   else set_verdict PASS (''Acceptable signature algorithm: '' @ the (ri_signature_oid info)) r)
             else set_verdict FAIL ''No signature algorithm found in response'' r))"

text \<open>\<open>s.replace("Z", "+00:00")\<close>\<close>

definition utc_suffix :: "string \<Rightarrow> string" where
  "utc_suffix s = concat (map (\<lambda>c. if c = CHR ''Z'' then ''+00:00'' else [c]) s)"

definition seconds_json :: "int \<Rightarrow> json" where
  "seconds_json us = JFloat (of_int us / 1000000)"

definition produced_debug :: "suite_env \<Rightarrow> response_info \<Rightarrow> int \<Rightarrow> int \<Rightarrow> (string \<times> json) list" where
  "produced_debug env info produced_dt now = [(''debug_produced_at'', JDict [(''raw'', text_json (ri_produced_at info)), (''parsed'',
     JStr (se_isoformat env produced_dt)), (''now'', JStr (se_isoformat env now)), (''is_future'',
     JBool (produced_dt > now)), (''age_seconds'',
     (if produced_dt \<le> now then seconds_json (now - produced_dt) else JNull))])]"

text \<open>One timestamp field: its issues, and the debug entry of producedAt.\<close>

definition produced_issues :: "suite_env \<Rightarrow> int \<Rightarrow> response_info \<Rightarrow> string list \<times> (string \<times> json) list" where
  "produced_issues env now info =
     (if \<not> truthy (ri_produced_at info) then ([], [])
      else case se_fromisoformat env (utc_suffix (the (ri_produced_at info))) of
             Inl e \<Rightarrow> ([''invalid producedAt format: '' @ snd e], [])
           | Inr t \<Rightarrow>
               ((case produced_at_issue t now of None \<Rightarrow> [] | Some i \<Rightarrow> [i]), produced_debug env info t now))"

definition this_update_issues :: "suite_env \<Rightarrow> int \<Rightarrow> string option \<Rightarrow> string list" where
  "this_update_issues env now s =
     (if \<not> truthy s then []
      else case se_fromisoformat env (utc_suffix (the s)) of
             Inl e \<Rightarrow> [''invalid thisUpdate format'']
           | Inr t \<Rightarrow> if t > now then [''thisUpdate in future''] else [])"

definition next_update_issues :: "suite_env \<Rightarrow> int \<Rightarrow> string option \<Rightarrow> string list" where
  "next_update_issues env now s =
     (if \<not> truthy s then []
      else case se_fromisoformat env (utc_suffix (the s)) of
             Inl e \<Rightarrow> [''invalid nextUpdate format'']
           | Inr t \<Rightarrow> if t < now then [''nextUpdate in past''] else [])"

definition timestamp_details :: "response_info \<Rightarrow> string list \<Rightarrow> string list \<Rightarrow> string list \<Rightarrow> (string \<times> json) list" where
  "timestamp_details info timestamp_issues critical_issues warnings = [(''produced_at'', text_json (ri_produced_at info)), (''this_update'', text_json (ri_this_update info)),
     (''next_update'', text_json (ri_next_update info)), (''timestamp_issues'',
     JList (map JStr timestamp_issues)), (''critical_issues'', JList (map JStr critical_issues)),
     (''warnings'', JList (map JStr warnings))]"

definition response_timestamp_test :: "suite_env \<Rightarrow> string \<Rightarrow> certificate \<Rightarrow> certificate \<Rightarrow> test_case \<Rightarrow> test_case" where
  "response_timestamp_test env url issuer cert r =
     (case crl_probe env (test_case.tc_name r) url issuer cert of
        Inl exc \<Rightarrow> set_verdict ERROR (snd exc) r
      | Inr info \<Rightarrow>
          (let now = se_now env (test_case.tc_name r);
               (produced, debug) = produced_issues env now info;
               issues = produced @ this_update_issues env now (ri_this_update info)
                 @ next_update_issues env now (ri_next_update info);
               warnings = filter (\<lambda>i. contains i ''somewhat old'') issues;
               critical = filter (\<lambda>i. \<not> contains i ''somewhat old'') issues
           in add_details (timestamp_details info issues critical warnings)
                (if critical \<noteq> []
                 then set_verdict FAIL (''Timestamp issues: '' @ join_with '', '' critical) (add_details debug r)
                 else if warnings \<noteq> []
                 then set_verdict PASS (''Timestamps valid (note: '' @ join_with '', '' warnings @ '')'') (add_details debug r)
                 else set_verdict PASS ''All timestamps appear valid'' (add_details debug r))))"

definition run_crl_tests ::
  "suite_env \<Rightarrow> string \<Rightarrow> certificate \<Rightarrow> certificate option \<Rightarrow> certificate option \<Rightarrow> test_case list" where
  "run_crl_tests env url issuer good revoked =
     (let cert = first_of good revoked issuer
      in run_test env ''CRL'' ''OCSP response signature validation'' ERROR (response_signature_test env url issuer cert) @
         run_test env ''CRL'' ''Signature algorithm validation'' ERROR (signature_algorithm_test env url issuer cert) @
         run_test env ''CRL'' ''Response timestamp validation'' ERROR (response_timestamp_test env url issuer cert))"

section \<open>Properties\<close>

lemma perf_bodies [simp]:
  "test_case.tc_name (latency_test env url issuer c n r) = test_case.tc_name r"
  "tc_category (latency_test env url issuer c n r) = tc_category r"
  "test_case.tc_name (load_test env url issuer c b n r) = test_case.tc_name r"
  "tc_category (load_test env url issuer c b n r) = tc_category r"
  "test_case.tc_name (caching_test env url issuer c r) = test_case.tc_name r"
  "tc_category (caching_test env url issuer c r) = tc_category r"
  by (simp_all add: latency_test_def load_test_def caching_test_def split: sum.split)

lemma crl_bodies [simp]:
  "test_case.tc_name (response_signature_test env url issuer c r) = test_case.tc_name r"
  "tc_category (response_signature_test env url issuer c r) = tc_category r"
  "test_case.tc_name (signature_algorithm_test env url issuer c r) = test_case.tc_name r"
  "tc_category (signature_algorithm_test env url issuer c r) = tc_category r"
  "test_case.tc_name (response_timestamp_test env url issuer c r) = test_case.tc_name r"
  "tc_category (response_timestamp_test env url issuer c r) = tc_category r"
  by (simp_all add: response_signature_test_def signature_algorithm_test_def response_timestamp_test_def Let_def
      split: sum.split prod.split)

lemma perf_reports:
  "reports env ''Performance'' (names_of ''performance'') (run_perf_tests env url issuer cert samples load conc reqs)"
proof -
  have names: "names_of ''performance'' = [''Latency baseline'', ''Load test'', ''Caching behavior observation'']"
    by (simp add: names_of_def catalog_index_def TEST_CATALOG_def catalog_entry_def)
  show ?thesis
    unfolding names run_perf_tests_def by (intro reports_Cons reports_test) simp_all
qed

lemma crl_basic_reports:
  "reports env ''CRL'' [''OCSP response signature validation'', ''Signature algorithm validation'', ''Response timestamp validation'']
     (run_crl_tests env url issuer good revoked)"
  unfolding run_crl_tests_def Let_def by (intro reports_Cons reports_test) simp_all

text \<open>The three classes of producedAt, with their bounds.\<close>

lemma produced_at_issue_None:
  "produced_at_issue p now = None \<longleftrightarrow> p \<le> now \<and> now - p \<le> 64800 * 1000000"
  by (auto simp: produced_at_issue_def PRODUCED_AT_FAIL_SECONDS_def PRODUCED_AT_WARN_SECONDS_def)

lemma latencies_length: "latencies send is = Inr xs \<Longrightarrow> length xs = length is"
  by (induction send "is" arbitrary: xs rule: latencies.induct) (auto split: sum.splits simp: map_sum_def)

end
