(* ===== verification/Engine.thy ===== *)
theory Engine
  imports Crl_Suite Path_Suite Federal_Suite Security_Suite Suites_Responder
begin

text \<open>
  The engine behind a run: how \<open>backend/app/worker/executor.py\<close> sets up the request options, loads the certificates
  (\<open>_load_cert\<close> of \<open>ocsp_tester/runner.py\<close>) and calls the test suites, one runner per category. The result is a
  function of the type the worker executes (\<open>Executor.engine\<close>).
\<close>

section \<open>Loading certificates\<close>

record file_env =
  fl_exists :: "string \<Rightarrow> bool"
  fl_read :: "string \<Rightarrow> exn + string"
  fl_pem :: "string \<Rightarrow> exn + certificate"
  fl_der :: "string \<Rightarrow> exn + certificate"

definition load_cert :: "file_env \<Rightarrow> string \<Rightarrow> exn + certificate" where
  "load_cert env path =
     (if strip path = [] then Inl (''ValueError'', ''Certificate path is empty'')
      else if \<not> fl_exists env path then Inl (''FileNotFoundError'', ''Certificate file not found: '' @ path)
      else let failed = (\<lambda>m. Inl (''Exception'', ''Failed to load certificate from '' @ path @ '': '' @ m))
           in case fl_read env path of
                Inl e \<Rightarrow> failed (snd e)
              | Inr data \<Rightarrow>
                  if data = [] then failed ''Certificate file is empty''
                  else (case fl_pem env data of
                          Inr c \<Rightarrow> Inr c
                        | Inl _ \<Rightarrow> (case fl_der env data of Inr c \<Rightarrow> Inr c | Inl e \<Rightarrow> failed (snd e))))"

record run_certs =
  rn_issuer :: certificate
  rn_good :: "certificate option"
  rn_revoked :: "certificate option"
  rn_unknown_ca :: "certificate option"

text \<open>\<open>_load_cert(self.files[slot]) if self.files.get(slot) else None\<close>\<close>

definition load_slot :: "file_env \<Rightarrow> (string \<times> string) list \<Rightarrow> string \<Rightarrow> exn + certificate option" where
  "load_slot env files slot =
     (if truthy (dict_get files slot) then map_sum id Some (load_cert env (the (dict_get files slot))) else Inr None)"

definition load_certs :: "file_env \<Rightarrow> (string \<times> string) list \<Rightarrow> exn + run_certs" where
  "load_certs env files =
     (case load_cert env (dict_get_or files ''issuer_cert'' []) of
        Inl e \<Rightarrow> Inl e
      | Inr issuer \<Rightarrow>
     (case load_slot env files ''good_cert'' of
        Inl e \<Rightarrow> Inl e
      | Inr good \<Rightarrow>
     (case load_slot env files ''revoked_cert'' of
        Inl e \<Rightarrow> Inl e
      | Inr revoked \<Rightarrow>
     (case load_slot env files ''unknown_ca_cert'' of
        Inl e \<Rightarrow> Inl e
      | Inr unknown_ca \<Rightarrow>
          Inr \<lparr>rn_issuer = issuer, rn_good = good, rn_revoked = revoked, rn_unknown_ca = unknown_ca\<rparr>))))"

definition sample_of :: "run_certs \<Rightarrow> certificate" where
  "sample_of certs = first_of (rn_good certs) (rn_revoked certs) (rn_issuer certs)"

section \<open>The environments of a category\<close>

text \<open>The suites' environments, and the records the diagnostics hold when the test of a name delivers its result.\<close>

record engine_env =
  en_suite :: suite_env
  en_crl :: crl_env
  en_security :: monitor_env
  en_federal :: federal_env
  en_path :: path_env
  en_files :: file_env
  en_records :: "string \<Rightarrow> diag_record list"

text \<open>\<open>ocsp_client.RUNTIME\<close> as the worker sets it.\<close>

definition overrides_of :: "runtime_options \<Rightarrow> runtime_overrides" where
  "overrides_of options =
     \<lparr>ro_timeout = Some (rt_timeout options), ro_method = rt_method options,
      ro_include_nonce = Some (rt_include_nonce options), ro_nonce_len = Some (nat (rt_nonce_len options))\<rparr>"

text \<open>The process-wide options and selection a suite sees.\<close>

definition in_run :: "runtime_options \<Rightarrow> active_selection \<Rightarrow> suite_env \<Rightarrow> suite_env" where
  "in_run options active env = env\<lparr>se_runtime := overrides_of options, se_selection := active\<rparr>"

definition crl_in_run :: "runtime_options \<Rightarrow> active_selection \<Rightarrow> crl_env \<Rightarrow> crl_env" where
  "crl_in_run options active env = env\<lparr>ce_suite := in_run options active (ce_suite env)\<rparr>"

definition monitor_in_run :: "runtime_options \<Rightarrow> active_selection \<Rightarrow> monitor_env \<Rightarrow> monitor_env" where
  "monitor_in_run options active env = env\<lparr>me_suite := in_run options active (me_suite env)\<rparr>"

definition federal_in_run :: "runtime_options \<Rightarrow> active_selection \<Rightarrow> federal_env \<Rightarrow> federal_env" where
  "federal_in_run options active env = env\<lparr>fe_monitor := monitor_in_run options active (fe_monitor env)\<rparr>"

definition path_in_run :: "runtime_options \<Rightarrow> active_selection \<Rightarrow> path_env \<Rightarrow> path_env" where
  "path_in_run options active env = env\<lparr>pe_suite := in_run options active (pe_suite env)\<rparr>"

section \<open>The runners\<close>

text \<open>\<open>_engine_config\<close>. The schema of a run gives the hours as an integer and the anchor type as a text; an
  entry of another type is outside the model and read as the default.\<close>

definition int_entry :: "(string \<times> json) list \<Rightarrow> string \<Rightarrow> int \<Rightarrow> int" where
  "int_entry cfg k dflt = (case jget cfg k (JInt dflt) of JInt n \<Rightarrow> n | _ \<Rightarrow> dflt)"

definition text_entry :: "(string \<times> json) list \<Rightarrow> string \<Rightarrow> string \<Rightarrow> string" where
  "text_entry cfg k dflt = (case jget cfg k (JStr dflt) of JStr s \<Rightarrow> s | _ \<Rightarrow> dflt)"

definition flag_entry :: "(string \<times> json) list \<Rightarrow> string \<Rightarrow> bool \<Rightarrow> bool" where
  "flag_entry cfg k dflt = json_true (jget cfg k (JBool dflt))"

definition engine_config :: "(string \<times> json) list \<Rightarrow> security_config \<times> int" where
  "engine_config cfg =
     (\<lparr>sc_nonce_enabled = flag_entry cfg ''nonce_enabled'' True, sc_test_cryptographic_preferences = True\<rparr>,
      int_entry cfg ''max_age_hours'' 24)"

definition path_inputs_of :: "(string \<times> json) list \<Rightarrow> (string \<times> string) list \<Rightarrow> path_inputs" where
  "path_inputs_of cfg files =
     \<lparr>pi_issuer_path = dict_get files ''issuer_cert'', pi_good_cert_path = dict_get files ''good_cert'',
      pi_trust_anchor_path = dict_get files ''trust_anchor'', pi_trust_anchor_type = text_entry cfg ''trust_anchor_type'' ''root'',
      pi_require_explicit_policy = flag_entry cfg ''require_explicit_policy'' False,
      pi_inhibit_policy_mapping = flag_entry cfg ''inhibit_policy_mapping'' False\<rparr>"

text \<open>The conversions of the performance runner happen before its suite starts.\<close>

definition run_performance ::
  "suite_env \<Rightarrow> (string \<times> json) list \<Rightarrow> string \<Rightarrow> run_certs \<Rightarrow> error + test_case list" where
  "run_performance env cfg ocsp_url certs =
     bind_result (json_int (jget cfg ''latency_samples'' (JInt 5))) (\<lambda>samples.
     bind_result (json_int (jget cfg ''load_concurrency'' (JInt 5))) (\<lambda>concurrency.
     bind_result (json_int (jget cfg ''load_requests'' (JInt 50))) (\<lambda>requests.
       Inr (run_perf_tests env ocsp_url (rn_issuer certs) (sample_of certs) samples
              (flag_entry cfg ''enable_load_test'' False) concurrency requests))))"

definition run_crl_category :: "crl_env \<Rightarrow> int \<Rightarrow> string \<Rightarrow> string list \<Rightarrow> run_certs \<Rightarrow> test_case list" where
  "run_crl_category env max_timeout ocsp_url crl_urls certs =
     run_crl_tests (ce_suite env) ocsp_url (rn_issuer certs) (rn_good certs) (rn_revoked certs) @
     run_crl_comprehensive_tests env ocsp_url (rn_issuer certs) (rn_good certs) (rn_revoked certs)
       (case crl_urls of [] \<Rightarrow> None | u # _ \<Rightarrow> Some u) @
     explicit_crl_tests env max_timeout crl_urls"

definition run_federal_category ::
  "federal_env \<Rightarrow> (string \<times> json) list \<Rightarrow> (string \<times> string) list \<Rightarrow> string \<Rightarrow> test_case list" where
  "run_federal_category env cfg files ocsp_url =
     run_federal_tests env ocsp_url (dict_get_or files ''issuer_cert'' [])
       (if truthy (dict_get files ''good_cert'') then dict_get files ''good_cert'' else dict_get files ''revoked_cert'')
       None (snd (engine_config cfg))"

text \<open>\<open>runners[key]()\<close> under the options and the selection of the run.\<close>

definition run_suite ::
  "engine_env \<Rightarrow> job \<Rightarrow> string \<Rightarrow> string list \<Rightarrow> run_certs \<Rightarrow> runtime_options \<Rightarrow> string \<Rightarrow> active_selection \<Rightarrow>
   error + test_case list" where
  "run_suite env jb ocsp_url crl_urls certs options key active =
     (let cfg = jb_config jb; files = jb_files jb; suite = in_run options active (en_suite env)
      in if key = ''protocol'' then Inr (run_protocol_tests suite ocsp_url (rn_issuer certs) (sample_of certs))
         else if key = ''status''
         then Inr (run_status_tests suite ocsp_url (rn_issuer certs) (rn_good certs) (rn_revoked certs) (rn_unknown_ca certs))
         else if key = ''security''
         then Inr (run_security_tests (monitor_in_run options active (en_security env)) (fst (engine_config cfg)) ocsp_url
                     (rn_issuer certs) (Some (sample_of certs)))
         else if key = ''performance'' then run_performance suite cfg ocsp_url certs
         else if key = ''crl''
         then Inr (run_crl_category (crl_in_run options active (en_crl env)) (np_max_timeout_seconds (jb_policy jb))
                     ocsp_url crl_urls certs)
         else if key = ''ikev2'' then Inr (run_ikev2_tests suite)
         else if key = ''federal'' then Inr (run_federal_category (federal_in_run options active (en_federal env)) cfg files ocsp_url)
         else if key = ''path_validation''
         then Inr (run_path_validation_tests (path_in_run options active (en_path env)) (path_inputs_of cfg files))
         else Inl (Uncaught ''KeyError''))"

text \<open>The engine of a job. \<open>run\<close> calls it once the targets are checked and the certificates are loaded.\<close>

definition suite_engine :: "engine_env \<Rightarrow> job \<Rightarrow> runtime_options \<Rightarrow> engine" where
  "suite_engine env jb options key active =
     (case (config_urls (jb_config jb), load_certs (en_files env) (jb_files jb)) of
        (Inr (ocsp_url # crl_urls), Inr certs) \<Rightarrow>
          (case run_suite env jb ocsp_url crl_urls certs options key active of
             Inl e \<Rightarrow> ([], Some (error_text e))
           | Inr rs \<Rightarrow> (map (\<lambda>r. (r, en_records env (test_case.tc_name r))) rs, None))
      | _ \<Rightarrow> ([], Some ''not started''))"

definition loads :: "file_env \<Rightarrow> string \<Rightarrow> bool" where
  "loads env path = (case load_cert env path of Inl _ \<Rightarrow> False | Inr _ \<Rightarrow> True)"

definition engine_run ::
  "worker_env \<Rightarrow> resolver \<Rightarrow> engine_env \<Rightarrow> (nat \<Rightarrow> bool) \<Rightarrow> job \<Rightarrow> worker \<Rightarrow> run_end \<times> worker" where
  "engine_run we gai env cancel jb = run_worker we gai (suite_engine env jb) (loads (en_files env)) cancel jb"

section \<open>What a category reports\<close>

text \<open>The tests of a category, in order: those of the catalogue, where the last entry of the CRL category stands for
  one test per URL of the run.\<close>

definition category_tests :: "string list \<Rightarrow> string \<Rightarrow> string list" where
  "category_tests crl_urls key =
     (if key = ''crl'' then butlast (names_of key) @ map explicit_crl_name crl_urls else names_of key)"

lemma in_run_simps [simp]:
  "se_selection (in_run options active env) = active" "se_runtime (in_run options active env) = overrides_of options"
  "ce_suite (crl_in_run options active cenv) = in_run options active (ce_suite cenv)"
  "me_suite (monitor_in_run options active menv) = in_run options active (me_suite menv)"
  "fe_monitor (federal_in_run options active fenv) = monitor_in_run options active (fe_monitor fenv)"
  "pe_suite (path_in_run options active penv) = in_run options active (pe_suite penv)"
  by (simp_all add: in_run_def crl_in_run_def monitor_in_run_def federal_in_run_def path_in_run_def)

lemma reports_names: "reports env c names rs \<Longrightarrow> map test_case.tc_name rs = filter (should_run (se_selection env)) names"
  by (simp add: reports_def)

lemma crl_category_tests:
  "category_tests urls ''crl'' = [''OCSP response signature validation'', ''Signature algorithm validation'',
     ''Response timestamp validation''] @ comprehensive_names @ map explicit_crl_name urls"
  by (simp add: category_tests_def comprehensive_names_def names_of_def catalog_index_def TEST_CATALOG_def catalog_entry_def)

lemma crl_category_names:
  "map test_case.tc_name (run_crl_category env n url urls certs) =
     filter (should_run (se_selection (ce_suite env))) (category_tests urls ''crl'')"
  unfolding run_crl_category_def crl_category_tests map_append filter_append
  by (simp only: reports_names [OF crl_basic_reports] reports_names [OF crl_comprehensive_reports]
      reports_names [OF explicit_crl_reports])

lemma performance_names:
  "run_performance env cfg url certs = Inr rs \<Longrightarrow>
     map test_case.tc_name rs = filter (should_run (se_selection env)) (names_of ''performance'')"
  by (auto simp: run_performance_def reports_names [OF perf_reports])

lemma run_suite_simps:
  "run_suite env jb url urls certs options ''protocol'' active =
     Inr (run_protocol_tests (in_run options active (en_suite env)) url (rn_issuer certs) (sample_of certs))"
  "run_suite env jb url urls certs options ''status'' active =
     Inr (run_status_tests (in_run options active (en_suite env)) url (rn_issuer certs) (rn_good certs) (rn_revoked certs)
       (rn_unknown_ca certs))"
  "run_suite env jb url urls certs options ''security'' active =
     Inr (run_security_tests (monitor_in_run options active (en_security env)) (fst (engine_config (jb_config jb))) url
       (rn_issuer certs) (Some (sample_of certs)))"
  "run_suite env jb url urls certs options ''performance'' active =
     run_performance (in_run options active (en_suite env)) (jb_config jb) url certs"
  "run_suite env jb url urls certs options ''crl'' active =
     Inr (run_crl_category (crl_in_run options active (en_crl env)) (np_max_timeout_seconds (jb_policy jb)) url urls certs)"
  "run_suite env jb url urls certs options ''ikev2'' active = Inr (run_ikev2_tests (in_run options active (en_suite env)))"
  "run_suite env jb url urls certs options ''federal'' active =
     Inr (run_federal_category (federal_in_run options active (en_federal env)) (jb_config jb) (jb_files jb) url)"
  "run_suite env jb url urls certs options ''path_validation'' active =
     Inr (run_path_validation_tests (path_in_run options active (en_path env)) (path_inputs_of (jb_config jb) (jb_files jb)))"
  by (simp_all add: run_suite_def Let_def)

text \<open>A predicate on the categories holds for all of them when it holds for each.\<close>

lemma category_cases:
  "key \<in> set CATEGORY_ORDER \<Longrightarrow> P ''protocol'' \<Longrightarrow> P ''status'' \<Longrightarrow> P ''crl'' \<Longrightarrow> P ''path_validation'' \<Longrightarrow> P ''ikev2'' \<Longrightarrow>
     P ''federal'' \<Longrightarrow> P ''performance'' \<Longrightarrow> P ''security'' \<Longrightarrow> P key"
  unfolding CATEGORY_ORDER_def by auto

lemma category_tests_simps:
  "category_tests urls ''protocol'' = names_of ''protocol''" "category_tests urls ''status'' = names_of ''status''"
  "category_tests urls ''path_validation'' = names_of ''path_validation''" "category_tests urls ''ikev2'' = names_of ''ikev2''"
  "category_tests urls ''federal'' = names_of ''federal''" "category_tests urls ''performance'' = names_of ''performance''"
  "category_tests urls ''security'' = names_of ''security''"
  by (simp_all add: category_tests_def)

lemmas suite_reports =
  protocol_reports status_reports ikev2_reports federal_reports security_reports

lemma suite_names:
  assumes "key \<in> set CATEGORY_ORDER" and "run_suite env jb url urls certs options key active = Inr rs"
  shows "map test_case.tc_name rs = filter (should_run active) (category_tests urls key)"
proof -
  let ?P = "\<lambda>key. run_suite env jb url urls certs options key active = Inr rs \<longrightarrow>
     map test_case.tc_name rs = filter (should_run active) (category_tests urls key)"
  from assms(1) have "?P key"
    by (rule category_cases [of _ ?P])
      (auto simp only: run_suite_simps sum.inject category_tests_simps run_federal_category_def
         suite_reports [THEN reports_names] path_suite_names crl_category_names in_run_simps dest: performance_names)
  with assms(2) show ?thesis by simp
qed

lemma load_slot_iff:
  "(\<exists>x. load_slot env files s = Inr x) \<longleftrightarrow> (truthy (dict_get files s) \<longrightarrow> loads env (the (dict_get files s)))"
  by (auto simp: load_slot_def loads_def split: sum.split)

text \<open>The worker reaches the engine only with certificates that loaded.\<close>

lemma certificates_loaded:
  assumes "truthy (dict_get files ''issuer_cert'')" and "certificates_load (loads env) files"
  shows "\<exists>certs. load_certs env files = Inr certs"
proof -
  have slots: "\<exists>x. load_slot env files s = Inr x" if "s \<in> {''good_cert'', ''revoked_cert'', ''unknown_ca_cert''}" for s
    using assms(2) that unfolding load_slot_iff certificates_load_def by auto
  obtain path where path: "dict_get files ''issuer_cert'' = Some path" "path \<noteq> []"
    using assms(1) by (cases "dict_get files ''issuer_cert''") auto
  with assms(2) have "loads env path" by (simp add: certificates_load_def)
  then obtain issuer where "load_cert env path = Inr issuer"
    by (auto simp: loads_def split: sum.splits)
  moreover have "dict_get_or files ''issuer_cert'' [] = path"
    using path by (simp add: dict_get_or_def)
  ultimately show ?thesis
    using slots [of "''good_cert''"] slots [of "''revoked_cert''"] slots [of "''unknown_ca_cert''"]
    by (auto simp: load_certs_def)
qed

end
