(* ===== verification/Engine_Results.thy ===== *)
theory Engine_Results
  imports Engine Worker_Properties
begin

text \<open>
  Every result the engine's suites produce can be emitted: its details carry nothing the enrichment of
  \<open>analysis.py\<close> stumbles over. So a category of the real engine ends without a crash, and its result events are its
  selected tests.
\<close>

section \<open>Details the enrichment can read\<close>

text \<open>The enrichment reads two entries of the details as lists.\<close>

fun is_list :: "json \<Rightarrow> bool" where
  "is_list (JList xs) = True"
| "is_list _ = False"

definition read_as_list :: "string \<Rightarrow> bool" where
  "read_as_list k \<longleftrightarrow> k = ''warnings'' \<or> k = ''rfc_refs''"

fun readable :: "(string \<times> json) list \<Rightarrow> bool" where
  "readable [] = True"
| "readable ((k, v) # d) = ((read_as_list k \<longrightarrow> is_list v) \<and> readable d)"

definition enrichable :: "test_case \<Rightarrow> bool" where
  "enrichable r \<longleftrightarrow> readable (tc_details r)"

lemma readable_append [simp]: "readable (d @ e) \<longleftrightarrow> readable d \<and> readable e"
  by (induction d rule: readable.induct) auto

lemma readable_iff: "readable d \<longleftrightarrow> list_all (\<lambda>(k, v). read_as_list k \<longrightarrow> is_list v) d"
  by (induction d rule: readable.induct) auto

lemma readable_update: "readable d \<Longrightarrow> (read_as_list k \<longrightarrow> is_list v) \<Longrightarrow> readable (AList.update k v d)"
  by (induction d rule: readable.induct) auto

lemma readable_foldl:
  "readable d \<Longrightarrow> readable acc \<Longrightarrow> readable (foldl (\<lambda>acc (k, v). dict_set k v acc) acc d)"
  by (induction d arbitrary: acc rule: readable.induct) (auto intro: readable_update)

lemma readable_entry:
  assumes "readable d" "read_as_list k"
  shows "\<exists>xs. jget d k (JList []) = JList xs"
proof (cases "map_of d k")
  case None
  then show ?thesis by (simp add: jget_def dict_get_or_def)
next
  case (Some v)
  then have "(k, v) \<in> set d" by (rule map_of_SomeD)
  with assms have "is_list v" by (auto simp: readable_iff list_all_iff)
  with Some show ?thesis by (cases v) (simp_all add: jget_def dict_get_or_def)
qed

lemma enrichable_simps [simp]:
  "enrichable (set_verdict s m r) = enrichable r" "enrichable (set_message m r) = enrichable r"
  "enrichable (ended env r) = enrichable r" "enrichable (new_case env c nm s)"
  by (simp_all add: enrichable_def set_verdict_def set_message_def ended_def new_case_def)

lemma enrichable_details [simp]: "readable d \<Longrightarrow> enrichable r \<Longrightarrow> enrichable (add_details d r)"
  by (simp add: enrichable_def add_details_def readable_foldl)

lemma enrichable_attached: "enrichable r \<Longrightarrow> enrichable (attach_diagnostics now records r)"
  by (auto simp: enrichable_def attach_diagnostics_def Let_def read_as_list_def intro!: readable_update)

text \<open>The enrichment of such a result succeeds.\<close>

lemma enrich_total:
  assumes "engine_config_ok cfg" and "enrichable r"
  shows "\<exists>p. enrich_result repr now (serialize_result we r) cfg = Inr p"
proof -
  have d: "jget (serialize_result we r) ''details'' v = JDict (tc_details r)"
    and nm: "jget (serialize_result we r) ''name'' v = JStr (test_case.tc_name r)"
    and cat: "jget (serialize_result we r) ''category'' v = JStr (tc_category r)" for v
    by (simp_all add: serialize_result_def)
  from assms(1) obtain age n where cfg: "jget cfg ''max_age_hours'' (JInt 24) = JInt age" "\<bar>age\<bar> \<le> 8760"
      "jget cfg ''nonce_length'' (JInt 32) = JInt n"
    by (auto simp: engine_config_ok_def)
  obtain given where given: "jget (tc_details r) ''warnings'' (JList []) = JList given"
    using assms(2) readable_entry [of "tc_details r" "''warnings''"] by (auto simp: enrichable_def read_as_list_def)
  obtain refs where refs: "jget (tc_details r) ''rfc_refs'' (JList []) = JList refs"
    using assms(2) readable_entry [of "tc_details r" "''rfc_refs''"] by (auto simp: enrichable_def read_as_list_def)
  obtain s where "nonce_length_warning (json_true (jget cfg ''nonce_enabled'' (JBool True))) n (JStr (test_case.tc_name r)) = Inr s"
    by (cases "json_true (jget cfg ''nonce_enabled'' (JBool True)) \<and> n < 32") (simp_all add: nonce_length_warning_def)
  with cfg given nm obtain ws where ws: "collect_warnings repr now (serialize_result we r) (tc_details r) cfg = Inr ws"
    by (simp add: collect_warnings_def Let_def del: bind_result_Inr)
  have "jget (if ws = [] then tc_details r else AList.update ''warnings'' (JList ws) (tc_details r)) ''rfc_refs'' (JList [])
      = JList refs"
    using refs by simp
  then show ?thesis
    by (simp add: enrich_result_def d ws cat category_refs_def Let_def del: bind_result_Inr)
qed

lemma emit_total:
  assumes "engine_config_ok cfg" and "enrichable r"
  shows "\<exists>w'. emit_result we cfg r w = Inr w' \<and> result_names w' = result_names w @ [JStr (test_case.tc_name r)]"
proof -
  obtain p where p: "enrich_result (wk_repr we) (wk_now we) (serialize_result we r) cfg = Inr p"
    using enrich_total [OF assms] by blast
  have "jget p ''name'' JNull = JStr (test_case.tc_name r)"
    unfolding enrich_name [OF p] by (simp add: serialize_result_def)
  with p show ?thesis by (simp add: emit_result_def result_names_payload)
qed

text \<open>So the results of a suite are streamed to the end, those that are selected.\<close>

lemma stream_total:
  assumes "engine_config_ok cfg" and "list_all (\<lambda>(r, _). enrichable r) rs"
  shows "fst (stream_results we cfg active rs w) = None
    \<and> result_names (snd (stream_results we cfg active rs w))
      = result_names w @ map (\<lambda>(r, _). JStr (test_case.tc_name r)) (filter (\<lambda>(r, _). should_run active (test_case.tc_name r)) rs)"
  using assms(2)
proof (induction rs arbitrary: w)
  case (Cons x rs)
  obtain r records where x: "x = (r, records)" by fastforce
  let ?r = "attach_diagnostics (wk_now we) records r"
  have nm: "test_case.tc_name ?r = test_case.tc_name r"
    by (simp add: attach_diagnostics_def Let_def)
  obtain w' where w': "emit_result we cfg ?r w = Inr w'" "result_names w' = result_names w @ [JStr (test_case.tc_name r)]"
    using emit_total [OF assms(1) enrichable_attached, of r we "wk_now we" records w] Cons.prems x nm by auto
  show ?case
    using Cons x w' by (simp add: stream_result_def)
qed simp

section \<open>The suites\<close>

lemma enrichable_run_test:
  "(\<And>r. enrichable r \<Longrightarrow> enrichable (body r)) \<Longrightarrow> list_all enrichable (run_test env c nm s body)"
  by (simp add: run_test_def)

lemma readable_status_details [simp]:
  "readable (timeliness_details env url issuer c info s)" "readable (der_details env url issuer c info s b f)"
  "readable (sha1_details env url issuer c info s)"
  by (simp_all add: timeliness_details_def der_details_def sha1_details_def read_as_list_def Let_def)

lemma enrichable_status_bodies:
  "enrichable r \<Longrightarrow> enrichable (valid_certificate_test env url issuer c r)"
  "enrichable r \<Longrightarrow> enrichable (revoked_certificate_test env url issuer c r)"
  "enrichable r \<Longrightarrow> enrichable (unknown_ca_test env url issuer c r)"
  "enrichable r \<Longrightarrow> enrichable (timeliness_test env url issuer x r)"
  by (simp_all add: valid_certificate_test_def revoked_certificate_test_def unknown_ca_test_def timeliness_test_def
      execution_failed_def read_as_list_def Let_def split: option.split sum.split)

lemma enrichable_protocol_bodies:
  "enrichable r \<Longrightarrow> enrichable (transport_test env url issuer leaf m r)"
  "enrichable r \<Longrightarrow> enrichable (der_test env url issuer leaf r)"
  "enrichable r \<Longrightarrow> enrichable (sha1_test env url issuer leaf r)"
  "enrichable r \<Longrightarrow> enrichable (serial_test leaf r)"
  by (simp_all add: transport_test_def der_test_def sha1_test_def serial_test_def execution_failed_def read_as_list_def
      Let_def split: sum.split)

lemma enrichable_status: "list_all enrichable (run_status_tests env url issuer good revoked unknown_ca)"
  unfolding run_status_tests_def list_all_append
  by (intro conjI enrichable_run_test enrichable_status_bodies) simp_all

lemma enrichable_protocol: "list_all enrichable (run_protocol_tests env url issuer leaf)"
  unfolding run_protocol_tests_def list_all_append
  by (intro conjI enrichable_run_test enrichable_protocol_bodies)

lemma enrichable_ikev2: "list_all enrichable (run_ikev2_tests env)"
  unfolding run_ikev2_tests_def list_all_append
  by (intro conjI enrichable_run_test) simp_all

lemma enrichable_perf_bodies:
  "enrichable r \<Longrightarrow> enrichable (latency_test env url issuer c n r)"
  "enrichable r \<Longrightarrow> enrichable (load_test env url issuer c b n r)"
  "enrichable r \<Longrightarrow> enrichable (caching_test env url issuer c r)"
  by (simp_all add: latency_test_def load_test_def caching_test_def read_as_list_def split: sum.split)

lemma enrichable_perf: "list_all enrichable (run_perf_tests env url issuer cert samples load conc reqs)"
  unfolding run_perf_tests_def list_all_append
  by (intro conjI enrichable_run_test enrichable_perf_bodies)

lemma readable_produced: "produced_issues env now info = (is, debug) \<Longrightarrow> readable debug"
  by (auto simp: produced_issues_def produced_debug_def read_as_list_def split: if_splits sum.splits)

lemma enrichable_crl_bodies:
  "enrichable r \<Longrightarrow> enrichable (response_signature_test env url issuer c r)"
  "enrichable r \<Longrightarrow> enrichable (signature_algorithm_test env url issuer c r)"
  "enrichable r \<Longrightarrow> enrichable (response_timestamp_test env url issuer c r)"
  by (simp_all add: response_signature_test_def signature_algorithm_test_def response_timestamp_test_def
      timestamp_details_def read_as_list_def Let_def readable_produced split: sum.split prod.split)

lemma enrichable_crl: "list_all enrichable (run_crl_tests env url issuer good revoked)"
  unfolding run_crl_tests_def list_all_append Let_def
  by (intro conjI enrichable_run_test enrichable_crl_bodies)

lemma enrichable_on_crl:
  assumes "enrichable r" and "\<And>us cs e. readable (not_found us cs e)"
    and "\<And>cs u b f. step cs u b = Inr f \<Longrightarrow> enrichable (f r)" "\<And>u e. enrichable (step_failed u e r)" "\<And>e. enrichable (failed e r)"
  shows "enrichable (on_crl env cert override m1 m2 not_found step step_failed failed r)"
proof (cases cert)
  case (Some c)
  have step: "enrichable (case step cs u b of Inl e \<Rightarrow> step_failed u e r | Inr f \<Rightarrow> f r)" for cs u b
    using assms(3,4) by (simp split: sum.split)
  show ?thesis
    by (simp add: on_crl_def Some Let_def assms(1,2,4,5) step split: sum.split prod.split option.split get_outcome.split)
qed (simp add: on_crl_def assms(1))

lemma enrichable_no_serial [simp]: "enrichable r \<Longrightarrow> enrichable (no_serial out err r)"
  by (simp add: no_serial_def read_as_list_def)

lemma enrichable_consistency_verdict [simp]: "enrichable r \<Longrightarrow> enrichable (consistency_verdict st serial out r)"
  by (simp add: consistency_verdict_def Let_def read_as_list_def split: prod.split)

lemma enrichable_simple_bodies:
  "enrichable r \<Longrightarrow> enrichable (cdp_extraction_test env good r)" "enrichable r \<Longrightarrow> enrichable (accessibility_test env good r)"
  by (simp_all add: cdp_extraction_test_def accessibility_test_def Let_def read_as_list_def
      split: option.split sum.split prod.split)

lemma enrichable_download: "enrichable r \<Longrightarrow> enrichable (download_test env cert override r)"
  unfolding download_test_def
  by (rule enrichable_on_crl) (auto simp: map_sum_def read_as_list_def split: sum.splits prod.splits)

lemma enrichable_signature: "enrichable r \<Longrightarrow> enrichable (crl_signature_test env issuer cert override r)"
  unfolding crl_signature_test_def
  by (rule enrichable_on_crl) (auto simp: signature_step_def map_sum_def signature_details_def read_as_list_def split: sum.splits prod.splits)

lemma readable_timestamp [simp]: "readable (crl_timestamp_details env now override cs u b t)"
  unfolding crl_timestamp_details_def Let_def by (simp add: read_as_list_def)

lemma enrichable_timestamp:
  assumes "enrichable r" shows "enrichable (crl_timestamp_test env cert override r)"
  unfolding crl_timestamp_test_def
proof (rule enrichable_on_crl [OF assms])
  fix cs u b f
  assume "map_sum id (\<lambda>out r.
      (let t = scan_times out; now = se_now (ce_suite env) (test_case.tc_name r); (status, message) = timestamp_verdict env now t
       in add_details (crl_timestamp_details env now override cs u b t) (set_verdict status message r)))
      (crl_time_text env (test_case.tc_name r) b) = Inr f"
  then show "enrichable (f r)"
    by (cases "crl_time_text env (test_case.tc_name r) b") (use assms in \<open>auto simp: Let_def split: prod.split\<close>)
qed (simp_all add: assms read_as_list_def)

lemma readable_revocation [simp]: "readable (revocation_details serial u b x y z)"
  by (simp add: revocation_details_def read_as_list_def)

text \<open>Case distinctions one by one, for the tests with many ends.\<close>

lemma enrichable_cases:
  "enrichable n \<Longrightarrow> (\<And>a. enrichable (f a)) \<Longrightarrow> enrichable (case x of None \<Rightarrow> n | Some a \<Rightarrow> f a)"
  "(\<And>a. enrichable (g a)) \<Longrightarrow> (\<And>b. enrichable (h b)) \<Longrightarrow> enrichable (case y of Inl a \<Rightarrow> g a | Inr b \<Rightarrow> h b)"
  "(\<And>a b. enrichable (k a b)) \<Longrightarrow> enrichable (case p of (a, b) \<Rightarrow> k a b)"
  "(\<And>c. enrichable (l c)) \<Longrightarrow> (\<And>e. enrichable (m e)) \<Longrightarrow> (\<And>e. enrichable (q e)) \<Longrightarrow>
     enrichable (case z of Body c \<Rightarrow> l c | Request_error e \<Rightarrow> m e | Other_error e \<Rightarrow> q e)"
  "(\<And>c out err. enrichable (u c out err)) \<Longrightarrow> enrichable n \<Longrightarrow> (\<And>e. enrichable (v e)) \<Longrightarrow>
     enrichable (case w of proc.Exited c out err \<Rightarrow> u c out err | Timed_out \<Rightarrow> n | Not_run e \<Rightarrow> v e)"
  "enrichable n \<Longrightarrow> enrichable n' \<Longrightarrow> enrichable (if b then n else n')"
  by (simp_all split: option.split sum.split prod.split get_outcome.split proc.split)

lemma enrichable_revocation:
  assumes [simp]: "enrichable r" shows "enrichable (revocation_test env good revoked override r)"
  unfolding revocation_test_def Let_def by (intro enrichable_cases) simp_all

lemma enrichable_consistency:
  assumes [simp]: "enrichable r" shows "enrichable (consistency_test env ocsp_url issuer cert override bound r)"
  unfolding consistency_test_def Let_def
  by (intro enrichable_cases enrichable_consistency_verdict enrichable_no_serial enrichable_simps(1,2) [THEN iffD2] assms)

lemma enrichable_explicit: "enrichable r \<Longrightarrow> enrichable (explicit_crl_test env n url r)"
  by (simp add: explicit_crl_test_def explicit_crl_verdict_def fetch_failed_def Let_def read_as_list_def
      split: option.split sum.split get_outcome.split)

lemma enrichable_comprehensive:
  "list_all enrichable (run_crl_comprehensive_tests env url issuer good revoked override)"
  unfolding run_crl_comprehensive_tests_def list_all_append Let_def
  by (intro conjI enrichable_run_test enrichable_simple_bodies enrichable_download enrichable_signature
      enrichable_timestamp enrichable_revocation enrichable_consistency)

lemma enrichable_explicit_tests: "list_all enrichable (explicit_crl_tests env n urls)"
  unfolding explicit_crl_tests_def
  by (induction urls) (simp_all add: enrichable_run_test [OF enrichable_explicit])

lemma enrichable_federal_bodies:
  "enrichable r \<Longrightarrow> enrichable (detection_test text fe u r)" "enrichable r \<Longrightarrow> enrichable (batch_test fenv c text r)"
  "enrichable r \<Longrightarrow> enrichable (signature_test fenv c i u r)" "enrichable r \<Longrightarrow> enrichable (eku_test fenv rc i text r)"
  "enrichable r \<Longrightarrow> enrichable (freshness_test fenv m text r)"
  by (simp_all add: detection_test_def batch_test_def signature_test_def eku_test_def freshness_test_def Let_def
      read_as_list_def split: option.split prod.split)

lemma enrichable_federal: "list_all enrichable (run_federal_tests fenv url issuer cert_path responder max_age)"
  by (cases "shared_response fenv (if truthy cert_path then the cert_path else issuer) issuer url")
    (simp only: run_federal_tests_def Let_def prod.case list_all_append, intro conjI enrichable_run_test enrichable_federal_bodies)

lemma readable_security_details [simp]:
  "readable (signed_response_details env url issuer c info s)" "readable (crypto_details env url issuer n s)"
  by (simp_all add: signed_response_details_def crypto_details_def read_as_list_def Let_def)

lemma enrichable_security_bodies:
  "enrichable r \<Longrightarrow> enrichable (malformed_request_test menv u c i r)"
  "enrichable r \<Longrightarrow> enrichable (operational_error_test menv u r)"
  "enrichable r \<Longrightarrow> enrichable (unauthorized_query_test menv u r)"
  "enrichable r \<Longrightarrow> enrichable (sigrequired_test menv u r)"
  "enrichable r \<Longrightarrow> enrichable (nonce_echo_test menv b u r)"
  "enrichable r \<Longrightarrow> enrichable (signed_response_test senv u c i r)"
  "enrichable r \<Longrightarrow> enrichable (crypto_preference_test menv b u i r)"
  by (simp_all add: malformed_request_test_def operational_error_test_def unauthorized_query_test_def sigrequired_test_def
      nonce_echo_test_def signed_response_test_def crypto_preference_test_def Let_def read_as_list_def
      split: sum.split prod.split)

lemma enrichable_security: "list_all enrichable (run_security_tests env config url issuer good)"
  unfolding run_security_tests_def Let_def list_all_append
  by (intro conjI enrichable_run_test enrichable_security_bodies)

lemma enrichable_path_test:
  "(\<And>x. readable (snd (snd (v x)))) \<Longrightarrow> (\<And>e. readable (h e)) \<Longrightarrow> list_all enrichable (path_test env c nm out v h)"
  by (auto simp: path_test_def path_case_def enrichable_def split: sum.split prod.split) (metis snd_conv)

lemma readable_negative: "readable (snd (snd (negative subject message details result))) = readable (details result)"
  by (simp add: negative_def)

lemma enrichable_path: "list_all enrichable (run_path_validation_tests env inputs)"
  unfolding path_runs_def path_tests_def Let_def list_all_append
  by (intro conjI enrichable_path_test)
    (simp_all add: readable_negative chaining_details_def read_as_list_def split: prod.split chaining.split)

lemma enrichable_crl_category: "list_all enrichable (run_crl_category env n url urls certs)"
  unfolding run_crl_category_def list_all_append
  by (intro conjI enrichable_crl enrichable_comprehensive enrichable_explicit_tests)

lemma enrichable_performance: "run_performance env cfg url certs = Inr rs \<Longrightarrow> list_all enrichable rs"
  by (auto simp: run_performance_def enrichable_perf)

text \<open>So each suite delivers its selected tests, and each result can be emitted.\<close>

lemma suite_enrichable:
  assumes "key \<in> set CATEGORY_ORDER" and "run_suite env jb url urls certs options key active = Inr rs"
  shows "list_all enrichable rs"
proof -
  let ?P = "\<lambda>key. run_suite env jb url urls certs options key active = Inr rs \<longrightarrow> list_all enrichable rs"
  from assms(1) have "?P key"
    by (rule category_cases [of _ ?P])
      (auto simp only: run_suite_simps sum.inject run_federal_category_def enrichable_protocol enrichable_status
         enrichable_crl_category enrichable_path enrichable_ikev2 enrichable_federal enrichable_security
         dest: enrichable_performance)
  with assms(2) show ?thesis by simp
qed

section \<open>A run of the engine\<close>

lemma result_names_emit [simp]: "t \<noteq> ''result'' \<Longrightarrow> result_names (emit t d w) = result_names w"
  by (simp add: result_names_def emit_def map_filter_def)

lemma result_names_helpers [simp]:
  "result_names (worker_log l m w) = result_names w" "result_names (progress a n t w) = result_names w"
  "result_names (open_category label n t w) = result_names w"
  "result_names (announce_selection label sel w) = result_names w" "result_names (announce_run keys sel' w) = result_names w"
  by (simp_all add: worker_log_def progress_def open_category_def announce_selection_def announce_run_def Let_def
      split: option.split)

lemma run_category_exact:
  assumes "engine_config_ok cfg" and "category_selection sel key (wk_repr we) = Inr selected"
    and "engine key (set_active selected) = (map (\<lambda>r. (r, rec r)) rs, None)" and "list_all enrichable rs"
  shows "fst (run_category we engine cfg sel n t key w) = None
    \<and> result_names (snd (run_category we engine cfg sel n t key w))
      = result_names w @ map JStr (filter (should_run (set_active selected)) (map test_case.tc_name rs))"
proof -
  let ?rs = "map (\<lambda>r. (r, rec r)) rs"
  have "list_all (\<lambda>(r, _). enrichable r) ?rs"
    using assms(4) by (simp add: list_all_iff)
  moreover have "map (\<lambda>(r, _). JStr (test_case.tc_name r)) (filter (\<lambda>(r, _). should_run active (test_case.tc_name r)) ?rs)
      = map JStr (filter (should_run active) (map test_case.tc_name rs))" for active
    by (induction rs) simp_all
  ultimately show ?thesis
    using stream_total [OF assms(1), of ?rs we "set_active selected"
        "announce_selection (label_of key) selected (open_category (label_of key) n t w)"]
    by (simp add: run_category_def assms(2,3) Let_def)
qed

text \<open>The selection of a category, and the names of the results of a whole run.\<close>

definition selection_of :: "(string \<times> json) list option \<Rightarrow> (json \<Rightarrow> string) \<Rightarrow> string \<Rightarrow> string list option" where
  "selection_of sel repr key = (case category_selection sel key repr of Inl _ \<Rightarrow> None | Inr selected \<Rightarrow> selected)"

definition selected_tests ::
  "(string \<times> json) list option \<Rightarrow> (json \<Rightarrow> string) \<Rightarrow> string list \<Rightarrow> string list \<Rightarrow> string list" where
  "selected_tests sel repr crl_urls keys =
     concat (map (\<lambda>key. filter (should_run (set_active (selection_of sel repr key))) (category_tests crl_urls key)) keys)"

lemma run_categories_exact:
  assumes "engine_config_ok cfg" and "selection_ok sel" and "\<And>k. \<not> cancel k"
    and "\<And>key active. key \<in> set keys \<Longrightarrow> \<exists>rs rec. engine key active = (map (\<lambda>r. (r, rec r)) rs, None)
      \<and> list_all enrichable rs \<and> map test_case.tc_name rs = filter (should_run active) (category_tests urls key)"
  shows "fst (run_categories we engine cfg sel cancel n t keys w) = Completed
    \<and> result_names (snd (run_categories we engine cfg sel cancel n t keys w))
      = result_names w @ map JStr (selected_tests sel (wk_repr we) urls keys)"
  using assms(4)
proof (induction keys arbitrary: n w)
  case Nil
  then show ?case by (simp add: selected_tests_def)
next
  case (Cons key keys)
  obtain selected where sel: "category_selection sel key (wk_repr we) = Inr selected"
    using category_selection_ok [OF assms(2)] by blast
  obtain rs rec where rs: "engine key (set_active selected) = (map (\<lambda>r. (r, rec r)) rs, None)" "list_all enrichable rs"
      "map test_case.tc_name rs = filter (should_run (set_active selected)) (category_tests urls key)"
    using Cons.prems [of key "set_active selected"] by auto
  obtain e w1 where rc: "run_category we engine cfg sel n t key w = (e, w1)" by fastforce
  from run_category_exact [of cfg sel key we selected engine rec rs n t w] assms(1) sel rs rc
  have w1: "e = None" "result_names w1 = result_names w
      @ map JStr (filter (should_run (set_active selected)) (category_tests urls key))"
    by simp_all
  show ?case
    using Cons.IH [of "n + 1" w1] Cons.prems rc w1 sel assms(3)
    by (simp add: selected_tests_def selection_of_def)
qed

text \<open>The engine of a job whose configuration was accepted.\<close>

lemma performance_total:
  "\<exists>rs. run_performance env (dict_set ''resolved_test_selection'' v (dump_run_config c)) url certs = Inr rs"
proof -
  let ?cfg = "dict_set ''resolved_test_selection'' v (dump_run_config c)"
  have "jget ?cfg ''latency_samples'' (JInt 5) = JInt (rc_latency_samples c)"
    "jget ?cfg ''load_concurrency'' (JInt 5) = JInt (rc_load_concurrency c)"
    "jget ?cfg ''load_requests'' (JInt 50) = JInt (rc_load_requests c)"
    by (simp_all add: dump_run_config_def)
  then show ?thesis by (simp add: run_performance_def del: bind_result_Inr)
qed

lemma run_suite_total:
  assumes "key \<in> set CATEGORY_ORDER" and "jb_config jb = dict_set ''resolved_test_selection'' v (dump_run_config c)"
  shows "\<exists>rs. run_suite env jb url urls certs options key active = Inr rs"
  using assms(1)
  by (rule category_cases [of _ "\<lambda>key. \<exists>rs. run_suite env jb url urls certs options key active = Inr rs"])
    (simp_all only: run_suite_simps assms(2) performance_total sum.inject, blast+)

lemma suite_engine_delivers:
  assumes "key \<in> set CATEGORY_ORDER" and "jb_config jb = dict_set ''resolved_test_selection'' v (dump_run_config c)"
    and "config_urls (jb_config jb) = Inr (url # urls)" and "load_certs (en_files env) (jb_files jb) = Inr certs"
  shows "\<exists>rs rec. suite_engine env jb options key active = (map (\<lambda>r. (r, rec r)) rs, None)
    \<and> list_all enrichable rs \<and> map test_case.tc_name rs = filter (should_run active) (category_tests urls key)"
proof -
  obtain rs where rs: "run_suite env jb url urls certs options key active = Inr rs"
    using run_suite_total [OF assms(1,2)] by blast
  then have "suite_engine env jb options key active = (map (\<lambda>r. (r, en_records env (test_case.tc_name r))) rs, None)"
    by (simp add: suite_engine_def assms(3,4))
  with suite_enrichable [OF assms(1) rs] suite_names [OF assms(1) rs] show ?thesis
    by (intro exI [of _ rs] exI [of _ "\<lambda>r. en_records env (test_case.tc_name r)"]) simp
qed

lemma enabled_in_order: "set (enabled_keys cfg) \<subseteq> set CATEGORY_ORDER"
  by (auto simp: enabled_keys_def split: json.splits)

lemma run_enabled_exact:
  assumes "valid_run_config c" and "jb_config jb = dict_set ''resolved_test_selection'' resolved (dump_run_config c)"
    and "selection_ok (json_dict resolved)" and "\<And>k. \<not> cancel k"
    and "config_urls (jb_config jb) = Inr (url # urls)" and "load_certs (en_files env) (jb_files jb) = Inr certs"
  shows "fst (run_enabled we (suite_engine env jb options) cancel (jb_config jb) w) = Completed
    \<and> result_names (snd (run_enabled we (suite_engine env jb options) cancel (jb_config jb) w))
      = result_names w @ map JStr (selected_tests (json_dict resolved) (wk_repr we) urls (enabled_keys (dump_run_config c)))"
proof -
  let ?cfg = "jb_config jb" and ?keys = "enabled_keys (dump_run_config c)"
  have keys: "enabled_keys ?cfg = ?keys" and sel: "jget ?cfg ''resolved_test_selection'' JNull = resolved"
    by (simp_all add: assms(2) enabled_keys_def)
  have ok: "engine_config_ok ?cfg"
    using submitted_config_ok [OF assms(1)] assms(2) by simp
  have "\<exists>rs rec. suite_engine env jb options key active = (map (\<lambda>r. (r, rec r)) rs, None)
      \<and> list_all enrichable rs \<and> map test_case.tc_name rs = filter (should_run active) (category_tests urls key)"
    if "key \<in> set ?keys" for key active
    using suite_engine_delivers [OF _ assms(2,5,6), of key options active] that enabled_in_order by blast
  from run_categories_exact [where cancel = cancel, OF ok assms(3,4) this,
      where we = we and n = 0 and t = "length ?keys" and w = "announce_run ?keys (json_dict resolved) w"]
  show ?thesis
    by (simp add: run_enabled_def keys sel Let_def)
qed

end
