(* ===== verification/Runner.thy ===== *)
theory Runner
  imports Engine Exports
begin

text \<open>
  The engine without the web application: \<open>TestRunner.run_all\<close> (\<open>ocsp_tester/runner.py\<close>), the exporters
  (\<open>ocsp_tester/exporters.py\<close>) and the command line (\<open>cli.py\<close>). The suites are those of the worker, under the
  options and the selection of their environments. The debug log is left out.
\<close>

section \<open>Inputs\<close>

record test_inputs =
  ti_ocsp_url :: string
  ti_issuer_path :: string
  ti_known_good_cert_path :: "string option"
  ti_known_revoked_cert_path :: "string option"
  ti_unknown_ca_cert_path :: "string option"
  ti_latency_samples :: int
  ti_enable_load_test :: bool
  ti_load_concurrency :: int
  ti_load_requests :: int
  ti_crl_override_url :: "string option"
  ti_trust_anchor_path :: "string option"
  ti_trust_anchor_type :: string
  ti_require_explicit_policy :: bool
  ti_inhibit_policy_mapping :: bool
  ti_config :: "(security_config \<times> int) option"

type_synonym toggles = "(string \<times> bool) list option"

definition err_result :: "suite_env \<Rightarrow> string \<Rightarrow> string \<Rightarrow> string \<Rightarrow> test_case" where
  "err_result env category nm msg = ended env (set_message msg (new_case env category nm ERROR))"

text \<open>A result that ends the run before it starts; a URL the library cannot parse raises out of the runner.\<close>

definition validate_inputs :: "suite_env \<Rightarrow> test_inputs \<Rightarrow> test_case option result" where
  "validate_inputs env inputs =
     (let refuse = (\<lambda>msg. Inr (Some (err_result env ''Setup'' ''Validate inputs'' msg)))
      in if strip (ti_ocsp_url inputs) = [] then refuse ''OCSP URL is required''
         else case urlsplit (strip (ti_ocsp_url inputs)) of
                None \<Rightarrow> Inl (Uncaught ''ValueError'')
              | Some u \<Rightarrow>
                  if up_scheme u \<notin> {''http'', ''https''} then refuse ''OCSP URL must be an http(s) URL''
                  else if strip (ti_issuer_path inputs) = [] then refuse ''Issuer certificate path is required''
                  else Inr None)"

text \<open>An optional certificate: what loads, and the result that says it did not.\<close>

definition load_optional ::
  "suite_env \<Rightarrow> file_env \<Rightarrow> string \<Rightarrow> string option \<Rightarrow> certificate option \<times> test_case list" where
  "load_optional env files nm path =
     (if \<not> truthy path then (None, [])
      else case load_cert files (the path) of
             Inr c \<Rightarrow> (Some c, [])
           | Inl e \<Rightarrow> (None, [err_result env ''Setup'' nm (snd e)]))"

section \<open>Running the suites\<close>

definition toggle :: "toggles \<Rightarrow> string \<Rightarrow> bool \<Rightarrow> bool" where
  "toggle categories flag dflt =
     (case categories of None \<Rightarrow> True | Some d \<Rightarrow> d = [] \<or> dict_get_or d flag dflt)"

definition federal_toggle :: "toggles \<Rightarrow> bool" where
  "federal_toggle categories =
     (case categories of None \<Rightarrow> False | Some d \<Rightarrow> d \<noteq> [] \<and> dict_get_or d ''federal_tests'' False)"

text \<open>\<open>try: results.extend(run()) except Exception as exc: results.append(_err(...))\<close>\<close>

definition guarded :: "suite_env \<Rightarrow> bool \<Rightarrow> string \<Rightarrow> string \<Rightarrow> exn + test_case list \<Rightarrow> test_case list" where
  "guarded env enabled category nm outcome =
     (if \<not> enabled then []
      else case outcome of Inr rs \<Rightarrow> rs | Inl e \<Rightarrow> [err_result env category nm (snd e)])"

definition security_config_of :: "test_inputs \<Rightarrow> security_config" where
  "security_config_of inputs =
     (case ti_config inputs of
        None \<Rightarrow> \<lparr>sc_nonce_enabled = True, sc_test_cryptographic_preferences = True\<rparr>
      | Some (c, _) \<Rightarrow> c)"

definition max_age_of :: "test_inputs \<Rightarrow> int" where
  "max_age_of inputs = (case ti_config inputs of None \<Rightarrow> 24 | Some (_, n) \<Rightarrow> n)"

definition runner_path_inputs :: "test_inputs \<Rightarrow> path_inputs" where
  "runner_path_inputs inputs =
     \<lparr>pi_issuer_path = Some (ti_issuer_path inputs), pi_good_cert_path = ti_known_good_cert_path inputs,
      pi_trust_anchor_path = ti_trust_anchor_path inputs, pi_trust_anchor_type = ti_trust_anchor_type inputs,
      pi_require_explicit_policy = ti_require_explicit_policy inputs,
      pi_inhibit_policy_mapping = ti_inhibit_policy_mapping inputs\<rparr>"

definition run_suites :: "engine_env \<Rightarrow> test_inputs \<Rightarrow> toggles \<Rightarrow> run_certs \<Rightarrow> test_case list" where
  "run_suites env inputs categories certs =
     (let senv = en_suite env; url = ti_ocsp_url inputs; issuer = rn_issuer certs; sample = sample_of certs;
          ocsp = toggle categories ''ocsp_tests'' True; crl = toggle categories ''crl_tests'' True
      in guarded senv ocsp ''Protocol'' ''Run protocol tests'' (Inr (run_protocol_tests senv url issuer sample)) @
         guarded senv ocsp ''Status'' ''Run status tests''
           (Inr (run_status_tests senv url issuer (rn_good certs) (rn_revoked certs) (rn_unknown_ca certs))) @
         guarded senv ocsp ''Security'' ''Run security tests''
           (Inr (run_security_tests (en_security env) (security_config_of inputs) url issuer (Some sample))) @
         guarded senv (toggle categories ''performance_tests'' False) ''Performance'' ''Run performance tests''
           (Inr (run_perf_tests senv url issuer sample (ti_latency_samples inputs) (ti_enable_load_test inputs)
             (ti_load_concurrency inputs) (ti_load_requests inputs))) @
         guarded senv crl ''CRL'' ''Run CRL tests''
           (Inr (run_crl_tests senv url issuer (rn_good certs) (rn_revoked certs))) @
         guarded senv crl ''CRL'' ''Run comprehensive CRL tests''
           (Inr (run_crl_comprehensive_tests (en_crl env) url issuer (rn_good certs) (rn_revoked certs) (ti_crl_override_url inputs))) @
         guarded senv (toggle categories ''ikev2_tests'' False) ''IKEv2'' ''Run IKEv2 tests'' (Inr (run_ikev2_tests senv)) @
         guarded senv (federal_toggle categories) ''Federal PKI'' ''Run Federal PKI tests''
           (Inr (run_federal_tests (en_federal env) url (ti_issuer_path inputs)
             (if truthy (ti_known_good_cert_path inputs) then ti_known_good_cert_path inputs
              else ti_known_revoked_cert_path inputs) None (max_age_of inputs))) @
         guarded senv (toggle categories ''path_validation_tests'' True) ''Path Validation''
           ''Run certificate path validation tests''
           (Inr (run_path_validation_tests (en_path env) (runner_path_inputs inputs))))"

definition run_validated :: "engine_env \<Rightarrow> test_inputs \<Rightarrow> toggles \<Rightarrow> test_case list" where
  "run_validated env inputs categories =
     (let senv = en_suite env; files = en_files env
      in case load_cert files (ti_issuer_path inputs) of
           Inl e \<Rightarrow> [err_result senv ''Setup'' ''Load issuer certificate'' (snd e)]
         | Inr issuer \<Rightarrow>
             (let (good, e1) = load_optional senv files ''Load known-good certificate'' (ti_known_good_cert_path inputs);
                  (revoked, e2) = load_optional senv files ''Load known-revoked certificate'' (ti_known_revoked_cert_path inputs);
                  (unknown_ca, e3) = load_optional senv files ''Load unknown-CA certificate'' (ti_unknown_ca_cert_path inputs)
              in e1 @ e2 @ e3 @ run_suites env inputs categories
                   \<lparr>rn_issuer = issuer, rn_good = good, rn_revoked = revoked, rn_unknown_ca = unknown_ca\<rparr>))"

definition run_all :: "engine_env \<Rightarrow> test_inputs \<Rightarrow> toggles \<Rightarrow> test_case list result" where
  "run_all env inputs categories =
     bind_result (validate_inputs (en_suite env) inputs) (\<lambda>refused.
       Inr (case refused of Some r \<Rightarrow> [r] | None \<Rightarrow> run_validated env inputs categories))"

section \<open>Exporters\<close>

text \<open>\<open>isoformat\<close> renders a naive time; \<open>dumps\<close> is \<open>json.dumps\<close>.\<close>

definition exported_result :: "(int \<Rightarrow> string) \<Rightarrow> test_case \<Rightarrow> json" where
  "exported_result isoformat r =
     JDict [(''id'', JStr (tc_id r)), (''name'', JStr (test_case.tc_name r)), (''category'', JStr (tc_category r)),
       (''status'', JStr (status_value (tc_status r))), (''message'', JStr (tc_message r)), (''details'', JDict (tc_details r)),
       (''started_at'', JStr (isoformat (tc_started_at r) @ ''Z'')),
       (''ended_at'', json_opt (\<lambda>t. JStr (isoformat t @ ''Z'')) (tc_ended_at r)),
       (''duration_ms'', json_opt JInt (tc_duration_ms r))]"

definition export_results_json :: "(int \<Rightarrow> string) \<Rightarrow> test_case list \<Rightarrow> json" where
  "export_results_json isoformat results = JList (map (exported_result isoformat) results)"

definition RESULT_COLUMNS :: "string list" where
  "RESULT_COLUMNS = [''id'', ''category'', ''name'', ''status'', ''message'', ''duration_ms'', ''details'']"

definition result_cells :: "(json \<Rightarrow> string) \<Rightarrow> test_case \<Rightarrow> string list" where
  "result_cells dumps r =
     [tc_id r, tc_category r, test_case.tc_name r, status_value (tc_status r), tc_message r,
      (case tc_duration_ms r of None \<Rightarrow> [] | Some d \<Rightarrow> show_int d), dumps (JDict (tc_details r))]"

definition export_results_csv :: "(json \<Rightarrow> string) \<Rightarrow> test_case list \<Rightarrow> string" where
  "export_results_csv dumps results = concat (map csv_row (RESULT_COLUMNS # map (result_cells dumps) results))"

section \<open>The command line\<close>

definition CATEGORY_FLAGS :: "(string, string) dict" where
  "CATEGORY_FLAGS = [
     (''protocol'', ''ocsp_tests''), (''status'', ''ocsp_tests''), (''security'', ''ocsp_tests''), (''crl'', ''crl_tests''),
     (''path_validation'', ''path_validation_tests''), (''ikev2'', ''ikev2_tests''), (''federal'', ''federal_tests''),
     (''performance'', ''performance_tests'')]"

definition chosen_categories :: "string \<Rightarrow> string list" where
  "chosen_categories categories = remdups (filter (\<lambda>c. c \<noteq> []) (map strip (split_on (CHR '','') categories)))"

text \<open>\<open>Inl\<close> holds the unknown categories, on which the parser ends the program.\<close>

definition cli_toggles :: "string \<Rightarrow> string list + (string \<times> bool) list" where
  "cli_toggles categories =
     (let selected = chosen_categories categories;
          unknown = filter (\<lambda>c. dict_get CATEGORY_FLAGS c = None) selected
      in if unknown \<noteq> [] then Inl (sort unknown)
         else Inr (map (\<lambda>flag. (flag, list_ex (\<lambda>c. dict_get CATEGORY_FLAGS c = Some flag) selected))
                (remdups (map snd CATEGORY_FLAGS))))"

definition status_count :: "test_status \<Rightarrow> test_case list \<Rightarrow> nat" where
  "status_count s results = length (filter (\<lambda>r. tc_status r = s) results)"

fun marker :: "test_status \<Rightarrow> char" where
  "marker PASS = CHR ''+''" | "marker FAIL = CHR ''x''" | "marker WARN = CHR ''!''" | "marker SKIP = CHR ''-''"
| "marker ERROR = CHR ''E''"

definition result_line :: "test_case \<Rightarrow> string" where
  "result_line r =
     (let status = status_value (tc_status r)
      in ''['' @ [marker (tc_status r)] @ ''] '' @ status @ replicate (5 - length status) (CHR '' '') @ '' '' @ tc_category r @
         '': '' @ test_case.tc_name r @ '' '' @ em_dash @ '' '' @ tc_message r)"

definition total_line :: "test_case list \<Rightarrow> string" where
  "total_line results =
     ''Total: '' @ show_nat (length results) @ ''  '' @
     join_with ''  '' (map (\<lambda>s. status_value s @ '': '' @ show_nat (status_count s results))
       (filter (\<lambda>s. status_count s results \<noteq> 0) [PASS, FAIL, WARN, SKIP, ERROR]))"

definition exit_code :: "test_case list \<Rightarrow> nat" where
  "exit_code results = (if status_count FAIL results \<noteq> 0 \<or> status_count ERROR results \<noteq> 0 then 1 else 0)"

text \<open>\<open>main\<close>, the parsed arguments given: the lines printed for the results and the exit code; the parser's own exit
  code is 2, that of an exception 1.\<close>

definition cli_main :: "engine_env \<Rightarrow> test_inputs \<Rightarrow> string \<Rightarrow> string list \<times> nat" where
  "cli_main env inputs categories =
     (case cli_toggles categories of
        Inl unknown \<Rightarrow> ([''Unknown categories: '' @ join_with '', '' unknown], 2)
      | Inr toggles \<Rightarrow>
          (case run_all env inputs (Some toggles) of
             Inl e \<Rightarrow> ([], 1)
           | Inr results \<Rightarrow> (map result_line results @ [[], total_line results], exit_code results)))"

section \<open>What the runner reports\<close>

text \<open>No selection is active on the command line.\<close>

definition unrestricted :: "engine_env \<Rightarrow> bool" where
  "unrestricted env \<longleftrightarrow>
     se_selection (en_suite env) = None \<and> se_selection (ce_suite (en_crl env)) = None \<and>
     se_selection (me_suite (en_security env)) = None \<and> se_selection (me_suite (fe_monitor (en_federal env))) = None \<and>
     se_selection (pe_suite (en_path env)) = None"

definition runner_tests :: "toggles \<Rightarrow> string list" where
  "runner_tests categories =
     (if toggle categories ''ocsp_tests'' True then names_of ''protocol'' @ names_of ''status'' @ names_of ''security'' else []) @
     (if toggle categories ''performance_tests'' False then names_of ''performance'' else []) @
     (if toggle categories ''crl_tests'' True then butlast (names_of ''crl'') else []) @
     (if toggle categories ''ikev2_tests'' False then names_of ''ikev2'' else []) @
     (if federal_toggle categories then names_of ''federal'' else []) @
     (if toggle categories ''path_validation_tests'' True then names_of ''path_validation'' else [])"

lemma should_run_all [simp]: "filter (should_run None) xs = xs"
  by (simp add: should_run_def)

lemma guarded_names [simp]:
  "map test_case.tc_name (guarded env b c nm (Inr rs)) = (if b then map test_case.tc_name rs else [])"
  by (simp add: guarded_def)

lemma crl_names: "butlast (names_of ''crl'') = [''OCSP response signature validation'', ''Signature algorithm validation'',
     ''Response timestamp validation''] @ comprehensive_names"
  using crl_category_tests [of "[]"] by (simp add: category_tests_def)

lemma run_suites_names:
  assumes "unrestricted env"
  shows "map test_case.tc_name (run_suites env inputs categories certs) = runner_tests categories"
  using assms unfolding unrestricted_def
  by (simp add: run_suites_def runner_tests_def crl_names Let_def suite_reports [THEN reports_names] perf_reports [THEN reports_names]
      crl_basic_reports [THEN reports_names] crl_comprehensive_reports [THEN reports_names] path_suite_names)

lemma err_result_simps [simp]:
  "tc_status (err_result env c nm msg) = ERROR" "test_case.tc_name (err_result env c nm msg) = nm"
  by (simp_all add: err_result_def)

lemma exit_code_iff: "exit_code results = 0 \<longleftrightarrow> list_all (\<lambda>r. tc_status r \<notin> {FAIL, ERROR}) results"
  by (auto simp: exit_code_def status_count_def filter_empty_conv list_all_iff)

end
