(* ===== verification/Sample_Engine.thy ===== *)
theory Sample_Engine
  imports Runner Sample_Runs
begin

text \<open>
  A small concrete surrounding of the engine on which the hypotheses of its properties are shown to be satisfiable:
  a responder that answers every request with one good status, certificate files that load, commands that fail.
\<close>

definition sample_suite :: suite_env where
  "sample_suite = \<lparr>se_build = (\<lambda>s n. Inr ''REQUEST''), se_urandom = (\<lambda>nm i n. replicate n (CHR ''a'')), se_quote_b64 = (\<lambda>s. s),
     se_exchange = (\<lambda>nm i r. Inr (''RESPONSE'', 5)),
     se_parse = (\<lambda>s. Inr \<lparr>pr_status = ''SUCCESSFUL'', pr_responses = [\<lparr>sr_status = ''GOOD'', sr_reason = None,
       sr_revocation_time = None, sr_this_update = Some 0, sr_next_update = Some 100\<rparr>]\<rparr>),
     se_asn1 = (\<lambda>s. None), se_strftime = show_int, se_runtime = no_overrides, se_selection = None, se_uuid = (\<lambda>nm. nm),
     se_started = (\<lambda>nm. 0), se_ended = (\<lambda>nm. 1), se_now = (\<lambda>nm. 50), se_subject = x_subject,
     se_fromisoformat = (\<lambda>s. Inl (''ValueError'', s)), se_isoformat = show_int, se_order = (\<lambda>nm n. [0..<n])\<rparr>"

definition sample_crl :: crl_env where
  "sample_crl = \<lparr>ce_suite = sample_suite, ce_get = (\<lambda>nm n url t. Request_error (''ConnectionError'', ''refused'')),
     ce_head = (\<lambda>nm n url. Answered 404), ce_run = (\<lambda>nm cmd files t. proc.Exited 1 [] []), ce_path = (\<lambda>nm p. p @ nm),
     ce_str_time = show_int, ce_iso_time = show_int, ce_key_size = (\<lambda>k. None),
     ce_load_der_crl = (\<lambda>s. Inl (''ValueError'', s)), ce_load_pem_crl = (\<lambda>s. Inl (''ValueError'', s)),
     ce_blocked_reason = (\<lambda>e. None)\<rparr>"

definition sample_monitor :: monitor_env where
  "sample_monitor = \<lparr>me_suite = sample_suite, me_run = (\<lambda>step cmd files t. proc.Exited 1 [] []), me_utcnow = (\<lambda>s. 50),
     me_local_now = (\<lambda>s. ''now''), me_iso_time = show_int, me_pem_serial = (\<lambda>s. Inr 7),
     me_post = (\<lambda>s u b t. Inr (200, ''RESPONSE'')), me_path = (\<lambda>s. s), me_hex = (\<lambda>s. ''00''), me_written = (\<lambda>s. [])\<rparr>"

definition sample_federal :: federal_env where
  "sample_federal = \<lparr>fe_monitor = sample_monitor, fe_path_exists = (\<lambda>p. False), fe_signer_path = ''signer.pem''\<rparr>"

text \<open>An authority that signed itself and an end-entity certificate.\<close>

definition plain_extensions :: extension_view where
  "plain_extensions = \<lparr>ev_basic_constraints = Some (True, None), ev_key_cert_sign = Some True, ev_aia = None,
     ev_policies = None, ev_policy_mappings = None\<rparr>"

definition sample_ca :: chain_cert where
  "sample_ca = \<lparr>cc_subject = ''ca'', cc_issuer = ''ca'', cc_serial = 1, cc_not_before = 0, cc_not_after = 100,
     cc_public_key = RSAKey 2048, cc_signature_oid = ''1.2.840.113549.1.1.11'', cc_extensions = Inr plain_extensions\<rparr>"

definition sample_leaf :: chain_cert where
  "sample_leaf = sample_ca\<lparr>cc_subject := ''leaf'', cc_serial := 2\<rparr>"

definition sample_pv :: pv_env where
  "sample_pv = \<lparr>pv_rsa_verify = (\<lambda>c i h. cc_subject i = ''ca''), pv_str_time = show_int, pv_isoformat = show_int,
     pv_rfc4514 = (\<lambda>n. n), pv_str_oid = (\<lambda>n. n), pv_key_type = (\<lambda>k. ''RSA''), pv_key_size = (\<lambda>k. Some 2048)\<rparr>"

definition sample_aia :: aia_env where
  "sample_aia = \<lparr>ae_pv = sample_pv, ae_get = (\<lambda>n u. Inr (''CA'', ''application/pkix-cert'')), ae_pem = (\<lambda>s. Inl (''ValueError'', s)),
     ae_der = (\<lambda>s. Inr sample_ca), ae_pkcs7 = (\<lambda>s. Inl (''ValueError'', s)), ae_openssl = (\<lambda>s. Inr (1, [], []))\<rparr>"

definition sample_path :: path_env where
  "sample_path = \<lparr>pe_suite = sample_suite, pe_aia = sample_aia, pe_read = (\<lambda>p. Inr p), pe_utc_iso = (\<lambda>nm. ''now''),
     pe_local_iso = (\<lambda>nm. ''now'')\<rparr>"

definition sample_files :: file_env where
  "sample_files = \<lparr>fl_exists = (\<lambda>p. True), fl_read = (\<lambda>p. Inr p), fl_pem = (\<lambda>d. Inr sample_certificate),
     fl_der = (\<lambda>d. Inl (''ValueError'', d))\<rparr>"

definition sample_engine :: engine_env where
  "sample_engine = \<lparr>en_suite = sample_suite, en_crl = sample_crl, en_security = sample_monitor, en_federal = sample_federal,
     en_path = sample_path, en_files = sample_files, en_records = (\<lambda>nm. [])\<rparr>"

lemma sample_engine_simps [simp]:
  "en_suite sample_engine = sample_suite" "en_crl sample_engine = sample_crl" "en_security sample_engine = sample_monitor"
  "en_federal sample_engine = sample_federal" "en_path sample_engine = sample_path" "en_files sample_engine = sample_files"
  "ce_suite sample_crl = sample_suite" "me_suite sample_monitor = sample_suite" "fe_monitor sample_federal = sample_monitor"
  "pe_suite sample_path = sample_suite" "pe_aia sample_path = sample_aia" "ae_pv sample_aia = sample_pv"
  "se_selection sample_suite = None"
  by (simp_all add: sample_engine_def sample_crl_def sample_monitor_def sample_federal_def sample_path_def sample_aia_def
      sample_suite_def)

lemma sample_loads [simp]: "load_cert sample_files ''ca.pem'' = Inr sample_certificate" "loads sample_files ''ca.pem''"
  by (simp_all add: loads_def load_cert_def sample_files_def strip_def lstrip_def rstrip_by_def is_space_def)

text \<open>A run of the IKEv2 category alone.\<close>

definition ikev2_only :: run_config where
  "ikev2_only = sample_config\<lparr>rc_categories := \<lparr>cat_protocol = False, cat_status = False, cat_crl = False,
     cat_path_validation = False, cat_ikev2 = True, cat_federal = False, cat_performance = False, cat_security = False\<rparr>\<rparr>"

definition sample_job :: job where
  "sample_job = \<lparr>jb_run_id = ''run'', jb_config = dict_set ''resolved_test_selection'' JNull (dump_run_config ikev2_only),
     jb_files = [(''issuer_cert'', ''ca.pem'')], jb_policy = workspace_policy default_settings sample_ctx\<rparr>"

lemma ikev2_only_valid [simp]: "valid_run_config ikev2_only"
  using sample_config_valid by (simp add: ikev2_only_def valid_run_config_def)

end
