(* ===== verification/Engine_Properties.thy ===== *)
theory Engine_Properties
  imports Engine_Results Sample_Engine Submission_Properties Job_Properties
begin

text \<open>
  The properties of the test engine: what a run of the worker with the real suites delivers, what the command line
  reports, and what the verdicts of the suites mean.
\<close>

section \<open>A run of the engine\<close>





text \<open>C14: Whatever the network, the programs and the libraries answer, every result of every suite has details of the
  type the enrichment reads, so that no result is ever lost: each enriches and goes out under its own name.\<close>

theorem suite_results_typed:
  assumes "key \<in> set CATEGORY_ORDER" and "run_suite env jb url urls certs options key active = Inr rs"
    and "engine_config_ok cfg"
  shows "list_all (\<lambda>r. enrichable r
    \<and> (\<exists>w'. emit_result we cfg r w = Inr w' \<and> result_names w' = result_names w @ [JStr (test_case.tc_name r)])) rs"
  using suite_enrichable [OF assms(1,2)] emit_total [OF assms(3)] by (auto simp: list_all_iff)

definition sample_certs :: run_certs where
  "sample_certs = \<lparr>rn_issuer = sample_certificate, rn_good = None, rn_revoked = None, rn_unknown_ca = None\<rparr>"

definition sample_options :: runtime_options where
  "sample_options = \<lparr>rt_timeout = 10, rt_method = None, rt_include_nonce = True, rt_nonce_len = 32\<rparr>"

theorem suite_results_typed_witness:
  "\<exists>rs. run_suite sample_engine sample_job ''http://ca.test/x'' [] sample_certs sample_options ''status'' None = Inr rs
     \<and> length rs = 5 \<and> list_all enrichable rs"
proof -
  obtain rs where rs: "run_suite sample_engine sample_job ''http://ca.test/x'' [] sample_certs sample_options ''status'' None = Inr rs"
    by (simp add: run_suite_simps)
  have key: "''status'' \<in> set CATEGORY_ORDER" by (simp add: CATEGORY_ORDER_def)
  have "engine_config_ok []" by (simp add: engine_config_ok_def)
  from suite_results_typed [OF key rs this, of one_worker "\<lparr>w_events = [], w_latencies = []\<rparr>"] have "list_all enrichable rs"
    by (auto simp: list_all_iff)
  moreover have "length (names_of ''status'') = 5"
    by (simp add: names_of_def catalog_index_def TEST_CATALOG_def catalog_entry_def)
  with suite_names [OF key rs] have "length rs = 5"
    by (simp add: category_tests_simps) (metis length_map)
  ultimately show ?thesis using rs by blast
qed

section \<open>The command line\<close>







end
