(* ===== verification/Verdict_Properties.thy ===== *)
theory Verdict_Properties
  imports Sample_Engine
begin

text \<open>
  What the verdicts of the suites mean: each is characterised by what the certificates, the responses and the outputs
  of the programs say.
\<close>

section \<open>Certificate paths\<close>

text \<open>C22: The validator accepts a path exactly when each certificate below the anchors has an issuer in the path whose
  RSA key verifies its signature, all are in their validity period, the end entity's extensions can be read, and each
  intermediate is an authority whose path length leaves room for those behind it and which may sign certificates. The
  trust anchor type and the two policy flags change nothing.\<close>

theorem path_verdict_exact:
  "validation_result.vr_is_valid (validate_certificate_chain env now ee is as anchor_type explicit_policy inhibit_mapping) \<longleftrightarrow>
     list_all (signed_in env is as) (ee # is) \<and> list_all (in_period now) (ee # is) \<and>
     \<not> isl (cc_extensions ee) \<and> issuing_chain is"
  by (rule validate_chain_iff)

text \<open>C23: A path built by following the issuers' locations is linked by its names, at most eight certificates long,
  meets no certificate twice, and ends at the first supplied anchor or self-signed certificate it reaches; the
  end it reports is the true one - whatever the servers deliver.\<close>

theorem discovered_path:
  assumes "build_certificate_chain_with_aia env ee issuer anchors st = (Some chain, st')"
  shows "\<exists>added t. chain = organize anchors (ee # issuer # added) t \<and> linked (issuer # added)
    \<and> length added \<le> MAX_CHAIN_DEPTH
    \<and> distinct (map (cert_key env) added) \<and> set (map (cert_key env) added) \<inter> {cert_key env issuer, cert_key env ee} = {}
    \<and> (t = ''anchor'' \<longleftrightarrow> is_anchor env anchors (last (issuer # added)))
    \<and> (t = ''root'' \<longleftrightarrow> \<not> is_anchor env anchors (last (issuer # added)) \<and> self_signed (last (issuer # added)))
    \<and> list_all (\<lambda>x. \<not> is_anchor env anchors x \<and> \<not> self_signed x) (butlast (issuer # added))"
proof -
  from assms obtain t added st'' where found:
    "discover env anchors 0 [cert_key env issuer, cert_key env ee] issuer st = (Inr (t, added), st'')"
    and chain: "chain = organize anchors (ee # issuer # added) t"
    by (auto simp: build_certificate_chain_with_aia_def split: prod.splits sum.splits)
  from found have path: "issuer_path env anchors 0 [cert_key env issuer, cert_key env ee] issuer added t"
    by (rule discover_path)
  show ?thesis
    using chain issuer_path_linked [OF path] issuer_path_depth [OF path] issuer_path_fresh [OF path] issuer_path_end [OF path]
    by (intro exI [of _ added] exI [of _ t]) simp
qed

definition sample_intermediate :: chain_cert where
  "sample_intermediate = sample_ca\<lparr>cc_subject := ''int'', cc_serial := 3,
     cc_extensions := Inr (plain_extensions\<lparr>ev_aia := Some [(AccessCAIssuers, URIName ''http://ca.test/ca'')]\<rparr>)\<rparr>"

definition no_downloads :: aia_state where
  "no_downloads = \<lparr>as_cache = [], as_gets = 0\<rparr>"

lemma sample_chain_simps [simp]:
  "cc_subject sample_intermediate = ''int''" "cc_issuer sample_intermediate = ''ca''" "cc_serial sample_intermediate = 3"
  "cc_extensions sample_intermediate = Inr (plain_extensions\<lparr>ev_aia := Some [(AccessCAIssuers, URIName ''http://ca.test/ca'')]\<rparr>)"
  "cc_subject sample_ca = ''ca''" "cc_issuer sample_ca = ''ca''" "cc_serial sample_ca = 1"
  "cc_subject sample_leaf = ''leaf''" "cc_issuer sample_leaf = ''ca''" "cc_serial sample_leaf = 2"
  by (simp_all add: sample_intermediate_def sample_ca_def sample_leaf_def)

theorem discovered_path_witness:
  "\<exists>chain. fst (build_certificate_chain_with_aia sample_aia sample_leaf sample_intermediate [] no_downloads) = Some chain
     \<and> bc_termination chain = ''root'' \<and> bc_trust_anchors chain = [sample_ca]"
proof -
  have "download_certificate_uncached sample_aia 0 ''http://ca.test/ca'' = Some sample_ca"
    by (simp add: download_certificate_uncached_def sample_aia_def parser_order_def str_lower_def lower_char_def
        endswith_def suffix_to_prefix startswith_def contains_def lstrip_def is_space_def parse_as_def sublist_code)
  then have parent: "step_to_parent sample_aia [(''int'', 3), (''leaf'', 2)] sample_intermediate no_downloads =
      (Inr (Inr sample_ca), \<lparr>as_cache = [(''http://ca.test/ca'', Some sample_ca)], as_gets = 1\<rparr>)"
    by (simp add: step_to_parent_def extract_aia_urls_def aia_locations_def map_filter_def download_certificate_from_url_def
        no_downloads_def cert_key_def sample_pv_def Let_def)
  have "discover sample_aia [] 0 [(''int'', 3), (''leaf'', 2)] sample_intermediate no_downloads =
      (Inr (''root'', [sample_ca]), \<lparr>as_cache = [(''http://ca.test/ca'', Some sample_ca)], as_gets = 1\<rparr>)"
    by (subst discover.simps) (simp add: is_anchor_def self_signed_def MAX_CHAIN_DEPTH_def parent,
        subst discover.simps, simp add: is_anchor_def self_signed_def)
  then have built: "build_certificate_chain_with_aia sample_aia sample_leaf sample_intermediate [] no_downloads =
      (Some (organize [] [sample_leaf, sample_intermediate, sample_ca] ''root''),
       \<lparr>as_cache = [(''http://ca.test/ca'', Some sample_ca)], as_gets = 1\<rparr>)"
    by (simp add: build_certificate_chain_with_aia_def cert_key_def sample_pv_def)
  from discovered_path [OF this] built show ?thesis
    by (auto simp: organize_def)
qed

section \<open>Revocation lists\<close>



section \<open>Responses\<close>

text \<open>C25: The freshness test passes exactly when the response gives both times, in order, was issued neither in the
  future nor longer ago than allowed, and has not expired; it fails exactly when it gives no times in order. A response
  that has expired, or is too old, therefore only warns.\<close>

theorem freshness_exact:
  "(tc_status (freshness_test env m response r) = PASS \<longleftrightarrow>
     (\<exists>t u. field_at ''This Update:'' response t \<and> field_at ''Next Update:'' response u \<and>
        t \<le> me_utcnow (fe_monitor env) ''validity'' \<and> me_utcnow (fe_monitor env) ''validity'' - t \<le> m * 3600000000 \<and>
        me_utcnow (fe_monitor env) ''validity'' \<le> u \<and> t < u))
   \<and> (tc_status (freshness_test env m response r) = FAIL \<longleftrightarrow>
     \<not> (\<exists>t u. field_at ''This Update:'' response t \<and> field_at ''Next Update:'' response u \<and> t < u))"
  by (simp only: freshness_pass_iff freshness_fail_iff is_valid_iff simp_thms)


end
