(* ===== verification/Schema.thy ===== *)
theory Schema
  imports Json
begin

text \<open>
  Tables below the rows of \<open>Orm\<close>: the table models the mapped classes declare (\<open>backend/app/orm.py\<close>), a database of
  tables with columns, constraints, indexes and rows, and the statements the schema code of \<open>db.py\<close> and of the
  migration sends to it, with their documented effect and the errors they raise.
\<close>

section \<open>Table models\<close>

datatype column_type = Integer_type | String_type nat | Text_type | Boolean_type | DateTime_type

text \<open>A column of a mapped class. No column has a server default, so only the Python default is kept.\<close>

record column_model =
  cm_name :: string
  cm_type :: column_type
  cm_nullable :: bool
  cm_default :: bool

datatype nullability = Nullable | Required
datatype python_default = Defaulted | Undefaulted

definition col :: "string \<Rightarrow> column_type \<Rightarrow> nullability \<Rightarrow> python_default \<Rightarrow> column_model" where
  "col name ty null default_value =
     \<lparr>cm_name = name, cm_type = ty, cm_nullable = (null = Nullable), cm_default = (default_value = Defaulted)\<rparr>"

record unique_model =
  un_name :: "string option"
  un_columns :: "string list"

record index_model =
  ix_name :: string
  ix_columns :: "string list"
  ix_unique :: bool

definition unique_of :: "string \<Rightarrow> string list \<Rightarrow> unique_model" where
  "unique_of name cols = \<lparr>un_name = Some name, un_columns = cols\<rparr>"

definition index_of :: "string \<Rightarrow> string list \<Rightarrow> bool \<Rightarrow> index_model" where
  "index_of name cols uniq = \<lparr>ix_name = name, ix_columns = cols, ix_unique = uniq\<rparr>"

text \<open>A foreign key: the column, the table and column it refers to, and the rule on deletion.\<close>

type_synonym foreign_key = "string \<times> string \<times> string \<times> string"

record table_model =
  tm_name :: string
  tm_columns :: "column_model list"
  tm_primary_key :: "string list"
  tm_foreign_keys :: "foreign_key list"
  tm_uniques :: "unique_model list"
  tm_indexes :: "index_model list"

definition users_table :: table_model where
  "users_table = \<lparr>tm_name = ''users'',
     tm_columns =
       [col ''id'' Integer_type Required Undefaulted, col ''provider'' (String_type 10) Required Undefaulted,
        col ''subject'' (String_type 255) Required Undefaulted,
        col ''email'' (String_type 320) Nullable Undefaulted,
        col ''display_name'' (String_type 200) Nullable Undefaulted,
        col ''password_hash'' Text_type Nullable Undefaulted,
        col ''is_global_admin'' Boolean_type Required Defaulted,
        col ''is_active'' Boolean_type Required Defaulted, col ''created_at'' DateTime_type Required Defaulted,
        col ''last_login_at'' DateTime_type Nullable Undefaulted],
     tm_primary_key = [''id''],
     tm_foreign_keys = [],
     tm_uniques = [unique_of ''uq_users_provider_subject'' [''provider'', ''subject'']],
     tm_indexes = []\<rparr>"

definition workspaces_table :: table_model where
  "workspaces_table = \<lparr>tm_name = ''workspaces'',
     tm_columns =
       [col ''id'' Integer_type Required Undefaulted, col ''name'' (String_type 200) Required Undefaulted,
        col ''kind'' (String_type 10) Required Defaulted,
        col ''owner_user_id'' Integer_type Nullable Undefaulted,
        col ''run_visibility'' (String_type 10) Required Defaulted,
        col ''allow_private_targets'' Boolean_type Required Defaulted,
        col ''max_concurrent_runs'' Integer_type Required Defaulted,
        col ''oidc_group_admin'' (String_type 200) Nullable Undefaulted,
        col ''oidc_group'' (String_type 200) Nullable Undefaulted,
        col ''oidc_group_viewer'' (String_type 200) Nullable Undefaulted,
        col ''created_at'' DateTime_type Required Defaulted],
     tm_primary_key = [''id''],
     tm_foreign_keys = [(''owner_user_id'', ''users'', ''id'', ''SET NULL'')],
     tm_uniques = [],
     tm_indexes = []\<rparr>"

definition workspace_members_table :: table_model where
  "workspace_members_table = \<lparr>tm_name = ''workspace_members'',
     tm_columns =
       [col ''id'' Integer_type Required Undefaulted, col ''workspace_id'' Integer_type Required Undefaulted,
        col ''user_id'' Integer_type Required Undefaulted, col ''role'' (String_type 10) Required Defaulted,
        col ''source'' (String_type 10) Required Defaulted, col ''created_at'' DateTime_type Required Defaulted],
     tm_primary_key = [''id''],
     tm_foreign_keys = [(''user_id'', ''users'', ''id'', ''CASCADE''), (''workspace_id'', ''workspaces'', ''id'', ''CASCADE'')],
     tm_uniques = [unique_of ''uq_ws_member'' [''workspace_id'', ''user_id'']],
     tm_indexes = [index_of ''ix_workspace_members_user_id'' [''user_id''] False,
        index_of ''ix_workspace_members_workspace_id'' [''workspace_id''] False]\<rparr>"

definition api_tokens_table :: table_model where
  "api_tokens_table = \<lparr>tm_name = ''api_tokens'',
     tm_columns =
       [col ''id'' Integer_type Required Undefaulted, col ''user_id'' Integer_type Required Undefaulted,
        col ''workspace_id'' Integer_type Nullable Undefaulted,
        col ''name'' (String_type 200) Required Undefaulted,
        col ''token_hash'' (String_type 64) Required Undefaulted,
        col ''role_ceiling'' (String_type 10) Required Defaulted,
        col ''created_at'' DateTime_type Required Defaulted,
        col ''last_used_at'' DateTime_type Nullable Undefaulted,
        col ''revoked_at'' DateTime_type Nullable Undefaulted],
     tm_primary_key = [''id''],
     tm_foreign_keys = [(''user_id'', ''users'', ''id'', ''CASCADE''), (''workspace_id'', ''workspaces'', ''id'', ''CASCADE'')],
     tm_uniques = [],
     tm_indexes = [index_of ''ix_api_tokens_token_hash'' [''token_hash''] True,
        index_of ''ix_api_tokens_user_id'' [''user_id''] False]\<rparr>"

definition audit_log_table :: table_model where
  "audit_log_table = \<lparr>tm_name = ''audit_log'',
     tm_columns =
       [col ''id'' Integer_type Required Undefaulted, col ''ts'' DateTime_type Required Defaulted,
        col ''user_id'' Integer_type Nullable Undefaulted, col ''actor'' (String_type 320) Nullable Undefaulted,
        col ''event'' (String_type 60) Required Undefaulted,
        col ''workspace_id'' Integer_type Nullable Undefaulted, col ''target'' Text_type Nullable Undefaulted,
        col ''detail_json'' Text_type Required Defaulted],
     tm_primary_key = [''id''],
     tm_foreign_keys = [(''user_id'', ''users'', ''id'', ''SET NULL'')],
     tm_uniques = [],
     tm_indexes = [index_of ''ix_audit_log_event'' [''event''] False, index_of ''ix_audit_log_ts'' [''ts''] False,
        index_of ''ix_audit_log_workspace_id'' [''workspace_id''] False]\<rparr>"

definition runs_table :: table_model where
  "runs_table = \<lparr>tm_name = ''runs'',
     tm_columns =
       [col ''id'' (String_type 36) Required Undefaulted,
        col ''workspace_id'' Integer_type Nullable Undefaulted,
        col ''created_by_user_id'' Integer_type Nullable Undefaulted,
        col ''name'' (String_type 200) Nullable Undefaulted, col ''ocsp_url'' Text_type Required Undefaulted,
        col ''status'' (String_type 20) Required Defaulted, col ''created_at'' DateTime_type Required Defaulted,
        col ''started_at'' DateTime_type Nullable Undefaulted,
        col ''finished_at'' DateTime_type Nullable Undefaulted,
        col ''config_json'' Text_type Required Defaulted, col ''error'' Text_type Nullable Undefaulted,
        col ''current_activity'' Text_type Nullable Undefaulted,
        col ''totals_json'' Text_type Required Defaulted, col ''latency_json'' Text_type Nullable Undefaulted,
        col ''last_seq'' Integer_type Required Defaulted],
     tm_primary_key = [''id''],
     tm_foreign_keys = [(''created_by_user_id'', ''users'', ''id'', ''SET NULL''),
        (''workspace_id'', ''workspaces'', ''id'', ''CASCADE'')],
     tm_uniques = [],
     tm_indexes = [index_of ''ix_runs_created_at'' [''created_at''] False,
        index_of ''ix_runs_created_by_user_id'' [''created_by_user_id''] False,
        index_of ''ix_runs_status'' [''status''] False,
        index_of ''ix_runs_workspace_id'' [''workspace_id''] False]\<rparr>"

definition run_events_table :: table_model where
  "run_events_table = \<lparr>tm_name = ''run_events'',
     tm_columns =
       [col ''id'' Integer_type Required Undefaulted, col ''run_id'' (String_type 36) Required Undefaulted,
        col ''seq'' Integer_type Required Undefaulted, col ''type'' (String_type 20) Required Undefaulted,
        col ''ts'' DateTime_type Required Defaulted, col ''payload_json'' Text_type Required Defaulted],
     tm_primary_key = [''id''],
     tm_foreign_keys = [(''run_id'', ''runs'', ''id'', ''CASCADE'')],
     tm_uniques = [],
     tm_indexes = [index_of ''ix_run_events_run_id'' [''run_id''] False,
        index_of ''ix_run_events_run_seq'' [''run_id'', ''seq''] True]\<rparr>"

definition results_table :: table_model where
  "results_table = \<lparr>tm_name = ''results'',
     tm_columns =
       [col ''id'' (String_type 36) Required Undefaulted, col ''run_id'' (String_type 36) Required Undefaulted,
        col ''category'' (String_type 60) Required Undefaulted, col ''name'' Text_type Required Undefaulted,
        col ''status'' (String_type 10) Required Undefaulted, col ''message'' Text_type Required Defaulted,
        col ''details_json'' Text_type Required Defaulted,
        col ''started_at'' DateTime_type Nullable Undefaulted,
        col ''ended_at'' DateTime_type Nullable Undefaulted,
        col ''duration_ms'' Integer_type Nullable Undefaulted],
     tm_primary_key = [''id''],
     tm_foreign_keys = [(''run_id'', ''runs'', ''id'', ''CASCADE'')],
     tm_uniques = [],
     tm_indexes = [index_of ''ix_results_category'' [''category''] False,
        index_of ''ix_results_run_id'' [''run_id''] False, index_of ''ix_results_status'' [''status''] False]\<rparr>"

definition app_settings_table :: table_model where
  "app_settings_table = \<lparr>tm_name = ''app_settings'',
     tm_columns =
       [col ''key'' (String_type 60) Required Undefaulted, col ''value_json'' Text_type Required Defaulted,
        col ''updated_at'' DateTime_type Required Defaulted],
     tm_primary_key = [''key''],
     tm_foreign_keys = [],
     tm_uniques = [],
     tm_indexes = []\<rparr>"

definition ca_certificates_table :: table_model where
  "ca_certificates_table = \<lparr>tm_name = ''ca_certificates'',
     tm_columns =
       [col ''id'' Integer_type Required Undefaulted, col ''workspace_id'' Integer_type Nullable Undefaulted,
        col ''created_by_user_id'' Integer_type Nullable Undefaulted,
        col ''name'' (String_type 200) Required Undefaulted, col ''pem'' Text_type Required Undefaulted,
        col ''subject'' Text_type Required Undefaulted, col ''issuer'' Text_type Required Undefaulted,
        col ''serial_number'' Text_type Required Undefaulted,
        col ''fingerprint_sha256'' (String_type 64) Required Undefaulted,
        col ''not_before'' DateTime_type Required Undefaulted,
        col ''not_after'' DateTime_type Required Undefaulted, col ''is_ca'' Integer_type Required Defaulted,
        col ''source'' (String_type 20) Required Defaulted, col ''source_url'' Text_type Nullable Undefaulted,
        col ''created_at'' DateTime_type Required Defaulted],
     tm_primary_key = [''id''],
     tm_foreign_keys = [(''created_by_user_id'', ''users'', ''id'', ''SET NULL''),
        (''workspace_id'', ''workspaces'', ''id'', ''CASCADE'')],
     tm_uniques = [unique_of ''uq_ca_certificates_ws_fingerprint'' [''workspace_id'', ''fingerprint_sha256'']],
     tm_indexes = [index_of ''ix_ca_certificates_workspace_id'' [''workspace_id''] False]\<rparr>"

definition profiles_table :: table_model where
  "profiles_table = \<lparr>tm_name = ''profiles'',
     tm_columns =
       [col ''id'' Integer_type Required Undefaulted, col ''workspace_id'' Integer_type Nullable Undefaulted,
        col ''created_by_user_id'' Integer_type Nullable Undefaulted,
        col ''name'' (String_type 120) Required Undefaulted, col ''description'' Text_type Nullable Undefaulted,
        col ''config_json'' Text_type Required Defaulted, col ''created_at'' DateTime_type Required Defaulted,
        col ''updated_at'' DateTime_type Required Defaulted],
     tm_primary_key = [''id''],
     tm_foreign_keys = [(''created_by_user_id'', ''users'', ''id'', ''SET NULL''),
        (''workspace_id'', ''workspaces'', ''id'', ''CASCADE'')],
     tm_uniques = [unique_of ''uq_profiles_ws_name'' [''workspace_id'', ''name'']],
     tm_indexes = [index_of ''ix_profiles_workspace_id'' [''workspace_id''] False]\<rparr>"

text \<open>\<open>Base.metadata.sorted_tables\<close>: a table comes after those its foreign keys refer to.\<close>

definition metadata :: "table_model list" where
  "metadata = [app_settings_table, users_table, audit_log_table, workspaces_table, api_tokens_table,
     ca_certificates_table, profiles_table, runs_table, workspace_members_table, results_table, run_events_table]"

section \<open>A database\<close>

type_synonym raw_row = "(string, json) dict"

record raw_column =
  rc_name :: string
  rc_type :: column_type
  rc_required :: bool

record raw_table =
  rt_name :: string
  rt_columns :: "raw_column list"
  rt_primary_key :: "string list"
  rt_foreign_keys :: "foreign_key list"
  rt_uniques :: "unique_model list"
  rt_indexes :: "index_model list"
  rt_rows :: "raw_row list"

type_synonym raw_db = "raw_table list"

definition cell :: "raw_row \<Rightarrow> string \<Rightarrow> json" where
  "cell r c = dict_get_or r c JNull"

definition find_table :: "string \<Rightarrow> raw_db \<Rightarrow> raw_table option" where
  "find_table n db = get_row rt_name n db"

definition column_names :: "raw_table \<Rightarrow> string list" where
  "column_names t = map rc_name (rt_columns t)"

definition index_names :: "raw_table \<Rightarrow> string list" where
  "index_names t = map ix_name (rt_indexes t)"

definition raw_column_of :: "column_model \<Rightarrow> raw_column" where
  "raw_column_of c = \<lparr>rc_name = cm_name c, rc_type = cm_type c, rc_required = (\<not> cm_nullable c)\<rparr>"

definition new_table :: "table_model \<Rightarrow> raw_table" where
  "new_table m =
     \<lparr>rt_name = tm_name m, rt_columns = map raw_column_of (tm_columns m), rt_primary_key = tm_primary_key m,
      rt_foreign_keys = tm_foreign_keys m, rt_uniques = tm_uniques m, rt_indexes = [], rt_rows = []\<rparr>"

text \<open>A unique constraint does not count rows with a null in one of its columns.\<close>

definition unique_on :: "string list \<Rightarrow> raw_row list \<Rightarrow> bool" where
  "unique_on cols rs \<longleftrightarrow>
     distinct (filter (\<lambda>k. JNull \<notin> set k) (map (\<lambda>r. map (cell r) cols) rs))"

definition rows_allowed :: "raw_table \<Rightarrow> raw_row list \<Rightarrow> bool" where
  "rows_allowed t rs \<longleftrightarrow>
     list_all (\<lambda>c. rc_required c \<longrightarrow> list_all (\<lambda>r. cell r (rc_name c) \<noteq> JNull) rs) (rt_columns t) \<and>
     unique_on (rt_primary_key t) rs \<and>
     list_all (\<lambda>u. unique_on (un_columns u) rs) (rt_uniques t) \<and>
     list_all (\<lambda>i. ix_unique i \<longrightarrow> unique_on (ix_columns i) rs) (rt_indexes t)"

section \<open>Statements\<close>

datatype statement =
    Create_table table_model
  | Add_column string string column_type
  | Create_index string index_model
  | Rename_table string string
  | Drop_index string
  | Copy_rows string string "string list"
  | Drop_table string
  | Drop_constraint string string
  | Add_unique string unique_model

definition operational :: error where
  "operational = Uncaught ''OperationalError''"

definition integrity :: error where
  "integrity = Uncaught ''IntegrityError''"

definition on_table :: "string \<Rightarrow> raw_db \<Rightarrow> (raw_table \<Rightarrow> raw_db result) \<Rightarrow> raw_db result" where
  "on_table n db f = (case find_table n db of None \<Rightarrow> Inl operational | Some t \<Rightarrow> f t)"

definition replace_table :: "string \<Rightarrow> (raw_table \<Rightarrow> raw_table) \<Rightarrow> raw_db \<Rightarrow> raw_db" where
  "replace_table n f db = modify_row rt_name n f db"

definition with_column :: "string \<Rightarrow> column_type \<Rightarrow> raw_table \<Rightarrow> raw_table" where
  "with_column c ty t =
     t\<lparr>rt_columns := rt_columns t @ [\<lparr>rc_name = c, rc_type = ty, rc_required = False\<rparr>],
       rt_rows := map (AList.update c JNull) (rt_rows t)\<rparr>"

text \<open>\<open>SELECT "c"\<close>: SQLite takes a quoted name that is no column of the table for a string.\<close>

definition selected :: "raw_table \<Rightarrow> raw_row \<Rightarrow> string \<Rightarrow> json" where
  "selected t r c = (if c \<in> set (column_names t) then cell r c else JStr c)"

definition copied :: "raw_table \<Rightarrow> string list \<Rightarrow> raw_row list" where
  "copied t cols = map (\<lambda>r. map (\<lambda>c. (c, selected t r c)) cols) (rt_rows t)"

fun execute :: "statement \<Rightarrow> raw_db \<Rightarrow> raw_db result" where
  "execute (Create_table m) db =
     (if find_table (tm_name m) db \<noteq> None then Inl operational else Inr (db @ [new_table m]))"
| "execute (Add_column n c ty) db =
     on_table n db (\<lambda>t. if c \<in> set (column_names t) then Inl operational
                         else Inr (replace_table n (with_column c ty) db))"
| "execute (Create_index n ix) db =
     on_table n db (\<lambda>t.
       if ix_name ix \<in> set (concat (map index_names db)) \<or> \<not> set (ix_columns ix) \<subseteq> set (column_names t)
       then Inl operational
       else if ix_unique ix \<and> \<not> unique_on (ix_columns ix) (rt_rows t) then Inl integrity
       else Inr (replace_table n (\<lambda>t. t\<lparr>rt_indexes := rt_indexes t @ [ix]\<rparr>) db))"
| "execute (Rename_table a b) db =
     on_table a db (\<lambda>_. if find_table b db \<noteq> None then Inl operational
                         else Inr (replace_table a (\<lambda>t. t\<lparr>rt_name := b\<rparr>) db))"
| "execute (Drop_index i) db =
     Inr (map (\<lambda>t. t\<lparr>rt_indexes := filter (\<lambda>x. ix_name x \<noteq> i) (rt_indexes t)\<rparr>) db)"
| "execute (Copy_rows b a cols) db =
     on_table a db (\<lambda>source. on_table b db (\<lambda>t.
       if \<not> set cols \<subseteq> set (column_names t) then Inl operational
       else if rows_allowed t (rt_rows t @ copied source cols)
       then Inr (replace_table b (\<lambda>t. t\<lparr>rt_rows := rt_rows t @ copied source cols\<rparr>) db)
       else Inl integrity))"
| "execute (Drop_table n) db =
     on_table n db (\<lambda>_. Inr (remove_row rt_name n db))"
| "execute (Drop_constraint n u) db =
     on_table n db (\<lambda>t. if Some u \<notin> set (map un_name (rt_uniques t)) then Inl operational
                         else Inr (replace_table n (\<lambda>t. t\<lparr>rt_uniques := filter (\<lambda>x. un_name x \<noteq> Some u) (rt_uniques t)\<rparr>) db))"
| "execute (Add_unique n u) db =
     on_table n db (\<lambda>t.
       if \<not> set (un_columns u) \<subseteq> set (column_names t) then Inl operational
       else if \<not> unique_on (un_columns u) (rt_rows t) then Inl integrity
       else Inr (replace_table n (\<lambda>t. t\<lparr>rt_uniques := rt_uniques t @ [u]\<rparr>) db))"

text \<open>Statements in order, up to the first that fails: its error with the database at that point.\<close>

type_synonym upgraded = "error option \<times> raw_db"

definition perform :: "statement \<Rightarrow> raw_db \<Rightarrow> upgraded" where
  "perform s db = (case execute s db of Inl e \<Rightarrow> (Some e, db) | Inr db' \<Rightarrow> (None, db'))"

definition and_then :: "upgraded \<Rightarrow> (raw_db \<Rightarrow> upgraded) \<Rightarrow> upgraded" where
  "and_then r f = (case r of (Some e, db) \<Rightarrow> (Some e, db) | (None, db) \<Rightarrow> f db)"

primrec for_each :: "('a \<Rightarrow> raw_db \<Rightarrow> upgraded) \<Rightarrow> 'a list \<Rightarrow> raw_db \<Rightarrow> upgraded" where
  "for_each f [] db = (None, db)"
| "for_each f (x # xs) db = and_then (f x db) (for_each f xs)"

abbreviation run_statements :: "statement list \<Rightarrow> raw_db \<Rightarrow> upgraded" where
  "run_statements \<equiv> for_each perform"

lemma and_then_None [simp]: "and_then r f = (None, db') \<longleftrightarrow> (\<exists>db. r = (None, db) \<and> f db = (None, db'))"
  by (cases r) (auto simp: and_then_def split: option.splits)

lemma and_then_done [simp]: "and_then (None, db) f = f db"
  by (simp add: and_then_def)

lemma perform_None [simp]: "perform s db = (None, db') \<longleftrightarrow> execute s db = Inr db'"
  by (auto simp: perform_def split: sum.splits)

lemma and_then_assoc: "and_then (and_then r f) g = and_then r (\<lambda>db. and_then (f db) g)"
  by (cases r) (simp add: and_then_def split: option.split)

lemma for_each_append [simp]:
  "for_each f (xs @ ys) db = and_then (for_each f xs db) (for_each f ys)"
  by (induction xs arbitrary: db) (auto simp: and_then_assoc fun_eq_iff intro!: arg_cong [where f = "and_then _"])

text \<open>What every step of a loop keeps, the loop keeps.\<close>

lemma for_each_invariant:
  assumes "for_each f xs db = (None, db')" and "P db"
    and step: "\<And>x d d'. x \<in> set xs \<Longrightarrow> P d \<Longrightarrow> f x d = (None, d') \<Longrightarrow> P d'"
  shows "P db'"
  using assms
proof (induction xs arbitrary: db)
  case (Cons x xs)
  obtain d where d: "f x db = (None, d)" and rest: "for_each f xs d = (None, db')"
    using Cons.prems(1) by auto
  have "P d" by (rule Cons.prems(3)) (use d Cons.prems(2) in simp_all)
  with rest show ?case
  proof (rule Cons.IH)
    show "P d2" if "z \<in> set xs" "P d1" "f z d1 = (None, d2)" for z d1 d2
      by (rule Cons.prems(3) [of z d1]) (use that in simp_all)
  qed
qed simp

text \<open>What a step of a loop achieves and later steps keep, holds after the loop.\<close>

lemma for_each_achieves:
  assumes "for_each f xs db = (None, db')" and "x \<in> set xs" and "P db"
    and step: "\<And>x d d'. x \<in> set xs \<Longrightarrow> P d \<Longrightarrow> f x d = (None, d') \<Longrightarrow> P d' \<and> Q x d'"
    and keep: "\<And>x y d d'. y \<in> set xs \<Longrightarrow> P d \<Longrightarrow> Q x d \<Longrightarrow> f y d = (None, d') \<Longrightarrow> Q x d'"
  shows "Q x db'"
  using assms
proof (induction xs arbitrary: db)
  case Nil
  from Nil.prems(2) show ?case by simp
next
  case (Cons y ys)
  obtain d where d: "f y db = (None, d)" and rest: "for_each f ys d = (None, db')"
    using Cons.prems(1) by auto
  have "P d \<and> Q y d" by (rule Cons.prems(4)) (use d Cons.prems(3) in simp_all)
  then have P: "P d" and Q: "Q y d" by simp_all
  show ?case
  proof (cases "x \<in> set ys")
    case True
    from rest this P show ?thesis
    proof (rule Cons.IH)
      show "P d' \<and> Q z d'" if "z \<in> set ys" "P d1" "f z d1 = (None, d')" for z d1 d'
        by (rule Cons.prems(4) [of z d1]) (use that in simp_all)
      show "Q z d'" if "w \<in> set ys" "P d1" "Q z d1" "f w d1 = (None, d')" for z w d1 d'
        by (rule Cons.prems(5) [of w d1 z]) (use that in simp_all)
    qed
  next
    case False
    with Cons.prems(2) have x: "x = y" by simp
    have "P db' \<and> Q x db'"
      using rest
    proof (rule for_each_invariant)
      show "P d \<and> Q x d" using P Q x by simp
      show "P d' \<and> Q x d'" if "z \<in> set ys" "P d1 \<and> Q x d1" "f z d1 = (None, d')" for z d1 d'
        using that Cons.prems(4) [of z d1 d'] Cons.prems(5) [of z d1 x d'] by simp
    qed
    then show ?thesis ..
  qed
qed

end
