(* ===== verification/Schema_Upgrade.thy ===== *)
theory Schema_Upgrade
  imports Schema
begin

text \<open>
  Creating and upgrading the schema at startup (\<open>backend/app/db.py\<close>): \<open>create_all\<close>, the columns and indexes added to
  older tables, the global uniques relaxed to the per-workspace ones, composed by \<open>init_db\<close>; and the relation by
  which an upgrade keeps what the tables hold.
\<close>

section \<open>Operations\<close>

datatype dialect = Sqlite | Other_dialect

definition no_such_table :: error where
  "no_such_table = Uncaught ''NoSuchTableError''"

definition table_create :: "table_model \<Rightarrow> statement list" where
  "table_create m = Create_table m # map (Create_index (tm_name m)) (tm_indexes m)"

definition create_missing :: "table_model \<Rightarrow> raw_db \<Rightarrow> upgraded" where
  "create_missing m db =
     (if find_table (tm_name m) db \<noteq> None then (None, db) else run_statements (table_create m) db)"

definition create_all :: "table_model list \<Rightarrow> raw_db \<Rightarrow> upgraded" where
  "create_all ms db = for_each create_missing ms db"

definition auto_addable :: "column_model \<Rightarrow> bool" where
  "auto_addable c \<longleftrightarrow> cm_nullable c \<or> cm_default c"

definition missing_columns :: "table_model \<Rightarrow> raw_table \<Rightarrow> column_model list" where
  "missing_columns m t = filter (\<lambda>c. cm_name c \<notin> set (column_names t) \<and> auto_addable c) (tm_columns m)"

definition add_columns :: "string list \<Rightarrow> table_model \<Rightarrow> raw_db \<Rightarrow> upgraded" where
  "add_columns existing m db =
     (if tm_name m \<notin> set existing then (None, db)
      else case find_table (tm_name m) db of
             None \<Rightarrow> (Some no_such_table, db)
           | Some t \<Rightarrow>
               run_statements (map (\<lambda>c. Add_column (tm_name m) (cm_name c) (cm_type c)) (missing_columns m t)) db)"

definition create_if_missing :: "string \<Rightarrow> index_model \<Rightarrow> raw_db \<Rightarrow> upgraded" where
  "create_if_missing n ix db =
     (case find_table n db of
        None \<Rightarrow> (Some no_such_table, db)
      | Some t \<Rightarrow> if ix_name ix \<in> set (index_names t) then (None, db) else perform (Create_index n ix) db)"

definition create_indexes :: "string list \<Rightarrow> table_model \<Rightarrow> raw_db \<Rightarrow> upgraded" where
  "create_indexes existing m db =
     (if tm_name m \<notin> set existing then (None, db) else for_each (create_if_missing (tm_name m)) (tm_indexes m) db)"

definition has_composite :: "string list \<Rightarrow> raw_table \<Rightarrow> bool" where
  "has_composite cols t \<longleftrightarrow> list_ex (\<lambda>u. set (un_columns u) = set cols) (rt_uniques t)"

definition stale_uniques :: "string \<Rightarrow> raw_table \<Rightarrow> unique_model list" where
  "stale_uniques c t = filter (\<lambda>u. un_columns u = [c]) (rt_uniques t)"

definition old_name :: "string \<Rightarrow> string" where
  "old_name n = ''_'' @ n @ ''_old''"

definition droppable :: "string \<Rightarrow> bool" where
  "droppable i \<longleftrightarrow> i \<noteq> [] \<and> \<not> startswith i ''sqlite_autoindex''"

definition drop_indexes :: "string \<Rightarrow> raw_db \<Rightarrow> upgraded" where
  "drop_indexes n db =
     (case find_table n db of
        None \<Rightarrow> (Some no_such_table, db)
      | Some t \<Rightarrow> run_statements (map Drop_index (filter droppable (index_names t))) db)"

definition rebuild :: "table_model \<Rightarrow> raw_db \<Rightarrow> upgraded" where
  "rebuild m db =
     (let n = tm_name m; tmp = old_name n
      in and_then (perform (Rename_table n tmp) db) (\<lambda>db.
         and_then (drop_indexes tmp db)
           (run_statements (table_create m @ [Copy_rows n tmp (map cm_name (tm_columns m)), Drop_table tmp]))))"

definition constraint_text :: "unique_model \<Rightarrow> string" where
  "constraint_text u = (case un_name u of None \<Rightarrow> ''None'' | Some n \<Rightarrow> n)"

definition reconcile_composite_unique ::
  "dialect \<Rightarrow> table_model list \<Rightarrow> string \<Rightarrow> string \<Rightarrow> string list \<Rightarrow> string \<Rightarrow> raw_db \<Rightarrow> upgraded" where
  "reconcile_composite_unique d ms n single composite name db =
     (case find_table n db of
        None \<Rightarrow> (None, db)
      | Some t \<Rightarrow>
          if has_composite composite t \<and> stale_uniques single t = [] then (None, db)
          else if d = Sqlite
          then (case get_row tm_name n ms of None \<Rightarrow> (Some (Uncaught ''KeyError''), db) | Some m \<Rightarrow> rebuild m db)
          else and_then (run_statements (map (\<lambda>u. Drop_constraint n (constraint_text u)) (stale_uniques single t)) db)
                 (\<lambda>db. if has_composite composite t then (None, db)
                       else perform (Add_unique n (unique_of name composite)) db))"

definition relax_ca_certificates :: "dialect \<Rightarrow> table_model list \<Rightarrow> raw_db \<Rightarrow> upgraded" where
  "relax_ca_certificates d ms =
     reconcile_composite_unique d ms ''ca_certificates'' ''fingerprint_sha256''
       [''workspace_id'', ''fingerprint_sha256''] ''uq_ca_certificates_ws_fingerprint''"

definition relax_profiles :: "dialect \<Rightarrow> table_model list \<Rightarrow> raw_db \<Rightarrow> upgraded" where
  "relax_profiles d ms =
     reconcile_composite_unique d ms ''profiles'' ''name'' [''workspace_id'', ''name''] ''uq_profiles_ws_name''"

definition reconcile_existing_tables :: "dialect \<Rightarrow> table_model list \<Rightarrow> raw_db \<Rightarrow> upgraded" where
  "reconcile_existing_tables d ms db =
     (let existing = map rt_name db
      in and_then (for_each (add_columns existing) ms db) (\<lambda>db.
         and_then (for_each (create_indexes existing) ms db) (\<lambda>db.
         and_then (relax_ca_certificates d ms db) (relax_profiles d ms))))"

definition init_db :: "dialect \<Rightarrow> table_model list \<Rightarrow> raw_db \<Rightarrow> upgraded" where
  "init_db d ms db = and_then (create_all ms db) (reconcile_existing_tables d ms)"

section \<open>What statements do to the tables\<close>

definition project :: "string list \<Rightarrow> raw_table \<Rightarrow> json list list" where
  "project cs t = map (\<lambda>r. map (cell r) cs) (rt_rows t)"

lemma find_table_name: "find_table n db = Some t \<Longrightarrow> rt_name t = n \<and> t \<in> set db"
  by (auto simp: find_table_def dest: get_row_Some)

lemma find_table_names: "find_table n db \<noteq> None \<longleftrightarrow> n \<in> set (map rt_name db)"
  unfolding find_table_def get_row_None by force

lemma find_replace:
  assumes "\<And>t. rt_name (f t) = rt_name t"
  shows "find_table x (replace_table n f db) = (if x = n then map_option f (find_table x db) else find_table x db)"
  unfolding find_table_def replace_table_def using assms by (rule rows.get_modify)

lemma rt_name_with_column [simp]: "rt_name (with_column c ty t) = rt_name t"
  by (simp add: with_column_def)

lemma find_renamed:
  assumes "find_table b db = None"
  shows "find_table x (replace_table a (\<lambda>t. t\<lparr>rt_name := b\<rparr>) db) =
    (if x = b then map_option (\<lambda>t. t\<lparr>rt_name := b\<rparr>) (find_table a db)
     else if x = a then None else find_table x db)"
proof -
  have "get_row rt_name x (map (\<lambda>t. if rt_name t = a then t\<lparr>rt_name := b\<rparr> else t) ts) =
      (if x = b then map_option (\<lambda>t. t\<lparr>rt_name := b\<rparr>) (get_row rt_name a ts)
       else if x = a then None else get_row rt_name x ts)" if "get_row rt_name b ts = None" for ts
    using that by (induction ts) (auto simp: table_simps split: if_splits)
  from this [of db] assms show ?thesis
    unfolding find_table_def replace_table_def modify_row_def update_rows_def .
qed

lemma find_dropped: "find_table x (remove_row rt_name n db) = (if x = n then None else find_table x db)"
  by (simp add: find_table_def rows.get_remove)

lemma find_appended:
  "find_table x (db @ [t]) = (case find_table x db of Some s \<Rightarrow> Some s | None \<Rightarrow> if rt_name t = x then Some t else None)"
  by (auto simp: find_table_def table_simps split: option.splits)

lemma find_mapped:
  "(\<And>t. rt_name (f t) = rt_name t) \<Longrightarrow> find_table x (map f db) = map_option f (find_table x db)"
  by (induction db) (auto simp: find_table_def table_simps)

lemma on_table_Inr: "on_table n db f = Inr db' \<longleftrightarrow> (\<exists>t. find_table n db = Some t \<and> f t = Inr db')"
  by (simp add: on_table_def split: option.split)

lemma cell_update [simp]: "cell (AList.update c v r) x = (if x = c then v else cell r x)"
  by (simp add: cell_def)

lemma column_names_with_column [simp]: "column_names (with_column c ty t) = column_names t @ [c]"
  by (simp add: column_names_def with_column_def)

lemma project_with_column: "c \<notin> set cs \<Longrightarrow> project cs (with_column c ty t) = project cs t"
  by (auto simp: project_def with_column_def)

section \<open>Additive statements\<close>

text \<open>A table grows: columns and indexes are added, the constraints stay, and no value of a column it had changes.\<close>

definition table_grows :: "raw_table \<Rightarrow> raw_table \<Rightarrow> bool" where
  "table_grows t t' \<longleftrightarrow>
     set (column_names t) \<subseteq> set (column_names t') \<and> set (index_names t) \<subseteq> set (index_names t') \<and>
     rt_uniques t' = rt_uniques t \<and> (\<forall>cs. set cs \<subseteq> set (column_names t) \<longrightarrow> project cs t' = project cs t)"

definition grows :: "raw_db \<Rightarrow> raw_db \<Rightarrow> bool" where
  "grows db db' \<longleftrightarrow> (\<forall>x t. find_table x db = Some t \<longrightarrow> (\<exists>t'. find_table x db' = Some t' \<and> table_grows t t'))"

fun additive_statement :: "statement \<Rightarrow> bool" where
  "additive_statement (Create_table _) = True"
| "additive_statement (Add_column _ _ _) = True"
| "additive_statement (Create_index _ _) = True"
| "additive_statement _ = False"

lemma table_grows_refl [simp]: "table_grows t t"
  by (simp add: table_grows_def)

lemma table_grows_trans: "table_grows t u \<Longrightarrow> table_grows u v \<Longrightarrow> table_grows t v"
  unfolding table_grows_def by (metis subset_trans)

lemma growsD: "grows db db' \<Longrightarrow> find_table x db = Some t \<Longrightarrow> \<exists>t'. find_table x db' = Some t' \<and> table_grows t t'"
  by (simp add: grows_def)

lemma grows_refl [simp]: "grows db db"
  by (simp add: grows_def)

lemma grows_trans: "grows a b \<Longrightarrow> grows b c \<Longrightarrow> grows a c"
  unfolding grows_def by (meson table_grows_trans)

lemma grows_replace:
  assumes "\<And>t. rt_name (f t) = rt_name t" and "\<And>t. find_table n db = Some t \<Longrightarrow> table_grows t (f t)"
  shows "grows db (replace_table n f db)"
  using assms(2) by (simp add: grows_def find_replace [OF assms(1)])

lemma grows_execute:
  assumes "additive_statement s" and "execute s db = Inr db'"
  shows "grows db db'"
  using assms
proof (cases s)
  case (Create_table m)
  with assms show ?thesis
    by (auto simp: grows_def find_appended split: if_splits)
next
  case (Add_column n c ty)
  with assms obtain t where t: "find_table n db = Some t" "c \<notin> set (column_names t)"
    and db': "db' = replace_table n (with_column c ty) db"
    by (auto simp: on_table_Inr split: if_splits)
  have "project cs (with_column c ty t) = project cs t" if "set cs \<subseteq> set (column_names t)" for cs
    using that t(2) by (intro project_with_column) blast
  then have "table_grows t (with_column c ty t)"
    by (auto simp: table_grows_def index_names_def) (auto simp: with_column_def)
  with t(1) show ?thesis
    unfolding db' by (intro grows_replace) simp_all
next
  case (Create_index n ix)
  with assms have "db' = replace_table n (\<lambda>t. t\<lparr>rt_indexes := rt_indexes t @ [ix]\<rparr>) db"
    by (auto simp: on_table_Inr split: if_splits)
  then show ?thesis
    by (auto intro!: grows_replace simp: table_grows_def column_names_def index_names_def project_def)
qed simp_all

lemma grows_statements:
  assumes "run_statements ss db = (None, db')" and "list_all additive_statement ss"
  shows "grows db db'"
proof (rule for_each_invariant [OF assms(1), of "grows db"])
  show "grows db d'" if "s \<in> set ss" "grows db d" "perform s d = (None, d')" for s d d'
    using that assms(2) by (auto simp: list_all_iff intro: grows_trans grows_execute)
qed simp

lemma grows_create_missing: "create_missing m db = (None, db') \<Longrightarrow> grows db db'"
  by (rule grows_statements [of "if find_table (tm_name m) db = None then table_create m else []"])
    (auto simp: create_missing_def table_create_def list_all_iff split: if_splits)

lemma grows_add_columns: "add_columns existing m db = (None, db') \<Longrightarrow> grows db db'"
  by (auto simp: add_columns_def list_all_iff split: if_splits option.splits intro!: grows_statements)

lemma grows_create_if_missing: "create_if_missing n ix db = (None, db') \<Longrightarrow> grows db db'"
  by (auto simp: create_if_missing_def simp del: execute.simps split: if_splits option.splits
      intro: grows_execute [of "Create_index n ix"])

lemma grows_loop:
  assumes "for_each f xs db = (None, db')" and "\<And>x d d'. f x d = (None, d') \<Longrightarrow> grows d d'"
  shows "grows db db'"
  by (rule for_each_invariant [OF assms(1), of "grows db"]) (auto intro: grows_trans assms(2))

lemma grows_create_indexes: "create_indexes existing m db = (None, db') \<Longrightarrow> grows db db'"
  by (auto simp: create_indexes_def split: if_splits intro: grows_loop grows_create_if_missing)

section \<open>What the loops achieve\<close>

definition table_exists :: "table_model \<Rightarrow> raw_db \<Rightarrow> bool" where
  "table_exists m db \<longleftrightarrow> find_table (tm_name m) db \<noteq> None"

definition columns_ready :: "table_model \<Rightarrow> raw_db \<Rightarrow> bool" where
  "columns_ready m db \<longleftrightarrow> (case find_table (tm_name m) db of None \<Rightarrow> False | Some t \<Rightarrow> missing_columns m t = [])"

definition indexes_ready :: "table_model \<Rightarrow> raw_db \<Rightarrow> bool" where
  "indexes_ready m db \<longleftrightarrow>
     (case find_table (tm_name m) db of
        None \<Rightarrow> False
      | Some t \<Rightarrow> list_all (\<lambda>i. ix_name i \<in> set (index_names t)) (tm_indexes m))"

lemma table_exists_grows: "grows db db' \<Longrightarrow> table_exists m db \<Longrightarrow> table_exists m db'"
  by (auto simp: table_exists_def dest: growsD)

lemma columns_ready_grows: "grows db db' \<Longrightarrow> columns_ready m db \<Longrightarrow> columns_ready m db'"
  unfolding columns_ready_def missing_columns_def filter_empty_conv table_grows_def
  by (fastforce dest: growsD simp: table_grows_def split: option.splits)

lemma indexes_ready_grows: "grows db db' \<Longrightarrow> indexes_ready m db \<Longrightarrow> indexes_ready m db'"
  unfolding indexes_ready_def list_all_iff
  by (fastforce dest: growsD simp: table_grows_def split: option.splits)

lemma create_all_achieves:
  assumes "create_all ms db = (None, db')" and "m \<in> set ms"
  shows "table_exists m db'"
proof (rule for_each_achieves [OF assms(1) [unfolded create_all_def] assms(2), of "\<lambda>_. True"])
  show "True \<and> table_exists x d'" if created: "create_missing x d = (None, d')" for x d d'
  proof (cases "table_exists x d")
    case True
    with created show ?thesis by (auto intro: table_exists_grows grows_create_missing)
  next
    case False
    with created have "run_statements (map (Create_index (tm_name x)) (tm_indexes x)) (d @ [new_table x]) = (None, d')"
      by (auto simp: create_missing_def table_create_def table_exists_def split: if_splits)
    then have "grows (d @ [new_table x]) d'"
      by (rule grows_statements) (simp add: list_all_iff)
    moreover have "table_exists x (d @ [new_table x])"
      by (auto simp: table_exists_def find_appended new_table_def split: option.split)
    ultimately show ?thesis by (auto intro: table_exists_grows)
  qed
  show "table_exists x d'" if "table_exists x d" "create_missing y d = (None, d')" for x y d d'
    using that by (auto intro: table_exists_grows grows_create_missing)
qed simp

lemma column_statements_achieve:
  assumes run: "run_statements (map (\<lambda>c. Add_column n (cm_name c) (cm_type c)) cs) db = (None, db')"
    and c: "c \<in> set cs"
  shows "\<exists>t. find_table n db' = Some t \<and> cm_name c \<in> set (column_names t)"
  using assms
proof (induction cs arbitrary: db)
  case (Cons k cs)
  let ?rest = "map (\<lambda>c. Add_column n (cm_name c) (cm_type c)) cs"
  obtain d where d: "execute (Add_column n (cm_name k) (cm_type k)) db = Inr d" and rest: "run_statements ?rest d = (None, db')"
    using Cons.prems(1) by (auto simp del: execute.simps)
  have grown: "grows d db'"
    using rest by (rule grows_statements) (simp add: list_all_iff)
  have "\<exists>t. find_table n d = Some t \<and> cm_name k \<in> set (column_names t)"
    using d by (auto simp: on_table_Inr find_replace split: if_splits)
  with grown have "\<exists>t. find_table n db' = Some t \<and> cm_name k \<in> set (column_names t)"
    by (auto dest!: growsD simp: table_grows_def)
  moreover have "c \<in> set cs \<Longrightarrow> ?case"
    using Cons.IH rest by blast
  ultimately show ?case
    using Cons.prems(2) by auto
qed simp

lemma add_columns_ready:
  assumes "add_columns existing m db = (None, db')" and "tm_name m \<in> set existing"
  shows "columns_ready m db'"
proof -
  obtain t where t: "find_table (tm_name m) db = Some t"
    and run: "run_statements (map (\<lambda>c. Add_column (tm_name m) (cm_name c) (cm_type c)) (missing_columns m t)) db = (None, db')"
    using assms by (auto simp: add_columns_def split: option.splits)
  have "grows db db'"
    using assms(1) by (rule grows_add_columns)
  with t obtain t' where t': "find_table (tm_name m) db' = Some t'" and more: "set (column_names t) \<subseteq> set (column_names t')"
    by (auto dest!: growsD simp: table_grows_def)
  have "cm_name c \<in> set (column_names t')" if "c \<in> set (tm_columns m)" "auto_addable c" for c
  proof (cases "cm_name c \<in> set (column_names t)")
    case False
    with that have "c \<in> set (missing_columns m t)" by (simp add: missing_columns_def)
    from column_statements_achieve [OF run this] t' show ?thesis by simp
  qed (use more in blast)
  with t' show ?thesis
    by (auto simp: columns_ready_def missing_columns_def filter_empty_conv)
qed

lemma create_if_missing_achieves:
  "create_if_missing n ix db = (None, db') \<Longrightarrow>
    \<exists>t. find_table n db' = Some t \<and> ix_name ix \<in> set (index_names t)"
  by (auto simp: create_if_missing_def on_table_Inr find_replace index_names_def split: option.splits if_splits)

lemma create_indexes_ready:
  assumes "create_indexes existing m db = (None, db')" and "tm_name m \<in> set existing" and "table_exists m db"
  shows "indexes_ready m db'"
proof -
  have loop: "for_each (create_if_missing (tm_name m)) (tm_indexes m) db = (None, db')"
    using assms by (simp add: create_indexes_def)
  have "table_exists m db'"
    using assms(1,3) by (auto intro: table_exists_grows grows_create_indexes)
  moreover have "\<exists>t. find_table (tm_name m) db' = Some t \<and> ix_name ix \<in> set (index_names t)"
    if "ix \<in> set (tm_indexes m)" for ix
  proof (rule for_each_achieves [OF loop that, of "\<lambda>_. True"])
    show "True \<and> (\<exists>t. find_table (tm_name m) d' = Some t \<and> ix_name x \<in> set (index_names t))"
      if "create_if_missing (tm_name m) x d = (None, d')" for x d d'
      using create_if_missing_achieves [OF that] by simp
    show "\<exists>t. find_table (tm_name m) d' = Some t \<and> ix_name x \<in> set (index_names t)"
      if "\<exists>t. find_table (tm_name m) d = Some t \<and> ix_name x \<in> set (index_names t)"
        "create_if_missing (tm_name m) y d = (None, d')" for x y d d'
      using that grows_create_if_missing [OF that(2)] by (auto dest!: growsD simp: table_grows_def)
  qed simp
  ultimately show ?thesis
    by (auto simp: indexes_ready_def table_exists_def list_all_iff)
qed

section \<open>Rebuilding a table\<close>

text \<open>Index names are global: tables of different names share none.\<close>

definition separate :: "raw_db \<Rightarrow> bool" where
  "separate db \<longleftrightarrow>
     (\<forall>t\<in>set db. \<forall>u\<in>set db. rt_name t \<noteq> rt_name u \<longrightarrow> set (index_names t) \<inter> set (index_names u) = {})"

lemma set_replace_table: "set (replace_table n f db) = (\<lambda>t. if rt_name t = n then f t else t) ` set db"
  by (simp add: replace_table_def modify_row_def set_update_rows)

lemma separate_image:
  assumes "separate db" and "set db' \<subseteq> g ` set db"
    and "\<And>t. t \<in> set db \<Longrightarrow> set (index_names (g t)) \<subseteq> set (index_names t)"
    and "\<And>t u. t \<in> set db \<Longrightarrow> u \<in> set db \<Longrightarrow> rt_name (g t) \<noteq> rt_name (g u) \<Longrightarrow> rt_name t \<noteq> rt_name u"
  shows "separate db'"
  unfolding separate_def
proof (intro ballI impI)
  fix t' u'
  assume "t' \<in> set db'" "u' \<in> set db'"
  with assms(2) obtain t u where t: "t \<in> set db" "t' = g t" and u: "u \<in> set db" "u' = g u" by blast
  assume "rt_name t' \<noteq> rt_name u'"
  with t u assms(4) have "rt_name t \<noteq> rt_name u" by blast
  with assms(1) t(1) u(1) have "set (index_names t) \<inter> set (index_names u) = {}"
    by (simp add: separate_def)
  with assms(3) t u show "set (index_names t') \<inter> set (index_names u') = {}" by blast
qed

lemma separate_replace:
  assumes "separate db" and f: "\<And>t. rt_name (f t) = rt_name t" "\<And>t. index_names (f t) = index_names t"
  shows "separate (replace_table n f db)"
  by (rule separate_image [OF assms(1), of _ "\<lambda>t. if rt_name t = n then f t else t"])
    (auto simp: set_replace_table f split: if_splits)

lemma separate_execute:
  assumes "separate db" and "execute s db = Inr db'"
  shows "separate db'"
  using assms(2)
proof (cases s)
  case (Create_table m)
  have "index_names (new_table m) = []"
    by (simp add: index_names_def new_table_def)
  moreover from Create_table assms have "db' = db @ [new_table m]"
    by (simp split: if_splits)
  ultimately show ?thesis
    using assms(1) unfolding separate_def by fastforce
next
  case (Add_column n c ty)
  with assms have "db' = replace_table n (with_column c ty) db"
    by (auto simp: on_table_Inr split: if_splits)
  moreover have "index_names (with_column c ty t) = index_names t" for t
    by (simp add: index_names_def with_column_def)
  ultimately show ?thesis
    using assms(1) by (simp add: separate_replace)
next
  case (Rename_table a b)
  with assms have db': "db' = replace_table a (\<lambda>t. t\<lparr>rt_name := b\<rparr>) db" and "find_table b db = None"
    by (auto simp: on_table_Inr split: if_splits)
  then have "rt_name t \<noteq> b" if "t \<in> set db" for t
    using that by (auto simp: find_table_def get_row_None)
  then show ?thesis
    by (intro separate_image [OF assms(1), of _ "\<lambda>t. if rt_name t = a then t\<lparr>rt_name := b\<rparr> else t"])
      (auto simp: db' set_replace_table index_names_def split: if_splits)
next
  case (Drop_index i)
  with assms show ?thesis
    by (intro separate_image [OF assms(1), of _ "\<lambda>t. t\<lparr>rt_indexes := filter (\<lambda>x. ix_name x \<noteq> i) (rt_indexes t)\<rparr>"])
      (auto simp: index_names_def)
next
  case (Copy_rows b a cols)
  with assms show ?thesis
    by (auto simp: on_table_Inr index_names_def split: if_splits intro!: separate_replace)
next
  case (Drop_table n)
  with assms show ?thesis
    by (intro separate_image [OF assms(1), of _ id]) (auto simp: on_table_Inr remove_row_def set_delete_rows)
next
  case (Drop_constraint n u)
  with assms show ?thesis
    by (auto simp: on_table_Inr index_names_def split: if_splits intro!: separate_replace)
next
  case (Add_unique n u)
  with assms show ?thesis
    by (auto simp: on_table_Inr index_names_def split: if_splits intro!: separate_replace)
next
  case (Create_index n ix)
  let ?f = "\<lambda>t. t\<lparr>rt_indexes := rt_indexes t @ [ix]\<rparr>"
  from Create_index assms have db': "db' = replace_table n ?f db" and fresh: "\<forall>t\<in>set db. ix_name ix \<notin> set (index_names t)"
    by (auto simp: on_table_Inr split: if_splits)
  have names: "index_names (?f t) = index_names t @ [ix_name ix]" for t
    by (simp add: index_names_def)
  show ?thesis
    unfolding separate_def db' set_replace_table
  proof (intro ballI impI)
    fix t' u'
    assume "t' \<in> (\<lambda>t. if rt_name t = n then ?f t else t) ` set db" "u' \<in> (\<lambda>t. if rt_name t = n then ?f t else t) ` set db"
    then obtain t u where t: "t \<in> set db" "t' = (if rt_name t = n then ?f t else t)"
      and u: "u \<in> set db" "u' = (if rt_name u = n then ?f u else u)" by blast
    assume "rt_name t' \<noteq> rt_name u'"
    then have other: "rt_name t \<noteq> rt_name u" using t u by (auto split: if_splits)
    with assms(1) t(1) u(1) have "set (index_names t) \<inter> set (index_names u) = {}"
      by (simp add: separate_def)
    with other fresh t u names show "set (index_names t') \<inter> set (index_names u') = {}"
      by (cases "rt_name t = n"; cases "rt_name u = n") simp_all
  qed
qed

lemma separate_perform: "perform s db = (None, db') \<Longrightarrow> separate db \<Longrightarrow> separate db'"
  by (auto simp del: execute.simps intro: separate_execute)

lemma separate_loop:
  assumes "for_each f xs db = (None, db')" and "separate db"
    and "\<And>x d d'. f x d = (None, d') \<Longrightarrow> separate d \<Longrightarrow> separate d'"
  shows "separate db'"
  by (rule for_each_invariant [OF assms(1), of separate]) (use assms(2,3) in blast)+

lemmas separate_statements = separate_loop [OF _ _ separate_perform]

lemma drop_indexes_find:
  "run_statements (map Drop_index names) db = (None, db') \<Longrightarrow>
    find_table x db' = map_option (\<lambda>t. t\<lparr>rt_indexes := filter (\<lambda>i. ix_name i \<notin> set names) (rt_indexes t)\<rparr>) (find_table x db)"
proof (induction names arbitrary: db)
  case (Cons i names)
  let ?db = "map (\<lambda>t. t\<lparr>rt_indexes := filter (\<lambda>x. ix_name x \<noteq> i) (rt_indexes t)\<rparr>) db"
  from Cons.prems have "run_statements (map Drop_index names) ?db = (None, db')" by simp
  from Cons.IH [OF this] show ?case
    by (simp add: find_mapped option.map_comp comp_def conj_commute cong: map_option_cong)
qed (simp add: option.map_ident)

lemma create_indexes_find:
  "run_statements (map (Create_index n) ixs) db = (None, db') \<Longrightarrow>
    find_table x db' = (if x = n then map_option (\<lambda>t. t\<lparr>rt_indexes := rt_indexes t @ ixs\<rparr>) (find_table x db) else find_table x db)"
proof (induction ixs arbitrary: db)
  case (Cons i ixs)
  let ?db = "replace_table n (\<lambda>t. t\<lparr>rt_indexes := rt_indexes t @ [i]\<rparr>) db"
  from Cons.prems have "run_statements (map (Create_index n) ixs) ?db = (None, db')"
    by (auto simp: on_table_Inr split: if_splits)
  from Cons.IH [OF this] show ?case
    by (simp add: find_replace option.map_comp comp_def cong: map_option_cong)
qed (simp add: option.map_ident)

text \<open>The table a rebuild leaves: the model's, with the values of the model's columns read from the old one.\<close>

definition rebuilt :: "table_model \<Rightarrow> raw_table \<Rightarrow> raw_table" where
  "rebuilt m t =
     (new_table m)\<lparr>rt_indexes := tm_indexes m, rt_rows := copied t (map cm_name (tm_columns m))\<rparr>"

lemma old_name_other [simp]: "old_name n \<noteq> n" "n \<noteq> old_name n"
proof -
  show "old_name n \<noteq> n"
  proof
    assume "old_name n = n"
    then have "length (old_name n) = length n" by simp
    then show False by (simp add: old_name_def)
  qed
  then show "n \<noteq> old_name n" by simp
qed

lemma index_disjoint:
  assumes "separate db" and "find_table a db = Some t" and "find_table b db = Some u" and "a \<noteq> b"
  shows "i \<in> set (rt_indexes u) \<Longrightarrow> ix_name i \<notin> set (index_names t)"
  using assms find_table_name [OF assms(2)] find_table_name [OF assms(3)]
  by (fastforce simp: separate_def index_names_def)

lemma rebuild_exact:
  assumes success: "rebuild m db = (None, db')" and sep: "separate db"
  shows "\<exists>t. find_table (tm_name m) db = Some t \<and> find_table (tm_name m) db' = Some (rebuilt m t)
    \<and> rows_allowed (rebuilt m t) (rt_rows (rebuilt m t))
    \<and> (\<forall>x. x \<noteq> tm_name m \<longrightarrow> find_table x db' = find_table x db)"
proof -
  let ?n = "tm_name m" and ?tmp = "old_name (tm_name m)" and ?cols = "map cm_name (tm_columns m)"
  let ?rename = "\<lambda>t. t\<lparr>rt_name := ?tmp\<rparr>"
  let ?db1 = "replace_table ?n ?rename db"
  obtain db2 db3 db4 t u v where t: "find_table ?n db = Some t" and free: "find_table ?tmp db = None"
    and drop: "drop_indexes ?tmp ?db1 = (None, db2)" and create: "run_statements (table_create m) db2 = (None, db3)"
    and u: "find_table ?tmp db3 = Some u" and v: "find_table ?n db3 = Some v"
    and allowed: "rows_allowed v (rt_rows v @ copied u ?cols)"
    and db4: "db4 = replace_table ?n (\<lambda>t. t\<lparr>rt_rows := rt_rows t @ copied u ?cols\<rparr>) db3"
    and db': "db' = remove_row rt_name ?tmp db4"
    using success by (auto simp: rebuild_def Let_def on_table_Inr split: if_splits)
  have find1: "find_table x ?db1 = (if x = ?tmp then Some (?rename t) else if x = ?n then None else find_table x db)" for x
    by (simp add: find_renamed [OF free] t)
  let ?gone = "filter droppable (index_names t)"
  let ?strip = "\<lambda>t. t\<lparr>rt_indexes := filter (\<lambda>i. ix_name i \<notin> set ?gone) (rt_indexes t)\<rparr>"
  have "index_names (?rename t) = index_names t" by (simp add: index_names_def)
  with drop find1 [of ?tmp] have "run_statements (map Drop_index ?gone) ?db1 = (None, db2)"
    by (simp add: drop_indexes_def)
  from drop_indexes_find [OF this] have find2: "find_table x db2 = map_option ?strip (find_table x ?db1)" for x .
  have kept: "find_table x db2 = find_table x db" if "x \<noteq> ?n" "x \<noteq> ?tmp" for x
  proof (cases "find_table x db")
    case (Some w)
    have "filter (\<lambda>i. ix_name i \<notin> set ?gone) (rt_indexes w) = rt_indexes w"
      using index_disjoint [OF sep t Some] that(1) by (auto intro!: filter_True)
    with Some that show ?thesis by (simp add: find2 find1)
  qed (use that in \<open>simp add: find2 find1\<close>)
  have fresh: "find_table ?n db2 = None" by (simp add: find2 find1)
  from create fresh have "run_statements (map (Create_index ?n) (tm_indexes m)) (db2 @ [new_table m]) = (None, db3)"
    by (auto simp: table_create_def split: if_splits)
  from create_indexes_find [OF this] have find3:
    "find_table x db3 = (if x = ?n then Some ((new_table m)\<lparr>rt_indexes := tm_indexes m\<rparr>) else find_table x db2)" for x
    using fresh by (auto simp: find_appended new_table_def split: option.split)
  from u have u': "u = ?strip (?rename t)" by (simp add: find3 find2 find1)
  have same: "copied u ?cols = copied t ?cols"
    by (simp add: u' copied_def selected_def column_names_def)
  from v have v': "v = (new_table m)\<lparr>rt_indexes := tm_indexes m\<rparr>" by (simp add: find3)
  have find4: "find_table x db4 = (if x = ?n then Some (rebuilt m t) else find_table x db3)" for x
    using v by (simp add: db4 find_replace same v' rebuilt_def new_table_def)
  have find': "find_table x db' = (if x = ?tmp then None else find_table x db4)" for x
    by (simp add: db' find_dropped)
  have "rows_allowed (rebuilt m t) (rt_rows (rebuilt m t))"
    using allowed by (simp add: v' same rebuilt_def new_table_def rows_allowed_def)
  moreover have "find_table x db' = find_table x db" if "x \<noteq> ?n" for x
    using that free kept by (simp add: find' find4 find3)
  ultimately show ?thesis
    using t by (simp add: find' find4)
qed

section \<open>The upgraded schema\<close>

definition relaxed :: "string \<Rightarrow> string \<Rightarrow> string list \<Rightarrow> raw_db \<Rightarrow> bool" where
  "relaxed n single composite db \<longleftrightarrow>
     (case find_table n db of
        None \<Rightarrow> True
      | Some t \<Rightarrow> has_composite composite t \<and> stale_uniques single t = [])"

definition certificates_relaxed :: "raw_db \<Rightarrow> bool" where
  "certificates_relaxed = relaxed ''ca_certificates'' ''fingerprint_sha256'' [''workspace_id'', ''fingerprint_sha256'']"

definition profiles_relaxed :: "raw_db \<Rightarrow> bool" where
  "profiles_relaxed = relaxed ''profiles'' ''name'' [''workspace_id'', ''name'']"

definition up_to_date :: "table_model list \<Rightarrow> raw_db \<Rightarrow> bool" where
  "up_to_date ms db \<longleftrightarrow>
     list_all (\<lambda>m. columns_ready m db \<and> indexes_ready m db) ms \<and> certificates_relaxed db \<and> profiles_relaxed db"

text \<open>An up-to-date database is left as it is.\<close>

lemma for_each_unchanged: "(\<And>x. x \<in> set xs \<Longrightarrow> f x db = (None, db)) \<Longrightarrow> for_each f xs db = (None, db)"
  by (induction xs) auto

lemma init_db_up_to_date:
  assumes "up_to_date ms db"
  shows "init_db d ms db = (None, db)"
proof -
  have ready: "\<exists>t. find_table (tm_name m) db = Some t \<and> missing_columns m t = [] \<and>
      (\<forall>i\<in>set (tm_indexes m). ix_name i \<in> set (index_names t))" if "m \<in> set ms" for m
    using assms that
    by (fastforce simp: up_to_date_def list_all_iff columns_ready_def indexes_ready_def split: option.splits)
  have "create_all ms db = (None, db)"
    unfolding create_all_def by (rule for_each_unchanged) (auto simp: create_missing_def dest: ready)
  moreover have "for_each (add_columns (map rt_name db)) ms db = (None, db)"
    by (rule for_each_unchanged) (auto simp: add_columns_def dest: ready)
  moreover have "for_each (create_indexes (map rt_name db)) ms db = (None, db)"
    by (rule for_each_unchanged)
      (auto simp: create_indexes_def create_if_missing_def dest!: ready intro!: for_each_unchanged)
  moreover have "relax_ca_certificates d ms db = (None, db)" "relax_profiles d ms db = (None, db)"
    using assms by (auto simp: up_to_date_def certificates_relaxed_def profiles_relaxed_def relaxed_def
        relax_ca_certificates_def relax_profiles_def reconcile_composite_unique_def split: option.splits)
  ultimately show ?thesis
    by (simp add: init_db_def reconcile_existing_tables_def Let_def)
qed

text \<open>What relaxing one table does: nothing, or it rebuilds that table (SQLite), or it changes its constraints.\<close>

definition only_constraints :: "string \<Rightarrow> raw_db \<Rightarrow> raw_db \<Rightarrow> bool" where
  "only_constraints n db db' \<longleftrightarrow>
     (\<forall>x. \<exists>us. find_table x db' = map_option (\<lambda>t. if x = n then t\<lparr>rt_uniques := us\<rparr> else t) (find_table x db))"

lemma only_constraints_refl: "only_constraints n db db"
proof -
  have "find_table x db = map_option (\<lambda>t. if x = n then t\<lparr>rt_uniques := rt_uniques (the (find_table n db))\<rparr> else t) (find_table x db)" for x
    by (cases "find_table x db") auto
  then show ?thesis unfolding only_constraints_def by blast
qed

lemma only_constraints_execute:
  assumes "only_constraints n db d" and "execute s d = Inr d'" and "(\<exists>u. s = Drop_constraint n u) \<or> (\<exists>u. s = Add_unique n u)"
  shows "only_constraints n db d'"
proof -
  obtain f where d': "d' = replace_table n (\<lambda>t. t\<lparr>rt_uniques := f (rt_uniques t)\<rparr>) d"
    using assms(2,3) by (auto simp: on_table_Inr split: if_splits)
  show ?thesis
    unfolding only_constraints_def
  proof
    fix x
    obtain us where "find_table x d = map_option (\<lambda>t. if x = n then t\<lparr>rt_uniques := us\<rparr> else t) (find_table x db)"
      using assms(1) by (auto simp: only_constraints_def)
    then have "find_table x d' = map_option (\<lambda>t. if x = n then t\<lparr>rt_uniques := f us\<rparr> else t) (find_table x db)"
      by (cases "find_table x db") (auto simp: d' find_replace)
    then show "\<exists>us. find_table x d' = map_option (\<lambda>t. if x = n then t\<lparr>rt_uniques := us\<rparr> else t) (find_table x db)" ..
  qed
qed

lemma reconcile_cases:
  assumes "reconcile_composite_unique d ms n single composite name db = (None, db')"
  obtains (unchanged) "db' = db" "relaxed n single composite db"
  | (rebuilt) m where "d = Sqlite" "get_row tm_name n ms = Some m" "rebuild m db = (None, db')"
  | (altered) "d \<noteq> Sqlite" "only_constraints n db db'"
proof (cases "find_table n db")
  case None
  with assms unchanged show ?thesis by (simp add: reconcile_composite_unique_def relaxed_def)
next
  case (Some t)
  consider "has_composite composite t \<and> stale_uniques single t = []"
    | "\<not> (has_composite composite t \<and> stale_uniques single t = [])" "d = Sqlite"
    | "\<not> (has_composite composite t \<and> stale_uniques single t = [])" "d \<noteq> Sqlite" by blast
  then show ?thesis
  proof cases
    case 1
    with assms Some unchanged show ?thesis by (simp add: reconcile_composite_unique_def relaxed_def)
  next
    case 2
    with assms Some rebuilt show ?thesis
      by (auto simp: reconcile_composite_unique_def split: option.splits if_splits)
  next
    case 3
    with assms Some obtain d1 where drop: "run_statements (map (\<lambda>u. Drop_constraint n (constraint_text u)) (stale_uniques single t)) db = (None, d1)"
      and add: "(if has_composite composite t then (None, d1) else perform (Add_unique n (unique_of name composite)) d1) = (None, db')"
      by (auto simp: reconcile_composite_unique_def simp del: execute.simps split: if_splits)
    have d1: "only_constraints n db d1"
      by (rule for_each_invariant [OF drop, of "only_constraints n db"])
        (auto simp del: execute.simps intro: only_constraints_refl only_constraints_execute)
    have "only_constraints n db db'"
    proof (cases "has_composite composite t")
      case True
      with add d1 show ?thesis by simp
    next
      case False
      with add have "execute (Add_unique n (unique_of name composite)) d1 = Inr db'"
        by (simp del: execute.simps)
      with d1 show ?thesis by (rule only_constraints_execute) simp
    qed
    with 3 altered show ?thesis by blast
  qed
qed

text \<open>What an upgrade keeps: every table stays, and the values of the model's columns that were there.\<close>

definition keeps_table :: "string list \<Rightarrow> raw_table \<Rightarrow> raw_table \<Rightarrow> bool" where
  "keeps_table cs t t' \<longleftrightarrow>
     (let old = filter (\<lambda>c. c \<in> set (column_names t)) cs
      in set old \<subseteq> set (column_names t') \<and> project old t' = project old t)"

definition keeps :: "table_model list \<Rightarrow> raw_db \<Rightarrow> raw_db \<Rightarrow> bool" where
  "keeps ms db db' \<longleftrightarrow>
     list_all (\<lambda>m. case find_table (tm_name m) db of
                     None \<Rightarrow> True
                   | Some t \<Rightarrow> (case find_table (tm_name m) db' of
                                 None \<Rightarrow> False
                               | Some t' \<Rightarrow> keeps_table (map cm_name (tm_columns m)) t t')) ms"

lemma keeps_table_refl [simp]: "keeps_table cs t t"
  by (auto simp: keeps_table_def Let_def)

lemma keeps_table_grows: "table_grows t t' \<Longrightarrow> keeps_table cs t t'"
  by (simp add: table_grows_def keeps_table_def Let_def subset_iff)

lemma keepsI:
  assumes "\<And>m t. m \<in> set ms \<Longrightarrow> find_table (tm_name m) db = Some t \<Longrightarrow>
    \<exists>t'. find_table (tm_name m) db' = Some t' \<and> keeps_table (map cm_name (tm_columns m)) t t'"
  shows "keeps ms db db'"
  unfolding keeps_def list_all_iff using assms by (fastforce split: option.split)

lemma keepsD:
  assumes "keeps ms db db'" and "m \<in> set ms" and "find_table (tm_name m) db = Some t"
  shows "\<exists>t'. find_table (tm_name m) db' = Some t' \<and> keeps_table (map cm_name (tm_columns m)) t t'"
  using assms unfolding keeps_def list_all_iff by (fastforce split: option.splits)

lemma project_subset:
  assumes "project cs t' = project cs t" and "set ds \<subseteq> set cs"
  shows "project ds t' = project ds t"
proof -
  let ?pick = "\<lambda>vs. map (\<lambda>d. the (map_of (zip cs vs) d)) ds"
  have pick: "?pick (map (cell r) cs) = map (cell r) ds" for r
    using assms(2) by (auto simp: map_of_zip_map)
  have "project ds u = map ?pick (project cs u)" for u
    by (simp add: project_def pick)
  with assms(1) show ?thesis by simp
qed

lemma keeps_table_trans:
  assumes "keeps_table cs t u" and "keeps_table cs u v"
  shows "keeps_table cs t v"
proof -
  let ?t = "filter (\<lambda>c. c \<in> set (column_names t)) cs" and ?u = "filter (\<lambda>c. c \<in> set (column_names u)) cs"
  have sub: "set ?t \<subseteq> set ?u"
    using assms(1) by (auto simp: keeps_table_def Let_def)
  with assms project_subset [of ?u v u ?t] show ?thesis
    by (auto simp: keeps_table_def Let_def)
qed

lemma keeps_trans: "keeps ms a b \<Longrightarrow> keeps ms b c \<Longrightarrow> keeps ms a c"
  by (rule keepsI) (meson keepsD keeps_table_trans)

lemma keeps_grows: "grows db db' \<Longrightarrow> keeps ms db db'"
  by (rule keepsI) (blast dest: growsD intro: keeps_table_grows)

lemma cell_copied:
  "c \<in> set cs \<Longrightarrow> cell (map (\<lambda>c. (c, f c)) cs) c = f c"
  by (simp add: cell_def dict_get_or_def map_of_map_restrict)

lemma column_names_rebuilt [simp]: "column_names (rebuilt m t) = map cm_name (tm_columns m)"
  by (simp add: rebuilt_def new_table_def column_names_def raw_column_of_def comp_def)

lemma keeps_rebuilt: "keeps_table (map cm_name (tm_columns m)) t (rebuilt m t)"
proof -
  let ?cs = "map cm_name (tm_columns m)"
  have rows: "rt_rows (rebuilt m t) = map (\<lambda>r. map (\<lambda>c. (c, selected t r c)) ?cs) (rt_rows t)"
    by (simp add: rebuilt_def copied_def)
  have "cell (map (\<lambda>c. (c, selected t r c)) ?cs) c = cell r c" if "c \<in> set ?cs" "c \<in> set (column_names t)" for c r
    by (subst cell_copied [OF that(1)]) (simp add: selected_def that(2))
  then show ?thesis
    unfolding keeps_table_def Let_def project_def rows column_names_rebuilt by auto
qed

lemma keeps_only_constraints: "only_constraints n db db' \<Longrightarrow> keeps ms db db'"
proof (rule keepsI)
  fix m t
  assume "only_constraints n db db'" and t: "find_table (tm_name m) db = Some t"
  then obtain us where "find_table (tm_name m) db' = Some (if tm_name m = n then t\<lparr>rt_uniques := us\<rparr> else t)"
    unfolding only_constraints_def by (metis (no_types) option.simps(9))
  then show "\<exists>t'. find_table (tm_name m) db' = Some t' \<and> keeps_table (map cm_name (tm_columns m)) t t'"
    by (auto simp: keeps_table_def Let_def project_def column_names_def)
qed

lemma keeps_rebuild:
  assumes "rebuild m db = (None, db')" and "separate db" and "m \<in> set ms" and "distinct (map tm_name ms)"
  shows "keeps ms db db'"
proof (rule keepsI)
  fix k t
  assume k: "k \<in> set ms" and t: "find_table (tm_name k) db = Some t"
  obtain u where u: "find_table (tm_name m) db = Some u" and new: "find_table (tm_name m) db' = Some (rebuilt m u)"
    and other: "\<And>x. x \<noteq> tm_name m \<Longrightarrow> find_table x db' = find_table x db"
    using rebuild_exact [OF assms(1,2)] by auto
  show "\<exists>t'. find_table (tm_name k) db' = Some t' \<and> keeps_table (map cm_name (tm_columns k)) t t'"
  proof (cases "tm_name k = tm_name m")
    case True
    with k assms(3,4) have "k = m" by (auto simp: distinct_map inj_on_def)
    with t u new keeps_rebuilt show ?thesis by simp
  qed (use t other in simp)
qed

lemma grows_relation:
  "create_all ms db = (None, db') \<Longrightarrow> grows db db'"
  "for_each (add_columns existing) ms db = (None, db') \<Longrightarrow> grows db db'"
  "for_each (create_indexes existing) ms db = (None, db') \<Longrightarrow> grows db db'"
  unfolding create_all_def
  by (blast intro: grows_loop grows_create_missing grows_add_columns grows_create_indexes)+

lemma separate_create_missing: "create_missing m db = (None, db') \<Longrightarrow> separate db \<Longrightarrow> separate db'"
  by (simp only: create_missing_def split: if_splits) (auto intro: separate_statements)

lemma separate_add_columns: "add_columns existing m db = (None, db') \<Longrightarrow> separate db \<Longrightarrow> separate db'"
  by (auto simp: add_columns_def split: if_splits option.splits intro: separate_statements)

lemma separate_create_if_missing: "create_if_missing n ix db = (None, db') \<Longrightarrow> separate db \<Longrightarrow> separate db'"
  by (auto simp: create_if_missing_def simp del: perform_None split: if_splits option.splits intro: separate_perform)

lemma separate_create_indexes: "create_indexes existing m db = (None, db') \<Longrightarrow> separate db \<Longrightarrow> separate db'"
  by (auto simp: create_indexes_def split: if_splits intro: separate_loop separate_create_if_missing)

lemma separate_relation:
  "create_all ms db = (None, db') \<Longrightarrow> separate db \<Longrightarrow> separate db'"
  "for_each (add_columns existing) ms db = (None, db') \<Longrightarrow> separate db \<Longrightarrow> separate db'"
  "for_each (create_indexes existing) ms db = (None, db') \<Longrightarrow> separate db \<Longrightarrow> separate db'"
  unfolding create_all_def
  by (blast intro: separate_loop separate_create_missing separate_add_columns separate_create_indexes)+

lemma separate_rebuild:
  assumes "rebuild m db = (None, db')" and "separate db"
  shows "separate db'"
proof -
  let ?tmp = "old_name (tm_name m)"
  obtain d1 d2 where "perform (Rename_table (tm_name m) ?tmp) db = (None, d1)" and d2: "drop_indexes ?tmp d1 = (None, d2)"
    and rest: "run_statements (table_create m @ [Copy_rows (tm_name m) ?tmp (map cm_name (tm_columns m)), Drop_table ?tmp]) d2 = (None, db')"
    using assms(1) by (auto simp: rebuild_def Let_def simp del: perform_None for_each.simps for_each_append)
  with assms(2) have "separate d1" by (blast intro: separate_perform)
  with d2 have "separate d2"
    by (auto simp: drop_indexes_def split: option.splits intro: separate_statements)
  with rest show ?thesis by (rule separate_statements)
qed

text \<open>The models: distinct names, and none declares the single uniques the upgrade relaxes.\<close>

definition models_ok :: "table_model list \<Rightarrow> bool" where
  "models_ok ms \<longleftrightarrow> distinct (map tm_name ms) \<and>
     list_all (\<lambda>m. certificates_relaxed [new_table m] \<and> profiles_relaxed [new_table m]) ms"

lemma separate_other:
  assumes "separate db" and "rebuild m db = (None, db')" and "x \<noteq> tm_name m"
  shows "find_table x db' = find_table x db"
  using rebuild_exact [OF assms(2,1)] assms(3) by blast

lemma relaxed_rebuilt:
  assumes "relaxed n single composite [new_table m]" and "n = tm_name m" and "find_table n db = Some (rebuilt m t)"
  shows "relaxed n single composite db"
  using assms by (simp add: relaxed_def has_composite_def stale_uniques_def rebuilt_def new_table_def
      find_table_def table_simps)

lemma reconcile_keeps:
  assumes "reconcile_composite_unique d ms n single composite name db = (None, db')"
    and "d = Sqlite \<Longrightarrow> separate db" and "distinct (map tm_name ms)"
  shows "keeps ms db db'"
  using assms(1)
proof (cases rule: reconcile_cases)
  case unchanged
  then show ?thesis by (simp add: keeps_grows)
next
  case (rebuilt m)
  with assms(2,3) show ?thesis by (auto dest: get_row_Some intro: keeps_rebuild)
next
  case altered
  then show ?thesis by (simp add: keeps_only_constraints)
qed

lemma reconcile_separate:
  assumes "reconcile_composite_unique Sqlite ms n single composite name db = (None, db')" and "separate db"
  shows "separate db'"
  using assms(1) by (cases rule: reconcile_cases) (use assms(2) in \<open>auto intro: separate_rebuild\<close>)

lemma reconcile_ready:
  assumes "reconcile_composite_unique Sqlite ms n single composite name db = (None, db')"
    and "separate db" and ms: "distinct (map tm_name ms)" "m \<in> set ms"
  shows "columns_ready m db \<Longrightarrow> columns_ready m db'" and "indexes_ready m db \<Longrightarrow> indexes_ready m db'"
proof -
  have "(columns_ready m db \<longrightarrow> columns_ready m db') \<and> (indexes_ready m db \<longrightarrow> indexes_ready m db')"
    using assms(1)
  proof (cases rule: reconcile_cases)
    case (rebuilt k)
    then have k: "k \<in> set ms" by (auto dest: get_row_Some)
    obtain u where new: "find_table (tm_name k) db' = Some (Schema_Upgrade.rebuilt k u)"
      and other: "\<And>x. x \<noteq> tm_name k \<Longrightarrow> find_table x db' = find_table x db"
      using rebuild_exact [OF rebuilt(3) assms(2)] by auto
    show ?thesis
    proof (cases "tm_name m = tm_name k")
      case True
      with ms k have "m = k" by (auto simp: distinct_map inj_on_def)
      with new show ?thesis
        by (auto simp: columns_ready_def indexes_ready_def missing_columns_def filter_empty_conv list_all_iff
            index_names_def Schema_Upgrade.rebuilt_def)
          (auto simp: column_names_def new_table_def raw_column_of_def)
    qed (simp add: columns_ready_def indexes_ready_def other)
  qed simp_all
  then show "columns_ready m db \<Longrightarrow> columns_ready m db'" and "indexes_ready m db \<Longrightarrow> indexes_ready m db'"
    by simp_all
qed

lemma reconcile_relaxes:
  assumes "reconcile_composite_unique Sqlite ms n single composite name db = (None, db')" and "separate db"
    and "\<And>m. m \<in> set ms \<Longrightarrow> relaxed n single composite [new_table m]"
  shows "relaxed n single composite db'"
  using assms(1)
proof (cases rule: reconcile_cases)
  case (rebuilt m)
  then have "m \<in> set ms" "tm_name m = n" by (auto dest: get_row_Some)
  with rebuild_exact [OF rebuilt(3) assms(2)] assms(3) show ?thesis
    by (auto intro: relaxed_rebuilt)
qed simp_all

lemma reconcile_keeps_relaxed:
  assumes "reconcile_composite_unique Sqlite ms n single composite name db = (None, db')" and "separate db"
    and "k \<noteq> n" and "relaxed k c cs db"
  shows "relaxed k c cs db'"
  using assms(1)
proof (cases rule: reconcile_cases)
  case (rebuilt m)
  then have "tm_name m = n" by (auto dest: get_row_Some)
  with separate_other [OF assms(2) rebuilt(3), of k] assms(3,4) show ?thesis
    by (simp add: relaxed_def)
qed (use assms(4) in simp_all)

text \<open>The steps of \<open>init_db\<close>.\<close>

lemma init_db_steps:
  assumes "init_db d ms db = (None, db')"
  obtains d1 d2 d3 d4 where "create_all ms db = (None, d1)" "for_each (add_columns (map rt_name d1)) ms d1 = (None, d2)"
    "for_each (create_indexes (map rt_name d1)) ms d2 = (None, d3)" "relax_ca_certificates d ms d3 = (None, d4)"
    "relax_profiles d ms d4 = (None, db')"
  using assms by (auto simp: init_db_def reconcile_existing_tables_def Let_def)

lemma init_db_keeps:
  assumes "init_db d ms db = (None, db')" and "separate db" and "distinct (map tm_name ms)"
  shows "keeps ms db db'"
  using assms(1)
proof (cases rule: init_db_steps)
  case (1 d1 d2 d3 d4)
  have sep: "separate d3"
    using 1(1-3) assms(2) by (blast intro: separate_relation)
  have "grows db d3"
    using 1(1-3) by (blast intro: grows_relation grows_trans)
  then have "keeps ms db d3" by (rule keeps_grows)
  moreover have "keeps ms d3 d4"
    using 1(4) unfolding relax_ca_certificates_def by (rule reconcile_keeps) (use sep assms(3) in auto)
  moreover have "keeps ms d4 db'"
    using 1(5) unfolding relax_profiles_def
    by (rule reconcile_keeps) (use 1(4) sep assms(3) in \<open>auto simp: relax_ca_certificates_def intro: reconcile_separate\<close>)
  ultimately show ?thesis by (blast intro: keeps_trans)
qed

lemma init_db_reaches:
  assumes "init_db Sqlite ms db = (None, db')" and "separate db" and "models_ok ms"
  shows "up_to_date ms db'"
  using assms(1)
proof (cases rule: init_db_steps)
  case (1 d1 d2 d3 d4)
  have ms: "distinct (map tm_name ms)" and
    ok: "\<And>m. m \<in> set ms \<Longrightarrow> certificates_relaxed [new_table m] \<and> profiles_relaxed [new_table m]"
    using assms(3) by (auto simp: models_ok_def list_all_iff)
  note relax = 1(4) [unfolded relax_ca_certificates_def] 1(5) [unfolded relax_profiles_def]
  have sep3: "separate d3"
    using 1(1-3) assms(2) by (blast intro: separate_relation)
  have sep4: "separate d4"
    using relax(1) sep3 by (rule reconcile_separate)
  have exists1: "table_exists m d1" if "m \<in> set ms" for m
    using 1(1) that by (rule create_all_achieves)
  then have existing: "tm_name m \<in> set (map rt_name d1)" if "m \<in> set ms" for m
    using that find_table_names [of "tm_name m" d1] by (simp add: table_exists_def)
  have columns: "columns_ready m d2" if "m \<in> set ms" for m
    by (rule for_each_achieves [OF 1(2) that, of "\<lambda>_. True"])
      (auto intro: add_columns_ready existing columns_ready_grows grows_add_columns)
  have exists2: "table_exists m d2" if "m \<in> set ms" for m
    using exists1 [OF that] 1(2) by (blast intro: table_exists_grows grows_relation)
  have indexes: "indexes_ready m d3" if "m \<in> set ms" for m
  proof (rule for_each_achieves [OF 1(3) that, of "\<lambda>d. \<forall>m\<in>set ms. table_exists m d"])
    show "(\<forall>m\<in>set ms. table_exists m d') \<and> indexes_ready x d'"
      if "x \<in> set ms" "\<forall>m\<in>set ms. table_exists m d" "create_indexes (map rt_name d1) x d = (None, d')" for x d d'
      using that by (blast intro: create_indexes_ready existing table_exists_grows grows_create_indexes)
    show "indexes_ready x d'"
      if "indexes_ready x d" "create_indexes (map rt_name d1) y d = (None, d')" for x y d d'
      using that by (blast intro: indexes_ready_grows grows_create_indexes)
  qed (use exists2 in blast)
  have "columns_ready m db' \<and> indexes_ready m db'" if m: "m \<in> set ms" for m
  proof -
    have "columns_ready m d3"
      using columns [OF m] 1(3) by (blast intro: columns_ready_grows grows_relation)
    with reconcile_ready [OF relax(1) sep3 ms m] reconcile_ready [OF relax(2) sep4 ms m] indexes [OF m] show ?thesis
      by blast
  qed
  moreover have "certificates_relaxed d4"
    using reconcile_relaxes [OF relax(1) sep3] ok by (simp add: certificates_relaxed_def)
  then have "certificates_relaxed db'"
    using reconcile_keeps_relaxed [OF relax(2) sep4] by (simp add: certificates_relaxed_def)
  moreover have "profiles_relaxed db'"
    using reconcile_relaxes [OF relax(2) sep4] ok by (simp add: profiles_relaxed_def)
  ultimately show ?thesis
    by (simp add: up_to_date_def list_all_iff)
qed

text \<open>Where only columns are missing the upgrade succeeds and adds them.\<close>

lemma column_statements_succeed:
  assumes "find_table n db = Some t" and "distinct (map cm_name cs)" and "cm_name ` set cs \<inter> set (column_names t) = {}"
  shows "\<exists>db'. run_statements (map (\<lambda>c. Add_column n (cm_name c) (cm_type c)) cs) db = (None, db')"
  using assms
proof (induction cs arbitrary: db t)
  case (Cons c cs)
  let ?t = "with_column (cm_name c) (cm_type c) t" and ?db = "replace_table n (with_column (cm_name c) (cm_type c)) db"
  have "perform (Add_column n (cm_name c) (cm_type c)) db = (None, ?db)"
    using Cons.prems by (auto simp: on_table_def)
  moreover have "find_table n ?db = Some ?t"
    using Cons.prems(1) by (simp add: find_replace)
  moreover have "\<exists>db'. run_statements (map (\<lambda>c. Add_column n (cm_name c) (cm_type c)) cs) ?db = (None, db')"
    using calculation(2) by (rule Cons.IH) (use Cons.prems in auto)
  ultimately show ?case by (simp del: perform_None)
qed simp

lemma add_columns_succeeds:
  assumes "table_exists m db" and "distinct (map cm_name (tm_columns m))"
  shows "\<exists>db'. add_columns existing m db = (None, db')"
proof -
  obtain t where t: "find_table (tm_name m) db = Some t"
    using assms(1) by (auto simp: table_exists_def)
  have "\<exists>db'. run_statements (map (\<lambda>c. Add_column (tm_name m) (cm_name c) (cm_type c)) (missing_columns m t)) db = (None, db')"
    using t by (rule column_statements_succeed) (use assms(2) in \<open>auto simp: missing_columns_def distinct_map_filter\<close>)
  with t show ?thesis by (simp add: add_columns_def)
qed

lemma relaxed_grows:
  assumes "grows db db'" and "relaxed n single composite db" and "find_table n db \<noteq> None"
  shows "relaxed n single composite db'"
  using assms growsD [of db db' n]
  by (auto simp: relaxed_def has_composite_def stale_uniques_def table_grows_def split: option.splits)

lemma init_db_additive:
  assumes ready: "\<And>m. m \<in> set ms \<Longrightarrow> table_exists m db \<and> indexes_ready m db \<and> distinct (map cm_name (tm_columns m))"
    and relaxed: "certificates_relaxed db" "profiles_relaxed db"
    and tables: "find_table ''ca_certificates'' db \<noteq> None" "find_table ''profiles'' db \<noteq> None"
  shows "\<exists>db'. init_db d ms db = (None, db') \<and> grows db db'"
proof -
  have create: "create_all ms db = (None, db)"
    unfolding create_all_def by (rule for_each_unchanged) (use ready in \<open>simp add: create_missing_def table_exists_def\<close>)
  have "\<exists>db'. for_each (add_columns (map rt_name db)) ms' d' = (None, db') \<and> grows db db'"
    if "grows db d'" "set ms' \<subseteq> set ms" for ms' d'
    using that
  proof (induction ms' arbitrary: d')
    case (Cons m ms')
    with ready [of m] have "table_exists m d'" by (auto intro: table_exists_grows)
    with ready [of m] Cons.prems(2) obtain e where e: "add_columns (map rt_name db) m d' = (None, e)"
      using add_columns_succeeds by fastforce
    with Cons.prems(1) have "grows db e" by (blast intro: grows_trans grows_add_columns)
    with Cons.IH [of e] Cons.prems(2) e show ?case by simp
  qed simp
  then obtain db' where columns: "for_each (add_columns (map rt_name db)) ms db = (None, db')" and grown: "grows db db'"
    by (meson grows_refl subset_refl)
  have "\<exists>t. find_table (tm_name m) db' = Some t \<and> (\<forall>i\<in>set (tm_indexes m). ix_name i \<in> set (index_names t))"
    if "m \<in> set ms" for m
    using indexes_ready_grows [OF grown, of m] ready [OF that]
    by (auto simp: indexes_ready_def list_all_iff split: option.splits)
  then have "for_each (create_indexes (map rt_name db)) ms db' = (None, db')"
    by (intro for_each_unchanged)
      (fastforce simp: create_indexes_def create_if_missing_def intro!: for_each_unchanged)
  moreover have "relax_ca_certificates d ms db' = (None, db')" "relax_profiles d ms db' = (None, db')"
    using relaxed_grows [OF grown _ tables(1)] relaxed_grows [OF grown _ tables(2)] relaxed
    by (auto simp: certificates_relaxed_def profiles_relaxed_def relaxed_def relax_ca_certificates_def
        relax_profiles_def reconcile_composite_unique_def split: option.splits)
  ultimately have "init_db d ms db = (None, db')"
    by (simp add: init_db_def reconcile_existing_tables_def Let_def create columns)
  with grown show ?thesis by blast
qed

section \<open>A rebuild that fails\<close>

lemma statements_fail:
  "run_statements ss db = (Some e, db') \<Longrightarrow>
    \<exists>before s after d. ss = before @ s # after \<and> run_statements before db = (None, d) \<and> execute s d = Inl e \<and> db' = d"
proof (induction ss arbitrary: db)
  case (Cons s ss)
  show ?case
  proof (cases "execute s db")
    case (Inl e')
    with Cons.prems have "e' = e \<and> db' = db" by (simp add: perform_def and_then_def del: execute.simps)
    with Inl have "s # ss = [] @ s # ss \<and> run_statements [] db = (None, db) \<and> execute s db = Inl e \<and> db' = db"
      by (simp del: execute.simps)
    then show ?thesis by blast
  next
    case (Inr d)
    then have first: "perform s db = (None, d)" by simp
    with Cons.prems have "run_statements ss d = (Some e, db')" by (simp del: perform_None)
    with Cons.IH obtain before s' after d' where "ss = before @ s' # after" "run_statements before d = (None, d')"
      "execute s' d' = Inl e" "db' = d'" by blast
    moreover from this first have "run_statements (s # before) db = (None, d')"
      by (simp del: perform_None)
    ultimately have "s # ss = (s # before) @ s' # after \<and> run_statements (s # before) db = (None, d') \<and>
        execute s' d' = Inl e \<and> db' = d'" by (simp del: execute.simps)
    then show ?thesis by blast
  qed
qed simp

text \<open>When the copy is refused the rows stay behind in the renamed table, and the new table is empty.\<close>

lemma rebuild_refused:
  assumes "rebuild m db = (Some integrity, db')"
  shows "\<exists>t u v. find_table (tm_name m) db = Some t \<and> find_table (old_name (tm_name m)) db' = Some u \<and>
    rt_rows u = rt_rows t \<and> find_table (tm_name m) db' = Some v \<and> rt_rows v = []"
proof -
  let ?n = "tm_name m" and ?tmp = "old_name (tm_name m)" and ?cols = "map cm_name (tm_columns m)"
  let ?db1 = "replace_table ?n (\<lambda>t. t\<lparr>rt_name := ?tmp\<rparr>) db"
  have other: "integrity \<noteq> operational" "integrity \<noteq> no_such_table"
    by (simp_all add: integrity_def operational_def no_such_table_def)
  obtain t where t: "find_table ?n db = Some t" and free: "find_table ?tmp db = None"
    and rest: "and_then (drop_indexes ?tmp ?db1)
      (run_statements (table_create m @ [Copy_rows ?n ?tmp ?cols, Drop_table ?tmp])) = (Some integrity, db')"
    using assms other
    by (auto simp: rebuild_def Let_def perform_def on_table_def and_then_def simp del: for_each_append
        split: option.splits if_splits)
  have find1: "find_table x ?db1 = (if x = ?tmp then Some (t\<lparr>rt_name := ?tmp\<rparr>) else if x = ?n then None else find_table x db)" for x
    by (simp add: find_renamed [OF free] t)
  have drop: "run_statements (map Drop_index is) d = (None, map (\<lambda>t. t\<lparr>rt_indexes := filter (\<lambda>x. ix_name x \<notin> set is) (rt_indexes t)\<rparr>) d)" for "is" d
    by (induction "is" arbitrary: d) (simp_all add: comp_def perform_def conj_commute)
  obtain names where "drop_indexes ?tmp ?db1 = run_statements (map Drop_index names) ?db1"
    by (simp add: drop_indexes_def find1)
  moreover define db2 where "db2 = map (\<lambda>t. t\<lparr>rt_indexes := filter (\<lambda>x. ix_name x \<notin> set names) (rt_indexes t)\<rparr>) ?db1"
  ultimately have db2: "drop_indexes ?tmp ?db1 = (None, db2)"
    by (simp add: drop)
  have find2: "find_table x db2 = map_option (\<lambda>t. t\<lparr>rt_indexes := filter (\<lambda>x. ix_name x \<notin> set names) (rt_indexes t)\<rparr>) (find_table x ?db1)" for x
    by (simp add: db2_def find_mapped)
  from rest db2 have "run_statements (table_create m @ [Copy_rows ?n ?tmp ?cols, Drop_table ?tmp]) db2 = (Some integrity, db')"
    by (simp del: for_each_append)
  then obtain before s after where split: "table_create m @ [Copy_rows ?n ?tmp ?cols, Drop_table ?tmp] = before @ s # after"
    and run: "run_statements before db2 = (None, db')" and fails: "execute s db' = Inl integrity"
    by (blast dest: statements_fail)
  have created: "find_table x d = (if x = ?n then Some ((new_table m)\<lparr>rt_indexes := is\<rparr>) else find_table x db2)"
    if "run_statements (Create_table m # map (Create_index ?n) is) db2 = (None, d)" for x "is" d
  proof -
    have "run_statements (map (Create_index ?n) is) (db2 @ [new_table m]) = (None, d)"
      using that by (auto split: if_splits)
    from create_indexes_find [OF this] show ?thesis
      by (auto simp: find_appended find2 find1 new_table_def split: option.split)
  qed
  consider (table) "before = []" "s = Create_table m"
    | (index) "is" i js where "tm_indexes m = is @ i # js" "before = Create_table m # map (Create_index ?n) is" "s = Create_index ?n i"
    | (copy) "before = table_create m" "s = Copy_rows ?n ?tmp ?cols"
    | (drop) "s = Drop_table ?tmp"
    using split by (auto simp: table_create_def Cons_eq_append_conv append_eq_Cons_conv append_eq_append_conv2 map_eq_append_conv)
  then show ?thesis
  proof cases
    case table
    with fails other show ?thesis by (auto split: if_splits)
  next
    case index
    with created [of "is" db' ?n] run fails other show ?thesis
      by (auto simp: on_table_def unique_on_def new_table_def split: if_splits)
  next
    case copy
    with run have "run_statements (Create_table m # map (Create_index ?n) (tm_indexes m)) db2 = (None, db')"
      by (simp add: table_create_def)
    from created [OF this] show ?thesis
      by (simp add: t find2 find1 new_table_def)
  next
    case drop
    with fails other show ?thesis by (auto simp: on_table_def split: option.splits)
  qed
qed

end
