(* ===== verification/Migrations.thy ===== *)
theory Migrations
  imports Schema_Upgrade
begin

text \<open>
  The Alembic migration of the multi-user schema (\<open>backend/migrations/versions\<close>) as the statements it sends, and how
  the schema it builds relates to the models: two columns of \<open>workspaces\<close> and one of \<open>workspace_members\<close> are not in
  it and are added at startup.
\<close>

section \<open>The statements\<close>

text \<open>The arguments of \<open>op.create_table\<close>; a migration declares no Python defaults.\<close>

definition migrated_app_settings :: table_model where
  "migrated_app_settings = \<lparr>tm_name = ''app_settings'',
     tm_columns =
       [col ''key'' (String_type 60) Required Undefaulted, col ''value_json'' Text_type Required Undefaulted,
        col ''updated_at'' DateTime_type Required Undefaulted],
     tm_primary_key = [''key''],
     tm_foreign_keys =
       [],
     tm_uniques = [],
     tm_indexes = []\<rparr>"

definition migrated_users :: table_model where
  "migrated_users = \<lparr>tm_name = ''users'',
     tm_columns =
       [col ''id'' Integer_type Required Undefaulted, col ''provider'' (String_type 10) Required Undefaulted,
        col ''subject'' (String_type 255) Required Undefaulted,
        col ''email'' (String_type 320) Nullable Undefaulted,
        col ''display_name'' (String_type 200) Nullable Undefaulted,
        col ''password_hash'' Text_type Nullable Undefaulted,
        col ''is_global_admin'' Boolean_type Required Undefaulted,
        col ''is_active'' Boolean_type Required Undefaulted,
        col ''created_at'' DateTime_type Required Undefaulted,
        col ''last_login_at'' DateTime_type Nullable Undefaulted],
     tm_primary_key = [''id''],
     tm_foreign_keys =
       [],
     tm_uniques = [unique_of ''uq_users_provider_subject'' [''provider'', ''subject'']],
     tm_indexes = []\<rparr>"

definition migrated_audit_log :: table_model where
  "migrated_audit_log = \<lparr>tm_name = ''audit_log'',
     tm_columns =
       [col ''id'' Integer_type Required Undefaulted, col ''ts'' DateTime_type Required Undefaulted,
        col ''user_id'' Integer_type Nullable Undefaulted, col ''actor'' (String_type 320) Nullable Undefaulted,
        col ''event'' (String_type 60) Required Undefaulted,
        col ''workspace_id'' Integer_type Nullable Undefaulted, col ''target'' Text_type Nullable Undefaulted,
        col ''detail_json'' Text_type Required Undefaulted],
     tm_primary_key = [''id''],
     tm_foreign_keys =
       [(''user_id'', ''users'', ''id'', ''SET NULL'')],
     tm_uniques = [],
     tm_indexes = []\<rparr>"

definition migrated_workspaces :: table_model where
  "migrated_workspaces = \<lparr>tm_name = ''workspaces'',
     tm_columns =
       [col ''id'' Integer_type Required Undefaulted, col ''name'' (String_type 200) Required Undefaulted,
        col ''kind'' (String_type 10) Required Undefaulted,
        col ''owner_user_id'' Integer_type Nullable Undefaulted,
        col ''run_visibility'' (String_type 10) Required Undefaulted,
        col ''allow_private_targets'' Boolean_type Required Undefaulted,
        col ''max_concurrent_runs'' Integer_type Required Undefaulted,
        col ''oidc_group'' (String_type 200) Nullable Undefaulted,
        col ''created_at'' DateTime_type Required Undefaulted],
     tm_primary_key = [''id''],
     tm_foreign_keys =
       [(''owner_user_id'', ''users'', ''id'', ''SET NULL'')],
     tm_uniques = [],
     tm_indexes = []\<rparr>"

definition migrated_api_tokens :: table_model where
  "migrated_api_tokens = \<lparr>tm_name = ''api_tokens'',
     tm_columns =
       [col ''id'' Integer_type Required Undefaulted, col ''user_id'' Integer_type Required Undefaulted,
        col ''workspace_id'' Integer_type Nullable Undefaulted,
        col ''name'' (String_type 200) Required Undefaulted,
        col ''token_hash'' (String_type 64) Required Undefaulted,
        col ''role_ceiling'' (String_type 10) Required Undefaulted,
        col ''created_at'' DateTime_type Required Undefaulted,
        col ''last_used_at'' DateTime_type Nullable Undefaulted,
        col ''revoked_at'' DateTime_type Nullable Undefaulted],
     tm_primary_key = [''id''],
     tm_foreign_keys =
       [(''user_id'', ''users'', ''id'', ''CASCADE''), (''workspace_id'', ''workspaces'', ''id'', ''CASCADE'')],
     tm_uniques = [],
     tm_indexes = []\<rparr>"

definition migrated_ca_certificates :: table_model where
  "migrated_ca_certificates = \<lparr>tm_name = ''ca_certificates'',
     tm_columns =
       [col ''id'' Integer_type Required Undefaulted, col ''workspace_id'' Integer_type Nullable Undefaulted,
        col ''created_by_user_id'' Integer_type Nullable Undefaulted,
        col ''name'' (String_type 200) Required Undefaulted, col ''pem'' Text_type Required Undefaulted,
        col ''subject'' Text_type Required Undefaulted, col ''issuer'' Text_type Required Undefaulted,
        col ''serial_number'' Text_type Required Undefaulted,
        col ''fingerprint_sha256'' (String_type 64) Required Undefaulted,
        col ''not_before'' DateTime_type Required Undefaulted,
        col ''not_after'' DateTime_type Required Undefaulted, col ''is_ca'' Integer_type Required Undefaulted,
        col ''source'' (String_type 20) Required Undefaulted, col ''source_url'' Text_type Nullable Undefaulted,
        col ''created_at'' DateTime_type Required Undefaulted],
     tm_primary_key = [''id''],
     tm_foreign_keys =
       [(''created_by_user_id'', ''users'', ''id'', ''SET NULL''),
        (''workspace_id'', ''workspaces'', ''id'', ''CASCADE'')],
     tm_uniques = [unique_of ''uq_ca_certificates_ws_fingerprint'' [''workspace_id'', ''fingerprint_sha256'']],
     tm_indexes = []\<rparr>"

definition migrated_profiles :: table_model where
  "migrated_profiles = \<lparr>tm_name = ''profiles'',
     tm_columns =
       [col ''id'' Integer_type Required Undefaulted, col ''workspace_id'' Integer_type Nullable Undefaulted,
        col ''created_by_user_id'' Integer_type Nullable Undefaulted,
        col ''name'' (String_type 120) Required Undefaulted, col ''description'' Text_type Nullable Undefaulted,
        col ''config_json'' Text_type Required Undefaulted,
        col ''created_at'' DateTime_type Required Undefaulted,
        col ''updated_at'' DateTime_type Required Undefaulted],
     tm_primary_key = [''id''],
     tm_foreign_keys =
       [(''created_by_user_id'', ''users'', ''id'', ''SET NULL''),
        (''workspace_id'', ''workspaces'', ''id'', ''CASCADE'')],
     tm_uniques = [unique_of ''uq_profiles_ws_name'' [''workspace_id'', ''name'']],
     tm_indexes = []\<rparr>"

definition migrated_runs :: table_model where
  "migrated_runs = \<lparr>tm_name = ''runs'',
     tm_columns =
       [col ''id'' (String_type 36) Required Undefaulted,
        col ''workspace_id'' Integer_type Nullable Undefaulted,
        col ''created_by_user_id'' Integer_type Nullable Undefaulted,
        col ''name'' (String_type 200) Nullable Undefaulted, col ''ocsp_url'' Text_type Required Undefaulted,
        col ''status'' (String_type 20) Required Undefaulted,
        col ''created_at'' DateTime_type Required Undefaulted,
        col ''started_at'' DateTime_type Nullable Undefaulted,
        col ''finished_at'' DateTime_type Nullable Undefaulted,
        col ''config_json'' Text_type Required Undefaulted, col ''error'' Text_type Nullable Undefaulted,
        col ''current_activity'' Text_type Nullable Undefaulted,
        col ''totals_json'' Text_type Required Undefaulted, col ''latency_json'' Text_type Nullable Undefaulted,
        col ''last_seq'' Integer_type Required Undefaulted],
     tm_primary_key = [''id''],
     tm_foreign_keys =
       [(''created_by_user_id'', ''users'', ''id'', ''SET NULL''),
        (''workspace_id'', ''workspaces'', ''id'', ''CASCADE'')],
     tm_uniques = [],
     tm_indexes = []\<rparr>"

definition migrated_workspace_members :: table_model where
  "migrated_workspace_members = \<lparr>tm_name = ''workspace_members'',
     tm_columns =
       [col ''id'' Integer_type Required Undefaulted, col ''workspace_id'' Integer_type Required Undefaulted,
        col ''user_id'' Integer_type Required Undefaulted, col ''role'' (String_type 10) Required Undefaulted,
        col ''created_at'' DateTime_type Required Undefaulted],
     tm_primary_key = [''id''],
     tm_foreign_keys =
       [(''user_id'', ''users'', ''id'', ''CASCADE''), (''workspace_id'', ''workspaces'', ''id'', ''CASCADE'')],
     tm_uniques = [unique_of ''uq_ws_member'' [''workspace_id'', ''user_id'']],
     tm_indexes = []\<rparr>"

definition migrated_results :: table_model where
  "migrated_results = \<lparr>tm_name = ''results'',
     tm_columns =
       [col ''id'' (String_type 36) Required Undefaulted, col ''run_id'' (String_type 36) Required Undefaulted,
        col ''category'' (String_type 60) Required Undefaulted, col ''name'' Text_type Required Undefaulted,
        col ''status'' (String_type 10) Required Undefaulted, col ''message'' Text_type Required Undefaulted,
        col ''details_json'' Text_type Required Undefaulted,
        col ''started_at'' DateTime_type Nullable Undefaulted,
        col ''ended_at'' DateTime_type Nullable Undefaulted,
        col ''duration_ms'' Integer_type Nullable Undefaulted],
     tm_primary_key = [''id''],
     tm_foreign_keys =
       [(''run_id'', ''runs'', ''id'', ''CASCADE'')],
     tm_uniques = [],
     tm_indexes = []\<rparr>"

definition migrated_run_events :: table_model where
  "migrated_run_events = \<lparr>tm_name = ''run_events'',
     tm_columns =
       [col ''id'' Integer_type Required Undefaulted, col ''run_id'' (String_type 36) Required Undefaulted,
        col ''seq'' Integer_type Required Undefaulted, col ''type'' (String_type 20) Required Undefaulted,
        col ''ts'' DateTime_type Required Undefaulted, col ''payload_json'' Text_type Required Undefaulted],
     tm_primary_key = [''id''],
     tm_foreign_keys =
       [(''run_id'', ''runs'', ''id'', ''CASCADE'')],
     tm_uniques = [],
     tm_indexes = []\<rparr>"

definition upgrade :: "statement list" where
  "upgrade =
     [Create_table migrated_app_settings, Create_table migrated_users, Create_table migrated_audit_log,
      Create_index ''audit_log'' (index_of ''ix_audit_log_event'' [''event''] False),
      Create_index ''audit_log'' (index_of ''ix_audit_log_ts'' [''ts''] False),
      Create_index ''audit_log'' (index_of ''ix_audit_log_workspace_id'' [''workspace_id''] False),
      Create_table migrated_workspaces, Create_table migrated_api_tokens,
      Create_index ''api_tokens'' (index_of ''ix_api_tokens_token_hash'' [''token_hash''] True),
      Create_index ''api_tokens'' (index_of ''ix_api_tokens_user_id'' [''user_id''] False),
      Create_table migrated_ca_certificates,
      Create_index ''ca_certificates'' (index_of ''ix_ca_certificates_workspace_id'' [''workspace_id''] False),
      Create_table migrated_profiles,
      Create_index ''profiles'' (index_of ''ix_profiles_workspace_id'' [''workspace_id''] False),
      Create_table migrated_runs,
      Create_index ''runs'' (index_of ''ix_runs_created_at'' [''created_at''] False),
      Create_index ''runs'' (index_of ''ix_runs_created_by_user_id'' [''created_by_user_id''] False),
      Create_index ''runs'' (index_of ''ix_runs_status'' [''status''] False),
      Create_index ''runs'' (index_of ''ix_runs_workspace_id'' [''workspace_id''] False),
      Create_table migrated_workspace_members,
      Create_index ''workspace_members'' (index_of ''ix_workspace_members_user_id'' [''user_id''] False),
      Create_index ''workspace_members'' (index_of ''ix_workspace_members_workspace_id'' [''workspace_id''] False),
      Create_table migrated_results,
      Create_index ''results'' (index_of ''ix_results_category'' [''category''] False),
      Create_index ''results'' (index_of ''ix_results_run_id'' [''run_id''] False),
      Create_index ''results'' (index_of ''ix_results_status'' [''status''] False),
      Create_table migrated_run_events,
      Create_index ''run_events'' (index_of ''ix_run_events_run_id'' [''run_id''] False),
      Create_index ''run_events'' (index_of ''ix_run_events_run_seq'' [''run_id'', ''seq''] True)]"

definition downgrade :: "statement list" where
  "downgrade =
     [Drop_index ''ix_run_events_run_seq'', Drop_index ''ix_run_events_run_id'', Drop_table ''run_events'',
      Drop_index ''ix_results_status'', Drop_index ''ix_results_run_id'', Drop_index ''ix_results_category'',
      Drop_table ''results'', Drop_index ''ix_workspace_members_workspace_id'',
      Drop_index ''ix_workspace_members_user_id'', Drop_table ''workspace_members'',
      Drop_index ''ix_runs_workspace_id'', Drop_index ''ix_runs_status'',
      Drop_index ''ix_runs_created_by_user_id'', Drop_index ''ix_runs_created_at'', Drop_table ''runs'',
      Drop_index ''ix_profiles_workspace_id'', Drop_table ''profiles'',
      Drop_index ''ix_ca_certificates_workspace_id'', Drop_table ''ca_certificates'',
      Drop_index ''ix_api_tokens_user_id'', Drop_index ''ix_api_tokens_token_hash'', Drop_table ''api_tokens'',
      Drop_table ''workspaces'', Drop_index ''ix_audit_log_workspace_id'', Drop_index ''ix_audit_log_ts'',
      Drop_index ''ix_audit_log_event'', Drop_table ''audit_log'', Drop_table ''users'',
      Drop_table ''app_settings'']"

section \<open>The schema it builds\<close>

definition later_columns :: "(string \<times> string) list" where
  "later_columns =
     [(''workspaces'', ''oidc_group_admin''), (''workspaces'', ''oidc_group_viewer''), (''workspace_members'', ''source'')]"

definition migrated_table :: "table_model \<Rightarrow> raw_table" where
  "migrated_table m =
     (new_table (m\<lparr>tm_columns := filter (\<lambda>c. (tm_name m, cm_name c) \<notin> set later_columns) (tm_columns m)\<rparr>))
       \<lparr>rt_indexes := tm_indexes m\<rparr>"

lemmas model_tables = app_settings_table_def users_table_def audit_log_table_def workspaces_table_def api_tokens_table_def
  ca_certificates_table_def profiles_table_def runs_table_def workspace_members_table_def results_table_def
  run_events_table_def

lemmas migrated_tables = migrated_app_settings_def migrated_users_def migrated_audit_log_def migrated_workspaces_def
  migrated_api_tokens_def migrated_ca_certificates_def migrated_profiles_def migrated_runs_def
  migrated_workspace_members_def migrated_results_def migrated_run_events_def

text \<open>A table with its indexes is created, and dropped, as a group.\<close>

type_synonym table_group = "table_model \<times> index_model list"

definition group_table :: "table_group \<Rightarrow> raw_table" where
  "group_table g = (new_table (fst g))\<lparr>rt_indexes := snd g\<rparr>"

definition create_group :: "table_group \<Rightarrow> statement list" where
  "create_group g = Create_table (fst g) # map (Create_index (tm_name (fst g))) (snd g)"

definition drop_group :: "table_group \<Rightarrow> statement list" where
  "drop_group g = map Drop_index (rev (map ix_name (snd g))) @ [Drop_table (tm_name (fst g))]"

definition group_ok :: "table_group \<Rightarrow> bool" where
  "group_ok g \<longleftrightarrow> list_all (\<lambda>i. set (ix_columns i) \<subseteq> cm_name ` set (tm_columns (fst g))) (snd g)"

definition groups_ok :: "table_group list \<Rightarrow> bool" where
  "groups_ok gs \<longleftrightarrow> list_all group_ok gs \<and> distinct (map (tm_name \<circ> fst) gs) \<and>
     distinct (concat (map (map ix_name \<circ> snd) gs))"

lemma group_table_simps [simp]:
  "rt_name (group_table g) = tm_name (fst g)"
  "index_names (group_table g) = map ix_name (snd g)"
  "column_names (group_table g) = map cm_name (tm_columns (fst g))"
  "rt_rows (group_table g) = []"
  by (simp_all add: group_table_def new_table_def index_names_def column_names_def raw_column_of_def comp_def)

lemma find_last:
  assumes "find_table (rt_name t) db = None"
  shows "find_table (rt_name t) (db @ [t]) = Some t" and "\<And>f. replace_table (rt_name t) f (db @ [t]) = db @ [f t]"
proof -
  show "find_table (rt_name t) (db @ [t]) = Some t"
    using assms by (simp add: find_appended)
  show "replace_table (rt_name t) f (db @ [t]) = db @ [f t]" for f
    using assms by (auto simp: replace_table_def modify_row_def update_rows_def find_table_def get_row_None intro!: map_idI)
qed

lemma create_group_runs:
  assumes "find_table (tm_name m) db = None" and "group_ok (m, done @ ixs)"
    and "distinct (concat (map index_names db) @ map ix_name (done @ ixs))"
  shows "run_statements (map (Create_index (tm_name m)) ixs) (db @ [group_table (m, done)]) =
    (None, db @ [group_table (m, done @ ixs)])"
  using assms(2,3)
proof (induction ixs arbitrary: "done")
  case (Cons i ixs)
  let ?t = "group_table (m, done)"
  have last: "find_table (tm_name m) (db @ [?t]) = Some ?t"
    and rep: "replace_table (tm_name m) f (db @ [?t]) = db @ [f ?t]" for f
    using find_last [of ?t db] assms(1) by simp_all
  have "ix_name i \<notin> set (concat (map index_names (db @ [?t])))"
    using Cons.prems(2) by auto
  moreover have "set (ix_columns i) \<subseteq> set (column_names ?t)"
    using Cons.prems(1) by (simp add: group_ok_def)
  ultimately have "execute (Create_index (tm_name m) i) (db @ [?t]) = Inr (db @ [?t\<lparr>rt_indexes := rt_indexes ?t @ [i]\<rparr>])"
    by (simp add: on_table_def last rep unique_on_def)
  moreover have "?t\<lparr>rt_indexes := rt_indexes ?t @ [i]\<rparr> = group_table (m, done @ [i])"
    by (simp add: group_table_def)
  ultimately have "perform (Create_index (tm_name m) i) (db @ [?t]) = (None, db @ [group_table (m, done @ [i])])"
    by (simp del: execute.simps)
  with Cons.IH [of "done @ [i]"] Cons.prems show ?case
    by (simp del: perform_None)
qed simp

lemma groups_okD:
  assumes "groups_ok (gs @ h # hs)" and "g \<in> set gs"
  shows "tm_name (fst g) \<noteq> tm_name (fst h)"
proof -
  have "tm_name (fst h) \<notin> (tm_name \<circ> fst) ` set gs"
    using assms(1) by (simp add: groups_ok_def)
  with assms(2) show ?thesis by (metis comp_apply imageI)
qed

lemma create_groups_run:
  assumes "groups_ok (gs @ hs)"
  shows "run_statements (concat (map create_group hs)) (map group_table gs) = (None, map group_table (gs @ hs))"
  using assms
proof (induction hs arbitrary: gs)
  case (Cons h hs)
  obtain m ixs where h: "h = (m, ixs)" by force
  let ?db = "map group_table gs"
  have free: "find_table (tm_name m) ?db = None"
    using groups_okD [OF Cons.prems] by (simp add: h find_table_def get_row_None)
  then have "perform (Create_table m) ?db = (None, ?db @ [group_table (m, [])])"
    by (simp add: group_table_def new_table_def)
  moreover have "run_statements (map (Create_index (tm_name m)) ixs) (?db @ [group_table (m, [])]) =
      (None, ?db @ [group_table (m, [] @ ixs)])"
  proof (rule create_group_runs [OF free])
    show "group_ok (m, [] @ ixs)" using Cons.prems by (simp add: groups_ok_def h)
    have "concat (map index_names ?db) = concat (map (map ix_name \<circ> snd) gs)" by (simp add: comp_def)
    with Cons.prems show "distinct (concat (map index_names ?db) @ map ix_name ([] @ ixs))"
      by (simp add: groups_ok_def h Int_Un_distrib)
  qed
  ultimately have "run_statements (create_group h) ?db = (None, map group_table (gs @ [h]))"
    by (simp add: create_group_def h del: perform_None)
  with Cons.IH [of "gs @ [h]"] Cons.prems show ?case
    by simp
qed simp

lemma drop_group_runs:
  assumes "groups_ok (gs @ [h])"
  shows "run_statements (drop_group h) (map group_table (gs @ [h])) = (None, map group_table gs)"
proof -
  have drop: "run_statements (map Drop_index names) db =
      (None, map (\<lambda>t. t\<lparr>rt_indexes := filter (\<lambda>x. ix_name x \<notin> set names) (rt_indexes t)\<rparr>) db)" for names db
    by (induction names arbitrary: db) (simp_all add: comp_def perform_def conj_commute)
  let ?n = "tm_name (fst h)" and ?strip = "\<lambda>t. t\<lparr>rt_indexes := filter (\<lambda>x. ix_name x \<notin> ix_name ` set (snd h)) (rt_indexes t)\<rparr>"
  have "?strip (group_table g) = group_table g" if "g \<in> set gs" for g
  proof -
    have "filter (\<lambda>x. ix_name x \<notin> ix_name ` set (snd h)) (snd g) = snd g"
      using assms that by (intro filter_True) (force simp: groups_ok_def)
    then show ?thesis by (simp add: group_table_def)
  qed
  then have "map ?strip (map group_table (gs @ [h])) = map group_table gs @ [?strip (group_table h)]"
    by simp
  moreover have "remove_row rt_name ?n (map group_table gs @ [?strip (group_table h)]) = map group_table gs"
    using groups_okD [OF assms] by (simp add: remove_row_def delete_rows_def filter_True)
  moreover have "find_table ?n (map group_table gs @ [?strip (group_table h)]) \<noteq> None"
    by (simp add: find_appended split: option.split)
  ultimately show ?thesis
    by (auto simp: drop_group_def drop perform_def on_table_def simp del: map_append split: option.split)
qed

lemma drop_groups_run:
  "groups_ok gs \<Longrightarrow> run_statements (concat (map drop_group (rev gs))) (map group_table gs) = (None, [])"
proof (induction gs rule: rev_induct)
  case (snoc h gs)
  from snoc.prems have "groups_ok gs" by (simp add: groups_ok_def)
  with snoc.IH drop_group_runs [OF snoc.prems] show ?case
    by (simp del: map_append)
qed simp

definition schema_groups :: "table_group list" where
  "schema_groups =
     [(migrated_app_settings, tm_indexes app_settings_table), (migrated_users, tm_indexes users_table),
      (migrated_audit_log, tm_indexes audit_log_table), (migrated_workspaces, tm_indexes workspaces_table),
      (migrated_api_tokens, tm_indexes api_tokens_table), (migrated_ca_certificates, tm_indexes ca_certificates_table),
      (migrated_profiles, tm_indexes profiles_table), (migrated_runs, tm_indexes runs_table),
      (migrated_workspace_members, tm_indexes workspace_members_table), (migrated_results, tm_indexes results_table),
      (migrated_run_events, tm_indexes run_events_table)]"

lemma schema_groups_ok: "groups_ok schema_groups"
  by (simp add: groups_ok_def group_ok_def schema_groups_def migrated_tables model_tables col_def index_of_def)

lemma upgrade_groups: "upgrade = concat (map create_group schema_groups)"
  by (simp add: upgrade_def schema_groups_def create_group_def migrated_tables model_tables)

lemma downgrade_groups: "downgrade = concat (map drop_group (rev schema_groups))"
  by (simp add: downgrade_def schema_groups_def drop_group_def migrated_tables model_tables index_of_def)

lemma migrated_groups: "map group_table schema_groups = map migrated_table metadata"
  by (simp add: schema_groups_def group_table_def metadata_def migrated_table_def new_table_def raw_column_of_def
      migrated_tables model_tables later_columns_def col_def)

lemma models_ok_metadata: "models_ok metadata"
  by (simp add: models_ok_def metadata_def model_tables certificates_relaxed_def profiles_relaxed_def relaxed_def
      find_table_def table_simps new_table_def has_composite_def stale_uniques_def unique_of_def)

lemma upgrade_exact: "run_statements upgrade [] = (None, map migrated_table metadata)"
  using create_groups_run [of "[]" schema_groups] schema_groups_ok
  by (simp add: upgrade_groups migrated_groups)

lemma downgrade_exact: "run_statements downgrade (map migrated_table metadata) = (None, [])"
  using drop_groups_run [OF schema_groups_ok] by (simp add: downgrade_groups migrated_groups)

text \<open>What the upgrade at startup makes of the migrated schema.\<close>

lemma migrated_table_simps [simp]:
  "rt_name (migrated_table m) = tm_name m" "index_names (migrated_table m) = map ix_name (tm_indexes m)"
  "rt_uniques (migrated_table m) = tm_uniques m" "rt_rows (migrated_table m) = []"
  by (simp_all add: migrated_table_def new_table_def index_names_def)

lemma find_migrated:
  "distinct (map tm_name ms) \<Longrightarrow> m \<in> set ms \<Longrightarrow> find_table (tm_name m) (map migrated_table ms) = Some (migrated_table m)"
  by (induction ms) (auto simp: find_table_def table_simps)

lemma metadata_columns_distinct: "m \<in> set metadata \<Longrightarrow> distinct (map cm_name (tm_columns m))"
  by (auto simp: metadata_def model_tables col_def)

lemma metadata_names: "distinct (map tm_name metadata)"
  using models_ok_metadata by (simp add: models_ok_def)

lemma migrated_relaxed:
  "certificates_relaxed (map migrated_table metadata)" "profiles_relaxed (map migrated_table metadata)"
proof -
  have "find_table ''ca_certificates'' (map migrated_table metadata) = Some (migrated_table ca_certificates_table)"
    "find_table ''profiles'' (map migrated_table metadata) = Some (migrated_table profiles_table)"
    using find_migrated [OF metadata_names, of ca_certificates_table] find_migrated [OF metadata_names, of profiles_table]
    by (simp_all add: metadata_def ca_certificates_table_def profiles_table_def)
  then show "certificates_relaxed (map migrated_table metadata)" "profiles_relaxed (map migrated_table metadata)"
    by (auto simp: certificates_relaxed_def profiles_relaxed_def relaxed_def has_composite_def stale_uniques_def)
      (simp_all add: ca_certificates_table_def profiles_table_def unique_of_def)
qed

lemma distinct_concat_disjoint:
  "distinct (concat (map f xs)) \<Longrightarrow> x \<in> set xs \<Longrightarrow> y \<in> set xs \<Longrightarrow> x \<noteq> y \<Longrightarrow> set (f x) \<inter> set (f y) = {}"
  by (induction xs) auto

lemma migrated_separate: "separate (map migrated_table metadata)"
proof -
  have "distinct (concat (map (\<lambda>m. map ix_name (tm_indexes m)) metadata))"
    by (simp add: metadata_def model_tables index_of_def)
  from distinct_concat_disjoint [OF this] show ?thesis
    unfolding separate_def by fastforce
qed

lemma migrated_upgrades:
  "\<exists>db. init_db d metadata (map migrated_table metadata) = (None, db) \<and> grows (map migrated_table metadata) db"
proof (rule init_db_additive)
  show "table_exists m (map migrated_table metadata) \<and> indexes_ready m (map migrated_table metadata) \<and>
      distinct (map cm_name (tm_columns m))" if "m \<in> set metadata" for m
    using find_migrated [OF metadata_names that] metadata_columns_distinct [OF that]
    by (simp add: table_exists_def indexes_ready_def list_all_iff)
  have "ca_certificates_table \<in> set metadata" "profiles_table \<in> set metadata" by (simp_all add: metadata_def)
  from find_migrated [OF metadata_names this(1)] find_migrated [OF metadata_names this(2)]
  show "find_table ''ca_certificates'' (map migrated_table metadata) \<noteq> None"
    "find_table ''profiles'' (map migrated_table metadata) \<noteq> None"
    by (simp_all add: ca_certificates_table_def profiles_table_def)
qed (rule migrated_relaxed)+

end
