(* ===== verification/Text_Replace.thy ===== *)
theory Text_Replace
  imports Text_Scan
begin

text \<open>
  \<open>str.replace\<close>, which the database URLs, the frontend's page and the paths of the monitor are built with.
\<close>

text \<open>\<open>str.replace\<close>, with the number of replacements left (\<open>None\<close> for all). The text sought is not empty.\<close>

fun replace_from :: "nat option \<Rightarrow> string \<Rightarrow> string \<Rightarrow> string \<Rightarrow> nat \<Rightarrow> string" where
  "replace_from left old new [] skip = []"
| "replace_from left old new (c # cs) (Suc skip) = replace_from left old new cs skip"
| "replace_from left old new (c # cs) 0 =
     (if left \<noteq> Some 0 \<and> startswith (c # cs) old
      then new @ replace_from (map_option (\<lambda>n. n - 1) left) old new cs (length old - 1)
      else c # replace_from left old new cs 0)"

definition replace_all :: "string \<Rightarrow> string \<Rightarrow> string \<Rightarrow> string" where
  "replace_all old new s = replace_from None old new s 0"

definition replace_first :: "string \<Rightarrow> string \<Rightarrow> string \<Rightarrow> string" where
  "replace_first old new s = replace_from (Some 1) old new s 0"

lemma replace_from_skip: "replace_from left old new s (length t) = replace_from left old new (drop (length t) s) 0"
  by (induction t arbitrary: s) (auto simp: Let_def split: list.split, case_tac s, auto)

lemma replace_from_zero: "replace_from (Some 0) old new s 0 = s"
  by (induction s) auto

lemma startswith_contains: "startswith s p \<Longrightarrow> contains s p"
  by (simp add: contains_def startswith_def prefix_imp_sublist)

text \<open>A text without the part sought is unchanged.\<close>

lemma replace_absent: "\<not> contains s old \<Longrightarrow> replace_from left old new s 0 = s"
proof (induction s arbitrary: left)
  case (Cons c s)
  then have "\<not> startswith (c # s) old" "\<not> contains s old"
    by (auto dest: startswith_contains simp: contains_def sublist_Cons_right)
  with Cons.IH show ?case by simp
qed simp

end
