(* ===== verification/Startup.thy ===== *)
theory Startup
  imports Migrations Provisioning Jobs Storage Text_Replace
begin

text \<open>
  Starting the application (\<open>backend/app/main.py\<close>): the refusal to run without authentication, the schema, the
  boot-time provisioning, the orphaned runs, the retention loop; the page of the frontend and the route that serves
  it; the health endpoints (\<open>api/health.py\<close>), the log format (\<open>logging_config.py\<close>) and the database URLs of
  \<open>db.py\<close> and \<open>migrations/env.py\<close>.
\<close>

section \<open>Database URLs\<close>

definition dialect_of :: "settings \<Rightarrow> dialect" where
  "dialect_of st = (if startswith (resolved_database_url st) ''sqlite'' then Sqlite else Other_dialect)"

definition migration_database_url :: "settings \<Rightarrow> string" where
  "migration_database_url st =
     replace_all ''postgresql+psycopg'' ''postgresql+psycopg2''
       (replace_all ''+asyncpg'' ''+psycopg2'' (replace_all ''+aiosqlite'' [] (resolved_database_url st)))"

section \<open>The lifespan of the application\<close>

text \<open>The database at two levels: its tables with their columns, and the rows the ORM reads and writes.\<close>

type_synonym server = "raw_db \<times> db"

definition startup_refused :: "settings \<Rightarrow> bool" where
  "startup_refused st \<longleftrightarrow> \<not> auth_active st \<and> \<not> st_allow_open_mode st"

definition lifespan :: "env \<Rightarrow> job_env \<Rightarrow> settings \<Rightarrow> server \<Rightarrow> unit result \<times> server" where
  "lifespan env je st sv =
     (if startup_refused st then (Inl (Uncaught ''RuntimeError''), sv)
      else case init_db (dialect_of st) metadata (fst sv) of
             (Some e, schema) \<Rightarrow> (Inl e, (schema, snd sv))
           | (None, schema) \<Rightarrow>
               (case run_startup_provisioning env st (snd sv) of
                  (Inl e, db) \<Rightarrow> (Inl e, (schema, db))
                | (Inr _, db) \<Rightarrow> (Inr (), (schema, mark_orphans_failed je db))))"

definition retention_interval :: "settings \<Rightarrow> int" where
  "retention_interval st = max 1 (st_retention_sweep_minutes st) * 60"

text \<open>The retention loop over the times at which it wakes; the state is what is on disk.\<close>

primrec retention_loop :: "settings \<Rightarrow> int list \<Rightarrow> storage \<Rightarrow> storage" where
  "retention_loop st [] fs = fs"
| "retention_loop st (now # later) fs = retention_loop st later (snd (sweep_expired_workspaces st now fs))"

section \<open>The frontend\<close>

definition base_tag :: "string \<Rightarrow> string" where
  "base_tag href = ''<base href='' @ [CHR 0x22] @ href @ [CHR 0x22] @ ''>''"

definition load_spa_index :: "settings \<Rightarrow> string option \<Rightarrow> string option" where
  "load_spa_index st index_html =
     map_option (replace_first (base_tag ''/'') (base_tag (st_base_path st @ ''/''))) index_html"

definition SPA_HTML_HEADERS :: "(string \<times> string) list" where
  "SPA_HTML_HEADERS = [(''Cache-Control'', ''no-cache'')]"

definition spa :: "string \<Rightarrow> string \<Rightarrow> (string \<times> (string \<times> string) list) result" where
  "spa spa_index full_path =
     (if startswith full_path ''api/'' \<or> full_path = ''api'' then Inl (HTTPException 404 ''Not found'')
      else Inr (spa_index, SPA_HTML_HEADERS))"

definition app_middleware :: "settings \<Rightarrow> string list" where
  "app_middleware st =
     (if cors_origin_list st \<noteq> [] then [''CORSMiddleware''] else []) @
     (if oidc_enabled st then [''SessionMiddleware''] else [])"

section \<open>Health and logging\<close>

record health_out =
  ho_status :: string
  ho_database :: string
  ho_openssl :: "string option"
  ho_time :: int

text \<open>The version line openssl printed, when it ran in time.\<close>

definition openssl_version :: "string option \<Rightarrow> string option" where
  "openssl_version stdout =
     (case stdout of None \<Rightarrow> None | Some s \<Rightarrow> if strip s = [] then None else Some (strip s))"

definition health :: "bool \<Rightarrow> string option \<Rightarrow> int \<Rightarrow> health_out" where
  "health query_ok stdout now =
     (let db_status = (if query_ok then ''ok'' else ''error'')
      in \<lparr>ho_status = (if db_status = ''ok'' then ''ok'' else ''degraded''), ho_database = db_status,
          ho_openssl = openssl_version stdout, ho_time = now\<rparr>)"

definition APP_NAME :: string where "APP_NAME = ''ocsp-crl-testing-web''"

definition app_version :: string where "app_version = ''1.2.1''"

definition version_out :: "(string \<times> string) list" where
  "version_out = [(''name'', APP_NAME), (''version'', app_version), (''engine'', ''ocsp_tester'')]"

record log_record =
  lr_levelname :: string
  lr_name :: string
  lr_message :: string
  lr_exc_text :: "string option"
  lr_extra :: "(string \<times> json) list"

definition log_format :: "string \<Rightarrow> log_record \<Rightarrow> (string \<times> json) list" where
  "log_format ts r =
     [(''ts'', JStr ts), (''level'', JStr (lr_levelname r)), (''logger'', JStr (lr_name r)), (''message'', JStr (lr_message r))] @
     (case lr_exc_text r of None \<Rightarrow> [] | Some e \<Rightarrow> [(''exc_info'', JStr e)]) @
     map (\<lambda>k. (k, jget (lr_extra r) k JNull))
       (filter (\<lambda>k. jget (lr_extra r) k JNull \<noteq> JNull) [''run_id'', ''event'', ''target'', ''reason''])"

section \<open>Lemmas\<close>

lemma backfilled_assigned:
  "\<forall>r\<in>set (runs (backfilled w db)). r_workspace_id r \<noteq> None"
  "\<forall>p\<in>set (profiles (backfilled w db)). pf_workspace_id p \<noteq> None"
  "\<forall>c\<in>set (ca_certs (backfilled w db)). ca_workspace_id c \<noteq> None"
  by (auto simp: backfilled_def set_update_rows)

text \<open>After a successful provisioning no row is outside a workspace and no membership without a source.\<close>

definition rows_assigned :: "db \<Rightarrow> bool" where
  "rows_assigned db \<longleftrightarrow>
     list_all (\<lambda>r. r_workspace_id r \<noteq> None) (runs db) \<and> list_all (\<lambda>p. pf_workspace_id p \<noteq> None) (profiles db) \<and>
     list_all (\<lambda>c. ca_workspace_id c \<noteq> None) (ca_certs db) \<and> list_all (\<lambda>m. m_source m \<noteq> None) (members db)"

lemma provisioning_assigns:
  assumes "run_startup_provisioning env st db = (Inr (), db')"
  shows "rows_assigned db'"
proof -
  obtain w d where "db' = backfill_member_source (backfilled w d)"
    using assms by (auto simp: run_startup_provisioning_def backfill_default_workspace_def Let_def
        split: prod.splits sum.splits if_splits)
  then show ?thesis
    using backfilled_assigned [of w d]
    by (auto simp: rows_assigned_def backfill_member_source_def list_all_iff set_update_rows)
qed

lemma orphans_assigned: "rows_assigned (mark_orphans_failed je db) = rows_assigned db"
proof -
  have "list_all (\<lambda>r. r_workspace_id r \<noteq> None) (runs (mark_orphans_failed je db)) = list_all (\<lambda>r. r_workspace_id r \<noteq> None) (runs db)"
    by (simp add: mark_orphans_failed_def update_rows_def list.pred_map comp_def if_distrib cong: if_cong)
  then show ?thesis by (simp add: rows_assigned_def mark_orphans_failed_def)
qed

lemma orphans_ended: "active_run_count (mark_orphans_failed je db) = 0"
  by (auto simp: active_run_count_def mark_orphans_failed_def update_rows_def is_active_status_def filter_empty_conv)

end
