(* ===== verification/Startup_Properties.thy ===== *)
theory Startup_Properties
  imports Startup Sample_Runs
begin

text \<open>
  The properties of starting the application: when it refuses, what holds once it serves requests, and what the
  schema upgrade keeps of an older database.
\<close>

section \<open>The schema upgrade\<close>

text \<open>The \<open>profiles\<close> table as it was before workspaces, with a global unique on the name.\<close>

definition legacy_profiles :: "(string \<times> json) list \<Rightarrow> raw_table" where
  "legacy_profiles r =
     \<lparr>rt_name = ''profiles'',
      rt_columns = map (raw_column_of) (filter (\<lambda>c. cm_name c \<noteq> ''workspace_id'' \<and> cm_name c \<noteq> ''created_by_user_id'')
        (tm_columns profiles_table)),
      rt_primary_key = [''id''], rt_foreign_keys = [],
      rt_uniques = [\<lparr>un_name = None, un_columns = [''name'']\<rparr>], rt_indexes = [], rt_rows = [r]\<rparr>"

definition legacy_row :: "(string \<times> json) list" where
  "legacy_row = [(''id'', JInt 1), (''name'', JStr ''lab''), (''description'', JNull), (''config_json'', JStr []),
     (''created_at'', JInt 5), (''updated_at'', JInt 6)]"

lemma single_table:
  "find_table x [t] = (if rt_name t = x then Some t else None)"
  "replace_table x f [t] = [if rt_name t = x then f t else t]"
  by (simp_all add: find_table_def table_simps replace_table_def modify_row_def update_rows_def)

definition legacy_columns :: raw_table where
  "legacy_columns =
     with_column ''created_by_user_id'' Integer_type (with_column ''workspace_id'' Integer_type (legacy_profiles legacy_row))"

definition legacy_indexed :: raw_table where
  "legacy_indexed = legacy_columns\<lparr>rt_indexes := [index_of ''ix_profiles_workspace_id'' [''workspace_id''] False]\<rparr>"

lemma legacy_names:
  "rt_name (legacy_profiles r) = ''profiles''" "rt_name legacy_columns = ''profiles''" "rt_name legacy_indexed = ''profiles''"
  "tm_name profiles_table = ''profiles''"
  by (simp_all add: legacy_profiles_def legacy_columns_def legacy_indexed_def profiles_table_def)

lemma legacy_column_names:
  "column_names (legacy_profiles r) = [''id'', ''name'', ''description'', ''config_json'', ''created_at'', ''updated_at'']"
  by (simp add: legacy_profiles_def column_names_def profiles_table_def col_def raw_column_of_def)

lemma legacy_add: "add_columns [''profiles''] profiles_table [legacy_profiles legacy_row] = (None, [legacy_columns])"
proof -
  have "map (\<lambda>c. Add_column ''profiles'' (cm_name c) (cm_type c)) (missing_columns profiles_table (legacy_profiles legacy_row)) =
      [Add_column ''profiles'' ''workspace_id'' Integer_type, Add_column ''profiles'' ''created_by_user_id'' Integer_type]"
    by (simp add: missing_columns_def auto_addable_def legacy_column_names) (simp add: profiles_table_def col_def)
  then show ?thesis
    by (simp add: add_columns_def single_table legacy_names on_table_def legacy_column_names legacy_columns_def)
qed

lemma legacy_index: "create_indexes [''profiles''] profiles_table [legacy_columns] = (None, [legacy_indexed])"
proof -
  have "tm_indexes profiles_table = [index_of ''ix_profiles_workspace_id'' [''workspace_id''] False]"
    by (simp add: profiles_table_def)
  moreover have "index_names legacy_columns = []" "rt_indexes legacy_columns = []"
    by (simp_all add: legacy_columns_def with_column_def legacy_profiles_def index_names_def)
  moreover have "column_names legacy_columns =
      [''id'', ''name'', ''description'', ''config_json'', ''created_at'', ''updated_at'', ''workspace_id'', ''created_by_user_id'']"
    by (simp add: legacy_columns_def legacy_column_names)
  ultimately show ?thesis
    by (simp add: create_indexes_def create_if_missing_def single_table legacy_names on_table_def index_of_def legacy_indexed_def)
qed

text \<open>The rebuild of that table, up to the copy of its rows.\<close>

definition renamed_profiles :: raw_table where
  "renamed_profiles = legacy_indexed\<lparr>rt_name := old_name ''profiles'', rt_indexes := []\<rparr>"

definition fresh_profiles :: raw_table where
  "fresh_profiles = (new_table profiles_table)\<lparr>rt_indexes := tm_indexes profiles_table\<rparr>"

lemma legacy_rename:
  "perform (Rename_table ''profiles'' (old_name ''profiles'')) [legacy_indexed] = (None, [legacy_indexed\<lparr>rt_name := old_name ''profiles''\<rparr>])"
  by (simp add: single_table on_table_def legacy_names old_name_def)

lemma legacy_drop:
  "drop_indexes (old_name ''profiles'') [legacy_indexed\<lparr>rt_name := old_name ''profiles''\<rparr>] = (None, [renamed_profiles])"
  by (simp add: drop_indexes_def single_table index_names_def legacy_indexed_def index_of_def droppable_def startswith_def
      renamed_profiles_def)

lemma legacy_create:
  "run_statements (table_create profiles_table) [renamed_profiles] = (None, [renamed_profiles, fresh_profiles])"
proof -
  have "tm_indexes profiles_table = [index_of ''ix_profiles_workspace_id'' [''workspace_id''] False]"
    by (simp add: profiles_table_def)
  moreover have "perform (Create_table profiles_table) [renamed_profiles] = (None, [renamed_profiles, new_table profiles_table])"
    by (simp add: single_table renamed_profiles_def legacy_names old_name_def)
  moreover have "perform (Create_index ''profiles'' (index_of ''ix_profiles_workspace_id'' [''workspace_id''] False))
      [renamed_profiles, new_table profiles_table] = (None, [renamed_profiles, fresh_profiles])"
    by (simp add: on_table_def find_table_def table_simps renamed_profiles_def old_name_def new_table_def legacy_names
        index_names_def column_names_def index_of_def replace_table_def modify_row_def update_rows_def fresh_profiles_def)
      (simp add: profiles_table_def col_def raw_column_of_def index_of_def)
  ultimately show ?thesis
    by (simp add: table_create_def legacy_names del: perform_None)
qed

lemma legacy_copied:
  "copied renamed_profiles (map cm_name (tm_columns profiles_table)) =
    [[(''id'', JInt 1), (''workspace_id'', JNull), (''created_by_user_id'', JNull), (''name'', JStr ''lab''),
      (''description'', JNull), (''config_json'', JStr []), (''created_at'', JInt 5), (''updated_at'', JInt 6)]]"
  by (simp add: copied_def renamed_profiles_def legacy_indexed_def legacy_columns_def with_column_def legacy_profiles_def
      selected_def column_names_def cell_def legacy_row_def profiles_table_def col_def raw_column_of_def)

lemma fresh_profiles_simps:
  "rt_name fresh_profiles = ''profiles''" "column_names fresh_profiles = map cm_name (tm_columns profiles_table)"
  "rt_rows fresh_profiles = []"
  by (simp_all add: fresh_profiles_def new_table_def column_names_def raw_column_of_def comp_def legacy_names)

lemma legacy_allowed: "rows_allowed fresh_profiles (copied renamed_profiles (map cm_name (tm_columns profiles_table)))"
  unfolding legacy_copied
  by (simp add: rows_allowed_def unique_on_def cell_def fresh_profiles_def new_table_def profiles_table_def col_def
      raw_column_of_def unique_of_def index_of_def)

lemma legacy_relax: "\<exists>db. relax_profiles Sqlite [profiles_table] [legacy_indexed] = (None, db)"
proof -
  have "\<not> has_composite [''workspace_id'', ''name''] legacy_indexed"
    by (simp add: has_composite_def legacy_indexed_def legacy_columns_def with_column_def legacy_profiles_def)
  then have "relax_profiles Sqlite [profiles_table] [legacy_indexed] = rebuild profiles_table [legacy_indexed]"
    by (simp add: relax_profiles_def reconcile_composite_unique_def single_table legacy_names table_simps)
  moreover have "rt_name renamed_profiles = ''_profiles_old''" "old_name ''profiles'' = ''_profiles_old''"
    by (simp_all add: renamed_profiles_def old_name_def)
  then have "\<exists>db. run_statements [Copy_rows ''profiles'' (old_name ''profiles'') (map cm_name (tm_columns profiles_table)),
      Drop_table (old_name ''profiles'')] [renamed_profiles, fresh_profiles] = (None, db)"
    using legacy_allowed
    by (simp add: on_table_def find_table_def table_simps fresh_profiles_simps replace_table_def modify_row_def update_rows_def)
  ultimately show ?thesis
    by (simp add: rebuild_def Let_def legacy_names legacy_rename legacy_drop legacy_create del: perform_None)
qed

lemma legacy_upgrades: "\<exists>db. init_db Sqlite [profiles_table] [legacy_profiles legacy_row] = (None, db)"
proof -
  have "relax_ca_certificates Sqlite [profiles_table] [legacy_indexed] = (None, [legacy_indexed])"
    by (simp add: relax_ca_certificates_def reconcile_composite_unique_def single_table legacy_names)
  moreover have "create_all [profiles_table] [legacy_profiles legacy_row] = (None, [legacy_profiles legacy_row])"
    by (simp add: create_all_def create_missing_def single_table legacy_names)
  ultimately show ?thesis
    using legacy_relax
    by (simp add: init_db_def reconcile_existing_tables_def Let_def legacy_names legacy_add legacy_index)
qed

text \<open>C38: Bringing an existing database up to the models keeps what it holds: after a successful \<open>init_db\<close> every table
  the models name is still there, and in each of its rows, in order, the columns of the model that the table had have
  the values they had, also where SQLite made the upgrade rebuild the table.\<close>

theorem upgrade_keeps_rows:
  assumes "init_db d ms db = (None, db')" and "separate db" and "models_ok ms"
  shows "keeps ms db db'"
  using assms by (auto simp: models_ok_def intro: init_db_keeps)

theorem upgrade_keeps_rows_witness:
  "models_ok [profiles_table] \<and>
   (\<exists>db. init_db Sqlite [profiles_table] [legacy_profiles legacy_row] = (None, db)
      \<and> keeps [profiles_table] [legacy_profiles legacy_row] db)"
proof -
  have ok: "models_ok [profiles_table]"
    using models_ok_metadata by (simp add: models_ok_def metadata_def)
  moreover have "separate [legacy_profiles legacy_row]" by (simp add: separate_def)
  ultimately show ?thesis
    using legacy_upgrades upgrade_keeps_rows by blast
qed

text \<open>C39: The upgrade of a SQLite database reaches its goal and is idempotent: after a successful \<open>init_db\<close> every table
  has the columns and indexes that can be added and the per-workspace uniques in place of the global ones, and every
  later \<open>init_db\<close> succeeds and changes nothing.\<close>

theorem upgrade_idempotent:
  assumes "init_db Sqlite ms db = (None, db')" and "separate db" and "models_ok ms"
  shows "up_to_date ms db' \<and> init_db d ms db' = (None, db')"
  using init_db_reaches [OF assms] init_db_up_to_date by blast

theorem upgrade_idempotent_witness:
  "\<exists>db. init_db Sqlite metadata (map migrated_table metadata) = (None, db) \<and> up_to_date metadata db
     \<and> init_db Sqlite metadata db = (None, db)"
  using migrated_upgrades [of Sqlite] upgrade_idempotent [OF _ migrated_separate models_ok_metadata] by blast


section \<open>Starting to serve\<close>

text \<open>C37: The application starts only with authentication configured or with the open mode asked for, and a refused
  start touches nothing; once it serves, the schema is up to date (on SQLite) with every value kept, every run, profile
  and certificate belongs to a workspace, every membership has a source, and no run is left queued or running.\<close>

theorem startup_safe:
  assumes "separate raw" and "lifespan env je st (raw, db) = (res, (raw', db'))"
  shows "(startup_refused st \<longrightarrow> res = Inl (Uncaught ''RuntimeError'') \<and> raw' = raw \<and> db' = db) \<and>
    (res = Inr () \<longrightarrow> (auth_active st \<or> st_allow_open_mode st) \<and> keeps metadata raw raw' \<and>
       (dialect_of st = Sqlite \<longrightarrow> up_to_date metadata raw') \<and> rows_assigned db' \<and> active_run_count db' = 0)"
proof (cases "startup_refused st")
  case True
  with assms(2) show ?thesis by (auto simp: lifespan_def)
next
  case False
  have "keeps metadata raw raw' \<and> (dialect_of st = Sqlite \<longrightarrow> up_to_date metadata raw') \<and> rows_assigned db' \<and>
      active_run_count db' = 0" if served: "res = Inr ()"
  proof -
    obtain d where init: "init_db (dialect_of st) metadata raw = (None, raw')"
      and prov: "run_startup_provisioning env st db = (Inr (), d)" and db': "db' = mark_orphans_failed je d"
      using assms(2) False served by (auto simp: lifespan_def split: prod.splits option.splits sum.splits)
    have "rows_assigned db'"
      using provisioning_assigns [OF prov] by (simp add: db' orphans_assigned)
    with init_db_keeps [OF init assms(1) metadata_names] init_db_reaches [OF _ assms(1) models_ok_metadata, of raw'] init
    show ?thesis by (auto simp: db' orphans_ended)
  qed
  with False show ?thesis by (auto simp: startup_refused_def)
qed

definition open_settings :: settings where
  "open_settings = default_settings\<lparr>st_allow_open_mode := True\<rparr>"

definition legacy_db :: db where
  "legacy_db = sample_db\<lparr>runs := [sample_run\<lparr>r_workspace_id := None, r_status := ''running''\<rparr>]\<rparr>"

theorem startup_safe_witness:
  "\<exists>raw db. lifespan sample_env sample_jobs_env open_settings (map migrated_table metadata, legacy_db) = (Inr (), (raw, db))
     \<and> up_to_date metadata raw \<and> rows_assigned db \<and> active_run_count db = 0"
proof -
  obtain raw where raw: "init_db Sqlite metadata (map migrated_table metadata) = (None, raw)"
    using migrated_upgrades by blast
  have dialect: "dialect_of open_settings = Sqlite"
    by (simp add: dialect_of_def resolved_database_url_def open_settings_def default_settings_def startswith_def)
  have "st_bootstrap_admin_password open_settings = []"
    by (simp add: open_settings_def default_settings_def)
  then obtain d where "run_startup_provisioning sample_env open_settings legacy_db = (Inr (), d)"
    by (simp add: run_startup_provisioning_def ensure_bootstrap_admin_def Let_def backfill_default_workspace_def
        backfilled_def legacy_db_def sample_db_def empty_db_def update_rows_def profile_keys_def ca_keys_def
        ensure_default_workspace_def add_workspace_def sample_workspace_def DEFAULT_WORKSPACE_NAME_def)
  with raw have "lifespan sample_env sample_jobs_env open_settings (map migrated_table metadata, legacy_db) =
      (Inr (), (raw, mark_orphans_failed sample_jobs_env d))"
    by (simp add: lifespan_def dialect startup_refused_def) (simp add: open_settings_def)
  with startup_safe [OF migrated_separate this] dialect show ?thesis by blast
qed

end
