(* ===== verification/Diagnostics.thy ===== *)
theory Diagnostics
  imports Executor
begin

text \<open>
  The recorder of the worker's external actions (\<open>backend/app/worker/diagnostics.py\<close>): the records of commands and
  HTTP exchanges, their cap, the hints for reproducing them, and the lines they leave in the log. Base64, the clock
  and the outcome of the patched functions are arguments; outcomes are passed on unchanged.
\<close>

section \<open>The recorder\<close>

type_synonym recorder = "diag_record list \<times> nat"

definition MAX_BODY_BYTES :: nat where
  "MAX_BODY_BYTES = 4096"

text \<open>When an action started and ended, the milliseconds measured, and the renderings of the two times.\<close>

record clocked =
  ck_started :: int
  ck_started_iso :: string
  ck_ended_iso :: string
  ck_ms :: int

definition iso_z :: "string \<Rightarrow> json" where
  "iso_z t = JStr (t @ ''Z'')"

definition timing :: "clocked \<Rightarrow> (string \<times> json) list" where
  "timing ck = [(''duration_ms'', JInt (ck_ms ck)), (''ended_at'', iso_z (ck_ended_iso ck))]"

text \<open>\<open>f"{type(exc).__name__}: {exc}"\<close>, of an exception given by its type and text.\<close>

definition exc_text :: "string \<times> string \<Rightarrow> string" where
  "exc_text e = fst e @ '': '' @ snd e"

text \<open>The new entry is kept up to the cap; only then it is logged.\<close>

definition record_entry ::
  "string \<Rightarrow> int \<Rightarrow> (string \<times> json) list \<Rightarrow> string \<Rightarrow> recorder \<Rightarrow> (string \<times> string) list \<times> recorder" where
  "record_entry kind started entry message rc =
     (case append_record \<lparr>dg_kind = kind, dg_started = Some started, dg_fields = entry\<rparr> rc of
        (kept, rc') \<Rightarrow> (if kept then [(''DEBUG'', message)] else [], rc'))"

section \<open>Commands\<close>

text \<open>\<open>shlex.quote\<close>\<close>

definition shell_safe :: "char \<Rightarrow> bool" where
  "shell_safe c \<longleftrightarrow> c \<in> set ''abcdefghijklmnopqrstuvwxyzABCDEFGHIJKLMNOPQRSTUVWXYZ0123456789_@%+=:,./-''"

definition quote_char :: "char \<Rightarrow> string" where
  "quote_char c = (if c = CHR 0x27 then [CHR 0x27, CHR 0x22, CHR 0x27, CHR 0x22, CHR 0x27] else [c])"

definition shlex_quote :: "string \<Rightarrow> string" where
  "shlex_quote s =
     (if s = [] then [CHR 0x27, CHR 0x27]
      else if list_all shell_safe s then s
      else [CHR 0x27] @ concat (map quote_char s) @ [CHR 0x27])"

datatype command_line = Arguments "string list" | Shell_text string

definition command_text :: "command_line \<Rightarrow> string" where
  "command_text argv = (case argv of Arguments xs \<Rightarrow> join_with '' '' (map shlex_quote xs) | Shell_text s \<Rightarrow> s)"

text \<open>A finished process: its code and the text of the streams that were captured.\<close>

type_synonym finished_process = "int \<times> string option \<times> string option"

definition stream_excerpt :: "string \<Rightarrow> string option \<Rightarrow> (string \<times> json) list" where
  "stream_excerpt stream_name value =
     (case value of
        None \<Rightarrow> []
      | Some text \<Rightarrow> if text = [] then [] else [(stream_name @ ''_excerpt'', JStr (scrub text))])"

definition command_fields :: "string \<Rightarrow> clocked \<Rightarrow> (string \<times> string) + finished_process \<Rightarrow> (string \<times> json) list" where
  "command_fields command ck outcome =
     [(''kind'', JStr ''command''), (''command'', JStr command), (''started_at'', iso_z (ck_started_iso ck))] @
     (case outcome of
        Inl exc \<Rightarrow> (''error'', JStr (exc_text exc)) # timing ck
      | Inr (code, out, err) \<Rightarrow>
          (''returncode'', JInt code) # timing ck @ stream_excerpt ''stdout'' out @ stream_excerpt ''stderr'' err)"

definition command_message :: "string \<Rightarrow> clocked \<Rightarrow> (string \<times> string) + finished_process \<Rightarrow> string" where
  "command_message command ck outcome =
     ''[CMD] '' @ command @ '' -> '' @
     (case outcome of
        Inl exc \<Rightarrow> exc_text exc
      | Inr (code, _) \<Rightarrow> ''exit '' @ show_int code @ '' ('' @ show_int (ck_ms ck) @ '' ms)'')"

definition recording_run ::
  "command_line \<Rightarrow> clocked \<Rightarrow> (string \<times> string) + finished_process \<Rightarrow> recorder \<Rightarrow> (string \<times> string) list \<times> recorder" where
  "recording_run argv ck outcome rc =
     record_entry ''command'' (ck_started ck) (command_fields (command_text argv) ck outcome)
       (command_message (command_text argv) ck outcome) rc"

section \<open>HTTP exchanges\<close>

definition b64_body :: "(string \<Rightarrow> string) \<Rightarrow> string option \<Rightarrow> (string \<times> json) list" where
  "b64_body b64 body =
     (case body of
        None \<Rightarrow> []
      | Some data \<Rightarrow>
          (''request_bytes'', JInt (int (length data))) #
          (if length data \<le> MAX_BODY_BYTES then [(''request_body_b64'', JStr (b64 data))] else []))"

definition curl_hint :: "string \<Rightarrow> string \<Rightarrow> string \<Rightarrow> bool \<Rightarrow> string" where
  "curl_hint method url content_type has_small_body =
     (if str_upper method = ''GET'' then ''curl -sS -o response.bin '' @ [CHR 0x27] @ url @ [CHR 0x27]
      else (if has_small_body
            then ''printf '' @ [CHR 0x27] @ ''%s'' @ [CHR 0x27] @ '' '' @ [CHR 0x22] @ ''$REQ_B64'' @ [CHR 0x22] @
                 '' | base64 -d > request.der && ''
            else ''# write the original request bytes to request.der, then: '') @
           ''curl -sS -X '' @ str_upper method @ '' -H '' @ [CHR 0x27] @ ''Content-Type: '' @
           (if content_type = [] then ''application/ocsp-request'' else content_type) @ [CHR 0x27] @
           '' --data-binary @request.der -o response.bin '' @ [CHR 0x27] @ url @ [CHR 0x27])"

record sent_request =
  sq_method :: "string option"
  sq_url :: "string option"
  sq_content_type :: string
  sq_body :: "string option"

text \<open>A response: its content is \<open>None\<close> where reading it raises; the type is empty without the header.\<close>

record seen_response =
  sp_status_code :: int
  sp_reason :: string
  sp_content :: "string option"
  sp_content_type :: string

definition upper_method :: "sent_request \<Rightarrow> string" where
  "upper_method req = str_upper (if truthy (sq_method req) then the (sq_method req) else ''GET'')"

definition request_url :: "sent_request \<Rightarrow> string" where
  "request_url req = (case sq_url req of None \<Rightarrow> [] | Some u \<Rightarrow> u)"

definition small_body :: "sent_request \<Rightarrow> bool" where
  "small_body req \<longleftrightarrow> (case sq_body req of None \<Rightarrow> False | Some d \<Rightarrow> length d \<le> MAX_BODY_BYTES)"

definition body_fields :: "(string \<Rightarrow> string) \<Rightarrow> seen_response \<Rightarrow> (string \<times> json) list" where
  "body_fields b64 r =
     (case sp_content r of
        None \<Rightarrow> []
      | Some body \<Rightarrow>
          (''response_bytes'', JInt (int (length body))) #
          (if sp_content_type r \<noteq> [] then [(''response_content_type'', JStr (sp_content_type r))] else []) @
          (if length body \<le> MAX_BODY_BYTES then [(''response_body_b64'', JStr (b64 body))] else []))"

definition http_fields ::
  "(string \<Rightarrow> string) \<Rightarrow> sent_request \<Rightarrow> clocked \<Rightarrow> (string \<times> string) + seen_response \<Rightarrow> (string \<times> json) list" where
  "http_fields b64 req ck outcome =
     [(''kind'', JStr ''http''), (''method'', JStr (upper_method req)), (''url'', JStr (request_url req)),
      (''started_at'', iso_z (ck_started_iso ck))] @ b64_body b64 (sq_body req) @
     [(''curl'', JStr (curl_hint (upper_method req) (request_url req) (sq_content_type req) (small_body req)))] @
     (case outcome of
        Inl exc \<Rightarrow> (''error'', JStr (exc_text exc)) # timing ck
      | Inr r \<Rightarrow>
          [(''status_code'', JInt (sp_status_code r)), (''reason'', JStr (sp_reason r))] @ timing ck @ body_fields b64 r)"

definition http_message :: "sent_request \<Rightarrow> clocked \<Rightarrow> (string \<times> string) + seen_response \<Rightarrow> string" where
  "http_message req ck outcome =
     ''[HTTP] '' @ upper_method req @ '' '' @ request_url req @ '' -> '' @
     (case outcome of
        Inl exc \<Rightarrow> exc_text exc @ '' ('' @ show_int (ck_ms ck) @ '' ms)''
      | Inr r \<Rightarrow>
          show_int (sp_status_code r) @ '' ('' @
          (case sp_content r of None \<Rightarrow> ''?'' | Some body \<Rightarrow> show_nat (length body)) @ '' bytes, '' @
          show_int (ck_ms ck) @ '' ms)'')"

definition recording_send ::
  "(string \<Rightarrow> string) \<Rightarrow> sent_request \<Rightarrow> clocked \<Rightarrow> (string \<times> string) + seen_response \<Rightarrow> recorder \<Rightarrow>
   (string \<times> string) list \<times> recorder" where
  "recording_send b64 req ck outcome rc =
     record_entry ''http'' (ck_started ck) (http_fields b64 req ck outcome) (http_message req ck outcome) rc"

section \<open>What is recorded\<close>

text \<open>The actions of a worker, one after the other.\<close>

datatype action =
    Ran command_line clocked "(string \<times> string) + finished_process"
  | Sent sent_request clocked "(string \<times> string) + seen_response"

definition record_action :: "(string \<Rightarrow> string) \<Rightarrow> action \<Rightarrow> recorder \<Rightarrow> (string \<times> string) list \<times> recorder" where
  "record_action b64 a rc =
     (case a of Ran argv ck outcome \<Rightarrow> recording_run argv ck outcome rc | Sent req ck outcome \<Rightarrow> recording_send b64 req ck outcome rc)"

fun record_actions :: "(string \<Rightarrow> string) \<Rightarrow> action list \<Rightarrow> recorder \<Rightarrow> (string \<times> string) list \<times> recorder" where
  "record_actions b64 [] rc = ([], rc)"
| "record_actions b64 (a # as) rc =
     (case record_action b64 a rc of
        (messages, rc') \<Rightarrow> (case record_actions b64 as rc' of (rest, rc'') \<Rightarrow> (messages @ rest, rc'')))"

lemma record_entry_cases:
  "record_entry kind started entry message (rs, n) =
     (if length rs < MAX_RECORDS
      then ([(''DEBUG'', message)], (rs @ [\<lparr>dg_kind = kind, dg_started = Some started, dg_fields = entry\<rparr>], n))
      else ([], (rs, Suc n)))"
  by (simp add: record_entry_def append_record_def not_less)

lemma record_action_entry:
  "\<exists>kind started entry message. record_action b64 a rc = record_entry kind started entry message rc"
  by (cases a) (auto simp: record_action_def recording_run_def recording_send_def)

text \<open>Every action is a record or counted as suppressed, and at most \<open>MAX_RECORDS\<close> are kept; each record kept is logged.\<close>

lemma record_actions_count:
  assumes "record_actions b64 as (rs, n) = (messages, (rs', n'))" and "length rs \<le> MAX_RECORDS"
  shows "length rs' \<le> MAX_RECORDS \<and> length rs' + n' = length rs + n + length as \<and> length messages = length rs' - length rs
    \<and> take (length rs) rs' = rs"
  using assms
proof (induction as arbitrary: rs n messages)
  case (Cons a as)
  obtain kind started entry message where
    recorded: "record_action b64 a (rs, n) = record_entry kind started entry message (rs, n)"
    using record_action_entry by metis
  obtain rest where rest: "record_actions b64 as (snd (record_action b64 a (rs, n))) = (rest, (rs', n'))"
    and messages: "messages = fst (record_action b64 a (rs, n)) @ rest"
    using Cons.prems(1) by (auto split: prod.splits)
  show ?case
  proof (cases "length rs < MAX_RECORDS")
    case True
    let ?r = "\<lparr>dg_kind = kind, dg_started = Some started, dg_fields = entry\<rparr>"
    have step: "record_action b64 a (rs, n) = ([(''DEBUG'', message)], (rs @ [?r], n))"
      using True by (simp add: recorded record_entry_cases)
    have ih: "length rs' \<le> MAX_RECORDS \<and> length rs' + n' = length (rs @ [?r]) + n + length as \<and>
        length rest = length rs' - length (rs @ [?r]) \<and> take (length (rs @ [?r])) rs' = rs @ [?r]"
      using Cons.IH [of "rs @ [?r]" n rest] rest step True by simp
    then have "length (rs @ [?r]) \<le> length rs'"
      by (metis length_take min.absorb_iff2)
    moreover from ih have "take (length rs) rs' = rs"
      by (metis append_eq_conv_conj take_take length_append min.absorb1 le_add1)
    ultimately show ?thesis using ih messages step by auto
  next
    case False
    with Cons.IH [of rs "Suc n" rest] Cons.prems(2) rest messages recorded show ?thesis
      by (auto simp: record_entry_cases)
  qed
qed simp

text \<open>The excerpts carry no key material and are bounded.\<close>

lemma scrub_clean: "\<not> contains (scrub s) ''PRIVATE KEY'' \<and> length (scrub s) \<le> 2000"
proof (cases "contains s ''PRIVATE KEY''")
  case True
  then show ?thesis by (simp add: scrub_def REDACTED_def contains_def sublist_Cons_right)
next
  case False
  have "\<not> contains (take 2000 s) ''PRIVATE KEY''"
  proof
    assume "contains (take 2000 s) ''PRIVATE KEY''"
    then obtain xs zs where "take 2000 s = xs @ ''PRIVATE KEY'' @ zs"
      unfolding contains_def sublist_def by blast
    then have "s = xs @ ''PRIVATE KEY'' @ (zs @ drop 2000 s)"
      by (metis append.assoc append_take_drop_id)
    with False show False unfolding contains_def sublist_def by blast
  qed
  with False show ?thesis by (simp add: scrub_def)
qed

section \<open>A recorded command runs again\<close>

text \<open>How a shell splits a line into words: outside quotes, inside single and inside double quotes (where none of the
  characters special to double quotes occurs). The flag tells whether a word has begun.\<close>

datatype quoting = Plain | Single | Double

fun shell_words :: "quoting \<Rightarrow> bool \<Rightarrow> string \<Rightarrow> string \<Rightarrow> string list option" where
  "shell_words Plain begun word [] = Some (if begun then [word] else [])"
| "shell_words Single begun word [] = None"
| "shell_words Double begun word [] = None"
| "shell_words Plain begun word (c # cs) =
     (if c = CHR '' '' then (if begun then map_option (Cons word) (shell_words Plain False [] cs) else shell_words Plain False [] cs)
      else if c = CHR 0x27 then shell_words Single True word cs
      else if c = CHR 0x22 then shell_words Double True word cs
      else if shell_safe c then shell_words Plain True (word @ [c]) cs
      else None)"
| "shell_words Single begun word (c # cs) =
     (if c = CHR 0x27 then shell_words Plain True word cs else shell_words Single True (word @ [c]) cs)"
| "shell_words Double begun word (c # cs) =
     (if c = CHR 0x22 then shell_words Plain True word cs
      else if c \<in> {CHR ''$'', CHR 0x60, CHR 0x5C, CHR ''!''} then None
      else shell_words Double True (word @ [c]) cs)"

lemma shell_words_safe:
  "list_all shell_safe s \<Longrightarrow> s \<noteq> [] \<Longrightarrow> shell_words Plain begun word (s @ cs) = shell_words Plain True (word @ s) cs"
proof (induction s arbitrary: begun word)
  case (Cons c s)
  have "c \<noteq> CHR '' ''" "c \<noteq> CHR 0x27" "c \<noteq> CHR 0x22"
    using Cons.prems by (auto simp: shell_safe_def)
  with Cons show ?case by (cases s) simp_all
qed simp

lemma shell_words_quoted:
  "shell_words Single True word (concat (map quote_char s) @ CHR 0x27 # cs) = shell_words Plain True (word @ s) cs"
  by (induction s arbitrary: word) (simp_all add: quote_char_def)

lemma shell_words_quote: "shell_words Plain False [] (shlex_quote s @ cs) = shell_words Plain True s cs"
  using shell_words_safe [of s False "[]" cs] shell_words_quoted [of "[]" s cs]
  by (simp add: shlex_quote_def)

lemma shell_words_command: "shell_words Plain False [] (command_text (Arguments argv)) = Some argv"
proof -
  have "shell_words Plain False [] (join_with '' '' (map shlex_quote argv)) = Some argv"
  proof (induction argv rule: induct_list012)
    case (2 x)
    then show ?case using shell_words_quote [of x "[]"] by simp
  next
    case (3 x y xs)
    then show ?case using shell_words_quote [of x "CHR '' '' # join_with '' '' (map shlex_quote (y # xs))"] by simp
  qed simp
  then show ?thesis by (simp add: command_text_def)
qed

end
