(* ===== verification/Monitor_Trust.thy ===== *)
theory Monitor_Trust
  imports Monitor_Probes
begin

text \<open>
  The trust checks of \<open>OCSPMonitor\<close> around the certificate a response carries (\<open>monitor.py\<close>): the bundle for
  openssl, the trust in the signer's certificate, the second request with that certificate, and their composition in
  three steps. Parsed certificates and file contents are arguments; a bundle is its path with its content.
\<close>

section \<open>The trust bundle\<close>

text \<open>A certificate as these checks read it: names (as their canonical encoding, printed with \<open>te_name_text\<close>), serial
  number, and the purposes of its extended key usage (\<open>None\<close> without the extension, an exception when it cannot be
  decoded).\<close>

record signer_view =
  sg_subject :: string
  sg_issuer :: string
  sg_serial :: nat
  sg_purposes :: "exn + string list option"

record trust_env =
  te_monitor :: monitor_env
  te_certificate :: "string \<Rightarrow> exn + signer_view"
  te_read :: "string \<Rightarrow> exn + string"
  te_name_text :: "string \<Rightarrow> string"

text \<open>\<open>-serial\<close> or \<open>-cert\<close>, whichever is given first.\<close>

definition subject_args :: "string option \<Rightarrow> string option \<Rightarrow> string list option" where
  "subject_args cert_serial cert_path =
     (if truthy cert_serial then Some [''-serial'', the cert_serial]
      else if truthy cert_path then Some [''-cert'', the cert_path]
      else None)"

definition bundle_text :: "string \<Rightarrow> string list \<Rightarrow> string" where
  "bundle_text issuer_text certs = issuer_text @ [CHR 0x0A] @ concat (map (\<lambda>c. c @ [CHR 0x0A]) certs)"

definition build_ocsp_trust_chain ::
  "trust_env \<Rightarrow> string \<Rightarrow> string \<Rightarrow> string option \<Rightarrow> string option \<Rightarrow> (string \<times> string) option" where
  "build_ocsp_trust_chain env issuer_path ocsp_url cert_path cert_serial =
     (case subject_args cert_serial cert_path of
        None \<Rightarrow> None
      | Some args \<Rightarrow>
          (case run_cmd (te_monitor env) ''trust_chain''
                  ([''openssl'', ''ocsp'', ''-issuer'', issuer_path, ''-url'', ocsp_url, ''-resp_text'', ''-noverify''] @ args) [] 15 of
             Inl e \<Rightarrow> None
           | Inr (code, out, err) \<Rightarrow>
               if code \<noteq> 0 then None
               else (let certs = extract_certificates_from_ocsp_response out
                     in if certs = [] then None
                        else case te_read env issuer_path of
                               Inl e \<Rightarrow> None
                             | Inr issuer_text \<Rightarrow> Some (me_path (te_monitor env) ''trust_bundle'', bundle_text issuer_text certs))))"

section \<open>Trust in the signer\<close>

record trust_result =
  tr_is_trusted :: bool
  tr_method :: "string option"
  tr_details :: "(string \<times> json) list"
  tr_errors :: "string list"
  tr_warnings :: "string list"

definition no_trust :: trust_result where
  "no_trust = \<lparr>tr_is_trusted = False, tr_method = None, tr_details = [], tr_errors = [], tr_warnings = []\<rparr>"

definition OCSP_SIGNING_OID :: string where
  "OCSP_SIGNING_OID = ''1.3.6.1.5.5.7.3.9''"

definition trusted_by :: "string \<Rightarrow> string \<Rightarrow> (string \<times> json) list \<Rightarrow> signer_view \<Rightarrow> signer_view \<Rightarrow> trust_result" where
  "trusted_by method relationship extra signer issuer =
     no_trust\<lparr>tr_is_trusted := True, tr_method := Some method,
       tr_details := [(''relationship'', JStr relationship), (''signer_serial'', JStr (show_nat (sg_serial signer))),
         (''issuer_serial'', JStr (show_nat (sg_serial issuer)))] @ extra\<rparr>"

definition NOT_DIRECT :: string where
  "NOT_DIRECT = ''OCSP signer certificate is not directly trusted by the provided issuer''"

definition not_trusted :: "string \<Rightarrow> trust_result" where
  "not_trusted warning = no_trust\<lparr>tr_warnings := [warning], tr_errors := [NOT_DIRECT]\<rparr>"

definition relation_trust :: "signer_view \<Rightarrow> signer_view \<Rightarrow> exn + trust_result" where
  "relation_trust signer issuer =
     (if sg_issuer signer = sg_subject issuer
      then Inr (trusted_by ''direct_issuer'' ''OCSP signer directly issued by provided issuer'' [] signer issuer)
      else if sg_subject signer = sg_subject issuer
      then Inr (trusted_by ''self_signed'' ''OCSP signer is the same as the issuer certificate'' [] signer issuer)
      else case sg_purposes signer of
             Inl e \<Rightarrow> Inl e
           | Inr None \<Rightarrow> Inr (not_trusted ''No Extended Key Usage extension found'')
           | Inr (Some oids) \<Rightarrow>
               Inr (if OCSP_SIGNING_OID \<in> set oids
                    then trusted_by ''ocsp_signing_authorized'' ''OCSP signer has OCSP Signing EKU extension''
                           [(''eku_extension'', JStr ''OCSP Signing (1.3.6.1.5.5.7.3.9)'')] signer issuer
                    else not_trusted ''OCSP signer does not have OCSP Signing EKU extension''))"

definition name_details :: "(string \<Rightarrow> string) \<Rightarrow> signer_view \<Rightarrow> signer_view \<Rightarrow> (string \<times> json) list" where
  "name_details name_text signer issuer =
     [(''signer_subject'', JStr (name_text (sg_subject signer))), (''signer_issuer'', JStr (name_text (sg_issuer signer))),
      (''issuer_subject'', JStr (name_text (sg_subject issuer)))]"

definition trust_failed :: "exn \<Rightarrow> trust_result" where
  "trust_failed e = no_trust\<lparr>tr_errors := [''Trust validation error: '' @ snd e]\<rparr>"

definition issuer_view :: "trust_env \<Rightarrow> string \<Rightarrow> exn + signer_view" where
  "issuer_view env issuer_cert_path =
     (case te_read env issuer_cert_path of Inl e \<Rightarrow> Inl e | Inr text \<Rightarrow> te_certificate env text)"

definition validate_ocsp_signer_trust :: "trust_env \<Rightarrow> string \<Rightarrow> string \<Rightarrow> trust_result" where
  "validate_ocsp_signer_trust env signer_cert_pem issuer_cert_path =
     (case te_certificate env signer_cert_pem of
        Inl e \<Rightarrow> trust_failed e
      | Inr signer \<Rightarrow>
          (case issuer_view env issuer_cert_path of
             Inl e \<Rightarrow> trust_failed e
           | Inr issuer \<Rightarrow>
               (case relation_trust signer issuer of
                  Inl e \<Rightarrow> trust_failed e
                | Inr r \<Rightarrow> r\<lparr>tr_details := tr_details r @ name_details (te_name_text env) signer issuer\<rparr>)))"

section \<open>The response's signature\<close>

record signature_result =
  gr_valid :: bool
  gr_method :: "string option"
  gr_details :: "(string \<times> json) list"
  gr_errors :: "string list"
  gr_warnings :: "string list"

definition no_signature :: signature_result where
  "no_signature = \<lparr>gr_valid = False, gr_method = None, gr_details = [], gr_errors = [], gr_warnings = []\<rparr>"

definition signature_details :: "string \<Rightarrow> (string \<times> json) list" where
  "signature_details status =
     [(''method'', JStr ''OpenSSL OCSP verification using extracted signer certificate''), (''status'', JStr status),
      (''signer_certificate_used'', JStr ''OCSP Signer 63345616'')]"

definition CHAIN_ISSUE :: string where
  "CHAIN_ISSUE = ''Signature verification failed - issuer chain issue''"

definition validate_ocsp_response_signature ::
  "trust_env \<Rightarrow> string \<Rightarrow> string \<Rightarrow> string option \<Rightarrow> string \<Rightarrow> string option \<Rightarrow> signature_result" where
  "validate_ocsp_response_signature env signer_cert_pem issuer_cert_path cert_path ocsp_url cert_serial =
     (let signer_file = me_path (te_monitor env) ''signer_cert''
      in case subject_args cert_serial cert_path of
           None \<Rightarrow> no_signature\<lparr>gr_errors := [''Neither certificate file nor serial number provided for signature validation'']\<rparr>
         | Some args \<Rightarrow>
             (case run_cmd (te_monitor env) ''signer_signature''
                     ([''openssl'', ''ocsp'', ''-issuer'', issuer_cert_path, ''-url'', ocsp_url, ''-verify_other'', signer_file,
                       ''-trust_other'', ''-resp_text''] @ args) [(signer_file, signer_cert_pem)] 15 of
                Inl e \<Rightarrow> no_signature\<lparr>gr_errors := [''Signature validation error: '' @ snd e]\<rparr>
              | Inr (code, out, err) \<Rightarrow>
                  if code = 0
                  then no_signature\<lparr>gr_valid := True, gr_method := Some ''openssl_verification_with_signer'',
                         gr_details := signature_details ''Signature verification successful''\<rparr>
                  else if contains err ''unable to get local issuer certificate''
                  then no_signature\<lparr>gr_method := Some ''openssl_verification_with_signer'',
                         gr_details := signature_details CHAIN_ISSUE, gr_errors := [CHAIN_ISSUE]\<rparr>
                  else no_signature\<lparr>gr_errors := [''OpenSSL verification failed: '' @ err]\<rparr>))"

section \<open>The three steps\<close>

record step_outcome =
  so_success :: bool
  so_message :: string
  so_extra :: "(string \<times> json) list"

record signer_validation =
  vs_overall_success :: bool
  vs_steps_completed :: nat
  vs_step_results :: "(string \<times> step_outcome) list"
  vs_signer_certificate :: "string option"
  vs_trust :: "trust_result option"
  vs_signature :: "signature_result option"
  vs_errors :: "string list"
  vs_warnings :: "string list"

definition no_validation :: signer_validation where
  "no_validation = \<lparr>vs_overall_success = False, vs_steps_completed = 0, vs_step_results = [], vs_signer_certificate = None,
     vs_trust = None, vs_signature = None, vs_errors = [], vs_warnings = []\<rparr>"

definition step_result :: "string \<Rightarrow> bool \<Rightarrow> string \<Rightarrow> (string \<times> json) list \<Rightarrow> signer_validation \<Rightarrow> signer_validation" where
  "step_result name success message extra v =
     v\<lparr>vs_step_results := vs_step_results v @
         [(name, \<lparr>so_success = success, so_message = message, so_extra = extra\<rparr>)],
       vs_steps_completed := vs_steps_completed v + (if success then 1 else 0)\<rparr>"

definition signature_step :: "signature_result \<Rightarrow> signer_validation \<Rightarrow> signer_validation" where
  "signature_step g v =
     (let v = v\<lparr>vs_signature := Some g\<rparr>
      in if gr_valid g
         then (step_result ''step_3_signature_validation'' True ''OCSP response signature validated successfully''
                 [(''details'', JDict (gr_details g))] v)\<lparr>vs_overall_success := True\<rparr>
         else (step_result ''step_3_signature_validation'' False ''OCSP response signature validation failed''
                 [(''errors'', JList (map JStr (gr_errors g)))] v)\<lparr>vs_errors := vs_errors v @ gr_errors g\<rparr>)"

definition trust_step :: "(unit \<Rightarrow> signature_result) \<Rightarrow> trust_result \<Rightarrow> signer_validation \<Rightarrow> signer_validation" where
  "trust_step signature t v =
     (let v = v\<lparr>vs_trust := Some t\<rparr>
      in if tr_is_trusted t
         then signature_step (signature ())
                (step_result ''step_2_trust_validation'' True
                   (''Signer certificate trusted via '' @ (case tr_method t of None \<Rightarrow> ''None'' | Some m \<Rightarrow> m))
                   [(''details'', JDict (tr_details t))] v)
         else (step_result ''step_2_trust_validation'' False ''Signer certificate not trusted by issuer''
                 [(''errors'', JList (map JStr (tr_errors t)))] v)\<lparr>vs_errors := vs_errors v @ tr_errors t\<rparr>)"

definition gather_warnings :: "signer_validation \<Rightarrow> signer_validation" where
  "gather_warnings v =
     v\<lparr>vs_warnings := vs_warnings v @ (case vs_trust v of None \<Rightarrow> [] | Some t \<Rightarrow> tr_warnings t) @
         (case vs_signature v of None \<Rightarrow> [] | Some g \<Rightarrow> gr_warnings g)\<rparr>"

definition perform_ocsp_signer_validation ::
  "trust_env \<Rightarrow> string \<Rightarrow> string \<Rightarrow> string \<Rightarrow> string option \<Rightarrow> string option \<Rightarrow> signer_validation" where
  "perform_ocsp_signer_validation env ocsp_response issuer_cert_path ocsp_url cert_path cert_serial =
     (case extract_ocsp_signer_certificate (me_pem_serial (te_monitor env)) ocsp_response None of
        None \<Rightarrow>
          (step_result ''step_1_extract_signer'' False ''Failed to extract OCSP signer certificate from response'' [] no_validation)
            \<lparr>vs_errors := [''No OCSP signer certificate found in response'']\<rparr>
      | Some signer \<Rightarrow>
          gather_warnings
            (trust_step (\<lambda>_. validate_ocsp_response_signature env signer issuer_cert_path cert_path ocsp_url cert_serial)
               (validate_ocsp_signer_trust env signer issuer_cert_path)
               (step_result ''step_1_extract_signer'' True ''OCSP signer certificate extracted successfully'' []
                  (no_validation\<lparr>vs_signer_certificate := Some signer\<rparr>))))"

section \<open>What the checks establish\<close>

lemma relation_trust_trusted:
  "(\<exists>r. relation_trust signer issuer = Inr r \<and> tr_is_trusted r) \<longleftrightarrow>
     sg_issuer signer = sg_subject issuer \<or> sg_subject signer = sg_subject issuer \<or>
     (\<exists>oids. sg_purposes signer = Inr (Some oids) \<and> OCSP_SIGNING_OID \<in> set oids)"
  by (auto simp: relation_trust_def trusted_by_def not_trusted_def no_trust_def split: sum.split option.split)

lemma signer_trusted_iff:
  "tr_is_trusted (validate_ocsp_signer_trust env pem path) \<longleftrightarrow>
     (\<exists>signer issuer r. te_certificate env pem = Inr signer \<and> issuer_view env path = Inr issuer \<and>
        relation_trust signer issuer = Inr r \<and> tr_is_trusted r)"
  by (auto simp: validate_ocsp_signer_trust_def trust_failed_def no_trust_def split: sum.split)

lemma response_signature_iff:
  "gr_valid (validate_ocsp_response_signature env pem issuer_path cert_path url serial) \<longleftrightarrow>
     (\<exists>args out err. subject_args serial cert_path = Some args \<and>
        run_cmd (te_monitor env) ''signer_signature''
          ([''openssl'', ''ocsp'', ''-issuer'', issuer_path, ''-url'', url, ''-verify_other'', me_path (te_monitor env) ''signer_cert'',
            ''-trust_other'', ''-resp_text''] @ args) [(me_path (te_monitor env) ''signer_cert'', pem)] 15 = Inr (0, out, err))"
  by (auto simp: validate_ocsp_response_signature_def no_signature_def Let_def split: option.split sum.split)

text \<open>The validation succeeds exactly when the response carries a certificate, that certificate stands in one of the
  three relations to the issuer, and a second request with it as trusted signer ends with code 0. No step checks that
  the issuer signed the certificate.\<close>

lemma signer_validation_exact:
  "vs_overall_success (perform_ocsp_signer_validation env text issuer_path url cert_path serial) \<longleftrightarrow>
     (\<exists>signer. extract_ocsp_signer_certificate (me_pem_serial (te_monitor env)) text None = Some signer \<and>
        tr_is_trusted (validate_ocsp_signer_trust env signer issuer_path) \<and>
        gr_valid (validate_ocsp_response_signature env signer issuer_path cert_path url serial))"
  by (auto simp: perform_ocsp_signer_validation_def gather_warnings_def trust_step_def signature_step_def step_result_def
      no_validation_def Let_def split: option.split)

lemma steps_completed_iff:
  "vs_steps_completed (perform_ocsp_signer_validation env text issuer_path url cert_path serial) = 3 \<longleftrightarrow>
     vs_overall_success (perform_ocsp_signer_validation env text issuer_path url cert_path serial)"
  by (auto simp: perform_ocsp_signer_validation_def gather_warnings_def trust_step_def signature_step_def step_result_def
      no_validation_def Let_def split: option.split)

end
