(* ===== verification/Monitor_Checks.thy ===== *)
theory Monitor_Checks
  imports Monitor_Trust
begin

text \<open>
  What \<open>OCSPMonitor\<close> reads from a certificate with openssl (\<open>monitor.py\<close>): its period, the URLs of its CRL and of its
  responder, a responder found by guessing. Outcomes of openssl are arguments; progress messages are left out. A run
  without a time limit has the limit 0, which its outcome does not use.
\<close>

section \<open>The period of a certificate\<close>

text \<open>The dates of the lines in order; the first that cannot be parsed raises.\<close>

fun period_lines :: "int option \<Rightarrow> int option \<Rightarrow> string list \<Rightarrow> (int option \<times> int option) option" where
  "period_lines start end_at [] = Some (start, end_at)"
| "period_lines start end_at (row # ls) =
     (let value = strip (snd (snd (partition_at (CHR ''='') row)))
      in if contains row ''notBefore=''
         then (case gmt_time value of None \<Rightarrow> None | Some t \<Rightarrow> period_lines (Some t) end_at ls)
         else if contains row ''notAfter=''
         then (case gmt_time value of None \<Rightarrow> None | Some t \<Rightarrow> period_lines start (Some t) ls)
         else period_lines start end_at ls)"

definition check_certificate_validity :: "monitor_env \<Rightarrow> string \<Rightarrow> bool \<times> int option \<times> int option" where
  "check_certificate_validity env cert_path =
     (case run_cmd env ''period'' [''openssl'', ''x509'', ''-noout'', ''-startdate'', ''-enddate'', ''-in'', cert_path] [] 0 of
        Inl e \<Rightarrow> (False, None, None)
      | Inr (code, out, err) \<Rightarrow>
          if err \<noteq> [] then (False, None, None)
          else case period_lines None None (splitlines out) of
                 Some (Some start, Some end_at) \<Rightarrow>
                   (let now = me_utcnow env ''period'' in (start \<le> now \<and> now \<le> end_at, Some start, Some end_at))
               | _ \<Rightarrow> (False, None, None))"

section \<open>URLs in a certificate\<close>

definition text_run :: "monitor_env \<Rightarrow> string \<Rightarrow> string \<Rightarrow> exn + run_output" where
  "text_run env step cert_path = run_cmd env step [''openssl'', ''x509'', ''-in'', cert_path, ''-noout'', ''-text''] [] 0"

definition http_uri :: "string \<Rightarrow> bool" where
  "http_uri row \<longleftrightarrow> contains row ''URI:'' \<and> (contains row ''http'' \<or> contains row ''https'')"

definition crl_uri :: "string \<Rightarrow> string option" where
  "crl_uri row =
     (let uri_part = strip (last_piece ''URI:'' row)
      in if http_uri row \<and> contains_any (str_lower uri_part) [''.crl'', ''crl/'', ''crls/''] then Some uri_part else None)"

fun crl_section_url :: "bool \<Rightarrow> string list \<Rightarrow> string option" where
  "crl_section_url in_section [] = None"
| "crl_section_url in_section (raw # ls) =
     (let row = strip raw
      in if contains row ''X509v3 CRL Distribution Points:'' then crl_section_url True ls
         else if startswith row ''X509v3 '' \<and> \<not> contains row ''CRL Distribution Points'' then crl_section_url False ls
         else if in_section \<and> crl_uri row \<noteq> None then crl_uri row
         else crl_section_url in_section ls)"

definition first_crl_uri :: "string list \<Rightarrow> string option" where
  "first_crl_uri ls = (case List.map_filter crl_uri ls of [] \<Rightarrow> None | u # _ \<Rightarrow> Some u)"

text \<open>A program that cannot be run raises here.\<close>

definition extract_crl_url :: "monitor_env \<Rightarrow> string \<Rightarrow> exn + string option" where
  "extract_crl_url env cert_path =
     (case text_run env ''crl_url'' cert_path of
        Inl e \<Rightarrow> Inl e
      | Inr (code, out, err) \<Rightarrow>
          (case crl_section_url False (splitlines out) of
             Some u \<Rightarrow> Inr (Some u) | None \<Rightarrow> Inr (first_crl_uri (splitlines out))))"

definition AIA_TITLE :: string where
  "AIA_TITLE = ''Authority Information Access''"

definition section_entry :: "string \<Rightarrow> bool" where
  "section_entry row \<longleftrightarrow> startswith row ''OCSP'' \<or> startswith row ''URI:'' \<or> startswith row ''CA '' \<or> startswith row ''Issuers''"

text \<open>The title of the next extension ends the section.\<close>

definition ends_section :: "string \<Rightarrow> bool" where
  "ends_section row \<longleftrightarrow> row \<noteq> [] \<and> \<not> section_entry row \<and> contains row '':'' \<and> endswith row '':''"

definition uri_after :: "string \<Rightarrow> string \<Rightarrow> string list" where
  "uri_after label row =
     (let uri_part = strip (last_piece label row)
      in if uri_part \<noteq> [] \<and> (contains uri_part ''http'' \<or> contains uri_part ''https'') then [uri_part] else [])"

definition aia_uri :: "string \<Rightarrow> string list" where
  "aia_uri row =
     (if contains row ''OCSP - URI:'' then uri_after ''OCSP - URI:'' row
      else if contains row ''OCSP'' \<and> contains row ''URI:'' then uri_after ''URI:'' row
      else if startswith row ''URI:'' then uri_after ''URI:'' row else [])"

fun aia_urls :: "bool \<Rightarrow> string list \<Rightarrow> string list" where
  "aia_urls in_section [] = []"
| "aia_urls in_section (raw # ls) =
     (let row = strip raw
      in if contains row AIA_TITLE then aia_urls True ls
         else if in_section \<and> ends_section row then aia_urls False ls
         else (if in_section then aia_uri row else []) @ aia_urls in_section ls)"

definition not_space :: "char \<Rightarrow> bool" where
  "not_space c \<longleftrightarrow> \<not> is_space c"

definition url_pattern :: regex where
  "url_pattern = Group (Then (Lit ''http'') (Then (Opt (Lit ''s'')) (Then (Lit ''://'') (Many1 not_space))))"

text \<open>One URL of a line, if any.\<close>

definition broad_urls :: "string \<Rightarrow> string list" where
  "broad_urls raw =
     (let row = strip raw
      in if contains (str_lower row) ''ocsp'' \<and> (contains row ''http'' \<or> contains row ''https'')
         then take 1 (filter (\<lambda>u. contains (str_lower u) ''ocsp'') (concat (find_all url_pattern row)))
         else [])"

definition extract_ocsp_url_from_cert :: "monitor_env \<Rightarrow> string \<Rightarrow> string option" where
  "extract_ocsp_url_from_cert env cert_path =
     (case text_run env ''ocsp_url'' cert_path of
        Inl e \<Rightarrow> None
      | Inr (code, out, err) \<Rightarrow>
          if code \<noteq> 0 then None
          else (let found = aia_urls False (splitlines out);
                    urls = (if found = [] then concat (map broad_urls (splitlines out)) else found)
                in case urls of [] \<Rightarrow> None | u # _ \<Rightarrow> Some u))"

definition OCSP_ERRORS :: "string list" where
  "OCSP_ERRORS = [''certificate verify error'', ''unable to get local issuer certificate'', ''response verify failure'',
     ''no nonce in response'']"

definition test_ocsp_url :: "monitor_env \<Rightarrow> string \<Rightarrow> string \<Rightarrow> string \<Rightarrow> bool" where
  "test_ocsp_url env cert_path issuer_path ocsp_url =
     (case run_cmd env ''test_url'' [''openssl'', ''ocsp'', ''-issuer'', issuer_path, ''-cert'', cert_path, ''-url'', ocsp_url,
             ''-noverify'', ''-resp_text''] [] 10 of
        Inl e \<Rightarrow> False
      | Inr (code, out, err) \<Rightarrow> code = 0 \<or> contains out ''OCSP Response Data'' \<or> contains_any err OCSP_ERRORS)"

definition common_ocsp_urls :: "string \<Rightarrow> string list" where
  "common_ocsp_urls cn =
     [''http://ocsp.'' @ cn, ''https://ocsp.'' @ cn, ''http://'' @ cn @ ''/ocsp'', ''https://'' @ cn @ ''/ocsp'',
      ''http://ocsp.'' @ cn @ ''/ocsp'', ''https://ocsp.'' @ cn @ ''/ocsp'']"

definition not_comma :: "char \<Rightarrow> bool" where
  "not_comma c \<longleftrightarrow> c \<noteq> CHR '',''"

definition discover_ocsp_url_from_response :: "monitor_env \<Rightarrow> string \<Rightarrow> string \<Rightarrow> string option" where
  "discover_ocsp_url_from_response env cert_path issuer_path =
     (case run_cmd env ''issuer_name'' [''openssl'', ''x509'', ''-in'', cert_path, ''-noout'', ''-issuer''] [] 0 of
        Inl e \<Rightarrow> None
      | Inr (code, out, err) \<Rightarrow>
          if code \<noteq> 0 then None
          else case search False (Then (Lit ''CN='') (Group (Many1 not_comma))) (strip out) of
                 Some [Some cn] \<Rightarrow> find (test_ocsp_url env cert_path issuer_path) (common_ocsp_urls (str_lower cn))
               | _ \<Rightarrow> None)"

fun aia_lines :: "bool \<Rightarrow> string list \<Rightarrow> string list" where
  "aia_lines in_section [] = []"
| "aia_lines in_section (raw # ls) =
     (let row = strip raw
      in if contains row AIA_TITLE then row # aia_lines True ls
         else if in_section then (if ends_section row then [] else row # aia_lines in_section ls)
         else aia_lines in_section ls)"

definition show_certificate_aia_info :: "monitor_env \<Rightarrow> string \<Rightarrow> (string \<times> json) list" where
  "show_certificate_aia_info env cert_path =
     (case text_run env ''aia_info'' cert_path of
        Inl e \<Rightarrow> [(''error'', JStr (''Failed to analyze certificate AIA: '' @ snd e)), (''aia_info'', JNull)]
      | Inr (code, out, err) \<Rightarrow>
          if code \<noteq> 0 then [(''error'', JStr (''Failed to read certificate: '' @ err)), (''aia_info'', JNull)]
          else (let ls = aia_lines False (splitlines out);
                    aia_info = (if ls = [] then ''No Authority Information Access extension found'' else join_with [CHR 0x0A] ls)
                in [(''aia_info'', JStr aia_info),
                    (''has_ocsp_urls'', JBool (contains aia_info ''OCSP'' \<and> contains aia_info ''URI:'')),
                    (''extracted_ocsp_url'', text_json (extract_ocsp_url_from_cert env cert_path))]))"

end
