(* ===== verification/Monitor_Responses.thy ===== *)
theory Monitor_Responses
  imports Monitor_Trust Text_Replace
begin

text \<open>
  The checks of \<open>OCSPMonitor\<close> that no suite runs (\<open>monitor.py\<close>): the security of a stored response, its validity
  interval, nonces and their lengths. As in the probes an exception leaves what was found before it, and the outcomes
  of openssl are arguments.
\<close>

section \<open>The security of a stored response\<close>

record security_check =
  sc_signature :: bool
  sc_structure :: bool
  sc_timestamps :: bool
  sc_identity :: bool
  sc_strength :: bool
  sc_status :: string
  sc_method :: "string option"
  sc_details :: "(string \<times> json) list"
  sc_recommendations :: "string list"

definition no_security :: security_check where
  "no_security = \<lparr>sc_signature = False, sc_structure = False, sc_timestamps = False, sc_identity = False,
     sc_strength = False, sc_status = ''FAIL'', sc_method = None, sc_details = [], sc_recommendations = []\<rparr>"

definition advised :: "string \<Rightarrow> security_check \<Rightarrow> security_check" where
  "advised r s = s\<lparr>sc_recommendations := sc_recommendations s @ [r]\<rparr>"

definition verify_ok :: "run_output \<Rightarrow> bool" where
  "verify_ok res = (case res of (code, out, err) \<Rightarrow> code = 0 \<and> contains out ''Response verify OK'')"

definition security_verify_cmd :: "string \<Rightarrow> string \<Rightarrow> string list" where
  "security_verify_cmd response_path issuer_path =
     [''openssl'', ''ocsp'', ''-respin'', response_path, ''-verify_other'', issuer_path, ''-CAfile'', issuer_path, ''-no_nonce'']"

definition other_verify_cmd :: "string \<Rightarrow> string \<Rightarrow> string list" where
  "other_verify_cmd response_path other =
     [''openssl'', ''ocsp'', ''-respin'', response_path, ''-verify_other'', other, ''-no_nonce'']"

text \<open>\<open>te_exists\<close>: which files exist once the responder's certificate has been asked for. Whatever goes wrong here
  leaves the signature unverified.\<close>

record check_env = trust_env +
  te_exists :: "string \<Rightarrow> bool"

definition base_env :: "check_env \<Rightarrow> monitor_env" where
  "base_env env = te_monitor env"

definition responder_verified :: "check_env \<Rightarrow> string \<Rightarrow> bool" where
  "responder_verified env response_path =
     (let cert_path = replace_all ''.txt'' ''_cert.pem'' response_path
      in case run_cmd (base_env env) ''responder_cert'' [''openssl'', ''ocsp'', ''-respin'', response_path, ''-respout'', cert_path] [] 10 of
           Inl e \<Rightarrow> False
         | Inr _ \<Rightarrow>
             te_exists env cert_path \<and>
             (case run_cmd (base_env env) ''responder_verify'' (other_verify_cmd response_path cert_path) [] 30 of
                Inl e \<Rightarrow> False | Inr res \<Rightarrow> verify_ok res))"

text \<open>The first request, whether the signature is verified, and by which of the other methods.\<close>

definition security_verify :: "check_env \<Rightarrow> string \<Rightarrow> string \<Rightarrow> exn + run_output \<times> bool \<times> string option" where
  "security_verify env response_path issuer_path =
     (case run_cmd (base_env env) ''security_verify'' (security_verify_cmd response_path issuer_path) [] 30 of
        Inl e \<Rightarrow> Inl e
      | Inr first \<Rightarrow>
          if verify_ok first then Inr (first, True, None)
          else (case run_cmd (base_env env) ''alternative_verify'' (other_verify_cmd response_path issuer_path) [] 30 of
                  Inl e \<Rightarrow> Inl e
                | Inr res \<Rightarrow>
                    Inr (first,
                      if verify_ok res then (True, Some ''alternative'')
                      else if responder_verified env response_path then (True, Some ''responder_cert'')
                      else (False, Some ''failed''))))"

definition signature_found :: "bool \<Rightarrow> string option \<Rightarrow> security_check \<Rightarrow> security_check" where
  "signature_found valid how s =
     (let s = s\<lparr>sc_signature := valid, sc_method := how\<rparr>
      in if valid then s else advised ''CRITICAL: OCSP response signature invalid - reject response'' s)"

definition RESPONSE_FIELDS :: "string list" where
  "RESPONSE_FIELDS = [''OCSP Response Status'', ''Response Type'', ''Version'', ''Responder Id'', ''Produced At'']"

definition fields_found :: "string \<Rightarrow> security_check \<Rightarrow> security_check" where
  "fields_found text s =
     (let s = (if list_all (contains text) RESPONSE_FIELDS then s\<lparr>sc_structure := True\<rparr>
               else advised ''OCSP response structure incomplete'' s);
          s = (if contains text ''Produced At:'' \<and> contains text ''This Update:'' then s\<lparr>sc_timestamps := True\<rparr>
               else advised ''OCSP response missing required timestamps'' s)
      in if contains text ''Responder Id:'' then s\<lparr>sc_identity := True\<rparr>
         else advised ''OCSP responder identity not verified'' s)"

text \<open>The first line that names a signature algorithm.\<close>

definition strength_found :: "string \<Rightarrow> security_check \<Rightarrow> security_check" where
  "strength_found out s =
     (case find (\<lambda>l. contains l ''Signature Algorithm:'') (split_on (CHR 0x0A) out) of
        None \<Rightarrow> s
      | Some l \<Rightarrow>
          if contains_any (str_lower l) [''sha256'', ''sha384'', ''sha512''] then s\<lparr>sc_strength := True\<rparr>
          else advised ''Consider upgrading to stronger cryptographic algorithms'' s)"

definition security_details :: "string list \<Rightarrow> run_output \<Rightarrow> bool \<Rightarrow> string \<Rightarrow> (string \<times> json) list" where
  "security_details cmd res text_available now =
     (case res of (code, out, err) \<Rightarrow>
        [(''verification_command'', JStr (join_with '' '' cmd)), (''verification_return_code'', JInt code),
         (''verification_stdout'', JStr out), (''verification_stderr'', JStr err),
         (''response_text_available'', JBool text_available), (''validation_timestamp'', JStr now)])"

definition security_failed :: "exn \<Rightarrow> security_check \<Rightarrow> security_check" where
  "security_failed e s = advised (''Security validation failed: '' @ snd e) (s\<lparr>sc_status := ''ERROR''\<rparr>)"

definition validate_ocsp_response_security :: "check_env \<Rightarrow> string \<Rightarrow> string \<Rightarrow> security_check" where
  "validate_ocsp_response_security env response_path issuer_path =
     (case security_verify env response_path issuer_path of
        Inl e \<Rightarrow> security_failed e no_security
      | Inr (first, valid, how) \<Rightarrow>
          (let s = signature_found valid how no_security
           in case run_cmd (base_env env) ''security_text'' [''openssl'', ''ocsp'', ''-respin'', response_path, ''-text'', ''-noout''] [] 15 of
                Inl e \<Rightarrow> security_failed e s
              | Inr (code, out, err) \<Rightarrow>
                  (let s = strength_found out (if code = 0 then fields_found out s else s)
                   in s\<lparr>sc_status := (if sc_signature s \<and> sc_structure s then ''PASS'' else ''FAIL''),
                        sc_details := security_details (security_verify_cmd response_path issuer_path) first (code = 0)
                          (me_local_now (base_env env) ''security'')\<rparr>)))"

section \<open>Nonces\<close>

definition hex_digit_char :: "char \<Rightarrow> bool" where
  "hex_digit_char c \<longleftrightarrow> hex_char c \<or> hex_char (upper_char c)"

definition hex_nonce :: "string \<Rightarrow> string option" where
  "hex_nonce out = search_field False ''Nonce:'' hex_digit_char out"

definition answered_nonce :: "run_output \<Rightarrow> string option" where
  "answered_nonce res = (case res of (code, out, err) \<Rightarrow> if code = 0 then hex_nonce out else None)"

definition nonce_run :: "monitor_env \<Rightarrow> string \<Rightarrow> string \<Rightarrow> string \<Rightarrow> exn + run_output" where
  "nonce_run env step issuer_path ocsp_url =
     run_cmd env step [''openssl'', ''ocsp'', ''-issuer'', issuer_path, ''-cert'', issuer_path, ''-url'', ocsp_url,
       ''-resp_text'', ''-noverify''] [] 30"

record nonce_echo_test =
  ne_echoed :: bool
  ne_request :: "string option"
  ne_response :: "string option"
  ne_match :: bool
  ne_details :: "(string \<times> json) list"

text \<open>The nonce of the request is made up and then not sent.\<close>

definition nonce_echo_verification :: "monitor_env \<Rightarrow> string \<Rightarrow> string \<Rightarrow> nonce_echo_test" where
  "nonce_echo_verification env issuer_path ocsp_url =
     (let t = \<lparr>ne_echoed = False, ne_request = Some (me_hex env ''echo''), ne_response = None, ne_match = False, ne_details = []\<rparr>
      in case nonce_run env ''echo'' issuer_path ocsp_url of
           Inl e \<Rightarrow> t
         | Inr res \<Rightarrow>
             (let t = t\<lparr>ne_details := run_details res\<rparr>
              in case answered_nonce res of
                   None \<Rightarrow> t
                 | Some n \<Rightarrow> t\<lparr>ne_response := Some n, ne_echoed := n \<noteq> [], ne_match := n \<noteq> []\<rparr>))"

record nonce_set_test =
  nt_unique :: bool
  nt_count :: nat
  nt_collected :: "string list"

definition multiple_nonce_verification :: "monitor_env \<Rightarrow> string \<Rightarrow> string \<Rightarrow> nonce_set_test" where
  "multiple_nonce_verification env issuer_path ocsp_url =
     (case outputs_of (\<lambda>i. nonce_run env (''verify_'' @ nonce_round i) issuer_path ocsp_url) [0..<3] of
        Inl e \<Rightarrow> \<lparr>nt_unique = False, nt_count = 0, nt_collected = []\<rparr>
      | Inr results \<Rightarrow>
          (let nonces = List.map_filter answered_nonce results
           in \<lparr>nt_unique = (length (remdups nonces) = length nonces), nt_count = length nonces, nt_collected = nonces\<rparr>))"

record replay_test =
  rp_protection :: bool
  rp_details :: "(string \<times> json) list"

definition replay_attack_protection :: "monitor_env \<Rightarrow> string \<Rightarrow> string \<Rightarrow> replay_test" where
  "replay_attack_protection env issuer_path ocsp_url =
     (case nonce_run env ''replay'' issuer_path ocsp_url of
        Inl e \<Rightarrow> \<lparr>rp_protection = False, rp_details = []\<rparr>
      | Inr (code, out, err) \<Rightarrow> \<lparr>rp_protection = contains out ''Nonce:'', rp_details = run_details (code, out, err)\<rparr>)"

record nonce_verification =
  nv_echo_verified :: bool
  nv_replay_protection :: bool
  nv_echo :: nonce_echo_test
  nv_multiple :: nonce_set_test
  nv_replay :: replay_test
  nv_security_warnings :: "string list"
  nv_recommendations :: "string list"

text \<open>Of the three tests only the first has the key \<open>nonce_echoed\<close> the verdict counts.\<close>

definition test_nonce_verification :: "monitor_env \<Rightarrow> string \<Rightarrow> string \<Rightarrow> nonce_verification" where
  "test_nonce_verification env issuer_path ocsp_url =
     (let echo = nonce_echo_verification env issuer_path ocsp_url;
          ok = ne_echoed echo
      in \<lparr>nv_echo_verified = ok, nv_replay_protection = ok, nv_echo = echo,
          nv_multiple = multiple_nonce_verification env issuer_path ocsp_url,
          nv_replay = replay_attack_protection env issuer_path ocsp_url,
          nv_security_warnings = (if ok then [] else [''No nonce echo verification - vulnerable to replay attacks'']),
          nv_recommendations = (if ok then [] else [''Implement nonce echo verification for replay attack protection''])\<rparr>)"

section \<open>Nonce lengths\<close>

record nonce_length_test =
  nl_bytes :: nat
  nl_supported :: bool
  nl_generated :: bool
  nl_details :: "(string \<times> json) list"

definition length_step :: "nat \<Rightarrow> string" where
  "length_step n = ''length_'' @ show_nat n"

definition nonce_length_support :: "monitor_env \<Rightarrow> string \<Rightarrow> string \<Rightarrow> nat \<Rightarrow> nonce_length_test" where
  "nonce_length_support env issuer_path ocsp_url length_bytes =
     (let t = \<lparr>nl_bytes = length_bytes, nl_supported = False, nl_generated = False, nl_details = []\<rparr>
      in case nonce_run env (length_step length_bytes) issuer_path ocsp_url of
           Inl e \<Rightarrow> t
         | Inr res \<Rightarrow>
             (let t = t\<lparr>nl_details := run_details res\<rparr>
              in case answered_nonce res of
                   None \<Rightarrow> t
                 | Some n \<Rightarrow> t\<lparr>nl_generated := True, nl_supported := length n \<ge> length_bytes * 2\<rparr>))"

record nonce_lengths =
  ls_compliant :: bool
  ls_minimum :: bool
  ls_maximum :: bool
  ls_tests :: "nonce_length_test list"
  ls_security_warnings :: "string list"
  ls_recommendations :: "string list"

definition supports :: "nat \<Rightarrow> nonce_length_test list \<Rightarrow> bool" where
  "supports n ts = list_ex (\<lambda>t. nl_bytes t = n \<and> nl_supported t) ts"

definition test_enhanced_nonce_length_compliance :: "monitor_env \<Rightarrow> string \<Rightarrow> string \<Rightarrow> nonce_lengths" where
  "test_enhanced_nonce_length_compliance env issuer_path ocsp_url =
     (let tests = map (nonce_length_support env issuer_path ocsp_url) [16, 32, 64, 128]; ok = supports 32 tests
      in \<lparr>ls_compliant = ok, ls_minimum = ok, ls_maximum = supports 128 tests, ls_tests = tests,
          ls_security_warnings = (if ok then [] else [''Nonce length may not meet RFC 9654 recommendations'']),
          ls_recommendations = (if ok then [] else [''Implement minimum 32-octet nonce length per RFC 9654''])\<rparr>)"

section \<open>The validity interval of a stored response\<close>

definition response_timestamps :: "monitor_env \<Rightarrow> string \<Rightarrow> string option \<times> string option" where
  "response_timestamps env response_path =
     (case run_cmd env ''file_timestamps'' [''openssl'', ''ocsp'', ''-respin'', response_path, ''-text''] [] 30 of
        Inl e \<Rightarrow> (None, None)
      | Inr (code, out, err) \<Rightarrow>
          if code \<noteq> 0 then (None, None)
          else (map_option strip (search_field False ''This Update:'' not_newline out),
                map_option strip (search_field False ''Next Update:'' not_newline out)))"

record file_validity =
  fv_timeliness :: bool
  fv_order :: bool
  fv_overall :: bool
  fv_this_update :: "string option"
  fv_next_update :: "string option"
  fv_current_time :: "string option"
  fv_differences :: "(string \<times> rat) list"
  fv_errors :: "string list"
  fv_warnings :: "string list"

definition no_file_validity :: file_validity where
  "no_file_validity = \<lparr>fv_timeliness = False, fv_order = False, fv_overall = False, fv_this_update = None,
     fv_next_update = None, fv_current_time = None, fv_differences = [], fv_errors = [], fv_warnings = []\<rparr>"

definition total_seconds :: "int \<Rightarrow> rat" where
  "total_seconds us = of_int us / 1000000"

text \<open>The verdict on two parsed times, in microseconds.\<close>

definition judge_interval :: "int \<Rightarrow> int \<Rightarrow> int \<Rightarrow> file_validity \<Rightarrow> file_validity" where
  "judge_interval now this_update next_update v =
     (let future = this_update > now; stale = next_update < now; ordered = this_update < next_update
      in v\<lparr>fv_timeliness := \<not> future \<and> \<not> stale, fv_order := ordered, fv_overall := \<not> future \<and> \<not> stale \<and> ordered,
           fv_errors := fv_errors v @ (if future then [''thisUpdate is in the future''] else []) @
             (if stale then [''nextUpdate has passed - response is stale''] else []) @
             (if ordered then [] else [''thisUpdate is not before nextUpdate'']),
           fv_warnings := fv_warnings v @
             (if future then [''thisUpdate timestamp is in the future - potential clock skew''] else []) @
             (if stale then [''nextUpdate has passed - OCSP response is stale''] else []),
           fv_differences := [(''this_update_age_seconds'', total_seconds (now - this_update)),
             (''next_update_remaining_seconds'', total_seconds (next_update - now)),
             (''validity_period_seconds'', total_seconds (next_update - this_update))]\<rparr>)"

definition validate_response_validity_interval_from_file :: "monitor_env \<Rightarrow> string \<Rightarrow> file_validity" where
  "validate_response_validity_interval_from_file env response_path =
     (let (this_update, next_update) = response_timestamps env response_path; now = me_utcnow env ''file_validity''
      in if \<not> truthy this_update \<or> \<not> truthy next_update
         then no_file_validity\<lparr>fv_errors := [''Missing thisUpdate or nextUpdate timestamps'']\<rparr>
         else (let v = no_file_validity\<lparr>fv_this_update := this_update, fv_next_update := next_update,
                         fv_current_time := Some (me_iso_time env now)\<rparr>
               in case (gmt_time (the this_update), gmt_time (the next_update)) of
                    (Some t, Some n) \<Rightarrow> judge_interval now t n v
                  | _ \<Rightarrow> v\<lparr>fv_errors := [''Invalid timestamp format'']\<rparr>))"

section \<open>What the checks establish\<close>

lemma signature_found_frame [simp]:
  "sc_signature (signature_found valid how s) = valid" "sc_structure (signature_found valid how s) = sc_structure s"
  "sc_status (signature_found valid how s) = sc_status s"
  by (simp_all add: signature_found_def advised_def Let_def)

lemma fields_found_frame [simp]:
  "sc_signature (fields_found text s) = sc_signature s"
  "sc_structure (fields_found text s) \<longleftrightarrow> sc_structure s \<or> list_all (contains text) RESPONSE_FIELDS"
  by (auto simp: fields_found_def advised_def Let_def)

lemma strength_found_frame [simp]:
  "sc_signature (strength_found out s) = sc_signature s" "sc_structure (strength_found out s) = sc_structure s"
  by (simp_all add: strength_found_def advised_def split: option.split)

text \<open>A response passes exactly when one of the three runs verified it and its printed form has the five fields; dates,
  responder and algorithm do not count.\<close>

lemma security_passes_iff:
  "sc_status (validate_ocsp_response_security env response_path issuer_path) = ''PASS'' \<longleftrightarrow>
     (\<exists>first how out err. security_verify env response_path issuer_path = Inr (first, True, how) \<and>
        run_cmd (base_env env) ''security_text'' [''openssl'', ''ocsp'', ''-respin'', response_path, ''-text'', ''-noout''] [] 15 =
          Inr (0, out, err) \<and> list_all (contains out) RESPONSE_FIELDS)"
  by (auto simp: validate_ocsp_response_security_def security_failed_def advised_def no_security_def Let_def
      split: sum.split if_splits)

text \<open>The signature counts as verified only on the text of standard output.\<close>

lemma security_verified_by_output:
  assumes "security_verify env response_path issuer_path = Inr (first, True, how)"
  shows "\<exists>step cmd limit out err. run_cmd (base_env env) step cmd [] limit = Inr (0, out, err) \<and> contains out ''Response verify OK''"
  using assms by (auto simp: security_verify_def responder_verified_def verify_ok_def Let_def split: sum.splits if_splits) blast+

text \<open>The nonce made up for the test has no influence on the verdict.\<close>

lemma echo_ignores_request:
  "nv_echo_verified (test_nonce_verification (env\<lparr>me_hex := hex\<rparr>) issuer_path ocsp_url) =
     nv_echo_verified (test_nonce_verification env issuer_path ocsp_url)"
  by (simp add: test_nonce_verification_def nonce_echo_verification_def nonce_run_def run_cmd_def Let_def
      split: sum.split option.split)

lemma echo_verified_iff:
  "nv_echo_verified (test_nonce_verification env issuer_path ocsp_url) \<longleftrightarrow>
     (\<exists>res n. nonce_run env ''echo'' issuer_path ocsp_url = Inr res \<and> answered_nonce res = Some n \<and> n \<noteq> [])"
  by (auto simp: test_nonce_verification_def nonce_echo_verification_def Let_def split: sum.split option.split)

lemma nonces_unique_iff:
  assumes "outputs_of (\<lambda>i. nonce_run env (''verify_'' @ nonce_round i) issuer_path ocsp_url) [0..<3] = Inr results"
  shows "nt_unique (multiple_nonce_verification env issuer_path ocsp_url) \<longleftrightarrow> distinct (List.map_filter answered_nonce results)"
  using assms by (simp add: multiple_nonce_verification_def Let_def length_remdups_card_conv card_distinct distinct_card)
    (metis card_distinct distinct_card)

lemma nonce_lengths_iff:
  "ls_compliant (test_enhanced_nonce_length_compliance env issuer_path ocsp_url) \<longleftrightarrow>
     nl_supported (nonce_length_support env issuer_path ocsp_url 32)"
  by (auto simp: test_enhanced_nonce_length_compliance_def supports_def nonce_length_support_def Let_def
      split: sum.split option.split)

lemma file_validity_iff:
  "fv_overall (validate_response_validity_interval_from_file env response_path) \<longleftrightarrow>
     (\<exists>a b t n. response_timestamps env response_path = (Some a, Some b) \<and> gmt_time a = Some t \<and> gmt_time b = Some n \<and>
        a \<noteq> [] \<and> b \<noteq> [] \<and> t \<le> me_utcnow env ''file_validity'' \<and> me_utcnow env ''file_validity'' \<le> n \<and> t < n)"
proof -
  obtain a b where ab: "response_timestamps env response_path = (a, b)" by fastforce
  show ?thesis
    by (cases a; cases b)
      (auto simp: validate_response_validity_interval_from_file_def ab judge_interval_def no_file_validity_def truthy_def Let_def
        split: option.splits)
qed

text \<open>A valid interval has no errors, and without an error it is valid.\<close>

lemma file_validity_errors:
  "fv_errors (validate_response_validity_interval_from_file env response_path) = [] \<longleftrightarrow>
     fv_overall (validate_response_validity_interval_from_file env response_path)"
  by (auto simp: validate_response_validity_interval_from_file_def judge_interval_def no_file_validity_def Let_def
      split: option.splits prod.splits if_splits)

end
