(* ===== verification/Monitor_Conformance.thy ===== *)
theory Monitor_Conformance
  imports Monitor_Responses
begin

text \<open>
  Conformance tests of \<open>OCSPMonitor\<close> with their reports (\<open>monitor.py\<close>): the signature algorithms a responder uses, its
  answers for serial numbers that were never issued, and the POST test. The class defines \<open>test_http_post_support\<close>
  twice; the second definition is the one that runs.
\<close>

section \<open>Signature algorithms\<close>

record algorithm_support =
  as_name :: string
  as_oid :: string
  as_supported :: bool
  as_details :: "(string \<times> json) list"

definition signature_algorithm_support :: "monitor_env \<Rightarrow> string \<Rightarrow> string \<Rightarrow> string \<times> string \<Rightarrow> algorithm_support" where
  "signature_algorithm_support env issuer_path ocsp_url alg =
     (case alg of (alg_name, alg_oid) \<Rightarrow>
        (let t = \<lparr>as_name = alg_name, as_oid = alg_oid, as_supported = False, as_details = []\<rparr>
         in case nonce_run env (''support_'' @ alg_name) issuer_path ocsp_url of
              Inl e \<Rightarrow> t
            | Inr (code, out, err) \<Rightarrow>
                t\<lparr>as_supported := (code = 0 \<and> (contains out alg_oid \<or> contains out alg_name)),
                  as_details := run_details (code, out, err)\<rparr>))"

definition ALGORITHMS_TO_TEST :: "(string \<times> string) list" where
  "ALGORITHMS_TO_TEST =
     [(''sha256WithRSAEncryption'', ''1.2.840.113549.1.1.11''), (''sha384WithRSAEncryption'', ''1.2.840.113549.1.1.12''),
      (''sha512WithRSAEncryption'', ''1.2.840.113549.1.1.13''), (''ecdsa-with-SHA256'', ''1.2.840.10045.4.3.2''),
      (''ecdsa-with-SHA384'', ''1.2.840.10045.4.3.3''), (''ecdsa-with-SHA512'', ''1.2.840.10045.4.3.4'')]"

definition STRONG_SIGNATURES :: "string list" where
  "STRONG_SIGNATURES = [''sha384WithRSAEncryption'', ''sha512WithRSAEncryption'', ''ecdsa-with-SHA256'',
     ''ecdsa-with-SHA384'', ''ecdsa-with-SHA512'']"

record signature_algorithms =
  sa_supported :: "string list"
  sa_detected :: bool
  sa_protection :: bool
  sa_strength :: string
  sa_tests :: "algorithm_support list"
  sa_security_warnings :: "string list"
  sa_recommendations :: "string list"

definition test_preferred_signature_algorithms :: "monitor_env \<Rightarrow> string \<Rightarrow> string \<Rightarrow> signature_algorithms" where
  "test_preferred_signature_algorithms env issuer_path ocsp_url =
     (let tests = map (signature_algorithm_support env issuer_path ocsp_url) ALGORITHMS_TO_TEST;
          supported = map as_name (filter as_supported tests);
          strong = list_ex (\<lambda>a. a \<in> set supported) STRONG_SIGNATURES
      in \<lparr>sa_supported = supported, sa_detected = supported \<noteq> [], sa_protection = strong,
          sa_strength = (if supported = [] then ''unknown'' else if strong then ''strong'' else ''weak''), sa_tests = tests,
          sa_security_warnings = (if supported = [] then [''No signature algorithms detected'']
            else if strong then [] else [''Only weak signature algorithms supported'']),
          sa_recommendations = []\<rparr>)"

section \<open>Serial numbers never issued\<close>

definition FIXED_SERIALS :: "string list" where
  "FIXED_SERIALS =
     [''FFFFFFFFFFFFFFFFFFFFFFFFFFFFFFFF'', ''FFFFFFFFFFFFFFFFFFFFFFFFFFFFFFFE'', ''FFFFFFFFFFFFFFFFFFFFFFFFFFFFFFFD'',
      ''00000000000000000000000000000001'', ''00000000000000000000000000000002'', ''00000000000000000000000000000003'']"

definition KNOWN_SERIALS :: "string list" where
  "KNOWN_SERIALS = [''DEADBEEFDEADBEEFDEADBEEFDEADBEEF'', ''CAFEBABECAFEBABECAFEBABECAFEBABE'', ''1234567890ABCDEF1234567890ABCDEF'']"

text \<open>Three of the serial numbers are random texts.\<close>

definition generate_non_issued_serials :: "monitor_env \<Rightarrow> string list" where
  "generate_non_issued_serials env =
     FIXED_SERIALS @ map (\<lambda>i. me_hex env (''serial_'' @ show_nat i)) [0..<3] @ KNOWN_SERIALS"

definition certificate_with_serial :: "string \<Rightarrow> string" where
  "certificate_with_serial serial = pem_text
     [''MIICATCCAWoCAQAwDQYJKoZIhvcNAQELBQAwXjELMAkGA1UEBhMCVVMxEjAQBgNV'',
      ''BAoTCVRlc3QgQ0EgQ0ExEjAQBgNVBAsTCVRlc3QgT1UxGTAXBgNVBAMTEFRlc3Qg'',
      ''Q0EgQ2VydGlmaWNhdGUwHhcNMjMwMTAxMDAwMDAwWhcNMjQwMTAxMDAwMDAwWjBf'',
      ''MQswCQYDVQQGEwJVUzESMBAGA1UECgwJVGVzdCBDQTEUMBIGA1UECwwLVGVzdCBP'',
      ''VTEZMBcGA1UEAwwQVGVzdCBDZXJ0aWZpY2F0ZTCCASIwDQYJKoZIhvcNAQEBBQAD'',
      ''ggEPADCCAQoCggEBAL'' @ take 20 serial @ ''...'']"

record serial_test =
  st_serial :: string
  st_compliant :: bool
  st_response_status :: string
  st_cert_status :: string
  st_extended_revoked :: bool
  st_reason :: "string option"
  st_issues :: "string list"
  st_details :: "(string \<times> json) list"

definition issue :: "string \<Rightarrow> serial_test \<Rightarrow> serial_test" where
  "issue i t = t\<lparr>st_issues := st_issues t @ [i]\<rparr>"

definition reason_step :: "string \<Rightarrow> serial_test \<Rightarrow> serial_test" where
  "reason_step text t =
     (case map_option strip (search_field True ''Revocation Reason:'' not_newline text) of
        None \<Rightarrow> issue ''Missing revocation reason'' t
      | Some reason \<Rightarrow>
          (let t = t\<lparr>st_reason := Some reason\<rparr>
           in if contains_any (str_lower reason) [''certificateHold'', ''hold''] then t
              else issue (''Non-standard revocation reason: '' @ reason) t))"

definition revoked_step :: "string \<Rightarrow> serial_test \<Rightarrow> serial_test" where
  "revoked_step text t =
     (let t = t\<lparr>st_compliant := True\<rparr>
      in reason_step text
           (if contains_any text [''Extended Revoked Definition'', ''extendedRevokedDefinition''] then t\<lparr>st_extended_revoked := True\<rparr>
            else issue ''Missing Extended Revoked Definition extension'' t))"

definition serial_status_step :: "string \<Rightarrow> serial_test \<Rightarrow> serial_test" where
  "serial_status_step text t =
     (case map_option str_lower (search_field True ''Cert Status:'' word_char text) of
        None \<Rightarrow> issue ''Could not determine certificate status'' t
      | Some status \<Rightarrow>
          (let t = t\<lparr>st_cert_status := str_upper status\<rparr>
           in if status = ''revoked'' then revoked_step text t
              else if status = ''good'' then issue ''Non-issued certificate incorrectly marked as GOOD'' t
              else if status = ''unknown'' then issue ''Non-issued certificate returned UNKNOWN instead of REVOKED'' t
              else issue (''Unexpected certificate status: '' @ status) t))"

definition serial_response_step :: "string \<Rightarrow> serial_test \<Rightarrow> serial_test" where
  "serial_response_step text t =
     (if contains text ''OCSP Response Status: successful'' then serial_status_step text (t\<lparr>st_response_status := ''SUCCESSFUL''\<rparr>)
      else if contains text ''OCSP Response Status: unauthorized''
      then issue ''OCSP server returned UNAUTHORIZED for non-issued certificate'' (t\<lparr>st_response_status := ''UNAUTHORIZED''\<rparr>)
      else if contains text ''OCSP Response Status: malformed''
      then issue ''OCSP server returned MALFORMED response'' (t\<lparr>st_response_status := ''MALFORMED''\<rparr>)
      else issue ''Unknown OCSP response status'' (t\<lparr>st_response_status := ''UNKNOWN''\<rparr>))"

definition fresh_serial_test :: "string \<Rightarrow> serial_test" where
  "fresh_serial_test serial = \<lparr>st_serial = serial, st_compliant = False, st_response_status = ''UNKNOWN'',
     st_cert_status = ''UNKNOWN'', st_extended_revoked = False, st_reason = None, st_issues = [], st_details = []\<rparr>"

definition test_single_non_issued_serial :: "monitor_env \<Rightarrow> string \<Rightarrow> string \<Rightarrow> string \<Rightarrow> serial_test" where
  "test_single_non_issued_serial env issuer_path ocsp_url serial =
     (let path = me_path env (''serial_'' @ serial); cmd = ocsp_command path issuer_path ocsp_url [''-noverify''];
          t = fresh_serial_test serial
      in case run_cmd env (''serial_'' @ serial) cmd [(path, certificate_with_serial serial)] 30 of
           Inl e \<Rightarrow> issue (''Test error: '' @ snd e) t
         | Inr (code, out, err) \<Rightarrow>
             (serial_response_step out t)\<lparr>st_details :=
                run_details (code, out, err) @ [(''command_executed'', JStr (join_with '' '' cmd))]\<rparr>)"

record non_issued_results =
  ni_status :: string
  ni_assessment :: string
  ni_tests :: "serial_test list"
  ni_compliant :: nat
  ni_serials :: "string list"
  ni_recommendations :: "string list"

definition compliance_percentage :: "non_issued_results \<Rightarrow> rat" where
  "compliance_percentage r = of_nat (ni_compliant r) / of_nat (length (ni_serials r)) * 100"

definition test_non_issued_certificate :: "monitor_env \<Rightarrow> string \<Rightarrow> string \<Rightarrow> non_issued_results" where
  "test_non_issued_certificate env issuer_path ocsp_url =
     (let serials = generate_non_issued_serials env; tests = map (test_single_non_issued_serial env issuer_path ocsp_url) serials;
          r = \<lparr>ni_status = ''NON_COMPLIANT'', ni_assessment = ''HIGH_RISK'', ni_tests = tests,
               ni_compliant = length (filter st_compliant tests), ni_serials = serials,
               ni_recommendations = [''CRITICAL: OCSP server does not properly handle non-issued certificates'']\<rparr>
      in if compliance_percentage r \<ge> 80
         then r\<lparr>ni_status := ''COMPLIANT'', ni_assessment := ''SECURE'', ni_recommendations := []\<rparr>
         else if compliance_percentage r \<ge> 50
         then r\<lparr>ni_status := ''PARTIALLY_COMPLIANT'', ni_assessment := ''MODERATE_RISK'',
                ni_recommendations := [''OCSP server should improve compliance with RFC 6960 for non-issued certificates'']\<rparr>
         else r)"

definition serial_line :: "serial_test \<Rightarrow> string" where
  "serial_line t =
     line ((if st_compliant t then ''[OK]'' else ''[FAIL]'') @ '' Serial '' @ st_serial t @ '': '' @ st_cert_status t @ '' '' @
       (if st_extended_revoked t then ''(with Extended Revoked Definition) '' else []) @
       (if truthy (st_reason t) then ''(Reason: '' @ the (st_reason t) @ '')'' else [])) @
     concat (map (\<lambda>i. line (''  Issue: '' @ i)) (st_issues t))"

definition non_issued_summary :: "non_issued_results \<Rightarrow> string" where
  "non_issued_summary r =
     line ''[NON-ISSUED CERTIFICATE TEST SUMMARY]'' @
     line ''Test Name: Non-Issued Certificate Testing'' @
     line (''Compliance Status: '' @ ni_status r) @ line (''Security Assessment: '' @ ni_assessment r) @
     line (''Total Tests: '' @ show_nat (length (ni_serials r))) @
     line (''Compliant Responses: '' @ show_nat (ni_compliant r)) @
     line (''Compliance Percentage: '' @ one_decimal (compliance_percentage r) @ ''%'') @
     line (''RFC 6960 Compliant: '' @ yes_no (compliance_percentage r \<ge> 80)) @
     line [] @ line ''Individual Test Results:'' @ concat (map serial_line (ni_tests r)) @
     titled ''Recommendations:'' (ni_recommendations r)"

record non_issued_report =
  nr_summary :: string
  nr_overall_pass :: bool
  nr_percentage :: rat
  nr_rfc_6960 :: bool
  nr_test_details :: non_issued_results

definition run_non_issued_certificate_test :: "monitor_env \<Rightarrow> string \<Rightarrow> string \<Rightarrow> non_issued_report" where
  "run_non_issued_certificate_test env issuer_path ocsp_url =
     (let r = test_non_issued_certificate env issuer_path ocsp_url
      in \<lparr>nr_summary = non_issued_summary r, nr_overall_pass = ni_status r \<in> {''COMPLIANT'', ''PARTIALLY_COMPLIANT''},
          nr_percentage = compliance_percentage r, nr_rfc_6960 = (compliance_percentage r \<ge> 80), nr_test_details = r\<rparr>)"

section \<open>POST\<close>

record post_support =
  ps_post_supported :: bool
  ps_large_request_supported :: bool
  ps_content_type_validated :: bool
  ps_recommendations :: "string list"
  ps_security_warnings :: "string list"

text \<open>The first call is of a method the class does not have.\<close>

definition MISSING_METHOD :: exn where
  "MISSING_METHOD =
     (''AttributeError'', py_repr ''OCSPMonitor'' @ '' object has no attribute '' @ py_repr ''_test_basic_post_functionality'')"

definition test_http_post_support :: "string \<Rightarrow> string \<Rightarrow> post_support" where
  "test_http_post_support issuer_path ocsp_url =
     \<lparr>ps_post_supported = False, ps_large_request_supported = False, ps_content_type_validated = False,
      ps_recommendations = [''Testing failed: '' @ snd MISSING_METHOD], ps_security_warnings = []\<rparr>"

record post_report =
  pr_summary :: string
  pr_overall_pass :: bool
  pr_post_supported :: bool
  pr_large_request_handling :: bool
  pr_content_type_validation :: bool
  pr_performance_assessment :: string
  pr_recommendations :: "string list"

definition pass_fail :: "bool \<Rightarrow> string" where
  "pass_fail b = (if b then ''PASS'' else ''FAIL'')"

text \<open>The keys of the nested results this report looks for are those of the first definition; the second has none of
  them, so each look-up gives its default.\<close>

definition post_summary :: "post_support \<Rightarrow> string" where
  "post_summary p =
     line ''[HTTP POST SUPPORT TEST SUMMARY]'' @ line (''POST Supported: '' @ yes_no (ps_post_supported p)) @
     line (''Basic POST Test: '' @ pass_fail False) @ line (''Large Request Handling: '' @ pass_fail False) @
     line (''GET vs POST Consistency: '' @ pass_fail False) @ line (''Content-Type Validation: '' @ pass_fail False) @
     line ''Performance Assessment: UNKNOWN'' @ line (''Error Handling: '' @ pass_fail False) @
     titled ''Recommendations:'' (ps_recommendations p) @ titled ''Security Warnings:'' (ps_security_warnings p)"

definition run_http_post_test :: "string \<Rightarrow> string \<Rightarrow> post_report" where
  "run_http_post_test issuer_path ocsp_url =
     (let p = test_http_post_support issuer_path ocsp_url
      in \<lparr>pr_summary = post_summary p, pr_overall_pass = (ps_post_supported p \<and> False \<and> False),
          pr_post_supported = ps_post_supported p, pr_large_request_handling = False, pr_content_type_validation = False,
          pr_performance_assessment = ''UNKNOWN'', pr_recommendations = ps_recommendations p\<rparr>)"

section \<open>What the tests establish\<close>

lemma as_name_support [simp]: "as_name (signature_algorithm_support env issuer_path ocsp_url alg) = fst alg"
  by (simp add: signature_algorithm_support_def Let_def split: sum.split prod.split)

definition strong_among :: "algorithm_support list \<Rightarrow> bool" where
  "strong_among tests = list_ex (\<lambda>a. a \<in> set (map as_name (filter as_supported tests))) STRONG_SIGNATURES"

lemma strong_amongI:
  "strong_among tests \<longleftrightarrow> (\<exists>t \<in> set tests. as_supported t \<and> as_name t \<in> set STRONG_SIGNATURES)"
  by (auto simp: strong_among_def list_ex_iff)

lemma strong_iff:
  "sa_strength (test_preferred_signature_algorithms env issuer_path ocsp_url) = ''strong'' \<longleftrightarrow>
     (\<exists>alg \<in> set ALGORITHMS_TO_TEST. fst alg \<in> set STRONG_SIGNATURES \<and>
        as_supported (signature_algorithm_support env issuer_path ocsp_url alg))"
proof -
  have "sa_strength (test_preferred_signature_algorithms env issuer_path ocsp_url) = ''strong'' \<longleftrightarrow>
      strong_among (map (signature_algorithm_support env issuer_path ocsp_url) ALGORITHMS_TO_TEST)"
    unfolding test_preferred_signature_algorithms_def Let_def strong_among_def
    by (auto simp: list_ex_iff filter_empty_conv)
  then show ?thesis by (simp add: strong_amongI conj_commute)
qed

lemma twelve_serials: "length (generate_non_issued_serials env) = 12"
  by (simp add: generate_non_issued_serials_def FIXED_SERIALS_def KNOWN_SERIALS_def)

lemma issue_frame [simp]: "st_compliant (issue i t) = st_compliant t"
  by (simp add: issue_def)

lemma revoked_step_frame [simp]: "st_compliant (revoked_step text t)"
  by (simp add: revoked_step_def reason_step_def Let_def split: option.split)

lemma serial_response_compliant:
  "st_compliant (serial_response_step out (fresh_serial_test serial)) \<longleftrightarrow>
     contains out ''OCSP Response Status: successful'' \<and>
     (\<exists>status. search_field True ''Cert Status:'' word_char out = Some status \<and> str_lower status = ''revoked'')"
  by (cases "search_field True ''Cert Status:'' word_char out")
    (simp_all add: serial_response_step_def serial_status_step_def fresh_serial_test_def Let_def)

lemma compliant_iff:
  "st_compliant (test_single_non_issued_serial env issuer_path ocsp_url serial) \<longleftrightarrow>
     (\<exists>code out err status. run_cmd env (''serial_'' @ serial)
        (ocsp_command (me_path env (''serial_'' @ serial)) issuer_path ocsp_url [''-noverify''])
        [(me_path env (''serial_'' @ serial), certificate_with_serial serial)] 30 = Inr (code, out, err) \<and>
        contains out ''OCSP Response Status: successful'' \<and>
        search_field True ''Cert Status:'' word_char out = Some status \<and> str_lower status = ''revoked'')"
proof -
  have "\<not> st_compliant (fresh_serial_test serial)" by (simp add: fresh_serial_test_def)
  then show ?thesis
    by (simp add: test_single_non_issued_serial_def Let_def serial_response_compliant split: sum.split)
qed

text \<open>The report passes with half of the twelve serial numbers answered as revoked, and calls the responder compliant
  with ten.\<close>

lemma non_issued_pass_iff:
  "nr_overall_pass (run_non_issued_certificate_test env issuer_path ocsp_url) \<longleftrightarrow>
     6 \<le> length (filter (\<lambda>s. st_compliant (test_single_non_issued_serial env issuer_path ocsp_url s)) (generate_non_issued_serials env))"
  by (auto simp: run_non_issued_certificate_test_def test_non_issued_certificate_def compliance_percentage_def twelve_serials
      filter_map comp_def Let_def divide_simps)

lemma non_issued_compliant_iff:
  "nr_rfc_6960 (run_non_issued_certificate_test env issuer_path ocsp_url) \<longleftrightarrow>
     10 \<le> length (filter (\<lambda>s. st_compliant (test_single_non_issued_serial env issuer_path ocsp_url s)) (generate_non_issued_serials env))"
  by (auto simp: run_non_issued_certificate_test_def test_non_issued_certificate_def compliance_percentage_def twelve_serials
      filter_map comp_def Let_def divide_simps)

lemma post_never_passes: "\<not> pr_overall_pass (run_http_post_test issuer_path ocsp_url)"
  by (simp add: run_http_post_test_def Let_def)

end
