(* ===== verification/Monitor_Ocsp_Check.thy ===== *)
theory Monitor_Ocsp_Check
  imports Monitor_Checks Monitor_Conformance
begin

text \<open>
  \<open>OCSPMonitor.run_ocsp_check\<close> (\<open>monitor.py\<close>): the URL, the certificate's period, the trust bundle, one verified
  request, and everything that is read from its output, with the report. The methods are those of the other
  \<open>Monitor_\<close> theories; messages to the log are left out.
\<close>

record monitor_config =
  mc_check_validity :: bool
  mc_non_issued :: bool
  mc_preferences :: bool
  mc_max_age_hours :: int

definition default_monitor_config :: monitor_config where
  "default_monitor_config = \<lparr>mc_check_validity = True, mc_non_issued = True, mc_preferences = True, mc_max_age_hours = 24\<rparr>"

record ocsp_results =
  oc_validity :: "(bool \<times> int option \<times> int option) option"
  oc_signature_verified :: bool
  oc_trust_chain_path :: "string option"
  oc_trust_chain_attempted :: "bool option"
  oc_verification_method :: string
  oc_openssl_builtin :: bool
  oc_status :: "status_details option"
  oc_signer :: signer_validation
  oc_federal :: federal_info
  oc_interval :: "validity_results option"
  oc_non_issued :: "non_issued_results option"
  oc_preferences :: "negotiation option"
  oc_update_times_valid :: bool
  oc_nonce_support :: "bool option"
  oc_cert_status :: string
  oc_overall_pass :: bool
  oc_summary :: string

text \<open>A check that was not made (summary and error), one that raised, or its results.\<close>

datatype ocsp_outcome = Not_checked string string | Check_raised string | Checked ocsp_results

section \<open>The request\<close>

definition TITLE :: string where
  "TITLE = line ''[OCSP CHECK SUMMARY]''"

definition URL_PATTERNS :: string where
  "URL_PATTERNS = line ''[INFO] Common OCSP URL patterns to try: http://ocsp.<domain>, https://ocsp.<domain>, http://<domain>/ocsp, https://<domain>/ocsp''"

definition no_url_in_certificate :: ocsp_outcome where
  "no_url_in_certificate = Not_checked
     (TITLE @ line ''[ERROR] No OCSP URL provided and none found in certificate'' @
      line ''[INFO] This certificate may not have OCSP URLs in its AIA extension'' @
      line ''[INFO] Please provide an OCSP URL manually or check certificate AIA extension'' @ URL_PATTERNS)
     ''No OCSP URL available - please provide manually''"

definition no_url_without_certificate :: ocsp_outcome where
  "no_url_without_certificate = Not_checked
     (TITLE @ line ''[ERROR] No OCSP URL provided and no certificate file available for AIA extraction'' @
      line ''[INFO] When using serial numbers, you must provide the OCSP URL manually'' @ URL_PATTERNS)
     ''No OCSP URL available - please provide manually''"

definition nothing_to_check :: ocsp_outcome where
  "nothing_to_check = Not_checked (TITLE @ line ''[ERROR] Neither certificate file nor serial number provided'')
     ''No certificate or serial number provided''"

definition find_ocsp_url :: "monitor_env \<Rightarrow> string option \<Rightarrow> string option \<Rightarrow> ocsp_outcome + string" where
  "find_ocsp_url env ocsp_url cert_path =
     (if truthy ocsp_url \<and> strip (the ocsp_url) \<noteq> [] then Inr (the ocsp_url)
      else if \<not> truthy cert_path then Inl no_url_without_certificate
      else case extract_ocsp_url_from_cert env (the cert_path) of None \<Rightarrow> Inl no_url_in_certificate | Some u \<Rightarrow> Inr u)"

definition check_command :: "string \<Rightarrow> string \<Rightarrow> string option \<Rightarrow> string list \<Rightarrow> string list" where
  "check_command issuer_path ocsp_url bundle args =
     [''openssl'', ''ocsp'', ''-issuer'', issuer_path, ''-url'', ocsp_url, ''-resp_text'', ''-verify_other'',
      (case bundle of Some p \<Rightarrow> p | None \<Rightarrow> issuer_path), ''-trust_other''] @ args"

text \<open>The methods that take the certificate's path are not called without one, or fail when they are.\<close>

definition manual_verification :: "monitor_env \<Rightarrow> string option \<Rightarrow> string \<Rightarrow> string \<Rightarrow> bool" where
  "manual_verification env cert_path issuer_path ocsp_url =
     (case cert_path of None \<Rightarrow> False | Some p \<Rightarrow> verify_ocsp_signature env p issuer_path ocsp_url)"

definition target_serial :: "monitor_env \<Rightarrow> string option \<Rightarrow> string option \<Rightarrow> string option" where
  "target_serial env cert_path cert_serial =
     (if truthy cert_serial then cert_serial
      else case cert_path of None \<Rightarrow> None | Some p \<Rightarrow> extract_certificate_serial env p)"

section \<open>What the output says\<close>

definition builtin_verified :: "string \<Rightarrow> string \<Rightarrow> bool" where
  "builtin_verified out err \<longleftrightarrow> contains out ''Response verify OK'' \<or> contains err ''Response verify OK'' \<or>
     contains (str_lower err) ''verify OK''"

text \<open>Without output there is no status and no interval.\<close>

definition status_text :: "status_details option \<Rightarrow> string option" where
  "status_text s = map_option sd_cert_status s"

definition status_errors :: "status_details option \<Rightarrow> string list" where
  "status_errors s = (case s of None \<Rightarrow> [''No OCSP response data to parse''] | Some d \<Rightarrow> sd_parsing_errors d)"

definition status_warnings :: "status_details option \<Rightarrow> string list" where
  "status_warnings s = (case s of None \<Rightarrow> [''No OCSP response data to parse''] | Some d \<Rightarrow> sd_security_warnings d)"

definition interval_valid :: "validity_results option \<Rightarrow> bool" where
  "interval_valid v \<longleftrightarrow> (case v of None \<Rightarrow> False | Some r \<Rightarrow> vr_is_valid r)"

definition interval_warnings :: "validity_results option \<Rightarrow> string list" where
  "interval_warnings v = (case v of None \<Rightarrow> [''No OCSP response data to validate''] | Some r \<Rightarrow> vr_security_warnings r)"

definition interval_issues :: "validity_results option \<Rightarrow> string list" where
  "interval_issues v = (case v of None \<Rightarrow> [''No OCSP response data to validate''] | Some r \<Rightarrow> vr_compliance_issues r)"

definition update_pattern :: "string \<Rightarrow> string \<Rightarrow> regex" where
  "update_pattern a b = Then (Either (Lit a) (Lit b)) (Then (Lit '':'') (Then (Many is_space) (Group (Many1 not_newline))))"

definition update_field :: "string \<Rightarrow> string \<Rightarrow> string \<Rightarrow> string option" where
  "update_field a b out = (case search True (update_pattern a b) out of Some [Some v] \<Rightarrow> Some (strip v) | _ \<Rightarrow> None)"

definition found_nonce_support :: "string \<Rightarrow> string \<Rightarrow> bool option" where
  "found_nonce_support out err =
     (if contains (str_lower err) ''warning: no nonce in response'' then Some False
      else if contains (str_lower out) ''nonce'' \<or> contains (str_lower err) ''nonce'' then Some True else None)"

definition printed_status :: "string \<Rightarrow> string option" where
  "printed_status out =
     (if contains out '': good'' then Some ''GOOD'' else if contains out '': revoked'' then Some ''REVOKED''
      else if contains out '': unknown'' then Some ''UNKNOWN'' else None)"

section \<open>The report\<close>

text \<open>\<open>str(datetime)\<close>, from the ISO form of the same time.\<close>

definition datetime_text :: "monitor_env \<Rightarrow> int \<Rightarrow> string" where
  "datetime_text env t = map (\<lambda>c. if c = CHR ''T'' then CHR '' '' else c) (me_iso_time env t)"

definition optional_time :: "monitor_env \<Rightarrow> int option \<Rightarrow> string" where
  "optional_time env t = (case t of None \<Rightarrow> ''None'' | Some u \<Rightarrow> datetime_text env u)"

definition warned :: "string list \<Rightarrow> string" where
  "warned ws = concat (map (\<lambda>w. line (''[WARN] '' @ w)) ws)"

definition validity_lines :: "monitor_env \<Rightarrow> (bool \<times> int option \<times> int option) option \<Rightarrow> string" where
  "validity_lines env v =
     (case v of None \<Rightarrow> []
      | Some (ok, start, end_at) \<Rightarrow>
          line ((if ok then ''[OK] Certificate Validity Period OK ('' else ''[ERROR] Certificate Validity Period ERROR ('') @
            optional_time env start @ '' to '' @ optional_time env end_at @ '')''))"

definition signature_lines :: "bool \<Rightarrow> string \<Rightarrow> string" where
  "signature_lines chained how =
     (if how = ''openssl_builtin''
      then line ''[OK] Signature verification: PASS (OpenSSL built-in verification)'' @
        (if chained then line ''[INFO] Trust chain was successfully built and used for verification'' else [])
      else (if chained
            then line ''[WARN] Signature verification: FAILED (even with trust chain)'' @
              line ''[INFO] Trust chain was built but verification failed - this may be expected for federal PKI''
            else line ''[ERROR] Signature verification: FAILED (no trust chain available)'') @
        (if how = ''manual_comprehensive'' then line ''[OK] Signature verification: PASS (comprehensive manual verification)''
         else line ''[ERROR] Signature verification: FAIL (all verification methods failed)'' @
           line ''[INFO] OCSP response data should still be considered valid for certificate status checking''))"

definition detail_line :: "string \<Rightarrow> string option \<Rightarrow> string" where
  "detail_line label v = (if truthy v then line (''[INFO] '' @ label @ '': '' @ the v) else [])"

definition status_lines :: "status_details option \<Rightarrow> string" where
  "status_lines s =
     (if status_text s = Some ''good'' then line ''[OK] Certificate Status: GOOD''
      else if status_text s = Some ''revoked''
      then line ''[ERROR] Certificate Status: REVOKED'' @ detail_line ''Revocation Time'' (Option.bind s sd_revocation_time) @
        detail_line ''Revocation Reason'' (Option.bind s sd_revocation_reason)
      else if status_text s = Some ''unknown'' then line ''[WARN] Certificate Status: UNKNOWN''
      else line ''[ERROR] Certificate Status: COULD NOT DETERMINE'') @
     (if status_errors s = [] then [] else line (''[ERROR] Parsing errors: '' @ join_with '', '' (status_errors s))) @
     warned (status_warnings s)"

definition hours_line :: "string \<Rightarrow> rat option \<Rightarrow> string" where
  "hours_line label h = (case h of None \<Rightarrow> [] | Some x \<Rightarrow> line (''[INFO] '' @ label @ '': '' @ one_decimal x @ '' hours''))"

definition interval_lines :: "validity_results option \<Rightarrow> string" where
  "interval_lines v =
     (if interval_valid v
      then line ''[OK] Response Validity Interval: VALID'' @ hours_line ''Response age'' (Option.bind v vr_age_hours) @
        hours_line ''Time until expiry'' (Option.bind v vr_time_until_expiry_hours)
      else line ''[ERROR] Response Validity Interval: INVALID'') @
     warned (interval_warnings v) @ concat (map (\<lambda>i. line (''[ERROR] '' @ i)) (interval_issues v))"

text \<open>\<open>str.title\<close>\<close>

definition cased :: "char \<Rightarrow> bool" where
  "cased c \<longleftrightarrow> lower_char c \<noteq> c \<or> upper_char c \<noteq> c"

fun title_from :: "bool \<Rightarrow> string \<Rightarrow> string" where
  "title_from inside [] = []"
| "title_from inside (c # cs) = (if inside then lower_char c else upper_char c) # title_from (cased c) cs"

definition step_display :: "string \<Rightarrow> string" where
  "step_display name = title_from False (replace_all ''_'' '' '' (replace_all ''step_'' [] name))"

definition signer_lines :: "signer_validation \<Rightarrow> string" where
  "signer_lines v =
     line [] @ line ''[OCSP SIGNER VALIDATION]'' @
     line (''[INFO] Steps completed: '' @ show_nat (vs_steps_completed v) @ ''/3'') @
     line (if vs_overall_success v then ''[OK] OCSP Signer Validation: ALL STEPS PASSED'' else ''[ERROR] OCSP Signer Validation: FAILED'') @
     concat (map (\<lambda>(name, o1). line ((if so_success o1 then ''[OK]'' else ''[ERROR]'') @ '' '' @ step_display name @ '': '' @ so_message o1))
       (vs_step_results v)) @
     (if vs_errors v = [] then [] else line (''[ERROR] Signer validation errors: '' @ join_with '', '' (vs_errors v))) @
     warned (vs_warnings v)"

definition verdict_lines :: "bool \<Rightarrow> bool \<Rightarrow> string" where
  "verdict_lines good valid =
     (if good \<and> valid
      then line ''[OK] Certificate validation PASSED - certificate is explicitly good and response interval is valid''
      else line ''[ERROR] Certificate validation FAILED - certificate not explicitly good or response interval invalid'' @
        (if good then [] else line ''[ERROR] Certificate status is not explicitly GOOD'') @
        (if valid then [] else line ''[ERROR] Response validity interval is invalid''))"

definition recommended :: "string list \<Rightarrow> string" where
  "recommended rs = concat (map (\<lambda>r. line (''[RECOMMENDATION] '' @ r)) rs)"

definition non_issued_lines :: "non_issued_results option \<Rightarrow> string" where
  "non_issued_lines n =
     (case n of None \<Rightarrow> []
      | Some r \<Rightarrow>
          line (if ni_status r = ''COMPLIANT'' then ''[OK] Non-issued certificate handling: COMPLIANT''
            else if ni_status r = ''PARTIALLY_COMPLIANT'' then ''[WARN] Non-issued certificate handling: PARTIALLY COMPLIANT''
            else if ni_status r = ''NON_COMPLIANT'' then ''[ERROR] Non-issued certificate handling: NON-COMPLIANT''
            else ''[INFO] Non-issued certificate handling: NOT TESTED'') @
          recommended (ni_recommendations r))"

text \<open>A negotiation never reports a downgrade, so its lines for one are left out.\<close>

definition preference_lines :: "negotiation option \<Rightarrow> string" where
  "preference_lines n =
     (case n of None \<Rightarrow> []
      | Some g \<Rightarrow>
          line (if ng_assessment g = ''SECURE'' then ''[OK] Cryptographic preferences: SECURE''
            else if ng_assessment g = ''ACCEPTABLE'' then ''[WARN] Cryptographic preferences: ACCEPTABLE''
            else if ng_assessment g = ''WEAK'' then ''[ERROR] Cryptographic preferences: WEAK''
            else if ng_assessment g = ''CRITICAL'' then ''[ERROR] Cryptographic preferences: CRITICAL''
            else ''[INFO] Cryptographic preferences: NOT TESTED'') @
          warned (ng_security_warnings g) @ recommended (ng_recommendations g))"

text \<open>The lines on the two times, and whether they are found to be valid.\<close>

definition update_lines :: "monitor_env \<Rightarrow> string \<Rightarrow> bool \<times> string" where
  "update_lines env out =
     (case (update_field ''thisUpdate'' ''This Update'' out, update_field ''nextUpdate'' ''Next Update'' out) of
        (Some a, Some b) \<Rightarrow>
          (case (gmt_time a, gmt_time b) of
             (None, _) \<Rightarrow> (False, line (''[ERROR] Could not parse thisUpdate/nextUpdate: '' @ gmt_time_error a))
           | (Some t, None) \<Rightarrow> (False, line (''[ERROR] Could not parse thisUpdate/nextUpdate: '' @ gmt_time_error b))
           | (Some t, Some n) \<Rightarrow>
               (let now = me_utcnow env ''update_times''; ok = (t \<le> now \<and> now \<le> n)
                in (ok, line (''[OK] thisUpdate: '' @ datetime_text env t) @ line (''[OK] nextUpdate: '' @ datetime_text env n) @
                      line (if ok then ''[OK] OCSP Update Times Valid'' else ''[ERROR] OCSP Update Times Invalid or Stale''))))
      | _ \<Rightarrow> (False, line ''[ERROR] Missing thisUpdate or nextUpdate''))"

definition nonce_lines :: "bool option \<Rightarrow> string" where
  "nonce_lines n =
     line (case n of Some False \<Rightarrow> ''[WARN] No nonce in response (nonce support may be limited)''
       | Some True \<Rightarrow> ''[OK] Nonce support present'' | None \<Rightarrow> ''[INFO] Nonce support status unclear'')"

definition printed_status_lines :: "string option \<Rightarrow> string" where
  "printed_status_lines s =
     line (case s of None \<Rightarrow> ''[ERROR] Certificate Status: UNDETERMINED''
       | Some c \<Rightarrow> (if c = ''GOOD'' then ''[OK]'' else ''[ERROR]'') @ '' Certificate Status: '' @ c)"

definition closing_line :: "string \<Rightarrow> string" where
  "closing_line summary =
     line (if contains summary ''[ERROR]'' then ''[ERROR] One or more OCSP diagnostics FAILED'' else ''[OK] All OCSP diagnostics PASSED'')"

section \<open>The check\<close>

definition status_of_output :: "monitor_env \<Rightarrow> string option \<Rightarrow> string option \<Rightarrow> string \<Rightarrow> status_details option" where
  "status_of_output env cert_path cert_serial out =
     (if out = [] then None
      else Some (parse_certificate_status_details (me_iso_time env) out (target_serial env cert_path cert_serial)))"

definition interval_of_output :: "monitor_env \<Rightarrow> monitor_config \<Rightarrow> string \<Rightarrow> validity_results option" where
  "interval_of_output env cfg out =
     (if out = [] then None
      else Some (validate_response_validity_interval (me_utcnow env ''interval'') (mc_max_age_hours cfg) out))"

text \<open>The verification of the signature: by openssl itself, by the other methods, or not at all.\<close>

definition verification_method :: "monitor_env \<Rightarrow> string option \<Rightarrow> string \<Rightarrow> string \<Rightarrow> string \<Rightarrow> string \<Rightarrow> string" where
  "verification_method env cert_path issuer_path ocsp_url out err =
     (if builtin_verified out err then ''openssl_builtin''
      else if manual_verification env cert_path issuer_path ocsp_url then ''manual_comprehensive'' else ''failed'')"

definition optional :: "bool \<Rightarrow> 'a \<Rightarrow> 'a option" where
  "optional b x = (if b then Some x else None)"

text \<open>What is found before the report is written; the last two fields are set by it.\<close>

definition found_results ::
  "trust_env \<Rightarrow> monitor_config \<Rightarrow> string option \<Rightarrow> string \<Rightarrow> string \<Rightarrow> string option \<Rightarrow>
     (bool \<times> int option \<times> int option) option \<Rightarrow> string option \<Rightarrow> string \<Rightarrow> string \<Rightarrow> ocsp_results" where
  "found_results env cfg cert_path issuer_path ocsp_url cert_serial validity bundle out err =
     (let m = te_monitor env; how = verification_method m cert_path issuer_path ocsp_url out err
      in \<lparr>oc_validity = validity, oc_signature_verified = (how \<noteq> ''failed''), oc_trust_chain_path = bundle,
          oc_trust_chain_attempted = map_option (\<lambda>p. p \<noteq> issuer_path) bundle, oc_verification_method = how,
          oc_openssl_builtin = (contains out ''Response verify OK'' \<or> contains err ''Response verify OK''),
          oc_status = status_of_output m cert_path cert_serial out,
          oc_signer = perform_ocsp_signer_validation env out issuer_path ocsp_url cert_path cert_serial,
          oc_federal = detect_federal_pki_environment out ocsp_url,
          oc_interval = interval_of_output m cfg out,
          oc_non_issued = optional (mc_non_issued cfg) (test_non_issued_certificate m issuer_path ocsp_url),
          oc_preferences = optional (mc_preferences cfg) (negotiate_cryptographic_preferences m issuer_path ocsp_url),
          oc_update_times_valid = fst (update_lines m out), oc_nonce_support = found_nonce_support out err,
          oc_cert_status = ''UNKNOWN'', oc_overall_pass = False, oc_summary = []\<rparr>)"

definition status_good :: "ocsp_results \<Rightarrow> bool" where
  "status_good r \<longleftrightarrow> status_text (oc_status r) = Some ''good''"

definition report_body :: "monitor_env \<Rightarrow> string \<Rightarrow> ocsp_results \<Rightarrow> string" where
  "report_body env out r =
     TITLE @ validity_lines env (oc_validity r) @
     signature_lines (oc_trust_chain_attempted r = Some True) (oc_verification_method r) @
     status_lines (oc_status r) @ interval_lines (oc_interval r) @ signer_lines (oc_signer r) @
     verdict_lines (status_good r) (interval_valid (oc_interval r)) @
     non_issued_lines (oc_non_issued r) @ preference_lines (oc_preferences r) @
     snd (update_lines env out) @ nonce_lines (oc_nonce_support r) @ printed_status_lines (printed_status out)"

text \<open>The status from the parsed details, unless a later search of the output gives one.\<close>

definition reported_status :: "string \<Rightarrow> status_details option \<Rightarrow> string" where
  "reported_status out s =
     (case printed_status out of
        Some c \<Rightarrow> c
      | None \<Rightarrow> if status_text s = Some ''good'' then ''GOOD'' else if status_text s = Some ''revoked'' then ''REVOKED'' else ''UNKNOWN'')"

definition with_report :: "monitor_env \<Rightarrow> string \<Rightarrow> ocsp_results \<Rightarrow> ocsp_results" where
  "with_report env out r =
     (let body = report_body env out r
      in r\<lparr>oc_cert_status := reported_status out (oc_status r),
           oc_overall_pass := (status_good r \<and> interval_valid (oc_interval r) \<or> \<not> contains body ''[ERROR]''),
           oc_summary := body @ closing_line body\<rparr>)"

definition run_ocsp_check ::
  "trust_env \<Rightarrow> monitor_config \<Rightarrow> string option \<Rightarrow> string \<Rightarrow> string option \<Rightarrow> string option \<Rightarrow> ocsp_outcome" where
  "run_ocsp_check env cfg cert_path issuer_path ocsp_url cert_serial =
     (case find_ocsp_url (te_monitor env) ocsp_url cert_path of
        Inl outcome \<Rightarrow> outcome
      | Inr url \<Rightarrow>
          (let m = te_monitor env;
               validity = optional (mc_check_validity cfg \<and> truthy cert_path) (check_certificate_validity m (the cert_path));
               bundle = map_option fst (build_ocsp_trust_chain env issuer_path url cert_path cert_serial)
           in case subject_args cert_serial cert_path of
                None \<Rightarrow> nothing_to_check
              | Some args \<Rightarrow>
                  (case run_cmd m ''ocsp_check'' (check_command issuer_path url bundle args) [] 20 of
                     Inl e \<Rightarrow> Check_raised (line (''[ERROR] OCSP Check Exception: '' @ snd e))
                   | Inr (code, out, err) \<Rightarrow>
                       Checked (with_report m out (found_results env cfg cert_path issuer_path url cert_serial validity bundle out err)))))"

section \<open>What a check establishes\<close>

lemma contains_appendI: "contains s t \<Longrightarrow> contains (s @ u) t" "contains u t \<Longrightarrow> contains (s @ u) t"
  by (auto simp: contains_def sublist_append)

lemma failed_verdict: "\<not> (good \<and> valid) \<Longrightarrow> contains (verdict_lines good valid) ''[ERROR]''"
  by (auto simp: verdict_lines_def line_def contains_def)

text \<open>The check passes exactly when the status is good and the interval valid. Nothing else counts, the signature
  included.\<close>

lemma report_pass_iff:
  "oc_overall_pass (with_report env out r) \<longleftrightarrow> status_good r \<and> interval_valid (oc_interval r)"
proof -
  have "contains (report_body env out r) ''[ERROR]''" if "\<not> (status_good r \<and> interval_valid (oc_interval r))"
    unfolding report_body_def using failed_verdict [OF that] by (simp add: contains_appendI)
  then show ?thesis by (auto simp: with_report_def Let_def)
qed

lemma checked_report:
  assumes "run_ocsp_check env cfg cert_path issuer_path ocsp_url cert_serial = Checked r"
  shows "\<exists>out r0. r = with_report (te_monitor env) out r0"
proof -
  have none: "find_ocsp_url m u c = Inl outcome \<Longrightarrow> outcome \<noteq> Checked r" for m u c outcome
    by (auto simp: find_ocsp_url_def no_url_in_certificate_def no_url_without_certificate_def split: if_splits option.splits)
  show ?thesis
    using assms none unfolding run_ocsp_check_def Let_def
    by (fastforce simp: nothing_to_check_def split: sum.splits option.splits prod.splits)
qed

lemma with_report_keeps [simp]:
  "status_good (with_report env out r) = status_good r" "oc_interval (with_report env out r) = oc_interval r"
  by (simp_all add: with_report_def status_good_def Let_def)

lemma run_ocsp_check_iff:
  assumes "run_ocsp_check env cfg cert_path issuer_path ocsp_url cert_serial = Checked r"
  shows "oc_overall_pass r \<longleftrightarrow> status_good r \<and> interval_valid (oc_interval r)"
  using checked_report [OF assms] by (auto simp: report_pass_iff)

end
