(* ===== verification/Spec2Isabelle.thy ===== *)
theory Spec2Isabelle
  imports Access_Properties Credential_Properties Network_Properties Job_Properties
    Submission_Properties Data_Properties Engine_Properties Verdict_Properties Startup_Properties Diagnostics Monitor_Ocsp_Check
begin

text \<open>
  A model of OCSP/CRL Testing: a web application (\<open>src/backend/app\<close>) that runs a certificate-status test
  engine (\<open>src/ocsp_tester\<close>) in one worker process per run and streams what it finds.

  \<^bold>\<open>How the parts interact.\<close> A request is authenticated and placed in a workspace (\<open>authz\<close>), a submission is
  checked against the schema, the outbound policy and the concurrency limit, its files are stored and a
  row is queued (\<open>api/runs\<close>, \<open>storage\<close>). The job manager (\<open>jobs\<close>) starts a worker (\<open>worker/executor\<close>), which
  installs the network guard (\<open>worker/netguard\<close>, \<open>ssrf\<close>), runs the selected categories of the engine,
  enriches every result (\<open>worker/analysis\<close>) and writes one JSON line per event. The supervisor appends the
  events to the run's log, stores results, and ends the run; the websocket (\<open>api/stream\<close>) replays the log
  and follows it; exports read the rows.

  \<^bold>\<open>Theories.\<close> \<open>Prelude\<close> and \<open>Json\<close> hold Python's strings, dictionaries, integers and JSON values, the error
  type of handlers and a theory of tables.

  \<^item> Identity and access: \<open>Orm\<close> (\<open>orm.py\<close>, the database as lists of records), \<open>Settings\<close>, \<open>Security\<close>
    (\<open>security.py\<close>, \<open>audit.py\<close>), \<open>Provisioning\<close>, \<open>Authz\<close>, \<open>Workspaces\<close>, \<open>Tokens_Admin\<close>, \<open>Login\<close> (the files
    of those names under \<open>app\<close> and \<open>app/api\<close>). Properties in \<open>Access_Properties\<close> and \<open>Credential_Properties\<close>.
  \<^item> Outbound network: \<open>Ip_Address\<close> and \<open>Url\<close> (the parts of the standard library the policy uses), \<open>Ssrf\<close>
    (\<open>ssrf.py\<close>, \<open>worker/netguard.py\<close>). Properties in \<open>Network_Properties\<close>.
  \<^item> Runs: \<open>Schemas\<close>, \<open>Serializers\<close>, \<open>Storage\<close>, \<open>Jobs\<close>, \<open>Event_Log\<close>, \<open>Job_Steps\<close> (the transactions of \<open>jobs.py\<close>
    as a step relation with its invariants), \<open>Stream_Api\<close>, \<open>Runs_Api\<close>, \<open>Run_Properties\<close>, \<open>Exports\<close>. Properties
    in \<open>Job_Properties\<close>, \<open>Submission_Properties\<close>, \<open>Data_Properties\<close>.
  \<^item> The worker: \<open>Selection\<close> (\<open>selection.py\<close>, \<open>test_catalog.py\<close>), \<open>Timestamps\<close> and \<open>Analysis\<close>
    (\<open>worker/analysis.py\<close>), \<open>Executor\<close> (\<open>worker/executor.py\<close>, \<open>worker/__main__.py\<close>), \<open>Worker_Properties\<close>; \<open>Pipeline\<close>
    composes worker and supervisor.
  \<^item> Workspace data: \<open>Profiles\<close>, \<open>Certs\<close>, \<open>Ca_Library\<close>.
  \<^item> Startup: \<open>Schema\<close> (the table models of \<open>orm.py\<close>, tables with rows and the statements on them), \<open>Schema_Upgrade\<close>
    (\<open>db.py\<close>), \<open>Migrations\<close> (the Alembic migration), \<open>Startup\<close> (\<open>main.py\<close>, \<open>api/health.py\<close>). Properties in
    \<open>Startup_Properties\<close>.
  \<^item> The engine's parts: \<open>Ocsp_Client\<close> (\<open>ocsp_client.py\<close>, \<open>models.py\<close>), \<open>Path_Validator\<close> (\<open>path_validator.py\<close>),
    \<open>Aia_Chain\<close> (issuers followed over their access locations), \<open>Text_Scan\<close>, \<open>Text_Replace\<close> and \<open>Regex\<close>
    (searching and replacing in texts; patterns and their matcher), \<open>Subprocess\<close> (outcomes of programs), \<open>Monitor_Text\<close>, \<open>Monitor_Openssl\<close> and \<open>Monitor_Probes\<close>
    (\<open>monitor.py\<close>: analyses of responses, openssl checks, probes), \<open>Monitor_Trust\<close> (trust in a response's signer),
    \<open>Monitor_Checks\<close> (period and URLs of a certificate), \<open>Monitor_Responses\<close> and \<open>Monitor_Conformance\<close> (stored
    responses, nonces, algorithms, serial numbers never issued), \<open>Monitor_Ocsp_Check\<close> (\<open>run_ocsp_check\<close>, which joins
    them and passes exactly for a good status in a valid interval, whatever became of the signature).
  \<^item> The suites: \<open>Suites\<close> (\<open>tests_status.py\<close>, \<open>tests_protocol.py\<close>, \<open>tests_ikev2.py\<close>), \<open>Suites_Responder\<close>
    (\<open>tests_performance.py\<close>, \<open>tests_crl.py\<close>), \<open>Crl_Suite\<close> (\<open>tests_crl_comprehensive.py\<close>), \<open>Federal_Suite\<close>
    (\<open>tests_federal.py\<close>), \<open>Security_Suite\<close> (\<open>tests_security.py\<close>), \<open>Path_Suite\<close> (\<open>tests_path_validation.py\<close>).
  \<^item> Their composition: \<open>Engine\<close> (\<open>executor.py\<close>: the engine a worker runs), \<open>Engine_Results\<close> (what its results look
    like, and which), \<open>Runner\<close> (\<open>runner.py\<close>, \<open>exporters.py\<close>, \<open>cli.py\<close>), \<open>Diagnostics\<close>
    (\<open>worker/diagnostics.py\<close>). Properties in \<open>Engine_Properties\<close> and \<open>Verdict_Properties\<close>.
  \<open>Sample\<close>, \<open>Sample_Runs\<close> and \<open>Sample_Engine\<close> are a small concrete deployment for the witnesses.

  \<^bold>\<open>Correspondence.\<close> A definition has the name of the function it models, without the leading underscore. A
  handler takes the database and returns the outcome with the database it leaves, so that what was
  committed before an exception stays; \<open>HTTPException\<close> and \<open>Uncaught\<close> are values. Rows are records with the
  columns of the ORM class, a table is a list of rows. JSON columns are JSON values. Time is an integer
  argument (seconds, in the engine microseconds). What the code takes from elsewhere is an argument:
  hash functions, signer, identity provider, DNS, HTTP, the X.509 library, openssl, clock and random
  values, collected in the environment records \<open>env\<close>, \<open>job_env\<close>, \<open>run_env\<close>, \<open>worker_env\<close>, \<open>suite_env\<close>,
  \<open>pv_env\<close>, \<open>aia_env\<close>, \<open>crl_env\<close>, \<open>monitor_env\<close>, \<open>trust_env\<close>,
  \<open>check_env\<close>, \<open>federal_env\<close>, \<open>path_env\<close>, \<open>file_env\<close>, \<open>engine_env\<close>. Laws about them are hypotheses of the theorems that need them,
  and the witnesses discharge them on concrete functions.

  \<^bold>\<open>What is shown.\<close> Authority: the workspace context never exceeds role, token ceiling or binding, and admins
  cannot be lost through the API. Credentials: life of tokens, cookies, passwords, OIDC states. Network:
  only permitted addresses are contacted, also under redirects and rebinding, within bounds. Runs: the log is
  numbered without gaps under every interleaving, the stream delivers it in order, the worker always ends
  with one final event, crashes of a category stay in it, submissions are atomic and capped. Data: round
  trips of configurations, exports, selections; uniqueness of names and fingerprints. Engine:
  a run's results are exactly the selected tests, end to end and from the command line, all of the type the
  enrichment reads; when a path, a responder's certificate, a response's times or a CRL entry are accepted. Startup: the
  schema upgrade keeps what older databases hold and is idempotent; the application starts closed.

  \<^bold>\<open>Bounds and fuel.\<close> No definition uses fuel. Loops are structural or have a measure: the redirect loop counts
  its hops, the discovery of issuers its depth (\<open>MAX_CHAIN_DEPTH\<close>), PEM and text scanners the text left. The
  live stream runs over a schedule of log states, one per poll. Machine integers do not occur: Python's
  integers are unbounded, and addresses are compared as numbers below \<open>2 ^ 128\<close>.

  \<^bold>\<open>Not modelled.\<close> The registration of routes and middleware with the framework, the
  TypeScript frontend, deployment files and the repository's own
  tests: assembly of libraries without logic of their own. Of the engine,
  in \<open>monitor.py\<close> the interactive CRL check \<open>run_crl_check\<close> with its report and the code that cannot run (the first
  definitions of \<open>parse_certificate_status_details\<close> and \<open>test_http_post_support\<close> and what only they call), and the settings file of \<open>config.py\<close>, which is unused. Inside modelled files: logging and debugging prints,
  process spawning and signals (their outcome is an input), threads of the log interceptor.
\<close>

end
